(* ===== verification/Prelude.thy ===== *)
theory Prelude imports Main "HOL-Library.Sublist" begin

text \<open>
  What every component theory shares: the error values of the modelled JavaScript, the
  outcome of a promise, the assembly of small list facts that the component proofs use, and the
  fact collections \<open>js_defs\<close> (definitions of the standard-library operations) and
  \<open>step_defs\<close> (definitions of handlers and step functions) that proofs unfold by name.

  Conventions. A JavaScript string is a \<^typ>\<open>string\<close>: one \<^typ>\<open>char\<close> per UTF-16
  code unit, restricted to the Latin-1 range. A JavaScript number that the program only uses as an
  integer is an \<^typ>\<open>int\<close>. A thrown exception or a rejected promise is an \<open>Inl\<close>
  value of \<open>js_error + 'a\<close>. React state is a record; a state setter, an event handler
  or an effect is a function from the state to the new state, together with the list of the
  effects (daemon calls, callbacks of the parent component) it performs, in order. Calls to
  \<open>console.log\<close> are not modelled.
\<close>

named_theorems js_defs "definitions of the modelled standard-library operations"
named_theorems step_defs "definitions of event handlers and step functions"

section \<open>Errors\<close>

datatype js_error =
    TypeError string
  | JsError string
  | GrpcError string

text \<open>Sequencing of computations that may throw: the first error wins.\<close>

definition bind_result :: "js_error + 'a \<Rightarrow> ('a \<Rightarrow> js_error + 'b) \<Rightarrow> js_error + 'b" where
  "bind_result r f = (case r of Inl e \<Rightarrow> Inl e | Inr x \<Rightarrow> f x)"

lemma bind_result_simps [simp]:
  "bind_result (Inl e) f = Inl e"
  "bind_result (Inr x) f = f x"
  by (simp_all add: bind_result_def)

lemma bind_result_eq_Inr:
  "bind_result r f = Inr y \<longleftrightarrow> (\<exists>x. r = Inr x \<and> f x = Inr y)"
  by (cases r) simp_all

section \<open>Lists\<close>

text \<open>
  \<open>Array.prototype.findIndex\<close>: the index of the first element that satisfies the
  predicate, or \<open>-1\<close>.
\<close>

fun js_findIndex :: "('a \<Rightarrow> bool) \<Rightarrow> 'a list \<Rightarrow> int" where
  "js_findIndex p [] = -1"
| "js_findIndex p (x # xs) =
     (if p x then 0 else (let i = js_findIndex p xs in if i < 0 then i else i + 1))"

lemma js_findIndex_ge: "-1 \<le> js_findIndex p xs"
  by (induction xs) (auto simp: Let_def)

lemma js_findIndex_lt: "js_findIndex p xs < int (length xs)"
  by (induction xs) (auto simp: Let_def)

lemma js_findIndex_none: "(\<forall>x \<in> set xs. \<not> p x) \<Longrightarrow> js_findIndex p xs = -1"
  by (induction xs) auto

lemma js_findIndex_nonneg: "0 \<le> js_findIndex p xs \<longleftrightarrow> (\<exists>x \<in> set xs. p x)"
  by (induction xs) (auto simp: Let_def)

lemma js_findIndex_found:
  "0 \<le> js_findIndex p xs \<Longrightarrow> p (xs ! nat (js_findIndex p xs))"
  by (induction xs) (auto simp: Let_def nat_add_distrib split: if_splits)

text \<open>With distinct keys the index found for the key of an element is that element's index.\<close>

lemma js_findIndex_distinct:
  assumes "distinct (map f xs)" and "i < length xs"
  shows "js_findIndex (\<lambda>x. f x = f (xs ! i)) xs = int i"
proof -
  let ?p = "\<lambda>x. f x = f (xs ! i)"
  let ?j = "js_findIndex ?p xs"
  have ge: "0 \<le> ?j"
    using assms(2) by (auto simp: js_findIndex_nonneg)
  have lt: "nat ?j < length xs"
    using ge js_findIndex_lt [of ?p xs] by linarith
  have "f (xs ! nat ?j) = f (xs ! i)"
    using js_findIndex_found [OF ge] .
  then have "nat ?j = i"
    using nth_eq_iff_index_eq [OF assms(1), of "nat ?j" i] assms(2) lt by simp
  with ge show ?thesis by linarith
qed

text \<open>
  \<open>a % b\<close> of JavaScript for \<open>b > 0\<close>: the remainder has the sign of the dividend.
\<close>

definition js_rem :: "int \<Rightarrow> int \<Rightarrow> int" where
  "js_rem a b = (if a < 0 then - ((- a) mod b) else a mod b)"

lemma js_rem_nonneg [simp]: "0 \<le> a \<Longrightarrow> js_rem a b = a mod b"
  by (simp add: js_rem_def)

lemma js_rem_one [simp]: "js_rem a 1 = 0"
  by (simp add: js_rem_def)

text \<open>
  \<open>Array.prototype.sort\<close> with a comparator, as a stable insertion sort. Since ES2019 the
  sort is stable, so for a consistent comparator the result is unique and any stable sort
  computes it.
\<close>

fun js_insert :: "('a \<Rightarrow> 'a \<Rightarrow> int) \<Rightarrow> 'a \<Rightarrow> 'a list \<Rightarrow> 'a list" where
  "js_insert cmp x [] = [x]"
| "js_insert cmp x (y # ys) = (if cmp x y \<le> 0 then x # y # ys else y # js_insert cmp x ys)"

definition js_sort :: "('a \<Rightarrow> 'a \<Rightarrow> int) \<Rightarrow> 'a list \<Rightarrow> 'a list" where
  "js_sort cmp xs = foldr (js_insert cmp) xs []"

lemma set_js_insert [simp]: "set (js_insert cmp x xs) = insert x (set xs)"
  by (induction xs) auto

lemma length_js_insert [simp]: "length (js_insert cmp x xs) = Suc (length xs)"
  by (induction xs) auto

lemma js_sort_Nil [simp]: "js_sort cmp [] = []"
  by (simp add: js_sort_def)

lemma js_sort_Cons [simp]: "js_sort cmp (x # xs) = js_insert cmp x (js_sort cmp xs)"
  by (simp add: js_sort_def)

lemma set_js_sort [simp]: "set (js_sort cmp xs) = set xs"
  by (induction xs) auto

lemma length_js_sort [simp]: "length (js_sort cmp xs) = length xs"
  by (induction xs) auto

text \<open>A comparator that never answers a positive number leaves the array as it is.\<close>

lemma js_sort_no_swap:
  "(\<forall>x \<in> set xs. \<forall>y \<in> set xs. cmp x y \<le> 0) \<Longrightarrow> js_sort cmp xs = xs"
proof (induction xs)
  case (Cons x xs)
  then have "js_sort cmp xs = xs" by simp
  with Cons.prems show ?case by (cases xs) auto
qed simp

lemma filter_id_neq:
  "distinct (map f (xs @ [x])) \<Longrightarrow> filter (\<lambda>y. f y \<noteq> f x) (xs @ [x]) = xs"
  by (induction xs) auto

lemma inj_on_map_filter_distinct:
  "distinct (map f xs) \<Longrightarrow> distinct (map f (filter p xs))"
  by (induction xs) auto

end
