(* ===== verification/JsString.thy ===== *)
theory JsString imports Prelude begin

text \<open>
  The operations of \<open>String.prototype\<close> that the program uses, on strings of Latin-1 code
  units: \<open>substring\<close>, \<open>slice\<close>, \<open>split\<close>, \<open>join\<close>, \<open>trim\<close>,
  \<open>toLowerCase\<close>, \<open>startsWith\<close>, the comparison behind the default \<open>sort\<close>, and
  decimal and hexadecimal printing, each with the facts the components use: bounds, round trips of
  \<open>split\<close> and \<open>join\<close>, idempotence. The last section holds the program's own string
  helpers of \<open>renderer/utils.ts\<close>.
\<close>

section \<open>Pieces of a string\<close>

text \<open>\<open>s.substring(i, j)\<close>: both indices clamped to the string and swapped if out of order.\<close>

definition js_substring :: "string \<Rightarrow> int \<Rightarrow> int \<Rightarrow> string" where
  "js_substring s i j =
     (let n = int (length s);
          a = min (max i 0) n;
          b = min (max j 0) n
      in take (nat (max a b - min a b)) (drop (nat (min a b)) s))"

text \<open>
  \<open>s.substr(i, n)\<close>: \<open>n\<close> units from \<open>i\<close>, a negative \<open>i\<close> counts from the
  end.
\<close>

definition js_substr :: "string \<Rightarrow> int \<Rightarrow> int \<Rightarrow> string" where
  "js_substr s i n =
     (let l = int (length s);
          a = (if i < 0 then max (l + i) 0 else min i l);
          b = min (a + max n 0) l
      in take (nat (b - a)) (drop (nat a) s))"

text \<open>\<open>slice\<close> of a string or an array: negative indices count from the end.\<close>

definition js_slice :: "'a list \<Rightarrow> int \<Rightarrow> int \<Rightarrow> 'a list" where
  "js_slice s i j =
     (let n = int (length s);
          a = (if i < 0 then max (n + i) 0 else min i n);
          b = (if j < 0 then max (n + j) 0 else min j n)
      in take (nat (b - a)) (drop (nat a) s))"

lemma js_substring_prefix: "js_substring s 0 k = take (nat k) s"
  by (cases "0 \<le> k") (auto simp: js_substring_def Let_def min_def max_def)

lemma js_substr_prefix: "js_substr s 0 k = take (nat k) s"
  by (auto simp: js_substr_def Let_def min_def max_def)

lemma js_slice_butlast: "js_slice xs 0 (-1) = butlast xs"
  by (auto simp: js_slice_def Let_def butlast_conv_take max_def nat_diff_distrib)

lemma js_slice_last: "js_slice xs (-1) (int (length xs)) = (if xs = [] then [] else [last xs])"
proof (cases xs rule: rev_cases)
  case (snoc ys y)
  then show ?thesis by (simp add: js_slice_def Let_def)
qed (simp add: js_slice_def)

definition js_startsWith :: "string \<Rightarrow> string \<Rightarrow> bool" where
  "js_startsWith s p \<longleftrightarrow> take (length p) s = p"

lemma js_startsWith_append [simp]: "js_startsWith (p @ s) p"
  by (simp add: js_startsWith_def)

section \<open>Joining and splitting\<close>

fun js_join :: "string \<Rightarrow> string list \<Rightarrow> string" where
  "js_join sep [] = []"
| "js_join sep [x] = x"
| "js_join sep (x # y # ys) = x @ sep @ js_join sep (y # ys)"

lemma js_join_Cons:
  "js_join sep (x # xs) = (if xs = [] then x else x @ sep @ js_join sep xs)"
  by (cases xs) simp_all

lemma js_join_empty_sep: "js_join [] xs = concat xs"
  by (induction xs) (simp_all add: js_join_Cons)

lemma js_join_map_Cons:
  "js_join sep (x # map g rs) = x @ js_join [] (map (\<lambda>r. sep @ g r) rs)"
  by (induction rs arbitrary: x) (simp_all add: js_join_empty_sep)

text \<open>
  \<open>s.split(sep)\<close> for a non-empty separator: scan from the left, \<open>acc\<close> holding the
  current piece in reverse; after an occurrence of the separator scanning resumes behind it.
\<close>

function js_split_from :: "string \<Rightarrow> string \<Rightarrow> string \<Rightarrow> string list" where
  "js_split_from sep acc s =
     (if sep \<noteq> [] \<and> s \<noteq> [] \<and> js_startsWith s sep
      then rev acc # js_split_from sep [] (drop (length sep) s)
      else case s of [] \<Rightarrow> [rev acc] | c # cs \<Rightarrow> js_split_from sep (c # acc) cs)"
  by pat_completeness auto
termination
  by (relation "measure (\<lambda>(sep, acc, s). length s)") auto

declare js_split_from.simps [simp del]

definition js_split :: "string \<Rightarrow> string \<Rightarrow> string list" where
  "js_split s sep = (if sep = [] then map (\<lambda>c. [c]) s else js_split_from sep [] s)"

lemma js_split_from_nonempty: "js_split_from sep acc s \<noteq> []"
proof (induction sep acc s rule: js_split_from.induct)
  case (1 sep acc s)
  then show ?case
    by (subst js_split_from.simps) (auto split: list.splits)
qed

lemma js_split_nonempty: "sep \<noteq> [] \<Longrightarrow> js_split s sep \<noteq> []"
  by (simp add: js_split_def js_split_from_nonempty)

text \<open>Joining the pieces gives the string back.\<close>

lemma js_join_split_from: "js_join sep (js_split_from sep acc s) = rev acc @ s"
proof (induction sep acc s rule: js_split_from.induct)
  case (1 sep acc s)
  show ?case
  proof (cases "sep \<noteq> [] \<and> s \<noteq> [] \<and> js_startsWith s sep")
    case True
    then have "sep @ drop (length sep) s = s"
      by (metis js_startsWith_def append_take_drop_id)
    with True "1.IH"(1) show ?thesis
      by (subst js_split_from.simps) (simp add: js_join_Cons js_split_from_nonempty)
  next
    case False
    with "1.IH"(2) show ?thesis
      by (subst js_split_from.simps) (auto split: list.splits)
  qed
qed

lemma js_join_split: "sep \<noteq> [] \<Longrightarrow> js_join sep (js_split s sep) = s"
  by (simp add: js_split_def js_join_split_from)

text \<open>
  Splitting what was joined gives the pieces back, when no piece holds the separator's first
  code unit.
\<close>

lemma js_split_from_piece:
  assumes "sep = d # ds" and "d \<notin> set x"
  shows "js_split_from sep acc (x @ s) = js_split_from sep (rev x @ acc) s"
  using assms(2)
proof (induction x arbitrary: acc)
  case (Cons c x)
  have "\<not> js_startsWith (c # x @ s) sep"
    using assms(1) Cons.prems by (auto simp: js_startsWith_def)
  then have "js_split_from sep acc ((c # x) @ s) = js_split_from sep (c # acc) (x @ s)"
    by (subst js_split_from.simps) simp
  with Cons show ?case by simp
qed simp

lemma js_split_from_sep:
  "sep \<noteq> [] \<Longrightarrow> js_split_from sep acc (sep @ s) = rev acc # js_split_from sep [] s"
  by (subst js_split_from.simps) simp

lemma js_split_from_end: "js_split_from sep acc [] = [rev acc]"
  by (subst js_split_from.simps) simp

lemma js_split_join:
  assumes "sep = d # ds" and "xs \<noteq> []" and "\<forall>x \<in> set xs. d \<notin> set x"
  shows "js_split (js_join sep xs) sep = xs"
proof -
  have "js_split_from sep [] (js_join sep xs) = xs"
    using assms(2,3)
  proof (induction xs)
    case (Cons x xs)
    show ?case
    proof (cases xs)
      case Nil
      with Cons.prems js_split_from_piece [OF assms(1), of x "[]" "[]"] show ?thesis
        by (simp add: js_split_from_end)
    next
      case (Cons y ys)
      have d: "d \<notin> set x"
        using Cons.prems by simp
      have ne: "sep \<noteq> []"
        using assms(1) by simp
      have "js_split_from sep [] (js_join sep (x # xs))
          = js_split_from sep (rev x) (sep @ js_join sep xs)"
        using js_split_from_piece [OF assms(1) d, of "[]" "sep @ js_join sep xs"] Cons
        by simp
      also have "\<dots> = x # js_split_from sep [] (js_join sep xs)"
        by (simp add: js_split_from_sep [OF ne])
      also have "js_split_from sep [] (js_join sep xs) = xs"
        using Cons.IH Cons.prems Cons by simp
      finally show ?thesis .
    qed
  qed simp
  with assms(1) show ?thesis by (simp add: js_split_def)
qed

section \<open>Code units, case and white space\<close>

text \<open>
  \<open>toLowerCase\<close> on the Latin-1 range: \<open>A\<close> to \<open>Z\<close> and the accented capitals
  \<open>0xC0\<close> to \<open>0xDE\<close> without the multiplication sign \<open>0xD7\<close> move by 32.
\<close>

definition js_lower_char :: "char \<Rightarrow> char" where
  "js_lower_char c =
     (let n = of_char c :: nat
      in if 65 \<le> n \<and> n \<le> 90 \<or> 192 \<le> n \<and> n \<le> 222 \<and> n \<noteq> 215 then char_of (n + 32) else c)"

definition js_toLowerCase :: "string \<Rightarrow> string" where
  "js_toLowerCase s = map js_lower_char s"

lemma js_lower_char_idem [simp]: "js_lower_char (js_lower_char c) = js_lower_char c"
  by (simp add: js_lower_char_def Let_def)

lemma js_toLowerCase_idem [simp]: "js_toLowerCase (js_toLowerCase s) = js_toLowerCase s"
  by (simp add: js_toLowerCase_def)

lemma js_toLowerCase_simps [simp]:
  "js_toLowerCase [] = []"
  "js_toLowerCase (c # s) = js_lower_char c # js_toLowerCase s"
  "js_toLowerCase (s @ t) = js_toLowerCase s @ js_toLowerCase t"
  "length (js_toLowerCase s) = length s"
  by (simp_all add: js_toLowerCase_def)

text \<open>
  The Latin-1 code units that \<open>\s\<close> matches and \<open>trim\<close> removes: tab, line feed,
  vertical tab, form feed, carriage return, space and no-break space.
\<close>

definition js_is_space :: "char \<Rightarrow> bool" where
  "js_is_space c \<longleftrightarrow> (of_char c :: nat) \<in> {9, 10, 11, 12, 13, 32, 160}"

definition js_trim :: "string \<Rightarrow> string" where
  "js_trim s = rev (dropWhile js_is_space (rev (dropWhile js_is_space s)))"

definition js_strip_spaces :: "string \<Rightarrow> string" where
  "js_strip_spaces s = filter (\<lambda>c. \<not> js_is_space c) s"

lemma js_strip_spaces_none: "\<forall>c \<in> set s. \<not> js_is_space c \<Longrightarrow> js_strip_spaces s = s"
  by (simp add: js_strip_spaces_def)

lemma js_strip_spaces_idem [simp]: "js_strip_spaces (js_strip_spaces s) = js_strip_spaces s"
  by (simp add: js_strip_spaces_def)

definition js_newline :: string where
  "js_newline = [CHR 0x0A]"

section \<open>Comparison\<close>

text \<open>\<open><\<close> on strings: lexicographic in the code units. The default \<open>sort\<close> uses it.\<close>

fun js_str_less :: "string \<Rightarrow> string \<Rightarrow> bool" where
  "js_str_less [] t = (t \<noteq> [])"
| "js_str_less (c # cs) [] = False"
| "js_str_less (c # cs) (d # ds) =
     ((of_char c :: nat) < of_char d \<or> c = d \<and> js_str_less cs ds)"

definition js_str_compare :: "string \<Rightarrow> string \<Rightarrow> int" where
  "js_str_compare s t = (if js_str_less s t then -1 else if js_str_less t s then 1 else 0)"

lemma js_str_less_irrefl [simp]: "\<not> js_str_less s s"
  by (induction s) auto

lemma of_char_nat_eq_iff [simp]: "(of_char c :: nat) = of_char d \<longleftrightarrow> c = d"
  by (metis char_of_char)

lemma js_str_less_Nil [simp]: "\<not> js_str_less s []"
  by (cases s) auto

lemma js_str_less_asym: "js_str_less s t \<Longrightarrow> \<not> js_str_less t s"
  by (induction s t rule: js_str_less.induct) auto

lemma js_str_less_total: "js_str_less s t \<or> s = t \<or> js_str_less t s"
proof (induction s t rule: js_str_less.induct)
  case (1 t)
  then show ?case by (cases t) auto
next
  case (3 c cs d ds)
  then show ?case
    by (cases "(of_char c :: nat)" "of_char d :: nat" rule: linorder_cases) auto
qed auto

text \<open>Sorting two strings does not depend on their order.\<close>

lemma js_sort_pair_commute: "js_sort js_str_compare [s, t] = js_sort js_str_compare [t, s]"
  using js_str_less_total [of s t] js_str_less_asym [of s t] js_str_less_asym [of t s]
  by (auto simp: js_str_compare_def)

section \<open>Numbers as strings\<close>

definition js_digit :: "nat \<Rightarrow> char" where
  "js_digit d = (if d < 10 then char_of (48 + d) else char_of (87 + d))"

definition js_digit_value :: "char \<Rightarrow> nat" where
  "js_digit_value c = (let n = of_char c in if n < 58 then n - 48 else n - 87)"

lemma js_digit_value_digit [simp]: "d < 36 \<Longrightarrow> js_digit_value (js_digit d) = d"
  by (simp add: js_digit_value_def js_digit_def)

fun js_nat_str :: "nat \<Rightarrow> string" where
  "js_nat_str n = (if n < 10 then [js_digit n] else js_nat_str (n div 10) @ [js_digit (n mod 10)])"

declare js_nat_str.simps [simp del]

definition js_int_str :: "int \<Rightarrow> string" where
  "js_int_str i = (if i < 0 then ''-'' @ js_nat_str (nat (- i)) else js_nat_str (nat i))"

definition js_nat_value :: "string \<Rightarrow> nat" where
  "js_nat_value s = foldl (\<lambda>v c. 10 * v + js_digit_value c) 0 s"

lemma js_nat_value_str: "js_nat_value (js_nat_str n) = n"
proof (induction n rule: js_nat_str.induct)
  case (1 n)
  then show ?case
    by (subst js_nat_str.simps) (auto simp: js_nat_value_def)
qed

lemma js_nat_str_inject: "js_nat_str m = js_nat_str n \<longleftrightarrow> m = n"
  by (metis js_nat_value_str)

lemma hd_js_nat_str: "\<exists>d < 10. hd (js_nat_str n) = js_digit d \<and> js_nat_str n \<noteq> []"
proof (induction n rule: js_nat_str.induct)
  case (1 n)
  then show ?case
    by (subst (1 2) js_nat_str.simps) (auto simp: hd_append)
qed

lemma js_nat_str_not_minus: "js_nat_str n \<noteq> CHR ''-'' # s"
proof
  assume eq: "js_nat_str n = CHR ''-'' # s"
  obtain d where d: "d < 10" "hd (js_nat_str n) = js_digit d"
    using hd_js_nat_str by blast
  then have "js_digit d = CHR ''-''"
    using eq by simp
  then have "of_char (js_digit d) = (45 :: nat)"
    by simp
  with d(1) show False by (simp add: js_digit_def)
qed

text \<open>Different numbers print differently, so identifiers built from them do not clash.\<close>

lemma js_int_str_inject: "js_int_str i = js_int_str j \<longleftrightarrow> i = j"
  by (auto simp: js_int_str_def js_nat_str_inject js_nat_str_not_minus
      js_nat_str_not_minus [symmetric] split: if_splits)

text \<open>\<open>b.toString(16).padStart(2, "0")\<close> of a byte.\<close>

definition js_hex_byte :: "nat \<Rightarrow> string" where
  "js_hex_byte b =
     (let s = (if b < 16 then [js_digit b] else [js_digit (b div 16), js_digit (b mod 16)])
      in replicate (2 - length s) (CHR ''0'') @ s)"

lemma js_hex_byte_digits: "js_hex_byte b = [js_digit (b div 16), js_digit (b mod 16)]"
proof -
  have "js_digit 0 = char_of (of_char (CHR ''0'') :: nat)"
    by (simp add: js_digit_def)
  then have "CHR ''0'' = js_digit 0"
    by (simp only: char_of_char)
  then show ?thesis
    by (auto simp: js_hex_byte_def)
qed

end
