(* ===== verification/Schema.thy ===== *)
theory Schema imports JsString begin

text \<open>
  The data that crosses the boundary to the daemon: the \<open>AsObject\<close> shapes of
  \<open>daemon/schema/daemon_pb.d.ts\<close> that the interface uses, each as a record whose field names
  carry a short prefix, and the date conversions of \<open>types.ts\<close>. Protobuf's \<open>toObject\<close>
  fills an absent scalar with its default (the empty string, 0, false) and leaves an absent
  message \<open>undefined\<close>, so scalars are plain fields and nested messages are options. A request
  with no fields is the type \<open>unit\<close>.
\<close>

section \<open>Time stamps and dates\<close>

record timestamp =
  seconds :: int
  nanos :: int

text \<open>A \<open>Date\<close> is its time value: milliseconds since the epoch.\<close>

type_synonym js_date = int

text \<open>
  \<open>new Date(date.seconds * 1e3 + date.nanos / 1e6)\<close>: the constructor truncates a fractional
  number of milliseconds towards zero.
\<close>

definition protobufDateToDate :: "timestamp \<Rightarrow> js_date" where
  "protobufDateToDate d =
     (let total = seconds d * 1000000000 + nanos d
      in if total < 0 then - ((- total) div 1000000) else total div 1000000)"

definition dateToProtobufDate :: "js_date \<Rightarrow> timestamp" where
  "dateToProtobufDate t = \<lparr>seconds = t div 1000, nanos = js_rem t 1000 * 1000000\<rparr>"

lemma dateToProtobufDate_nonneg:
  "0 \<le> t \<Longrightarrow> dateToProtobufDate t = \<lparr>seconds = t div 1000, nanos = (t mod 1000) * 1000000\<rparr>"
  by (simp add: dateToProtobufDate_def)

lemma protobufDateToDate_millis:
  "protobufDateToDate \<lparr>seconds = s, nanos = m * 1000000\<rparr> = s * 1000 + m"
proof -
  have eq: "s * 1000000000 + m * 1000000 = (s * 1000 + m) * (1000000 :: int)"
    by simp
  show ?thesis
  proof (cases "s * 1000 + m < 0")
    case True
    then have "(s * 1000 + m) * 1000000 < (0 :: int)"
      by (simp add: mult_less_0_iff)
    moreover have "(- ((s * 1000 + m) * 1000000)) div 1000000 = - (s * 1000 + m :: int)"
      by (metis minus_mult_left nonzero_mult_div_cancel_right zero_neq_numeral)
    ultimately show ?thesis
      by (simp only: protobufDateToDate_def Let_def timestamp.simps eq) simp
  next
    case False
    then show ?thesis
      by (simp only: protobufDateToDate_def Let_def timestamp.simps eq) (simp add: mult_less_0_iff)
  qed
qed

section \<open>Registration, status and identity\<close>

record registerUserRequest =
  ru_name :: string
  ru_betaKey :: string

record getStatusResponse =
  gs_registered :: bool
  gs_releaseHash :: string
  gs_latencySeconds :: int
  gs_serverAddress :: string

record getMyPublicIDResponse =
  mp_publicId :: string
  mp_story :: string

record isValidPublicIDRequest =
  iv_publicId :: string

record isValidPublicIDResponse =
  iv_valid :: bool

section \<open>Friends and invitations\<close>

datatype invitationProgress = OUTGOINGASYNC | OUTGOINGSYNC | COMPLETE

record friend =
  fr_uniqueName :: string
  fr_displayName :: string
  fr_publicId :: string
  fr_invitationProgress :: invitationProgress

record removeFriendRequest =
  rf_uniqueName :: string

record addSyncFriendRequest =
  as_uniqueName :: string
  as_displayName :: string
  as_story :: string

record addAsyncFriendRequest =
  aa_uniqueName :: string
  aa_displayName :: string
  aa_publicId :: string
  aa_message :: string

record outgoingSyncInvitation =
  os_uniqueName :: string
  os_displayName :: string
  os_story :: string
  os_sentAt :: "timestamp option"

record outgoingAsyncInvitation =
  oa_uniqueName :: string
  oa_displayName :: string
  oa_publicId :: string
  oa_message :: string
  oa_sentAt :: "timestamp option"

record incomingAsyncInvitation =
  ia_publicId :: string
  ia_message :: string
  ia_receivedAt :: "timestamp option"

record acceptAsyncInvitationRequest =
  ac_publicId :: string
  ac_uniqueName :: string
  ac_displayName :: string

record rejectAsyncInvitationRequest =
  rj_publicId :: string

record cancelAsyncInvitationRequest =
  ca_publicId :: string

section \<open>Messages\<close>

record sendMessageRequest =
  sm_uniqueNameList :: "string list"
  sm_message :: string

record incomingMaybeFriend =
  mf_publicId :: string
  mf_uniqueName :: string
  mf_displayName :: string

record incomingMessage =
  im_uid :: int
  im_message :: string
  im_fromUniqueName :: string
  im_fromDisplayName :: string
  im_otherRecipientsList :: "incomingMaybeFriend list"
  im_deliveredAt :: "timestamp option"
  im_seen :: bool
  im_delivered :: bool

record outgoingFriend =
  of_uniqueName :: string
  of_displayName :: string
  of_delivered :: bool
  of_deliveredAt :: "timestamp option"

record outgoingMessage =
  om_uid :: int
  om_message :: string
  om_toFriendsList :: "outgoingFriend list"
  om_sentAt :: "timestamp option"

text \<open>\<open>GetMessagesRequest.Filter\<close>.\<close>

datatype messageFilter = FilterALL | FilterNEW

record getMessagesRequest =
  gm_filter :: messageFilter

record messageSeenRequest =
  ms_id :: int

section \<open>Properties\<close>

text \<open>
  C33. Converting a date to a protobuf time stamp and back gives the date itself for every date
  from 1970 on, and for earlier dates on a whole second; every other earlier date comes back one
  second too early, because \<open>Math.floor\<close> rounds the seconds down while \<open>%\<close> keeps the
  sign of the dividend.
\<close>

theorem date_protobuf_roundtrip:
  "protobufDateToDate (dateToProtobufDate t)
   = (if t < 0 \<and> t mod 1000 \<noteq> 0 then t - 1000 else t)"
proof (cases "t < 0")
  case True
  have rem: "js_rem t 1000 = (if t mod 1000 = 0 then 0 else t mod 1000 - 1000)"
    using True by (simp add: js_rem_def zmod_zminus1_eq_if)
  have div: "t div 1000 * 1000 = t - t mod 1000"
    by (simp add: minus_mod_eq_div_mult)
  show ?thesis
    unfolding dateToProtobufDate_def protobufDateToDate_millis rem div using True by simp
next
  case False
  then show ?thesis
    by (simp add: dateToProtobufDate_nonneg protobufDateToDate_millis)
qed

end
