(* ===== verification/Utils.thy ===== *)
theory Utils imports Complex_Main Schema begin

text \<open>
  The pure helpers of \<open>renderer/utils.ts\<close> and of
  \<open>components/AddFriend/utils.ts\<close>: truncation of previews, random tab suffixes, class-name
  lists, unique names derived from display names, hexadecimal digests and bounded pseudo-random
  integers. A pseudo-random source is a function that gives the value of the \<open>k\<close>-th draw, a
  rational in the half-open unit interval; \<open>unit_source\<close> states that documented range of
  \<open>Math.random\<close> and of a \<open>seedrandom\<close> generator.
\<close>

section \<open>renderer/utils.ts\<close>

definition truncate :: "string \<Rightarrow> int \<Rightarrow> string" where
  "truncate str maxLength =
     (if int (length str) \<le> maxLength then str
      else js_substr str 0 (maxLength - 3) @ ''...'')"

definition classNames :: "string list \<Rightarrow> string" where
  "classNames classes = js_join '' '' (filter (\<lambda>c. c \<noteq> []) classes)"

type_synonym rng = "nat \<Rightarrow> rat"

definition unit_source :: "rng \<Rightarrow> bool" where
  "unit_source rnd \<longleftrightarrow> (\<forall>k. 0 \<le> rnd k \<and> rnd k < 1)"

definition random_alphabet :: string where
  "random_alphabet = ''abcdefghijklmnopqrstuvwxyzABCDEFGHIJKLMNOPQRSTUVWXYZ0123456789''"

text \<open>
  \<open>s.charAt(i)\<close> is the empty string out of range, so the loop of \<open>randomString\<close> grows
  its string by at most one unit per draw and would not end on a source that left the range.
\<close>

definition js_charAt :: "string \<Rightarrow> int \<Rightarrow> string" where
  "js_charAt s i = (if 0 \<le> i \<and> i < int (length s) then [s ! nat i] else [])"

partial_function (option) randomString_loop :: "rng \<Rightarrow> nat \<Rightarrow> nat \<Rightarrow> string \<Rightarrow> string option" where
  "randomString_loop rnd len k s =
     (if length s < len
      then randomString_loop rnd len (Suc k) (s @ js_charAt random_alphabet \<lfloor>rnd k * 62\<rfloor>)
      else Some s)"

definition randomString :: "rng \<Rightarrow> nat \<Rightarrow> string option" where
  "randomString rnd len = randomString_loop rnd len 0 []"

section \<open>AddFriend/utils.ts\<close>

text \<open>Lower case, and every space becomes a dash.\<close>

definition generateUniqueNameFromDisplayName :: "string \<Rightarrow> string" where
  "generateUniqueNameFromDisplayName displayName =
     map (\<lambda>c. if c = CHR '' '' then CHR ''-'' else c) (js_toLowerCase displayName)"

text \<open>
  \<open>sha256string\<close> prints the digest, a list of bytes that the browser computes, in
  hexadecimal.
\<close>

definition sha256string :: "(string \<Rightarrow> nat list) \<Rightarrow> string \<Rightarrow> string" where
  "sha256string sha256 s = js_join [] (map js_hex_byte (sha256 s))"

definition randint :: "rat \<Rightarrow> int \<Rightarrow> int \<Rightarrow> int" where
  "randint x lo hi = \<lfloor>x * of_int (hi - lo + 1)\<rfloor> + lo"

section \<open>Lemmas\<close>

lemma truncate_short: "int (length str) \<le> n \<Longrightarrow> truncate str n = str"
  by (simp add: truncate_def)

lemma truncate_long:
  "n < int (length str) \<Longrightarrow> truncate str n = take (nat (n - 3)) str @ ''...''"
  by (simp add: truncate_def js_substr_prefix)

lemma truncate_length: "3 \<le> n \<Longrightarrow> int (length (truncate str n)) \<le> n"
  by (cases "int (length str) \<le> n") (auto simp: truncate_short truncate_long min_def)

lemma classNames_Nil [simp]: "classNames [a, []] = a"
  by (simp add: classNames_def)

lemma floor_unit_bounds:
  assumes "0 \<le> x" and "x < (1 :: rat)" and "0 < n"
  shows "0 \<le> \<lfloor>x * of_int n\<rfloor>" and "\<lfloor>x * of_int n\<rfloor> < n"
proof -
  show "0 \<le> \<lfloor>x * of_int n\<rfloor>"
    using assms by simp
  have "x * of_int n < of_int n"
    using assms by simp
  then show "\<lfloor>x * of_int n\<rfloor> < n"
    by (simp add: floor_less_iff)
qed

lemma randint_bounds:
  assumes "0 \<le> x" and "x < 1" and "lo \<le> hi"
  shows "lo \<le> randint x lo hi \<and> randint x lo hi \<le> hi"
  using floor_unit_bounds [of x "hi - lo + 1"] assms by (simp add: randint_def)

lemma js_charAt_random:
  assumes "unit_source rnd"
  shows "\<exists>c \<in> set random_alphabet. js_charAt random_alphabet \<lfloor>rnd k * 62\<rfloor> = [c]"
proof -
  let ?i = "\<lfloor>rnd k * 62\<rfloor>"
  have len: "length random_alphabet = 62"
    by (simp add: random_alphabet_def)
  have lo: "0 \<le> ?i" and hi: "?i < 62"
    using floor_unit_bounds [of "rnd k" 62] assms by (simp_all add: unit_source_def)
  then have "nat ?i < length random_alphabet"
    unfolding len by linarith
  then have "random_alphabet ! nat ?i \<in> set random_alphabet"
    by (rule nth_mem)
  moreover have "js_charAt random_alphabet ?i = [random_alphabet ! nat ?i]"
    using lo hi len by (simp only: js_charAt_def) simp
  ultimately show ?thesis by blast
qed

lemma randomString_loop_total:
  assumes "unit_source rnd"
  shows "set s \<subseteq> set random_alphabet \<Longrightarrow> length s \<le> len \<Longrightarrow>
    \<exists>r. randomString_loop rnd len k s = Some r \<and> length r = len \<and> set r \<subseteq> set random_alphabet"
proof (induction "len - length s" arbitrary: s k)
  case 0
  then show ?case by (subst randomString_loop.simps) simp
next
  case (Suc n)
  obtain c where c: "c \<in> set random_alphabet"
      "js_charAt random_alphabet \<lfloor>rnd k * 62\<rfloor> = [c]"
    using js_charAt_random [OF assms] by blast
  have "\<exists>r. randomString_loop rnd len (Suc k) (s @ [c]) = Some r \<and> length r = len
      \<and> set r \<subseteq> set random_alphabet"
    by (rule Suc.hyps(1)) (use Suc.hyps(2) Suc.prems c(1) in auto)
  moreover have "length s < len"
    using Suc.hyps(2) by simp
  ultimately show ?case
    using c(2) by (subst randomString_loop.simps) simp
qed

lemma generateUniqueName_no_space:
  "CHR '' '' \<notin> set (generateUniqueNameFromDisplayName s)"
  by (auto simp: generateUniqueNameFromDisplayName_def)

lemma generateUniqueName_Nil [simp]: "generateUniqueNameFromDisplayName [] = []"
  by (simp add: generateUniqueNameFromDisplayName_def)

lemma concat_hex_inject:
  assumes "\<forall>b \<in> set bs. b < 256" and "\<forall>b \<in> set cs. b < 256"
  shows "concat (map js_hex_byte bs) = concat (map js_hex_byte cs) \<Longrightarrow> bs = cs"
  using assms
proof (induction bs arbitrary: cs)
  case Nil
  then show ?case by (cases cs) (simp_all add: js_hex_byte_digits)
next
  case (Cons b bs)
  then obtain c ds where cs: "cs = c # ds"
    by (cases cs) (simp_all add: js_hex_byte_digits)
  have small: "x div 16 < 36 \<and> x mod 16 < 36" if "x < 256" for x :: nat
    using that by auto
  have digits: "js_digit (b div 16) = js_digit (c div 16)" "js_digit (b mod 16) = js_digit (c mod 16)"
    using Cons.prems(1) cs by (simp_all add: js_hex_byte_digits)
  have "b div 16 = c div 16" "b mod 16 = c mod 16"
    using digits small [of b] small [of c] Cons.prems cs
    by (metis js_digit_value_digit list.set_intros(1))+
  then have "b = c"
    by (metis mult_div_mod_eq)
  moreover have "bs = ds"
    using Cons cs by (simp add: js_hex_byte_digits)
  ultimately show ?case using cs by simp
qed

section \<open>Properties\<close>

text \<open>
  For a limit of at least three the preview of a text never exceeds the limit, it is the text
  itself when that fits, and otherwise a proper prefix of it followed by three dots.
\<close>

theorem truncate_spec:
  assumes "3 \<le> n"
  shows "int (length (truncate str n)) \<le> n \<and>
    truncate str n = (if int (length str) \<le> n then str else take (nat (n - 3)) str @ ''...'')"
  using truncate_length [OF assms] by (simp add: truncate_short truncate_long)

theorem truncate_spec_witness:
  "(3::int) \<le> 10 \<and> int (length (truncate ''Hello there, Bob'' 10)) \<le> 10"
  using truncate_spec [of 10 "''Hello there, Bob''"] by simp

end
