(* ===== verification/Paths.thy ===== *)
theory Paths imports Utils begin

text \<open>
  Where the client finds its files: \<open>path.join\<close> of Node on POSIX, the configuration and socket
  paths of \<open>main/daemon.ts\<close>, and the constants of \<open>main/constants.ts\<close> (the commit of the
  release, the launch agent and the systemd unit that start the daemon). The environment is a map
  from variable names to strings.
\<close>

section \<open>path.join\<close>

text \<open>
  Normalisation walks over the segments between slashes: empty ones and \<open>.\<close> vanish, \<open>..\<close>
  removes the segment before it, or stays when there is none and the path is relative. \<open>acc\<close>
  holds the segments kept so far, the last one first.
\<close>

fun norm_segments :: "bool \<Rightarrow> string list \<Rightarrow> string list \<Rightarrow> string list" where
  "norm_segments up acc [] = rev acc"
| "norm_segments up acc (s # ss) =
     (if s = [] \<or> s = ''.'' then norm_segments up acc ss
      else if s = ''..'' then
        (case acc of
           a # acc' \<Rightarrow> if a \<noteq> ''..'' then norm_segments up acc' ss
                       else norm_segments up (if up then s # acc else acc) ss
         | [] \<Rightarrow> norm_segments up (if up then [s] else []) ss)
      else norm_segments up (s # acc) ss)"

definition path_normalize :: "string \<Rightarrow> string" where
  "path_normalize p =
     (if p = [] then ''.''
      else
        (let absolute = (hd p = CHR ''/'');
             trailing = (last p = CHR ''/'');
             q = js_join ''/'' (norm_segments (\<not> absolute) [] (js_split p ''/''))
         in if q = [] then (if absolute then ''/'' else if trailing then ''./'' else ''.'')
            else (if absolute then ''/'' else []) @ q @ (if trailing then ''/'' else [])))"

definition path_join :: "string list \<Rightarrow> string" where
  "path_join parts =
     (let used = filter (\<lambda>s. s \<noteq> []) parts
      in if used = [] then ''.'' else path_normalize (js_join ''/'' used))"

section \<open>Directories and socket\<close>

type_synonym environment = "string \<Rightarrow> string option"

definition getConfigDir :: "environment \<Rightarrow> js_error + string" where
  "getConfigDir env =
     (case env ''XDG_CONFIG_HOME'' of
        Some d \<Rightarrow> Inr (path_join [d, ''anysphere''])
      | None \<Rightarrow>
          (case env ''HOME'' of
             Some h \<Rightarrow> Inr (path_join [h, ''.anysphere''])
           | None \<Rightarrow> Inl (JsError ''$HOME or $XDG_CONFIG_HOME or not set!'')))"

definition getRuntimeDir :: "environment \<Rightarrow> js_error + string" where
  "getRuntimeDir env =
     (case env ''XDG_RUNTIME_DIR'' of
        Some d \<Rightarrow> Inr (path_join [d, ''anysphere''])
      | None \<Rightarrow> bind_result (getConfigDir env) (\<lambda>d. Inr (path_join [d, ''run''])))"

definition getSocketPath :: "environment \<Rightarrow> js_error + string" where
  "getSocketPath env = bind_result (getRuntimeDir env) (\<lambda>d. Inr (path_join [d, ''anysphere.sock'']))"

definition getSocketAddress :: "environment \<Rightarrow> js_error + string" where
  "getSocketAddress env = bind_result (getSocketPath env) (\<lambda>p. Inr (''unix://'' @ p))"

section \<open>constants.ts\<close>

definition RELEASE_COMMIT_HASH :: string where
  "RELEASE_COMMIT_HASH = ''1b244038c11aec1391ced0fdac971e84b01308aa''"

text \<open>On another platform, or without a home directory, the process exits: \<open>None\<close>.\<close>

definition PLIST_PATH :: "string \<Rightarrow> environment \<Rightarrow> string option" where
  "PLIST_PATH platform env =
     (case env ''HOME'' of
        Some h \<Rightarrow>
          (if platform = ''darwin''
           then Some (path_join [h, ''Library'', ''LaunchAgents'', ''co.anysphere.anysphered.plist''])
           else None)
      | None \<Rightarrow> None)"

text \<open>The quotation mark, to build the text of the launch agent.\<close>

definition js_quote :: string where
  "js_quote = [CHR 0x22]"

definition PLIST_CONTENTS :: "string \<Rightarrow> string \<Rightarrow> string" where
  "PLIST_CONTENTS pkgPath logPath = js_join js_newline
    [''<?xml version='' @ js_quote @ ''1.0'' @ js_quote @ '' encoding='' @ js_quote @ ''UTF-8'' @ js_quote @ ''?>'',
     ''<!DOCTYPE plist PUBLIC '' @ js_quote @ ''-//Apple//DTD PLIST 1.0//EN'' @ js_quote @ '' '' @ js_quote
       @ ''http://www.apple.com/DTDs/PropertyList-1.0.dtd'' @ js_quote @ ''>'',
     ''<plist version='' @ js_quote @ ''1.0'' @ js_quote @ ''>'',
     ''<dict>'',
     ''    <key>Label</key>'',
     ''    <string>co.anysphere.anysphered</string>'',
     ''    <key>Program</key>'',
     ''    <string>'' @ pkgPath @ ''/bin/anysphered</string>'',
     ''    <key>RunAtLoad</key>'',
     ''    <true/>'',
     ''    <key>KeepAlive</key>'',
     ''    <true/>'',
     ''    <key>StandardOutPath</key>'',
     ''    <string>'' @ logPath @ ''/anysphered.log</string>'',
     ''    <key>StandardErrorPath</key>'',
     ''    <string>'' @ logPath @ ''/anysphered.err</string>'',
     ''</dict>'',
     ''</plist>'']"

definition SYSTEMD_UNIT_CONTENTS :: "string \<Rightarrow> string \<Rightarrow> string" where
  "SYSTEMD_UNIT_CONTENTS pkgPath logPath = js_join js_newline
    [''[Unit]'',
     ''Description=Anysphere daemon.'',
     ''After=network.target'',
     [],
     ''[Service]'',
     ''Type=simple'',
     ''WorkingDirectory=~'',
     ''ExecStart='' @ pkgPath @ ''/anysphered'',
     ''StandardOutput=append:'' @ logPath @ ''/anysphered.log'',
     ''StandardError=append:'' @ logPath @ ''/anysphered.err'',
     ''Restart=always'',
     ''RestartSec=10'',
     [],
     ''[Install]'',
     ''WantedBy=multi-user.target'']"

section \<open>Lemmas\<close>

text \<open>A clean segment is one that normalisation keeps.\<close>

definition clean_segment :: "string \<Rightarrow> bool" where
  "clean_segment s \<longleftrightarrow> s \<noteq> [] \<and> s \<noteq> ''.'' \<and> s \<noteq> ''..'' \<and> CHR ''/'' \<notin> set s"

text \<open>An absolute path made of clean segments.\<close>

definition clean_path :: "string list \<Rightarrow> string" where
  "clean_path ss = concat (map (\<lambda>s. ''/'' @ s) ss)"

lemma norm_segments_clean:
  "\<forall>s \<in> set ss. clean_segment s \<Longrightarrow> norm_segments up acc ss = rev acc @ ss"
  by (induction ss arbitrary: acc) (auto simp: clean_segment_def)

lemma clean_path_join: "ss \<noteq> [] \<Longrightarrow> clean_path ss = js_join ''/'' ([] # ss)"
  by (induction ss) (auto simp: clean_path_def js_join_Cons)

lemma clean_path_snoc [simp]: "clean_path (ss @ [t]) = clean_path ss @ ''/'' @ t"
  by (simp add: clean_path_def)

lemma js_join_eq_Nil: "ss \<noteq> [] \<Longrightarrow> \<forall>s \<in> set ss. s \<noteq> [] \<Longrightarrow> js_join sep ss \<noteq> []"
  by (cases ss) (auto simp: js_join_Cons)

lemma path_normalize_clean:
  assumes "ss \<noteq> []" and "\<forall>s \<in> set ss. clean_segment s"
  shows "path_normalize (clean_path ss) = clean_path ss"
proof -
  obtain ts t where ss: "ss = ts @ [t]"
    using assms(1) by (cases ss rule: rev_cases) auto
  have t: "t \<noteq> []" "CHR ''/'' \<notin> set t"
    using assms(2) ss by (auto simp: clean_segment_def)
  have "js_split (clean_path ss) ''/'' = [] # ss"
    unfolding clean_path_join [OF assms(1)]
    by (rule js_split_join) (use assms(2) in \<open>auto simp: clean_segment_def\<close>)
  moreover have "norm_segments False [] ([] # ss) = ss"
    using assms(2) by (simp add: norm_segments_clean)
  moreover have "hd (clean_path ss) = CHR ''/''" "clean_path ss \<noteq> []"
    using assms(1) by (auto simp: clean_path_join js_join_Cons)
  moreover have "last (clean_path ss) \<noteq> CHR ''/''"
  proof -
    have "last (clean_path ss) = last t"
      using t(1) by (simp add: ss)
    then show ?thesis
      using t(2) last_in_set [OF t(1)] by force
  qed
  moreover have "js_join ''/'' ss \<noteq> []"
    using assms by (intro js_join_eq_Nil) (auto simp: clean_segment_def)
  moreover have "clean_path ss = ''/'' @ js_join ''/'' ss"
    using assms(1) by (simp add: clean_path_join js_join_Cons)
  ultimately show ?thesis
    by (simp add: path_normalize_def Let_def)
qed

lemma path_join_clean:
  assumes "ss \<noteq> []" and "\<forall>s \<in> set (ss @ [t]). clean_segment s"
  shows "path_join [clean_path ss, t] = clean_path (ss @ [t])"
proof -
  have "clean_path ss \<noteq> []" "t \<noteq> []"
    using assms by (auto simp: clean_path_join js_join_Cons clean_segment_def)
  moreover have "clean_path ss @ ''/'' @ t = clean_path (ss @ [t])"
    by simp
  ultimately show ?thesis
    using path_normalize_clean [of "ss @ [t]"] assms by (simp add: path_join_def)
qed

lemma clean_names [simp]:
  "clean_segment ''anysphere''" "clean_segment ''.anysphere''" "clean_segment ''run''"
  "clean_segment ''anysphere.sock''"
  by (simp_all add: clean_segment_def)

lemma path_join_steps:
  assumes "ss \<noteq> []" and "\<forall>s \<in> set ss. clean_segment s"
  shows "path_join [clean_path ss, ''anysphere''] = clean_path (ss @ [''anysphere''])"
    and "path_join [clean_path ss, ''.anysphere''] = clean_path (ss @ [''.anysphere''])"
    and "path_join [clean_path ss, ''run''] = clean_path (ss @ [''run''])"
    and "path_join [clean_path ss, ''anysphere.sock''] = clean_path (ss @ [''anysphere.sock''])"
  using assms by (simp_all add: path_join_clean del: clean_path_snoc)

text \<open>The directories that an environment names: absolute, normalised, not the root itself.\<close>

definition clean_root :: "string \<Rightarrow> bool" where
  "clean_root p \<longleftrightarrow> (\<exists>ss. ss \<noteq> [] \<and> (\<forall>s \<in> set ss. clean_segment s) \<and> p = clean_path ss)"

section \<open>Properties\<close>

text \<open>
  The address of the daemon's socket: the runtime directory when it is set, else the
  configuration directory, else the home directory, in this order, each a clean absolute path; and
  the client fails exactly when none of the three variables is set.
\<close>

theorem getSocketAddress_spec:
  assumes "\<forall>v \<in> dom env. clean_root (the (env v))"
  shows "getSocketAddress env =
    (case env ''XDG_RUNTIME_DIR'' of
       Some d \<Rightarrow> Inr (''unix://'' @ d @ ''/anysphere/anysphere.sock'')
     | None \<Rightarrow>
         (case env ''XDG_CONFIG_HOME'' of
            Some d \<Rightarrow> Inr (''unix://'' @ d @ ''/anysphere/run/anysphere.sock'')
          | None \<Rightarrow>
              (case env ''HOME'' of
                 Some d \<Rightarrow> Inr (''unix://'' @ d @ ''/.anysphere/run/anysphere.sock'')
               | None \<Rightarrow> Inl (JsError ''$HOME or $XDG_CONFIG_HOME or not set!''))))"
proof -
  have join: "path_join [path_join [p, a], b] = p @ ''/'' @ a @ ''/'' @ b \<and>
      path_join [path_join [path_join [p, a], b], c] = p @ ''/'' @ a @ ''/'' @ b @ ''/'' @ c"
    if env: "env v = Some p" and abc: "clean_segment a" "clean_segment b" "clean_segment c" for v p a b c
  proof -
    obtain ss where ss: "ss \<noteq> []" "\<forall>s \<in> set ss. clean_segment s" "p = clean_path ss"
      using bspec [OF assms domI [of env v, OF env]] env unfolding clean_root_def by auto
    have "path_join [p, a] = clean_path (ss @ [a])"
      using ss abc by (simp add: path_join_clean del: clean_path_snoc)
    moreover have "path_join [clean_path (ss @ [a]), b] = clean_path ((ss @ [a]) @ [b])"
      using ss abc by (intro path_join_clean) auto
    moreover have "path_join [clean_path ((ss @ [a]) @ [b]), c] = clean_path (((ss @ [a]) @ [b]) @ [c])"
      using ss abc by (intro path_join_clean) auto
    ultimately show ?thesis
      unfolding ss(3) by (simp only: clean_path_snoc append_assoc [symmetric])
  qed
  note defs = getSocketAddress_def getSocketPath_def getRuntimeDir_def getConfigDir_def
  show ?thesis
  proof (cases "env ''XDG_RUNTIME_DIR''")
    case (Some d)
    then show ?thesis
      using join [OF Some clean_names(1,4) clean_names(3)] by (simp add: defs)
  next
    case no_runtime: None
    show ?thesis
    proof (cases "env ''XDG_CONFIG_HOME''")
      case (Some d)
      then show ?thesis
        using join [OF Some clean_names(1,3,4), THEN conjunct2] no_runtime by (simp add: defs)
    next
      case no_config: None
      show ?thesis
      proof (cases "env ''HOME''")
        case (Some d)
        then show ?thesis
          using join [OF Some clean_names(2,3,4), THEN conjunct2] no_runtime no_config by (simp add: defs)
      qed (simp add: defs no_runtime no_config)
    qed
  qed
qed

theorem getSocketAddress_spec_witness:
  "getSocketAddress [''HOME'' \<mapsto> ''/home/bob''] = Inr ''unix:///home/bob/.anysphere/run/anysphere.sock''"
proof -
  have "clean_root ''/home/bob''"
    unfolding clean_root_def
    by (rule exI [of _ "[''home'', ''bob'']"]) (simp add: clean_segment_def clean_path_def)
  then show ?thesis
    using getSocketAddress_spec [of "[''HOME'' \<mapsto> ''/home/bob'']"] by simp
qed

end
