(* ===== verification/Daemon.thy ===== *)
theory Daemon imports Paths begin

text \<open>
  The client of the daemon in \<open>main/daemon.ts\<close>: the interface \<open>Daemon\<close> and its
  implementation \<open>DaemonImpl\<close>, method by method. The generated gRPC stub is a parameter: a
  record \<open>daemonClient\<close> with one function per remote procedure, from the request message to
  what its callback receives. A method returns the remote calls it issued, in order, and its
  promise: \<open>Inl\<close> when it is rejected. With \<open>ASPHR_FAKE_DATA\<close> set most methods answer
  from built-in data; \<open>now\<close> is the reading of the clock.

  \<open>daemonCall\<close> names every call of the interface and \<open>perform\<close> dispatches it; the
  specification \<open>daemon_spec\<close> says what a call answers in terms of the one remote procedure
  \<open>rpc_of\<close> it stands for, and \<open>perform_real\<close> shows that every method implements it.
\<close>

section \<open>The remote procedures\<close>

text \<open>What a unary callback receives: an error, or a response message, which may be undefined.\<close>

type_synonym 'a callback_result = "js_error + 'a option"

record daemonClient =
  cl_registerUser :: "registerUserRequest \<Rightarrow> unit callback_result"
  cl_getStatus :: "unit \<Rightarrow> getStatusResponse callback_result"
  cl_getFriendList :: "unit \<Rightarrow> friend list callback_result"
  cl_removeFriend :: "removeFriendRequest \<Rightarrow> unit callback_result"
  cl_addSyncFriend :: "addSyncFriendRequest \<Rightarrow> unit callback_result"
  cl_addAsyncFriend :: "addAsyncFriendRequest \<Rightarrow> unit callback_result"
  cl_getOutgoingSyncInvitations :: "unit \<Rightarrow> outgoingSyncInvitation list callback_result"
  cl_getOutgoingAsyncInvitations :: "unit \<Rightarrow> outgoingAsyncInvitation list callback_result"
  cl_getIncomingAsyncInvitations :: "unit \<Rightarrow> incomingAsyncInvitation list callback_result"
  cl_acceptAsyncInvitation :: "acceptAsyncInvitationRequest \<Rightarrow> unit callback_result"
  cl_rejectAsyncInvitation :: "rejectAsyncInvitationRequest \<Rightarrow> unit callback_result"
  cl_cancelAsyncInvitation :: "cancelAsyncInvitationRequest \<Rightarrow> unit callback_result"
  cl_getMyPublicID :: "unit \<Rightarrow> getMyPublicIDResponse callback_result"
  cl_isValidPublicID :: "isValidPublicIDRequest \<Rightarrow> isValidPublicIDResponse callback_result"
  cl_sendMessage :: "sendMessageRequest \<Rightarrow> unit callback_result"
  cl_getMessages :: "getMessagesRequest \<Rightarrow> incomingMessage list callback_result"
  cl_getOutboxMessages :: "unit \<Rightarrow> outgoingMessage list callback_result"
  cl_getSentMessages :: "unit \<Rightarrow> outgoingMessage list callback_result"
  cl_messageSeen :: "messageSeenRequest \<Rightarrow> unit callback_result"

datatype rpc =
    RpcRegisterUser registerUserRequest
  | RpcGetStatus
  | RpcGetFriendList
  | RpcRemoveFriend removeFriendRequest
  | RpcAddSyncFriend addSyncFriendRequest
  | RpcAddAsyncFriend addAsyncFriendRequest
  | RpcGetOutgoingSyncInvitations
  | RpcGetOutgoingAsyncInvitations
  | RpcGetIncomingAsyncInvitations
  | RpcAcceptAsyncInvitation acceptAsyncInvitationRequest
  | RpcRejectAsyncInvitation rejectAsyncInvitationRequest
  | RpcCancelAsyncInvitation cancelAsyncInvitationRequest
  | RpcGetMyPublicID
  | RpcIsValidPublicID isValidPublicIDRequest
  | RpcSendMessage sendMessageRequest
  | RpcGetMessages getMessagesRequest
  | RpcGetOutboxMessages
  | RpcGetSentMessages
  | RpcMessageSeen messageSeenRequest

type_synonym 'a method_result = "rpc list \<times> (js_error + 'a)"

text \<open>The environment of a method: the mode, the clock and the client.\<close>

record daemonImpl =
  di_fake :: bool
  di_now :: js_date
  di_client :: daemonClient

text \<open>
  The client is made from the socket's address, with the stub's constructor \<open>mk\<close> (insecure
  credentials), so constructing it fails where the address does.
\<close>

definition FAKE_DATA :: "environment \<Rightarrow> bool" where
  "FAKE_DATA env \<longleftrightarrow> env ''ASPHR_FAKE_DATA'' = Some ''true''"

definition getDaemonClient :: "(string \<Rightarrow> daemonClient) \<Rightarrow> environment \<Rightarrow> js_error + daemonClient" where
  "getDaemonClient mk env = bind_result (getSocketAddress env) (\<lambda>address. Inr (mk address))"

definition new_DaemonImpl ::
  "(string \<Rightarrow> daemonClient) \<Rightarrow> environment \<Rightarrow> js_date \<Rightarrow> js_error + daemonImpl" where
  "new_DaemonImpl mk env now =
     bind_result (getDaemonClient mk env)
       (\<lambda>client. Inr \<lparr>di_fake = FAKE_DATA env, di_now = now, di_client = client\<rparr>)"

text \<open>The main process has its own truncation, which cuts with \<open>substring\<close>.\<close>

definition daemon_truncate :: "string \<Rightarrow> int \<Rightarrow> string" where
  "daemon_truncate str maxLength =
     (if int (length str) \<le> maxLength then str
      else js_substring str 0 (maxLength - 3) @ ''...'')"

lemma daemon_truncate_eq: "daemon_truncate str n = Utils.truncate str n"
  by (cases "n \<le> 3") (auto simp: daemon_truncate_def Utils.truncate_def js_substring_def js_substr_def Let_def)

text \<open>
  The part that all methods share: issue the call, await its callback, and reject when the
  response is undefined. \<open>post\<close> is what the method does with the response.
\<close>

definition unary ::
  "string \<Rightarrow> rpc \<Rightarrow> 'r callback_result \<Rightarrow> ('r \<Rightarrow> 'a) \<Rightarrow> 'a method_result" where
  "unary method_name request callback post =
     ([request],
      (case callback of
         Inl e \<Rightarrow> Inl e
       | Inr None \<Rightarrow> Inl (JsError (method_name @ '' returned undefined''))
       | Inr (Some response) \<Rightarrow> Inr (post response)))"

text \<open>The value of a fresh message, before its setters run: the defaults of proto3.\<close>

definition new_registerUserRequest :: registerUserRequest where
  "new_registerUserRequest = \<lparr>ru_name = [], ru_betaKey = []\<rparr>"

definition new_removeFriendRequest :: removeFriendRequest where
  "new_removeFriendRequest = \<lparr>rf_uniqueName = []\<rparr>"

definition new_addSyncFriendRequest :: addSyncFriendRequest where
  "new_addSyncFriendRequest = \<lparr>as_uniqueName = [], as_displayName = [], as_story = []\<rparr>"

definition new_addAsyncFriendRequest :: addAsyncFriendRequest where
  "new_addAsyncFriendRequest =
     \<lparr>aa_uniqueName = [], aa_displayName = [], aa_publicId = [], aa_message = []\<rparr>"

definition new_acceptAsyncInvitationRequest :: acceptAsyncInvitationRequest where
  "new_acceptAsyncInvitationRequest =
     \<lparr>ac_publicId = [], ac_uniqueName = [], ac_displayName = []\<rparr>"

definition new_rejectAsyncInvitationRequest :: rejectAsyncInvitationRequest where
  "new_rejectAsyncInvitationRequest = \<lparr>rj_publicId = []\<rparr>"

definition new_cancelAsyncInvitationRequest :: cancelAsyncInvitationRequest where
  "new_cancelAsyncInvitationRequest = \<lparr>ca_publicId = []\<rparr>"

definition new_isValidPublicIDRequest :: isValidPublicIDRequest where
  "new_isValidPublicIDRequest = \<lparr>iv_publicId = []\<rparr>"

definition new_sendMessageRequest :: sendMessageRequest where
  "new_sendMessageRequest = \<lparr>sm_uniqueNameList = [], sm_message = []\<rparr>"

definition new_getMessagesRequest :: getMessagesRequest where
  "new_getMessagesRequest = \<lparr>gm_filter = FilterALL\<rparr>"

definition new_messageSeenRequest :: messageSeenRequest where
  "new_messageSeenRequest = \<lparr>ms_id = 0\<rparr>"

lemmas new_request_defs =
  new_registerUserRequest_def new_removeFriendRequest_def new_addSyncFriendRequest_def
  new_addAsyncFriendRequest_def new_acceptAsyncInvitationRequest_def
  new_rejectAsyncInvitationRequest_def new_cancelAsyncInvitationRequest_def
  new_isValidPublicIDRequest_def new_sendMessageRequest_def new_getMessagesRequest_def
  new_messageSeenRequest_def

text \<open>Running all the setters on a fresh message copies the caller's object.\<close>

lemma request_copies [simp]:
  "new_registerUserRequest\<lparr>ru_name := ru_name q0, ru_betaKey := ru_betaKey q0\<rparr> = (q0 :: registerUserRequest)"
  "new_removeFriendRequest\<lparr>rf_uniqueName := rf_uniqueName q1\<rparr> = (q1 :: removeFriendRequest)"
  "new_addSyncFriendRequest\<lparr>as_uniqueName := as_uniqueName q2, as_displayName := as_displayName q2, as_story := as_story q2\<rparr> = (q2 :: addSyncFriendRequest)"
  "new_addAsyncFriendRequest\<lparr>aa_uniqueName := aa_uniqueName q3, aa_displayName := aa_displayName q3, aa_publicId := aa_publicId q3, aa_message := aa_message q3\<rparr> = (q3 :: addAsyncFriendRequest)"
  "new_acceptAsyncInvitationRequest\<lparr>ac_publicId := ac_publicId q4, ac_uniqueName := ac_uniqueName q4, ac_displayName := ac_displayName q4\<rparr> = (q4 :: acceptAsyncInvitationRequest)"
  "new_rejectAsyncInvitationRequest\<lparr>rj_publicId := rj_publicId q5\<rparr> = (q5 :: rejectAsyncInvitationRequest)"
  "new_cancelAsyncInvitationRequest\<lparr>ca_publicId := ca_publicId q6\<rparr> = (q6 :: cancelAsyncInvitationRequest)"
  "new_isValidPublicIDRequest\<lparr>iv_publicId := iv_publicId q7\<rparr> = (q7 :: isValidPublicIDRequest)"
  "new_sendMessageRequest\<lparr>sm_uniqueNameList := sm_uniqueNameList q8, sm_message := sm_message q8\<rparr> = (q8 :: sendMessageRequest)"
  "new_getMessagesRequest\<lparr>gm_filter := gm_filter q9\<rparr> = (q9 :: getMessagesRequest)"
  "new_messageSeenRequest\<lparr>ms_id := ms_id q10\<rparr> = (q10 :: messageSeenRequest)"
  by (cases q0, cases q1, cases q2, cases q3, cases q4, cases q5, cases q6, cases q7, cases q8, cases q9, cases q10, simp_all add: new_request_defs)

section \<open>Built-in data\<close>

definition fake_incoming :: "js_date \<Rightarrow> int \<Rightarrow> string \<Rightarrow> string \<Rightarrow> string \<Rightarrow> bool \<Rightarrow> incomingMessage" where
  "fake_incoming now uid message uniqueName displayName seen =
     \<lparr>im_uid = uid, im_message = message, im_fromUniqueName = uniqueName,
      im_fromDisplayName = displayName, im_otherRecipientsList = [],
      im_deliveredAt = Some (dateToProtobufDate now), im_seen = seen, im_delivered = True\<rparr>"

definition fake_getMessages :: "js_date \<Rightarrow> messageFilter \<Rightarrow> incomingMessage list" where
  "fake_getMessages now flt =
     (case flt of FilterNEW \<Rightarrow>
      [fake_incoming now 1
        (''Hello! This is a test message.'')
        ''sualeh-asif'' ''Sualeh Asif'' False,
      fake_incoming now 2
        (''This is a new message. It has been delivered, but not yet seen.'')
        ''stzh1555'' ''Shengtong Zhang'' False]
    | FilterALL \<Rightarrow>
      [fake_incoming now 1
        (''Hello! This is a test message.'')
        ''sualeh-asif'' ''Sualeh Asif'' False,
      fake_incoming now 2
        (''This is a new message. It has been delivered, but not yet seen.'')
        ''stzh1555'' ''Shengtong Zhang'' False,
      fake_incoming now 3
        (''This is a new message. This message has been marked as seen!'')
        ''stzh1555'' ''Shengtong Zhang'' True])"

definition fake_streamed :: "js_date \<Rightarrow> messageFilter \<Rightarrow> incomingMessage list" where
  "fake_streamed now flt =
     (case flt of FilterNEW \<Rightarrow>
      [fake_incoming now 1
        (''## Meeting times with Srini'' @ js_newline @ ''Can you schedule a meeting with [Srini](https://people.csail.mit.edu/devadas/) for **next week**, please `yayyyyy`?'')
        ''sualeh-asif'' ''Sualeh Asif'' False,
      fake_incoming now 2
        (''I pushed some of my comments on the white paper draft to the repo, but I figured I should explain some of it here, too.'')
        ''sualeh-asif'' ''Sualeh Asif'' False]
    | FilterALL \<Rightarrow>
      [fake_incoming now 1
        (''Can you schedule a meeting with Srini for next week, please?'')
        ''sualeh-asif'' ''Sualeh Asif'' False,
      fake_incoming now 2
        (''I pushed some of my comments on the white paper draft to the repo, but I figured I should explain some of it here, too.'')
        ''sualeh-asif'' ''Sualeh Asif'' False,
      fake_incoming now 3
        (''I was thinking about the thing you told me about the other day, and I think you're right.'')
        ''sualeh-asif'' ''Sualeh Asif'' True,
      fake_incoming now 4
        (''Can you take a look at the server branch and see if it works? I made some changes.'')
        ''sualeh-asif'' ''Sualeh Asif'' True,
      fake_incoming now 5
        (''Hi Arvid,'' @ js_newline @ ''Thank you so much for onboarding me to Anysphere! I am very excited to work with you.'' @ js_newline @ ''Best,'' @ js_newline @ ''Shengtong'')
        ''stzh1555'' ''Shengtong Zhang'' True,
      fake_incoming now 6
        (''Dear Arvid,'' @ js_newline @ ''This is my first ever completely private message to you. No one will be able to read this message, find out when it was sent, or even suspect that I sent anything to you at all.'' @ js_newline @ ''Here's to a thoughtful, private and free future.'' @ js_newline @ ''Yours truly,'' @ js_newline @ ''Sualeh'')
        ''stzh1555'' ''Shengtong Zhang'' True])"

definition fake_outgoing ::
  "js_date \<Rightarrow> int \<Rightarrow> string \<Rightarrow> string \<Rightarrow> string \<Rightarrow> bool \<Rightarrow> outgoingMessage" where
  "fake_outgoing now uid message uniqueName displayName delivered =
     \<lparr>om_uid = uid, om_message = message,
      om_toFriendsList =
        [\<lparr>of_uniqueName = uniqueName, of_displayName = displayName, of_delivered = delivered,
          of_deliveredAt = (if delivered then Some (dateToProtobufDate now) else None)\<rparr>],
      om_sentAt = Some (dateToProtobufDate now)\<rparr>"

definition fake_outbox :: "js_date \<Rightarrow> outgoingMessage list" where
  "fake_outbox now =
     [fake_outgoing now 1 ''This is an outbox message that doesn't seem to want to be delivered...''
        ''sualeh-asif'' ''Sualeh Asif'' False,
      fake_outgoing now 2 ''I'm confused...'' ''stzh1555'' ''Shengtong Zhang'' False,
      fake_outgoing now 3 ''I'm very confused...'' ''stzh1555'' ''Shengtong Zhang'' False]"

definition fake_sent :: "js_date \<Rightarrow> outgoingMessage list" where
  "fake_sent now =
     [fake_outgoing now 1 ''The draft looks good. Let me know if you need any help!''
        ''sualeh-asif'' ''Sualeh Asif'' True,
      fake_outgoing now 2 ''Welcome! We are extremely excited to have you as a part of our team.''
        ''shengtong-zhang'' ''Shengtong Zhang'' True]"

definition fake_friend :: "string \<Rightarrow> string \<Rightarrow> friend" where
  "fake_friend uniqueName displayName =
     \<lparr>fr_uniqueName = uniqueName, fr_displayName = displayName, fr_publicId = ''asdfasdf'',
      fr_invitationProgress = COMPLETE\<rparr>"

definition fake_friends :: "friend list" where
  "fake_friends =
     [fake_friend ''Sualeh'' ''Sualeh Asif'', fake_friend ''Shengtong'' ''Shengtong'',
      fake_friend ''Bob'' ''Bob'']"

definition fake_story :: string where
  "fake_story = ''Haphazard ambassador hides gradient. Cool mark resolves ambush. Eerie kiss revises distinction. Fashionable film fosters age. New customer views proprietor. Boiled plant kicks truck. Spectacular commission complies triumph. Faint.''"

definition fake_outgoing_sync :: "js_date \<Rightarrow> outgoingSyncInvitation list" where
  "fake_outgoing_sync now =
     [\<lparr>os_uniqueName = ''arvid'', os_displayName = ''Arvid Lunnemark'', os_story = fake_story,
       os_sentAt = Some (dateToProtobufDate now)\<rparr>]"

definition fake_outgoing_async :: "js_date \<Rightarrow> outgoingAsyncInvitation list" where
  "fake_outgoing_async now =
     [\<lparr>oa_uniqueName = ''sualeh-asif'', oa_displayName = ''Sualeh Asif'',
       oa_publicId = ''85dG6DNNvNQeCNSMXyJ5j3YprmRkmQDe7QcbEuHgoyw81UBLAAAA3NfN3fJgkNUMtrt8vxQBx3wfLn1cg3MJUac99XRwN9rVbn'',
       oa_message = ''hi! want to be my friend?'', oa_sentAt = Some (dateToProtobufDate now)\<rparr>,
      \<lparr>oa_uniqueName = ''stzh1555'', oa_displayName = ''Shengtong Zhang'',
       oa_publicId = ''9abFxDNNvxQeCNxMXxJxj3qprmRkmQDe7QcbEuHgoyw81UBLAAAA3NfN3fJgkNUMtrt8vxQBx3wfLn1cg3MJUac99XRwN9rVbn'',
       oa_message = ''hi! want to be my friend pls?'', oa_sentAt = Some (dateToProtobufDate now)\<rparr>]"

definition fake_incoming_async :: "js_date \<Rightarrow> incomingAsyncInvitation list" where
  "fake_incoming_async now =
     [\<lparr>ia_publicId = ''88Y1GinMVwMtA3SpGo3ZwjzhizQyzJ4xbeh7qzEsHhSDxJ88JiQKoxJ3nR9iGYR5jVQqnxFdekoxhGsDZKaMAWhqPHzKAYXAhR'',
       ia_message = ''hey! it's Michael. verify my public ID on my twitter.'',
       ia_receivedAt = Some (dateToProtobufDate now)\<rparr>,
      \<lparr>ia_publicId = ''9abFxDNNvxQeCNxMXxJxj3qprmRkmQDe7QcbEuHgoyw81UBLAAAA3NfN3fJgkNUMtrt8vxQBx3wfLn1cg3MJUac99XRwN9rVbn'',
       ia_message = ''hey! it's Aman. verify my public ID on my twitter.'',
       ia_receivedAt = Some (dateToProtobufDate now)\<rparr>]"

definition fake_publicId :: getMyPublicIDResponse where
  "fake_publicId =
     \<lparr>mp_publicId = ''3X2riNETQqUuFTqVrWqkGF8EsepzoarMYrNASmRJAzKwr9XB4Z7amnFNrgGm9wuq3wXAvvhPpu47eHWv29ikv5fbbzeeyfRvcgYqT'',
      mp_story = fake_story\<rparr>"

definition fake_status :: getStatusResponse where
  "fake_status =
     \<lparr>gs_registered = True, gs_releaseHash = RELEASE_COMMIT_HASH, gs_latencySeconds = 60,
      gs_serverAddress = ''server1.anysphere.co:443''\<rparr>"

section \<open>The methods of DaemonImpl\<close>

definition sendMessage :: "daemonImpl \<Rightarrow> sendMessageRequest \<Rightarrow> unit method_result" where
  "sendMessage d q =
     (if di_fake d then ([], Inr ())
      else (let request = new_sendMessageRequest\<lparr>sm_uniqueNameList := sm_uniqueNameList q, sm_message := sm_message q\<rparr>
      in unary ''sendMessage'' (RpcSendMessage request) (cl_sendMessage (di_client d) request) id))"

definition getStatus :: "daemonImpl \<Rightarrow> getStatusResponse method_result" where
  "getStatus d =
     (if di_fake d then ([], Inr fake_status)
      else unary ''getStatus'' RpcGetStatus (cl_getStatus (di_client d) ()) id)"

definition getMessages :: "daemonImpl \<Rightarrow> getMessagesRequest \<Rightarrow> (incomingMessage list) method_result" where
  "getMessages d q =
     (if di_fake d then ([], Inr (fake_getMessages (di_now d) (gm_filter q)))
      else (let request = new_getMessagesRequest\<lparr>gm_filter := gm_filter q\<rparr>
      in unary ''getMessages'' (RpcGetMessages request) (cl_getMessages (di_client d) request) id))"

definition getOutboxMessages :: "daemonImpl \<Rightarrow> (outgoingMessage list) method_result" where
  "getOutboxMessages d =
     (if di_fake d then ([], Inr (fake_outbox (di_now d)))
      else unary ''getOutboxMessages'' RpcGetOutboxMessages (cl_getOutboxMessages (di_client d) ()) id)"

definition getSentMessages :: "daemonImpl \<Rightarrow> (outgoingMessage list) method_result" where
  "getSentMessages d =
     (if di_fake d then ([], Inr (fake_sent (di_now d)))
      else unary ''getSentMessages'' RpcGetSentMessages (cl_getSentMessages (di_client d) ()) id)"

definition messageSeen :: "daemonImpl \<Rightarrow> messageSeenRequest \<Rightarrow> unit method_result" where
  "messageSeen d q =
     (let request = new_messageSeenRequest\<lparr>ms_id := ms_id q\<rparr>
      in unary ''messageSeen'' (RpcMessageSeen request) (cl_messageSeen (di_client d) request) id)"

definition hasRegistered :: "daemonImpl \<Rightarrow> bool method_result" where
  "hasRegistered d =
     (if di_fake d then ([], Inr True)
      else unary ''hasRegistered'' RpcGetStatus (cl_getStatus (di_client d) ()) gs_registered)"

definition registerUser :: "daemonImpl \<Rightarrow> registerUserRequest \<Rightarrow> unit method_result" where
  "registerUser d q =
     (let request = new_registerUserRequest\<lparr>ru_name := ru_name q, ru_betaKey := ru_betaKey q\<rparr>
      in unary ''registerUser'' (RpcRegisterUser request) (cl_registerUser (di_client d) request) id)"

definition getFriendList :: "daemonImpl \<Rightarrow> (friend list) method_result" where
  "getFriendList d =
     (if di_fake d then ([], Inr fake_friends)
      else unary ''getFriendList'' RpcGetFriendList (cl_getFriendList (di_client d) ()) id)"

definition removeFriend :: "daemonImpl \<Rightarrow> removeFriendRequest \<Rightarrow> unit method_result" where
  "removeFriend d q =
     (if di_fake d then ([], Inr ())
      else (let request = new_removeFriendRequest\<lparr>rf_uniqueName := rf_uniqueName q\<rparr>
      in unary ''removeFriend'' (RpcRemoveFriend request) (cl_removeFriend (di_client d) request) id))"

definition addAsyncFriend :: "daemonImpl \<Rightarrow> addAsyncFriendRequest \<Rightarrow> unit method_result" where
  "addAsyncFriend d q =
     (if di_fake d then ([], Inr ())
      else (let request = new_addAsyncFriendRequest\<lparr>aa_uniqueName := aa_uniqueName q, aa_displayName := aa_displayName q, aa_publicId := aa_publicId q, aa_message := aa_message q\<rparr>
      in unary ''addAsyncFriend'' (RpcAddAsyncFriend request) (cl_addAsyncFriend (di_client d) request) id))"

definition addSyncFriend :: "daemonImpl \<Rightarrow> addSyncFriendRequest \<Rightarrow> unit method_result" where
  "addSyncFriend d q =
     (if di_fake d then ([], Inr ())
      else (let request = new_addSyncFriendRequest\<lparr>as_uniqueName := as_uniqueName q, as_displayName := as_displayName q, as_story := as_story q\<rparr>
      in unary ''addSyncFriend'' (RpcAddSyncFriend request) (cl_addSyncFriend (di_client d) request) id))"

definition getOutgoingSyncInvitations :: "daemonImpl \<Rightarrow> (outgoingSyncInvitation list) method_result" where
  "getOutgoingSyncInvitations d =
     (if di_fake d then ([], Inr (fake_outgoing_sync (di_now d)))
      else unary ''getOutgoingSyncInvitations'' RpcGetOutgoingSyncInvitations (cl_getOutgoingSyncInvitations (di_client d) ()) id)"

definition getOutgoingAsyncInvitations :: "daemonImpl \<Rightarrow> (outgoingAsyncInvitation list) method_result" where
  "getOutgoingAsyncInvitations d =
     (if di_fake d then ([], Inr (fake_outgoing_async (di_now d)))
      else unary ''getOutgoingAsyncInvitations'' RpcGetOutgoingAsyncInvitations (cl_getOutgoingAsyncInvitations (di_client d) ()) id)"

definition getIncomingAsyncInvitations :: "daemonImpl \<Rightarrow> (incomingAsyncInvitation list) method_result" where
  "getIncomingAsyncInvitations d =
     (if di_fake d then ([], Inr (fake_incoming_async (di_now d)))
      else unary ''getIncomingAsyncInvitations'' RpcGetIncomingAsyncInvitations (cl_getIncomingAsyncInvitations (di_client d) ()) id)"

definition acceptAsyncInvitation :: "daemonImpl \<Rightarrow> acceptAsyncInvitationRequest \<Rightarrow> unit method_result" where
  "acceptAsyncInvitation d q =
     (if di_fake d then ([], Inr ())
      else (let request = new_acceptAsyncInvitationRequest\<lparr>ac_publicId := ac_publicId q, ac_uniqueName := ac_uniqueName q, ac_displayName := ac_displayName q\<rparr>
      in unary ''acceptAsyncInvitation'' (RpcAcceptAsyncInvitation request) (cl_acceptAsyncInvitation (di_client d) request) id))"

definition rejectAsyncInvitation :: "daemonImpl \<Rightarrow> rejectAsyncInvitationRequest \<Rightarrow> unit method_result" where
  "rejectAsyncInvitation d q =
     (if di_fake d then ([], Inr ())
      else (let request = new_rejectAsyncInvitationRequest\<lparr>rj_publicId := rj_publicId q\<rparr>
      in unary ''rejectAsyncInvitation'' (RpcRejectAsyncInvitation request) (cl_rejectAsyncInvitation (di_client d) request) id))"

definition cancelAsyncInvitation :: "daemonImpl \<Rightarrow> cancelAsyncInvitationRequest \<Rightarrow> unit method_result" where
  "cancelAsyncInvitation d q =
     (if di_fake d then ([], Inr ())
      else (let request = new_cancelAsyncInvitationRequest\<lparr>ca_publicId := ca_publicId q\<rparr>
      in unary ''cancelAsyncInvitation'' (RpcCancelAsyncInvitation request) (cl_cancelAsyncInvitation (di_client d) request) id))"

definition isValidPublicID :: "daemonImpl \<Rightarrow> isValidPublicIDRequest \<Rightarrow> isValidPublicIDResponse method_result" where
  "isValidPublicID d q =
     (if di_fake d then ([], Inr \<lparr>iv_valid = True\<rparr>)
      else (let request = new_isValidPublicIDRequest\<lparr>iv_publicId := iv_publicId q\<rparr>
      in unary ''isValidPublicID'' (RpcIsValidPublicID request) (cl_isValidPublicID (di_client d) request) id))"

definition getMyPublicID :: "daemonImpl \<Rightarrow> getMyPublicIDResponse method_result" where
  "getMyPublicID d =
     (if di_fake d then ([], Inr fake_publicId)
      else unary ''getMyPublicID'' RpcGetMyPublicID (cl_getMyPublicID (di_client d) ()) id)"

lemmas method_defs [step_defs] =
  sendMessage_def getStatus_def getMessages_def
  getOutboxMessages_def getSentMessages_def messageSeen_def
  hasRegistered_def registerUser_def getFriendList_def
  removeFriend_def addAsyncFriend_def addSyncFriend_def
  getOutgoingSyncInvitations_def getOutgoingAsyncInvitations_def getIncomingAsyncInvitations_def
  acceptAsyncInvitation_def rejectAsyncInvitation_def cancelAsyncInvitation_def
  isValidPublicID_def getMyPublicID_def

text \<open>What the methods are for a caller, with the daemon: one call with the caller's own request.\<close>

lemma methods_real:
  "\<not> di_fake d \<Longrightarrow> sendMessage d q_sendMessage = unary ''sendMessage'' (RpcSendMessage q_sendMessage) (cl_sendMessage (di_client d) q_sendMessage) id"
  "\<not> di_fake d \<Longrightarrow> removeFriend d q_removeFriend = unary ''removeFriend'' (RpcRemoveFriend q_removeFriend) (cl_removeFriend (di_client d) q_removeFriend) id"
  "\<not> di_fake d \<Longrightarrow> addAsyncFriend d q_addAsyncFriend = unary ''addAsyncFriend'' (RpcAddAsyncFriend q_addAsyncFriend) (cl_addAsyncFriend (di_client d) q_addAsyncFriend) id"
  "\<not> di_fake d \<Longrightarrow> addSyncFriend d q_addSyncFriend = unary ''addSyncFriend'' (RpcAddSyncFriend q_addSyncFriend) (cl_addSyncFriend (di_client d) q_addSyncFriend) id"
  "\<not> di_fake d \<Longrightarrow> acceptAsyncInvitation d q_acceptAsyncInvitation = unary ''acceptAsyncInvitation'' (RpcAcceptAsyncInvitation q_acceptAsyncInvitation) (cl_acceptAsyncInvitation (di_client d) q_acceptAsyncInvitation) id"
  "\<not> di_fake d \<Longrightarrow> rejectAsyncInvitation d q_rejectAsyncInvitation = unary ''rejectAsyncInvitation'' (RpcRejectAsyncInvitation q_rejectAsyncInvitation) (cl_rejectAsyncInvitation (di_client d) q_rejectAsyncInvitation) id"
  "\<not> di_fake d \<Longrightarrow> cancelAsyncInvitation d q_cancelAsyncInvitation = unary ''cancelAsyncInvitation'' (RpcCancelAsyncInvitation q_cancelAsyncInvitation) (cl_cancelAsyncInvitation (di_client d) q_cancelAsyncInvitation) id"
  "\<not> di_fake d \<Longrightarrow> isValidPublicID d q_isValidPublicID = unary ''isValidPublicID'' (RpcIsValidPublicID q_isValidPublicID) (cl_isValidPublicID (di_client d) q_isValidPublicID) id"
  "\<not> di_fake d \<Longrightarrow> getMessages d q_getMessages = unary ''getMessages'' (RpcGetMessages q_getMessages) (cl_getMessages (di_client d) q_getMessages) id"
  "messageSeen d q_messageSeen = unary ''messageSeen'' (RpcMessageSeen q_messageSeen) (cl_messageSeen (di_client d) q_messageSeen) id"
  "registerUser d q_registerUser = unary ''registerUser'' (RpcRegisterUser q_registerUser) (cl_registerUser (di_client d) q_registerUser) id"
  "\<not> di_fake d \<Longrightarrow> getOutboxMessages d = unary ''getOutboxMessages'' RpcGetOutboxMessages (cl_getOutboxMessages (di_client d) ()) id"
  "\<not> di_fake d \<Longrightarrow> getSentMessages d = unary ''getSentMessages'' RpcGetSentMessages (cl_getSentMessages (di_client d) ()) id"
  "\<not> di_fake d \<Longrightarrow> getFriendList d = unary ''getFriendList'' RpcGetFriendList (cl_getFriendList (di_client d) ()) id"
  "\<not> di_fake d \<Longrightarrow> getOutgoingSyncInvitations d = unary ''getOutgoingSyncInvitations'' RpcGetOutgoingSyncInvitations (cl_getOutgoingSyncInvitations (di_client d) ()) id"
  "\<not> di_fake d \<Longrightarrow> getOutgoingAsyncInvitations d = unary ''getOutgoingAsyncInvitations'' RpcGetOutgoingAsyncInvitations (cl_getOutgoingAsyncInvitations (di_client d) ()) id"
  "\<not> di_fake d \<Longrightarrow> getIncomingAsyncInvitations d = unary ''getIncomingAsyncInvitations'' RpcGetIncomingAsyncInvitations (cl_getIncomingAsyncInvitations (di_client d) ()) id"
  "\<not> di_fake d \<Longrightarrow> getMyPublicID d = unary ''getMyPublicID'' RpcGetMyPublicID (cl_getMyPublicID (di_client d) ()) id"
  "\<not> di_fake d \<Longrightarrow> getStatus d = unary ''getStatus'' RpcGetStatus (cl_getStatus (di_client d) ()) id"
  by (simp_all add: method_defs Let_def)

section \<open>The interface as a whole\<close>

text \<open>The calls of the interface \<open>Daemon\<close> that answer with a promise.\<close>

datatype daemonCall =
    CallSendMessage sendMessageRequest
  | CallGetStatus
  | CallGetMessages getMessagesRequest
  | CallGetOutboxMessages
  | CallGetSentMessages
  | CallMessageSeen messageSeenRequest
  | CallHasRegistered
  | CallRegisterUser registerUserRequest
  | CallGetFriendList
  | CallRemoveFriend removeFriendRequest
  | CallAddAsyncFriend addAsyncFriendRequest
  | CallAddSyncFriend addSyncFriendRequest
  | CallGetOutgoingSyncInvitations
  | CallGetOutgoingAsyncInvitations
  | CallGetIncomingAsyncInvitations
  | CallAcceptAsyncInvitation acceptAsyncInvitationRequest
  | CallRejectAsyncInvitation rejectAsyncInvitationRequest
  | CallCancelAsyncInvitation cancelAsyncInvitationRequest
  | CallIsValidPublicID isValidPublicIDRequest
  | CallGetMyPublicID

datatype response =
    RespEmpty
  | RespStatus getStatusResponse
  | RespIncoming "incomingMessage list"
  | RespOutgoing "outgoingMessage list"
  | RespBool bool
  | RespFriends "friend list"
  | RespOutgoingSync "outgoingSyncInvitation list"
  | RespOutgoingAsync "outgoingAsyncInvitation list"
  | RespIncomingAsync "incomingAsyncInvitation list"
  | RespValid isValidPublicIDResponse
  | RespPublicID getMyPublicIDResponse

definition answer :: "('a \<Rightarrow> response) \<Rightarrow> 'a method_result \<Rightarrow> response method_result" where
  "answer f r = (fst r, (case snd r of Inl e \<Rightarrow> Inl e | Inr x \<Rightarrow> Inr (f x)))"

fun perform :: "daemonImpl \<Rightarrow> daemonCall \<Rightarrow> response method_result" where
  "perform d (CallSendMessage q) = answer (\<lambda>_. RespEmpty) (sendMessage d q)"
| "perform d CallGetStatus = answer RespStatus (getStatus d)"
| "perform d (CallGetMessages q) = answer RespIncoming (getMessages d q)"
| "perform d CallGetOutboxMessages = answer RespOutgoing (getOutboxMessages d)"
| "perform d CallGetSentMessages = answer RespOutgoing (getSentMessages d)"
| "perform d (CallMessageSeen q) = answer (\<lambda>_. RespEmpty) (messageSeen d q)"
| "perform d CallHasRegistered = answer RespBool (hasRegistered d)"
| "perform d (CallRegisterUser q) = answer (\<lambda>_. RespEmpty) (registerUser d q)"
| "perform d CallGetFriendList = answer RespFriends (getFriendList d)"
| "perform d (CallRemoveFriend q) = answer (\<lambda>_. RespEmpty) (removeFriend d q)"
| "perform d (CallAddAsyncFriend q) = answer (\<lambda>_. RespEmpty) (addAsyncFriend d q)"
| "perform d (CallAddSyncFriend q) = answer (\<lambda>_. RespEmpty) (addSyncFriend d q)"
| "perform d CallGetOutgoingSyncInvitations = answer RespOutgoingSync (getOutgoingSyncInvitations d)"
| "perform d CallGetOutgoingAsyncInvitations = answer RespOutgoingAsync (getOutgoingAsyncInvitations d)"
| "perform d CallGetIncomingAsyncInvitations = answer RespIncomingAsync (getIncomingAsyncInvitations d)"
| "perform d (CallAcceptAsyncInvitation q) = answer (\<lambda>_. RespEmpty) (acceptAsyncInvitation d q)"
| "perform d (CallRejectAsyncInvitation q) = answer (\<lambda>_. RespEmpty) (rejectAsyncInvitation d q)"
| "perform d (CallCancelAsyncInvitation q) = answer (\<lambda>_. RespEmpty) (cancelAsyncInvitation d q)"
| "perform d (CallIsValidPublicID q) = answer RespValid (isValidPublicID d q)"
| "perform d CallGetMyPublicID = answer RespPublicID (getMyPublicID d)"

text \<open>
  The specification: the remote procedure a call stands for, what the client answers to a remote
  procedure, and what the call makes of that answer.
\<close>

fun rpc_of :: "daemonCall \<Rightarrow> rpc" where
  "rpc_of (CallSendMessage q) = RpcSendMessage q"
| "rpc_of CallGetStatus = RpcGetStatus"
| "rpc_of (CallGetMessages q) = RpcGetMessages q"
| "rpc_of CallGetOutboxMessages = RpcGetOutboxMessages"
| "rpc_of CallGetSentMessages = RpcGetSentMessages"
| "rpc_of (CallMessageSeen q) = RpcMessageSeen q"
| "rpc_of CallHasRegistered = RpcGetStatus"
| "rpc_of (CallRegisterUser q) = RpcRegisterUser q"
| "rpc_of CallGetFriendList = RpcGetFriendList"
| "rpc_of (CallRemoveFriend q) = RpcRemoveFriend q"
| "rpc_of (CallAddAsyncFriend q) = RpcAddAsyncFriend q"
| "rpc_of (CallAddSyncFriend q) = RpcAddSyncFriend q"
| "rpc_of CallGetOutgoingSyncInvitations = RpcGetOutgoingSyncInvitations"
| "rpc_of CallGetOutgoingAsyncInvitations = RpcGetOutgoingAsyncInvitations"
| "rpc_of CallGetIncomingAsyncInvitations = RpcGetIncomingAsyncInvitations"
| "rpc_of (CallAcceptAsyncInvitation q) = RpcAcceptAsyncInvitation q"
| "rpc_of (CallRejectAsyncInvitation q) = RpcRejectAsyncInvitation q"
| "rpc_of (CallCancelAsyncInvitation q) = RpcCancelAsyncInvitation q"
| "rpc_of (CallIsValidPublicID q) = RpcIsValidPublicID q"
| "rpc_of CallGetMyPublicID = RpcGetMyPublicID"

fun method_name :: "daemonCall \<Rightarrow> string" where
  "method_name (CallSendMessage q) = ''sendMessage''"
| "method_name CallGetStatus = ''getStatus''"
| "method_name (CallGetMessages q) = ''getMessages''"
| "method_name CallGetOutboxMessages = ''getOutboxMessages''"
| "method_name CallGetSentMessages = ''getSentMessages''"
| "method_name (CallMessageSeen q) = ''messageSeen''"
| "method_name CallHasRegistered = ''hasRegistered''"
| "method_name (CallRegisterUser q) = ''registerUser''"
| "method_name CallGetFriendList = ''getFriendList''"
| "method_name (CallRemoveFriend q) = ''removeFriend''"
| "method_name (CallAddAsyncFriend q) = ''addAsyncFriend''"
| "method_name (CallAddSyncFriend q) = ''addSyncFriend''"
| "method_name CallGetOutgoingSyncInvitations = ''getOutgoingSyncInvitations''"
| "method_name CallGetOutgoingAsyncInvitations = ''getOutgoingAsyncInvitations''"
| "method_name CallGetIncomingAsyncInvitations = ''getIncomingAsyncInvitations''"
| "method_name (CallAcceptAsyncInvitation q) = ''acceptAsyncInvitation''"
| "method_name (CallRejectAsyncInvitation q) = ''rejectAsyncInvitation''"
| "method_name (CallCancelAsyncInvitation q) = ''cancelAsyncInvitation''"
| "method_name (CallIsValidPublicID q) = ''isValidPublicID''"
| "method_name CallGetMyPublicID = ''getMyPublicID''"

definition wrap :: "('a \<Rightarrow> response) \<Rightarrow> 'a callback_result \<Rightarrow> response callback_result" where
  "wrap f r = (case r of Inl e \<Rightarrow> Inl e | Inr x \<Rightarrow> Inr (map_option f x))"

fun client_answer :: "daemonClient \<Rightarrow> rpc \<Rightarrow> response callback_result" where
  "client_answer c (RpcSendMessage q) = wrap (\<lambda>_. RespEmpty) (cl_sendMessage c q)"
| "client_answer c RpcGetStatus = wrap RespStatus (cl_getStatus c ())"
| "client_answer c (RpcGetMessages q) = wrap RespIncoming (cl_getMessages c q)"
| "client_answer c RpcGetOutboxMessages = wrap RespOutgoing (cl_getOutboxMessages c ())"
| "client_answer c RpcGetSentMessages = wrap RespOutgoing (cl_getSentMessages c ())"
| "client_answer c (RpcMessageSeen q) = wrap (\<lambda>_. RespEmpty) (cl_messageSeen c q)"
| "client_answer c (RpcRegisterUser q) = wrap (\<lambda>_. RespEmpty) (cl_registerUser c q)"
| "client_answer c RpcGetFriendList = wrap RespFriends (cl_getFriendList c ())"
| "client_answer c (RpcRemoveFriend q) = wrap (\<lambda>_. RespEmpty) (cl_removeFriend c q)"
| "client_answer c (RpcAddAsyncFriend q) = wrap (\<lambda>_. RespEmpty) (cl_addAsyncFriend c q)"
| "client_answer c (RpcAddSyncFriend q) = wrap (\<lambda>_. RespEmpty) (cl_addSyncFriend c q)"
| "client_answer c RpcGetOutgoingSyncInvitations = wrap RespOutgoingSync (cl_getOutgoingSyncInvitations c ())"
| "client_answer c RpcGetOutgoingAsyncInvitations = wrap RespOutgoingAsync (cl_getOutgoingAsyncInvitations c ())"
| "client_answer c RpcGetIncomingAsyncInvitations = wrap RespIncomingAsync (cl_getIncomingAsyncInvitations c ())"
| "client_answer c (RpcAcceptAsyncInvitation q) = wrap (\<lambda>_. RespEmpty) (cl_acceptAsyncInvitation c q)"
| "client_answer c (RpcRejectAsyncInvitation q) = wrap (\<lambda>_. RespEmpty) (cl_rejectAsyncInvitation c q)"
| "client_answer c (RpcCancelAsyncInvitation q) = wrap (\<lambda>_. RespEmpty) (cl_cancelAsyncInvitation c q)"
| "client_answer c (RpcIsValidPublicID q) = wrap RespValid (cl_isValidPublicID c q)"
| "client_answer c RpcGetMyPublicID = wrap RespPublicID (cl_getMyPublicID c ())"

fun call_result :: "daemonCall \<Rightarrow> response \<Rightarrow> response" where
  "call_result CallHasRegistered (RespStatus s) = RespBool (gs_registered s)"
| "call_result c r = r"

definition daemon_spec :: "daemonClient \<Rightarrow> daemonCall \<Rightarrow> js_error + response" where
  "daemon_spec cl c =
     (case client_answer cl (rpc_of c) of
        Inl e \<Rightarrow> Inl e
      | Inr None \<Rightarrow> Inl (JsError (method_name c @ '' returned undefined''))
      | Inr (Some r) \<Rightarrow> Inr (call_result c r))"

text \<open>The two calls that do not look at the mode.\<close>

fun ignores_fake :: "daemonCall \<Rightarrow> bool" where
  "ignores_fake (CallMessageSeen q) = True"
| "ignores_fake (CallRegisterUser q) = True"
| "ignores_fake c = False"

lemma answer_unary [simp]:
  "answer f (unary n q r post) =
     ([q], (case wrap (\<lambda>x. f (post x)) r of
              Inl e \<Rightarrow> Inl e
            | Inr None \<Rightarrow> Inl (JsError (n @ '' returned undefined''))
            | Inr (Some x) \<Rightarrow> Inr x))"
  by (auto simp: answer_def unary_def wrap_def split: sum.splits option.splits)

lemma answer_fake [simp]: "answer f ([], Inr x) = ([], Inr (f x))"
  by (simp add: answer_def)

lemma fake_new_subset:
  "fake_getMessages now FilterNEW = filter (\<lambda>m. \<not> im_seen m) (fake_getMessages now FilterALL)"
  by (simp add: fake_getMessages_def fake_incoming_def)

section \<open>The stream of messages\<close>

text \<open>
  A handler of message batches works on a state and may throw. In fake mode it is called once,
  before \<open>getMessagesStreamed\<close> returns, and what it throws reaches the caller. Otherwise a
  call is opened with the request, and the handler runs at each data event, where what it throws is
  caught; the other events are only logged.
\<close>

type_synonym 's message_handler = "incomingMessage list \<Rightarrow> 's \<Rightarrow> 's \<times> js_error option"

datatype streamEvent =
    StreamData "incomingMessage list"
  | StreamEnd
  | StreamError js_error
  | StreamStatus string

text \<open>
  The result: the state after the call, and the call that the returned function cancels, which is
  \<open>None\<close> in fake mode, or the exception.
\<close>

definition getMessagesStreamed ::
  "daemonImpl \<Rightarrow> getMessagesRequest \<Rightarrow> 's message_handler \<Rightarrow> 's \<Rightarrow>
   's \<times> (js_error + getMessagesRequest option)" where
  "getMessagesStreamed d q messageHandler s =
     (if di_fake d
      then (let (s', thrown) = messageHandler (fake_streamed (di_now d) (gm_filter q)) s
            in case thrown of Some e \<Rightarrow> (s', Inl e) | None \<Rightarrow> (s', Inr None))
      else (let request = new_getMessagesRequest\<lparr>gm_filter := gm_filter q\<rparr>
            in (s, Inr (Some request))))"

fun on_stream_event :: "'s message_handler \<Rightarrow> streamEvent \<Rightarrow> 's \<Rightarrow> 's" where
  "on_stream_event messageHandler (StreamData lm) s = fst (messageHandler lm s)"
| "on_stream_event messageHandler StreamEnd s = s"
| "on_stream_event messageHandler (StreamError e) s = s"
| "on_stream_event messageHandler (StreamStatus c) s = s"

definition run_stream :: "'s message_handler \<Rightarrow> streamEvent list \<Rightarrow> 's \<Rightarrow> 's" where
  "run_stream h evs s = fold (on_stream_event h) evs s"

fun stream_batches :: "streamEvent list \<Rightarrow> incomingMessage list list" where
  "stream_batches [] = []"
| "stream_batches (StreamData lm # evs) = lm # stream_batches evs"
| "stream_batches (ev # evs) = stream_batches evs"

lemma run_stream_batches:
  "run_stream h evs s = fold (\<lambda>lm s. fst (h lm s)) (stream_batches evs) s"
proof (induction evs arbitrary: s)
  case (Cons ev evs)
  then show ?case
    by (cases ev) (simp_all add: run_stream_def)
qed (simp add: run_stream_def)

section \<open>Properties\<close>

lemma perform_eq:
  assumes "\<not> di_fake d"
  shows "perform d c = ([rpc_of c], daemon_spec (di_client d) c)"
  using assms
  by (cases c)
    (auto simp: method_defs daemon_spec_def wrap_def Let_def split: sum.splits option.splits)

text \<open>
  C1. With the daemon, every call of the interface issues exactly one remote call, the one it stands
  for, with all the fields of the caller's request, and it answers as specified: the response, an
  error when the call fails, and an error naming the method when the response is undefined.
\<close>

theorem perform_real:
  assumes "\<not> di_fake d"
  shows "perform d c = ([rpc_of c], daemon_spec (di_client d) c)"
  using assms by (rule perform_eq)

text \<open>
  In fake mode every call succeeds without a remote call, except marking a message as seen and
  registering a user: these two contact the daemon all the same.
\<close>

theorem perform_fake:
  assumes "di_fake d"
  shows "(if ignores_fake c then perform d c = ([rpc_of c], daemon_spec (di_client d) c)
    else fst (perform d c) = [] \<and> (\<exists>r. snd (perform d c) = Inr r))"
  using assms
  by (cases c)
    (auto simp: method_defs daemon_spec_def wrap_def Let_def split: sum.splits option.splits)

text \<open>
  The built-in data is consistent: the new messages are the unseen ones among all messages,
  every message in the outbox waits for delivery, every sent message was delivered with a date, and
  message identifiers are distinct.
\<close>

theorem fake_data_consistent:
  "fake_getMessages now FilterNEW = filter (\<lambda>m. \<not> im_seen m) (fake_getMessages now FilterALL) \<and>
   distinct (map im_uid (fake_getMessages now FilterALL)) \<and>
   distinct (map im_uid (fake_streamed now flt)) \<and>
   list_all (\<lambda>m. list_all (\<lambda>f. \<not> of_delivered f \<and> of_deliveredAt f = None) (om_toFriendsList m)) (fake_outbox now) \<and>
   list_all (\<lambda>m. list_all (\<lambda>f. of_delivered f \<and> of_deliveredAt f \<noteq> None) (om_toFriendsList m)) (fake_sent now)"
  by (cases flt)
    (simp_all add: fake_getMessages_def fake_streamed_def fake_incoming_def fake_outbox_def fake_sent_def
      fake_outgoing_def)

text \<open>
  The streaming call. In fake mode the handler runs exactly once, on the built-in batch, and an
  exception of the handler is the caller's. With the daemon the handler runs on every batch that
  arrives, in order, and neither its exceptions nor the other events of the stream keep it from the
  next batch.
\<close>

theorem stream_delivers:
  "(if di_fake d
    then fst (getMessagesStreamed d q h s) = fst (h (fake_streamed (di_now d) (gm_filter q)) s) \<and>
      snd (getMessagesStreamed d q h s) =
        (case snd (h (fake_streamed (di_now d) (gm_filter q)) s) of Some e \<Rightarrow> Inl e | None \<Rightarrow> Inr None)
    else getMessagesStreamed d q h s = (s, Inr (Some q)) \<and>
      run_stream h evs s = fold (\<lambda>lm s. fst (h lm s)) (stream_batches evs) s)"
  by (auto simp: getMessagesStreamed_def run_stream_batches
      split: prod.splits option.splits)

text \<open>
  The truncation of the main process computes what the renderer's does, for every text and every
  limit, negative ones included, although one cuts with \<open>substring\<close> and the other with
  \<open>substr\<close>.
\<close>

theorem daemon_truncate_renderer: "daemon_truncate str n = Utils.truncate str n"
  by (rule daemon_truncate_eq)

section \<open>Witnesses\<close>

definition sample_client :: daemonClient where
  "sample_client =
     \<lparr>cl_registerUser = \<lambda>q. Inr (Some ()), cl_getStatus = \<lambda>q. Inr (Some fake_status),
      cl_getFriendList = \<lambda>q. Inr None, cl_removeFriend = \<lambda>q. Inr (Some ()),
      cl_addSyncFriend = \<lambda>q. Inr (Some ()), cl_addAsyncFriend = \<lambda>q. Inr (Some ()),
      cl_getOutgoingSyncInvitations = \<lambda>q. Inr (Some []), cl_getOutgoingAsyncInvitations = \<lambda>q. Inr (Some []),
      cl_getIncomingAsyncInvitations = \<lambda>q. Inr (Some []), cl_acceptAsyncInvitation = \<lambda>q. Inr (Some ()),
      cl_rejectAsyncInvitation = \<lambda>q. Inr (Some ()), cl_cancelAsyncInvitation = \<lambda>q. Inr (Some ()),
      cl_getMyPublicID = \<lambda>q. Inr (Some fake_publicId),
      cl_isValidPublicID = \<lambda>q. Inr (Some \<lparr>iv_valid = iv_publicId q \<noteq> []\<rparr>),
      cl_sendMessage = \<lambda>q. if sm_message q = [] then Inl (GrpcError ''empty'') else Inr (Some ()),
      cl_getMessages = \<lambda>q. Inr (Some []), cl_getOutboxMessages = \<lambda>q. Inr (Some []),
      cl_getSentMessages = \<lambda>q. Inr (Some []), cl_messageSeen = \<lambda>q. Inr (Some ())\<rparr>"

definition sample_daemon :: "bool \<Rightarrow> daemonImpl" where
  "sample_daemon fake = \<lparr>di_fake = fake, di_now = 1650000000000, di_client = sample_client\<rparr>"

theorem perform_real_witness:
  "snd (perform (sample_daemon False) CallGetFriendList) = Inl (JsError ''getFriendList returned undefined'') \<and>
   snd (perform (sample_daemon False) (CallSendMessage \<lparr>sm_uniqueNameList = [''bob''], sm_message = []\<rparr>))
     = Inl (GrpcError ''empty'')"
  using perform_real [of "sample_daemon False" CallGetFriendList]
    perform_real [of "sample_daemon False" "CallSendMessage \<lparr>sm_uniqueNameList = [''bob''], sm_message = []\<rparr>"]
  by (simp add: sample_daemon_def sample_client_def daemon_spec_def wrap_def)

theorem perform_fake_witness:
  "fst (perform (sample_daemon True) (CallMessageSeen \<lparr>ms_id = 7\<rparr>)) = [RpcMessageSeen \<lparr>ms_id = 7\<rparr>] \<and>
   fst (perform (sample_daemon True) CallGetMyPublicID) = []"
  using perform_fake [of "sample_daemon True" "CallMessageSeen \<lparr>ms_id = 7\<rparr>"]
    perform_fake [of "sample_daemon True" CallGetMyPublicID]
  by (simp add: sample_daemon_def)

end
