(* ===== verification/MainProcess.thy ===== *)
theory MainProcess imports Daemon begin

text \<open>
  The main process in \<open>main/main.ts\<close>, with \<open>main/util.ts\<close> and
  \<open>main/preload.ts\<close>: starting the daemon that fits the release, the window and its
  addresses, notifications for arriving messages, the application's events and what the preload
  script gives to the renderer. Shell commands and file writes are actions; whether one succeeds is
  decided by a parameter \<open>sys\<close> that sees everything done before. The abstract specification
  of the start of the daemon is a script: a list of actions, each with a policy for its failure.
\<close>

section \<open>Actions, failure and exit\<close>

datatype action = Exec string | WriteFile string string

text \<open>An action fails, or it succeeds with what the command printed on its error stream.\<close>

datatype action_result = ActionFails js_error | ActionOk string

type_synonym system = "action list \<Rightarrow> action \<Rightarrow> action_result"

datatype 'a outcome = Returns 'a | Throws js_error | Exits int

type_synonym 'a io = "action list \<Rightarrow> 'a outcome \<times> action list"

definition io_return :: "'a \<Rightarrow> 'a io" where
  "io_return x tr = (Returns x, tr)"

definition io_throw :: "js_error \<Rightarrow> 'a io" where
  "io_throw e tr = (Throws e, tr)"

definition io_exit :: "int \<Rightarrow> 'a io" where
  "io_exit n tr = (Exits n, tr)"

definition io_bind :: "'a io \<Rightarrow> ('a \<Rightarrow> 'b io) \<Rightarrow> 'b io" where
  "io_bind m f tr =
     (case m tr of
        (Returns x, tr') \<Rightarrow> f x tr'
      | (Throws e, tr') \<Rightarrow> (Throws e, tr')
      | (Exits n, tr') \<Rightarrow> (Exits n, tr'))"

definition io_then :: "'a io \<Rightarrow> 'b io \<Rightarrow> 'b io" where
  "io_then m k = io_bind m (\<lambda>_. k)"

text \<open>\<open>try m catch \{\}\<close>: a thrown error is ignored, the end of the process is not.\<close>

definition io_ignore :: "'a io \<Rightarrow> unit io" where
  "io_ignore m tr =
     (case m tr of
        (Returns x, tr') \<Rightarrow> (Returns (), tr')
      | (Throws e, tr') \<Rightarrow> (Returns (), tr')
      | (Exits n, tr') \<Rightarrow> (Exits n, tr'))"

definition io_lift :: "js_error + 'a \<Rightarrow> 'a io" where
  "io_lift r = (case r of Inl e \<Rightarrow> io_throw e | Inr x \<Rightarrow> io_return x)"

text \<open>The promise of \<open>exec\<close> or of \<open>writeFile\<close>; its value is the error stream.\<close>

definition act :: "system \<Rightarrow> action \<Rightarrow> string io" where
  "act sys a tr =
     (case sys tr a of
        ActionFails e \<Rightarrow> (Throws e, tr @ [a])
      | ActionOk err \<Rightarrow> (Returns err, tr @ [a]))"

text \<open>\<open>if (response.stderr) exit(1)\<close>.\<close>

definition exit_on_stderr :: "string \<Rightarrow> unit io" where
  "exit_on_stderr err = (if err \<noteq> [] then io_exit 1 else io_return ())"

lemmas io_defs =
  io_return_def io_throw_def io_exit_def io_bind_def io_then_def io_ignore_def io_lift_def act_def
  exit_on_stderr_def

section \<open>Paths\<close>

text \<open>\<open>path.dirname\<close>: everything before the last slash that is not a trailing one.\<close>

definition path_dirname :: "string \<Rightarrow> string" where
  "path_dirname p =
     (case p of
        [] \<Rightarrow> ''.''
      | c # r \<Rightarrow>
          (let u = dropWhile (\<lambda>x. x \<noteq> CHR ''/'') (dropWhile (\<lambda>x. x = CHR ''/'') (rev r))
           in if u = [] then (if c = CHR ''/'' then ''/'' else ''.'')
              else if c = CHR ''/'' \<and> length u = 1 then ''//''
              else c # rev (tl u)))"

text \<open>\<open>path.resolve\<close>: from the right up to the first absolute part, then normalised.\<close>

definition path_resolve :: "string \<Rightarrow> string list \<Rightarrow> string" where
  "path_resolve cwd parts =
     (let full = foldl (\<lambda>acc p. if p = [] then acc else if hd p = CHR ''/'' then p else acc @ ''/'' @ p)
                   cwd parts;
          q = js_join ''/'' (norm_segments False [] (js_split full ''/''))
      in ''/'' @ q)"

section \<open>Configuration of the process\<close>

definition isDevelopment :: "environment \<Rightarrow> bool" where
  "isDevelopment env \<longleftrightarrow>
     env ''NODE_ENV'' = Some ''development'' \<or> env ''DEBUG_PROD'' = Some ''true''"

text \<open>
  The arguments of \<open>app.setAsDefaultProtocolClient\<close>, if it is called: the protocol and, for
  a default app, the executable with the script it runs.
\<close>

definition protocolClient ::
  "bool \<Rightarrow> string list \<Rightarrow> string \<Rightarrow> string \<Rightarrow> (string \<times> (string \<times> string list) option) option" where
  "protocolClient defaultApp argv execPath cwd =
     (if defaultApp
      then (if 2 \<le> length argv
            then Some (''anysphere'', Some (execPath, [path_resolve cwd [argv ! 1]])) else None)
      else Some (''anysphere'', None))"

text \<open>
  \<open>setupLogger\<close>: the directory of the logs, and the files of the log outside development;
  \<open>None\<close> when the process exits.
\<close>

definition setupLogger :: "environment \<Rightarrow> (string \<times> (string \<times> string) option) option" where
  "setupLogger env =
     (let logPath =
            (case env ''XDG_CACHE_HOME'' of
               Some d \<Rightarrow> Some (path_join [d, ''anysphere'', ''logs''])
             | None \<Rightarrow>
                 (case env ''HOME'' of
                    Some h \<Rightarrow> Some (path_join [h, ''.anysphere'', ''cache'', ''logs''])
                  | None \<Rightarrow> None))
      in case logPath of
           None \<Rightarrow> None
         | Some l \<Rightarrow>
             Some (l, if isDevelopment env then None
                      else Some (path_join [l, ''anysphere-gui.log''], path_join [l, ''anysphere-gui.err''])))"

section \<open>Starting the daemon\<close>

text \<open>
  The environment of the process: its variables, the platform, and where \<open>app.getPath\<close> puts
  the logs.
\<close>

record process =
  pr_env :: environment
  pr_platform :: string
  pr_logs :: string

definition startDarwin :: "system \<Rightarrow> process \<Rightarrow> string \<Rightarrow> unit io" where
  "startDarwin sys p pkgPath =
     (case PLIST_PATH (pr_platform p) (pr_env p) of
        None \<Rightarrow> io_exit 1
      | Some plistPath \<Rightarrow>
          io_then (act sys (Exec (''mkdir -p '' @ path_dirname plistPath)))
         (io_then (io_ignore (act sys (Exec (''launchctl unload '' @ plistPath))))
         (io_then (act sys (WriteFile plistPath (PLIST_CONTENTS pkgPath (pr_logs p))))
         (io_bind (act sys (Exec (''launchctl load '' @ plistPath))) exit_on_stderr))))"

definition startLinux :: "system \<Rightarrow> process \<Rightarrow> unit io" where
  "startLinux sys p =
     (case pr_env p ''APPDIR'' of
        None \<Rightarrow> io_exit 1
      | Some appdir \<Rightarrow>
          io_bind (io_lift (getConfigDir (pr_env p))) (\<lambda>configDir.
            let daemonPath = path_join [appdir, ''resources'', ''x64'', ''anysphered''];
                newDaemonPath = path_join [configDir, ''anysphered''];
                cliPath = path_join [appdir, ''resources'', ''x64'', ''anysphere''];
                newCliPath = path_join [configDir, ''anysphere''];
                servicePath = path_join [configDir, ''co.anysphere.anysphered.service'']
            in io_then (act sys (Exec (''mkdir -p '' @ configDir)))
              (io_then (act sys (Exec (''cp '' @ daemonPath @ '' '' @ newDaemonPath)))
              (io_then (act sys (Exec (''cp '' @ cliPath @ '' '' @ newCliPath)))
              (io_then (act sys (Exec (''chmod u+w '' @ newDaemonPath)))
              (io_then (act sys (Exec (''chmod u+w '' @ newCliPath)))
              (io_then (act sys (Exec (''mkdir -p '' @ path_dirname servicePath)))
              (io_then (io_ignore (act sys (Exec ''systemctl stop --user co.anysphere.anysphered.service'')))
              (io_then (act sys (WriteFile servicePath (SYSTEMD_UNIT_CONTENTS configDir (pr_logs p))))
              (io_then (act sys (Exec ''systemctl --user daemon-reload''))
              (io_then (io_bind (act sys (Exec (''systemctl enable --now --user '' @ servicePath))) exit_on_stderr)
              (io_bind (act sys (Exec ''systemctl start --user co.anysphere.anysphered.service''))
                 exit_on_stderr))))))))))))"

text \<open>
  \<open>status\<close> is what \<open>daemon.getStatus\<close> answers. On another platform nothing is done.
\<close>

definition startDaemonIfNeeded ::
  "system \<Rightarrow> process \<Rightarrow> js_error + getStatusResponse \<Rightarrow> string \<Rightarrow> unit io" where
  "startDaemonIfNeeded sys p status pkgPath =
     (let problem =
            (case status of
               Inl e \<Rightarrow> Some e
             | Inr s \<Rightarrow>
                 (if gs_releaseHash s \<noteq> RELEASE_COMMIT_HASH
                  then Some (JsError ''incorrect release hash'') else None))
      in case problem of
           None \<Rightarrow> io_return ()
         | Some e \<Rightarrow>
             (if isDevelopment (pr_env p) then io_return ()
              else if pr_platform p = ''darwin'' then startDarwin sys p pkgPath
              else if pr_platform p = ''linux'' then startLinux sys p
              else io_return ()))"

text \<open>
  The specification: a script is a list of actions with policies. \<open>MustSucceed\<close> gives up
  when the action fails, \<open>MayFail\<close> goes on, and \<open>MustBeSilent\<close> also ends the
  process when the action wrote on its error stream.
\<close>

datatype policy = MustSucceed | MayFail | MustBeSilent

fun run_script :: "system \<Rightarrow> (action \<times> policy) list \<Rightarrow> unit io" where
  "run_script sys [] tr = (Returns (), tr)"
| "run_script sys ((a, pol) # rest) tr =
     (case sys tr a of
        ActionFails e \<Rightarrow>
          (if pol = MayFail then run_script sys rest (tr @ [a]) else (Throws e, tr @ [a]))
      | ActionOk err \<Rightarrow>
          (if pol = MustBeSilent \<and> err \<noteq> [] then (Exits 1, tr @ [a])
           else run_script sys rest (tr @ [a])))"

definition darwin_script :: "string \<Rightarrow> string \<Rightarrow> string \<Rightarrow> (action \<times> policy) list" where
  "darwin_script plistPath pkgPath logs =
     [(Exec (''mkdir -p '' @ path_dirname plistPath), MustSucceed),
      (Exec (''launchctl unload '' @ plistPath), MayFail),
      (WriteFile plistPath (PLIST_CONTENTS pkgPath logs), MustSucceed),
      (Exec (''launchctl load '' @ plistPath), MustBeSilent)]"

definition linux_script :: "string \<Rightarrow> string \<Rightarrow> string \<Rightarrow> (action \<times> policy) list" where
  "linux_script appdir configDir logs =
     [(Exec (''mkdir -p '' @ configDir), MustSucceed),
      (Exec (''cp '' @ path_join [appdir, ''resources'', ''x64'', ''anysphered''] @ '' ''
         @ path_join [configDir, ''anysphered'']), MustSucceed),
      (Exec (''cp '' @ path_join [appdir, ''resources'', ''x64'', ''anysphere''] @ '' ''
         @ path_join [configDir, ''anysphere'']), MustSucceed),
      (Exec (''chmod u+w '' @ path_join [configDir, ''anysphered'']), MustSucceed),
      (Exec (''chmod u+w '' @ path_join [configDir, ''anysphere'']), MustSucceed),
      (Exec (''mkdir -p '' @ path_dirname (path_join [configDir, ''co.anysphere.anysphered.service''])), MustSucceed),
      (Exec ''systemctl stop --user co.anysphere.anysphered.service'', MayFail),
      (WriteFile (path_join [configDir, ''co.anysphere.anysphered.service'']) (SYSTEMD_UNIT_CONTENTS configDir logs), MustSucceed),
      (Exec ''systemctl --user daemon-reload'', MustSucceed),
      (Exec (''systemctl enable --now --user '' @ path_join [configDir, ''co.anysphere.anysphered.service'']), MustBeSilent),
      (Exec ''systemctl start --user co.anysphere.anysphered.service'', MustBeSilent)]"

lemma run_script_step:
  "run_script sys ((a, MustSucceed) # rest) = io_then (act sys a) (run_script sys rest)"
  "run_script sys ((a, MayFail) # rest) = io_then (io_ignore (act sys a)) (run_script sys rest)"
  "run_script sys ((a, MustBeSilent) # rest)
   = io_then (io_bind (act sys a) exit_on_stderr) (run_script sys rest)"
  by (rule ext, simp add: io_defs split: action_result.splits)+

lemma run_script_Nil: "run_script sys [] = io_return ()"
  by (rule ext) (simp add: io_return_def)

lemma io_then_unit [simp]: "io_then m (io_return ()) = m"
proof
  fix tr
  show "io_then m (io_return ()) tr = m tr"
    by (cases "m tr"; cases "fst (m tr)") (auto simp: io_defs)
qed

lemma startDarwin_script:
  "startDarwin sys p pkgPath =
     (case PLIST_PATH (pr_platform p) (pr_env p) of
        None \<Rightarrow> io_exit 1
      | Some plistPath \<Rightarrow> run_script sys (darwin_script plistPath pkgPath (pr_logs p)))"
  by (simp add: startDarwin_def darwin_script_def run_script_step run_script_Nil split: option.splits)

lemma io_bind_lift [simp]:
  "io_bind (io_lift (Inl e)) f = io_throw e"
  "io_bind (io_lift (Inr x)) f = f x"
  by (rule ext, simp add: io_defs)+

lemma startLinux_script:
  "startLinux sys p =
     (case pr_env p ''APPDIR'' of
        None \<Rightarrow> io_exit 1
      | Some appdir \<Rightarrow>
          (case getConfigDir (pr_env p) of
             Inl e \<Rightarrow> io_throw e
           | Inr configDir \<Rightarrow> run_script sys (linux_script appdir configDir (pr_logs p))))"
  by (simp add: startLinux_def linux_script_def run_script_step run_script_Nil Let_def
      split: option.splits sum.splits)

text \<open>
  A script performs a prefix of its actions, all of them when it returns; it ends the process only
  at an action that must be silent, and fails only at one that must succeed.
\<close>

lemma run_script_prefix:
  "\<exists>n. snd (run_script sys sc tr) = tr @ take n (map fst sc) \<and>
     (fst (run_script sys sc tr) = Returns () \<longrightarrow> n = length sc) \<and>
     (fst (run_script sys sc tr) \<noteq> Returns () \<longrightarrow> 0 < n \<and> n \<le> length sc \<and> snd (sc ! (n - 1)) \<noteq> MayFail)"
proof (induction sc arbitrary: tr)
  case (Cons st rest)
  obtain a pol where st: "st = (a, pol)" by (cases st) simp
  obtain n where n: "snd (run_script sys rest (tr @ [a])) = (tr @ [a]) @ take n (map fst rest)"
      "fst (run_script sys rest (tr @ [a])) = Returns () \<longrightarrow> n = length rest"
      "fst (run_script sys rest (tr @ [a])) \<noteq> Returns () \<longrightarrow>
         0 < n \<and> n \<le> length rest \<and> snd (rest ! (n - 1)) \<noteq> MayFail"
    using Cons.IH [of "tr @ [a]"] by blast
  show ?case
  proof (cases "run_script sys (st # rest) tr = run_script sys rest (tr @ [a])")
    case True
    then show ?thesis
      using n st by (intro exI [of _ "Suc n"]) (auto simp: nth_Cons')
  next
    case False
    then show ?thesis
      using st by (intro exI [of _ 1]) (auto split: action_result.splits if_splits)
  qed
qed simp

text \<open>When every action succeeds silently, the whole script runs.\<close>

lemma run_script_ok:
  "(\<And>tr a. sys tr a = ActionOk []) \<Longrightarrow> run_script sys sc tr = (Returns (), tr @ map fst sc)"
  by (induction sc arbitrary: tr) auto

section \<open>Notifications\<close>

text \<open>
  The handler's closure variable \<open>firstTime\<close>, and the notifications shown so far, each with
  its title and its body.
\<close>

record notifier =
  nt_firstTime :: bool
  nt_shown :: "(string \<times> string) list"

definition notification :: "incomingMessage \<Rightarrow> string \<times> string" where
  "notification m = (im_fromDisplayName m, daemon_truncate (im_message m) 50)"

definition notify :: "notifier message_handler" where
  "notify messages s =
     (if nt_firstTime s then (s\<lparr>nt_firstTime := False\<rparr>, None)
      else (s\<lparr>nt_shown := nt_shown s @ map notification messages\<rparr>, None))"

definition registerForNotifications ::
  "daemonImpl \<Rightarrow> notifier \<times> (js_error + getMessagesRequest option)" where
  "registerForNotifications d =
     getMessagesStreamed d \<lparr>gm_filter = FilterNEW\<rparr> notify \<lparr>nt_firstTime = True, nt_shown = []\<rparr>"

lemma fold_notify:
  "\<not> nt_firstTime s \<Longrightarrow>
   nt_shown (fold (\<lambda>lm s. fst (notify lm s)) batches s) = nt_shown s @ map notification (concat batches)"
  by (induction batches arbitrary: s) (simp_all add: notify_def)

lemma notify_first [simp]:
  "notify lm \<lparr>nt_firstTime = True, nt_shown = xs\<rparr> = (\<lparr>nt_firstTime = False, nt_shown = xs\<rparr>, None)"
  by (simp add: notify_def)

lemma notifications_of_batches:
  "nt_shown (fold (\<lambda>lm s. fst (notify lm s)) batches \<lparr>nt_firstTime = True, nt_shown = []\<rparr>)
   = map notification (concat (tl batches))"
  by (cases batches) (simp_all add: fold_notify)

section \<open>Addresses of the window\<close>

text \<open>
  The setter of \<open>url.pathname\<close> for a file name without slashes: tabs and line breaks are
  dropped, and the characters of the path percent-encode set are encoded, the question mark and the
  number sign among them.
\<close>

definition percent_encoded :: "char \<Rightarrow> bool" where
  "percent_encoded c \<longleftrightarrow>
     (let n = of_char c :: nat
      in n \<le> 32 \<or> 127 \<le> n \<or> n = 34 \<or> n = 35 \<or> n = 60 \<or> n = 62 \<or> n = 63 \<or> n = 96 \<or> n = 123 \<or> n = 125)"

definition js_upper_hex :: "nat \<Rightarrow> string" where
  "js_upper_hex n =
     (let d = (\<lambda>k. ''0123456789ABCDEF'' ! k) in [d (n div 16 mod 16), d (n mod 16)])"

text \<open>Beyond ASCII the two bytes of the UTF-8 encoding are printed.\<close>

definition percent_encode :: "char \<Rightarrow> string" where
  "percent_encode c =
     (let n = of_char c :: nat
      in if \<not> percent_encoded c then [c]
         else if n < 128 then ''%'' @ js_upper_hex n
         else ''%'' @ js_upper_hex (192 + n div 64) @ ''%'' @ js_upper_hex (128 + n mod 64))"

definition url_pathname :: "string \<Rightarrow> string" where
  "url_pathname name =
     concat (map percent_encode (filter (\<lambda>c. (of_char c :: nat) \<notin> {9, 10, 13}) name))"

text \<open>
  \<open>main/util.ts\<close>; \<open>dirname\<close> is the directory of the compiled script. An empty
  \<open>PORT\<close> counts as unset.
\<close>

definition resolveHtmlPath :: "environment \<Rightarrow> string \<Rightarrow> string \<Rightarrow> string" where
  "resolveHtmlPath env dirname htmlFileName =
     (if env ''NODE_ENV'' = Some ''development''
      then (let port = (case env ''PORT'' of Some p \<Rightarrow> if p = [] then ''1212'' else p | None \<Rightarrow> ''1212'')
            in ''http://localhost:'' @ port @ ''/'' @ url_pathname htmlFileName)
      else ''file://'' @ path_resolve dirname [''../renderer/'', htmlFileName])"

section \<open>The window\<close>

text \<open>The window that \<open>createWindow\<close> makes: its options, its address and its menu.\<close>

record mainWindow =
  mw_shown :: bool
  mw_width :: int
  mw_minWidth :: int
  mw_minHeight :: int
  mw_height :: int
  mw_backgroundColor :: string
  mw_icon :: string
  mw_titleBarStyle :: string
  mw_preload :: string
  mw_url :: string
  mw_offline :: bool

text \<open>What is known of the packaging: \<open>app.isPackaged\<close> and the two directories.\<close>

record packaging =
  pk_isPackaged :: bool
  pk_resourcesPath :: string
  pk_dirname :: string

definition createWindow :: "environment \<Rightarrow> packaging \<Rightarrow> string option \<Rightarrow> mainWindow" where
  "createWindow env pk publicID =
     (let resources = (if pk_isPackaged pk then path_join [pk_resourcesPath pk, ''assets'']
                       else path_join [pk_dirname pk, ''../../assets'']);
          loadURL = (case publicID of
                       None \<Rightarrow> resolveHtmlPath env (pk_dirname pk) ''index.html''
                     | Some i \<Rightarrow> resolveHtmlPath env (pk_dirname pk) (''index.html?publicID='' @ i))
      in \<lparr>mw_shown = False, mw_width = 1024, mw_minWidth = 200, mw_minHeight = 200, mw_height = 728,
          mw_backgroundColor = ''#F9F7F1'', mw_icon = path_join [resources, ''icon.png''],
          mw_titleBarStyle = ''hidden'',
          mw_preload = (if pk_isPackaged pk then path_join [pk_dirname pk, ''preload.js'']
                        else path_join [pk_dirname pk, ''../../helpers/dll/preload.js'']),
          mw_url = loadURL, mw_offline = True\<rparr>)"

definition onReadyToShow :: "environment \<Rightarrow> mainWindow \<Rightarrow> mainWindow" where
  "onReadyToShow env w =
     (if env ''START_MINIMIZED'' = Some ''true'' then w else w\<lparr>mw_shown := True\<rparr>)"

definition onHeadersReceived :: "(string \<Rightarrow> string list option) \<Rightarrow> (string \<Rightarrow> string list option)" where
  "onHeadersReceived headers =
     headers(''Content-Security-Policy'' \<mapsto>
       [''default-src 'self'; style-src 'self' 'unsafe-inline'' @ [CHR 0x27]])"

section \<open>Events of the application\<close>

datatype appAction =
    SetLogsPath string
  | CheckForUpdates
  | StartDaemonIfNeeded string
  | CreateWindow mainWindow
  | LoadURL string
  | RegisterForNotifications
  | CancelNotifications
  | Quit
  | OpenExternal string
  | ExitProcess

definition onWindowAllClosed :: "string \<Rightarrow> appAction list" where
  "onWindowAllClosed platform = (if platform \<noteq> ''darwin'' then [Quit] else [])"

definition onActivate :: "environment \<Rightarrow> packaging \<Rightarrow> nat \<Rightarrow> appAction list" where
  "onActivate env pk windows = (if windows = 0 then [CreateWindow (createWindow env pk None)] else [])"

text \<open>The navigation is prevented (the Boolean), and the address opened outside.\<close>

definition onWillNavigate :: "string \<Rightarrow> bool \<times> appAction list" where
  "onWillNavigate url = (True, [OpenExternal url])"

definition onOpenUrl :: "environment \<Rightarrow> packaging \<Rightarrow> nat \<Rightarrow> string \<Rightarrow> appAction list" where
  "onOpenUrl env pk windows url =
     (let publicID = last (js_split url ''/'')
      in if windows = 0 then [CreateWindow (createWindow env pk (Some publicID))]
         else [LoadURL (resolveHtmlPath env (pk_dirname pk) (''index.html?publicID='' @ publicID))])"

text \<open>
  The listing of the AppImage: the directories it reads, where reading one may throw. The names it
  prints are not kept.
\<close>

fun for_each :: "'a list \<Rightarrow> ('a \<Rightarrow> js_error + unit) \<Rightarrow> js_error + unit" where
  "for_each [] f = Inr ()"
| "for_each (x # xs) f = bind_result (f x) (\<lambda>_. for_each xs f)"

definition listAppDir :: "(string \<Rightarrow> js_error + string list) \<Rightarrow> string \<Rightarrow> js_error + unit" where
  "listAppDir readdir appdir =
     bind_result (readdir appdir) (\<lambda>files. for_each files (\<lambda>f.
       if f = ''resources''
       then bind_result (readdir (path_join [appdir, f])) (\<lambda>rs. for_each rs (\<lambda>r.
              if r = ''x64''
              then bind_result (readdir (path_join [appdir, f, r])) (\<lambda>x. Inr ())
              else Inr ()))
       else Inr ()))"

text \<open>
  The continuation of \<open>whenReady\<close>. What \<open>startDaemonIfNeeded\<close> and \<open>createWindow\<close>
  start is not awaited; an exception before them is only logged and nothing else happens.
\<close>

definition onReady ::
  "process \<Rightarrow> packaging \<Rightarrow> (string \<Rightarrow> js_error + string list) \<Rightarrow> string \<Rightarrow> appAction list" where
  "onReady p pk readdir appPath =
     (case setupLogger (pr_env p) of
        None \<Rightarrow> [ExitProcess]
      | Some (logs, files) \<Rightarrow>
          (let listing = (if pr_platform p = ''linux''
                          then (case pr_env p ''APPDIR'' of
                                  Some appdir \<Rightarrow> listAppDir readdir appdir
                                | None \<Rightarrow> Inr ())
                          else Inr ())
           in SetLogsPath logs #
              (case listing of
                 Inl e \<Rightarrow> []
               | Inr _ \<Rightarrow> [CheckForUpdates, StartDaemonIfNeeded (path_dirname appPath),
                           CreateWindow (createWindow (pr_env p) pk None), RegisterForNotifications])))"

section \<open>What the renderer sees\<close>

text \<open>The names of the prototype of \<open>DaemonImpl\<close>, in the order of the class.\<close>

definition DaemonImpl_names :: "string list" where
  "DaemonImpl_names =
     [''constructor'', ''sendMessage'', ''getStatus'', ''getMessages'', ''getMessagesStreamed'',
      ''getOutboxMessages'', ''getSentMessages'', ''messageSeen'', ''hasRegistered'', ''registerUser'',
      ''getFriendList'', ''removeFriend'', ''addAsyncFriend'', ''addSyncFriend'',
      ''getOutgoingSyncInvitations'', ''getOutgoingAsyncInvitations'', ''getIncomingAsyncInvitations'',
      ''acceptAsyncInvitation'', ''rejectAsyncInvitation'', ''cancelAsyncInvitation'',
      ''isValidPublicID'', ''getMyPublicID'']"

definition isPlatformMac :: "string \<Rightarrow> bool" where
  "isPlatformMac platform \<longleftrightarrow> platform = ''darwin''"

definition exposed_names :: "string list" where
  "exposed_names =
     [''copyToClipboard'', ''isPlatformMac''] @ filter (\<lambda>x. x \<noteq> ''constructor'') DaemonImpl_names"

section \<open>Lemmas on paths and addresses\<close>

lemma norm_segments_append:
  "\<forall>s \<in> set ss. clean_segment s \<Longrightarrow>
   norm_segments up acc (ss @ ts) = norm_segments up (rev ss @ acc) ts"
  by (induction ss arbitrary: acc) (auto simp: clean_segment_def)

lemma clean_path_hd: "ss \<noteq> [] \<Longrightarrow> clean_path ss \<noteq> [] \<and> hd (clean_path ss) = CHR ''/''"
  by (cases ss) (auto simp: clean_path_def)

text \<open>Resolving a page from the directory of the scripts goes to its sibling \<open>renderer\<close>.\<close>

lemma path_resolve_renderer:
  assumes "ss \<noteq> []" and "\<forall>s \<in> set ss. clean_segment s" and "clean_segment f"
  shows "path_resolve (clean_path ss) [''../renderer/'', f] = clean_path (butlast ss @ [''renderer'', f])"
proof -
  obtain ts t where ss: "ss = ts @ [t]"
    using assms(1) by (cases ss rule: rev_cases) auto
  have t: "clean_segment t" and ts: "\<forall>s \<in> set ts. clean_segment s"
    using assms(2) ss by simp_all
  obtain g r where f: "f = g # r" "g \<noteq> CHR ''/''"
    using assms(3) by (cases f) (auto simp: clean_segment_def)
  have "clean_path ss @ ''/../renderer/'' @ ''/'' @ f = js_join ''/'' ([] # ss @ [''..'', ''renderer'', [], f])"
    using clean_path_join [of "ss @ [''..'', ''renderer'', [], f]"] by (simp add: clean_path_def)
  moreover have "js_split (js_join ''/'' ([] # ss @ [''..'', ''renderer'', [], f])) ''/''
      = [] # ss @ [''..'', ''renderer'', [], f]"
    by (rule js_split_join) (use assms in \<open>auto simp: clean_segment_def\<close>)
  moreover have "norm_segments False [] ([] # ss @ [''..'', ''renderer'', [], f]) = ts @ [''renderer'', f]"
  proof -
    have "norm_segments False [] ([] # ss @ [''..'', ''renderer'', [], f])
        = norm_segments False (rev ss) [''..'', ''renderer'', [], f]"
      using norm_segments_append [OF assms(2), of False "[]"] by simp
    then show ?thesis
      using t ts assms(3) by (simp add: ss clean_segment_def)
  qed
  ultimately show ?thesis
    using f clean_path_join [of "ts @ [''renderer'', f]"]
    by (simp add: path_resolve_def Let_def ss js_join_Cons)
qed

lemma last_js_split_from:
  "CHR ''/'' \<notin> set i \<Longrightarrow> last (js_split_from ''/'' acc (u @ ''/'' @ i)) = i"
proof (induction u arbitrary: acc)
  case Nil
  have "js_split_from ''/'' acc (''/'' @ i) = rev acc # js_split_from ''/'' [] i"
    by (rule js_split_from_sep) simp
  moreover have "js_split_from ''/'' [] i = [i]"
    using js_split_from_piece [of "''/''" "CHR ''/''" "[]" i "[]" "[]"] Nil
    by (simp add: js_split_from_end)
  ultimately show ?case by simp
next
  case (Cons c u)
  show ?case
  proof (cases "c = CHR ''/''")
    case True
    then have "js_split_from ''/'' acc ((c # u) @ ''/'' @ i) = rev acc # js_split_from ''/'' [] (u @ ''/'' @ i)"
      using js_split_from_sep [of "''/''" acc "u @ ''/'' @ i"] by simp
    with Cons show ?thesis by (simp add: js_split_from_nonempty)
  next
    case False
    then have "js_split_from ''/'' acc ((c # u) @ ''/'' @ i) = js_split_from ''/'' (c # acc) (u @ ''/'' @ i)"
      by (subst js_split_from.simps) (simp add: js_startsWith_def)
    with Cons show ?thesis by simp
  qed
qed

lemma last_segment: "CHR ''/'' \<notin> set i \<Longrightarrow> last (js_split (u @ ''/'' @ i) ''/'') = i"
  using last_js_split_from [of i "[]" u] by (simp add: js_split_def)

lemma js_upper_hex_set: "set (js_upper_hex n) \<subseteq> set ''0123456789ABCDEF''"
proof -
  define X where "X = ''0123456789ABCDEF''"
  have hex: "js_upper_hex n = [X ! (n div 16 mod 16), X ! (n mod 16)]"
    unfolding js_upper_hex_def Let_def X_def by (rule refl)
  have len: "length X = 16"
    by (simp add: X_def)
  have "X ! (n div 16 mod 16) \<in> set X" "X ! (n mod 16) \<in> set X"
    by (rule nth_mem, simp add: len)+
  then show ?thesis
    unfolding hex X_def [symmetric] by simp
qed

lemma percent_encode_no_query: "CHR ''?'' \<notin> set (percent_encode c)"
proof -
  have "CHR ''?'' \<notin> set (js_upper_hex n)" for n
    using js_upper_hex_set [of n] by auto
  then show ?thesis
    by (auto simp: percent_encode_def percent_encoded_def Let_def)
qed

lemma url_pathname_no_query: "CHR ''?'' \<notin> set (url_pathname name)"
  using percent_encode_no_query by (auto simp: url_pathname_def)

section \<open>Properties\<close>

text \<open>
  C2. The start of the daemon implements its specification. Nothing is done when the daemon runs
  with the commit of this release, nor in development. Otherwise the actions are those of the
  platform's script with its failure policies; the process exits when \<open>HOME\<close> or
  \<open>APPDIR\<close> is missing, and another platform does nothing.
\<close>

theorem startDaemon_refines:
  "startDaemonIfNeeded sys p status pkgPath =
     (if (\<exists>s. status = Inr s \<and> gs_releaseHash s = RELEASE_COMMIT_HASH) \<or> isDevelopment (pr_env p)
      then io_return ()
      else if pr_platform p = ''darwin''
      then (case PLIST_PATH ''darwin'' (pr_env p) of
              None \<Rightarrow> io_exit 1
            | Some plistPath \<Rightarrow> run_script sys (darwin_script plistPath pkgPath (pr_logs p)))
      else if pr_platform p = ''linux''
      then (case pr_env p ''APPDIR'' of
              None \<Rightarrow> io_exit 1
            | Some appdir \<Rightarrow>
                (case getConfigDir (pr_env p) of
                   Inl e \<Rightarrow> io_throw e
                 | Inr configDir \<Rightarrow> run_script sys (linux_script appdir configDir (pr_logs p))))
      else io_return ())"
  by (auto simp: startDaemonIfNeeded_def Let_def startDarwin_script startLinux_script split: sum.splits)

text \<open>
  On Linux, whatever fails, the actions performed are an initial part of: make the directory,
  copy both binaries, make them writable, stop the service, write the unit, reload, enable, start.
  So the service is never enabled or started before the new binaries and the unit are in place; all
  eleven are performed when the start returns; and a service that cannot be stopped is no reason to
  give up.
\<close>

theorem startLinux_order:
  assumes "pr_env p ''APPDIR'' = Some appdir" and "getConfigDir (pr_env p) = Inr configDir"
  shows "\<exists>n. snd (startLinux sys p []) = take n (map fst (linux_script appdir configDir (pr_logs p))) \<and>
    (fst (startLinux sys p []) = Returns () \<longrightarrow> n = 11) \<and>
    (fst (startLinux sys p []) \<noteq> Returns () \<longrightarrow> 0 < n \<and> n \<noteq> 7)"
proof -
  let ?sc = "linux_script appdir configDir (pr_logs p)"
  have run: "startLinux sys p = run_script sys ?sc"
    using assms by (simp add: startLinux_script)
  obtain n where n: "snd (run_script sys ?sc []) = [] @ take n (map fst ?sc)"
      "fst (run_script sys ?sc []) = Returns () \<longrightarrow> n = length ?sc"
      "fst (run_script sys ?sc []) \<noteq> Returns () \<longrightarrow> 0 < n \<and> n \<le> length ?sc \<and> snd (?sc ! (n - 1)) \<noteq> MayFail"
    using run_script_prefix by blast
  have "length ?sc = 11" and "snd (?sc ! (7 - 1)) = MayFail"
    by (simp_all add: linux_script_def)
  with n run show ?thesis
    by (intro exI [of _ n]) auto
qed

text \<open>
  C20. Notifications. The first batch of the stream, which holds the messages that were already
  waiting, is silent; every message of every later batch is shown once, in order, under its sender's
  name and with at most fifty characters. In fake mode, where only one batch comes, none is shown.
\<close>

theorem notifications_spec:
  "nt_shown (fst (registerForNotifications d)) = [] \<and>
   (if di_fake d then snd (registerForNotifications d) = Inr None
    else snd (registerForNotifications d) = Inr (Some \<lparr>gm_filter = FilterNEW\<rparr>) \<and>
      nt_shown (run_stream notify evs (fst (registerForNotifications d)))
        = map notification (concat (tl (stream_batches evs)))) \<and>
   length (snd (notification m)) \<le> 50"
proof -
  have "length (snd (notification m)) \<le> 50"
    using truncate_length [of 50 "im_message m"]
    by (simp add: notification_def daemon_truncate_eq)
  then show ?thesis
    by (simp add: registerForNotifications_def getMessagesStreamed_def run_stream_batches
        notifications_of_batches)
qed

text \<open>
  Opening a link of the application's protocol, in an installed application: the text after the
  last slash of the link becomes the \<open>publicID\<close> of the page in the renderer's directory, in a
  new window when there is none and in the first window otherwise.
\<close>

theorem openUrl_loads:
  assumes "env ''NODE_ENV'' \<noteq> Some ''development''"
    and "pk_dirname pk = clean_path ss" and "ss \<noteq> []" and "\<forall>s \<in> set ss. clean_segment s"
    and "CHR ''/'' \<notin> set i"
  shows "(if n = 0 then \<exists>w. onOpenUrl env pk n (u @ ''/'' @ i) = [CreateWindow w] \<and>
        mw_url w = ''file://'' @ clean_path (butlast ss @ [''renderer'', ''index.html?publicID='' @ i])
    else onOpenUrl env pk n (u @ ''/'' @ i)
      = [LoadURL (''file://'' @ clean_path (butlast ss @ [''renderer'', ''index.html?publicID='' @ i]))])"
proof -
  have "clean_segment (''index.html?publicID='' @ i)"
    using assms(5) by (simp add: clean_segment_def)
  then have "resolveHtmlPath env (pk_dirname pk) (''index.html?publicID='' @ i)
      = ''file://'' @ clean_path (butlast ss @ [''renderer'', ''index.html?publicID='' @ i])"
    using assms(1,2) path_resolve_renderer [OF assms(3,4)]
    by (simp only: resolveHtmlPath_def if_False)
  then show ?thesis
    by (simp only: onOpenUrl_def Let_def last_segment [OF assms(5)] createWindow_def option.case
        mainWindow.simps) simp
qed

text \<open>
  In development the same link loses its identifier: setting the \<open>pathname\<close> of a URL encodes
  the question mark, so the page's address has no query at all.
\<close>

theorem devUrl_loses_query:
  assumes "env ''NODE_ENV'' = Some ''development''" and "env ''PORT'' = None"
  shows "onOpenUrl env pk 1 url = [LoadURL (resolveHtmlPath env (pk_dirname pk) (''index.html?publicID='' @ last (js_split url ''/'')))]
    \<and> CHR ''?'' \<notin> set (resolveHtmlPath env (pk_dirname pk) (''index.html?publicID='' @ last (js_split url ''/'')))"
  using assms url_pathname_no_query
  by (simp add: onOpenUrl_def resolveHtmlPath_def Let_def)

text \<open>
  The preload script exposes every method of the daemon interface under its own name, the
  stream included, each once, and no constructor.
\<close>

theorem preload_exposes:
  "method_name c \<in> set exposed_names \<and> ''getMessagesStreamed'' \<in> set exposed_names \<and>
   ''constructor'' \<notin> set exposed_names \<and> distinct exposed_names"
  by (cases c) (simp_all add: exposed_names_def DaemonImpl_names_def)

section \<open>Witnesses\<close>

definition sample_process :: process where
  "sample_process =
     \<lparr>pr_env = [''HOME'' \<mapsto> ''/home/bob'', ''APPDIR'' \<mapsto> ''/tmp/app''], pr_platform = ''linux'', pr_logs = ''/logs''\<rparr>"

lemma sample_getConfigDir: "getConfigDir (pr_env sample_process) = Inr ''/home/bob/.anysphere''"
proof -
  have "path_join [clean_path [''home'', ''bob''], ''.anysphere''] = clean_path ([''home'', ''bob''] @ [''.anysphere''])"
    by (rule path_join_clean) (simp_all add: clean_segment_def)
  then show ?thesis
    by (simp add: getConfigDir_def sample_process_def clean_path_def)
qed

theorem startLinux_order_witness:
  "\<exists>n. snd (startLinux (\<lambda>tr a. ActionOk []) sample_process [])
     = take n (map fst (linux_script ''/tmp/app'' ''/home/bob/.anysphere'' ''/logs''))"
  using startLinux_order [OF _ sample_getConfigDir, of "''/tmp/app''" "\<lambda>tr a. ActionOk []"]
  by (auto simp: sample_process_def)

definition sample_packaging :: packaging where
  "sample_packaging = \<lparr>pk_isPackaged = True, pk_resourcesPath = ''/opt/res'', pk_dirname = clean_path [''opt'', ''main'']\<rparr>"

theorem openUrl_loads_witness:
  "onOpenUrl Map.empty sample_packaging 2 ''anysphere://add/abc''
     = [LoadURL ''file:///opt/renderer/index.html?publicID=abc'']"
  using openUrl_loads [of Map.empty sample_packaging "[''opt'', ''main'']" "''abc''" 2 "''anysphere://add''"]
  by (simp add: sample_packaging_def clean_segment_def clean_path_def)

theorem devUrl_loses_query_witness:
  "CHR ''?'' \<notin> set (resolveHtmlPath [''NODE_ENV'' \<mapsto> ''development''] (pk_dirname sample_packaging)
     (''index.html?publicID='' @ last (js_split ''anysphere://add/abc'' ''/'')))"
  using devUrl_loses_query [of "[''NODE_ENV'' \<mapsto> ''development'']" sample_packaging "''anysphere://add/abc''"]
  by simp

end
