(* ===== verification/Menu.thy ===== *)
theory Menu imports MainProcess begin

text \<open>
  The application menu, \<open>main/menu.ts\<close>: the templates that the class \<open>MenuBuilder\<close> gives to
  Electron, for macOS and for the other platforms, what a click on each item does to the window, and
  which menu is installed. A selector is the name of a macOS action; Electron's menus are trees of
  items.
\<close>

section \<open>Items and clicks\<close>

datatype menuClick =
    AppQuit
  | WindowReload
  | ToggleFullScreen
  | ToggleDevTools
  | WindowClose
  | OpenExternal string
  | InspectElement int int

datatype menuItem =
    Separator
  | MenuItem (mi_label: string) (mi_accelerator: "string option") (mi_selector: "string option")
      (mi_click: "menuClick option")
  | SubMenu (sm_label: string) (sm_items: "menuItem list")

definition clickItem :: "string \<Rightarrow> string option \<Rightarrow> menuClick \<Rightarrow> menuItem" where
  "clickItem label accelerator click = MenuItem label accelerator None (Some click)"

definition selectorItem :: "string \<Rightarrow> string option \<Rightarrow> string \<Rightarrow> menuItem" where
  "selectorItem label accelerator selector = MenuItem label accelerator (Some selector) None"

section \<open>Templates\<close>

definition subMenuAbout :: menuItem where
  "subMenuAbout =
     SubMenu ''Anysphere''
       [selectorItem ''About Anysphere'' None ''orderFrontStandardAboutPanel:'',
        Separator,
        SubMenu ''Services'' [],
        Separator,
        selectorItem ''Hide Anysphere'' (Some ''Command+H'') ''hide:'',
        selectorItem ''Hide Others'' (Some ''Command+Shift+H'') ''hideOtherApplications:'',
        selectorItem ''Show All'' None ''unhideAllApplications:'',
        Separator,
        clickItem ''Quit'' (Some ''Command+Q'') AppQuit]"

definition subMenuEdit :: menuItem where
  "subMenuEdit =
     SubMenu ''Edit''
       [selectorItem ''Undo'' (Some ''Command+Z'') ''undo:'',
        selectorItem ''Redo'' (Some ''Shift+Command+Z'') ''redo:'',
        Separator,
        selectorItem ''Cut'' (Some ''Command+X'') ''cut:'',
        selectorItem ''Copy'' (Some ''Command+C'') ''copy:'',
        selectorItem ''Paste'' (Some ''Command+V'') ''paste:'',
        selectorItem ''Select All'' (Some ''Command+A'') ''selectAll:'']"

definition subMenuViewDev :: menuItem where
  "subMenuViewDev =
     SubMenu ''View''
       [clickItem ''Reload'' (Some ''Command+R'') WindowReload,
        clickItem ''Toggle Full Screen'' (Some ''Ctrl+Command+F'') ToggleFullScreen,
        clickItem ''Toggle Developer Tools'' (Some ''Alt+Command+I'') ToggleDevTools]"

definition subMenuViewProd :: menuItem where
  "subMenuViewProd =
     SubMenu ''View'' [clickItem ''Toggle Full Screen'' (Some ''Ctrl+Command+F'') ToggleFullScreen]"

definition subMenuWindow :: menuItem where
  "subMenuWindow =
     SubMenu ''Window''
       [selectorItem ''Minimize'' (Some ''Command+M'') ''performMiniaturize:'',
        selectorItem ''Close'' (Some ''Command+W'') ''performClose:'',
        Separator,
        selectorItem ''Bring All to Front'' None ''arrangeInFront:'']"

definition subMenuHelp :: menuItem where
  "subMenuHelp =
     SubMenu ''Help''
       [clickItem ''Learn More'' None (OpenExternal ''https://electronjs.org''),
        clickItem ''Documentation'' None
          (OpenExternal ''https://github.com/electron/electron/tree/main/docs#readme''),
        clickItem ''Community Discussions'' None (OpenExternal ''https://www.electronjs.org/community''),
        clickItem ''Search Issues'' None (OpenExternal ''https://github.com/electron/electron/issues'')]"

definition buildDarwinTemplate :: "environment \<Rightarrow> menuItem list" where
  "buildDarwinTemplate env =
     (let subMenuView =
            (if env ''NODE_ENV'' = Some ''development'' \<or> env ''DEBUG_PROD'' = Some ''true''
             then subMenuViewDev else subMenuViewProd)
      in [subMenuAbout, subMenuEdit, subMenuView, subMenuWindow, subMenuHelp])"

definition defaultViewMenu :: "environment \<Rightarrow> menuItem" where
  "defaultViewMenu env =
     SubMenu ''&View''
       (if env ''NODE_ENV'' = Some ''development'' \<or> env ''DEBUG_PROD'' = Some ''true''
        then [clickItem ''&Reload'' (Some ''Ctrl+R'') WindowReload,
              clickItem ''Toggle &Full Screen'' (Some ''F11'') ToggleFullScreen,
              clickItem ''Toggle &Developer Tools'' (Some ''Alt+Ctrl+I'') ToggleDevTools]
        else [clickItem ''Toggle &Full Screen'' (Some ''F11'') ToggleFullScreen])"

definition buildDefaultTemplate :: "environment \<Rightarrow> menuItem list" where
  "buildDefaultTemplate env =
     [SubMenu ''&File''
        [MenuItem ''&Open'' (Some ''Ctrl+O'') None None,
         clickItem ''&Close'' (Some ''Ctrl+W'') WindowClose],
      defaultViewMenu env,
      subMenuHelp]"

section \<open>Installing the menu\<close>

text \<open>
  The window with the menu listener that development adds, and the application menu. \<open>buildMenu\<close>
  installs the menu that it built, and takes it away again on other platforms than macOS.
\<close>

record menuState =
  mu_fullScreen :: bool
  mu_devTools :: bool
  mu_closed :: bool
  mu_contextMenu :: bool
  mu_applicationMenu :: "menuItem list option"

definition setupDevelopmentEnvironment :: "menuState \<Rightarrow> menuState" where
  "setupDevelopmentEnvironment s = s\<lparr>mu_contextMenu := True\<rparr>"

text \<open>The menu that a click with the secondary button at a point opens, if any.\<close>

definition contextMenu :: "menuState \<Rightarrow> int \<Rightarrow> int \<Rightarrow> menuItem list" where
  "contextMenu s x y =
     (if mu_contextMenu s then [clickItem ''Inspect element'' None (InspectElement x y)] else [])"

definition setApplicationMenu :: "menuItem list option \<Rightarrow> menuState \<Rightarrow> menuState" where
  "setApplicationMenu m s = s\<lparr>mu_applicationMenu := m\<rparr>"

definition buildMenu :: "process \<Rightarrow> menuState \<Rightarrow> menuItem list \<times> menuState" where
  "buildMenu p s =
     (let s1 = (if pr_env p ''NODE_ENV'' = Some ''development'' \<or> pr_env p ''DEBUG_PROD'' = Some ''true''
                then setupDevelopmentEnvironment s else s);
          menu = (if pr_platform p = ''darwin'' then buildDarwinTemplate (pr_env p)
                  else buildDefaultTemplate (pr_env p));
          s2 = setApplicationMenu (Some menu) s1;
          s3 = (if pr_platform p \<noteq> ''darwin'' then setApplicationMenu None s2 else s2)
      in (menu, s3))"

text \<open>What a click does: the new state of the window and the addresses opened in the browser.\<close>

datatype menuEffect = QuitApp | ReloadPage | OpenInBrowser string | InspectAt int int

fun performClick :: "menuClick \<Rightarrow> menuState \<Rightarrow> menuState \<times> menuEffect list" where
  "performClick AppQuit s = (s, [QuitApp])"
| "performClick WindowReload s = (s, [ReloadPage])"
| "performClick ToggleFullScreen s = (s\<lparr>mu_fullScreen := \<not> mu_fullScreen s\<rparr>, [])"
| "performClick ToggleDevTools s = (s\<lparr>mu_devTools := \<not> mu_devTools s\<rparr>, [])"
| "performClick WindowClose s = (s\<lparr>mu_closed := True\<rparr>, [])"
| "performClick (OpenExternal url) s = (s, [OpenInBrowser url])"
| "performClick (InspectElement x y) s = (s, [InspectAt x y])"

section \<open>What is in a menu\<close>

fun item_clicks :: "menuItem \<Rightarrow> menuClick list"
  and menu_clicks :: "menuItem list \<Rightarrow> menuClick list" where
  "item_clicks Separator = []"
| "item_clicks (MenuItem l a sel c) = (case c of Some k \<Rightarrow> [k] | None \<Rightarrow> [])"
| "item_clicks (SubMenu l items) = menu_clicks items"
| "menu_clicks [] = []"
| "menu_clicks (i # is) = item_clicks i @ menu_clicks is"

fun item_accelerators :: "menuItem \<Rightarrow> string list"
  and menu_accelerators :: "menuItem list \<Rightarrow> string list" where
  "item_accelerators Separator = []"
| "item_accelerators (MenuItem l a sel c) = (case a of Some k \<Rightarrow> [k] | None \<Rightarrow> [])"
| "item_accelerators (SubMenu l items) = menu_accelerators items"
| "menu_accelerators [] = []"
| "menu_accelerators (i # is) = item_accelerators i @ menu_accelerators is"

text \<open>The clicks that the user can make in a state: those of the application menu and of a context menu.\<close>

definition available :: "menuState \<Rightarrow> menuClick \<Rightarrow> bool" where
  "available s c \<longleftrightarrow>
     (\<exists>m. mu_applicationMenu s = Some m \<and> c \<in> set (menu_clicks m)) \<or>
     (\<exists>x y. c \<in> set (menu_clicks (contextMenu s x y)))"

definition developer_click :: "menuClick \<Rightarrow> bool" where
  "developer_click c \<longleftrightarrow> c = WindowReload \<or> c = ToggleDevTools \<or> (\<exists>x y. c = InspectElement x y)"

lemmas template_defs =
  subMenuAbout_def subMenuEdit_def subMenuViewDev_def subMenuViewProd_def subMenuWindow_def subMenuHelp_def
  buildDarwinTemplate_def buildDefaultTemplate_def defaultViewMenu_def clickItem_def selectorItem_def

lemmas buildMenu_defs = buildMenu_def setApplicationMenu_def setupDevelopmentEnvironment_def Let_def

lemma darwin_clicks:
  "set (menu_clicks (buildDarwinTemplate env)) =
     {AppQuit, ToggleFullScreen} \<union> set (item_clicks subMenuHelp) \<union>
     (if isDevelopment env then {WindowReload, ToggleDevTools} else {})"
  by (auto simp: template_defs isDevelopment_def)

lemma help_clicks: "set (item_clicks subMenuHelp) \<subseteq> range OpenExternal"
  by (auto simp: template_defs)

lemma contextMenu_clicks:
  "set (menu_clicks (contextMenu s x y)) = (if mu_contextMenu s then {InspectElement x y} else {})"
  by (simp add: contextMenu_def clickItem_def)

lemma buildMenu_fields:
  "mu_contextMenu (snd (buildMenu p s)) \<longleftrightarrow> mu_contextMenu s \<or> isDevelopment (pr_env p)"
  "mu_applicationMenu (snd (buildMenu p s)) =
     (if pr_platform p = ''darwin'' then Some (buildDarwinTemplate (pr_env p)) else None)"
  "mu_fullScreen (snd (buildMenu p s)) = mu_fullScreen s"
  by (auto simp: buildMenu_defs isDevelopment_def)

lemma accelerators_distinct:
  "distinct (menu_accelerators (buildDarwinTemplate env))"
  "distinct (menu_accelerators (buildDefaultTemplate env))"
  by (simp_all add: template_defs)

section \<open>Properties\<close>

text \<open>
  C34. The menu of a fresh window offers a reload, the developer tools or the inspection of an element
  only in development; outside macOS a release has no menu at all, so nothing can be clicked; every
  accelerator of the built menu stands for one item; and switching to full screen twice changes
  nothing.
\<close>

theorem menu_developer_only:
  assumes "\<not> mu_contextMenu s"
  shows "((\<exists>c. available (snd (buildMenu p s)) c \<and> developer_click c) \<longleftrightarrow> isDevelopment (pr_env p)) \<and>
    (pr_platform p \<noteq> ''darwin'' \<and> \<not> isDevelopment (pr_env p) \<longrightarrow> (\<forall>c. \<not> available (snd (buildMenu p s)) c)) \<and>
    distinct (menu_accelerators (fst (buildMenu p s))) \<and>
    fst (performClick ToggleFullScreen (fst (performClick ToggleFullScreen s))) = s"
proof (intro conjI)
  show "(\<exists>c. available (snd (buildMenu p s)) c \<and> developer_click c) \<longleftrightarrow> isDevelopment (pr_env p)"
  proof
    assume "\<exists>c. available (snd (buildMenu p s)) c \<and> developer_click c"
    then show "isDevelopment (pr_env p)"
      using assms help_clicks
      by (auto simp: available_def developer_click_def buildMenu_fields contextMenu_clicks darwin_clicks split: if_splits)
  next
    assume "isDevelopment (pr_env p)"
    then show "\<exists>c. available (snd (buildMenu p s)) c \<and> developer_click c"
      by (intro exI [of _ "InspectElement 0 0"])
        (auto simp: available_def developer_click_def buildMenu_fields contextMenu_clicks)
  qed
  show "pr_platform p \<noteq> ''darwin'' \<and> \<not> isDevelopment (pr_env p) \<longrightarrow> (\<forall>c. \<not> available (snd (buildMenu p s)) c)"
    using assms by (simp add: available_def buildMenu_fields contextMenu_clicks)
  show "distinct (menu_accelerators (fst (buildMenu p s)))"
    using accelerators_distinct by (simp add: buildMenu_def Let_def)
qed simp

text \<open>The witness: a release on Linux.\<close>

theorem menu_developer_only_witness:
  "\<exists>p s. \<not> mu_contextMenu s \<and> \<not> isDevelopment (pr_env p) \<and> (\<forall>c. \<not> available (snd (buildMenu p s)) c)"
proof -
  define p where "p = \<lparr>pr_env = (\<lambda>_. None), pr_platform = ''linux'', pr_logs = ''/logs''\<rparr>"
  define s where "s = \<lparr>mu_fullScreen = False, mu_devTools = False, mu_closed = False, mu_contextMenu = False,
    mu_applicationMenu = None\<rparr>"
  have "\<not> mu_contextMenu s" "\<not> isDevelopment (pr_env p)" "pr_platform p \<noteq> ''darwin''"
    by (simp_all add: p_def s_def isDevelopment_def)
  with menu_developer_only [of s p] show ?thesis
    by blast
qed

end
