(* ===== verification/Dom.thy ===== *)
theory Dom imports Utils begin

text \<open>
  What the components take from the browser: keyboard events as the handlers read them, and a
  rendered element tree with click handlers. A click is delivered to the innermost element and
  bubbles to its ancestors until a handler calls \<open>stopPropagation\<close>; \<open>click_at\<close> computes
  the actions it performs. Presentation (class names, layout wrappers without content or handler) is
  not part of the tree. The one component rendered here, \<open>Modal\<close>, is the frame of every
  dialog.
\<close>

section \<open>Keyboard events\<close>

record keyEvent =
  ev_key :: string
  ev_ctrl :: bool
  ev_shift :: bool
  ev_meta :: bool

definition plain_key :: "string \<Rightarrow> keyEvent" where
  "plain_key k = \<lparr>ev_key = k, ev_ctrl = False, ev_shift = False, ev_meta = False\<rparr>"

section \<open>Element trees and bubbling\<close>

text \<open>
  A handler is the list of actions it performs and whether it stops the propagation of the event.
\<close>

datatype 'a node =
    Text string
  | Elem string "('a list \<times> bool) option" "'a node list"

definition run_handler :: "('a list \<times> bool) option \<Rightarrow> 'a list \<times> bool" where
  "run_handler h = (case h of None \<Rightarrow> ([], False) | Some r \<Rightarrow> r)"

text \<open>
  The path names the clicked element: the index of the child to descend into, level by level. A path
  that names no child is a click on the element itself.
\<close>

fun click_at :: "'a node \<Rightarrow> nat list \<Rightarrow> 'a list \<times> bool" where
  "click_at (Text s) p = ([], False)"
| "click_at (Elem tag h cs) [] = run_handler h"
| "click_at (Elem tag h cs) (i # p) =
     (if i < length cs
      then (let (as, stop) = click_at (cs ! i) p
            in if stop then (as, True) else (let (bs, stop') = run_handler h in (as @ bs, stop')))
      else run_handler h)"

lemma run_handler_simps [simp]:
  "run_handler None = ([], False)"
  "run_handler (Some r) = r"
  by (simp_all add: run_handler_def)

text \<open>An element without a handler passes on what happens in its child.\<close>

lemma click_at_wrapper [simp]:
  "i < length cs \<Longrightarrow> click_at (Elem tag None cs) (i # p) = click_at (cs ! i) p"
  by (auto split: prod.splits)

text \<open>The actions that an element and its descendants can perform.\<close>

fun node_actions :: "'a node \<Rightarrow> 'a set" where
  "node_actions (Text s) = {}"
| "node_actions (Elem tag h cs) = set (fst (run_handler h)) \<union> (\<Union>c \<in> set cs. node_actions c)"

lemma click_at_actions: "set (fst (click_at n p)) \<subseteq> node_actions n"
proof (induction n p rule: click_at.induct)
  case (3 tag h cs i p)
  show ?case
  proof (cases "i < length cs")
    case True
    then have "set (fst (click_at (cs ! i) p)) \<subseteq> node_actions (cs ! i)" and "cs ! i \<in> set cs"
      using "3.IH" by simp_all
    then show ?thesis
      using True by (auto split: prod.splits)
  qed simp
qed simp_all

section \<open>Modal\<close>

datatype modalType = ModalStandard | ModalMedium | ModalLarge

text \<open>The class name that fixes the size of the dialog box.\<close>

definition modal_size :: "modalType \<Rightarrow> string" where
  "modal_size ty =
     (case ty of
        ModalStandard \<Rightarrow> ''h-[20rem] w-[36rem]''
      | ModalMedium \<Rightarrow> ''h-[min(40rem,90%)] w-[min(60rem,90%)]''
      | ModalLarge \<Rightarrow> ''h-[90%] w-[90%]'')"

text \<open>
  The backdrop closes the dialog when it is clicked; the box in it stops the propagation.
\<close>

definition Modal_view :: "'a \<Rightarrow> 'a node list \<Rightarrow> 'a node" where
  "Modal_view onClose children =
     Elem ''div'' None
       [Elem ''div'' (Some ([onClose], False))
         [Elem ''div'' None
           [Elem ''div'' (Some ([], True)) children]]]"

definition Modal_onKeyDown :: "'a \<Rightarrow> keyEvent \<Rightarrow> 'a list" where
  "Modal_onKeyDown onClose e = (if ev_key e = ''Escape'' then [onClose] else [])"

text \<open>
  A click on the backdrop of a dialog closes it, and a click on the box or on anything inside it
  performs exactly the handlers met inside the box: it never reaches the backdrop's handler.
\<close>

theorem Modal_click:
  "click_at (Modal_view onClose children) [0] = ([onClose], False) \<and>
   click_at (Modal_view onClose children) ([0, 0, 0] @ p)
   = (fst (click_at (Elem ''div'' None children) p), True)"
  by (cases p) (auto simp: Modal_view_def split: prod.splits)

end
