(* ===== verification/Tabs.thy ===== *)
theory Tabs imports Dom begin

text \<open>
  The tab bar of \<open>components/Tabs.tsx\<close>: the hook \<open>useTabs\<close> (its state, the callbacks
  it returns and the tab it shows), the keyboard handler and the clickable elements of
  \<open>TabContainer\<close> and \<open>TabElem\<close>. The lemmas describe where the selection goes; the
  locale \<open>tab_store\<close> is the interface that the main window uses.
\<close>

section \<open>State\<close>

datatype tabType = TabNew | TabAll | TabRead | TabWrite | TabOutbox | TabSent | TabInvitations

record 'd tab =
  tab_type :: tabType
  tab_name :: string
  tab_data :: 'd
  tab_unclosable :: bool
  tab_id :: string

text \<open>The three pieces of state of \<open>useTabs\<close>; the last two hold tab identifiers.\<close>

record 'd tabsState =
  st_tabs :: "'d tab list"
  st_previous :: string
  st_selected :: string

abbreviation tab_ids :: "'d tabsState \<Rightarrow> string list" where
  "tab_ids st \<equiv> map tab_id (st_tabs st)"

definition useTabs_init :: "'d tab list \<Rightarrow> js_error + 'd tabsState" where
  "useTabs_init initial =
     (case initial of
        [] \<Rightarrow> Inl (TypeError ''defaultTab is undefined'')
      | d # _ \<Rightarrow> Inr \<lparr>st_tabs = initial, st_previous = tab_id d, st_selected = tab_id d\<rparr>)"

section \<open>Operations\<close>

text \<open>
  A callback is a closure of the render that made it: \<open>r\<close> is the state it captured, \<open>st\<close>
  the state its updater functions are applied to, and \<open>d\<close> the default tab, the first of the
  initial ones.
\<close>

definition pushTab :: "'d tab \<Rightarrow> 'd tabsState \<Rightarrow> 'd tabsState" where
  "pushTab t st =
     st\<lparr>st_tabs := st_tabs st @ [t], st_previous := st_selected st, st_selected := tab_id t\<rparr>"

definition closeTab :: "'d tab \<Rightarrow> 'd tabsState \<Rightarrow> string \<Rightarrow> 'd tabsState \<Rightarrow> 'd tabsState" where
  "closeTab d r i st =
     (let newTabs = filter (\<lambda>t. tab_id t \<noteq> i) (st_tabs st)
      in st\<lparr>st_tabs := newTabs,
            st_selected :=
              (if st_selected st = i
               then (if length (filter (\<lambda>t. tab_id t = st_previous r) newTabs) > 0
                     then st_previous r else tab_id d)
               else st_selected st)\<rparr>)"

text \<open>
  \<open>tabs[k].id\<close> with an index that is computed modulo the number of tabs: with no tab left the
  index is \<open>NaN\<close>, the element \<open>undefined\<close>, and reading its \<open>id\<close> throws.
\<close>

definition tab_at :: "'d tab list \<Rightarrow> int \<Rightarrow> js_error + string" where
  "tab_at ts k =
     (if ts = [] then Inl (TypeError ''Cannot read properties of undefined (reading 'id')'')
      else Inr (tab_id (ts ! nat (js_rem k (int (length ts))))))"

definition nextTab :: "'d tabsState \<Rightarrow> 'd tabsState \<Rightarrow> js_error + 'd tabsState" where
  "nextTab r st =
     (let index = js_findIndex (\<lambda>t. tab_id t = st_selected st) (st_tabs r)
      in bind_result (tab_at (st_tabs r) (index + 1))
           (\<lambda>i. Inr (st\<lparr>st_previous := st_selected st, st_selected := i\<rparr>)))"

definition previousTab :: "'d tabsState \<Rightarrow> 'd tabsState \<Rightarrow> js_error + 'd tabsState" where
  "previousTab r st =
     (let index = js_findIndex (\<lambda>t. tab_id t = st_selected st) (st_tabs r)
      in bind_result (tab_at (st_tabs r) (index - 1 + int (length (st_tabs r))))
           (\<lambda>i. Inr (st\<lparr>st_previous := st_selected st, st_selected := i\<rparr>)))"

definition switchTab :: "string \<Rightarrow> 'd tabsState \<Rightarrow> 'd tabsState" where
  "switchTab i st = st\<lparr>st_previous := st_selected st, st_selected := i\<rparr>"

definition selectedActualTab :: "'d tab \<Rightarrow> 'd tabsState \<Rightarrow> 'd tab" where
  "selectedActualTab d st =
     (case find (\<lambda>t. tab_id t = st_selected st) (st_tabs st) of Some t \<Rightarrow> t | None \<Rightarrow> d)"

definition updateTab :: "'d tab \<Rightarrow> 'd tabsState \<Rightarrow> 'd tabsState" where
  "updateTab t st = st\<lparr>st_tabs := map (\<lambda>u. if tab_id u = tab_id t then t else u) (st_tabs st)\<rparr>"

section \<open>Keyboard and mouse\<close>

text \<open>
  The window's key handler while the tab bar is mounted: Control-Shift-Tab, Control-Tab and
  Command-w. The last one closes the tab that is shown, whatever its \<open>unclosable\<close> flag says.
\<close>

definition TabContainer_onKeyDown ::
  "'d tab \<Rightarrow> 'd tabsState \<Rightarrow> keyEvent \<Rightarrow> 'd tabsState \<Rightarrow> js_error + 'd tabsState" where
  "TabContainer_onKeyDown d r e st =
     (if ev_ctrl e \<and> ev_shift e \<and> ev_key e = ''Tab'' then previousTab r st
      else if ev_ctrl e \<and> ev_key e = ''Tab'' then nextTab r st
      else if ev_meta e \<and> ev_key e = ''w'' then Inr (closeTab d r (tab_id (selectedActualTab d r)) st)
      else Inr st)"

datatype tabAction = SelectTab string | CloseTab string

definition TabElem_view :: "'d tab \<Rightarrow> tabAction node" where
  "TabElem_view t =
     (let closeButton =
            Elem ''div'' None [Elem ''codicon-close'' (Some ([CloseTab (tab_id t)], True)) []]
      in Elem ''div'' (Some ([SelectTab (tab_id t)], False))
           ([Elem ''div'' None [Text (tab_name t)]] @ (if tab_unclosable t then [] else [closeButton])))"

text \<open>The elements, each with whether it is drawn as selected.\<close>

definition TabContainer_view :: "'d tab \<Rightarrow> 'd tabsState \<Rightarrow> (bool \<times> tabAction node) list" where
  "TabContainer_view d st =
     map (\<lambda>t. (tab_id t = tab_id (selectedActualTab d st), TabElem_view t)) (st_tabs st)"

fun perform_tabAction :: "'d tab \<Rightarrow> 'd tabsState \<Rightarrow> tabAction \<Rightarrow> 'd tabsState \<Rightarrow> 'd tabsState" where
  "perform_tabAction d r (SelectTab i) st = switchTab i st"
| "perform_tabAction d r (CloseTab i) st = closeTab d r i st"

lemmas tab_defs [step_defs] =
  pushTab_def closeTab_def nextTab_def previousTab_def switchTab_def updateTab_def

section \<open>Lemmas\<close>

lemma perform_simps [simp]:
  "st_tabs (pushTab t st) = st_tabs st @ [t]"
  "st_selected (pushTab t st) = tab_id t"
  "st_previous (pushTab t st) = st_selected st"
  "st_tabs (switchTab i st) = st_tabs st"
  "st_selected (switchTab i st) = i"
  "st_previous (switchTab i st) = st_selected st"
  "st_tabs (closeTab d r i st) = filter (\<lambda>t. tab_id t \<noteq> i) (st_tabs st)"
  "st_previous (closeTab d r i st) = st_previous st"
  by (simp_all add: tab_defs Let_def)

lemma st_selected_closeTab:
  "st_selected (closeTab d r i st) =
     (if st_selected st \<noteq> i then st_selected st
      else if st_previous r \<noteq> i \<and> st_previous r \<in> set (tab_ids st) then st_previous r
      else tab_id d)"
proof -
  have "(0 < length (filter (\<lambda>t. tab_id t = st_previous r) (filter (\<lambda>t. tab_id t \<noteq> i) (st_tabs st))))
      = (st_previous r \<noteq> i \<and> st_previous r \<in> set (tab_ids st))"
    by (auto simp: filter_empty_conv intro: rev_image_eqI)
  then show ?thesis by (simp add: closeTab_def Let_def)
qed

lemma updateTab_ids [simp]: "tab_ids (updateTab t st) = tab_ids st"
  by (simp add: updateTab_def)

lemma updateTab_selected [simp]: "st_selected (updateTab t st) = st_selected st"
  by (simp add: updateTab_def)

lemma find_id_unique:
  "distinct (map tab_id ts) \<Longrightarrow> t \<in> set ts \<Longrightarrow> find (\<lambda>u. tab_id u = tab_id t) ts = Some t"
  by (induction ts) (auto simp: image_iff)

lemma selectedActualTab_of_member:
  assumes "distinct (tab_ids st)" and "t \<in> set (st_tabs st)" and "st_selected st = tab_id t"
  shows "selectedActualTab d st = t"
  using find_id_unique [OF assms(1,2)] assms(3) by (simp add: selectedActualTab_def)

lemma selectedActualTab_mem:
  assumes "st_selected st \<in> set (tab_ids st)"
  shows "selectedActualTab d st \<in> set (st_tabs st) \<and> tab_id (selectedActualTab d st) = st_selected st"
proof -
  obtain t where "t \<in> set (st_tabs st)" "tab_id t = st_selected st"
    using assms by auto
  then have "find (\<lambda>u. tab_id u = st_selected st) (st_tabs st) \<noteq> None"
    by (auto simp: find_None_iff)
  then obtain u where u: "find (\<lambda>u. tab_id u = st_selected st) (st_tabs st) = Some u"
    by blast
  then have "u \<in> set (st_tabs st)" "tab_id u = st_selected st"
    by (auto simp: find_Some_iff)
  with u show ?thesis by (simp add: selectedActualTab_def)
qed

text \<open>
  The selection of the \<open>i\<close>-th tab, and the moves of the keyboard on it.
\<close>

lemma index_of_selected:
  "distinct (tab_ids st) \<Longrightarrow> i < length (st_tabs st) \<Longrightarrow> st_selected st = tab_id (st_tabs st ! i) \<Longrightarrow>
   js_findIndex (\<lambda>t. tab_id t = st_selected st) (st_tabs st) = int i"
  using js_findIndex_distinct [of tab_id "st_tabs st" i] by simp

lemma nextTab_at:
  assumes "distinct (tab_ids st)" and "i < length (st_tabs st)"
    and "st_selected st = tab_id (st_tabs st ! i)"
  shows "nextTab st st = Inr (switchTab (tab_id (st_tabs st ! (Suc i mod length (st_tabs st)))) st)"
proof -
  have "nat ((int i + 1) mod int (length (st_tabs st))) = Suc i mod length (st_tabs st)"
    by (metis add.commute nat_int of_nat_Suc zmod_int)
  then show ?thesis
    using assms index_of_selected [OF assms]
    by (auto simp: nextTab_def switchTab_def tab_at_def Let_def)
qed

lemma previousTab_at:
  assumes "distinct (tab_ids st)" and "i < length (st_tabs st)"
    and "st_selected st = tab_id (st_tabs st ! i)"
  shows "previousTab st st =
    Inr (switchTab (tab_id (st_tabs st ! ((i + length (st_tabs st) - 1) mod length (st_tabs st)))) st)"
proof -
  have "int i - 1 + int (length (st_tabs st)) = int (i + length (st_tabs st) - 1)"
    using assms(2) by linarith
  then have "nat ((int i - 1 + int (length (st_tabs st))) mod int (length (st_tabs st)))
      = (i + length (st_tabs st) - 1) mod length (st_tabs st)"
    by (metis nat_int zmod_int)
  then show ?thesis
    using assms index_of_selected [OF assms]
    by (auto simp: previousTab_def switchTab_def tab_at_def Let_def)
qed

text \<open>Any move of the keyboard selects some open tab, and only an empty bar makes it throw.\<close>

lemma tab_at_total: "ts \<noteq> [] \<Longrightarrow> 0 \<le> k \<Longrightarrow> \<exists>t \<in> set ts. tab_at ts k = Inr (tab_id t)"
  by (auto simp: tab_at_def nat_less_iff intro!: bexI [of _ "ts ! nat (k mod int (length ts))"])

lemma nextTab_total:
  assumes "st_tabs r \<noteq> []"
  shows "\<exists>t \<in> set (st_tabs r). nextTab r st = Inr (switchTab (tab_id t) st)"
  using tab_at_total [OF assms, of "js_findIndex (\<lambda>t. tab_id t = st_selected st) (st_tabs r) + 1"]
    js_findIndex_ge [of "\<lambda>t. tab_id t = st_selected st" "st_tabs r"]
  by (auto simp: nextTab_def switchTab_def Let_def)

section \<open>The invariant of the tab bar\<close>

text \<open>
  Tabs have distinct identifiers, the default tab is open, and the selected identifier belongs to an
  open tab, so that the tab that is shown is one of the bar.
\<close>

definition tabs_wf :: "'d tab \<Rightarrow> 'd tabsState \<Rightarrow> bool" where
  "tabs_wf d st \<longleftrightarrow>
     distinct (tab_ids st) \<and> tab_id d \<in> set (tab_ids st) \<and> st_selected st \<in> set (tab_ids st)"

text \<open>
  What the tab bar and the main window do, between two renders: the callbacks are those of the
  current render. A pushed tab has a fresh identifier; a tab is closed by its close icon, which the
  default tab does not have; a switch names an open tab.
\<close>

inductive tab_step :: "'d tab \<Rightarrow> 'd tabsState \<Rightarrow> 'd tabsState \<Rightarrow> bool" for d :: "'d tab" where
  step_push: "tab_id t \<notin> set (tab_ids st) \<Longrightarrow> tab_step d st (pushTab t st)"
| step_close: "i \<noteq> tab_id d \<Longrightarrow> tab_step d st (closeTab d st i st)"
| step_next: "nextTab st st = Inr st' \<Longrightarrow> tab_step d st st'"
| step_previous: "previousTab st st = Inr st' \<Longrightarrow> tab_step d st st'"
| step_switch: "i \<in> set (tab_ids st) \<Longrightarrow> tab_step d st (switchTab i st)"
| step_update: "tab_step d st (updateTab t st)"

inductive tab_reachable :: "'d tab list \<Rightarrow> 'd tabsState \<Rightarrow> bool" for initial :: "'d tab list" where
  reach_init: "useTabs_init initial = Inr st \<Longrightarrow> tab_reachable initial st"
| reach_step: "tab_reachable initial st \<Longrightarrow> tab_step (hd initial) st st' \<Longrightarrow> tab_reachable initial st'"

inductive_cases tab_stepE: "tab_step d st st'"

lemma tabs_wf_init:
  "useTabs_init initial = Inr st \<Longrightarrow> distinct (map tab_id initial) \<Longrightarrow> tabs_wf (hd initial) st"
  by (auto simp: useTabs_init_def tabs_wf_def split: list.splits)

lemma tabs_wf_push [intro]:
  "tabs_wf d st \<Longrightarrow> tab_id t \<notin> set (tab_ids st) \<Longrightarrow> tabs_wf d (pushTab t st)"
  by (auto simp: tabs_wf_def)

lemma tabs_wf_switch [intro]:
  "tabs_wf d st \<Longrightarrow> i \<in> set (tab_ids st) \<Longrightarrow> tabs_wf d (switchTab i st)"
  by (auto simp: tabs_wf_def)

lemma tabs_wf_update [intro]: "tabs_wf d st \<Longrightarrow> tabs_wf d (updateTab t st)"
  by (simp add: tabs_wf_def)

lemma tabs_wf_close [intro]:
  assumes "tabs_wf d st" and "i \<noteq> tab_id d"
  shows "tabs_wf d (closeTab d r i st)"
  using assms
  by (auto simp: tabs_wf_def st_selected_closeTab inj_on_map_filter_distinct image_iff)

lemma tabs_wf_index:
  assumes "tabs_wf d st"
  obtains i where "i < length (st_tabs st)" and "st_selected st = tab_id (st_tabs st ! i)"
  using assms by (auto simp: tabs_wf_def in_set_conv_nth)

lemma nth_mod_id_mem:
  "i < length (st_tabs st) \<Longrightarrow> tab_id (st_tabs st ! (k mod length (st_tabs st))) \<in> tab_id ` set (st_tabs st)"
  by (rule imageI, rule nth_mem, rule mod_less_divisor) linarith

lemma tabs_wf_next:
  assumes "tabs_wf d st" and "nextTab st st = Inr st'"
  shows "tabs_wf d st'"
proof -
  obtain i where "i < length (st_tabs st)" "st_selected st = tab_id (st_tabs st ! i)"
    using assms(1) by (rule tabs_wf_index)
  with assms show ?thesis
    by (auto simp: tabs_wf_def nextTab_at intro: nth_mod_id_mem)
qed

lemma tabs_wf_previous:
  assumes "tabs_wf d st" and "previousTab st st = Inr st'"
  shows "tabs_wf d st'"
proof -
  obtain i where "i < length (st_tabs st)" "st_selected st = tab_id (st_tabs st ! i)"
    using assms(1) by (rule tabs_wf_index)
  with assms show ?thesis
    by (auto simp: tabs_wf_def previousTab_at intro: nth_mod_id_mem)
qed

lemma tabs_wf_step: "tab_step d st st' \<Longrightarrow> tabs_wf d st \<Longrightarrow> tabs_wf d st'"
  by (auto elim!: tab_stepE intro: tabs_wf_next tabs_wf_previous)

lemma tabs_wf_reachable:
  assumes "tab_reachable initial st" and "distinct (map tab_id initial)"
  shows "tabs_wf (hd initial) st"
  using assms by (induction) (auto intro: tabs_wf_init tabs_wf_step)

lemma tabs_wf_shown:
  "tabs_wf d st \<Longrightarrow>
   selectedActualTab d st \<in> set (st_tabs st) \<and> tab_id (selectedActualTab d st) = st_selected st"
  by (simp add: tabs_wf_def selectedActualTab_mem)

text \<open>\<open>k\<close> presses of Control-Tab.\<close>

fun nextTab_times :: "nat \<Rightarrow> 'd tabsState \<Rightarrow> js_error + 'd tabsState" where
  "nextTab_times 0 st = Inr st"
| "nextTab_times (Suc k) st = bind_result (nextTab st st) (nextTab_times k)"

lemma nextTab_times_at:
  assumes "distinct (tab_ids st)" and "i < length (st_tabs st)"
    and "st_selected st = tab_id (st_tabs st ! i)"
  shows "\<exists>st'. nextTab_times k st = Inr st' \<and> st_tabs st' = st_tabs st \<and>
    st_selected st' = tab_id (st_tabs st ! ((i + k) mod length (st_tabs st)))"
  using assms
proof (induction k arbitrary: st i)
  case (Suc k)
  let ?n = "length (st_tabs st)" and ?st = "switchTab (tab_id (st_tabs st ! (Suc i mod length (st_tabs st)))) st"
  have "0 < ?n" using Suc.prems(2) by linarith
  then have "\<exists>st'. nextTab_times k ?st = Inr st' \<and> st_tabs st' = st_tabs ?st \<and>
      st_selected st' = tab_id (st_tabs ?st ! ((Suc i mod ?n + k) mod length (st_tabs ?st)))"
    using Suc.prems by (intro Suc.IH) simp_all
  then show ?case
    using Suc.prems by (simp add: nextTab_at mod_add_left_eq)
qed simp

section \<open>The interface of the main window\<close>

text \<open>
  What the main window relies on: pushing a tab with a new identifier and switching to an open tab
  both show that tab, and neither closes one.
\<close>

locale tab_store =
  fixes push :: "'t \<Rightarrow> 's \<Rightarrow> 's"
    and switch :: "'i \<Rightarrow> 's \<Rightarrow> 's"
    and tabs :: "'s \<Rightarrow> 't list"
    and shown :: "'s \<Rightarrow> 't"
    and ident :: "'t \<Rightarrow> 'i"
    and ok :: "'s \<Rightarrow> bool"
  assumes push_ok: "ok s \<Longrightarrow> ident t \<notin> ident ` set (tabs s) \<Longrightarrow> ok (push t s)"
    and push_tabs: "tabs (push t s) = tabs s @ [t]"
    and push_shown: "ok s \<Longrightarrow> ident t \<notin> ident ` set (tabs s) \<Longrightarrow> shown (push t s) = t"
    and switch_ok: "ok s \<Longrightarrow> t \<in> set (tabs s) \<Longrightarrow> ok (switch (ident t) s)"
    and switch_tabs: "tabs (switch i s) = tabs s"
    and switch_shown: "ok s \<Longrightarrow> t \<in> set (tabs s) \<Longrightarrow> shown (switch (ident t) s) = t"
begin

text \<open>
  The client opens the tab of a kind, or switches to it when it is open already. Afterwards a tab of
  that kind is shown, nothing was closed, and doing it once more opens no second tab.
\<close>

definition open_or_switch :: "('t \<Rightarrow> bool) \<Rightarrow> 't \<Rightarrow> 's \<Rightarrow> 's" where
  "open_or_switch p t s = (case find p (tabs s) of Some u \<Rightarrow> switch (ident u) s | None \<Rightarrow> push t s)"

lemma open_or_switch_shows:
  assumes "ok s" and "p t" and "\<forall>u \<in> set (tabs s). \<not> p u \<longrightarrow> ident u \<noteq> ident t"
  shows "ok (open_or_switch p t s) \<and> p (shown (open_or_switch p t s)) \<and>
    shown (open_or_switch p t s) \<in> set (tabs (open_or_switch p t s)) \<and>
    tabs (open_or_switch p t s) = (if \<exists>u \<in> set (tabs s). p u then tabs s else tabs s @ [t])"
proof (cases "find p (tabs s)")
  case None
  then have "\<forall>u \<in> set (tabs s). \<not> p u"
    by (auto simp: find_None_iff)
  with assms None have "ident t \<notin> ident ` set (tabs s)"
    by (force simp: image_iff)
  with assms None \<open>\<forall>u \<in> set (tabs s). \<not> p u\<close> show ?thesis
    by (simp add: open_or_switch_def push_ok push_tabs push_shown)
next
  case (Some u)
  then have "u \<in> set (tabs s)" "p u"
    by (auto simp: find_Some_iff)
  with assms(1) Some show ?thesis
    by (auto simp: open_or_switch_def switch_ok switch_tabs switch_shown)
qed

lemma open_or_switch_idem:
  assumes "ok s" and "p t" and "\<forall>u \<in> set (tabs s). \<not> p u \<longrightarrow> ident u \<noteq> ident t"
  shows "tabs (open_or_switch p t (open_or_switch p t s)) = tabs (open_or_switch p t s)"
  using open_or_switch_shows [OF assms]
  by (auto simp: open_or_switch_def [of p t "open_or_switch p t s"] find_None_iff switch_tabs
      split: option.splits)

end

interpretation tabStore: tab_store pushTab switchTab st_tabs "selectedActualTab d" tab_id
  "\<lambda>st. distinct (tab_ids st) \<and> st_selected st \<in> set (tab_ids st)" for d
proof (unfold_locales, goal_cases)
  case (3 s t)
  then show ?case by (intro selectedActualTab_of_member) auto
next
  case (6 s t)
  then show ?case by (intro selectedActualTab_of_member) auto
qed auto

section \<open>Properties\<close>


text \<open>
  Control-Tab goes round the bar: after \<open>k\<close> presses, starting on tab \<open>i\<close> of \<open>n\<close>,
  tab \<open>(i + k) mod n\<close> is selected, and the tabs are the same.
\<close>

theorem nextTab_cycles:
  assumes "distinct (tab_ids st)" and "i < length (st_tabs st)"
    and "st_selected st = tab_id (st_tabs st ! i)"
  shows "\<exists>st'. nextTab_times k st = Inr st' \<and> st_tabs st' = st_tabs st \<and>
    st_selected st' = tab_id (st_tabs st ! ((i + k) mod length (st_tabs st)))"
  using assms by (rule nextTab_times_at)

text \<open>
  Control-Tab and Control-Shift-Tab undo each other: one after the other, in either order,
  restores the selection and the tabs.
\<close>

theorem nextTab_previousTab:
  assumes "tabs_wf d st"
  shows "(\<exists>st1 st2. nextTab st st = Inr st1 \<and> previousTab st1 st1 = Inr st2 \<and>
      st_tabs st2 = st_tabs st \<and> st_selected st2 = st_selected st) \<and>
    (\<exists>st1 st2. previousTab st st = Inr st1 \<and> nextTab st1 st1 = Inr st2 \<and>
      st_tabs st2 = st_tabs st \<and> st_selected st2 = st_selected st)"
proof -
  obtain i where i: "i < length (st_tabs st)" "st_selected st = tab_id (st_tabs st ! i)"
    using assms by (rule tabs_wf_index)
  let ?n = "length (st_tabs st)" and ?sw = "\<lambda>j. switchTab (tab_id (st_tabs st ! j)) st"
  have d: "distinct (tab_ids st)" and n: "0 < ?n"
    using assms i by (auto simp: tabs_wf_def)
  have m1: "(Suc i mod ?n + ?n - 1) mod ?n = i"
    using i(1) by (cases "Suc i = ?n") auto
  have m2: "Suc ((i + ?n - 1) mod ?n) mod ?n = i"
    using i(1) n by (simp add: mod_Suc_eq)
  have "previousTab (?sw (Suc i mod ?n)) (?sw (Suc i mod ?n)) = Inr (switchTab (tab_id (st_tabs st ! i)) (?sw (Suc i mod ?n)))"
    using previousTab_at [of "?sw (Suc i mod ?n)" "Suc i mod ?n"] d n m1 by simp
  moreover have "nextTab (?sw ((i + ?n - 1) mod ?n)) (?sw ((i + ?n - 1) mod ?n))
      = Inr (switchTab (tab_id (st_tabs st ! i)) (?sw ((i + ?n - 1) mod ?n)))"
    using nextTab_at [of "?sw ((i + ?n - 1) mod ?n)" "(i + ?n - 1) mod ?n"] d n m2 by simp
  ultimately show ?thesis
    using nextTab_at [OF d i] previousTab_at [OF d i] i(2) by simp
qed

text \<open>
  Opening a tab with a fresh identifier and closing it again restores the tabs and the
  selection, for a bar whose selected tab is open.
\<close>

theorem push_close_restores:
  assumes "tabs_wf d st" and "tab_id t \<notin> set (tab_ids st)"
  shows "st_tabs (closeTab d (pushTab t st) (tab_id t) (pushTab t st)) = st_tabs st \<and>
    st_selected (closeTab d (pushTab t st) (tab_id t) (pushTab t st)) = st_selected st"
proof -
  have "filter (\<lambda>u. tab_id u \<noteq> tab_id t) (st_tabs st @ [t]) = st_tabs st"
    by (rule filter_id_neq) (use assms in \<open>auto simp: tabs_wf_def\<close>)
  then show ?thesis
    using assms by (auto simp: st_selected_closeTab tabs_wf_def)
qed

text \<open>
  With the mouse a tab is never closed by accident: whatever element of a tab is clicked, an
  unclosable tab only gets selected; and on a closable tab the close icon closes that tab without
  selecting it first.
\<close>

theorem TabElem_clicks:
  "(tab_unclosable t \<longrightarrow> set (fst (click_at (TabElem_view t) p)) \<subseteq> {SelectTab (tab_id t)}) \<and>
   (\<not> tab_unclosable t \<longrightarrow>
     fst (click_at (TabElem_view t) [1, 0]) = [CloseTab (tab_id t)] \<and>
     fst (click_at (TabElem_view t) [0]) = [SelectTab (tab_id t)])"
proof -
  have "node_actions (TabElem_view t) \<subseteq> {SelectTab (tab_id t)}" if "tab_unclosable t"
    using that by (simp add: TabElem_view_def Let_def)
  then show ?thesis
    using click_at_actions [of "TabElem_view t" p] by (auto simp: TabElem_view_def Let_def)
qed

text \<open>
  Command-w ignores the \<open>unclosable\<close> flag: on a bar whose only tab is the unclosable
  default tab it removes that tab, and the next Control-Tab throws.
\<close>

theorem commandW_closes_unclosable:
  assumes "st_tabs st = [d]" and "st_selected st = tab_id d" and "tab_unclosable d"
  shows "\<exists>st'. TabContainer_onKeyDown d st \<lparr>ev_key = ''w'', ev_ctrl = False, ev_shift = False, ev_meta = True\<rparr> st
      = Inr st' \<and> st_tabs st' = [] \<and>
    TabContainer_onKeyDown d st' \<lparr>ev_key = ''Tab'', ev_ctrl = True, ev_shift = False, ev_meta = False\<rparr> st'
      = Inl (TypeError ''Cannot read properties of undefined (reading 'id')'')"
  using assms
  by (auto simp: TabContainer_onKeyDown_def selectedActualTab_def nextTab_def tab_at_def Let_def)

section \<open>Witnesses\<close>

definition sample_tab :: "string \<Rightarrow> bool \<Rightarrow> unit tab" where
  "sample_tab i u = \<lparr>tab_type = TabRead, tab_name = i, tab_data = (), tab_unclosable = u, tab_id = i\<rparr>"

definition sample_tabs :: "unit tabsState" where
  "sample_tabs = \<lparr>st_tabs = [sample_tab ''new'' True, sample_tab ''all'' True, sample_tab ''m1'' False],
     st_previous = ''new'', st_selected = ''all''\<rparr>"

lemmas sample_tabs_defs = sample_tabs_def sample_tab_def tabs_wf_def

lemma sample_tabs_reachable:
  "tab_reachable [sample_tab ''new'' True, sample_tab ''all'' True]
     (pushTab (sample_tab ''m1'' False) \<lparr>st_tabs = [sample_tab ''new'' True, sample_tab ''all'' True],
        st_previous = ''new'', st_selected = ''new''\<rparr>)"
  by (rule reach_step [OF reach_init step_push])
    (simp_all add: useTabs_init_def sample_tab_def)


theorem nextTab_cycles_witness:
  "\<exists>st'. nextTab_times 5 sample_tabs = Inr st' \<and> st_selected st' = ''new''"
  using nextTab_cycles [of sample_tabs 1 5] by (auto simp: sample_tabs_defs)

theorem nextTab_previousTab_witness:
  "\<exists>st1 st2. nextTab sample_tabs sample_tabs = Inr st1 \<and> previousTab st1 st1 = Inr st2 \<and>
     st_selected st2 = ''all''"
  using nextTab_previousTab [of "sample_tab ''new'' True" sample_tabs] by (auto simp: sample_tabs_defs)

theorem push_close_restores_witness:
  "st_selected (closeTab (sample_tab ''new'' True) (pushTab (sample_tab ''x'' False) sample_tabs) ''x''
     (pushTab (sample_tab ''x'' False) sample_tabs)) = ''all''"
  using push_close_restores [of "sample_tab ''new'' True" sample_tabs "sample_tab ''x'' False"]
  by (simp add: sample_tabs_defs)

theorem TabElem_clicks_witness:
  "fst (click_at (TabElem_view (sample_tab ''m1'' False)) [1, 0]) = [CloseTab ''m1'']"
  using TabElem_clicks [of "sample_tab ''m1'' False"] by (simp add: sample_tab_def)

theorem commandW_closes_unclosable_witness:
  "\<exists>st'. TabContainer_onKeyDown (sample_tab ''new'' True)
     \<lparr>st_tabs = [sample_tab ''new'' True], st_previous = ''new'', st_selected = ''new''\<rparr>
     \<lparr>ev_key = ''w'', ev_ctrl = False, ev_shift = False, ev_meta = True\<rparr>
     \<lparr>st_tabs = [sample_tab ''new'' True], st_previous = ''new'', st_selected = ''new''\<rparr> = Inr st' \<and>
     st_tabs st' = []"
  using commandW_closes_unclosable [of "\<lparr>st_tabs = [sample_tab ''new'' True], st_previous = ''new'', st_selected = ''new''\<rparr>"
      "sample_tab ''new'' True"]
  by (auto simp: sample_tab_def)

end
