(* ===== verification/ListNav.thy ===== *)
theory ListNav imports Dom begin

text \<open>
  Moving through a list of rows with the keyboard: \<open>components/SelectableList.tsx\<close> and the key
  handler of \<open>cmd-k/CmdKResultHandler.tsx\<close>. A row is a divider (a string in the code) or an
  item. The two components skip dividers in different ways; the locale \<open>list_nav\<close> states what
  both promise (up and down go to the neighbouring item) and proves once what follows for the user,
  and each component is an interpretation of it, under its own condition on the rows.
\<close>

section \<open>Rows\<close>

datatype 'a row = Divider string | Item 'a

text \<open>\<open>items[k]\<close>: undefined (\<open>None\<close>) out of range.\<close>

definition row_at :: "'a row list \<Rightarrow> int \<Rightarrow> 'a row option" where
  "row_at rows k = (if 0 \<le> k \<and> k < int (length rows) then Some (rows ! nat k) else None)"

definition divider_at :: "'a row list \<Rightarrow> int \<Rightarrow> bool" where
  "divider_at rows k = (case row_at rows k of Some (Divider s) \<Rightarrow> True | _ \<Rightarrow> False)"

definition item_at :: "'a row list \<Rightarrow> int \<Rightarrow> bool" where
  "item_at rows k = (case row_at rows k of Some (Item x) \<Rightarrow> True | _ \<Rightarrow> False)"

lemma item_at_range: "item_at rows k \<Longrightarrow> 0 \<le> k \<and> k < int (length rows)"
  by (auto simp: item_at_def row_at_def split: if_splits)

lemma divider_at_range: "divider_at rows k \<Longrightarrow> 0 \<le> k \<and> k < int (length rows)"
  by (auto simp: divider_at_def row_at_def split: if_splits)

lemma not_divider_item:
  "0 \<le> k \<Longrightarrow> k < int (length rows) \<Longrightarrow> item_at rows k \<longleftrightarrow> \<not> divider_at rows k"
  by (auto simp: item_at_def divider_at_def row_at_def split: row.splits)

lemma item_not_divider: "item_at rows k \<Longrightarrow> \<not> divider_at rows k"
  using item_at_range not_divider_item by blast

section \<open>SelectableList\<close>

text \<open>\<open>startIndex\<close>: the number of leading dividers.\<close>

fun startIndex :: "'a row list \<Rightarrow> int" where
  "startIndex (Divider s # rows) = startIndex rows + 1"
| "startIndex rows = 0"

text \<open>The loops of \<open>previousIndex\<close> and \<open>nextIndex\<close>.\<close>

function skip_up :: "'a row list \<Rightarrow> int \<Rightarrow> int \<Rightarrow> int" where
  "skip_up rows start k =
     (if divider_at rows k \<and> k \<noteq> start then skip_up rows start (k - 1) else k)"
  by pat_completeness auto
termination
  by (relation "measure (\<lambda>(rows, start, k). nat (k + 1))") (auto dest: divider_at_range)

function skip_down :: "'a row list \<Rightarrow> int \<Rightarrow> int" where
  "skip_down rows k =
     (if divider_at rows k \<and> k \<noteq> int (length rows) - 1 then skip_down rows (k + 1) else k)"
  by pat_completeness auto
termination
  by (relation "measure (\<lambda>(rows, k). nat (int (length rows) - k))") (auto dest: divider_at_range)

declare skip_up.simps [simp del] skip_down.simps [simp del]

definition previousIndex :: "'a row list \<Rightarrow> int \<Rightarrow> int" where
  "previousIndex rows old =
     skip_up rows (startIndex rows) (if old > startIndex rows then old - 1 else old)"

definition nextIndex :: "'a row list \<Rightarrow> int \<Rightarrow> int" where
  "nextIndex rows old = skip_down rows (if old < int (length rows) - 1 then old + 1 else old)"

text \<open>The effect after a render: an active index behind the list goes back to the last row.\<close>

definition clampActive :: "'a row list \<Rightarrow> int \<Rightarrow> int" where
  "clampActive rows active =
     (if active > int (length rows) - 1 \<and> length rows > 0 then int (length rows) - 1 else active)"

text \<open>An item: its identifier, its data, and its action, a list of effects or null.\<close>

record ('d, 'e) listItem =
  li_id :: "string + int"
  li_data :: 'd
  li_action :: "'e list option"

definition execute :: "'e list \<Rightarrow> ('d, 'e) listItem row option \<Rightarrow> 'e list" where
  "execute globalAction r =
     (case r of
        Some (Item i) \<Rightarrow> (case li_action i of Some a \<Rightarrow> a @ globalAction | None \<Rightarrow> [])
      | _ \<Rightarrow> [])"

text \<open>
  The key handler: the new active index and the effects. Enter clicks the active row. In a list that
  is not searchable the letters k and j work without Control.
\<close>

definition SelectableList_onKeyDown ::
  "('d, 'e) listItem row list \<Rightarrow> 'e list \<Rightarrow> bool \<Rightarrow> keyEvent \<Rightarrow> int \<Rightarrow> int \<times> 'e list" where
  "SelectableList_onKeyDown rows globalAction searchable e active =
     (if ev_key e = ''ArrowUp'' \<or> (ev_ctrl e \<or> \<not> searchable) \<and> ev_key e = ''k''
      then (previousIndex rows active, [])
      else if ev_key e = ''ArrowDown'' \<or> (ev_ctrl e \<or> \<not> searchable) \<and> ev_key e = ''j''
      then (nextIndex rows active, [])
      else if ev_key e = ''Enter''
      then (active, execute globalAction (row_at rows active))
      else (active, []))"

text \<open>The mouse: moving over a row (once the pointer has moved) or pressing it, then the click.\<close>

definition onPointerMove :: "'a row list \<Rightarrow> bool \<Rightarrow> int \<Rightarrow> int \<Rightarrow> int" where
  "onPointerMove rows pointerMoved k active =
     (if item_at rows k \<and> pointerMoved \<and> active \<noteq> k then k else active)"

definition onRowClick ::
  "('d, 'e) listItem row list \<Rightarrow> 'e list \<Rightarrow> int \<Rightarrow> int \<Rightarrow> int \<times> 'e list" where
  "onRowClick rows globalAction k active =
     (if item_at rows k then (k, execute globalAction (row_at rows k)) else (active, []))"

section \<open>CmdKResultHandler\<close>

text \<open>The handler skips at most one divider, and stays where it is at the ends.\<close>

definition cmdk_up :: "'a row list \<Rightarrow> int \<Rightarrow> int" where
  "cmdk_up rows index =
     (let k = (if index > 0 then index - 1 else index)
      in if divider_at rows k then (if k = 0 then index else k - 1) else k)"

definition cmdk_down :: "'a row list \<Rightarrow> int \<Rightarrow> int" where
  "cmdk_down rows index =
     (let k = (if index < int (length rows) - 1 then index + 1 else index)
      in if divider_at rows k then (if k = int (length rows) - 1 then index else k + 1) else k)"

definition cmdk_start :: "'a row list \<Rightarrow> int" where
  "cmdk_start rows = (if divider_at rows 0 then 1 else 0)"

section \<open>The contract\<close>

text \<open>
  On acceptable rows, down goes to the nearest item below, or stays when there is none; up likewise;
  and the start is the first item.
\<close>

locale list_nav =
  fixes up :: "'a row list \<Rightarrow> int \<Rightarrow> int"
    and down :: "'a row list \<Rightarrow> int \<Rightarrow> int"
    and start :: "'a row list \<Rightarrow> int"
    and ok :: "'a row list \<Rightarrow> bool"
  assumes down_item: "ok rows \<Longrightarrow> item_at rows k \<Longrightarrow> item_at rows (down rows k) \<and> k \<le> down rows k"
    and down_next: "ok rows \<Longrightarrow> item_at rows k \<Longrightarrow> k < j \<Longrightarrow> item_at rows j \<Longrightarrow> k < down rows k \<and> down rows k \<le> j"
    and up_item: "ok rows \<Longrightarrow> item_at rows k \<Longrightarrow> item_at rows (up rows k) \<and> up rows k \<le> k"
    and up_next: "ok rows \<Longrightarrow> item_at rows k \<Longrightarrow> j < k \<Longrightarrow> item_at rows j \<Longrightarrow> up rows k < k \<and> j \<le> up rows k"
    and start_item: "ok rows \<Longrightarrow> rows \<noteq> [] \<Longrightarrow> item_at rows (start rows)"
    and start_first: "ok rows \<Longrightarrow> item_at rows j \<Longrightarrow> start rows \<le> j"
begin

text \<open>A walk is a list of key presses, \<open>True\<close> for down.\<close>

definition walk :: "'a row list \<Rightarrow> bool list \<Rightarrow> int \<Rightarrow> int" where
  "walk rows keys k = fold (\<lambda>d k. if d then down rows k else up rows k) keys k"

lemma walk_item: "ok rows \<Longrightarrow> item_at rows k \<Longrightarrow> item_at rows (walk rows keys k)"
  by (induction keys arbitrary: k) (auto simp: walk_def down_item up_item)

lemma up_down:
  assumes "ok rows" and "item_at rows k" and "down rows k \<noteq> k"
  shows "up rows (down rows k) = k"
proof -
  have d: "item_at rows (down rows k)" "k < down rows k"
    using down_item [OF assms(1,2)] assms(3) by auto
  have u: "item_at rows (up rows (down rows k))" "up rows (down rows k) < down rows k"
      "k \<le> up rows (down rows k)"
    using up_item [OF assms(1) d(1)] up_next [OF assms(1) d(1) d(2) assms(2)] by auto
  show ?thesis
  proof (rule ccontr)
    assume "up rows (down rows k) \<noteq> k"
    then have "k < up rows (down rows k)" using u by linarith
    then show False
      using down_next [OF assms(1,2) _ u(1)] u(2) by linarith
  qed
qed

lemma down_up:
  assumes "ok rows" and "item_at rows k" and "up rows k \<noteq> k"
  shows "down rows (up rows k) = k"
proof -
  have u: "item_at rows (up rows k)" "up rows k < k"
    using up_item [OF assms(1,2)] assms(3) by auto
  have d: "item_at rows (down rows (up rows k))" "up rows k < down rows (up rows k)"
      "down rows (up rows k) \<le> k"
    using down_item [OF assms(1) u(1)] down_next [OF assms(1) u(1) u(2) assms(2)] by auto
  show ?thesis
  proof (rule ccontr)
    assume "down rows (up rows k) \<noteq> k"
    then have "down rows (up rows k) < k" using d by linarith
    then show False
      using up_next [OF assms(1,2) _ d(1)] d(2) by linarith
  qed
qed

text \<open>Pressing down often enough from the start reaches every item.\<close>

lemma reach_item:
  assumes "ok rows" and "item_at rows j"
  shows "\<exists>n. (down rows ^^ n) (start rows) = j"
proof -
  have ne: "rows \<noteq> []"
    using item_at_range [OF assms(2)] by auto
  have "item_at rows k \<Longrightarrow> k \<le> j \<Longrightarrow> \<exists>n. (down rows ^^ n) k = j" for k
  proof (induction "nat (j - k)" arbitrary: k rule: less_induct)
    case less
    show ?case
    proof (cases "k = j")
      case True
      then show ?thesis by (intro exI [of _ 0]) simp
    next
      case False
      then have kj: "k < j" using less.prems(2) by simp
      have d: "item_at rows (down rows k)" "k < down rows k" "down rows k \<le> j"
        using down_item [OF assms(1) less.prems(1)] down_next [OF assms(1) less.prems(1) kj assms(2)]
        by auto
      obtain n where "(down rows ^^ n) (down rows k) = j"
        using less.hyps [of "down rows k"] d kj by auto
      then show ?thesis
        by (intro exI [of _ "Suc n"]) (simp add: funpow_swap1)
    qed
  qed
  then show ?thesis
    using start_item [OF assms(1) ne] start_first [OF assms] by blast
qed

end

section \<open>The contract holds\<close>

lemma skip_down_spec:
  assumes "0 \<le> k" and "k < int (length rows)"
  shows "k \<le> skip_down rows k \<and> skip_down rows k < int (length rows) \<and>
    (\<forall>j. k \<le> j \<and> j < skip_down rows k \<longrightarrow> divider_at rows j) \<and>
    (divider_at rows (skip_down rows k) \<longrightarrow> skip_down rows k = int (length rows) - 1)"
  using assms
proof (induction rows k rule: skip_down.induct)
  case (1 rows k)
  show ?case
  proof (cases "divider_at rows k \<and> k \<noteq> int (length rows) - 1")
    case True
    have eq: "skip_down rows k = skip_down rows (k + 1)"
      using True by (subst skip_down.simps) simp
    have "k + 1 \<le> skip_down rows (k + 1) \<and> skip_down rows (k + 1) < int (length rows) \<and>
        (\<forall>j. k + 1 \<le> j \<and> j < skip_down rows (k + 1) \<longrightarrow> divider_at rows j) \<and>
        (divider_at rows (skip_down rows (k + 1)) \<longrightarrow> skip_down rows (k + 1) = int (length rows) - 1)"
      using "1.IH" [OF True] "1.prems" True by auto
    moreover have "divider_at rows j" if "k \<le> j" "j < skip_down rows (k + 1)" for j
      using that True calculation by (cases "j = k") auto
    ultimately show ?thesis
      unfolding eq by auto
  next
    case False
    then show ?thesis
      using "1.prems" by (subst (1 2 3 4 5) skip_down.simps) auto
  qed
qed

lemma skip_up_spec:
  assumes "start \<le> k" and "0 \<le> start"
  shows "start \<le> skip_up rows start k \<and> skip_up rows start k \<le> k \<and>
    (\<forall>j. skip_up rows start k < j \<and> j \<le> k \<longrightarrow> divider_at rows j) \<and>
    (divider_at rows (skip_up rows start k) \<longrightarrow> skip_up rows start k = start)"
  using assms
proof (induction rows start k rule: skip_up.induct)
  case (1 rows start k)
  show ?case
  proof (cases "divider_at rows k \<and> k \<noteq> start")
    case True
    have eq: "skip_up rows start k = skip_up rows start (k - 1)"
      using True by (subst skip_up.simps) simp
    have ih: "start \<le> skip_up rows start (k - 1) \<and> skip_up rows start (k - 1) \<le> k - 1 \<and>
        (\<forall>j. skip_up rows start (k - 1) < j \<and> j \<le> k - 1 \<longrightarrow> divider_at rows j) \<and>
        (divider_at rows (skip_up rows start (k - 1)) \<longrightarrow> skip_up rows start (k - 1) = start)"
      using "1.IH" [OF True] "1.prems" True by auto
    moreover have "divider_at rows j" if "skip_up rows start (k - 1) < j" "j \<le> k" for j
      using that True ih by (cases "j = k") auto
    ultimately show ?thesis
      unfolding eq by auto
  next
    case False
    then show ?thesis
      using "1.prems" by (subst (1 2 3 4 5) skip_up.simps) auto
  qed
qed

lemma row_at_Nil [simp]: "row_at [] k = None"
  by (auto simp: row_at_def)

lemma row_at_Cons: "row_at (r # rows) k = (if k = 0 then Some r else row_at rows (k - 1))"
  by (auto simp: row_at_def nth_Cons' nat_diff_distrib)

lemma divider_at_Cons:
  "divider_at (r # rows) k = (if k = 0 then (\<exists>s. r = Divider s) else divider_at rows (k - 1))"
  by (auto simp: divider_at_def row_at_Cons split: row.splits)

lemma item_at_Cons:
  "item_at (r # rows) k = (if k = 0 then (\<exists>x. r = Item x) else item_at rows (k - 1))"
  by (auto simp: item_at_def row_at_Cons split: row.splits)

lemma at_Nil [simp]: "\<not> divider_at [] k" "\<not> item_at [] k"
  by (simp_all add: divider_at_def item_at_def)

lemma startIndex_spec:
  "0 \<le> startIndex rows \<and> startIndex rows \<le> int (length rows) \<and>
   (startIndex rows < int (length rows) \<longrightarrow> item_at rows (startIndex rows)) \<and>
   (item_at rows j \<longrightarrow> startIndex rows \<le> j)"
proof (induction rows arbitrary: j rule: startIndex.induct)
  case (1 s rows)
  have "startIndex rows + 1 \<le> j" if "item_at (Divider s # rows) j"
    using that "1.IH" [of "j - 1"] by (auto simp: item_at_Cons split: if_splits)
  then show ?case
    using "1.IH" [of j] by (auto simp: item_at_Cons)
qed (auto simp: item_at_Cons dest: item_at_range)

text \<open>Rows that do not end with a divider.\<close>

fun ends_with_item :: "'a row list \<Rightarrow> bool" where
  "ends_with_item [] = True"
| "ends_with_item [Divider s] = False"
| "ends_with_item [Item x] = True"
| "ends_with_item (r # r' # rows) = ends_with_item (r' # rows)"

lemma ends_with_item_last:
  "ends_with_item rows \<Longrightarrow> rows \<noteq> [] \<Longrightarrow> item_at rows (int (length rows) - 1)"
  by (induction rows rule: ends_with_item.induct) (simp_all add: item_at_Cons)

interpretation selectableList: list_nav previousIndex nextIndex startIndex ends_with_item
proof
  fix rows :: "'a row list" and k
  assume ok: "ends_with_item rows" and k: "item_at rows k"
  have range: "0 \<le> k" "k < int (length rows)"
    using item_at_range [OF k] by auto
  have last: "item_at rows (int (length rows) - 1)"
    using ends_with_item_last [OF ok] range by fastforce
  let ?d = "if k < int (length rows) - 1 then k + 1 else k"
  have D: "?d \<le> skip_down rows ?d" "skip_down rows ?d < int (length rows)"
      "\<And>j. ?d \<le> j \<Longrightarrow> j < skip_down rows ?d \<Longrightarrow> divider_at rows j"
      "\<not> divider_at rows (skip_down rows ?d)"
    using skip_down_spec [of ?d rows] range item_not_divider [OF last] by auto
  have di: "item_at rows (skip_down rows ?d)"
    using D range not_divider_item [of "skip_down rows ?d" rows] by auto
  then show "item_at rows (nextIndex rows k) \<and> k \<le> nextIndex rows k"
    using D(1) by (auto simp: nextIndex_def split: if_splits)
  show "k < nextIndex rows k \<and> nextIndex rows k \<le> j" if "k < j" "item_at rows j" for j
  proof -
    have "k < int (length rows) - 1" "?d \<le> j"
      using that item_at_range [OF that(2)] by auto
    moreover have "\<not> j < skip_down rows ?d"
      using D(3) [OF \<open>?d \<le> j\<close>] item_not_divider [OF that(2)] by blast
    ultimately show ?thesis
      using D(1) by (simp add: nextIndex_def)
  qed
  let ?s = "startIndex rows" and ?u = "if k > startIndex rows then k - 1 else k"
  have s: "0 \<le> ?s" "?s \<le> k" "item_at rows ?s"
    using startIndex_spec [of rows k] k range by auto
  have U: "?s \<le> skip_up rows ?s ?u" "skip_up rows ?s ?u \<le> ?u"
      "\<And>j. skip_up rows ?s ?u < j \<Longrightarrow> j \<le> ?u \<Longrightarrow> divider_at rows j"
      "\<not> divider_at rows (skip_up rows ?s ?u)"
    using skip_up_spec [of ?s ?u rows] s item_not_divider [OF s(3)] by auto
  have "skip_up rows ?s ?u \<le> k"
    using U(2) by (simp split: if_splits)
  then have "item_at rows (skip_up rows ?s ?u)"
    using U(1,4) s(1) range not_divider_item [of "skip_up rows ?s ?u" rows] by linarith
  then show "item_at rows (previousIndex rows k) \<and> previousIndex rows k \<le> k"
    using \<open>skip_up rows ?s ?u \<le> k\<close> by (simp add: previousIndex_def)
  show "previousIndex rows k < k \<and> j \<le> previousIndex rows k" if "j < k" "item_at rows j" for j
  proof -
    have "?s < k" "j \<le> ?u"
      using startIndex_spec [of rows j] that by auto
    moreover have "\<not> skip_up rows ?s ?u < j"
      using U(3) [OF _ \<open>j \<le> ?u\<close>] item_not_divider [OF that(2)] by blast
    ultimately show ?thesis
      using U(2) by (simp add: previousIndex_def)
  qed
next
  fix rows :: "'a row list"
  assume ok: "ends_with_item rows" and ne: "rows \<noteq> []"
  show "item_at rows (startIndex rows)"
    using ends_with_item_last [OF ok ne] startIndex_spec [of rows "int (length rows) - 1"]
      item_at_range by fastforce
next
  fix rows :: "'a row list" and j
  assume "item_at rows j"
  then show "startIndex rows \<le> j"
    using startIndex_spec by blast
qed

text \<open>A list of items without dividers.\<close>

lemma ends_with_item_map: "ends_with_item (map (\<lambda>m. Item (f m)) ms)"
  by (induction ms rule: induct_list012) auto

lemma row_at_map:
  "n < length ms \<Longrightarrow> row_at (map (\<lambda>m. Item (f m)) ms) (int n) = Some (Item (f (ms ! n)))"
  by (simp add: row_at_def)

lemma reach_row:
  assumes "n < length ms"
  shows "\<exists>k. (nextIndex (map (\<lambda>m. Item (f m)) ms) ^^ k) (startIndex (map (\<lambda>m. Item (f m)) ms)) = int n"
  by (rule selectableList.reach_item [OF ends_with_item_map])
    (use assms in \<open>simp add: item_at_def row_at_map\<close>)

text \<open>Rows in which every divider is followed by an item.\<close>

fun well_grouped :: "'a row list \<Rightarrow> bool" where
  "well_grouped [] = True"
| "well_grouped (Item x # rows) = well_grouped rows"
| "well_grouped (Divider s # Item x # rows) = well_grouped rows"
| "well_grouped (Divider s # rows) = False"

lemma well_grouped_next: "well_grouped rows \<Longrightarrow> divider_at rows k \<Longrightarrow> item_at rows (k + 1)"
proof (induction rows arbitrary: k rule: well_grouped.induct)
  case (2 x rows)
  then have "divider_at rows (k - 1)"
    by (simp add: divider_at_Cons split: if_splits)
  with 2 show ?case
    using divider_at_range [of rows "k - 1"] "2.IH" [of "k - 1"] by (auto simp: item_at_Cons)
next
  case (3 s x rows)
  show ?case
  proof (cases "k = 0")
    case True
    then show ?thesis by (simp add: item_at_Cons)
  next
    case False
    then have "divider_at rows (k - 1 - 1)"
      using 3 by (simp add: divider_at_Cons split: if_splits)
    with 3 show ?thesis
      using divider_at_range [of rows "k - 1 - 1"] "3.IH" [of "k - 1 - 1"]
      by (auto simp: item_at_Cons)
  qed
qed simp_all

interpretation cmdkList: list_nav cmdk_up cmdk_down cmdk_start well_grouped
proof
  fix rows :: "'a row list" and k
  assume ok: "well_grouped rows" and k: "item_at rows k"
  note next_item = well_grouped_next [OF ok]
  have range: "0 \<le> k" "k < int (length rows)"
    using item_at_range [OF k] by auto
  have plain: "item_at rows j" if "\<not> divider_at rows j" "0 \<le> j" "j < int (length rows)" for j
    using that not_divider_item by blast
  have down: "cmdk_down rows k =
      (if k < int (length rows) - 1 then (if divider_at rows (k + 1) then k + 2 else k + 1) else k)"
    using next_item [of "k + 1"] item_at_range [of rows "k + 2"] item_not_divider [OF k]
      item_at_range [of rows "int (length rows)"]
    by (auto simp: cmdk_down_def Let_def)
  show "item_at rows (cmdk_down rows k) \<and> k \<le> cmdk_down rows k"
    using down next_item [of "k + 1"] plain [of "k + 1"] k range by (auto simp: add.assoc)
  show "k < cmdk_down rows k \<and> cmdk_down rows k \<le> j" if "k < j" "item_at rows j" for j
  proof -
    have "divider_at rows (k + 1) \<Longrightarrow> j \<noteq> k + 1"
      using that(2) item_not_divider by blast
    then show ?thesis
      using down that item_at_range [OF that(2)] by auto
  qed
  have up: "cmdk_up rows k =
      (if k > 0 then (if divider_at rows (k - 1) then (if k = 1 then k else k - 2) else k - 1) else k)"
    using item_not_divider [OF k] range by (auto simp: cmdk_up_def Let_def)
  have no_two: "divider_at rows (k - 1) \<Longrightarrow> 1 < k \<Longrightarrow> \<not> divider_at rows (k - 2)"
    using next_item [of "k - 2"] item_not_divider [of rows "k - 1"] by auto
  show "item_at rows (cmdk_up rows k) \<and> cmdk_up rows k \<le> k"
    using up no_two plain [of "k - 1"] plain [of "k - 2"] k range by auto
  show "cmdk_up rows k < k \<and> j \<le> cmdk_up rows k" if "j < k" "item_at rows j" for j
  proof -
    have "divider_at rows (k - 1) \<Longrightarrow> j \<noteq> k - 1"
      using that(2) item_not_divider by blast
    then show ?thesis
      using up that item_at_range [OF that(2)] by auto
  qed
next
  fix rows :: "'a row list"
  assume ok: "well_grouped rows" and "rows \<noteq> []"
  then show "item_at rows (cmdk_start rows)"
    using well_grouped_next [OF ok, of 0] not_divider_item [of 0 rows] by (auto simp: cmdk_start_def)
next
  fix rows :: "'a row list" and j
  assume "item_at rows j"
  then have "0 \<le> j" "divider_at rows 0 \<Longrightarrow> j \<noteq> 0"
    using item_at_range item_not_divider by blast+
  then show "cmdk_start rows \<le> j"
    by (auto simp: cmdk_start_def)
qed

section \<open>Properties\<close>

text \<open>
  C28. In a selectable list that does not end with a divider the active row is always an item,
  whatever keys are pressed, starting from an item; and moving up after a move down, or down after a
  move up, comes back to the same item.
\<close>

theorem selectableList_keys:
  assumes "ends_with_item rows" and "item_at rows k"
  shows "item_at rows (fold (\<lambda>e k. fst (SelectableList_onKeyDown rows g searchable e k)) keys k) \<and>
    (nextIndex rows k \<noteq> k \<longrightarrow> previousIndex rows (nextIndex rows k) = k) \<and>
    (previousIndex rows k \<noteq> k \<longrightarrow> nextIndex rows (previousIndex rows k) = k)"
proof -
  have step: "item_at rows (fst (SelectableList_onKeyDown rows g searchable e i))" if "item_at rows i" for e i
    using selectableList.up_item [OF assms(1) that] selectableList.down_item [OF assms(1) that] that
    by (simp add: SelectableList_onKeyDown_def)
  have "item_at rows i \<Longrightarrow> item_at rows (fold (\<lambda>e k. fst (SelectableList_onKeyDown rows g searchable e k)) keys i)" for i
    by (induction keys arbitrary: i) (simp_all add: step)
  then show ?thesis
    using assms selectableList.up_down [OF assms] selectableList.down_up [OF assms] by blast
qed

text \<open>
  In a selectable list that does not end with a divider, pressing down often enough from the
  start index reaches every item, and Enter on an item with an action performs that action and then
  the list's global action.
\<close>

theorem selectableList_reaches:
  assumes "ends_with_item rows" and "row_at rows j = Some (Item i)" and "li_action i = Some a"
  shows "(\<exists>n. (nextIndex rows ^^ n) (startIndex rows) = j) \<and>
    SelectableList_onKeyDown rows g searchable (plain_key ''Enter'') j = (j, a @ g)"
proof -
  have "item_at rows j"
    using assms(2) by (simp add: item_at_def)
  then show ?thesis
    using selectableList.reach_item [OF assms(1)] assms(2,3)
    by (simp add: SelectableList_onKeyDown_def execute_def plain_key_def)
qed

text \<open>
  Two ways to leave the items of a selectable list. When a list that was empty gets rows that
  start with a divider, the active index is still 0, on the divider, and moving up goes to -1, where
  no row is active and Enter does nothing. And a divider at the end can be reached by moving down.
\<close>

theorem selectableList_leaves_items:
  "previousIndex (Divider s # Item x # rows) (startIndex []) = -1 \<and>
   execute g (row_at (Divider s # Item x # rows) (-1)) = [] \<and>
   divider_at [Item x, Divider t] (nextIndex [Item x, Divider t] 0)"
proof -
  have start: "startIndex (Divider s # Item x # rows) = 1"
    by simp
  have "previousIndex (Divider s # Item x # rows) 0 = skip_up (Divider s # Item x # rows) 1 0"
    by (simp add: previousIndex_def)
  also have "\<dots> = skip_up (Divider s # Item x # rows) 1 (-1)"
    by (subst skip_up.simps) (simp add: divider_at_Cons)
  also have "\<dots> = -1"
    using divider_at_range [of "Divider s # Item x # rows" "-1"] by (subst skip_up.simps) auto
  finally have "previousIndex (Divider s # Item x # rows) (startIndex []) = -1"
    by simp
  moreover have "nextIndex [Item x, Divider t] 0 = 1"
    unfolding nextIndex_def by (subst skip_down.simps) simp
  ultimately show ?thesis
    by (simp add: divider_at_Cons row_at_def execute_def)
qed

text \<open>
  In the command palette, when every section name is followed by a result, the active row is
  always a result, moves are inverse to each other, and every result is reached by moving down from
  the start.
\<close>

theorem cmdk_keys:
  assumes "well_grouped rows" and "item_at rows k"
  shows "item_at rows (fold (\<lambda>d k. if d then cmdk_down rows k else cmdk_up rows k) keys (cmdk_start rows)) \<and>
    (cmdk_down rows k \<noteq> k \<longrightarrow> cmdk_up rows (cmdk_down rows k) = k) \<and>
    (\<exists>n. (cmdk_down rows ^^ n) (cmdk_start rows) = k)"
proof -
  have "rows \<noteq> []"
    using assms(2) by auto
  then show ?thesis
    using cmdkList.walk_item [OF assms(1) cmdkList.start_item [OF assms(1)], of keys]
      cmdkList.up_down [OF assms] cmdkList.reach_item [OF assms]
    by (simp add: cmdkList.walk_def)
qed

section \<open>Witnesses\<close>

definition sample_rows :: "(unit, nat) listItem row list" where
  "sample_rows =
     [Divider ''friends'', Item \<lparr>li_id = Inr 1, li_data = (), li_action = Some [7]\<rparr>,
      Divider ''others'', Item \<lparr>li_id = Inr 2, li_data = (), li_action = None\<rparr>]"

lemma sample_rows_at [simp]:
  "item_at sample_rows 1" "item_at sample_rows 3" "ends_with_item sample_rows" "well_grouped sample_rows"
  "row_at sample_rows 1 = Some (Item \<lparr>li_id = Inr 1, li_data = (), li_action = Some [7]\<rparr>)"
  by (simp_all add: sample_rows_def item_at_def row_at_def)

theorem selectableList_keys_witness:
  "item_at sample_rows (fold (\<lambda>e k. fst (SelectableList_onKeyDown sample_rows [] False e k))
     [plain_key ''j'', plain_key ''k''] 1)"
  using selectableList_keys [of sample_rows 1 "[]" False "[plain_key ''j'', plain_key ''k'']"]
  by simp

theorem selectableList_reaches_witness:
  "SelectableList_onKeyDown sample_rows [9] True (plain_key ''Enter'') 1 = (1, [7, 9])"
  using selectableList_reaches [of sample_rows 1 "\<lparr>li_id = Inr 1, li_data = (), li_action = Some [7]\<rparr>" "[7]" "[9]" True]
  by simp

theorem cmdk_keys_witness:
  "\<exists>n. (cmdk_down sample_rows ^^ n) (cmdk_start sample_rows) = 3"
  using cmdk_keys [of sample_rows 3 "[]"] by simp

end
