(* ===== verification/Messages.thy ===== *)
theory Messages imports ListNav Daemon begin

text \<open>
  Lists of messages (\<open>components/MessageList.tsx\<close>) and the view of one message
  (\<open>components/Read.tsx\<close>). The state of a list is its array of messages; batches of the
  stream are merged into it. Formatting a date for the locale, turning Markdown into HTML and
  sanitising HTML are parameters.
\<close>

section \<open>Comparing delivery times\<close>

text \<open>
  The operands of the comparison: the \<open>deliveredAt\<close> object of a message or, when it has none,
  a \<open>Date\<close>. The operators less and greater convert an object to a primitive value first: a
  date to its time, and a plain object, whatever its fields, to the string
  \<open>[object Object]\<close>. Two strings are compared as strings; a number and that string, which is
  no numeral, compare as false.
\<close>

datatype js_operand = JObject timestamp | JDate js_date

datatype js_primitive = PString string | PNumber int

fun to_primitive :: "js_operand \<Rightarrow> js_primitive" where
  "to_primitive (JObject t) = PString ''[object Object]''"
| "to_primitive (JDate d) = PNumber d"

fun js_less :: "js_primitive \<Rightarrow> js_primitive \<Rightarrow> bool" where
  "js_less (PString a) (PString b) = js_str_less a b"
| "js_less (PNumber a) (PNumber b) = (a < b)"
| "js_less a b = False"

definition deliveryTime :: "js_date \<Rightarrow> incomingMessage \<Rightarrow> js_operand" where
  "deliveryTime now m = (case im_deliveredAt m of Some t \<Rightarrow> JObject t | None \<Rightarrow> JDate now)"

definition compareDelivery :: "js_date \<Rightarrow> incomingMessage \<Rightarrow> incomingMessage \<Rightarrow> int" where
  "compareDelivery now a b =
     (let aTime = to_primitive (deliveryTime now a);
          bTime = to_primitive (deliveryTime now b)
      in if js_less bTime aTime then -1 else if js_less aTime bTime then 1 else 0)"

section \<open>IncomingMessageList\<close>

datatype listType = ListNew | ListAll

text \<open>The update that the handler of a batch makes; \<open>now\<close> is the clock during the sort.\<close>

definition mergeMessages ::
  "js_date \<Rightarrow> incomingMessage list \<Rightarrow> incomingMessage list \<Rightarrow> incomingMessage list" where
  "mergeMessages now messages prev = js_sort (compareDelivery now) (messages @ prev)"

text \<open>The effect of the type: the list is emptied and the stream of that filter subscribed to.\<close>

definition listFilter :: "listType \<Rightarrow> messageFilter" where
  "listFilter ty = (case ty of ListNew \<Rightarrow> FilterNEW | ListAll \<Rightarrow> FilterALL)"

definition subscribeMessages ::
  "daemonImpl \<Rightarrow> listType \<Rightarrow> incomingMessage list \<times> (js_error + getMessagesRequest option)" where
  "subscribeMessages d ty =
     getMessagesStreamed d \<lparr>gm_filter = listFilter ty\<rparr>
       (\<lambda>messages prev. (mergeMessages (di_now d) messages prev, None)) []"

text \<open>The list after some events of the stream.\<close>

definition incomingAfter :: "daemonImpl \<Rightarrow> listType \<Rightarrow> streamEvent list \<Rightarrow> incomingMessage list" where
  "incomingAfter d ty evs =
     (if di_fake d then fst (subscribeMessages d ty)
      else run_stream (\<lambda>messages prev. (mergeMessages (di_now d) messages prev, None)) evs
             (fst (subscribeMessages d ty)))"

datatype readAction = ReadIncoming incomingMessage | ReadOutgoing outgoingMessage

definition incomingItems ::
  "incomingMessage list \<Rightarrow> (incomingMessage, readAction) listItem row list" where
  "incomingItems messages =
     map (\<lambda>m. Item \<lparr>li_id = Inr (im_uid m), li_data = m, li_action = Some [ReadIncoming m]\<rparr>) messages"

definition showBackground :: "'m list \<Rightarrow> bool" where
  "showBackground messages \<longleftrightarrow> length messages = 0"

definition IncomingMessageBlurb :: "(js_date \<Rightarrow> string) \<Rightarrow> incomingMessage \<Rightarrow> 'a node" where
  "IncomingMessageBlurb formatTime m =
     (let timestampString =
            (case im_deliveredAt m of
               None \<Rightarrow> ''Not yet delivered.''
             | Some t \<Rightarrow> formatTime (protobufDateToDate t))
      in Elem ''div'' None
           [Elem ''div'' None [Text (im_fromDisplayName m)],
            Elem ''div'' None [Text (Utils.truncate (im_message m) 65)],
            Elem ''div'' None [],
            Elem ''div'' None [Text timestampString]])"

section \<open>OutgoingMessageList\<close>

datatype outgoingType = Outbox | Sent

text \<open>The effect of the type: the answer replaces the list, an error leaves it as it is.\<close>

definition loadOutgoing ::
  "daemonImpl \<Rightarrow> outgoingType \<Rightarrow> outgoingMessage list \<Rightarrow> rpc list \<times> outgoingMessage list" where
  "loadOutgoing d ty messages =
     (let r = (case ty of Outbox \<Rightarrow> getOutboxMessages d | Sent \<Rightarrow> getSentMessages d)
      in (fst r, (case snd r of Inr messagesList \<Rightarrow> messagesList | Inl e \<Rightarrow> messages)))"

definition outgoingItems ::
  "outgoingMessage list \<Rightarrow> (outgoingMessage, readAction) listItem row list" where
  "outgoingItems messages =
     map (\<lambda>m. Item \<lparr>li_id = Inr (om_uid m), li_data = m, li_action = Some [ReadOutgoing m]\<rparr>) messages"

definition OutgoingMessageBlurb :: "(js_date \<Rightarrow> string) \<Rightarrow> outgoingMessage \<Rightarrow> 'a node" where
  "OutgoingMessageBlurb formatTime m =
     (let timestampString =
            (case om_sentAt m of
               None \<Rightarrow> ''Not yet sent.''
             | Some t \<Rightarrow> formatTime (protobufDateToDate t))
      in Elem ''div'' None
           [Elem ''div'' None [Text (''To: '' @ js_join '', '' (map of_displayName (om_toFriendsList m)))],
            Elem ''div'' None [Text (Utils.truncate (om_message m) 65)],
            Elem ''div'' None [],
            Elem ''div'' None [Text timestampString]])"

section \<open>Read\<close>

text \<open>
  The message that is read. \<open>in\<close> looks for a key: an incoming message has \<open>deliveredAt\<close>,
  \<open>fromDisplayName\<close> and \<open>otherRecipientsList\<close>, an outgoing one has \<open>sentAt\<close>.
\<close>

datatype anyMessage = Incoming incomingMessage | Outgoing outgoingMessage

fun read_timestamp :: "(js_date \<Rightarrow> string) \<Rightarrow> anyMessage \<Rightarrow> string" where
  "read_timestamp formatTime (Incoming m) =
     (case im_deliveredAt m of None \<Rightarrow> ''Not yet delivered.'' | Some t \<Rightarrow> formatTime (protobufDateToDate t))"
| "read_timestamp formatTime (Outgoing m) =
     (case om_sentAt m of None \<Rightarrow> ''Not yet sent.'' | Some t \<Rightarrow> formatTime (protobufDateToDate t))"

fun read_from :: "anyMessage \<Rightarrow> string" where
  "read_from (Incoming m) = im_fromDisplayName m"
| "read_from (Outgoing m) = ''me''"

fun read_to :: "anyMessage \<Rightarrow> string" where
  "read_to (Incoming m) =
     ''me'' @ js_join [] (map (\<lambda>r. if mf_displayName r \<noteq> [] then '', '' @ mf_displayName r
                                   else '', '' @ mf_publicId r) (im_otherRecipientsList m))"
| "read_to (Outgoing m) = js_join '', '' (map of_displayName (om_toFriendsList m))"

fun message_text :: "anyMessage \<Rightarrow> string" where
  "message_text (Incoming m) = im_message m"
| "message_text (Outgoing m) = om_message m"

text \<open>The page; the last element's content is the sanitised HTML.\<close>

definition Read_view ::
  "(js_date \<Rightarrow> string) \<Rightarrow> (string \<Rightarrow> string) \<Rightarrow> (string \<Rightarrow> string) \<Rightarrow> anyMessage \<Rightarrow> 'a node" where
  "Read_view formatTime micromark sanitize m =
     (let purifiedMessage = sanitize (micromark (message_text m))
      in Elem ''div'' None
           [Elem ''div'' None [Text ''From:'', Text (read_from m)],
            Elem ''div'' None [Text ''To:'', Text (read_to m), Text (read_timestamp formatTime m)],
            Elem ''html'' None [Text purifiedMessage]])"

text \<open>Escape is prevented from doing anything else (the Boolean) and closes the message.\<close>

definition Read_onKeyDown :: "'a \<Rightarrow> keyEvent \<Rightarrow> bool \<times> 'a list" where
  "Read_onKeyDown onClose e = (if ev_key e = ''Escape'' then (True, [onClose]) else (False, []))"

section \<open>Lemmas\<close>

lemma to_primitive_cases:
  "to_primitive (deliveryTime now m) = PString ''[object Object]'' \<or>
   to_primitive (deliveryTime now m) = PNumber now"
  by (auto simp: deliveryTime_def split: option.splits)

text \<open>The comparator never tells two messages apart.\<close>

lemma compareDelivery_zero: "compareDelivery now a b = 0"
  using to_primitive_cases [of now a] to_primitive_cases [of now b]
  by (auto simp: compareDelivery_def Let_def)

lemma mergeMessages_append: "mergeMessages now messages prev = messages @ prev"
  unfolding mergeMessages_def by (rule js_sort_no_swap) (simp add: compareDelivery_zero)

lemma fold_merge: "fold (\<lambda>lm s. mergeMessages now lm s) batches s = concat (rev batches) @ s"
  by (induction batches arbitrary: s) (simp_all add: mergeMessages_append)

lemma incomingAfter_batches:
  "incomingAfter d ty evs =
     (if di_fake d then fake_streamed (di_now d) (listFilter ty) else concat (rev (stream_batches evs)))"
proof -
  have "fold (\<lambda>lm s. fst (mergeMessages (di_now d) lm s, None :: js_error option)) bs s = concat (rev bs) @ s" for bs s
    by (simp add: fold_merge)
  then show ?thesis
    by (simp add: mergeMessages_append incomingAfter_def subscribeMessages_def getMessagesStreamed_def
        run_stream_batches)
qed

section \<open>Properties\<close>

text \<open>
  Merging a batch into the list, which means to sort by time of delivery, only puts the batch in
  front: the comparison converts both time stamps to the same string. After any events of the
  stream the list is the batches in reverse order of arrival, and in fake mode the built-in batch.
\<close>

theorem incoming_not_sorted:
  "mergeMessages now messages prev = messages @ prev \<and>
   incomingAfter d ty evs =
     (if di_fake d then fake_streamed (di_now d) (listFilter ty) else concat (rev (stream_batches evs)))"
  by (simp add: mergeMessages_append incomingAfter_batches)

text \<open>
  Every message of a list can be opened with the keyboard alone: some number of moves down from
  the start makes it the active row, and Enter then reads exactly that message. This holds for
  incoming and for outgoing messages.
\<close>

theorem messages_by_keyboard:
  assumes "n < length ims" and "k < length oms"
  shows "(\<exists>i. (nextIndex (incomingItems ims) ^^ i) (startIndex (incomingItems ims)) = int n) \<and>
    snd (SelectableList_onKeyDown (incomingItems ims) [] False (plain_key ''Enter'') (int n))
      = [ReadIncoming (ims ! n)] \<and>
    (\<exists>i. (nextIndex (outgoingItems oms) ^^ i) (startIndex (outgoingItems oms)) = int k) \<and>
    snd (SelectableList_onKeyDown (outgoingItems oms) [] False (plain_key ''Enter'') (int k))
      = [ReadOutgoing (oms ! k)]"
  using assms
  by (simp add: incomingItems_def outgoingItems_def reach_row row_at_map SelectableList_onKeyDown_def
      execute_def plain_key_def)

text \<open>
  What is shown of a message is sanitised, whoever wrote it; the sender of an incoming message is
  shown by name and one's own messages as \<open>me\<close>; and the recipients of an incoming message are
  the reader and all the others, by display name or, for strangers, by public identifier.
\<close>

theorem read_view_contents:
  "Read_view fmt md san m = Elem ''div'' None
     [Elem ''div'' None [Text ''From:'', Text (case m of Incoming i \<Rightarrow> im_fromDisplayName i | Outgoing q \<Rightarrow> ''me'')],
      Elem ''div'' None
        [Text ''To:'',
         Text (case m of
             Incoming i \<Rightarrow> js_join '', '' (''me'' # map (\<lambda>r. if mf_displayName r = [] then mf_publicId r else mf_displayName r)
                 (im_otherRecipientsList i))
           | Outgoing q \<Rightarrow> js_join '', '' (map of_displayName (om_toFriendsList q))),
         Text (read_timestamp fmt m)],
      Elem ''html'' None [Text (san (md (message_text m)))]]"
proof -
  have fmt: "(\<lambda>r. if mf_displayName r \<noteq> [] then '', '' @ mf_displayName r else '', '' @ mf_publicId r)
      = (\<lambda>r :: incomingMaybeFriend. '', '' @ (if mf_displayName r = [] then mf_publicId r else mf_displayName r))"
    by (rule ext) simp
  have "read_to m = (case m of
      Incoming i \<Rightarrow> js_join '', '' (''me'' # map (\<lambda>r. if mf_displayName r = [] then mf_publicId r else mf_displayName r)
        (im_otherRecipientsList i))
    | Outgoing q \<Rightarrow> js_join '', '' (map of_displayName (om_toFriendsList q)))"
    by (cases m) (simp_all only: read_to.simps fmt js_join_map_Cons anyMessage.case)
  moreover have "read_from m = (case m of Incoming i \<Rightarrow> im_fromDisplayName i | Outgoing q \<Rightarrow> ''me'')"
    by (cases m) simp_all
  ultimately show ?thesis
    by (simp add: Read_view_def Let_def)
qed

section \<open>Witnesses\<close>

theorem messages_by_keyboard_witness:
  "snd (SelectableList_onKeyDown (incomingItems (fake_getMessages 0 FilterNEW)) [] False (plain_key ''Enter'') 1)
   = [ReadIncoming (fake_getMessages 0 FilterNEW ! 1)]"
  using messages_by_keyboard [of 1 "fake_getMessages 0 FilterNEW" 0 "fake_sent 0"]
  by (simp add: fake_getMessages_def fake_sent_def)

end
