(* ===== verification/Compose.thy ===== *)
theory Compose imports ListNav Daemon begin

text \<open>
  Writing a message: \<open>components/Compose/Write.tsx\<close> with the selection of its recipients, the
  focus of its fields, sending, and the link matchers of the editor. The state is the data of the
  tab, which the main window keeps; an edit is a new value of it. The search over the contacts
  (match-sorter), the editor (Lexical), which gives the text as Markdown, and the regular expressions
  of the link matchers are parameters.
\<close>

section \<open>State\<close>

record writeFriend =
  wf_uniqueName :: string
  wf_displayName :: string
  wf_publicId :: "string option"

record multiSelectData =
  ml_friends :: "writeFriend list"
  ml_text :: string

datatype writeFocus = FocusContent | FocusTo

record writeData =
  wd_content :: string
  wd_multiSelect :: multiSelectData
  wd_focus :: writeFocus

abbreviation selected_names :: "multiSelectData \<Rightarrow> string list" where
  "selected_names ml \<equiv> map wf_uniqueName (ml_friends ml)"

section \<open>MultiSelect\<close>

text \<open>The action of an option, \<open>l.slice(0, -1)\<close> for the backspace, and the input's change.\<close>

definition selectFriend :: "writeFriend \<Rightarrow> multiSelectData \<Rightarrow> multiSelectData" where
  "selectFriend friend ml =
     (let oldFriends =
            (if find (\<lambda>f. wf_uniqueName f = wf_uniqueName friend) (ml_friends ml) = None
             then ml_friends ml @ [friend] else ml_friends ml)
      in ml\<lparr>ml_friends := oldFriends, ml_text := []\<rparr>)"

definition MultiSelect_onChange :: "string \<Rightarrow> multiSelectData \<Rightarrow> multiSelectData" where
  "MultiSelect_onChange s ml = ml\<lparr>ml_text := s\<rparr>"

definition MultiSelect_onKeyDown :: "keyEvent \<Rightarrow> multiSelectData \<Rightarrow> multiSelectData" where
  "MultiSelect_onKeyDown e ml =
     (if ev_key e = ''Backspace'' \<and> length (ml_text ml) = 0
      then ml\<lparr>ml_friends := js_slice (ml_friends ml) 0 (-1)\<rparr> else ml)"

text \<open>
  The rows of the list: one per matching option, or a line saying that there is none.
  \<open>search options text\<close> are the matches.
\<close>

definition selectableOptions ::
  "(writeFriend list \<Rightarrow> string \<Rightarrow> writeFriend list) \<Rightarrow> writeFriend list \<Rightarrow> multiSelectData \<Rightarrow>
   (string, multiSelectData) listItem row list" where
  "selectableOptions search options ml =
     (let rows = map (\<lambda>friend. Item \<lparr>li_id = Inl (wf_uniqueName friend), li_data = wf_displayName friend,
                                 li_action = Some [selectFriend friend ml]\<rparr>)
                   (search options (ml_text ml))
      in if length rows = 0 \<and> length (ml_text ml) > 0
         then rows @ [Divider (''No contacts matching '' @ ml_text ml)]
         else if length options = 0 \<and> length (ml_friends ml) = 0
         then rows @ [Divider ''No contacts. Add some!'']
         else rows)"

section \<open>Write\<close>

text \<open>The contacts: friends, then outgoing synchronous invitations, in the order of arrival.\<close>

definition addFriendList :: "friend list \<Rightarrow> writeFriend list \<Rightarrow> writeFriend list" where
  "addFriendList friends f =
     f @ map (\<lambda>x. \<lparr>wf_uniqueName = fr_uniqueName x, wf_displayName = fr_displayName x,
                    wf_publicId = Some (fr_publicId x)\<rparr>) friends"

definition addSyncInvitations :: "outgoingSyncInvitation list \<Rightarrow> writeFriend list \<Rightarrow> writeFriend list" where
  "addSyncInvitations invitations f =
     f @ map (\<lambda>x. \<lparr>wf_uniqueName = os_uniqueName x, wf_displayName = os_displayName x,
                    wf_publicId = None\<rparr>) invitations"

definition loadContacts :: "daemonImpl \<Rightarrow> writeFriend list" where
  "loadContacts d =
     (let f = (case snd (getFriendList d) of Inr l \<Rightarrow> addFriendList l [] | Inl e \<Rightarrow> [])
      in case snd (getOutgoingSyncInvitations d) of Inr l \<Rightarrow> addSyncInvitations l f | Inl e \<Rightarrow> f)"

definition Write_options :: "writeFriend list \<Rightarrow> writeData \<Rightarrow> writeFriend list" where
  "Write_options friends wd =
     filter (\<lambda>friend. find (\<lambda>f. wf_uniqueName f = wf_uniqueName friend) (ml_friends (wd_multiSelect wd)) = None)
       friends"

datatype writeEffect =
    SetStatus string
  | Edit writeData
  | OnDone
  | OnClose

text \<open>\<open>content.replace\<close> of every two line breaks by one.\<close>

definition collapse_newlines :: "string \<Rightarrow> string" where
  "collapse_newlines s = js_join js_newline (js_split s (js_newline @ js_newline))"

text \<open>
  \<open>editor\<close> is the Markdown of the editor's state, \<open>None\<close> while the reference to that state
  is null. The result is the remote calls and the effects, those of the answer included.
\<close>

definition send :: "daemonImpl \<Rightarrow> string option \<Rightarrow> writeData \<Rightarrow> rpc list \<times> writeEffect list" where
  "send d editor wd =
     (let ml = wd_multiSelect wd
      in if length (ml_text ml) > 0 then ([], [SetStatus (''Unknown contact: '' @ ml_text ml @ ''.'')])
         else if length (ml_friends ml) = 0 then ([], [SetStatus ''No contacts selected.''])
         else case editor of
           None \<Rightarrow> ([], [SetStatus ''Internal error. Please try again.''])
         | Some markdown \<Rightarrow>
             (let content = collapse_newlines markdown;
                  uniqueNames = map wf_uniqueName (ml_friends ml);
                  displayNames = map wf_displayName (ml_friends ml);
                  r = sendMessage d \<lparr>sm_uniqueNameList = uniqueNames, sm_message = content\<rparr>
              in (fst r,
                  (case snd r of
                     Inr _ \<Rightarrow> [SetStatus (''Message sent to '' @ js_join '', '' displayNames @ ''.''), OnDone]
                   | Inl e \<Rightarrow> [SetStatus ''Message failed to send.'']))))"

definition Write_onKeyDown :: "daemonImpl \<Rightarrow> string option \<Rightarrow> keyEvent \<Rightarrow> writeData \<Rightarrow> rpc list \<times> writeEffect list" where
  "Write_onKeyDown d editor e wd =
     (if ev_key e = ''Tab''
      then (if wd_focus wd = FocusTo then ([], [Edit (wd\<lparr>wd_focus := FocusContent\<rparr>)]) else ([], []))
      else if ev_meta e \<and> ev_key e = ''Enter'' then send d editor wd
      else if ev_key e = ''Escape'' then ([], [OnClose])
      else ([], []))"

text \<open>
  The edits that the page makes of its data. \<open>Write_events\<close> applies a sequence of them, the
  data of each being what the main window stored after the one before.
\<close>

datatype writeEvent =
    ChooseOption nat
  | TypeText string
  | PressKey keyEvent
  | ClickTo
  | EditorFocus
  | WindowKey keyEvent

definition onEdit :: "multiSelectData \<Rightarrow> writeData \<Rightarrow> writeData" where
  "onEdit ml wd = wd\<lparr>wd_multiSelect := ml\<rparr>"

fun Write_event ::
  "(writeFriend list \<Rightarrow> string \<Rightarrow> writeFriend list) \<Rightarrow> writeFriend list \<Rightarrow> writeEvent \<Rightarrow> writeData \<Rightarrow> writeData" where
  "Write_event search friends (ChooseOption n) wd =
     (case row_at (selectableOptions search (Write_options friends wd) (wd_multiSelect wd)) (int n) of
        Some (Item i) \<Rightarrow> (case li_action i of Some [ml] \<Rightarrow> onEdit ml wd | _ \<Rightarrow> wd)
      | _ \<Rightarrow> wd)"
| "Write_event search friends (TypeText s) wd = onEdit (MultiSelect_onChange s (wd_multiSelect wd)) wd"
| "Write_event search friends (PressKey e) wd = onEdit (MultiSelect_onKeyDown e (wd_multiSelect wd)) wd"
| "Write_event search friends ClickTo wd = wd\<lparr>wd_focus := FocusTo\<rparr>"
| "Write_event search friends EditorFocus wd = wd\<lparr>wd_focus := FocusContent\<rparr>"
| "Write_event search friends (WindowKey e) wd =
     (if ev_key e = ''Tab'' \<and> wd_focus wd = FocusTo then wd\<lparr>wd_focus := FocusContent\<rparr> else wd)"

definition Write_events ::
  "(writeFriend list \<Rightarrow> string \<Rightarrow> writeFriend list) \<Rightarrow> writeFriend list \<Rightarrow> writeEvent list \<Rightarrow> writeData \<Rightarrow> writeData" where
  "Write_events search friends evs wd = fold (Write_event search friends) evs wd"

section \<open>Links in the editor\<close>

text \<open>
  A matcher gets the first match of its regular expression, its index and its text, and answers with
  index, length, text and address.
\<close>

definition urlMatcher ::
  "(string \<Rightarrow> (nat \<times> string) option) \<Rightarrow> string \<Rightarrow> (nat \<times> nat \<times> string \<times> string) option" where
  "urlMatcher exec text_in =
     (case exec text_in of
        None \<Rightarrow> None
      | Some (i, m) \<Rightarrow>
          (let url = (if js_substring m 0 4 = ''http'' \<or> js_substring m 0 3 = ''ftp'' then m
                      else ''https://'' @ m)
           in Some (i, length m, m, url)))"

definition emailMatcher ::
  "(string \<Rightarrow> (nat \<times> string) option) \<Rightarrow> string \<Rightarrow> (nat \<times> nat \<times> string \<times> string) option" where
  "emailMatcher exec text_in =
     (case exec text_in of None \<Rightarrow> None | Some (i, m) \<Rightarrow> Some (i, length m, m, ''mailto:'' @ m))"

section \<open>Lemmas\<close>

text \<open>Recipients have distinct names, and the editor's text is not in the data.\<close>

definition write_ok :: "writeData \<Rightarrow> bool" where
  "write_ok wd \<longleftrightarrow> distinct (selected_names (wd_multiSelect wd)) \<and> wd_content wd = []"

lemma selectFriend_distinct:
  "distinct (selected_names ml) \<Longrightarrow> distinct (selected_names (selectFriend friend ml))"
  by (auto simp: selectFriend_def Let_def find_None_iff)

lemma backspace_distinct:
  assumes "distinct (selected_names ml)"
  shows "distinct (selected_names (MultiSelect_onKeyDown e ml))"
proof (cases "ml_friends ml" rule: rev_cases)
  case Nil
  then show ?thesis by (simp add: MultiSelect_onKeyDown_def js_slice_def)
next
  case (snoc ys y)
  with assms show ?thesis
    by (simp add: MultiSelect_onKeyDown_def js_slice_butlast)
qed

lemma option_action:
  "row_at (selectableOptions search options ml) k = Some (Item i) \<Longrightarrow>
   \<exists>friend. li_action i = Some [selectFriend friend ml]"
  by (auto simp: selectableOptions_def Let_def row_at_def nth_append split: if_splits)

lemma write_ok_event: "write_ok wd \<Longrightarrow> write_ok (Write_event search friends ev wd)"
proof (cases ev)
  case (ChooseOption n)
  assume ok: "write_ok wd"
  show ?thesis
  proof (cases "row_at (selectableOptions search (Write_options friends wd) (wd_multiSelect wd)) (int n)")
    case None
    with ok ChooseOption show ?thesis by simp
  next
    case (Some r)
    with ok ChooseOption option_action [of search "Write_options friends wd" "wd_multiSelect wd" "int n"]
    show ?thesis
      by (cases r) (auto simp: write_ok_def onEdit_def selectFriend_distinct)
  qed
qed (auto simp: write_ok_def onEdit_def MultiSelect_onChange_def backspace_distinct)

lemma write_ok_events: "write_ok wd \<Longrightarrow> write_ok (Write_events search friends evs wd)"
  unfolding Write_events_def
  by (induction evs arbitrary: wd) (simp_all add: write_ok_event)

section \<open>Properties\<close>

text \<open>
  C31. Whatever a user does to the recipients of a message, from an empty form: nobody is a recipient
  twice, nobody who is a recipient is offered again, and the \<open>content\<close> of the tab's data stays
  empty, so the text lives in the editor only and is gone when the tab is left.
\<close>

theorem recipients_distinct:
  assumes "wd_content wd = []" and "ml_friends (wd_multiSelect wd) = []"
  shows "distinct (selected_names (wd_multiSelect (Write_events search friends evs wd))) \<and>
    set (map wf_uniqueName (Write_options friends (Write_events search friends evs wd)))
      \<inter> set (selected_names (wd_multiSelect (Write_events search friends evs wd))) = {} \<and>
    wd_content (Write_events search friends evs wd) = []"
proof -
  have "write_ok (Write_events search friends evs wd)"
    using assms by (intro write_ok_events) (simp add: write_ok_def)
  moreover have "set (map wf_uniqueName (Write_options friends v)) \<inter> set (selected_names (wd_multiSelect v)) = {}" for v
    by (force simp: Write_options_def find_None_iff)
  ultimately show ?thesis
    by (simp add: write_ok_def)
qed


text \<open>
  Choosing any option of the list through the keyboard: as long as there is a match, the list
  ends with an item, every match is reached by moving down, and Enter adds exactly that contact and
  clears the search text.
\<close>

theorem options_by_keyboard:
  assumes "n < length (search options (ml_text ml))" and "options \<noteq> [] \<or> ml_friends ml \<noteq> []"
  shows "(\<exists>i. (nextIndex (selectableOptions search options ml) ^^ i)
      (startIndex (selectableOptions search options ml)) = int n) \<and>
    snd (SelectableList_onKeyDown (selectableOptions search options ml) [] True (plain_key ''Enter'') (int n))
      = [selectFriend (search options (ml_text ml) ! n) ml] \<and>
    ml_text (selectFriend (search options (ml_text ml) ! n) ml) = [] \<and>
    wf_uniqueName (search options (ml_text ml) ! n)
      \<in> set (selected_names (selectFriend (search options (ml_text ml) ! n) ml))"
proof -
  let ?f = "\<lambda>friend. \<lparr>li_id = Inl (wf_uniqueName friend) :: string + int, li_data = wf_displayName friend,
    li_action = Some [selectFriend friend ml]\<rparr>"
  have rows: "selectableOptions search options ml = map (\<lambda>friend. Item (?f friend)) (search options (ml_text ml))"
    using assms by (auto simp: selectableOptions_def Let_def)
  have "wf_uniqueName friend \<in> set (selected_names (selectFriend friend ml))" for friend
    by (cases "find (\<lambda>f. wf_uniqueName f = wf_uniqueName friend) (ml_friends ml)")
      (auto simp: selectFriend_def Let_def find_Some_iff intro!: rev_image_eqI nth_mem)
  then show ?thesis
    using assms(1) unfolding rows
    by (simp add: reach_row row_at_map SelectableList_onKeyDown_def execute_def plain_key_def selectFriend_def Let_def)
qed

section \<open>Witnesses\<close>

definition bob :: writeFriend where
  "bob = \<lparr>wf_uniqueName = ''bob'', wf_displayName = ''Bob'', wf_publicId = None\<rparr>"

definition empty_write :: writeData where
  "empty_write = \<lparr>wd_content = [], wd_multiSelect = \<lparr>ml_friends = [], ml_text = []\<rparr>, wd_focus = FocusTo\<rparr>"

theorem recipients_distinct_witness:
  "distinct (selected_names (wd_multiSelect
     (Write_events (\<lambda>os t. os) [bob] [ChooseOption 0, TypeText ''bo'', ChooseOption 0] empty_write)))"
  using recipients_distinct [of empty_write "\<lambda>os t. os" "[bob]" "[ChooseOption 0, TypeText ''bo'', ChooseOption 0]"]
  by (simp add: empty_write_def)


theorem options_by_keyboard_witness:
  "snd (SelectableList_onKeyDown (selectableOptions (\<lambda>os t. os) [bob] \<lparr>ml_friends = [], ml_text = ''b''\<rparr>)
     [] True (plain_key ''Enter'') 0) = [selectFriend bob \<lparr>ml_friends = [], ml_text = ''b''\<rparr>]"
  using options_by_keyboard [of 0 "\<lambda>os t. os" "[bob]" "\<lparr>ml_friends = [], ml_text = ''b''\<rparr>"] by simp

end
