(* ===== verification/Widgets.thy ===== *)
theory Widgets imports ListNav Daemon begin

text \<open>
  Smaller parts of the main window: the status line with its timers (\<open>components/Status.tsx\<close>),
  the dialog of a first start (\<open>components/RegisterModal.tsx\<close>), the side bar
  (\<open>components/SideBar/\<close>), and the two lists of invitations
  (\<open>components/Invitations.tsx\<close>).
\<close>

section \<open>Status\<close>

text \<open>
  The state of \<open>StatusHandler\<close>, with the clock (in milliseconds) and the times at which the
  pending time-outs are due.
\<close>

record statusState =
  su_message :: string
  su_display :: bool
  su_clock :: int
  su_timers :: "int list"

definition StatusHandler_init :: statusState where
  "StatusHandler_init = \<lparr>su_message = [], su_display = False, su_clock = 0, su_timers = []\<rparr>"

datatype statusEvent = SetStatusMessage string | SetVisible | CloseStatus | Wait int

text \<open>
  \<open>setVisible\<close> starts a time-out of ten seconds and never clears an earlier one; a time-out that
  is due hides whatever is shown.
\<close>

fun status_step :: "statusEvent \<Rightarrow> statusState \<Rightarrow> statusState" where
  "status_step (SetStatusMessage m) s = s\<lparr>su_message := m\<rparr>"
| "status_step SetVisible s = s\<lparr>su_display := True, su_timers := (su_clock s + 10000) # su_timers s\<rparr>"
| "status_step CloseStatus s = s\<lparr>su_display := False\<rparr>"
| "status_step (Wait dt) s =
     (let c = su_clock s + dt
      in s\<lparr>su_clock := c,
           su_display := su_display s \<and> \<not> list_ex (\<lambda>t. t \<le> c) (su_timers s),
           su_timers := filter (\<lambda>t. c < t) (su_timers s)\<rparr>)"

definition status_run :: "statusEvent list \<Rightarrow> statusState \<Rightarrow> statusState" where
  "status_run evs s = fold status_step evs s"

definition Status_view :: "'a \<Rightarrow> statusState \<Rightarrow> 'a node option" where
  "Status_view onClose s =
     (if su_display s
      then Some (Elem ''div'' None
             [Elem ''div'' None [Text (su_message s)],
              Elem ''div'' None [Elem ''codicon-close'' (Some ([onClose], True)) []]])
      else None)"

fun waited :: "statusEvent list \<Rightarrow> int" where
  "waited [] = 0"
| "waited (Wait dt # evs) = dt + waited evs"
| "waited (ev # evs) = waited evs"

definition quiet_event :: "statusEvent \<Rightarrow> bool" where
  "quiet_event ev \<longleftrightarrow> ev \<noteq> SetVisible \<and> (case ev of Wait dt \<Rightarrow> 0 \<le> dt | _ \<Rightarrow> True)"

text \<open>A pending time-out keeps hiding the status until it is due.\<close>

lemma status_run_clock: "su_clock (status_run evs s) = su_clock s + waited evs"
proof (induction evs arbitrary: s)
  case (Cons ev evs)
  then show ?case
    by (cases ev) (simp_all add: status_run_def Let_def)
qed (simp add: status_run_def)

lemma status_run_pending:
  assumes "list_all quiet_event evs" and "\<not> su_display s \<or> t \<in> set (su_timers s) \<and> su_clock s < t"
  shows "\<not> su_display (status_run evs s) \<or>
    t \<in> set (su_timers (status_run evs s)) \<and> su_clock (status_run evs s) < t"
  using assms
proof (induction evs arbitrary: s)
  case (Cons ev evs)
  have "\<not> su_display (status_step ev s) \<or>
      t \<in> set (su_timers (status_step ev s)) \<and> su_clock (status_step ev s) < t"
    using Cons.prems
    by (cases ev) (auto simp: quiet_event_def Let_def list_ex_iff intro!: bexI [of _ t])
  with Cons show ?case
    by (simp add: status_run_def)
qed (simp add: status_run_def)

text \<open>While no time-out is due and nobody closes it, a status that is shown stays.\<close>

lemma status_run_stays:
  assumes "list_all (\<lambda>ev. quiet_event ev \<and> ev \<noteq> CloseStatus) evs" and "su_display s"
    and "list_all (\<lambda>t. su_clock s + waited evs < t) (su_timers s)"
  shows "su_display (status_run evs s)"
  using assms
proof (induction evs arbitrary: s)
  case (Cons ev evs)
  have w: "0 \<le> waited evs"
  proof -
    have "list_all (\<lambda>ev. quiet_event ev \<and> ev \<noteq> CloseStatus) es \<Longrightarrow> 0 \<le> waited es" for es
      by (induction es rule: waited.induct) (auto simp: quiet_event_def)
    then show ?thesis using Cons.prems by simp
  qed
  have "su_display (status_step ev s) \<and>
      list_all (\<lambda>t. su_clock (status_step ev s) + waited evs < t) (su_timers (status_step ev s))"
    using Cons.prems w
    by (cases ev) (auto simp: quiet_event_def Let_def list_ex_iff list_all_iff)
  with Cons show ?case
    by (simp add: status_run_def)
qed (simp add: status_run_def)

section \<open>RegisterModal\<close>

datatype registerScreen = Welcome | Form

record registerState =
  rg_screen :: registerScreen
  rg_username :: string
  rg_accesskey :: string

definition RegisterModal_init :: registerState where
  "RegisterModal_init = \<lparr>rg_screen = Welcome, rg_username = ''No Name'', rg_accesskey = []\<rparr>"

datatype registerAction = ShowForm | TypeKey string | OnRegister string string | CloseRegister

definition RegisterModal_view :: "registerState \<Rightarrow> registerAction node" where
  "RegisterModal_view s =
     (case rg_screen s of
        Welcome \<Rightarrow>
          Modal_view CloseRegister
            [Elem ''h1'' None [Text ''Welcome to complete privacy.''],
             Elem ''button'' (Some ([ShowForm], False)) [Text ''Get started'']]
      | Form \<Rightarrow>
          Modal_view CloseRegister
            [Elem ''div'' None [Text ''Register''],
             Elem ''label'' None [Text ''Access key: ''],
             Elem ''input'' None [Text (rg_accesskey s)],
             Elem ''button'' (Some ([OnRegister (rg_username s) (rg_accesskey s)], False)) [Text ''Register'']])"

text \<open>What an action does to the dialog itself; \<open>OnRegister\<close> goes to the main window.\<close>

fun RegisterModal_step :: "registerAction \<Rightarrow> registerState \<Rightarrow> registerState" where
  "RegisterModal_step ShowForm s = s\<lparr>rg_screen := Form\<rparr>"
| "RegisterModal_step (TypeKey k) s = s\<lparr>rg_accesskey := k\<rparr>"
| "RegisterModal_step (OnRegister u k) s = s"
| "RegisterModal_step CloseRegister s = s"

section \<open>SideBar\<close>

datatype sideBarButton = INBOX | OUTBOX | SENT | ADD_FRIEND | INVITATIONS

definition sideBarItem :: "string \<Rightarrow> string \<Rightarrow> sideBarButton \<Rightarrow> (string, sideBarButton) listItem row" where
  "sideBarItem i name b = Item \<lparr>li_id = Inl i, li_data = name, li_action = Some [b]\<rparr>"

definition SideBar_items :: "(string, sideBarButton) listItem row list" where
  "SideBar_items =
     [sideBarItem ''inbox'' ''Inbox'' INBOX,
      sideBarItem ''outbox'' ''Outbox'' OUTBOX,
      sideBarItem ''sent'' ''Sent'' SENT,
      sideBarItem ''add-friend'' ''Add Friend'' ADD_FRIEND,
      sideBarItem ''invitations'' ''Invitations'' INVITATIONS]"

text \<open>The keys while the side bar is open; the list is searchable and has an empty global action.\<close>

definition SideBar_onKeyDown :: "keyEvent \<Rightarrow> int \<Rightarrow> int \<times> sideBarButton list" where
  "SideBar_onKeyDown e active = SelectableList_onKeyDown SideBar_items [] True e active"

section \<open>Invitations\<close>

text \<open>What an error prints in a template string.\<close>

fun error_string :: "js_error \<Rightarrow> string" where
  "error_string (TypeError m) = ''TypeError: '' @ m"
| "error_string (JsError m) = ''Error: '' @ m"
| "error_string (GrpcError m) = ''Error: '' @ m"

record 'i invitationsState =
  in_list :: "'i list"
  in_refresh :: bool

definition Invitations_init :: "'i invitationsState" where
  "Invitations_init = \<lparr>in_list = [], in_refresh = True\<rparr>"

text \<open>
  The effect after a render: when a refresh is wanted, the flag is reset and the list asked for; the
  answer replaces it, an error becomes a status. The result is the remote calls, the statuses and the
  state.
\<close>

definition OutgoingInvitations_effect ::
  "daemonImpl \<Rightarrow> outgoingAsyncInvitation invitationsState \<Rightarrow>
   rpc list \<times> string list \<times> outgoingAsyncInvitation invitationsState" where
  "OutgoingInvitations_effect d s =
     (if \<not> in_refresh s then ([], [], s)
      else (let s' = s\<lparr>in_refresh := False\<rparr>; r = getOutgoingAsyncInvitations d
            in case snd r of
                 Inr invitationsList \<Rightarrow> (fst r, [], s'\<lparr>in_list := invitationsList\<rparr>)
               | Inl e \<Rightarrow> (fst r, [''Failed to get outgoing async invitations: '' @ error_string e], s')))"

definition IncomingInvitations_effect ::
  "daemonImpl \<Rightarrow> incomingAsyncInvitation invitationsState \<Rightarrow>
   rpc list \<times> string list \<times> incomingAsyncInvitation invitationsState" where
  "IncomingInvitations_effect d s =
     (if \<not> in_refresh s then ([], [], s)
      else (let s' = s\<lparr>in_refresh := False\<rparr>; r = getIncomingAsyncInvitations d
            in case snd r of
                 Inr invitationsList \<Rightarrow> (fst r, [], s'\<lparr>in_list := invitationsList\<rparr>)
               | Inl e \<Rightarrow> (fst r, [''Failed to get incoming async invitations: '' @ error_string e], s')))"

text \<open>The cancel button of an invitation; its callback asks for a refresh.\<close>

definition cancelInvitation ::
  "daemonImpl \<Rightarrow> outgoingAsyncInvitation \<Rightarrow> outgoingAsyncInvitation invitationsState \<Rightarrow>
   rpc list \<times> string list \<times> outgoingAsyncInvitation invitationsState" where
  "cancelInvitation d invitation s =
     (let r = cancelAsyncInvitation d \<lparr>ca_publicId = oa_publicId invitation\<rparr>
      in case snd r of
           Inr _ \<Rightarrow> (fst r, [''Cancelled invitation to '' @ oa_displayName invitation @ ''.''], s\<lparr>in_refresh := True\<rparr>)
         | Inl e \<Rightarrow> (fst r, [''Failed to cancel invitation: '' @ error_string e], s))"

text \<open>One row of each list; the outgoing one has the button, which does not stop the click.\<close>

definition OutgoingAsyncInvitationComp ::
  "(js_date \<Rightarrow> string) \<Rightarrow> 'a \<Rightarrow> outgoingAsyncInvitation \<Rightarrow> 'a node" where
  "OutgoingAsyncInvitationComp formatTime cancel invitation =
     (let timestampString =
            (case oa_sentAt invitation of None \<Rightarrow> ''Not yet sent.'' | Some t \<Rightarrow> formatTime (protobufDateToDate t))
      in Elem ''div'' None
           [Elem ''div'' None [Text (''To: '' @ oa_displayName invitation @ '' ('' @ Utils.truncate (oa_publicId invitation) 10 @ '')'')],
            Elem ''div'' None [Text (oa_message invitation)],
            Elem ''div'' None [],
            Elem ''div'' None [Text timestampString],
            Elem ''button'' (Some ([cancel], False)) [Text ''Cancel'']])"

definition IncomingInvitationComp :: "(js_date \<Rightarrow> string) \<Rightarrow> incomingAsyncInvitation \<Rightarrow> 'a node" where
  "IncomingInvitationComp formatTime invitation =
     (let timestampString =
            (case ia_receivedAt invitation of
               None \<Rightarrow> ''Not yet received.'' | Some t \<Rightarrow> formatTime (protobufDateToDate t))
      in Elem ''div'' None
           [Elem ''div'' None [Text (Utils.truncate (ia_publicId invitation) 10)],
            Elem ''div'' None [Text (ia_message invitation)],
            Elem ''div'' None [],
            Elem ''div'' None [Text timestampString]])"

text \<open>The rows, and the line below an empty list, which is the same text in both components.\<close>

definition outgoingInvitationItems ::
  "outgoingAsyncInvitation list \<Rightarrow> (outgoingAsyncInvitation, incomingAsyncInvitation) listItem row list" where
  "outgoingInvitationItems l =
     map (\<lambda>invitation. Item \<lparr>li_id = Inl (oa_uniqueName invitation), li_data = invitation, li_action = Some []\<rparr>) l"

definition incomingInvitationItems ::
  "incomingAsyncInvitation list \<Rightarrow> (incomingAsyncInvitation, incomingAsyncInvitation) listItem row list" where
  "incomingInvitationItems l =
     map (\<lambda>invitation. Item \<lparr>li_id = Inl (ia_publicId invitation), li_data = invitation, li_action = Some [invitation]\<rparr>) l"

definition outgoingEmptyState :: "outgoingAsyncInvitation list \<Rightarrow> string option" where
  "outgoingEmptyState l = (if length l = 0 then Some ''No outgoing invitations.'' else None)"

definition incomingEmptyState :: "incomingAsyncInvitation list \<Rightarrow> string option" where
  "incomingEmptyState l = (if length l = 0 then Some ''No outgoing invitations.'' else None)"

section \<open>Properties\<close>

text \<open>
  A status never stays for more than ten seconds: from any state, after \<open>setVisible\<close>, once
  ten seconds have been waited without another \<open>setVisible\<close>, nothing is shown.
\<close>

theorem status_hides:
  assumes "list_all quiet_event evs" and "10000 \<le> waited evs"
  shows "\<not> su_display (status_run (SetVisible # evs) s)"
proof -
  let ?s = "status_step SetVisible s" and ?t = "su_clock s + 10000"
  have "\<not> su_display (status_run evs ?s) \<or>
      ?t \<in> set (su_timers (status_run evs ?s)) \<and> su_clock (status_run evs ?s) < ?t"
    by (rule status_run_pending [OF assms(1)]) simp
  moreover have "su_clock (status_run evs ?s) = su_clock s + waited evs"
    by (simp add: status_run_clock)
  ultimately show ?thesis
    using assms(2) by (simp add: status_run_def)
qed

text \<open>
  A status that is the only one is shown for its ten seconds; but the time-out of an earlier
  status is not cleared, so a second one shown within ten seconds disappears with the first, up to
  ten seconds too early.
\<close>

theorem status_hidden_early:
  assumes "0 < k" and "k < 10000"
  shows "su_display (status_run [SetVisible, Wait (10000 - k)] StatusHandler_init) \<and>
    \<not> su_display (status_run [SetVisible, Wait k, SetVisible, Wait (10000 - k)] StatusHandler_init)"
  using assms by (simp add: status_run_def StatusHandler_init_def Let_def)

text \<open>
  A cancelled invitation. When the daemon accepts, the user is told and the next effect asks for
  the list and shows the daemon's answer; when it refuses, the reason is shown and the list is
  neither changed nor asked for again.
\<close>

theorem cancel_refreshes:
  assumes "\<not> di_fake d" and "\<not> in_refresh s"
    and "cl_getOutgoingAsyncInvitations (di_client d) () = Inr (Some l)"
    and "c = cancelInvitation d invitation s" and "e = OutgoingInvitations_effect d (snd (snd c))"
  shows "(case cl_cancelAsyncInvitation (di_client d) \<lparr>ca_publicId = oa_publicId invitation\<rparr> of
      Inr (Some _) \<Rightarrow>
        fst c @ fst e = [RpcCancelAsyncInvitation \<lparr>ca_publicId = oa_publicId invitation\<rparr>, RpcGetOutgoingAsyncInvitations] \<and>
        fst (snd c) @ fst (snd e) = [''Cancelled invitation to '' @ oa_displayName invitation @ ''.''] \<and>
        in_list (snd (snd e)) = l \<and> \<not> in_refresh (snd (snd e))
    | _ \<Rightarrow>
        fst c = [RpcCancelAsyncInvitation \<lparr>ca_publicId = oa_publicId invitation\<rparr>] \<and>
        length (fst (snd c)) = 1 \<and> snd (snd c) = s \<and> e = ([], [], s))"
  using assms
  by (auto simp: cancelInvitation_def OutgoingInvitations_effect_def methods_real unary_def Let_def
      split: sum.splits option.splits)

text \<open>
  The side bar and the incoming invitations by keyboard: moving down from the start reaches every
  button and every invitation, and Enter hands exactly that one to the main window.
\<close>

theorem sidebar_invitations_keyboard:
  assumes "n < length l"
  shows "(\<exists>i j. (nextIndex SideBar_items ^^ i) (startIndex SideBar_items) = j \<and>
      snd (SideBar_onKeyDown (plain_key ''Enter'') j) = [b]) \<and>
    (\<exists>i. (nextIndex (incomingInvitationItems l) ^^ i) (startIndex (incomingInvitationItems l)) = int n) \<and>
    snd (SelectableList_onKeyDown (incomingInvitationItems l) [] False (plain_key ''Enter'') (int n)) = [l ! n]"
proof -
  have "\<exists>j. item_at SideBar_items j \<and> snd (SideBar_onKeyDown (plain_key ''Enter'') j) = [b]"
  proof -
    have "\<exists>j \<in> {0, 1, 2, 3, 4}. row_at SideBar_items j = Some (Item \<lparr>li_id = li_id i, li_data = li_data i, li_action = Some [b]\<rparr>)"
      if "i = (case b of INBOX \<Rightarrow> \<lparr>li_id = Inl ''inbox'', li_data = ''Inbox'', li_action = None\<rparr>
           | OUTBOX \<Rightarrow> \<lparr>li_id = Inl ''outbox'', li_data = ''Outbox'', li_action = None\<rparr>
           | SENT \<Rightarrow> \<lparr>li_id = Inl ''sent'', li_data = ''Sent'', li_action = None\<rparr>
           | ADD_FRIEND \<Rightarrow> \<lparr>li_id = Inl ''add-friend'', li_data = ''Add Friend'', li_action = None\<rparr>
           | INVITATIONS \<Rightarrow> (\<lparr>li_id = Inl ''invitations'', li_data = ''Invitations'', li_action = None\<rparr>
               :: (string, sideBarButton) listItem))" for i
      using that by (cases b) (simp_all add: SideBar_items_def sideBarItem_def row_at_Cons)
    then obtain j r where "row_at SideBar_items j = Some (Item r)" "li_action r = Some [b]"
      by (metis listItem.select_convs(3))
    then show ?thesis
      by (intro exI [of _ j])
        (simp add: item_at_def SideBar_onKeyDown_def SelectableList_onKeyDown_def execute_def plain_key_def)
  qed
  moreover have "ends_with_item SideBar_items"
    by (simp add: SideBar_items_def sideBarItem_def)
  ultimately have "\<exists>i j. (nextIndex SideBar_items ^^ i) (startIndex SideBar_items) = j \<and>
      snd (SideBar_onKeyDown (plain_key ''Enter'') j) = [b]"
    using selectableList.reach_item by blast
  then show ?thesis
    using assms
    by (simp add: incomingInvitationItems_def reach_row row_at_map SelectableList_onKeyDown_def
        execute_def plain_key_def)
qed

section \<open>Witnesses\<close>

theorem status_hides_witness:
  "\<not> su_display (status_run [SetVisible, Wait 4000, SetStatusMessage ''x'', Wait 6000] StatusHandler_init)"
  using status_hides [of "[Wait 4000, SetStatusMessage ''x'', Wait 6000]" StatusHandler_init]
  by (simp add: quiet_event_def)

theorem status_hidden_early_witness:
  "\<not> su_display (status_run [SetVisible, Wait 9000, SetVisible, Wait 1000] StatusHandler_init)"
  using status_hidden_early [of 9000] by simp

theorem cancel_refreshes_witness:
  "fst (cancelInvitation (sample_daemon False) (hd (fake_outgoing_async 0)) \<lparr>in_list = fake_outgoing_async 0, in_refresh = False\<rparr>)
   @ fst (OutgoingInvitations_effect (sample_daemon False)
       (snd (snd (cancelInvitation (sample_daemon False) (hd (fake_outgoing_async 0))
         \<lparr>in_list = fake_outgoing_async 0, in_refresh = False\<rparr>))))
   = [RpcCancelAsyncInvitation \<lparr>ca_publicId = oa_publicId (hd (fake_outgoing_async 0))\<rparr>, RpcGetOutgoingAsyncInvitations]"
  using cancel_refreshes [of "sample_daemon False" "\<lparr>in_list = fake_outgoing_async 0, in_refresh = False\<rparr>" "[]",
      OF _ _ _ refl refl, of "hd (fake_outgoing_async 0)"]
  by (simp add: sample_daemon_def sample_client_def)

theorem sidebar_invitations_keyboard_witness:
  "snd (SelectableList_onKeyDown (incomingInvitationItems (fake_incoming_async 0)) [] False (plain_key ''Enter'') 1)
   = [fake_incoming_async 0 ! 1]"
  using sidebar_invitations_keyboard [of 1 "fake_incoming_async 0"] by (simp add: fake_incoming_async_def)

end
