(* ===== verification/ContactForms.thy ===== *)
theory ContactForms imports Widgets begin

text \<open>
  What the three forms for a new contact (\<open>AddFriendRemotePartTwo.tsx\<close>,
  \<open>AddFriendIncoming.tsx\<close>, \<open>AddFriendInPerson.tsx\<close>) have in common: two names, of which
  the unique one follows the display name until it is typed, and a final request whose success closes
  the dialog. The locales \<open>name_form\<close> and \<open>request_form\<close> are these contracts; every form is an
  interpretation of both.
\<close>

section \<open>The names of a contact\<close>

text \<open>What a user types: the display name, or the unique name.\<close>

datatype nameEvent = TypeDisplay string | TypeUnique string

definition type_names ::
  "(string \<Rightarrow> 's \<Rightarrow> 's) \<Rightarrow> (string \<Rightarrow> 's \<Rightarrow> 's) \<Rightarrow> nameEvent list \<Rightarrow> 's \<Rightarrow> 's" where
  "type_names typeDisplay typeUnique evs s =
     fold (\<lambda>ev s. case ev of TypeDisplay v \<Rightarrow> typeDisplay v s | TypeUnique v \<Rightarrow> typeUnique v s) evs s"

text \<open>The specification: the last text of each field, and the derived name if the second was never typed.\<close>

definition typed_display :: "nameEvent list \<Rightarrow> string" where
  "typed_display evs = fold (\<lambda>ev v. case ev of TypeDisplay w \<Rightarrow> w | TypeUnique w \<Rightarrow> v) evs []"

definition typed_unique :: "nameEvent list \<Rightarrow> string option" where
  "typed_unique evs = fold (\<lambda>ev v. case ev of TypeDisplay w \<Rightarrow> v | TypeUnique w \<Rightarrow> Some w) evs None"

definition final_unique :: "nameEvent list \<Rightarrow> string" where
  "final_unique evs =
     (case typed_unique evs of Some v \<Rightarrow> v | None \<Rightarrow> generateUniqueNameFromDisplayName (typed_display evs))"

lemma typed_snoc [simp]:
  "type_names tD tU (evs @ [ev]) s =
     (case ev of TypeDisplay v \<Rightarrow> tD v (type_names tD tU evs s) | TypeUnique v \<Rightarrow> tU v (type_names tD tU evs s))"
  "typed_display (evs @ [ev]) = (case ev of TypeDisplay w \<Rightarrow> w | TypeUnique w \<Rightarrow> typed_display evs)"
  "typed_unique (evs @ [ev]) = (case ev of TypeDisplay w \<Rightarrow> typed_unique evs | TypeUnique w \<Rightarrow> Some w)"
  by (simp_all add: type_names_def typed_display_def typed_unique_def split: nameEvent.split)

lemma typed_Nil [simp]:
  "type_names tD tU [] s = s" "typed_display [] = []" "typed_unique [] = None"
  by (simp_all add: type_names_def typed_display_def typed_unique_def)

locale name_form =
  fixes typeDisplay :: "string \<Rightarrow> 's \<Rightarrow> 's"
    and typeUnique :: "string \<Rightarrow> 's \<Rightarrow> 's"
    and displayName :: "'s \<Rightarrow> string"
    and uniqueName :: "'s \<Rightarrow> string"
    and modified :: "'s \<Rightarrow> bool"
  assumes display_display: "displayName (typeDisplay v s) = v"
    and display_unique: "uniqueName (typeDisplay v s) =
      (if modified s then uniqueName s else generateUniqueNameFromDisplayName v)"
    and display_modified: "modified (typeDisplay v s) = modified s"
    and unique_unique: "uniqueName (typeUnique v s) = v"
    and unique_display: "displayName (typeUnique v s) = displayName s"
    and unique_modified: "modified (typeUnique v s)"
begin

definition untouched :: "'s \<Rightarrow> bool" where
  "untouched s \<longleftrightarrow> \<not> modified s \<and> displayName s = [] \<and> uniqueName s = []"

text \<open>From an untouched form, the names are those of the specification.\<close>

lemma type_names_final:
  assumes "untouched s"
  shows "displayName (type_names typeDisplay typeUnique evs s) = typed_display evs \<and>
    uniqueName (type_names typeDisplay typeUnique evs s) = final_unique evs \<and>
    (modified (type_names typeDisplay typeUnique evs s) \<longleftrightarrow> typed_unique evs \<noteq> None)"
proof (induction evs rule: rev_induct)
  case Nil
  then show ?case
    using assms by (simp add: untouched_def final_unique_def)
next
  case (snoc ev evs)
  then show ?case
    by (cases ev)
      (auto simp: final_unique_def display_display display_unique display_modified unique_unique unique_display
        unique_modified split: option.splits)
qed

end

section \<open>The request of a dialog\<close>

datatype dialogEffect =
    DialogStatus string
  | DialogClose
  | PastePublicId string
  | CopyToClipboard string

text \<open>
  The user presses the button of a dialog again and again, until the dialog closes; the state of the
  form and the daemon may be different at each attempt.
\<close>

fun attempts :: "('a \<Rightarrow> rpc list \<times> dialogEffect list) \<Rightarrow> 'a list \<Rightarrow> rpc list \<times> bool" where
  "attempts finish [] = ([], False)"
| "attempts finish (a # as) =
     (if DialogClose \<in> set (snd (finish a)) then (fst (finish a), True)
      else (fst (finish a) @ fst (attempts finish as), snd (attempts finish as)))"

text \<open>The attempts that are made: up to the first one that succeeds.\<close>

fun until_success :: "('a \<Rightarrow> bool) \<Rightarrow> 'a list \<Rightarrow> 'a list" where
  "until_success p [] = []"
| "until_success p (a # as) = (if p a then [a] else a # until_success p as)"

text \<open>
  A contact is added at most once: the requests are those of the attempts up to the first success, the
  dialog closes exactly when there was one, and at most one attempt was successful.
\<close>

definition added_once :: "('a \<Rightarrow> rpc list \<times> dialogEffect list) \<Rightarrow> ('a \<Rightarrow> bool) \<Rightarrow> 'a list \<Rightarrow> bool" where
  "added_once finish success as \<longleftrightarrow>
     fst (attempts finish as) = concat (map (\<lambda>a. fst (finish a)) (until_success success as)) \<and>
     (snd (attempts finish as) \<longleftrightarrow> (\<exists>a \<in> set as. success a)) \<and>
     length (filter success (until_success success as)) \<le> 1"

locale request_form =
  fixes finish :: "'a \<Rightarrow> rpc list \<times> dialogEffect list"
    and ready :: "'a \<Rightarrow> bool"
    and request :: "'a \<Rightarrow> rpc list"
    and accepted :: "'a \<Rightarrow> bool"
  assumes finish_calls: "fst (finish a) = (if ready a then request a else [])"
    and finish_closes: "DialogClose \<in> set (snd (finish a)) \<longleftrightarrow> ready a \<and> accepted a"
    and finish_status: "\<exists>m rest. snd (finish a) = DialogStatus m # rest"
begin

lemma attempts_once: "added_once finish (\<lambda>a. ready a \<and> accepted a) as"
  unfolding added_once_def by (induction as) (auto simp: finish_closes)

lemma single_attempt:
  "attempts finish [a] = ((if ready a then request a else []), ready a \<and> accepted a)"
  by (simp add: finish_calls finish_closes)

end

end
