(* ===== verification/AddFriend.thy ===== *)
theory AddFriend imports ContactForms begin

text \<open>
  Adding a friend, except in person: the dialog of \<open>components/AddFriend/AddFriend.tsx\<close> with its
  screens, sharing and pasting identifiers (\<open>AddFriendRemote.tsx\<close>), the invitation that is
  sent (\<open>AddFriendRemotePartTwo.tsx\<close>) and the one that was received
  (\<open>AddFriendIncoming.tsx\<close>). The forms are interpretations of the contracts of
  \<open>ContactForms\<close>.
\<close>

section \<open>AddFriendRemote\<close>

text \<open>\<open>/^https?:\/\//\<close> is removed at the start only.\<close>

definition strip_scheme :: "string \<Rightarrow> string" where
  "strip_scheme s =
     (if js_startsWith s ''https://'' then drop 8 s
      else if js_startsWith s ''http://'' then drop 7 s else s)"

definition sanitizeId :: "string \<Rightarrow> string" where
  "sanitizeId theirId =
     (let i = strip_scheme (js_strip_spaces theirId)
      in if js_startsWith i ''anysphere.id/#''
         then js_substring i (int (length ''anysphere.id/#'')) (int (length i)) else i)"

text \<open>The effect of a pasted text: an identifier that the daemon finds valid goes on.\<close>

definition AddFriendRemote_effect :: "daemonImpl \<Rightarrow> string \<Rightarrow> rpc list \<times> dialogEffect list" where
  "AddFriendRemote_effect d theirId =
     (let i = sanitizeId theirId
      in if length i = 0 then ([], [])
         else (let r = isValidPublicID d \<lparr>iv_publicId = i\<rparr>
               in (fst r,
                   (case snd r of
                      Inr v \<Rightarrow> (if iv_valid v then [PastePublicId i] else [])
                    | Inl e \<Rightarrow> [DialogStatus (''Failed to check if public ID is valid: '' @ error_string e)]))))"

definition AddFriendRemote_copy :: "string \<Rightarrow> dialogEffect list" where
  "AddFriendRemote_copy publicId =
     [CopyToClipboard (''https://anysphere.id/#'' @ publicId), DialogStatus ''Copied to clipboard.'']"

section \<open>AddFriendRemotePartTwo\<close>

record partTwoState =
  pt_displayName :: string
  pt_uniqueName :: string
  pt_modified :: bool
  pt_progress :: int

definition PartTwo_init :: partTwoState where
  "PartTwo_init = \<lparr>pt_displayName = [], pt_uniqueName = [], pt_modified = False, pt_progress = 0\<rparr>"

definition PartTwo_display :: "string \<Rightarrow> partTwoState \<Rightarrow> partTwoState" where
  "PartTwo_display v s =
     (let s' = s\<lparr>pt_displayName := v\<rparr>
      in if \<not> pt_modified s then s'\<lparr>pt_uniqueName := generateUniqueNameFromDisplayName v\<rparr> else s')"

definition PartTwo_unique :: "string \<Rightarrow> partTwoState \<Rightarrow> partTwoState" where
  "PartTwo_unique v s = s\<lparr>pt_uniqueName := v, pt_modified := True\<rparr>"

definition PartTwo_onKeyDown :: "keyEvent \<Rightarrow> partTwoState \<Rightarrow> partTwoState" where
  "PartTwo_onKeyDown e s = (if ev_key e = ''Enter'' then s\<lparr>pt_progress := 1\<rparr> else s)"

definition PartTwo_next :: "partTwoState \<Rightarrow> partTwoState" where
  "PartTwo_next s = s\<lparr>pt_progress := 1\<rparr>"

definition PartTwo_back :: "partTwoState \<Rightarrow> partTwoState" where
  "PartTwo_back s = s\<lparr>pt_progress := 0\<rparr>"

text \<open>\<open>editor\<close>: the text of the editor, \<open>None\<close> while the reference to its state is null.\<close>

definition PartTwo_finish ::
  "daemonImpl \<Rightarrow> string \<Rightarrow> string option \<Rightarrow> partTwoState \<Rightarrow> rpc list \<times> dialogEffect list" where
  "PartTwo_finish d theirId editor s =
     (if length (pt_displayName s) = 0 then ([], [DialogStatus ''Please enter a name.''])
      else case editor of
        None \<Rightarrow> ([], [DialogStatus ''Internal error. Please try again.''])
      | Some content \<Rightarrow>
          (let r = addAsyncFriend d \<lparr>aa_uniqueName = pt_uniqueName s, aa_displayName = pt_displayName s,
                     aa_publicId = theirId, aa_message = content\<rparr>
           in (fst r,
               (case snd r of
                  Inr _ \<Rightarrow> [DialogStatus (''Sent an invitation to '' @ pt_displayName s @ ''.''), DialogClose]
                | Inl e \<Rightarrow> [DialogStatus (''Could not add '' @ pt_displayName s @ '': '' @ error_string e)]))))"

text \<open>The page: the form, or the message.\<close>

datatype partTwoPage = NamePage | MessagePage

definition PartTwo_page :: "partTwoState \<Rightarrow> partTwoPage" where
  "PartTwo_page s = (if pt_progress s = 0 then NamePage else if pt_progress s = 1 then MessagePage else NamePage)"

section \<open>AddFriendIncoming\<close>

record incomingState =
  ic_displayName :: string
  ic_uniqueName :: string
  ic_modified :: bool
  ic_progress :: int

definition Incoming_init :: incomingState where
  "Incoming_init = \<lparr>ic_displayName = [], ic_uniqueName = [], ic_modified = False, ic_progress = 0\<rparr>"

definition Incoming_display :: "string \<Rightarrow> incomingState \<Rightarrow> incomingState" where
  "Incoming_display v s =
     (let s' = s\<lparr>ic_displayName := v\<rparr>
      in if \<not> ic_modified s then s'\<lparr>ic_uniqueName := generateUniqueNameFromDisplayName v\<rparr> else s')"

definition Incoming_unique :: "string \<Rightarrow> incomingState \<Rightarrow> incomingState" where
  "Incoming_unique v s = s\<lparr>ic_uniqueName := v, ic_modified := True\<rparr>"

definition Incoming_accept ::
  "daemonImpl \<Rightarrow> incomingAsyncInvitation \<Rightarrow> incomingState \<Rightarrow> rpc list \<times> dialogEffect list" where
  "Incoming_accept d invitation s =
     (if length (ic_displayName s) = 0 then ([], [DialogStatus ''Please enter a name.''])
      else (let r = acceptAsyncInvitation d \<lparr>ac_publicId = ia_publicId invitation,
                      ac_uniqueName = ic_uniqueName s, ac_displayName = ic_displayName s\<rparr>
            in (fst r,
                (case snd r of
                   Inr _ \<Rightarrow> [DialogStatus (''Added '' @ ic_displayName s @ ''.''), DialogClose]
                 | Inl e \<Rightarrow> [DialogStatus (''Could not add '' @ ic_displayName s @ '': '' @ error_string e)]))))"

definition Incoming_reject ::
  "daemonImpl \<Rightarrow> incomingAsyncInvitation \<Rightarrow> rpc list \<times> dialogEffect list" where
  "Incoming_reject d invitation =
     (let r = rejectAsyncInvitation d \<lparr>rj_publicId = ia_publicId invitation\<rparr>
      in (fst r,
          (case snd r of
             Inr _ \<Rightarrow> [DialogStatus (''Rejected invitation from '' @ ia_publicId invitation @ ''.''), DialogClose]
           | Inl e \<Rightarrow> [DialogStatus (''Failed to reject invitation: '' @ error_string e)])))"

text \<open>The buttons between the two pages.\<close>

definition Incoming_setProgress :: "int \<Rightarrow> incomingState \<Rightarrow> incomingState" where
  "Incoming_setProgress k s = s\<lparr>ic_progress := k\<rparr>"

section \<open>AddFriend\<close>

datatype addFriendScreen = Choice | InPerson | Remote | RemotePartTwo | IncomingScreen

record addFriendProps =
  ap_initialScreen :: "addFriendScreen option"
  ap_incomingInvitation :: "incomingAsyncInvitation option"
  ap_theirPublicId :: "string option"

record addFriendState =
  af_screen :: addFriendScreen
  af_story :: string
  af_publicID :: string
  af_theirID :: string

definition AddFriend_init :: "addFriendProps \<Rightarrow> addFriendState" where
  "AddFriend_init p =
     \<lparr>af_screen = (case ap_initialScreen p of Some s \<Rightarrow> s | None \<Rightarrow> Choice), af_story = [], af_publicID = [],
      af_theirID = (case ap_theirPublicId p of Some i \<Rightarrow> i | None \<Rightarrow> [])\<rparr>"

definition AddFriend_effect :: "daemonImpl \<Rightarrow> addFriendState \<Rightarrow> rpc list \<times> dialogEffect list \<times> addFriendState" where
  "AddFriend_effect d s =
     (let r = getMyPublicID d
      in case snd r of
           Inr m \<Rightarrow> (fst r, [], s\<lparr>af_story := mp_story m, af_publicID := mp_publicId m\<rparr>)
         | Inl e \<Rightarrow> (fst r, [DialogStatus (''Internal error: '' @ error_string e)], s))"

datatype addFriendAction = ChooseInPerson | ChooseRemote | OnPastePublicId string

fun AddFriend_step :: "addFriendAction \<Rightarrow> addFriendState \<Rightarrow> addFriendState" where
  "AddFriend_step ChooseInPerson s = s\<lparr>af_screen := InPerson\<rparr>"
| "AddFriend_step ChooseRemote s = s\<lparr>af_screen := Remote\<rparr>"
| "AddFriend_step (OnPastePublicId i) s = s\<lparr>af_theirID := i, af_screen := RemotePartTwo\<rparr>"

text \<open>
  What is rendered: the component of the screen with the data it gets, or the exception of an
  incoming screen without an invitation.
\<close>

datatype addFriendComponent =
    ShowChoice
  | ShowInPerson string
  | ShowRemote string
  | ShowPartTwo string string
  | ShowIncoming string incomingAsyncInvitation

definition AddFriend_render :: "addFriendProps \<Rightarrow> addFriendState \<Rightarrow> js_error + addFriendComponent" where
  "AddFriend_render p s =
     (case af_screen s of
        Choice \<Rightarrow> Inr ShowChoice
      | InPerson \<Rightarrow> Inr (ShowInPerson (af_story s))
      | Remote \<Rightarrow> Inr (ShowRemote (af_publicID s))
      | RemotePartTwo \<Rightarrow> Inr (ShowPartTwo (af_publicID s) (af_theirID s))
      | IncomingScreen \<Rightarrow>
          (case ap_incomingInvitation p of
             None \<Rightarrow> Inl (JsError ''invalid state'')
           | Some i \<Rightarrow> Inr (ShowIncoming (af_publicID s) i)))"

text \<open>The two panels of the first screen are clickable as a whole.\<close>

definition AddFriendChoice_view :: "addFriendAction node" where
  "AddFriendChoice_view =
     Elem ''div'' None
       [Elem ''h1'' None [Text ''Add a new contact, securely.''],
        Elem ''div'' None
          [Elem ''div'' (Some ([ChooseInPerson], False))
             [Elem ''h3'' None [Text ''In person.''],
              Elem ''p'' None [Text ''More secure: you know for sure who you are adding.''],
              Elem ''p'' None [Text ''< 5 minutes.''],
              Elem ''p'' None [Text ''Zero metadata leakage.'']],
           Elem ''div'' (Some ([ChooseRemote], False))
             [Elem ''h3'' None [Text ''Asynchronously.''],
              Elem ''p'' None [Text ''More convenient: no need to be in the same room.''],
              Elem ''p'' None [Text ''~ 24 hours.''],
              Elem ''p'' None [Text ''Basically zero metadata leakage.*'']]],
        Elem ''p'' None [Text (''*Want to learn more? Read our blog post on how we ensure privacy when creating new contacts. '' @
           ''Spoiler: it is hard, and no other communication platform bothers to do it.'')]]"

section \<open>The forms keep the contract\<close>

interpretation partTwoForm: name_form PartTwo_display PartTwo_unique pt_displayName pt_uniqueName pt_modified
  by unfold_locales (auto simp: PartTwo_display_def PartTwo_unique_def Let_def)

interpretation incomingForm: name_form Incoming_display Incoming_unique ic_displayName ic_uniqueName ic_modified
  by unfold_locales (auto simp: Incoming_display_def Incoming_unique_def Let_def)

text \<open>The requests of the two forms, and of the rejection; with built-in data none is made.\<close>

definition partTwoRequest :: "string \<Rightarrow> string \<Rightarrow> partTwoState \<Rightarrow> addAsyncFriendRequest" where
  "partTwoRequest theirId content s =
     \<lparr>aa_uniqueName = pt_uniqueName s, aa_displayName = pt_displayName s, aa_publicId = theirId, aa_message = content\<rparr>"

definition incomingRequest :: "incomingAsyncInvitation \<Rightarrow> incomingState \<Rightarrow> acceptAsyncInvitationRequest" where
  "incomingRequest i s =
     \<lparr>ac_publicId = ia_publicId i, ac_uniqueName = ic_uniqueName s, ac_displayName = ic_displayName s\<rparr>"

lemma contact_methods:
  "addAsyncFriend d q1 = (if di_fake d then ([], Inr ())
     else unary ''addAsyncFriend'' (RpcAddAsyncFriend q1) (cl_addAsyncFriend (di_client d) q1) id)"
  "acceptAsyncInvitation d q2 = (if di_fake d then ([], Inr ())
     else unary ''acceptAsyncInvitation'' (RpcAcceptAsyncInvitation q2) (cl_acceptAsyncInvitation (di_client d) q2) id)"
  "rejectAsyncInvitation d q3 = (if di_fake d then ([], Inr ())
     else unary ''rejectAsyncInvitation'' (RpcRejectAsyncInvitation q3) (cl_rejectAsyncInvitation (di_client d) q3) id)"
  "addSyncFriend d q4 = (if di_fake d then ([], Inr ())
     else unary ''addSyncFriend'' (RpcAddSyncFriend q4) (cl_addSyncFriend (di_client d) q4) id)"
  by (simp_all add: methods_real)
    (simp_all add: addAsyncFriend_def acceptAsyncInvitation_def rejectAsyncInvitation_def addSyncFriend_def)

interpretation partTwoDialog: request_form "\<lambda>(d, s). PartTwo_finish d theirId (Some content) s"
  "\<lambda>(d, s). pt_displayName s \<noteq> []"
  "\<lambda>(d, s). if di_fake d then [] else [RpcAddAsyncFriend (partTwoRequest theirId content s)]"
  "\<lambda>(d, s). di_fake d \<or> cl_addAsyncFriend (di_client d) (partTwoRequest theirId content s) = Inr (Some ())"
  for theirId content
  by unfold_locales
    (auto simp: PartTwo_finish_def partTwoRequest_def contact_methods unary_def Let_def
      split: sum.splits option.splits if_splits)

interpretation incomingDialog: request_form "\<lambda>(d, s). Incoming_accept d i s"
  "\<lambda>(d, s). ic_displayName s \<noteq> []"
  "\<lambda>(d, s). if di_fake d then [] else [RpcAcceptAsyncInvitation (incomingRequest i s)]"
  "\<lambda>(d, s). di_fake d \<or> cl_acceptAsyncInvitation (di_client d) (incomingRequest i s) = Inr (Some ())"
  for i
  by unfold_locales
    (auto simp: Incoming_accept_def incomingRequest_def contact_methods unary_def Let_def
      split: sum.splits option.splits if_splits)

interpretation rejectDialog: request_form "\<lambda>d. Incoming_reject d i" "\<lambda>d. True"
  "\<lambda>d. if di_fake d then [] else [RpcRejectAsyncInvitation \<lparr>rj_publicId = ia_publicId i\<rparr>]"
  "\<lambda>d. di_fake d \<or> cl_rejectAsyncInvitation (di_client d) \<lparr>rj_publicId = ia_publicId i\<rparr> = Inr (Some ())"
  for i
  by unfold_locales
    (auto simp: Incoming_reject_def contact_methods unary_def Let_def
      split: sum.splits option.splits if_splits)

section \<open>Lemmas\<close>

lemma js_substring_from:
  "js_substring (p @ s) (int (length p)) (int (length (p @ s))) = s"
  by (simp add: js_substring_def Let_def)

lemma js_strip_spaces_append: "js_strip_spaces (s @ t) = js_strip_spaces s @ js_strip_spaces t"
  by (simp add: js_strip_spaces_def)

lemma strip_address:
  "js_strip_spaces ''https://anysphere.id/#'' = ''https://anysphere.id/#''"
  "js_strip_spaces ''http://anysphere.id/#'' = ''http://anysphere.id/#''"
  "js_strip_spaces ''anysphere.id/#'' = ''anysphere.id/#''"
  by (simp_all add: js_strip_spaces_def js_is_space_def)

lemma strip_scheme_address:
  "strip_scheme (''https://anysphere.id/#'' @ s) = ''anysphere.id/#'' @ s"
  "strip_scheme (''http://anysphere.id/#'' @ s) = ''anysphere.id/#'' @ s"
  "strip_scheme (''anysphere.id/#'' @ s) = ''anysphere.id/#'' @ s"
  by (simp_all add: strip_scheme_def js_startsWith_def)

lemma sanitize_address:
  "strip_scheme (js_strip_spaces t) = ''anysphere.id/#'' @ s \<Longrightarrow> sanitizeId t = s"
  using js_substring_from [of "''anysphere.id/#''" s]
  by (simp only: sanitizeId_def Let_def js_startsWith_append if_True)

lemma sanitize_link:
  assumes "list_all (\<lambda>c. \<not> js_is_space c) i"
  shows "sanitizeId (''https://anysphere.id/#'' @ i) = i" and "sanitizeId (''http://anysphere.id/#'' @ i) = i"
    and "sanitizeId (''anysphere.id/#'' @ i) = i"
proof -
  have "js_strip_spaces i = i"
    using assms by (simp add: js_strip_spaces_none list_all_iff)
  then show "sanitizeId (''https://anysphere.id/#'' @ i) = i" "sanitizeId (''http://anysphere.id/#'' @ i) = i"
      "sanitizeId (''anysphere.id/#'' @ i) = i"
    by (intro sanitize_address,
        simp only: js_strip_spaces_append strip_address strip_scheme_address)+
qed

lemma AddFriend_steps_render:
  assumes "ap_initialScreen p = Some IncomingScreen \<longrightarrow> ap_incomingInvitation p \<noteq> None"
  shows "(\<exists>c. AddFriend_render p (fold AddFriend_step acts (AddFriend_init p)) = Inr c) \<and>
    AddFriend_render p (AddFriend_step (OnPastePublicId i) (fold AddFriend_step acts (AddFriend_init p)))
      = Inr (ShowPartTwo (af_publicID (fold AddFriend_step acts (AddFriend_init p))) i)"
proof -
  let ?ok = "\<lambda>s. af_screen s = IncomingScreen \<longrightarrow> ap_incomingInvitation p \<noteq> None"
  have step: "?ok (AddFriend_step a s)" if "?ok s" for a s
    using that by (cases a) simp_all
  have "?ok (fold AddFriend_step acts s)" if "?ok s" for s
    using that
  proof (induction acts arbitrary: s)
    case (Cons a acts)
    show ?case
      using Cons.IH [OF step [OF Cons.prems, of a]] by simp
  qed simp
  moreover have "?ok (AddFriend_init p)"
    using assms by (auto simp: AddFriend_init_def split: option.splits)
  ultimately have "?ok (fold AddFriend_step acts (AddFriend_init p))"
    by blast
  then show ?thesis
    by (auto simp: AddFriend_render_def split: addFriendScreen.splits option.splits)
qed

section \<open>Properties\<close>


text \<open>
  Finishing. Without a display name nothing is sent. Otherwise the invitation, or its acceptance,
  is one call with the two names as they stand in the form and the identifier of the other side; only
  success closes the dialog, and any failure leaves it open with a message.
\<close>

theorem finish_requests:
  assumes "\<not> di_fake d"
  shows "(if pt_displayName s = [] then fst (PartTwo_finish d theirId (Some content) s) = []
    else fst (PartTwo_finish d theirId (Some content) s) =
        [RpcAddAsyncFriend \<lparr>aa_uniqueName = pt_uniqueName s, aa_displayName = pt_displayName s,
           aa_publicId = theirId, aa_message = content\<rparr>]) \<and>
    (DialogClose \<in> set (snd (PartTwo_finish d theirId (Some content) s)) \<longleftrightarrow>
      pt_displayName s \<noteq> [] \<and> cl_addAsyncFriend (di_client d) \<lparr>aa_uniqueName = pt_uniqueName s,
        aa_displayName = pt_displayName s, aa_publicId = theirId, aa_message = content\<rparr> = Inr (Some ())) \<and>
    (if ic_displayName u = [] then fst (Incoming_accept d i u) = []
    else fst (Incoming_accept d i u) =
        [RpcAcceptAsyncInvitation \<lparr>ac_publicId = ia_publicId i, ac_uniqueName = ic_uniqueName u,
           ac_displayName = ic_displayName u\<rparr>]) \<and>
    (DialogClose \<in> set (snd (Incoming_accept d i u)) \<longleftrightarrow>
      ic_displayName u \<noteq> [] \<and> cl_acceptAsyncInvitation (di_client d) \<lparr>ac_publicId = ia_publicId i,
        ac_uniqueName = ic_uniqueName u, ac_displayName = ic_displayName u\<rparr> = Inr (Some ()))"
proof -
  have invite: "(if pt_displayName s = [] then fst (PartTwo_finish d theirId (Some content) s) = []
    else fst (PartTwo_finish d theirId (Some content) s) =
        [RpcAddAsyncFriend \<lparr>aa_uniqueName = pt_uniqueName s, aa_displayName = pt_displayName s,
           aa_publicId = theirId, aa_message = content\<rparr>]) \<and>
    (DialogClose \<in> set (snd (PartTwo_finish d theirId (Some content) s)) \<longleftrightarrow>
      pt_displayName s \<noteq> [] \<and> cl_addAsyncFriend (di_client d) \<lparr>aa_uniqueName = pt_uniqueName s,
        aa_displayName = pt_displayName s, aa_publicId = theirId, aa_message = content\<rparr> = Inr (Some ()))"
    using assms
    by (auto simp: PartTwo_finish_def methods_real unary_def Let_def split: sum.splits option.splits)
  have accept: "(if ic_displayName u = [] then fst (Incoming_accept d i u) = []
    else fst (Incoming_accept d i u) =
        [RpcAcceptAsyncInvitation \<lparr>ac_publicId = ia_publicId i, ac_uniqueName = ic_uniqueName u,
           ac_displayName = ic_displayName u\<rparr>]) \<and>
    (DialogClose \<in> set (snd (Incoming_accept d i u)) \<longleftrightarrow>
      ic_displayName u \<noteq> [] \<and> cl_acceptAsyncInvitation (di_client d) \<lparr>ac_publicId = ia_publicId i,
        ac_uniqueName = ic_uniqueName u, ac_displayName = ic_displayName u\<rparr> = Inr (Some ()))"
    using assms
    by (auto simp: Incoming_accept_def methods_real unary_def Let_def split: sum.splits option.splits)
  show ?thesis
    using invite accept by blast
qed

text \<open>
  The dialog renders a screen after any choices, provided it is not opened on the incoming screen
  without an invitation; and a pasted identifier leads to the invitation form for that identifier.
\<close>

theorem AddFriend_renders:
  assumes "ap_initialScreen p = Some IncomingScreen \<longrightarrow> ap_incomingInvitation p \<noteq> None"
  shows "(\<exists>c. AddFriend_render p (fold AddFriend_step acts (AddFriend_init p)) = Inr c) \<and>
    AddFriend_render p (AddFriend_step (OnPastePublicId i) (fold AddFriend_step acts (AddFriend_init p)))
      = Inr (ShowPartTwo (af_publicID (fold AddFriend_step acts (AddFriend_init p))) i)"
  by (rule AddFriend_steps_render [OF assms])

section \<open>Witnesses\<close>


theorem finish_requests_witness:
  "fst (Incoming_accept (sample_daemon False) (fake_incoming_async 0 ! 0) (Incoming_display ''Bob B'' Incoming_init))
   = [RpcAcceptAsyncInvitation \<lparr>ac_publicId = ia_publicId (fake_incoming_async 0 ! 0),
        ac_uniqueName = generateUniqueNameFromDisplayName ''Bob B'', ac_displayName = ''Bob B''\<rparr>]"
  using finish_requests [of "sample_daemon False" PartTwo_init "''x''" "''y''" "Incoming_display ''Bob B'' Incoming_init"
      "fake_incoming_async 0 ! 0"]
  by (simp add: sample_daemon_def Incoming_display_def Incoming_init_def PartTwo_init_def Let_def)

theorem AddFriend_renders_witness:
  "AddFriend_render \<lparr>ap_initialScreen = None, ap_incomingInvitation = None, ap_theirPublicId = None\<rparr>
     (fold AddFriend_step [ChooseRemote, OnPastePublicId ''abc'']
       (AddFriend_init \<lparr>ap_initialScreen = None, ap_incomingInvitation = None, ap_theirPublicId = None\<rparr>))
   = Inr (ShowPartTwo [] ''abc'')"
  using AddFriend_renders [of "\<lparr>ap_initialScreen = None, ap_incomingInvitation = None, ap_theirPublicId = None\<rparr>"
      "[ChooseRemote]" "''abc''"]
  by (simp add: AddFriend_init_def)

end
