(* ===== verification/WordList.thy ===== *)
theory WordList imports JsString begin

text \<open>
  The words of the stories: the constant \<open>wordList\<close> of \<open>AddFriend/SpellCheck.tsx\<close>, in its order,
  in pieces of 150 lines, and what the spelling check relies on: every word is made of small letters.
\<close>

section \<open>The list\<close>

definition words_1 :: "string list" where
  "words_1 =
    [''seed'', ''eagerness'', ''notice'', ''link'', ''pastor'', ''planet'', ''scene'',
     ''polynomial'', ''pocket'', ''perception'', ''patent'', ''clay'', ''specimen'', ''course'',
     ''music'', ''significance'', ''narrative'', ''wealth'', ''nation'', ''drum'', ''explosion'',
     ''reporter'', ''farming'', ''author'', ''crest'', ''colleague'', ''locality'', ''bell'',
     ''boy'', ''volley'', ''arrangement'', ''chaos'', ''facility'', ''lagoon'', ''specialist'',
     ''chart'', ''wound'', ''collage'', ''pension'', ''security'', ''plight'', ''coast'',
     ''citizen'', ''receptionist'', ''holder'', ''glycerine'', ''cowboy'', ''hunting'', ''signal'',
     ''algae'', ''assurance'', ''community'', ''thigh'', ''colonel'', ''protestantism'', ''snake'',
     ''nightclub'', ''approval'', ''badness'', ''contractor'', ''stupidity'', ''meal'', ''grip'',
     ''village'', ''observer'', ''canteen'', ''preparation'', ''indian'', ''traffic'',
     ''headlight'', ''rain'', ''point'', ''mystery'', ''labor'', ''flag'', ''appointment'',
     ''greek'', ''accident'', ''round'', ''controversy'', ''loss'', ''winter'', ''cavalry'',
     ''daughter'', ''host'', ''illness'', ''prisoner'', ''partnership'', ''storm'', ''situation'',
     ''device'', ''conversion'', ''diameter'', ''artillery'', ''particle'', ''actuality'',
     ''sensitivity'', ''fig'', ''flash'', ''wax'', ''order'', ''space'', ''foe'', ''drawer'',
     ''psychologist'', ''protest'', ''message'', ''consciousness'', ''discrepancy'', ''personnel'',
     ''heritage'', ''level'', ''appendix'', ''hall'', ''data'', ''grave'', ''reactionary'',
     ''strategy'', ''phosphate'', ''instrument'', ''worth'', ''honeybee'', ''fighting'',
     ''motion'', ''shade'', ''presence'', ''player'', ''tea'', ''curse'', ''lamp'', ''root'',
     ''soldier'', ''pride'', ''canon'', ''mine'', ''clarity'', ''summary'', ''workshop'', ''law'',
     ''magnitude'', ''cyclist'', ''commerce'', ''measurement'', ''defense'', ''antiserum'',
     ''content'', ''pit'', ''expenditure'', ''creation'', ''suitcase'']"

definition words_2 :: "string list" where
  "words_2 =
    [''flame'', ''toe'', ''administration'', ''enzyme'', ''identity'', ''voice'', ''industry'',
     ''protein'', ''item'', ''benefit'', ''ability'', ''assault'', ''head'', ''phrase'',
     ''supervision'', ''oxygen'', ''distance'', ''flight'', ''miracle'', ''disease'', ''mustache'',
     ''stride'', ''dwelling'', ''turmoil'', ''audience'', ''selling'', ''unknown'', ''gaze'',
     ''oxidation'', ''pair'', ''shell'', ''composite'', ''comrade'', ''fragment'',
     ''exasperation'', ''instance'', ''class'', ''checkbook'', ''epoch'', ''trend'', ''modernity'',
     ''chairman'', ''eye'', ''shelter'', ''spectator'', ''misery'', ''article'', ''iliad'',
     ''distinction'', ''victory'', ''slit'', ''breathing'', ''myth'', ''hollywood'', ''alarm'',
     ''income'', ''gloom'', ''rail'', ''depression'', ''tendency'', ''headache'', ''mark'',
     ''renaissance'', ''hypothalamus'', ''concentration'', ''pilot'', ''wife'', ''origin'',
     ''hue'', ''positivist'', ''blood'', ''plato'', ''choice'', ''dialect'', ''century'',
     ''shirt'', ''five'', ''weather'', ''cure'', ''million'', ''planning'', ''means'', ''howl'',
     ''athlete'', ''tribute'', ''septum'', ''male'', ''statue'', ''behavior'', ''governor'',
     ''function'', ''active'', ''france'', ''texture'', ''argon'', ''wire'', ''body'', ''antigen'',
     ''traditionalist'', ''triumph'', ''rhythm'', ''senator'', ''reb'', ''mist'', ''darkness'',
     ''attorney'', ''anionic'', ''scholar'', ''gang'', ''cohesion'', ''charge'', ''coal'',
     ''suggestion'', ''confusion'', ''egg'', ''capital'', ''painting'', ''section'', ''potential'',
     ''ledger'', ''novelist'', ''drawing'', ''respect'', ''waste'', ''fireplace'', ''specter'',
     ''decomposition'', ''log'', ''fuel'', ''neurosis'', ''square'', ''registration'', ''lookup'',
     ''deal'', ''form'', ''papers'', ''authority'', ''escalation'', ''harmony'', ''vocabulary'',
     ''support'', ''reaction'', ''maker'', ''funeral'', ''verb'', ''usefulness'', ''recreation'',
     ''river'', ''sixties'', ''fallout'']"

definition words_3 :: "string list" where
  "words_3 =
    [''protection'', ''cliche'', ''hat'', ''singing'', ''platoon'', ''envelope'', ''romance'',
     ''perspective'', ''shadow'', ''grant'', ''railroad'', ''experience'', ''dialysis'', ''lock'',
     ''constituent'', ''perspiration'', ''arts'', ''rope'', ''speed'', ''making'', ''refugee'',
     ''millennium'', ''rock'', ''tray'', ''autumn'', ''tube'', ''luggage'', ''christ'', ''star'',
     ''kitchen'', ''school'', ''analyst'', ''inference'', ''lover'', ''cluster'', ''race'',
     ''parlor'', ''workout'', ''snow'', ''scorn'', ''birthday'', ''nine'', ''regulation'',
     ''copper'', ''profits'', ''air'', ''horse'', ''petition'', ''result'', ''two'',
     ''qualification'', ''officer'', ''sake'', ''patient'', ''regret'', ''moon'', ''italy'',
     ''troops'', ''titer'', ''achievement'', ''right'', ''pitcher'', ''mistake'', ''ambiguity'',
     ''deduction'', ''rehearsal'', ''greece'', ''action'', ''ritual'', ''cash'', ''virgin'',
     ''camera'', ''advantage'', ''messenger'', ''era'', ''ignorance'', ''curiosity'',
     ''indication'', ''mess'', ''wish'', ''derision'', ''decrease'', ''drink'', ''suburb'',
     ''thanks'', ''argument'', ''brother'', ''cast'', ''bicycle'', ''hatred'', ''advice'',
     ''boyhood'', ''powder'', ''figure'', ''interest'', ''fluid'', ''poison'', ''limit'', ''wall'',
     ''weight'', ''oil'', ''exploration'', ''occurrence'', ''immigrant'', ''invention'', ''ion'',
     ''presentation'', ''face'', ''torso'', ''ratio'', ''draw'', ''nationalism'', ''mamma'',
     ''aim'', ''grounds'', ''credo'', ''toast'', ''midnight'', ''promise'', ''difference'',
     ''band'', ''bitterness'', ''advertising'', ''lull'', ''cholesterol'', ''german'',
     ''downtown'', ''ossification'', ''beauty'', ''acres'', ''mucosa'', ''stem'', ''occupation'',
     ''cooperation'', ''towel'', ''cellulose'', ''element'', ''brightness'', ''telephone'',
     ''brooklyn'', ''andrena'', ''intention'', ''direction'', ''consumer'', ''plot'',
     ''workbench'', ''sacrifice'', ''blossom'', ''exhibition'', ''west'']"

definition words_4 :: "string list" where
  "words_4 =
    [''fishing'', ''dollar'', ''sensor'', ''vitality'', ''ocean'', ''stick'', ''organism'',
     ''weakness'', ''tracing'', ''reflection'', ''cm'', ''light'', ''criticism'', ''truck'',
     ''fall'', ''close'', ''mortgage'', ''impression'', ''shower'', ''mineral'', ''maneuver'',
     ''economy'', ''reflector'', ''science'', ''pottery'', ''exertion'', ''aid'', ''breast'',
     ''scheme'', ''assignment'', ''clothing'', ''barn'', ''violation'', ''pot'', ''epidemic'',
     ''incentive'', ''correspondence'', ''ulcer'', ''instruction'', ''story'', ''cubism'',
     ''posture'', ''park'', ''second'', ''chase'', ''basement'', ''grass'', ''plan'',
     ''imagination'', ''brain'', ''protease'', ''inventory'', ''yank'', ''yard'', ''temptation'',
     ''grouping'', ''hotel'', ''monday'', ''investigator'', ''shore'', ''agreement'', ''stranger'',
     ''surface'', ''mama'', ''professor'', ''plug'', ''stimulation'', ''violence'', ''shopping'',
     ''fight'', ''outfit'', ''sugar'', ''legislature'', ''irony'', ''tomorrow'', ''restaurant'',
     ''nose'', ''tide'', ''driver'', ''red'', ''disappointment'', ''cloth'', ''creek'', ''number'',
     ''favor'', ''propagandist'', ''willingness'', ''complement'', ''emphasis'', ''bluff'',
     ''left'', ''thyroglobulin'', ''time'', ''enterprise'', ''convenience'', ''furniture'',
     ''breakfast'', ''film'', ''finger'', ''bathroom'', ''threshold'', ''sofa'', ''battle'',
     ''target'', ''businessman'', ''proportion'', ''aegean'', ''absence'', ''home'', ''cows'',
     ''celebration'', ''association'', ''spell'', ''town'', ''wind'', ''wood'', ''houston'',
     ''writing'', ''manure'', ''malaise'', ''lady'', ''store'', ''feb'', ''apartment'', ''route'',
     ''leather'', ''southpaw'', ''range'', ''humor'', ''rotor'', ''mind'', ''bullet'', ''bedroom'',
     ''necessity'', ''city'', ''feeding'', ''joke'', ''deck'', ''immortality'', ''football'',
     ''group'', ''extent'', ''performer'', ''prize'', ''destruction'', ''core'', ''graduation'',
     ''drop'', ''someone'', ''percent'']"

definition words_5 :: "string list" where
  "words_5 =
    [''television'', ''need'', ''mimesis'', ''equilibrium'', ''voter'', ''cattle'',
     ''explanation'', ''movement'', ''trance'', ''rebel'', ''cancer'', ''method'', ''neutrophil'',
     ''glove'', ''sign'', ''wagon'', ''emergency'', ''differentiation'', ''case'', ''rent'',
     ''total'', ''interior'', ''cannon'', ''plantation'', ''accreditation'', ''life'',
     ''folklore'', ''speaker'', ''trader'', ''bequest'', ''glory'', ''computer'', ''extreme'',
     ''thunder'', ''risk'', ''washington'', ''architect'', ''ammunition'', ''orthography'',
     ''highroad'', ''cow'', ''liberty'', ''test'', ''commander'', ''stress'', ''vientiane'',
     ''character'', ''dancer'', ''corner'', ''title'', ''tent'', ''tone'', ''banker'', ''clump'',
     ''attack'', ''opera'', ''occupant'', ''soloist'', ''rise'', ''shunt'', ''hurt'', ''impulse'',
     ''hunch'', ''member'', ''judge'', ''portion'', ''college'', ''state'', ''gadget'',
     ''anecdote'', ''realm'', ''continuity'', ''lack'', ''chamber'', ''applicant'', ''back'',
     ''young'', ''concern'', ''warfare'', ''lens'', ''chance'', ''threat'', ''aircraft'', ''noon'',
     ''melody'', ''cabin'', ''jew'', ''shock'', ''floor'', ''chemistry'', ''vein'', ''date'',
     ''news'', ''beginning'', ''microsecond'', ''role'', ''return'', ''testimony'', ''dc'',
     ''reserves'', ''captain'', ''yr'', ''preacher'', ''bourbon'', ''restriction'', ''tension'',
     ''bottle'', ''clamor'', ''mm'', ''commotion'', ''agony'', ''request'', ''joy'', ''row'',
     ''neocortex'', ''peasant'', ''woman'', ''stump'', ''paragraph'', ''goodness'', ''maid'',
     ''fatigue'', ''bronchus'', ''grace'', ''trustee'', ''patch'', ''republic'', ''pail'',
     ''machinery'', ''outcome'', ''japan'', ''appeal'', ''glimpse'', ''legislator'', ''breeze'',
     ''cartridge'', ''atmosphere'', ''king'', ''command'', ''ohio'', ''psychology'', ''detective'',
     ''fruit'', ''europe'', ''alaska'', ''survival'', ''adam'', ''sensation'', ''earnings'',
     ''fate'']"

definition words_6 :: "string list" where
  "words_6 =
    [''manner'', ''corporation'', ''hospital'', ''being'', ''musket'', ''microscope'', ''span'',
     ''start'', ''remark'', ''plate'', ''shutdown'', ''albumin'', ''pseudophloem'', ''wing'',
     ''companion'', ''pass'', ''dice'', ''force'', ''dipole'', ''hymn'', ''hay'', ''handful'',
     ''yesterday'', ''focus'', ''lamb'', ''trace'', ''blot'', ''scope'', ''mixture'',
     ''proprietorship'', ''control'', ''rookie'', ''laughter'', ''ambassador'', ''wage'',
     ''restraint'', ''counterpart'', ''complicity'', ''merit'', ''bumblebee'', ''sweat'', ''wit'',
     ''compulsivity'', ''feel'', ''firm'', ''travel'', ''flexibility'', ''planter'',
     ''participation'', ''profession'', ''guard'', ''popularity'', ''nature'', ''modernization'',
     ''bit'', ''liberalism'', ''graduate'', ''capitalism'', ''muscle'', ''battery'', ''part'',
     ''smoke'', ''pay'', ''passage'', ''effect'', ''brood'', ''soap'', ''incident'', ''ration'',
     ''file'', ''wednesday'', ''musketry'', ''room'', ''fashion'', ''bastard'', ''dealer'',
     ''particular'', ''wine'', ''gift'', ''charm'', ''dependence'', ''three'', ''conflict'',
     ''quack'', ''coroner'', ''human'', ''pope'', ''load'', ''ground'', ''profit'', ''setting'',
     ''dinner'', ''ellipsoid'', ''chemical'', ''summer'', ''guy'', ''pencil'', ''subject'',
     ''polyphosphate'', ''unity'', ''assumption'', ''marksman'', ''kidney'', ''bayonet'',
     ''hudson'', ''embankment'', ''hormone'', ''absorption'', ''wisdom'', ''relevance'',
     ''description'', ''harbor'', ''theatre'', ''set'', ''lip'', ''collision'', ''inning'',
     ''colony'', ''night'', ''center'', ''examination'', ''july'', ''transition'', ''modifier'',
     ''gymnastics'', ''population'', ''sale'', ''worker'', ''symbol'', ''conception'', ''child'',
     ''precaution'', ''jeep'', ''rousseau'', ''taxpayer'', ''report'', ''value'', ''grade'',
     ''drugstore'', ''alveolus'', ''decision'', ''foil'', ''reader'', ''output'', ''supply'',
     ''grenade'', ''conductor'', ''phase'', ''country'', ''doubt'']"

definition words_7 :: "string list" where
  "words_7 =
    [''party'', ''pound'', ''hearing'', ''textile'', ''expert'', ''cheer'', ''house'',
     ''attitude'', ''damage'', ''color'', ''massachusetts'', ''stage'', ''contribution'', ''dark'',
     ''limb'', ''failure'', ''drought'', ''visit'', ''magnetism'', ''opium'', ''barrel'',
     ''moonlight'', ''criminal'', ''bottom'', ''loyalty'', ''soul'', ''contrast'', ''neutralist'',
     ''suspension'', ''agglutinin'', ''ton'', ''white'', ''claim'', ''symmetry'', ''theater'',
     ''statistic'', ''heel'', ''goat'', ''steroid'', ''impact'', ''supper'', ''men'', ''version'',
     ''mg'', ''motif'', ''reflex'', ''faith'', ''nov'', ''observation'', ''goitrogen'', ''amp'',
     ''virtue'', ''sunlight'', ''type'', ''metal'', ''emotion'', ''representation'', ''ambush'',
     ''hair'', ''fellow'', ''list'', ''posse'', ''fingerprint'', ''hut'', ''scream'', ''crisis'',
     ''basis'', ''dilemma'', ''performance'', ''proposal'', ''editor'', ''greeting'', ''martyr'',
     ''insect'', ''circle'', ''boss'', ''producer'', ''willow'', ''assistant'', ''concert'',
     ''outlook'', ''foreigner'', ''suit'', ''metropolis'', ''mile'', ''slipper'', ''courage'',
     ''president'', ''etcetera'', ''serum'', ''elevator'', ''influence'', ''sense'', ''train'',
     ''tip'', ''persistence'', ''policeman'', ''orchestra'', ''radish'', ''conservatism'',
     ''club'', ''stove'', ''fiction'', ''childhood'', ''countenance'', ''product'', ''dawn'',
     ''thing'', ''pillow'', ''score'', ''quarters'', ''half'', ''network'', ''property'',
     ''pause'', ''booking'', ''oxen'', ''shoe'', ''minimum'', ''desire'', ''immunity'',
     ''publication'', ''substitute'', ''status'', ''motor'', ''fault'', ''standpoint'',
     ''tragedy'', ''voting'', ''mexican'', ''curriculum'', ''barbell'', ''now'', ''mars'',
     ''interruption'', ''quality'', ''satire'', ''intersection'', ''horror'', ''donor'', ''trial'',
     ''axis'', ''corporal'', ''burst'', ''bodybuilder'', ''worry'', ''brow'', ''month'', ''swiss'',
     ''cleveland'']"

definition words_8 :: "string list" where
  "words_8 =
    [''sculpture'', ''missile'', ''admission'', ''variety'', ''legislation'', ''interaction'',
     ''blanket'', ''grin'', ''opening'', ''meter'', ''epiphysis'', ''breakdown'', ''staff'',
     ''rubber'', ''filling'', ''boat'', ''conjugate'', ''philadelphia'', ''corridor'',
     ''maintenance'', ''pittsburgh'', ''lunch'', ''hill'', ''aerosol'', ''bandage'', ''sundown'',
     ''sunday'', ''yellow'', ''china'', ''theme'', ''season'', ''speech'', ''minnesota'',
     ''collar'', ''gas'', ''uproar'', ''sonar'', ''essay'', ''russian'', ''canyon'', ''appetite'',
     ''procreation'', ''size'', ''c'', ''aspect'', ''scar'', ''a'', ''county'', ''tie'',
     ''hemisphere'', ''mention'', ''balance'', ''fame'', ''losses'', ''philosophy'',
     ''conference'', ''individual'', ''musician'', ''amendment'', ''rice'', ''stairs'', ''hell'',
     ''monument'', ''folk'', ''cop'', ''tournament'', ''road'', ''opinion'', ''camping'',
     ''atrophy'', ''detroit'', ''roar'', ''acetone'', ''pipe'', ''statute'', ''disk'',
     ''encounter'', ''present'', ''similarity'', ''platform'', ''paris'', ''hilum'', ''illinois'',
     ''pen'', ''creature'', ''favorite'', ''lot'', ''ladder'', ''killer'', ''catcher'', ''may'',
     ''department'', ''morality'', ''goal'', ''settlement'', ''death'', ''strip'', ''reference'',
     ''proposition'', ''warning'', ''feed'', ''grandmother'', ''meteor'', ''parent'', ''minute'',
     ''tongue'', ''determination'', ''fee'', ''payment'', ''razor'', ''halfback'', ''relative'',
     ''graph'', ''rattlesnake'', ''rebellion'', ''infiltration'', ''enemy'', ''evidence'',
     ''burial'', ''judgment'', ''definition'', ''laborer'', ''revenue'', ''bush'', ''relation'',
     ''diet'', ''iodine'', ''churchyard'', ''soil'', ''burden'', ''show'', ''moisture'',
     ''regiment'', ''values'', ''pool'', ''november'', ''manifold'', ''branch'', ''buffer'',
     ''existence'', ''prevision'', ''field'', ''complexity'', ''whiskey'', ''end'', ''antagonist'',
     ''rpm'', ''apprentice'', ''stone'', ''coffee'']"

definition words_9 :: "string list" where
  "words_9 =
    [''material'', ''front'', ''ad'', ''tangent'', ''sand'', ''builder'', ''vine'', ''washing'',
     ''prevention'', ''senate'', ''stature'', ''pitching'', ''millidegree'', ''police'',
     ''decline'', ''committee'', ''anastomosis'', ''spot'', ''bomber'', ''commuter'', ''price'',
     ''shop'', ''top'', ''pollen'', ''thursday'', ''watercolor'', ''thyroid'', ''radiation'',
     ''matter'', ''diffusion'', ''luxury'', ''ghetto'', ''outside'', ''menace'', ''system'',
     ''world'', ''spectrum'', ''nest'', ''copy'', ''instant'', ''bomb'', ''thinking'', ''harm'',
     ''departure'', ''catholic'', ''spirit'', ''fire'', ''mission'', ''royalty'', ''recognition'',
     ''acting'', ''studio'', ''candidate'', ''cane'', ''knife'', ''sector'', ''couch'',
     ''application'', ''monkey'', ''pity'', ''pacific'', ''congress'', ''norm'', ''gate'',
     ''phone'', ''scot'', ''investigation'', ''registrant'', ''rat'', ''literature'', ''edge'',
     ''check'', ''cent'', ''brush'', ''uniform'', ''ultracentrifugation'', ''gown'', ''housewife'',
     ''temperature'', ''merger'', ''assistance'', ''destiny'', ''farmer'', ''pyrex'', ''momentum'',
     ''percentage'', ''personality'', ''dozen'', ''doctrine'', ''civilization'', ''transducer'',
     ''priest'', ''sir'', ''newspaper'', ''dilution'', ''dugout'', ''customer'', ''leaf'',
     ''side'', ''change'', ''french'', ''first'', ''outreach'', ''money'', ''sentence'',
     ''photograph'', ''watch'', ''micelle'', ''sympathy'', ''mercury'', ''manometer'', ''gymnast'',
     ''marble'', ''denver'', ''scripture'', ''feat'', ''business'', ''illusion'', ''allotment'',
     ''four'', ''meeting'', ''milk'', ''baby'', ''technology'', ''sphere'', ''therapist'',
     ''equipment'', ''chlorine'', ''similitude'', ''injury'', ''intonation'', ''buddy'',
     ''environment'', ''aug'', ''corpse'', ''lecture'', ''shutter'', ''monocle'', ''feeling'',
     ''revolution'', ''importance'', ''formula'', ''interval'', ''whisky'', ''feelings'',
     ''surroundings'', ''routine'', ''habit'', ''cuba'', ''removal'']"

definition words_10 :: "string list" where
  "words_10 =
    [''iron'', ''resistor'', ''container'', ''density'', ''coincidence'', ''skill'', ''lobe'',
     ''hawaii'', ''freeway'', ''claimant'', ''diagram'', ''pupil'', ''master'', ''triamcinolone'',
     ''occasion'', ''team'', ''crop'', ''substance'', ''antibody'', ''kind'', ''category'',
     ''chief'', ''bishop'', ''complex'', ''picture'', ''leader'', ''box'', ''construction'',
     ''velocity'', ''sheriff'', ''evil'', ''crime'', ''fear'', ''rage'', ''tool'', ''love'',
     ''neck'', ''dancing'', ''imitation'', ''note'', ''interdependence'', ''piano'', ''one'',
     ''berlin'', ''commune'', ''witness'', ''africa'', ''statement'', ''holiday'', ''fighter'',
     ''pitch'', ''ensemble'', ''enjoyment'', ''disaster'', ''holmes'', ''drizzle'', ''despair'',
     ''campaign'', ''hour'', ''affair'', ''try'', ''wrath'', ''society'', ''pennsylvania'',
     ''cover'', ''flood'', ''key'', ''success'', ''grocer'', ''dot'', ''liberal'', ''bag'',
     ''degree'', ''term'', ''globe'', ''pleasure'', ''communist'', ''contradiction'', ''army'',
     ''excitement'', ''margin'', ''radio'', ''equation'', ''medium'', ''christian'', ''patrol'',
     ''family'', ''sin'', ''electricity'', ''adventure'', ''teenager'', ''unit'', ''frenzy'',
     ''portal'', ''chromium'', ''authorities'', ''luck'', ''station'', ''relations'', ''guidance'',
     ''ivory'', ''cigarette'', ''trooper'', ''question'', ''accuracy'', ''feature'', ''exchange'',
     ''roof'', ''skiff'', ''depth'', ''superstition'', ''vertex'', ''cat'', ''surprise'',
     ''dress'', ''fur'', ''aluminum'', ''food'', ''cold'', ''beebread'', ''jupiter'', ''stimulus'',
     ''baseball'', ''colors'', ''adjunct'', ''politician'', ''scours'', ''cycle'', ''chair'',
     ''steps'', ''challenge'', ''uncle'', ''slope'', ''growth'', ''ace'', ''gray'', ''age'',
     ''congregation'', ''gospel'', ''classification'', ''radical'', ''location'', ''problem'',
     ''pbs'', ''table'', ''glare'', ''blow'', ''throat'', ''shoulder'', ''blue'']"

definition words_11 :: "string list" where
  "words_11 =
    [''nightfall'', ''tsunami'', ''bird'', ''comment'', ''chin'', ''establishment'',
     ''adjustment'', ''indicator'', ''responsibility'', ''maturity'', ''desperation'', ''help'',
     ''institution'', ''tear'', ''tumor'', ''sheep'', ''knee'', ''management'', ''cry'',
     ''meadow'', ''rehabilitation'', ''obstacle'', ''diaphragm'', ''friday'', ''drug'',
     ''horizon'', ''potter'', ''manchester'', ''bath'', ''nigger'', ''afternoon'', ''awareness'',
     ''thermometer'', ''art'', ''strength'', ''feather'', ''socialism'', ''treetop'', ''girl'',
     ''driveway'', ''gold'', ''marriage'', ''comforts'', ''bill'', ''fish'', ''sword'', ''answer'',
     ''tv'', ''guilt'', ''therapy'', ''vacuum'', ''door'', ''conduct'', ''effort'', ''incidence'',
     ''count'', ''ball'', ''haste'', ''poem'', ''coin'', ''ship'', ''noise'', ''procurement'',
     ''approach'', ''leadership'', ''tub'', ''tuesday'', ''seat'', ''services'', ''variation'',
     ''difficulty'', ''papa'', ''word'', ''firing'', ''hate'', ''company'', ''year'',
     ''retirement'', ''antelope'', ''shear'', ''virginia'', ''confidence'', ''quirt'', ''object'',
     ''stream'', ''mouth'', ''overpayment'', ''proprietor'', ''selection'', ''chapel'',
     ''profile'', ''client'', ''impurity'', ''dragon'', ''robber'', ''resentment'', ''happiness'',
     ''concept'', ''cooling'', ''nonsense'', ''woods'', ''distribution'', ''ideal'', ''drama'',
     ''tune'', ''radar'', ''relationship'', ''comparison'', ''boot'', ''artery'', ''ankle'',
     ''clue'', ''song'', ''reasoning'', ''living'', ''resistance'', ''rate'', ''progress'',
     ''connection'', ''fog'', ''spectacle'', ''trouble'', ''effluent'', ''rabbit'', ''curve'',
     ''carpenter'', ''pig'', ''fraud'', ''testing'', ''vegetable'', ''competitor'', ''anxiety'',
     ''errand'', ''resource'', ''squad'', ''chain'', ''view'', ''line'', ''jaw'', ''opportunity'',
     ''satisfaction'', ''career'', ''election'', ''larva'', ''poverty'', ''nerve'', ''account'',
     ''integration'', ''assent'', ''mechanism'']"

definition words_12 :: "string list" where
  "words_12 =
    [''revenge'', ''solution'', ''teamster'', ''beach'', ''agent'', ''vacation'', ''vase'',
     ''frenchman'', ''session'', ''building'', ''cord'', ''collector'', ''historian'',
     ''listener'', ''east'', ''killing'', ''indignation'', ''card'', ''victim'', ''merchant'',
     ''straw'', ''flower'', ''sketch'', ''ridge'', ''pace'', ''legend'', ''golf'', ''rose'',
     ''odor'', ''parameter'', ''greatcoat'', ''additive'', ''sound'', ''debris'', ''fun'',
     ''quarter'', ''documentary'', ''temple'', ''mode'', ''englishman'', ''lumber'', ''settler'',
     ''position'', ''stuff'', ''care'', ''leap'', ''february'', ''elbow'', ''sun'', ''earthquake'',
     ''telegrapher'', ''impatience'', ''stall'', ''angel'', ''example'', ''contour'', ''hundred'',
     ''vessel'', ''thousand'', ''wonder'', ''couple'', ''athabascan'', ''costume'', ''engagement'',
     ''rejection'', ''generation'', ''honor'', ''secret'', ''people'', ''democracy'', ''drive'',
     ''language'', ''ailment'', ''mulch'', ''efficacy'', ''counsel'', ''automobile'', ''thumb'',
     ''sheet'', ''liquor'', ''standard'', ''ant'', ''authorization'', ''chore'', ''authenticity'',
     ''penalty'', ''retailer'', ''flatness'', ''integer'', ''day'', ''petitioner'', ''magician'',
     ''rushing'', ''rack'', ''buckskin'', ''thrill'', ''saturday'', ''thicket'', ''breath'',
     ''treasury'', ''deficiency'', ''atom'', ''membership'', ''potassium'', ''ambition'',
     ''mound'', ''reality'', ''pile'', ''expansion'', ''hole'', ''absurdity'', ''machine'',
     ''evaluation'', ''dead'', ''spiral'', ''proceedings'', ''plane'', ''ceiling'', ''brick'',
     ''barge'', ''years'', ''crowd'', ''combination'', ''period'', ''pull'', ''bed'',
     ''exemption'', ''budget'', ''shape'', ''south'', ''entity'', ''infantry'', ''pianist'',
     ''fund'', ''frequency'', ''bristle'', ''chicken'', ''shelf'', ''michigan'', ''jacket'',
     ''forehead'', ''stereotype'', ''interlude'', ''wrist'', ''august'', ''alternative'',
     ''horseman'', ''guest'', ''solidarity'', ''praise'']"

definition words_13 :: "string list" where
  "words_13 =
    [''background'', ''bond'', ''haze'', ''week'', ''vision'', ''micron'', ''gesture'',
     ''interrelation'', ''lobby'', ''calibration'', ''sovereign'', ''micrometeorite'', ''issue'',
     ''blaze'', ''program'', ''resonance'', ''contention'', ''fiber'', ''suffering'',
     ''university'', ''kitten'', ''hand'', ''domination'', ''discretion'', ''clothes'', ''june'',
     ''astonishment'', ''sister'', ''motivation'', ''desk'', ''disorder'', ''datum'',
     ''commissioner'', ''maximum'', ''formulation'', ''resemblance'', ''process'', ''stravinsky'',
     ''painter'', ''gain'', ''linguist'', ''milligram'', ''practice'', ''funds'', ''admiration'',
     ''cigar'', ''words'', ''allusion'', ''sickness'', ''pond'', ''site'', ''silhouette'',
     ''capacity'', ''service'', ''divorce'', ''hold'', ''page'', ''bloat'', ''fraction'',
     ''blockade'', ''hero'', ''periphery'', ''partner'', ''plasma'', ''addition'', ''fill'',
     ''landscape'', ''competence'', ''crew'', ''solid'', ''contempt'', ''paradigm'', ''organ'',
     ''priority'', ''archbishop'', ''conviction'', ''invitation'', ''representative'', ''owner'',
     ''december'', ''tree'', ''financing'', ''dish'', ''lawn'', ''terror'', ''strain'',
     ''teacher'', ''stare'', ''search'', ''panic'', ''neighborhood'', ''immediacy'',
     ''wavelength'', ''reading'', ''justice'', ''surplus'', ''specificity'', ''warehouse'',
     ''elution'', ''navy'', ''credit'', ''projection'', ''conversation'', ''escape'', ''bough'',
     ''orbit'', ''privilege'', ''stock'', ''border'', ''hands'', ''entrepreneur'', ''idea'',
     ''secretary'', ''sigh'', ''policy'', ''anaconda'', ''hours'', ''livestock'', ''valley'',
     ''shift'', ''grease'', ''middle'', ''onset'', ''meteorite'', ''interview'', ''permit'',
     ''dusk'', ''touch'', ''condition'', ''flux'', ''introject'', ''advance'', ''repetition'',
     ''health'', ''tail'', ''factor'', ''monster'', ''voltaire'', ''dictionary'', ''nickel'',
     ''will'', ''possession'', ''block'', ''overcast'', ''medicine'', ''measure'', ''surgeon'',
     ''column'', ''development'', ''beer'']"

definition words_14 :: "string list" where
  "words_14 =
    [''angle'', ''movie'', ''theologian'', ''asia'', ''survey'', ''roadway'', ''cup'',
     ''exception'', ''mood'', ''component'', ''entertainment'', ''amplitude'', ''sentiment'',
     ''salvation'', ''procedure'', ''associate'', ''cap'', ''objective'', ''rumor'', ''liver'',
     ''private'', ''uncertainty'', ''earth'', ''address'', ''marketing'', ''blind'', ''pituitary'',
     ''thought'', ''manufacturer'', ''third'', ''mob'', ''proof'', ''rank'', ''perfection'',
     ''recommendation'', ''providence'', ''instructor'', ''utopia'', ''nucleus'', ''hope'',
     ''brand'', ''expense'', ''sport'', ''bar'', ''script'', ''futility'', ''grief'', ''homer'',
     ''council'', ''subspace'', ''glance'', ''theory'', ''culture'', ''double'', ''rider'',
     ''green'', ''conclusion'', ''resident'', ''smell'', ''while'', ''league'', ''utility'',
     ''understanding'', ''salary'', ''brass'', ''friend'', ''sewage'', ''demand'', ''church'',
     ''salt'', ''student'', ''bubble'', ''cost'', ''reason'', ''research'', ''window'',
     ''productivity'', ''electronics'', ''viscosity'', ''gentleman'', ''rush'', ''formation'',
     ''move'', ''game'', ''whole'', ''march'', ''viewpoint'', ''exclamation'', ''good'',
     ''cathode'', ''mud'', ''memory'', ''individualism'', ''pole'', ''calf'', ''crystal'',
     ''evening'', ''inability'', ''permission'', ''way'', ''militia'', ''mountain'', ''composer'',
     ''weekend'', ''consequence'', ''champion'', ''gram'', ''doorway'', ''september'', ''flow'',
     ''plant'', ''fringe'', ''pressure'', ''region'', ''packet'', ''mayor'', ''anode'', ''boston'',
     ''excuse'', ''reactivity'', ''american'', ''adult'', ''parallel'', ''dedication'',
     ''champagne'', ''detergent'', ''defeat'', ''tuberculosis'', ''amazement'', ''employee'',
     ''territory'', ''nothing'', ''distributor'', ''text'', ''smile'', ''delight'', ''string'',
     ''stillness'', ''increase'', ''analysis'', ''ribbon'', ''herd'', ''shame'', ''split'',
     ''camp'', ''hoof'', ''manners'', ''calculation'', ''wheel'', ''warsaw'']"

definition words_15 :: "string list" where
  "words_15 =
    [''production'', ''prestige'', ''teaching'', ''inch'', ''coat'', ''piece'', ''disapproval'',
     ''classroom'', ''arm'', ''fever'', ''vector'', ''canvas'', ''response'', ''syllable'',
     ''cleaning'', ''detail'', ''objection'', ''fellowship'', ''consent'', ''concrete'',
     ''saving'', ''fisherman'', ''plank'', ''initiative'', ''error'', ''silk'', ''foot'',
     ''prayer'', ''god'', ''valor'', ''reply'', ''heat'', ''chromatography'', ''tooth'',
     ''laboratory'', ''abstraction'', ''climate'', ''blindness'', ''area'', ''government'',
     ''affection'', ''power'', ''plenty'', ''current'', ''mean'', ''molecule'', ''storage'',
     ''paint'', ''consideration'', ''babe'', ''call'', ''layer'', ''information'', ''uptake'',
     ''accomplishment'', ''feedlot'', ''lap'', ''factory'', ''technique'', ''island'',
     ''organification'', ''antenna'', ''monk'', ''stomach'', ''leaders'', ''springtime'',
     ''bunch'', ''intensity'', ''critic'', ''height'', ''probability'', ''wave'', ''communism'',
     ''follower'', ''coach'', ''obligation'', ''decade'', ''manhattan'', ''comprehension'',
     ''pattern'', ''remainder'', ''moment'', ''north'', ''eve'', ''hip'', ''district'', ''topic'',
     ''insurance'', ''mouse'', ''circumstance'', ''laugh'', ''record'', ''structure'', ''dosage'',
     ''series'', ''nephew'', ''scientist'', ''tin'', ''hurry'', ''glass'', ''wash'', ''danger'',
     ''act'', ''bench'', ''notion'', ''discussion'', ''project'', ''horn'', ''theorem'',
     ''safety'', ''discharge'', ''elite'', ''stain'', ''hemoglobin'', ''bureaucracy'',
     ''loneliness'', ''schedule'', ''religion'', ''garage'', ''pain'', ''gnp'', ''map'',
     ''refund'', ''principle'', ''transportation'', ''lessening'', ''innocence'', ''boredom'',
     ''clerk'', ''rag'', ''landing'', ''animal'', ''female'', ''majority'', ''carbon'',
     ''insight'', ''recording'', ''rest'', ''entrance'', ''communication'', ''expression'',
     ''entry'', ''purse'', ''artist'', ''cotton'', ''best'', ''questioning'', ''self'', ''taxi'',
     ''patience'']"

definition words_16 :: "string list" where
  "words_16 =
    [''universe'', ''discovery'', ''pleura'', ''writer'', ''talk'', ''denomination'', ''operator'',
     ''appreciation'', ''vehicle'', ''yes'', ''yokuts'', ''proclamation'', ''award'', ''director'',
     ''curb'', ''effectiveness'', ''design'', ''identification'', ''highway'', ''infection'',
     ''place'', ''exercise'', ''resolution'', ''sum'', ''applause'', ''pushup'', ''tape'',
     ''rule'', ''talent'', ''efficiency'', ''contract'', ''combat'', ''bible'', ''mississippi'',
     ''gradient'', ''conscience'', ''opposition'', ''cellar'', ''lawyer'', ''grove'', ''image'',
     ''mother'', ''training'', ''farm'', ''continent'', ''punishment'', ''shooting'', ''run'',
     ''future'', ''cousin'', ''protestant'', ''baltimore'', ''truth'', ''engine'', ''tradition'',
     ''principal'', ''fist'', ''agency'', ''southerner'', ''contact'', ''today'', ''fact'',
     ''investment'', ''microorganism'', ''organization'', ''tomb'', ''bank'', ''sequence'',
     ''chapter'', ''car'', ''zinc'', ''reduction'', ''drinking'', ''synthesis'', ''quantity'',
     ''checklist'', ''leg'', ''dividend'', ''canada'', ''household'', ''requirement'',
     ''thyroxine'', ''repair'', ''accordance'', ''court'', ''water'', ''america'', ''public'',
     ''experiment'', ''lyric'', ''venus'', ''vindication'', ''hen'', ''dec'', ''axe'', ''saddle'',
     ''average'', ''model'', ''queen'', ''cafeteria'', ''mirror'', ''basket'', ''silence'',
     ''office'', ''anniversary'', ''acre'', ''altercation'', ''aeration'', ''hydride'', ''forest'',
     ''recruitment'', ''provision'', ''sky'', ''name'', ''london'', ''sergeant'', ''heap'',
     ''evolution'', ''job'', ''finding'', ''bulk'', ''works'', ''salesman'', ''multiplicity'',
     ''intake'', ''ear'', ''zero'', ''species'', ''step'', ''high'', ''hemorrhage'', ''intellect'',
     ''pill'', ''saline'', ''sandwich'', ''father'', ''journey'', ''dominion'', ''crash'',
     ''precision'', ''enough'', ''assassin'', ''thief'', ''dallas'', ''meaning'', ''compensation'',
     ''length'', ''ceremony'', ''january'', ''motive'']"

definition words_17 :: "string list" where
  "words_17 =
    [''sleep'', ''implication'', ''education'', ''share'', ''bee'', ''ice'', ''trade'',
     ''equivalent'', ''headquarters'', ''cloud'', ''bay'', ''beef'', ''residence'', ''endeavor'',
     ''track'', ''echo'', ''independence'', ''appearance'', ''discontinuity'', ''emission'',
     ''thermocouple'', ''rancher'', ''lord'', ''contest'', ''manager'', ''peace'', ''enthusiasm'',
     ''poet'', ''physics'', ''extension'', ''exposure'', ''handkerchief'', ''debut'', ''ph'',
     ''ray'', ''actor'', ''ounce'', ''man'', ''frame'', ''competition'', ''giant'', ''sample'',
     ''magazine'', ''dream'', ''pan'', ''employment'', ''electron'', ''youth'', ''times'',
     ''sight'', ''hydrogen'', ''division'', ''yell'', ''porch'', ''stability'', ''clergyman'',
     ''boxcar'', ''foundation'', ''cafe'', ''doctor'', ''taste'', ''yankee'', ''arc'', ''duty'',
     ''strike'', ''quackery'', ''morning'', ''tank'', ''improvement'', ''lesson'', ''vote'',
     ''skull'', ''minister'', ''quarterback'', ''operation'', ''strychnine'', ''freedom'',
     ''energy'', ''dimension'', ''war'', ''chimney'', ''shakespeare'', ''usage'', ''play'',
     ''politics'', ''rear'', ''stereo'', ''look'', ''spring'', ''things'', ''camper'', ''general'',
     ''collection'', ''turn'', ''letter'', ''code'', ''theology'', ''son'', ''dirt'', ''curtain'',
     ''apprehension'', ''engineer'', ''disobedience'', ''duration'', ''voyage'', ''paste'',
     ''bunk'', ''activity'', ''neighbor'', ''engineering'', ''troop'', ''cheek'', ''voltage'',
     ''firearm'', ''novel'', ''dog'', ''loan'', ''dignity'', ''port'', ''visitor'', ''retention'',
     ''sportsman'', ''roleplaying'', ''brigade'', ''graphite'', ''nitrogen'', ''cart'',
     ''georgia'', ''book'', ''beam'', ''suspicion'', ''pebble'', ''anger'', ''trust'',
     ''battlefield'', ''union'', ''stockholder'', ''pistol'', ''ego'', ''spanish'', ''lieutenant'',
     ''past'', ''lie'', ''interchange'', ''phonology'', ''attempt'', ''trip'', ''sleeve'',
     ''characteristic'', ''safe'']"

definition words_18 :: "string list" where
  "words_18 =
    [''cell'', ''playing'', ''english'', ''button'', ''chest'', ''birth'', ''eggs'', ''steel'',
     ''ride'', ''hunter'', ''vapor'', ''honey'', ''symptom'', ''correlation'', ''dust'',
     ''wrinkle'', ''heart'', ''interpretation'', ''cook'', ''flesh'', ''path'', ''tale'',
     ''acquisition'', ''accent'', ''timing'', ''belly'', ''cause'', ''garden'', ''board'',
     ''poland'', ''submarine'', ''mc'', ''tax'', ''husband'', ''heating'', ''fabric'', ''comfort'',
     ''scholarship'', ''event'', ''murderer'', ''catkin'', ''arrow'', ''kid'', ''anemia'',
     ''intelligence'', ''charcoal'', ''outset'', ''guam'', ''russia'', ''tears'', ''passing'',
     ''capability'', ''beard'', ''amount'', ''belief'', ''possibility'', ''preaching'',
     ''airplane'', ''jap'', ''coefficient'', ''bone'', ''irritation'', ''reservation'', ''acid'',
     ''history'', ''land'', ''rating'', ''gland'', ''deputy'', ''skin'', ''lightning'',
     ''avocado'', ''fluorescence'', ''jury'', ''sidewalk'', ''debate'', ''oath'', ''paper'',
     ''dance'', ''worship'', ''aerator'', ''hunger'', ''holster'', ''expectation'', ''academy'',
     ''task'', ''tissue'', ''estimate'', ''helium'', ''phenomenon'', ''treatment'', ''source'',
     ''fool'', ''comedy'', ''liquid'', ''trail'', ''purpose'', ''jesus'', ''employer'',
     ''servant'', ''philosopher'', ''attention'', ''amateur'', ''person'', ''foliage'',
     ''reputation'', ''domain'', ''prospect'', ''pegboard'', ''yearning'', ''mass'', ''educator'',
     ''bronchiole'', ''disc'', ''diarrhea'', ''scale'', ''arrest'', ''struggle'', ''context'',
     ''ecstasy'', ''administrator'', ''fence'', ''hallway'', ''tire'', ''knowledge'', ''ketosis'',
     ''physician'', ''monopoly'', ''saloon'', ''manifestation'', ''sea'', ''clock'', ''poetry'',
     ''whisper'', ''style'', ''volume'', ''shot'', ''relief'', ''veteran'', ''purchase'',
     ''estate'', ''study'', ''commission'', ''street'', ''ballplayer'', ''sort'', ''arms'',
     ''market'', ''apparatus'', ''placement'']"

definition words_19 :: "string list" where
  "words_19 =
    [''subsection'', ''squats'', ''intersects'', ''startles'', ''appears'', ''squeezes'',
     ''locks'', ''commits'', ''translates'', ''discourages'', ''extracts'', ''wings'', ''builds'',
     ''flees'', ''continues'', ''escapes'', ''combats'', ''encounters'', ''breaks'', ''wears'',
     ''qualifies'', ''conducts'', ''demands'', ''ceases'', ''witnesses'', ''benefits'',
     ''restores'', ''carves'', ''examines'', ''sips'', ''sins'', ''generates'', ''illumines'',
     ''absorbs'', ''performs'', ''sights'', ''constructs'', ''composes'', ''guesses'',
     ''precedes'', ''shrugs'', ''tugs'', ''mingles'', ''ranges'', ''lays'', ''supposes'',
     ''possesses'', ''registers'', ''parallels'', ''incorporates'', ''enlarges'', ''stresses'',
     ''behaves'', ''forms'', ''roars'', ''murmurs'', ''aims'', ''blinks'', ''matches'', ''renews'',
     ''discusses'', ''maintains'', ''forgives'', ''grasps'', ''satisfies'', ''fixes'', ''finds'',
     ''perceives'', ''centers'', ''denounces'', ''reaffirms'', ''dumps'', ''prescribes'',
     ''utilizes'', ''grows'', ''dispatches'', ''chooses'', ''seeps'', ''decreases'',
     ''recognizes'', ''suspends'', ''adopts'', ''negotiates'', ''ensues'', ''knocks'',
     ''initiates'', ''subtracts'', ''admits'', ''fashions'', ''elaborates'', ''divorces'',
     ''occurs'', ''contends'', ''frightens'', ''discerns'', ''freezes'', ''plots'', ''plagues'',
     ''crosses'', ''views'', ''suits'', ''dances'', ''rebuilds'', ''blows'', ''straightens'',
     ''dismisses'', ''glimpses'', ''stimulates'', ''puts'', ''justifies'', ''shouts'', ''cures'',
     ''restricts'', ''disturbs'', ''flanks'', ''averts'', ''sags'', ''looms'', ''envies'',
     ''rustles'', ''approaches'', ''fails'', ''reports'', ''betrays'', ''exceeds'', ''reflects'',
     ''settles'', ''regulates'', ''reads'', ''persuades'', ''compounds'', ''lifts'', ''acquires'',
     ''imagines'', ''heats'', ''proclaims'', ''penetrates'', ''reveals'', ''culminates'',
     ''resembles'', ''consents'', ''guarantees'', ''rubs'', ''crawls'', ''shakes'', ''uses'',
     ''varies'', ''ties'', ''wishes'', ''disciplines'']"

definition words_20 :: "string list" where
  "words_20 =
    [''halts'', ''states'', ''adds'', ''displays'', ''closes'', ''visits'', ''participates'',
     ''surprises'', ''speaks'', ''moves'', ''omits'', ''cautions'', ''institutes'', ''stares'',
     ''assigns'', ''officiates'', ''teaches'', ''reserves'', ''ensures'', ''places'', ''enacts'',
     ''lies'', ''admires'', ''honors'', ''borrows'', ''explodes'', ''manifests'', ''gets'',
     ''corresponds'', ''resolves'', ''forestalls'', ''graduates'', ''pretends'', ''sits'',
     ''figures'', ''hesitates'', ''implies'', ''inherits'', ''accomplishes'', ''glues'',
     ''beckons'', ''produces'', ''designates'', ''asks'', ''exercises'', ''analyzes'',
     ''flattens'', ''rains'', ''lags'', ''tramps'', ''involves'', ''divides'', ''applies'',
     ''submits'', ''dispels'', ''says'', ''roams'', ''marches'', ''throws'', ''discloses'',
     ''bars'', ''preaches'', ''brings'', ''veers'', ''stumbles'', ''creeps'', ''bese'', ''cares'',
     ''consists'', ''blends'', ''feels'', ''warrants'', ''withstands'', ''addresses'',
     ''classifies'', ''inquires'', ''stirs'', ''paces'', ''dislikes'', ''skips'', ''launches'',
     ''upholds'', ''tries'', ''compensates'', ''comments'', ''avoids'', ''separates'', ''presses'',
     ''arrests'', ''seizes'', ''shuts'', ''jumps'', ''inhibits'', ''transforms'', ''wobbles'',
     ''cuts'', ''poses'', ''charges'', ''eyes'', ''expects'', ''fires'', ''nails'', ''blazes'',
     ''tolerates'', ''turns'', ''prohibits'', ''diminishes'', ''searches'', ''selects'',
     ''proposes'', ''robs'', ''prefers'', ''campaigns'', ''clears'', ''screeches'', ''greets'',
     ''clambers'', ''repairs'', ''endures'', ''leaves'', ''covers'', ''measures'', ''arranges'',
     ''cries'', ''invades'', ''colors'', ''flatters'', ''seeks'', ''catches'', ''parts'',
     ''receives'', ''sentences'', ''curses'', ''steps'', ''blocks'', ''dies'', ''defeats'',
     ''rages'', ''expresses'', ''subjects'', ''results'', ''recommends'', ''detects'',
     ''authorizes'', ''practices'', ''confides'', ''straddles'', ''ignores'', ''affects'',
     ''fades'']"

definition words_21 :: "string list" where
  "words_21 =
    [''resists'', ''condemns'', ''exports'', ''eats'', ''confronts'', ''appoints'', ''remains'',
     ''merges'', ''installs'', ''rotates'', ''slows'', ''engages'', ''smokes'', ''does'',
     ''stiffens'', ''owes'', ''perpetuates'', ''fears'', ''spares'', ''awakens'', ''relegates'',
     ''adheres'', ''begins'', ''develops'', ''contains'', ''equates'', ''drinks'', ''tucks'',
     ''regains'', ''describes'', ''serves'', ''undermines'', ''outlines'', ''entitles'', ''camps'',
     ''earns'', ''excludes'', ''substitutes'', ''guides'', ''bellows'', ''furthers'', ''advises'',
     ''lives'', ''conceives'', ''establishes'', ''experiences'', ''suspects'', ''calls'',
     ''ponders'', ''invents'', ''compares'', ''senses'', ''trails'', ''administers'', ''dashes'',
     ''punishes'', ''undertakes'', ''races'', ''groans'', ''asserts'', ''celebrates'', ''repays'',
     ''sponsors'', ''warns'', ''rips'', ''isolates'', ''succeeds'', ''exclaims'', ''mentions'',
     ''deduces'', ''derives'', ''withholds'', ''publishes'', ''links'', ''splits'', ''waves'',
     ''farms'', ''treats'', ''vanishes'', ''testifies'', ''ships'', ''obeys'', ''invites'',
     ''supervises'', ''bawls'', ''patrols'', ''includes'', ''evidences'', ''attends'',
     ''protects'', ''follows'', ''walks'', ''drills'', ''converts'', ''entails'', ''informs'',
     ''enables'', ''pleads'', ''surges'', ''rapes'', ''thrusts'', ''happens'', ''sues'',
     ''dictates'', ''scatters'', ''handles'', ''scampers'', ''averages'', ''concerns'', ''blames'',
     ''smoothes'', ''alters'', ''cracks'', ''blushes'', ''plans'', ''disobeys'', ''rests'',
     ''necessitates'', ''operates'', ''destroys'', ''manages'', ''disappoints'', ''leaps'',
     ''communicates'', ''allows'', ''argues'', ''fights'', ''suffers'', ''strives'', ''inspires'',
     ''glares'', ''mounts'', ''hastens'', ''clicks'', ''climbs'', ''washes'', ''appeals'',
     ''occupies'', ''loses'', ''exposes'', ''draws'', ''shoots'', ''deems'', ''points'',
     ''twists'', ''decides'', ''mates'', ''grips'', ''exerts'', ''files'']"

definition words_22 :: "string list" where
  "words_22 =
    [''passes'', ''supersedes'', ''pays'', ''relaxes'', ''confesses'', ''shapes'', ''plants'',
     ''hints'', ''stains'', ''merits'', ''coughs'', ''boards'', ''hires'', ''quits'', ''desires'',
     ''exhibits'', ''resign'', ''schedules'', ''comes'', ''provides'', ''attributes'', ''drags'',
     ''insures'', ''cooperates'', ''cites'', ''pants'', ''lines'', ''objects'', ''modifies'',
     ''shines'', ''adjusts'', ''notices'', ''presents'', ''means'', ''goes'', ''gazes'',
     ''consults'', ''spits'', ''swoops'', ''lets'', ''agrees'', ''eliminates'', ''weighs'',
     ''accords'', ''departs'', ''delights'', ''suggests'', ''emphasizes'', ''appreciates'',
     ''commences'', ''likes'', ''economizes'', ''enjoys'', ''falls'', ''resents'', ''concludes'',
     ''attracts'', ''rises'', ''dares'', ''grunts'', ''affixes'', ''resumes'', ''protrudes'',
     ''rivals'', ''symbolizes'', ''beholds'', ''impresses'', ''fastens'', ''whips'', ''watches'',
     ''exaggerates'', ''loads'', ''hopes'', ''chokes'', ''responds'', ''features'', ''arouses'',
     ''flounders'', ''answers'', ''declares'', ''collaborates'', ''listens'', ''licks'', ''fits'',
     ''stages'', ''wonders'', ''designs'', ''connects'', ''violates'', ''retreats'', ''prevents'',
     ''expends'', ''repeats'', ''interprets'', ''attains'', ''lends'', ''centrifuges'',
     ''summons'', ''devises'', ''excites'', ''reacts'', ''backs'', ''lures'', ''overthrows'',
     ''kneels'', ''stems'', ''praises'', ''snows'', ''rebuts'', ''enriches'', ''meets'',
     ''multiplies'', ''contacts'', ''remarks'', ''assists'', ''fills'', ''embraces'',
     ''appropriates'', ''scrambles'', ''transmits'', ''secedes'', ''invests'', ''prevails'',
     ''mutters'', ''insists'', ''interests'', ''trims'', ''mistakes'', ''matters'', ''attaches'',
     ''sniffs'', ''taxes'', ''deserves'', ''illustrates'', ''bets'', ''trains'', ''directs'',
     ''bows'', ''spans'', ''bears'', ''bores'', ''completes'', ''affords'', ''persists'',
     ''functions'', ''differs'', ''cools'', ''challenges'', ''commands'', ''stammers'']"

definition words_23 :: "string list" where
  "words_23 =
    [''crushes'', ''learns'', ''bounces'', ''injures'', ''dwindles'', ''amounts'', ''imparts'',
     ''supports'', ''governs'', ''sacrifices'', ''advances'', ''works'', ''promises'',
     ''maneuvers'', ''forbids'', ''owns'', ''replaces'', ''ventures'', ''entertains'',
     ''reinforces'', ''contracts'', ''staggers'', ''influences'', ''looks'', ''overcomes'',
     ''alerts'', ''enforces'', ''denotes'', ''glints'', ''bothers'', ''shops'', ''notes'',
     ''despises'', ''rules'', ''corrects'', ''aids'', ''records'', ''approximates'', ''laughs'',
     ''doubts'', ''minds'', ''mails'', ''paints'', ''sinks'', ''proceeds'', ''judges'', ''raises'',
     ''muses'', ''stores'', ''conveys'', ''obtains'', ''houses'', ''begs'', ''labels'',
     ''projects'', ''recalls'', ''smells'', ''replies'', ''returns'', ''forces'', ''marks'',
     ''evaluates'', ''pokes'', ''anticipates'', ''bakes'', ''accuses'', ''mars'', ''labors'',
     ''reappears'', ''flows'', ''presumes'', ''resides'', ''glances'', ''protests'', ''elapses'',
     ''purchases'', ''releases'', ''removes'', ''discontinues'', ''wipes'', ''coincides'',
     ''swallows'', ''quarrels'', ''loves'', ''nods'', ''probes'', ''has'', ''cooks'', ''tramples'',
     ''packs'', ''tilts'', ''inserts'', ''sighs'', ''swings'', ''arises'', ''disagrees'',
     ''baptizes'', ''seats'', ''expands'', ''marries'', ''overlaps'', ''encourages'', ''dooms'',
     ''associates'', ''contributes'', ''confuses'', ''instructs'', ''assumes'', ''faces'',
     ''trusts'', ''respects'', ''sways'', ''drips'', ''notifies'', ''is'', ''commutes'', ''trots'',
     ''shares'', ''exploits'', ''donates'', ''delegates'', ''levies'', ''bases'', ''extends'',
     ''retrieves'', ''inclines'', ''signs'', ''streams'', ''changes'', ''wins'', ''supplements'',
     ''shivers'', ''denies'', ''plays'', ''studies'', ''experiments'', ''touches'', ''hops'',
     ''organizes'', ''struggles'', ''travels'', ''thanks'', ''preserves'', ''complies'',
     ''blooms'', ''disseminates'', ''epitomizes'', ''floats'', ''introduces'', ''employs'']"

definition words_24 :: "string list" where
  "words_24 =
    [''relates'', ''shifts'', ''originates'', ''makes'', ''widens'', ''regrets'', ''delivers'',
     ''survives'', ''sleeps'', ''sells'', ''attacks'', ''lacks'', ''orders'', ''sustains'',
     ''calculates'', ''pursues'', ''buzzes'', ''tosses'', ''comprehends'', ''burns'', ''gallops'',
     ''speeds'', ''advertises'', ''announces'', ''names'', ''assaults'', ''investigates'',
     ''focuses'', ''approves'', ''abolishes'', ''accepts'', ''whispers'', ''erects'', ''tests'',
     ''reprodu'', ''slams'', ''booms'', ''seems'', ''jerks'', ''sends'', ''advocates'',
     ''interrupts'', ''commends'', ''controls'', ''bites'', ''escorts'', ''reminds'',
     ''convinces'', ''heads'', ''counts'', ''limits'', ''broadens'', ''fools'', ''tastes'',
     ''photographs'', ''revises'', ''pushes'', ''numbers'', ''ducks'', ''abandons'', ''effects'',
     ''casts'', ''rates'', ''enlists'', ''prays'', ''minimizes'', ''drops'', ''defies'',
     ''discovers'', ''portrays'', ''terminates'', ''phones'', ''compels'', ''populates'',
     ''relieves'', ''dresses'', ''descends'', ''peers'', ''thinks'', ''lists'', ''sounds'',
     ''cancels'', ''keeps'', ''characterizes'', ''integrates'', ''traces'', ''votes'', ''favors'',
     ''acts'', ''computes'', ''spreads'', ''locates'', ''cleans'', ''criticizes'', ''disappears'',
     ''nests'', ''adapts'', ''competes'', ''rejects'', ''distinguishes'', ''restrains'', ''piles'',
     ''opens'', ''mirrors'', ''furnishes'', ''deserts'', ''wheels'', ''concentrates'', ''weeps'',
     ''reviews'', ''quotes'', ''saves'', ''balances'', ''tumbles'', ''neglects'', ''pours'',
     ''founds'', ''believes'', ''recruits'', ''wants'', ''hides'', ''coordinates'', ''comprises'',
     ''steals'', ''cherishes'', ''slips'', ''tends'', ''hurries'', ''defends'', ''grants'',
     ''assesses'', ''indicates'', ''hits'', ''sails'', ''strengthens'', ''leads'', ''glitters'',
     ''repels'', ''permits'', ''binds'', ''snatches'', ''equals'', ''tips'', ''ousts'',
     ''accelerates'', ''breathes'', ''yells'', ''resorts'', ''spins'', ''interviews'']"

definition words_25 :: "string list" where
  "words_25 =
    [''polishes'', ''underlies'', ''represents'', ''sanctions'', ''constitutes'', ''rushes'',
     ''snarls'', ''wiggles'', ''rattles'', ''screams'', ''nears'', ''accumulates'', ''shortens'',
     ''postpones'', ''totals'', ''contradicts'', ''convicts'', ''crashes'', ''rolls'',
     ''uncovers'', ''combines'', ''filters'', ''prompts'', ''mixes'', ''gains'', ''identifies'',
     ''utters'', ''awaits'', ''helps'', ''strips'', ''samples'', ''evokes'', ''improves'',
     ''flies'', ''carries'', ''demonstrates'', ''grabs'', ''rears'', ''dreams'', ''enters'',
     ''threatens'', ''deducts'', ''spots'', ''opposes'', ''puzzles'', ''feeds'', ''pulls'',
     ''lurches'', ''verifies'', ''forgets'', ''flourishes'', ''replenishes'', ''bats'',
     ''dilates'', ''winks'', ''takes'', ''shows'', ''digs'', ''finishes'', ''questions'',
     ''obliges'', ''slashes'', ''pauses'', ''prices'', ''supplies'', ''claims'', ''clutches'',
     ''hears'', ''tears'', ''clings'', ''erupts'', ''hauls'', ''boasts'', ''amends'', ''depends'',
     ''regards'', ''sets'', ''unites'', ''pools'', ''ends'', ''refuses'', ''bursts'', ''arrives'',
     ''clamps'', ''memorizes'', ''terms'', ''dominates'', ''fosters'', ''pats'', ''rescues'',
     ''slugs'', ''accompanies'', ''refers'', ''defines'', ''l'', ''delays'', ''scratches'',
     ''correlates'', ''outdistances'', ''imports'', ''confirms'', ''becomes'', ''rides'',
     ''wrecks'', ''imposes'', ''joins'', ''lasts'', ''grins'', ''incurs'', ''stops'', ''induces'',
     ''hands'', ''leans'', ''bestows'', ''rids'', ''stays'', ''sings'', ''lands'', ''estimates'',
     ''dries'', ''prints'', ''illuminates'', ''contrasts'', ''devotes'', ''concedes'', ''brushes'',
     ''starts'', ''glows'', ''bleeds'', ''wakes'', ''picks'', ''amuses'', ''finances'', ''swears'',
     ''worries'', ''misses'', ''kicks'', ''emerges'', ''chews'', ''educates'', ''snaps'',
     ''increases'', ''weakens'', ''writhes'', ''knows'', ''recounts'', ''hurls'', ''endeavors'',
     ''damns'', ''predicts'']"

definition words_26 :: "string list" where
  "words_26 =
    [''holds'', ''wails'', ''writes'', ''attempts'', ''elects'', ''sees'', ''frowns'', ''offsets'',
     ''stoops'', ''equips'', ''solves'', ''sweeps'', ''swims'', ''stands'', ''telephones'',
     ''lurks'', ''explores'', ''secures'', ''collapses'', ''heeds'', ''accommodates'', ''gathers'',
     ''checks'', ''slaps'', ''summarizes'', ''quivers'', ''sprawls'', ''solders'', ''risks'',
     ''smiles'', ''complains'', ''formulates'', ''requests'', ''fulfills'', ''wages'',
     ''encompasses'', ''prepares'', ''surveys'', ''gives'', ''withdraws'', ''collects'',
     ''flings'', ''tells'', ''tightens'', ''costs'', ''urges'', ''retires'', ''inflicts'',
     ''gasps'', ''endorses'', ''rings'', ''intends'', ''proves'', ''softens'', ''assures'',
     ''clusters'', ''bends'', ''reconsiders'', ''inspects'', ''hates'', ''stretches'',
     ''requires'', ''buries'', ''chases'', ''intervenes'', ''issues'', ''swerves'', ''polices'',
     ''parks'', ''affirms'', ''observes'', ''awakes'', ''renders'', ''pertains'', ''dilutes'',
     ''promotes'', ''exchanges'', ''drives'', ''realizes'', ''deals'', ''welcomes'',
     ''interferes'', ''caring'', ''peculiar'', ''digital'', ''french'', ''exquisite'', ''first'',
     ''composed'', ''selfish'', ''little'', ''majestic'', ''soft'', ''adorable'', ''bustling'',
     ''fearful'', ''prosperous'', ''touristy'', ''sane'', ''rough'', ''scared'', ''careful'',
     ''significant'', ''baby'', ''illustrated'', ''relieved'', ''complete'', ''educational'',
     ''beautiful'', ''languid'', ''immense'', ''magic'', ''hilarious'', ''frightened'', ''faint'',
     ''magnificent'', ''invisible'', ''stupid'', ''foreign'', ''fiery'', ''awesome'',
     ''insightful'', ''common'', ''handsome'', ''curious'', ''outstanding'', ''proud'',
     ''instructive'', ''genuine'', ''bright'', ''good'', ''exotic'', ''tender'', ''regal'',
     ''enlightening'', ''impatient'', ''kind'', ''wet'', ''lonely'', ''complex'',
     ''extraordinary'', ''delightful'', ''picture'', ''attractive'', ''awkward'', ''myriad'',
     ''nutty'', ''airborne'', ''tidy'', ''ablaze'']"

definition words_27 :: "string list" where
  "words_27 =
    [''stately'', ''nice'', ''american'', ''quick'', ''shabby'', ''readable'', ''indian'',
     ''vindictive'', ''unusual'', ''embarrassing'', ''ratty'', ''precious'', ''vast'', ''anxious'',
     ''new'', ''inviting'', ''sweet'', ''southern'', ''adventurous'', ''fantasy'',
     ''entertaining'', ''frail'', ''appetizing'', ''annoying'', ''historic'', ''ruddy'',
     ''wicked'', ''professional'', ''haunted'', ''lively'', ''warm'', ''british'', ''great'',
     ''addicted'', ''elegant'', ''brown'', ''roomy'', ''dutch'', ''risky'', ''calm'', ''drab'',
     ''compact'', ''imposing'', ''amiable'', ''cosmopolitan'', ''rotten'', ''agreeable'', ''cold'',
     ''fabulous'', ''damp'', ''zesty'', ''much'', ''big'', ''international'', ''lean'',
     ''engrossing'', ''most'', ''nervous'', ''secure'', ''laughable'', ''polish'', ''thriller'',
     ''helpful'', ''blue'', ''last'', ''rotting'', ''encyclopedia'', ''travel'', ''industrial'',
     ''excellent'', ''efficient'', ''satisfied'', ''gleaming'', ''sparkling'', ''desperate'',
     ''friendly'', ''vegetarian'', ''superb'', ''flat'', ''serene'', ''rugged'', ''thankful'',
     ''cool'', ''grilled'', ''psychological'', ''precise'', ''lovely'', ''cheap'', ''interactive'',
     ''itchy'', ''ultimate'', ''mischievous'', ''elite'', ''crazy'', ''poor'', ''advanced'',
     ''puny'', ''abandoned'', ''trustworthy'', ''busy'', ''violet'', ''optimistic'',
     ''intelligent'', ''sophisticated'', ''prickly'', ''cowardly'', ''fried'', ''sleepy'',
     ''filthy'', ''guilty'', ''hot'', ''yucky'', ''literary'', ''gigantic'', ''icy'',
     ''miniscule'', ''best'', ''miserable'', ''tired'', ''western'', ''seedy'', ''rich'',
     ''healthy'', ''modular'', ''electric'', ''lame'', ''minuscule'', ''sorrowful'', ''hardcover'',
     ''messy'', ''devoted'', ''saucy'', ''glad'', ''more'', ''cheesy'', ''quiet'', ''microscopic'',
     ''compelling'', ''wonderful'', ''nonfiction'', ''intense'', ''similar'', ''broken'',
     ''proactive'', ''plain'', ''palatial'', ''italian'', ''graphic'', ''dark'', ''important'']"

definition words_28 :: "string list" where
  "words_28 =
    [''savory'', ''networked'', ''tearful'', ''spectacular'', ''fat'', ''abrasive'', ''jumpy'',
     ''traditional'', ''daring'', ''pleasant'', ''amazing'', ''aromatic'', ''futuristic'',
     ''adhesive'', ''hardy'', ''cultural'', ''fragile'', ''better'', ''square'', ''tart'',
     ''toasted'', ''bubbling'', ''interesting'', ''greatest'', ''compassionate'', ''colorful'',
     ''enthusiastic'', ''fancy'', ''heartwarming'', ''textbook'', ''modern'', ''tight'',
     ''divine'', ''haphazard'', ''likeable'', ''roasted'', ''authentic'', ''stylish'', ''gloomy'',
     ''fatigued'', ''creepy'', ''absorbing'', ''grand'', ''smooth'', ''gross'', ''bold'',
     ''skinny'', ''sordid'', ''mad'', ''tricky'', ''fiction'', ''uneasy'', ''cramped'',
     ''flexible'', ''serious'', ''major'', ''antique'', ''delicate'', ''embarrassed'',
     ''appalling'', ''wrathful'', ''strange'', ''fast'', ''boiled'', ''artistic'', ''aggressive'',
     ''ugly'', ''quixotic'', ''thin'', ''hopeful'', ''treasures'', ''mexican'', ''jamaican'',
     ''mushy'', ''japanese'', ''sincere'', ''automatic'', ''coarse'', ''bad'', ''easy'',
     ''sublime'', ''hairy'', ''jittery'', ''braised'', ''witty'', ''horror'', ''legal'',
     ''annual'', ''shoddy'', ''splendid'', ''colossal'', ''jumbo'', ''monumental'', ''happy'',
     ''swiss'', ''vegan'', ''inspiring'', ''restless'', ''remorseful'', ''analytical'', ''fierce'',
     ''wide'', ''constant'', ''gentle'', ''paltry'', ''giant'', ''delicious'', ''sick'', ''slim'',
     ''huge'', ''ancient'', ''cookbook'', ''afraid'', ''russian'', ''remarkable'', ''small'',
     ''grateful'', ''cooked'', ''determined'', ''creamy'', ''empty'', ''fashionable'', ''orange'',
     ''powerful'', ''poached'', ''graceful'', ''satisfying'', ''noisy'', ''complicated'',
     ''cuddly'', ''zany'', ''different'', ''muddy'', ''captivating'', ''loving'', ''german'',
     ''perfect'', ''repulsive'', ''short'', ''vibrant'', ''harmless'', ''portable'', ''quaint'',
     ''eerie'', ''suspenseful'', ''humongous'', ''glamorous'', ''bitter'', ''chilly'',
     ''recommended'']"

definition words_29 :: "string list" where
  "words_29 =
    [''sad'', ''breaded'', ''sandy'', ''weak'', ''stressed'', ''enormous'', ''exciting'',
     ''passionate'', ''novel'', ''allergic'', ''alone'', ''sharp'', ''silly'', ''reference'',
     ''useful'', ''light'', ''groovy'', ''massive'', ''biography'', ''angry'', ''customizable'',
     ''science'', ''crusty'', ''spanish'', ''polluted'', ''ashamed'', ''salty'', ''stiff'',
     ''baked'', ''safe'', ''windy'', ''youthful'', ''english'', ''incredible'', ''political'',
     ''vivacious'', ''confused'', ''clean'', ''picturesque'', ''wiry'', ''successful'', ''swift'',
     ''jewish'', ''misty'', ''eager'', ''villainous'', ''breathtaking'', ''gorgeous'', ''lucky'',
     ''comfortable'', ''sensitive'', ''spicy'', ''dirty'', ''aching'', ''silent'', ''iced'',
     ''classic'', ''tiny'', ''shocking'', ''oriental'', ''musty'', ''comic'', ''meaty'', ''top'',
     ''flirty'', ''poised'', ''marinated'', ''fascinating'', ''calamitous'', ''ample'', ''honest'',
     ''valuable'', ''history'', ''yummy'', ''engaging'', ''silky'', ''affectionate'', ''black'',
     ''terrible'', ''hungarian'', ''jealous'', ''shy'', ''sexy'', ''contemporary'', ''impossibly'',
     ''curly'', ''cheerful'', ''joyful'', ''tail'', ''diverse'', ''large'', ''irish'', ''faded'',
     ''casual'', ''dictionary'', ''loud'', ''obscene'', ''popular'', ''upset'', ''unbelievable'',
     ''rapid'', ''strong'', ''humble'', ''wild'', ''chic'', ''flimsy'', ''narrow'', ''chinese'',
     ''excited'', ''dear'', ''humor'', ''rap'', ''awful'', ''riveting'', ''brave'', ''clumsy'',
     ''sentimental'', ''thai'', ''hard'', ''stunning'', ''outrageous'', ''dry'', ''frustrated'',
     ''enjoyable'', ''steamy'', ''zippy'', ''electronic'', ''flavourful'', ''loyal'', ''wee'',
     ''sour'']"

definition wordList :: "string list" where
  "wordList = concat
    [words_1, words_2, words_3, words_4, words_5, words_6, words_7, words_8, words_9, words_10,
     words_11, words_12, words_13, words_14, words_15, words_16, words_17, words_18, words_19,
     words_20, words_21, words_22, words_23, words_24, words_25, words_26, words_27, words_28,
     words_29]"

section \<open>Every word is made of small letters\<close>

text \<open>The code units from 96 to 127: neither a capital letter nor a space nor a full stop.\<close>

definition small :: "char \<Rightarrow> bool" where
  "small c \<longleftrightarrow> digit5 c \<and> digit6 c \<and> \<not> digit7 c"

definition small_word :: "string \<Rightarrow> bool" where
  "small_word w \<longleftrightarrow> w \<noteq> [] \<and> list_all small w"

lemmas words_defs =
  words_1_def words_2_def words_3_def words_4_def words_5_def words_6_def words_7_def
  words_8_def words_9_def words_10_def words_11_def words_12_def words_13_def words_14_def
  words_15_def words_16_def words_17_def words_18_def words_19_def words_20_def words_21_def
  words_22_def words_23_def words_24_def words_25_def words_26_def words_27_def words_28_def
  words_29_def

lemma words_small:
  "list_all small_word words_1" "list_all small_word words_2" "list_all small_word words_3"
  "list_all small_word words_4" "list_all small_word words_5" "list_all small_word words_6"
  "list_all small_word words_7" "list_all small_word words_8" "list_all small_word words_9"
  "list_all small_word words_10" "list_all small_word words_11" "list_all small_word words_12"
  "list_all small_word words_13" "list_all small_word words_14" "list_all small_word words_15"
  "list_all small_word words_16" "list_all small_word words_17" "list_all small_word words_18"
  "list_all small_word words_19" "list_all small_word words_20" "list_all small_word words_21"
  "list_all small_word words_22" "list_all small_word words_23" "list_all small_word words_24"
  "list_all small_word words_25" "list_all small_word words_26" "list_all small_word words_27"
  "list_all small_word words_28" "list_all small_word words_29"
  by (simp_all add: words_defs small_word_def small_def)

lemma wordList_small: "w \<in> set wordList \<Longrightarrow> small_word w"
  using words_small by (auto simp: wordList_def list_all_iff)

lemma small_code: "small c \<Longrightarrow> 96 \<le> (of_char c :: nat) \<and> (of_char c :: nat) \<le> 127"
  by (cases c) (auto simp: small_def of_char_def )

lemma small_simps:
  assumes "small c"
  shows "js_lower_char c = c" and "c \<noteq> CHR ''.''" and "c \<noteq> CHR '' ''"
  using assms small_code [OF assms] by (auto simp: js_lower_char_def Let_def small_def)

lemma small_word_lower: "small_word w \<Longrightarrow> js_toLowerCase w = w"
  by (induction w) (auto simp: small_word_def small_simps js_toLowerCase_def)

end
