(* ===== verification/InPerson.thy ===== *)
theory InPerson imports AddFriend WordList "HOL-Library.State_Monad" begin

text \<open>
  Adding a friend in person: the wizard of \<open>components/AddFriend/AddFriendInPerson.tsx\<close> (sharing
  stories, verifying an animation, naming the contact), the spelling check of the form
  (\<open>SpellCheck.tsx\<close>, over the list of \<open>WordList\<close>), and the pictures that are computed from a
  seed, of a story (\<open>StoryAnimation\<close>) and of an identifier (\<open>IDAnimation.tsx\<close>). The
  pseudo-random generator that is seeded with a hash is a source of draws; a computation that draws
  is a state monad over the number of draws made.
\<close>

section \<open>Stories\<close>

text \<open>
  The seed of the animation. \<open>sort\<close> without a comparator sorts strings by code units.
\<close>

definition computeSeedFromStories :: "string \<Rightarrow> string list \<Rightarrow> string" where
  "computeSeedFromStories mystory theirstorylist =
     js_join '' '' (js_sort js_str_compare [mystory, js_join '' '' theirstorylist])"

text \<open>The lines of a story: every sentence with its full stop.\<close>

definition storylist :: "string \<Rightarrow> string list" where
  "storylist story =
     map (\<lambda>line. if line \<noteq> [] \<and> last line = CHR ''.'' then line else line @ ''.'') (js_split story ''. '')"

definition spellCheck :: "string \<Rightarrow> bool" where
  "spellCheck word =
     (if length word = 0 then True
      else (let w = js_toLowerCase word;
                word_san = (if js_slice w (-1) (int (length w)) = ''.'' then js_slice w 0 (-1) else w)
            in find (\<lambda>obj. obj = word_san) wordList = Some word_san))"

text \<open>The colour of a line after it was changed, and the lines.\<close>

definition StoryForm_color :: "string \<Rightarrow> string" where
  "StoryForm_color sentence =
     (if length sentence > 0
      then (let words = js_split sentence '' '';
                correct = (length words < 5 \<and> list_all spellCheck words)
            in if \<not> correct then ''red'' else ''black'')
      else ''black'')"

definition StoryForm_onChange :: "nat \<Rightarrow> string \<Rightarrow> string list \<Rightarrow> string list" where
  "StoryForm_onChange i v theirstory = theirstory[i := v]"

section \<open>The wizard\<close>

record inPersonState =
  ip_progress :: int
  ip_showtedious :: bool
  ip_showverify :: bool
  ip_theirstorylist :: "string list"
  ip_displayName :: string
  ip_uniqueName :: string
  ip_modified :: bool

text \<open>The state after the first render: the lines are empty, one per line of one's own story.\<close>

definition resetTheirStory :: "string \<Rightarrow> inPersonState \<Rightarrow> inPersonState" where
  "resetTheirStory story s = s\<lparr>ip_theirstorylist := replicate (length (storylist story)) []\<rparr>"

definition InPerson_init :: "string \<Rightarrow> inPersonState" where
  "InPerson_init story =
     resetTheirStory story
       \<lparr>ip_progress = 0, ip_showtedious = False, ip_showverify = False, ip_theirstorylist = [],
        ip_displayName = [], ip_uniqueName = [], ip_modified = False\<rparr>"

text \<open>The effect of the lines: when all are filled in, the next step is offered from then on.\<close>

definition showverify_effect :: "inPersonState \<Rightarrow> inPersonState" where
  "showverify_effect s =
     (if length (ip_theirstorylist s) = 0 then s
      else if list_all (\<lambda>line. length line \<noteq> 0) (ip_theirstorylist s) then s\<lparr>ip_showverify := True\<rparr>
      else s)"

definition InPerson_display :: "string \<Rightarrow> inPersonState \<Rightarrow> inPersonState" where
  "InPerson_display v s =
     (let s' = s\<lparr>ip_displayName := v\<rparr>
      in if \<not> ip_modified s then s'\<lparr>ip_uniqueName := generateUniqueNameFromDisplayName v\<rparr> else s')"

definition InPerson_unique :: "string \<Rightarrow> inPersonState \<Rightarrow> inPersonState" where
  "InPerson_unique v s = s\<lparr>ip_uniqueName := v, ip_modified := True\<rparr>"

datatype inPersonAction =
    NewStory string
  | EditLine nat string
  | Tedious
  | ClickVerify
  | Identical
  | TakeMeBack
  | GoBack
  | EnterDisplay string
  | EnterUnique string

text \<open>
  Each action is possible on its page only, and is followed by the effects. The page of an unknown
  progress is empty.
\<close>

fun InPerson_step :: "inPersonAction \<Rightarrow> inPersonState \<Rightarrow> inPersonState" where
  "InPerson_step (NewStory story) s = showverify_effect (resetTheirStory story s)"
| "InPerson_step (EditLine i v) s =
     (if ip_progress s = 0
      then showverify_effect (s\<lparr>ip_theirstorylist := StoryForm_onChange i v (ip_theirstorylist s)\<rparr>) else s)"
| "InPerson_step Tedious s = s\<lparr>ip_showtedious := True\<rparr>"
| "InPerson_step ClickVerify s =
     (if ip_progress s = 0 \<and> ip_showverify s then s\<lparr>ip_progress := 1\<rparr> else s)"
| "InPerson_step Identical s = (if ip_progress s = 1 then s\<lparr>ip_progress := 2\<rparr> else s)"
| "InPerson_step TakeMeBack s = (if ip_progress s = 1 then s\<lparr>ip_progress := 0\<rparr> else s)"
| "InPerson_step GoBack s = (if ip_progress s = 2 then s\<lparr>ip_progress := 1\<rparr> else s)"
| "InPerson_step (EnterDisplay v) s = (if ip_progress s = 2 then InPerson_display v s else s)"
| "InPerson_step (EnterUnique v) s = (if ip_progress s = 2 then InPerson_unique v s else s)"

definition InPerson_finish :: "daemonImpl \<Rightarrow> inPersonState \<Rightarrow> rpc list \<times> dialogEffect list" where
  "InPerson_finish d s =
     (if length (ip_displayName s) = 0 then ([], [DialogStatus ''Please enter a name.''])
      else (let r = addSyncFriend d \<lparr>as_uniqueName = ip_uniqueName s, as_displayName = ip_displayName s,
                      as_story = js_join '' '' (ip_theirstorylist s)\<rparr>
            in (fst r,
                (case snd r of
                   Inr _ \<Rightarrow> [DialogStatus (''Added '' @ ip_displayName s @ '' as a contact.''), DialogClose]
                 | Inl e \<Rightarrow> [DialogStatus (''Could not add '' @ ip_displayName s @ '': '' @ error_string e)]))))"

text \<open>The progress bar: its steps, each with whether it is highlighted.\<close>

definition ProgressBar_view :: "int \<Rightarrow> (string \<times> bool) list" where
  "ProgressBar_view progress =
     [(''1. Share stories.'', progress = 0), (''2. Verify.'', progress = 1), (''3. Finish.'', progress = 2)]"

section \<open>The clock of an animation\<close>

text \<open>The key frame at a time, and the delay of the timer that is set at that time.\<close>

definition keyframe_at :: "int \<Rightarrow> int \<Rightarrow> int \<Rightarrow> int" where
  "keyframe_at K D now = js_rem (now div D) K"

definition keyframe_delay :: "int \<Rightarrow> int \<Rightarrow> int" where
  "keyframe_delay D now = D + 10 - js_rem now D"

section \<open>Drawing\<close>

type_synonym 'a drawing = "(nat, 'a) state"

definition draw :: "rng \<Rightarrow> int \<Rightarrow> int \<Rightarrow> int drawing" where
  "draw rnd lo hi = State (\<lambda>k. (randint (rnd k) lo hi, Suc k))"

definition palette :: "string list" where
  "palette = [''#194F39'', ''#E2A924'', ''#252116'']"

record circle =
  ci_x :: int
  ci_y :: int
  ci_vx :: int
  ci_vy :: int
  ci_size :: int
  ci_color :: string

section \<open>StoryAnimation\<close>

definition initialCircle :: "rng \<Rightarrow> nat \<Rightarrow> circle drawing" where
  "initialCircle rnd i =
     do { x \<leftarrow> draw rnd (-500) 500;
          y \<leftarrow> draw rnd (-200) 200;
          vx \<leftarrow> draw rnd (-10) 10;
          vy \<leftarrow> draw rnd (-10) 10;
          size \<leftarrow> (if i < 2 then draw rnd 150 200 else draw rnd 10 20);
          c \<leftarrow> (if i < 2 then State_Monad.return (if i < 1 then 0 else 1) else draw rnd 0 2);
          State_Monad.return \<lparr>ci_x = x, ci_y = y, ci_vx = vx, ci_vy = vy, ci_size = size,
            ci_color = palette ! nat c\<rparr> }"

definition nextCircle :: "rng \<Rightarrow> circle \<Rightarrow> circle drawing" where
  "nextCircle rnd circ =
     do { dvx \<leftarrow> draw rnd (-1) 1;
          dvy \<leftarrow> draw rnd (-1) 1;
          ds \<leftarrow> draw rnd (-2) 2;
          x \<leftarrow> draw rnd (-500) 500;
          y \<leftarrow> draw rnd (-200) 200;
          c \<leftarrow> draw rnd 0 2;
          State_Monad.return \<lparr>ci_x = x, ci_y = y, ci_vx = ci_vx circ + dvx, ci_vy = ci_vy circ + dvy,
            ci_size = max (ci_size circ + ds) 20, ci_color = palette ! nat c\<rparr> }"

fun nextFrames :: "rng \<Rightarrow> nat \<Rightarrow> circle list \<Rightarrow> circle list list drawing" where
  "nextFrames rnd 0 cs = State_Monad.return [cs]"
| "nextFrames rnd (Suc m) cs =
     do { cs' \<leftarrow> State_Monad.traverse_list (nextCircle rnd) cs;
          rest \<leftarrow> nextFrames rnd m cs';
          State_Monad.return (cs # rest) }"

definition StoryAnimation_keyframes :: "rng \<Rightarrow> circle list list drawing" where
  "StoryAnimation_keyframes rnd =
     do { n \<leftarrow> draw rnd 15 20;
          initialCircles \<leftarrow> State_Monad.traverse_list (initialCircle rnd) [0..<nat n];
          nextFrames rnd 90 initialCircles }"

section \<open>StoryAnimationSmall\<close>

record smallFrame =
  sf_rotation :: int
  sf_circles :: "circle list"

definition smallCircle :: "rng \<Rightarrow> nat \<Rightarrow> circle drawing" where
  "smallCircle rnd j =
     do { size \<leftarrow> draw rnd 30 50;
          c \<leftarrow> draw rnd 0 2;
          State_Monad.return \<lparr>ci_x = (if j = 0 then -40 else 40), ci_y = 0, ci_vx = 0, ci_vy = 0, ci_size = size,
            ci_color = palette ! nat c\<rparr> }"

definition StoryAnimationSmall_keyframes :: "rng \<Rightarrow> int \<Rightarrow> int \<Rightarrow> smallFrame list drawing" where
  "StoryAnimationSmall_keyframes rnd roundtrips initialkeyframe =
     State_Monad.traverse_list
       (\<lambda>i. do { cs \<leftarrow> State_Monad.traverse_list (smallCircle rnd) [0..<2];
                 State_Monad.return
                   \<lparr>sf_rotation = js_rem (int i + 10 - initialkeyframe) 10 * 120 + roundtrips * 120 * 10,
                    sf_circles = cs\<rparr> })
       [0..<10]"

section \<open>IDAnimation\<close>

definition hsl :: "int \<Rightarrow> int \<Rightarrow> int \<Rightarrow> string" where
  "hsl hue saturation lightness =
     ''hsl('' @ js_int_str hue @ '', '' @ js_int_str saturation @ ''%, '' @ js_int_str lightness @ ''%)''"

definition getColor :: "rng \<Rightarrow> int \<Rightarrow> string list drawing" where
  "getColor rnd hue =
     do { saturation \<leftarrow> draw rnd 85 95;
          lightness \<leftarrow> draw rnd 50 70;
          complementary \<leftarrow> draw rnd 0 1;
          let hue2 = (if complementary \<noteq> 0 then js_rem (hue + 150) 360 else js_rem (hue + 210) 360) in
          State_Monad.return [hsl hue saturation lightness, hsl hue2 saturation lightness] }"

definition getBgColor :: "rng \<Rightarrow> int \<Rightarrow> string drawing" where
  "getBgColor rnd hue =
     do { saturation \<leftarrow> draw rnd 85 95;
          lightness \<leftarrow> draw rnd 97 98;
          State_Monad.return (hsl hue saturation lightness) }"

definition getBorderColor :: "rng \<Rightarrow> int \<Rightarrow> string drawing" where
  "getBorderColor rnd hue =
     do { saturation \<leftarrow> draw rnd 85 95;
          lightness \<leftarrow> draw rnd 17 23;
          State_Monad.return (hsl hue saturation lightness) }"

record idCircle =
  id_x :: int
  id_y :: int
  id_size :: int
  id_colors :: "string list"

definition idCircle_at :: "rng \<Rightarrow> int \<Rightarrow> idCircle drawing" where
  "idCircle_at rnd hue =
     do { dx \<leftarrow> draw rnd (-50) 50;
          dy \<leftarrow> draw rnd (-50) 50;
          size \<leftarrow> draw rnd 30 50;
          colors \<leftarrow> getColor rnd hue;
          State_Monad.return \<lparr>id_x = 50 + dx, id_y = 50 + dy, id_size = size, id_colors = colors\<rparr> }"

text \<open>The circles, the colour of the background and the colour of the border.\<close>

definition IDAnimation_picture :: "rng \<Rightarrow> (idCircle list \<times> string \<times> string) drawing" where
  "IDAnimation_picture rnd =
     do { n \<leftarrow> draw rnd 8 12;
          hue \<leftarrow> draw rnd 0 360;
          circles \<leftarrow> State_Monad.traverse_list (\<lambda>j. idCircle_at rnd hue) [0..<nat n];
          bg \<leftarrow> getBgColor rnd hue;
          border \<leftarrow> getBorderColor rnd hue;
          State_Monad.return (circles, bg, border) }"

text \<open>
  The picture of a seed: the generator that \<open>seedrandom\<close> makes of the hash of the seed.
\<close>

definition IDAnimation :: "(string \<Rightarrow> nat list) \<Rightarrow> (string \<Rightarrow> rng) \<Rightarrow> string \<Rightarrow> idCircle list \<times> string \<times> string" where
  "IDAnimation sha256 seedrandom seed =
     fst (run_state (IDAnimation_picture (seedrandom (sha256string sha256 seed))) 0)"

definition StoryAnimation :: "(string \<Rightarrow> nat list) \<Rightarrow> (string \<Rightarrow> rng) \<Rightarrow> string \<Rightarrow> circle list list" where
  "StoryAnimation sha256 seedrandom seed =
     fst (run_state (StoryAnimation_keyframes (seedrandom (sha256string sha256 seed))) 0)"

interpretation inPersonForm: name_form InPerson_display InPerson_unique ip_displayName ip_uniqueName ip_modified
  by unfold_locales (auto simp: InPerson_display_def InPerson_unique_def Let_def)

definition inPersonRequest :: "inPersonState \<Rightarrow> addSyncFriendRequest" where
  "inPersonRequest s =
     \<lparr>as_uniqueName = ip_uniqueName s, as_displayName = ip_displayName s, as_story = js_join '' '' (ip_theirstorylist s)\<rparr>"

interpretation inPersonDialog: request_form "\<lambda>(d, s). InPerson_finish d s" "\<lambda>(d, s). ip_displayName s \<noteq> []"
  "\<lambda>(d, s). if di_fake d then [] else [RpcAddSyncFriend (inPersonRequest s)]"
  "\<lambda>(d, s). di_fake d \<or> cl_addSyncFriend (di_client d) (inPersonRequest s) = Inr (Some ())"
  by unfold_locales
    (auto simp: InPerson_finish_def inPersonRequest_def contact_methods unary_def Let_def
      split: sum.splits option.splits if_splits)

section \<open>Lemmas on stories\<close>

text \<open>A story told in sentences: each without a full stop inside, closed by one.\<close>

definition tell :: "string list \<Rightarrow> string" where
  "tell ss = js_join '' '' (map (\<lambda>s. s @ ''.'') ss)"

definition sentences :: "string list \<Rightarrow> bool" where
  "sentences ss \<longleftrightarrow> ss \<noteq> [] \<and> list_all (\<lambda>s. CHR ''.'' \<notin> set s) ss"

lemma split_last_sentence:
  assumes "CHR ''.'' \<notin> set s"
  shows "js_split_from ''. '' [] (s @ ''.'') = [s @ ''.'']"
proof -
  have "js_split_from ''. '' [] (s @ ''.'') = js_split_from ''. '' (rev s) ''.''"
    using js_split_from_piece [of "''. ''" "CHR ''.''" "'' ''" s "[]" "''.''"] assms by simp
  also have "\<dots> = [s @ ''.'']"
    by (simp add: js_split_from.simps js_startsWith_def)
  finally show ?thesis .
qed

lemma split_tell_from:
  "ss \<noteq> [] \<Longrightarrow> list_all (\<lambda>s. CHR ''.'' \<notin> set s) ss \<Longrightarrow>
   js_split_from ''. '' [] (tell ss) = butlast ss @ [last ss @ ''.'']"
proof (induction ss)
  case (Cons s ss)
  show ?case
  proof (cases ss)
    case Nil
    with Cons.prems show ?thesis
      using split_last_sentence [of s] by (simp add: tell_def)
  next
    case (Cons t ts)
    then have tell: "tell (s # ss) = s @ ''. '' @ tell ss"
      by (simp add: tell_def)
    have "js_split_from ''. '' [] (s @ ''. '' @ tell ss) = js_split_from ''. '' (rev s) (''. '' @ tell ss)"
      using js_split_from_piece [of "''. ''" "CHR ''.''" "'' ''" s "[]" "''. '' @ tell ss"] Cons.prems by simp
    also have "\<dots> = s # js_split_from ''. '' [] (tell ss)"
      using js_split_from_sep [of "''. ''" "rev s" "tell ss"] by simp
    finally show ?thesis
      unfolding tell using Cons.IH Cons.prems Cons by simp
  qed
qed simp

lemma storylist_tell:
  assumes "sentences ss"
  shows "storylist (tell ss) = map (\<lambda>s. s @ ''.'') ss"
proof -
  have ne: "ss \<noteq> []" and plain: "list_all (\<lambda>s. CHR ''.'' \<notin> set s) ss"
    using assms by (auto simp: sentences_def)
  let ?f = "\<lambda>line. if line \<noteq> [] \<and> last line = CHR ''.'' then line else line @ ''.''"
  have split: "js_split (tell ss) ''. '' = butlast ss @ [last ss @ ''.'']"
    using split_tell_from [OF ne plain] by (simp add: js_split_def)
  have "?f s = s @ ''.''" if "s \<in> set (butlast ss)" for s
  proof -
    have "CHR ''.'' \<notin> set s"
      using plain in_set_butlastD [OF that] by (simp add: list_all_iff)
    then show ?thesis
      using last_in_set [of s] by (cases "s = []") (simp, metis)
  qed
  then have "map ?f (butlast ss) = map (\<lambda>s. s @ ''.'') (butlast ss)"
    by (intro map_cong) simp_all
  moreover have "map (\<lambda>s. s @ ''.'') ss = map (\<lambda>s. s @ ''.'') (butlast ss @ [last ss])"
    using ne by simp
  ultimately show ?thesis
    unfolding storylist_def split by simp
qed

section \<open>Lemmas on drawing\<close>

lemma pred_state_return [simp]: "pred_state P (State_Monad.return x) = P x"
proof
  show "P x \<Longrightarrow> pred_state P (State_Monad.return x)"
    by (rule pred_stateI) simp
  show "pred_state P (State_Monad.return x) \<Longrightarrow> P x"
    using pred_stateD [of P "State_Monad.return x" undefined x undefined] by simp
qed

lemma pred_draw:
  assumes "unit_source rnd" and "lo \<le> hi" and "\<And>x. lo \<le> x \<Longrightarrow> x \<le> hi \<Longrightarrow> P x"
  shows "pred_state P (draw rnd lo hi)"
  using assms randint_bounds
  by (intro pred_stateI) (auto simp: draw_def unit_source_def)

lemma pred_bind:
  assumes "pred_state Q m" and "\<And>x. Q x \<Longrightarrow> pred_state P (f x)"
  shows "pred_state P (State_Monad.bind m f)"
  using assms by (intro bind_predI) (auto intro: state.pred_mono_strong)

lemma pred_draw_bind:
  assumes "unit_source rnd" and "lo \<le> hi" and "\<And>x. lo \<le> x \<Longrightarrow> x \<le> hi \<Longrightarrow> pred_state P (f x)"
  shows "pred_state P (State_Monad.bind (draw rnd lo hi) f)"
  by (rule bind_predI, rule pred_draw [OF assms])

lemma pred_traverse:
  assumes "\<And>x. x \<in> set xs \<Longrightarrow> pred_state P (f x)"
  shows "pred_state (\<lambda>ys. length ys = length xs \<and> list_all P ys) (State_Monad.traverse_list f xs)"
  using assms
proof (induction xs)
  case (Cons x xs)
  show ?case
    unfolding State_Monad.traverse_list.simps
  proof (rule pred_bind)
    show "pred_state P (f x)"
      using Cons.prems by simp
    fix y assume "P y"
    then show "pred_state (\<lambda>ys. length ys = length (x # xs) \<and> list_all P ys)
        (State_Monad.bind (State_Monad.traverse_list f xs) (\<lambda>ys. State_Monad.return (y # ys)))"
      by (intro pred_bind [OF Cons.IH]) (use Cons.prems in auto)
  qed
qed simp

lemma palette_nth [simp]: "0 \<le> c \<Longrightarrow> c \<le> 2 \<Longrightarrow> palette ! nat c \<in> set palette"
  by (rule nth_mem) (simp add: palette_def)

text \<open>A circle that fits the stage, and that is not larger than \<open>m\<close>.\<close>

definition circle_ok :: "int \<Rightarrow> circle \<Rightarrow> bool" where
  "circle_ok m c \<longleftrightarrow>
     -500 \<le> ci_x c \<and> ci_x c \<le> 500 \<and> -200 \<le> ci_y c \<and> ci_y c \<le> 200 \<and>
     10 \<le> ci_size c \<and> ci_size c \<le> m \<and> ci_color c \<in> set palette"

lemma pred_initialCircle:
  assumes "unit_source rnd"
  shows "pred_state (circle_ok 200) (initialCircle rnd i)"
proof -
  have c: "palette ! 0 \<in> set palette" "palette ! Suc 0 \<in> set palette"
    by (simp_all add: palette_def)
  show ?thesis
    unfolding initialCircle_def using c
    by (cases "i < 2"; cases "i < 1")
      (auto intro!: pred_draw_bind [OF assms] simp: circle_ok_def)
qed

lemma pred_nextCircle:
  assumes "unit_source rnd" and "circle_ok m circ" and "20 \<le> m"
  shows "pred_state (circle_ok (m + 2)) (nextCircle rnd circ)"
  unfolding nextCircle_def using assms(2,3)
  by (auto intro!: pred_draw_bind [OF assms(1)] simp: circle_ok_def)

lemma circle_ok_mono: "circle_ok m c \<Longrightarrow> m \<le> k \<Longrightarrow> circle_ok k c"
  by (auto simp: circle_ok_def)

lemma pred_nextFrames:
  assumes "unit_source rnd"
  shows "list_all (circle_ok s) cs \<Longrightarrow> 20 \<le> s \<Longrightarrow>
    pred_state (\<lambda>fs. length fs = Suc m \<and>
      list_all (\<lambda>f. length f = length cs \<and> list_all (circle_ok (s + 2 * int m)) f) fs) (nextFrames rnd m cs)"
proof (induction m arbitrary: cs s)
  case (Suc m)
  have next_frame: "pred_state (\<lambda>ys. length ys = length cs \<and> list_all (circle_ok (s + 2)) ys)
      (State_Monad.traverse_list (nextCircle rnd) cs)"
    using Suc.prems by (intro pred_traverse pred_nextCircle [OF assms]) (auto simp: list_all_iff)
  have cs: "list_all (circle_ok (s + 2 * int (Suc m))) cs"
    using Suc.prems(1) by (auto simp: list_all_iff intro: circle_ok_mono)
  show ?case
    unfolding nextFrames.simps
  proof (rule pred_bind [OF next_frame])
    fix cs' assume cs': "length cs' = length cs \<and> list_all (circle_ok (s + 2)) cs'"
    have "pred_state (\<lambda>fs. length fs = Suc m \<and>
        list_all (\<lambda>f. length f = length cs' \<and> list_all (circle_ok (s + 2 + 2 * int m)) f) fs) (nextFrames rnd m cs')"
      using cs' Suc.prems(2) by (intro Suc.IH) auto
    then show "pred_state (\<lambda>fs. length fs = Suc (Suc m) \<and>
        list_all (\<lambda>f. length f = length cs \<and> list_all (circle_ok (s + 2 * int (Suc m))) f) fs)
        (State_Monad.bind (nextFrames rnd m cs') (\<lambda>rest. State_Monad.return (cs # rest)))"
      by (rule pred_bind) (use cs cs' in \<open>simp add: algebra_simps\<close>)
  qed
qed simp

lemma pred_StoryAnimation:
  assumes "unit_source rnd"
  shows "pred_state (\<lambda>fs. length fs = 91 \<and>
    (\<exists>n. 15 \<le> n \<and> n \<le> 20 \<and> list_all (\<lambda>f. length f = n \<and> list_all (circle_ok 380) f) fs))
    (StoryAnimation_keyframes rnd)"
  unfolding StoryAnimation_keyframes_def
proof (rule pred_draw_bind [OF assms])
  fix n :: int assume n: "15 \<le> n" "n \<le> 20"
  show "pred_state (\<lambda>fs. length fs = 91 \<and>
      (\<exists>n. 15 \<le> n \<and> n \<le> 20 \<and> list_all (\<lambda>f. length f = n \<and> list_all (circle_ok 380) f) fs))
      (State_Monad.bind (State_Monad.traverse_list (initialCircle rnd) [0..<nat n]) (nextFrames rnd 90))"
  proof (rule pred_bind)
    show "pred_state (\<lambda>ys. length ys = length [0..<nat n] \<and> list_all (circle_ok 200) ys)
        (State_Monad.traverse_list (initialCircle rnd) [0..<nat n])"
      by (rule pred_traverse) (rule pred_initialCircle [OF assms])
    fix cs assume cs: "length cs = length [0..<nat n] \<and> list_all (circle_ok 200) cs"
    have "pred_state (\<lambda>fs. length fs = Suc 90 \<and>
        list_all (\<lambda>f. length f = length cs \<and> list_all (circle_ok (200 + 2 * int 90)) f) fs) (nextFrames rnd 90 cs)"
      using cs by (intro pred_nextFrames [OF assms]) auto
    then show "pred_state (\<lambda>fs. length fs = 91 \<and>
        (\<exists>n. 15 \<le> n \<and> n \<le> 20 \<and> list_all (\<lambda>f. length f = n \<and> list_all (circle_ok 380) f) fs)) (nextFrames rnd 90 cs)"
      by (rule state.pred_mono_strong) (use cs n in \<open>auto intro!: exI [of _ "nat n"]\<close>)
  qed
qed simp

section \<open>Lemmas on the wizard\<close>

definition InPerson_run :: "inPersonAction list \<Rightarrow> inPersonState \<Rightarrow> inPersonState" where
  "InPerson_run acts s = fold InPerson_step acts s"

lemma InPerson_run_simps [simp]:
  "InPerson_run [] s = s"
  "InPerson_run (a # acts) s = InPerson_run acts (InPerson_step a s)"
  "InPerson_run (acts @ acts') s = InPerson_run acts' (InPerson_run acts s)"
  by (simp_all add: InPerson_run_def)

text \<open>What holds in every state of the wizard.\<close>

definition wizard_ok :: "inPersonState \<Rightarrow> bool" where
  "wizard_ok s \<longleftrightarrow>
     ip_progress s \<in> {0, 1, 2} \<and>
     (0 < ip_progress s \<longrightarrow> ip_showverify s) \<and>
     (ip_theirstorylist s \<noteq> [] \<and> list_all (\<lambda>l. l \<noteq> []) (ip_theirstorylist s) \<longrightarrow> ip_showverify s) \<and>
     (\<not> ip_modified s \<longrightarrow> ip_uniqueName s = generateUniqueNameFromDisplayName (ip_displayName s))"

lemma showverify_effect_fields [simp]:
  "ip_progress (showverify_effect s) = ip_progress s"
  "ip_theirstorylist (showverify_effect s) = ip_theirstorylist s"
  "ip_displayName (showverify_effect s) = ip_displayName s"
  "ip_uniqueName (showverify_effect s) = ip_uniqueName s"
  "ip_modified (showverify_effect s) = ip_modified s"
  "ip_showverify s \<Longrightarrow> ip_showverify (showverify_effect s)"
  "ip_theirstorylist s \<noteq> [] \<Longrightarrow> list_all (\<lambda>l. l \<noteq> []) (ip_theirstorylist s) \<Longrightarrow> ip_showverify (showverify_effect s)"
  by (auto simp: showverify_effect_def)

lemma storylist_nonempty [simp]: "storylist story \<noteq> []"
  by (simp add: storylist_def js_split_nonempty)

lemma wizard_ok_init: "wizard_ok (InPerson_init story)"
proof -
  have "storylist story \<noteq> []"
    by simp
  then show ?thesis
    by (auto simp: wizard_ok_def InPerson_init_def resetTheirStory_def generateUniqueNameFromDisplayName_def list_all_iff)
qed

lemma wizard_ok_step: "wizard_ok s \<Longrightarrow> wizard_ok (InPerson_step a s)"
  by (cases a) (auto simp: wizard_ok_def resetTheirStory_def InPerson_display_def InPerson_unique_def Let_def)

lemma wizard_ok_run: "wizard_ok s \<Longrightarrow> wizard_ok (InPerson_run acts s)"
  by (induction acts arbitrary: s) (auto intro: wizard_ok_step)

lemma length_lines_step: "length (ip_theirstorylist (InPerson_step a s)) =
   (case a of NewStory story \<Rightarrow> length (storylist story) | _ \<Rightarrow> length (ip_theirstorylist s))"
  by (cases a) (auto simp: resetTheirStory_def StoryForm_onChange_def InPerson_display_def InPerson_unique_def Let_def)

text \<open>Filling in the lines one after the other.\<close>

definition fillIn :: "string list \<Rightarrow> inPersonAction list" where
  "fillIn ls = map (\<lambda>i. EditLine i (ls ! i)) [0..<length ls]"

lemma fillIn_lines:
  assumes "ip_progress s = 0" and "length (ip_theirstorylist s) = length ls" and "k \<le> length ls"
  shows "ip_theirstorylist (InPerson_run (map (\<lambda>i. EditLine i (ls ! i)) [0..<k]) s) =
      take k ls @ drop k (ip_theirstorylist s) \<and>
    ip_progress (InPerson_run (map (\<lambda>i. EditLine i (ls ! i)) [0..<k]) s) = 0 \<and>
    ip_displayName (InPerson_run (map (\<lambda>i. EditLine i (ls ! i)) [0..<k]) s) = ip_displayName s \<and>
    ip_modified (InPerson_run (map (\<lambda>i. EditLine i (ls ! i)) [0..<k]) s) = ip_modified s"
  using assms(3)
proof (induction k)
  case (Suc k)
  then have "(take k ls @ drop k (ip_theirstorylist s))[k := ls ! k] = take (Suc k) ls @ drop (Suc k) (ip_theirstorylist s)"
    using assms(2) by (simp add: list_update_append take_Suc_conv_app_nth Cons_nth_drop_Suc [symmetric])
  with Suc show ?case
    by (simp add: StoryForm_onChange_def)
qed (use assms in simp)

lemma fillIn_complete:
  assumes "wizard_ok s" and "ip_progress s = 0" and "length (ip_theirstorylist s) = length ls"
    and "ls \<noteq> []" and "list_all (\<lambda>l. l \<noteq> []) ls"
  shows "ip_theirstorylist (InPerson_run (fillIn ls) s) = ls \<and> ip_progress (InPerson_run (fillIn ls) s) = 0 \<and>
    ip_showverify (InPerson_run (fillIn ls) s) \<and> ip_modified (InPerson_run (fillIn ls) s) = ip_modified s"
proof -
  have "ip_theirstorylist (InPerson_run (fillIn ls) s) = ls"
    "ip_progress (InPerson_run (fillIn ls) s) = 0" "ip_modified (InPerson_run (fillIn ls) s) = ip_modified s"
    using fillIn_lines [OF assms(2,3) order_refl] assms(3) by (simp_all add: fillIn_def)
  then show ?thesis
    using wizard_ok_run [OF assms(1), of "fillIn ls"] assms(4,5) by (auto simp: wizard_ok_def)
qed

section \<open>Spelling\<close>

lemma find_eq_Some: "find (\<lambda>obj. obj = x) xs = Some x \<longleftrightarrow> x \<in> set xs"
  by (induction xs) auto

text \<open>A word is accepted if it is in the list, in any capitalisation, alone or before a full stop.\<close>

lemma spellCheck_iff:
  "spellCheck word \<longleftrightarrow>
     word = [] \<or> (\<exists>w \<in> set wordList. js_toLowerCase word = w \<or> js_toLowerCase word = w @ ''.'')"
proof (cases "word = []")
  case False
  let ?w = "js_toLowerCase word"
  have w: "?w \<noteq> []" "length ?w = length word"
    using False by (simp_all add: js_toLowerCase_def)
  then have tail: "js_slice ?w (-1) (int (length word)) = [last ?w]"
    using js_slice_last [of ?w] by simp
  have dot: "last w \<noteq> CHR ''.''" if "w \<in> set wordList" for w
    using wordList_small [OF that] small_simps(2) by (auto simp: small_word_def list_all_iff)
  show ?thesis
  proof (cases "last ?w = CHR ''.''")
    case True
    then have "?w = butlast ?w @ ''.''"
      using w(1) by (metis append_butlast_last_id)
    then have "spellCheck word \<longleftrightarrow> butlast ?w \<in> set wordList"
      using False True tail by (simp add: spellCheck_def Let_def find_eq_Some js_slice_butlast)
    then show ?thesis
      using False dot True \<open>?w = butlast ?w @ ''.''\<close> by (metis butlast_snoc)
  next
    case last: False
    then have "spellCheck word \<longleftrightarrow> ?w \<in> set wordList"
      using False last tail by (simp add: spellCheck_def Let_def find_eq_Some)
    then show ?thesis
      using False last by auto
  qed
qed (simp add: spellCheck_def)

lemma StoryForm_color_black:
  "StoryForm_color s = ''black'' \<longleftrightarrow>
     s = [] \<or> length (js_split s '' '') \<le> 4 \<and> (\<forall>x \<in> set (js_split s '' ''). spellCheck x)"
  by (auto simp: StoryForm_color_def Let_def list_all_iff)

lemma listed_plain:
  assumes "js_toLowerCase x \<in> set wordList"
  shows "x \<noteq> []" and "CHR '' '' \<notin> set x"
proof -
  have w: "small_word (js_toLowerCase x)"
    by (rule wordList_small [OF assms])
  then show "x \<noteq> []"
    by (auto simp: small_word_def)
  have "js_lower_char (CHR '' '') = CHR '' ''"
    by (simp add: js_lower_char_def)
  then have "CHR '' '' \<in> set (js_toLowerCase x)" if "CHR '' '' \<in> set x"
    using that by (force simp: js_toLowerCase_def)
  then show "CHR '' '' \<notin> set x"
    using w small_simps(3) by (auto simp: small_word_def list_all_iff)
qed

lemma listed_line_black:
  assumes "ws \<noteq> []" and "length ws \<le> 4" and "\<forall>x \<in> set ws. js_toLowerCase x \<in> set wordList"
  shows "StoryForm_color (js_join '' '' ws @ ''.'') = ''black''"
proof -
  obtain vs x where ws: "ws = vs @ [x]"
    using assms(1) by (cases ws rule: rev_cases) auto
  have line: "js_join '' '' ws @ ''.'' = js_join '' '' (vs @ [x @ ''.''])"
  proof (cases "vs = []")
    case False
    have "js_join '' '' (vs @ [y]) = js_join '' '' vs @ '' '' @ y" for y
      using False by (induction vs) (auto simp: js_join_Cons)
    then show ?thesis
      by (simp add: ws)
  qed (simp add: ws)
  have x: "js_toLowerCase x \<in> set wordList" and vs: "\<forall>v \<in> set vs. js_toLowerCase v \<in> set wordList"
    using assms(3) ws by simp_all
  have "js_split (js_join '' '' (vs @ [x @ ''.''])) '' '' = vs @ [x @ ''.'']"
    by (rule js_split_join [where d = "CHR '' ''"]) (use listed_plain x vs in auto)
  moreover have "spellCheck (x @ ''.'')"
  proof -
    have "js_lower_char (CHR ''.'') = CHR ''.''"
      by (simp add: js_lower_char_def)
    then have "js_toLowerCase (x @ ''.'') = js_toLowerCase x @ ''.''"
      by simp
    then show ?thesis
      unfolding spellCheck_iff using x by blast
  qed
  moreover have "\<forall>v \<in> set vs. spellCheck v"
    using vs unfolding spellCheck_iff by blast
  ultimately show ?thesis
    unfolding line StoryForm_color_black using assms(2) ws by auto
qed

section \<open>Properties\<close>

text \<open>
  C25. The spelling check of the story form. A line is black exactly when it is empty or has at most
  four words, each empty or a word of the list in any capitalisation and possibly with a full stop;
  so whoever copies the lines of a story that is told in sentences of one to four words of the list,
  as the other's page shows them, never sees a red line.
\<close>

theorem copied_story_black:
  assumes "sentences ss"
    and "\<forall>s \<in> set ss. \<exists>ws. s = js_join '' '' ws \<and> ws \<noteq> [] \<and> length ws \<le> 4
           \<and> (\<forall>x \<in> set ws. js_toLowerCase x \<in> set wordList)"
  shows "(\<forall>line \<in> set (storylist (tell ss)). StoryForm_color line = ''black'')
    \<and> (StoryForm_color s = ''black'' \<longleftrightarrow>
         s = [] \<or> length (js_split s '' '') \<le> 4
           \<and> (\<forall>x \<in> set (js_split s '' ''). x = [] \<or>
                (\<exists>w \<in> set wordList. js_toLowerCase x = w \<or> js_toLowerCase x = w @ ''.'')))"
proof -
  have "\<forall>line \<in> set (storylist (tell ss)). StoryForm_color line = ''black''"
    unfolding storylist_tell [OF assms(1)] using assms(2) listed_line_black by fastforce
  then show ?thesis
    by (simp add: StoryForm_color_black spellCheck_iff)
qed

lemma sample_words: "set [''seed'', ''notice'', ''link'', ''pastor'', ''planet''] \<subseteq> set wordList"
proof -
  have "set [''seed'', ''notice'', ''link'', ''pastor'', ''planet''] \<subseteq> set words_1"
    by (simp add: words_1_def)
  then show ?thesis
    by (auto simp: wordList_def)
qed

theorem copied_story_black_witness:
  "StoryForm_color ''Seed notice link.'' = ''black'' \<and> StoryForm_color ''Pastor planet.'' = ''black''"
proof -
  let ?ss = "[''Seed notice link'', ''Pastor planet'']"
  have w: "\<exists>ws. ''Seed notice link'' = js_join '' '' ws \<and> ws \<noteq> [] \<and> length ws \<le> 4
        \<and> (\<forall>x \<in> set ws. js_toLowerCase x \<in> set wordList)"
      "\<exists>ws. ''Pastor planet'' = js_join '' '' ws \<and> ws \<noteq> [] \<and> length ws \<le> 4
        \<and> (\<forall>x \<in> set ws. js_toLowerCase x \<in> set wordList)"
  proof -
    have lower: "js_toLowerCase ''Seed'' = ''seed''" "js_toLowerCase ''notice'' = ''notice''"
        "js_toLowerCase ''link'' = ''link''" "js_toLowerCase ''Pastor'' = ''pastor''"
        "js_toLowerCase ''planet'' = ''planet''"
      by code_simp+
    have words: "\<forall>x \<in> set [''Seed'', ''notice'', ''link'']. js_toLowerCase x \<in> set wordList"
        "\<forall>x \<in> set [''Pastor'', ''planet'']. js_toLowerCase x \<in> set wordList"
      using sample_words by (simp_all only: list.set ball_simps lower) auto
    have joined: "''Seed notice link'' = js_join '' '' [''Seed'', ''notice'', ''link'']"
        "''Pastor planet'' = js_join '' '' [''Pastor'', ''planet'']"
      by simp_all
    show "\<exists>ws. ''Seed notice link'' = js_join '' '' ws \<and> ws \<noteq> [] \<and> length ws \<le> 4
        \<and> (\<forall>x \<in> set ws. js_toLowerCase x \<in> set wordList)"
      by (intro exI [of _ "[''Seed'', ''notice'', ''link'']"] conjI joined words) simp_all
    show "\<exists>ws. ''Pastor planet'' = js_join '' '' ws \<and> ws \<noteq> [] \<and> length ws \<le> 4
        \<and> (\<forall>x \<in> set ws. js_toLowerCase x \<in> set wordList)"
      by (intro exI [of _ "[''Pastor'', ''planet'']"] conjI joined words) simp_all
  qed
  have ss: "sentences ?ss"
    by (simp add: sentences_def)
  show ?thesis
    using copied_story_black [OF ss, THEN conjunct1] w storylist_tell [OF ss] by simp
qed


text \<open>
  C24. Two people who tell their stories in sentences and copy the lines of the other's story, as the
  other's page lists them, get the same seed for the animation that they compare; and the story that
  is sent to the daemon is then the story that was told.
\<close>

theorem same_seed:
  assumes "sentences a" and "sentences b"
  shows "computeSeedFromStories (tell a) (storylist (tell b)) = computeSeedFromStories (tell b) (storylist (tell a)) \<and>
    js_join '' '' (storylist (tell b)) = tell b"
proof -
  have "js_join '' '' (storylist (tell ss)) = tell ss" if "sentences ss" for ss
    using storylist_tell [OF that] by (simp add: tell_def)
  then show ?thesis
    using assms js_sort_pair_commute [of "tell a" "tell b"] by (simp add: computeSeedFromStories_def)
qed

theorem same_seed_witness:
  "computeSeedFromStories ''one fox ran. two cats sat.'' (storylist ''a dog. the sea. my hat.'') =
   computeSeedFromStories ''a dog. the sea. my hat.'' (storylist ''one fox ran. two cats sat.'')"
  using same_seed [of "[''one fox ran'', ''two cats sat'']" "[''a dog'', ''the sea'', ''my hat'']"]
  by (simp add: sentences_def tell_def)

text \<open>
  In every state the wizard reaches, it is on one of its three pages; it has left the first only
  if the next step was offered, which is the case whenever all lines are filled in; and the unique
  name follows the display name until it is typed.
\<close>

theorem wizard_reachable: "wizard_ok (InPerson_run acts (InPerson_init story))"
  by (rule wizard_ok_run [OF wizard_ok_init])

text \<open>
  The offer of the next step is never withdrawn: when all lines were filled in once, a line can
  be emptied again, and the wizard goes on to send the incomplete story.
\<close>

theorem incomplete_story_sent:
  assumes "length ls = length (storylist story)" and "list_all (\<lambda>l. l \<noteq> []) ls" and "name \<noteq> []"
  shows "fst (InPerson_finish d
      (InPerson_run (fillIn ls @ [EditLine i [], ClickVerify, Identical, EnterDisplay name]) (InPerson_init story))) =
    fst (addSyncFriend d \<lparr>as_uniqueName = generateUniqueNameFromDisplayName name, as_displayName = name,
      as_story = js_join '' '' (ls[i := []])\<rparr>)"
proof -
  let ?s = "InPerson_run (fillIn ls) (InPerson_init story)"
  have init: "ip_progress (InPerson_init story) = 0" "\<not> ip_modified (InPerson_init story)"
    "length (ip_theirstorylist (InPerson_init story)) = length ls"
    by (simp_all add: InPerson_init_def resetTheirStory_def assms(1))
  have "ls \<noteq> []"
    using assms(1) by (metis length_0_conv storylist_nonempty)
  then have s: "ip_theirstorylist ?s = ls" "ip_progress ?s = 0" "ip_showverify ?s" "\<not> ip_modified ?s"
    using fillIn_complete [OF wizard_ok_init init(1,3) _ assms(2)] init(2) by auto
  then show ?thesis
    using assms(3) by (simp add: InPerson_finish_def InPerson_display_def StoryForm_onChange_def Let_def)
qed

theorem incomplete_story_sent_witness:
  "map (\<lambda>r. case r of RpcAddSyncFriend q \<Rightarrow> as_story q | _ \<Rightarrow> [])
     (fst (InPerson_finish (sample_daemon False)
       (InPerson_run (fillIn [''a dog.'', ''the sea.''] @ [EditLine 1 [], ClickVerify, Identical, EnterDisplay ''Bo''])
         (InPerson_init ''one fox. two cats.'')))) = [''a dog. '']"
proof -
  have "length [''a dog.'', ''the sea.''] = length (storylist ''one fox. two cats.'')"
    by code_simp
  moreover have "list_all (\<lambda>l. l \<noteq> []) [''a dog.'', ''the sea.'']" and "''Bo'' \<noteq> []"
    by simp_all
  ultimately show ?thesis
    by (subst incomplete_story_sent) (simp_all add: sample_daemon_def addSyncFriend_def unary_def Let_def new_addSyncFriendRequest_def)
qed

text \<open>
  C37. Whatever the seed, every key frame that the clock of the story animation selects, at any time
  and so also just after its timer fired, exists; and it shows the same 15 to 20 circles as every
  other frame, all inside the stage of 1000 by 400, of sizes from 10 to 380 and in one of the three
  colours.
\<close>

theorem animation_frame_shown:
  assumes "unit_source (seedrandom (sha256string sha256 seed))" and "0 \<le> now"
  shows "nat (keyframe_at 90 2000 now) < length (StoryAnimation sha256 seedrandom seed) \<and>
    15 \<le> length (StoryAnimation sha256 seedrandom seed ! nat (keyframe_at 90 2000 now)) \<and>
    length (StoryAnimation sha256 seedrandom seed ! nat (keyframe_at 90 2000 now)) \<le> 20 \<and>
    list_all (circle_ok 380) (StoryAnimation sha256 seedrandom seed ! nat (keyframe_at 90 2000 now))"
proof -
  let ?fs = "StoryAnimation sha256 seedrandom seed"
  obtain fs k where run: "run_state (StoryAnimation_keyframes (seedrandom (sha256string sha256 seed))) 0 = (fs, k)"
    by fastforce
  then have fs: "?fs = fs"
    by (simp add: StoryAnimation_def)
  obtain n where len: "length ?fs = 91" and n: "15 \<le> n" "n \<le> 20"
    and all: "list_all (\<lambda>f. length f = n \<and> list_all (circle_ok 380) f) ?fs"
    using pred_stateD [OF pred_StoryAnimation [OF assms(1)] run] unfolding fs by blast
  have "0 \<le> keyframe_at 90 2000 now \<and> keyframe_at 90 2000 now < 90"
    using assms(2) by (simp add: keyframe_at_def pos_imp_zdiv_nonneg_iff)
  then have i: "nat (keyframe_at 90 2000 now) < length ?fs"
    unfolding len by linarith
  with all n show ?thesis
    by (simp add: list_all_length)
qed

theorem animation_frame_shown_witness:
  "nat (keyframe_at 90 2000 1650000000000) < length (StoryAnimation (\<lambda>s. [1, 255]) (\<lambda>s k. 1 / 2) ''ff'')"
  using animation_frame_shown [of "\<lambda>s k. 1 / 2" "\<lambda>s. [1, 255]" "''ff''" 1650000000000]
  by (simp add: unit_source_def)

text \<open>
  The timer of an animation of \<open>K\<close> frames of \<open>D\<close> milliseconds always fires inside the next
  frame, ten milliseconds after its start: no frame is skipped or shown twice, and two people whose
  clocks agree see the same frame.
\<close>

theorem keyframe_timer:
  assumes "0 \<le> t" and "10 < D" and "0 < K"
  shows "keyframe_at K D (t + keyframe_delay D t) = (keyframe_at K D t + 1) mod K \<and>
    js_rem (t + keyframe_delay D t) D = 10 \<and> 10 < keyframe_delay D t \<and> keyframe_delay D t \<le> D + 10"
proof -
  have t: "t + keyframe_delay D t = (t div D + 1) * D + 10"
    using assms by (simp add: keyframe_delay_def algebra_simps)
  then have pos: "0 \<le> t + keyframe_delay D t" and "(t + keyframe_delay D t) div D = t div D + 1"
    and mod10: "(t + keyframe_delay D t) mod D = 10"
    using assms by (simp_all add: pos_imp_zdiv_nonneg_iff)
  then have "keyframe_at K D (t + keyframe_delay D t) = (keyframe_at K D t + 1) mod K"
    using assms by (simp add: keyframe_at_def pos_imp_zdiv_nonneg_iff mod_add_left_eq)
  moreover have "0 \<le> t mod D" "t mod D < D"
    using assms by simp_all
  ultimately show ?thesis
    using pos mod10 assms by (simp add: keyframe_delay_def)
qed

theorem keyframe_timer_witness:
  "keyframe_at 90 2000 (1650000001234 + keyframe_delay 2000 1650000001234) =
   (keyframe_at 90 2000 1650000001234 + 1) mod 90"
  using keyframe_timer [of 1650000001234 2000 90] by simp

section \<open>The forms of a new contact\<close>

text \<open>
  C21. In each of the three forms, whatever was typed in the two name fields in any order, Finish sends
  the display name that was typed last, and as unique name the text typed last in its field or, when
  that field was never touched, the one derived from the display name; without a display name nothing
  is sent.
\<close>

theorem contact_names_sent:
  assumes "\<not> di_fake d" and "ip_displayName s = []" and "ip_uniqueName s = []" and "\<not> ip_modified s"
  shows "fst (PartTwo_finish d theirId (Some content) (type_names PartTwo_display PartTwo_unique evs PartTwo_init)) =
      (if typed_display evs = [] then [] else [RpcAddAsyncFriend \<lparr>aa_uniqueName = final_unique evs,
         aa_displayName = typed_display evs, aa_publicId = theirId, aa_message = content\<rparr>]) \<and>
    fst (Incoming_accept d i (type_names Incoming_display Incoming_unique evs Incoming_init)) =
      (if typed_display evs = [] then [] else [RpcAcceptAsyncInvitation \<lparr>ac_publicId = ia_publicId i,
         ac_uniqueName = final_unique evs, ac_displayName = typed_display evs\<rparr>]) \<and>
    (\<exists>story. fst (InPerson_finish d (type_names InPerson_display InPerson_unique evs s)) =
      (if typed_display evs = [] then [] else [RpcAddSyncFriend \<lparr>as_uniqueName = final_unique evs,
         as_displayName = typed_display evs, as_story = story\<rparr>]))"
proof -
  have "partTwoForm.untouched PartTwo_init" "incomingForm.untouched Incoming_init" "inPersonForm.untouched s"
    using assms
    by (simp_all add: partTwoForm.untouched_def incomingForm.untouched_def inPersonForm.untouched_def
        PartTwo_init_def Incoming_init_def)
  then show ?thesis
    using partTwoForm.type_names_final [of PartTwo_init evs] incomingForm.type_names_final [of Incoming_init evs]
      inPersonForm.type_names_final [of s evs] assms(1)
      partTwoDialog.finish_calls [of theirId content "(d, type_names PartTwo_display PartTwo_unique evs PartTwo_init)"]
      incomingDialog.finish_calls [of i "(d, type_names Incoming_display Incoming_unique evs Incoming_init)"]
      inPersonDialog.finish_calls [of "(d, type_names InPerson_display InPerson_unique evs s)"]
    by (auto simp: partTwoRequest_def incomingRequest_def inPersonRequest_def)
qed


text \<open>The witness types a name, then another unique name, then corrects the display name.\<close>

theorem contact_names_sent_witness:
  "fst (Incoming_accept (sample_daemon False) (fake_incoming_async 0 ! 0)
     (type_names Incoming_display Incoming_unique
        [TypeDisplay ''Bo'', TypeUnique ''bobby'', TypeDisplay ''Bob''] Incoming_init)) =
   [RpcAcceptAsyncInvitation \<lparr>ac_publicId = ia_publicId (fake_incoming_async 0 ! 0), ac_uniqueName = ''bobby'',
      ac_displayName = ''Bob''\<rparr>]"
proof -
  have "\<not> di_fake (sample_daemon False)" "ip_displayName (InPerson_init []) = []"
      "ip_uniqueName (InPerson_init []) = []" "\<not> ip_modified (InPerson_init [])"
    by (simp_all add: sample_daemon_def InPerson_init_def resetTheirStory_def)
  then show ?thesis
    using contact_names_sent [of "sample_daemon False" "InPerson_init []" "''x''" "''y''"
        "[TypeDisplay ''Bo'', TypeUnique ''bobby'', TypeDisplay ''Bob'']" "fake_incoming_async 0 ! 0"]
    by (simp add: typed_display_def typed_unique_def final_unique_def)
qed

end
