(* ===== verification/KBarStore.thy ===== *)
theory KBarStore imports ListNav "HOL-Library.AList" begin

text \<open>
  The actions of the command palette: \<open>components/cmd-k/types.ts\<close> (\<open>ActionImpl\<close>, a
  tree of objects that refer to their ancestors and children), \<open>Command.ts\<close>, the class
  \<open>ActionInterface\<close> of \<open>UseStore.tsx\<close>, which registers and unregisters actions, and the
  rows of \<open>CmdKMatches.tsx\<close>.

  Objects live in a heap, the list of all objects in the order of their creation; a reference is an
  index of it. A JavaScript record of objects is an association list in the order of insertion, which
  is the order of \<open>Object.keys\<close> for keys that are not array indices. Loops that follow
  references are partial functions; they are proved to end on the trees that registration builds. The
  match-sorter package is a parameter.
\<close>

section \<open>Actions\<close>

record 'p action =
  ac_id :: string
  ac_name :: string
  ac_shortcut :: "string list option"
  ac_keywords :: "string option"
  ac_section :: "string option"
  ac_subtitle :: "string option"
  ac_perform :: "'p option"
  ac_parent :: "string option"

record 'p actionImpl =
  ai_id :: string
  ai_name :: string
  ai_shortcut :: "string list option"
  ai_keywords :: string
  ai_section :: "string option"
  ai_subtitle :: "string option"
  ai_parent :: "string option"
  ai_command :: "'p option"
  ai_ancestors :: "nat list"
  ai_children :: "nat list"

definition or_empty :: "string option \<Rightarrow> string" where
  "or_empty s = (case s of Some t \<Rightarrow> t | None \<Rightarrow> [])"

definition extendKeywords :: "'p action \<Rightarrow> string" where
  "extendKeywords a = js_trim (or_empty (ac_keywords a) @ '' '' @ or_empty (ac_section a))"

text \<open>The getter \<open>parentActionImpl\<close>: the last of the ancestors.\<close>

definition parentActionImpl :: "'p actionImpl list \<Rightarrow> nat \<Rightarrow> nat option" where
  "parentActionImpl hp a = (case ai_ancestors (hp ! a) of [] \<Rightarrow> None | as \<Rightarrow> Some (last as))"

definition set_children :: "nat \<Rightarrow> nat list \<Rightarrow> 'p actionImpl list \<Rightarrow> 'p actionImpl list" where
  "set_children a cs hp = hp[a := (hp ! a)\<lparr>ai_children := cs\<rparr>]"

text \<open>The loop of \<open>addChild\<close>: it puts every ancestor of the parent in front.\<close>

partial_function (option) climb :: "'p actionImpl list \<Rightarrow> nat option \<Rightarrow> nat list \<Rightarrow> nat list option" where
  "climb hp p acc = (case p of None \<Rightarrow> Some acc | Some q \<Rightarrow> climb hp (parentActionImpl hp q) (q # acc))"

definition addChild :: "nat \<Rightarrow> nat \<Rightarrow> 'p actionImpl list \<Rightarrow> 'p actionImpl list option" where
  "addChild this child hp =
     map_option
       (\<lambda>ancestors. let hp' = hp[child := (hp ! child)\<lparr>ai_ancestors := ancestors\<rparr>]
                    in set_children this (ai_children (hp' ! this) @ [child]) hp')
       (climb hp (parentActionImpl hp this) (this # ai_ancestors (hp ! child)))"

text \<open>
  \<open>removeChild\<close>, for the objects of a list one after the other: the object is taken out of the
  children of \<open>this\<close>, then all that is below it.
\<close>

partial_function (option) removeChildren ::
  "nat \<Rightarrow> nat list \<Rightarrow> 'p actionImpl list \<Rightarrow> 'p actionImpl list option" where
  "removeChildren this as hp =
     (case as of
        [] \<Rightarrow> Some hp
      | a # rest \<Rightarrow>
          (let hp' = set_children this (remove1 a (ai_children (hp ! this))) hp
           in Option.bind (removeChildren this (ai_children (hp' ! a)) hp')
                (\<lambda>hp''. removeChildren this rest hp'')))"

definition removeChild :: "nat \<Rightarrow> nat \<Rightarrow> 'p actionImpl list \<Rightarrow> 'p actionImpl list option" where
  "removeChild this a hp = removeChildren this [a] hp"

section \<open>ActionInterface\<close>

record 'p actionInterface =
  if_heap :: "'p actionImpl list"
  if_actions :: "(string \<times> nat) list"

text \<open>The constructor of an action: the new object, and its place below its parent.\<close>

definition newActionImpl :: "'p action \<Rightarrow> 'p actionImpl" where
  "newActionImpl a =
     \<lparr>ai_id = ac_id a, ai_name = ac_name a, ai_shortcut = ac_shortcut a, ai_keywords = extendKeywords a,
      ai_section = ac_section a, ai_subtitle = ac_subtitle a, ai_parent = ac_parent a,
      ai_command = ac_perform a, ai_ancestors = [], ai_children = []\<rparr>"

text \<open>
  Registering. The parent has to be registered already; otherwise the invariant fails with its
  message, and the actions before stay registered.
\<close>

definition addOne ::
  "'p action \<Rightarrow> 'p actionInterface \<Rightarrow> ('p actionInterface \<times> js_error option) option" where
  "addOne a I =
     (let n = length (if_heap I); hp = if_heap I @ [newActionImpl a];
          J = I\<lparr>if_heap := hp, if_actions := AList.update (ac_id a) n (if_actions I)\<rparr>
      in if or_empty (ac_parent a) = [] then Some (J, None)
         else (case map_of (if_actions I) (or_empty (ac_parent a)) of
           None \<Rightarrow> Some (I, Some (JsError (''Attempted to create action \"'' @ ac_name a @
             ''\" without registering its parent \"'' @ or_empty (ac_parent a) @ ''\" first.'')))
         | Some p \<Rightarrow> map_option (\<lambda>hp'. (J\<lparr>if_heap := hp'\<rparr>, None)) (addChild p n hp)))"

fun add :: "'p action list \<Rightarrow> 'p actionInterface \<Rightarrow> ('p actionInterface \<times> js_error option) option" where
  "add [] I = Some (I, None)"
| "add (a # as) I =
     (case addOne a I of
        None \<Rightarrow> None
      | Some (J, Some e) \<Rightarrow> Some (J, Some e)
      | Some (J, None) \<Rightarrow> add as J)"

definition ActionInterface :: "'p action list \<Rightarrow> ('p actionInterface \<times> js_error option) option" where
  "ActionInterface actions = add actions \<lparr>if_heap = [], if_actions = []\<rparr>"

text \<open>
  Unregistering: the objects below are popped off the array of children, which grows by the children
  of each, then the object itself goes.
\<close>

partial_function (option) removeLoop :: "nat \<Rightarrow> 'p actionInterface \<Rightarrow> 'p actionInterface option" where
  "removeLoop a I =
     (let hp = if_heap I; children = ai_children (hp ! a)
      in if children = [] then Some I
         else (let child = last children; hp1 = set_children a (butlast children) hp;
                   actions = AList.delete (ai_id (hp ! child)) (if_actions I)
               in Option.bind
                    (case parentActionImpl hp1 child of None \<Rightarrow> Some hp1 | Some p \<Rightarrow> removeChild p child hp1)
                    (\<lambda>hp2. removeLoop a
                       \<lparr>if_heap = set_children a (ai_children (hp2 ! a) @ ai_children (hp2 ! child)) hp2,
                        if_actions = actions\<rparr>)))"

definition removeOne :: "'p action \<Rightarrow> 'p actionInterface \<Rightarrow> 'p actionInterface option" where
  "removeOne action I =
     (case map_of (if_actions I) (ac_id action) of
        None \<Rightarrow> Some I
      | Some a \<Rightarrow>
          Option.bind (removeLoop a I)
            (\<lambda>J. map_option
               (\<lambda>hp. J\<lparr>if_heap := hp, if_actions := AList.delete (ac_id action) (if_actions J)\<rparr>)
               (case parentActionImpl (if_heap J) a of
                  None \<Rightarrow> Some (if_heap J) | Some p \<Rightarrow> removeChild p a (if_heap J))))"

fun remove :: "'p action list \<Rightarrow> 'p actionInterface \<Rightarrow> 'p actionInterface option" where
  "remove [] I = Some I"
| "remove (a # as) I = Option.bind (removeOne a I) (remove as)"

section \<open>Matches\<close>

text \<open>The actions to choose from: without a root those without a parent, else those below the root.\<close>

definition rootResults :: "'p actionImpl list \<Rightarrow> (string \<times> nat) list \<Rightarrow> string option \<Rightarrow> nat list" where
  "rootResults hp actions rootActionId =
     fold (\<lambda>(k, a) acc.
         (let acc' = (if or_empty (ai_parent (hp ! a)) = [] \<and> or_empty rootActionId = [] then acc @ [a] else acc)
          in if Some (ai_id (hp ! a)) = rootActionId then acc' @ ai_children (hp ! a) else acc'))
       actions []"

partial_function (option) collectChildren :: "'p actionImpl list \<Rightarrow> nat list \<Rightarrow> nat list \<Rightarrow> nat list option" where
  "collectChildren hp as acc =
     (case as of
        [] \<Rightarrow> Some acc
      | a # rest \<Rightarrow>
          (if ai_children (hp ! a) = [] then collectChildren hp rest acc
           else Option.bind (collectChildren hp (ai_children (hp ! a)) (acc @ ai_children (hp ! a)))
                  (\<lambda>acc'. collectChildren hp rest acc')))"

definition getDeepResults :: "'p actionImpl list \<Rightarrow> nat list \<Rightarrow> nat list option" where
  "getDeepResults hp as = collectChildren hp as as"

text \<open>
  \<open>matchSorter\<close> is the package's ranking of objects by name, keywords and subtitle; it is asked
  only for a search that is not blank.
\<close>

definition internalMatches ::
  "('p actionImpl list \<Rightarrow> nat list \<Rightarrow> string \<Rightarrow> nat list) \<Rightarrow> 'p actionImpl list \<Rightarrow> nat list \<Rightarrow> string \<Rightarrow> nat list" where
  "internalMatches matchSorter hp filtered search =
     (if js_trim search = [] then filtered else matchSorter hp filtered search)"

text \<open>The rows: the matches by section, each section under its name, unless it is the unnamed one.\<close>

definition section_of :: "'p actionImpl \<Rightarrow> string" where
  "section_of a = (if or_empty (ai_section a) = [] then ''none'' else or_empty (ai_section a))"

definition groupPush :: "string \<Rightarrow> 'a \<Rightarrow> (string \<times> 'a list) list \<Rightarrow> (string \<times> 'a list) list" where
  "groupPush name x groupMap =
     (case map_of groupMap name of
        None \<Rightarrow> groupMap @ [(name, [x])]
      | Some xs \<Rightarrow> AList.update name (xs @ [x]) groupMap)"

definition groupBy :: "('a \<Rightarrow> string) \<Rightarrow> 'a list \<Rightarrow> (string \<times> 'a list) list" where
  "groupBy f matches = fold (\<lambda>a. groupPush (f a) a) matches []"

definition groupRows :: "(string \<times> 'a list) list \<Rightarrow> 'a row list" where
  "groupRows groupMap =
     concat (map (\<lambda>(name, as). (if name \<noteq> ''none'' then [Divider name] else []) @ map Item as) groupMap)"

definition useMatches ::
  "('p actionImpl list \<Rightarrow> nat list \<Rightarrow> string \<Rightarrow> nat list) \<Rightarrow> 'p actionInterface \<Rightarrow> string option \<Rightarrow> string \<Rightarrow>
   nat row list option" where
  "useMatches matchSorter I rootActionId search =
     (let hp = if_heap I; roots = rootResults hp (if_actions I) rootActionId
      in map_option
           (\<lambda>filtered. groupRows (groupBy (\<lambda>a. section_of (hp ! a)) (internalMatches matchSorter hp filtered search)))
           (if search = [] then Some roots else getDeepResults hp roots))"

section \<open>Well-formed forests\<close>

text \<open>
  Parents are created before their children; an object's ancestors are those of its parent and the
  parent; and it is a child of its parent only.
\<close>

definition object_ok :: "'p actionImpl list \<Rightarrow> nat \<Rightarrow> bool" where
  "object_ok hp a \<longleftrightarrow>
     distinct (ai_children (hp ! a)) \<and>
     (\<forall>c \<in> set (ai_children (hp ! a)). a < c \<and> c < length hp \<and> parentActionImpl hp c = Some a) \<and>
     (case parentActionImpl hp a of
        None \<Rightarrow> True
      | Some p \<Rightarrow> p < a \<and> ai_ancestors (hp ! a) = ai_ancestors (hp ! p) @ [p] \<and> a \<in> set (ai_children (hp ! p)))"

definition heap_ok :: "'p actionImpl list \<Rightarrow> bool" where
  "heap_ok hp \<longleftrightarrow> (\<forall>a < length hp. object_ok hp a)"

definition iface_ok :: "'p actionInterface \<Rightarrow> bool" where
  "iface_ok I \<longleftrightarrow>
     heap_ok (if_heap I) \<and> distinct (map fst (if_actions I)) \<and>
     (\<forall>k a. map_of (if_actions I) k = Some a \<longrightarrow> a < length (if_heap I) \<and> ai_id (if_heap I ! a) = k)"

lemma parentActionImpl_None: "parentActionImpl hp a = None \<longleftrightarrow> ai_ancestors (hp ! a) = []"
  by (auto simp: parentActionImpl_def split: list.splits)

lemma parent_of_snoc: "ai_ancestors (hp ! a) = as @ [p] \<Longrightarrow> parentActionImpl hp a = Some p"
  by (cases "as") (simp_all add: parentActionImpl_def)

lemma parentActionImpl_cong:
  "ai_ancestors (hp ! a) = ai_ancestors (hp' ! a) \<Longrightarrow> parentActionImpl hp a = parentActionImpl hp' a"
  by (simp add: parentActionImpl_def)

lemma climb_ancestors:
  assumes "heap_ok hp" and "a < length hp"
  shows "climb hp (parentActionImpl hp a) acc = Some (ai_ancestors (hp ! a) @ acc)"
  using assms(2)
proof (induction a arbitrary: acc rule: less_induct)
  case (less a)
  show ?case
  proof (cases "parentActionImpl hp a")
    case None
    then have "ai_ancestors (hp ! a) = []"
      by (simp add: parentActionImpl_None)
    with None show ?thesis
      by (subst climb.simps) simp
  next
    case (Some p)
    have "object_ok hp a"
      using assms(1) less.prems by (simp add: heap_ok_def)
    then have p: "p < a" "ai_ancestors (hp ! a) = ai_ancestors (hp ! p) @ [p]"
      unfolding object_ok_def Some by simp_all
    then have "climb hp (parentActionImpl hp p) (p # acc) = Some (ai_ancestors (hp ! p) @ p # acc)"
      using less.prems by (intro less.IH) simp_all
    then show ?thesis
      unfolding Some by (subst climb.simps) (simp add: p(2))
  qed
qed

text \<open>A new object, alone and below a parent.\<close>

lemma heap_ok_snoc:
  assumes "heap_ok hp" and "ai_ancestors x = []" and "ai_children x = []"
  shows "heap_ok (hp @ [x])"
proof -
  have same: "parentActionImpl (hp @ [x]) a = parentActionImpl hp a" if "a < length hp" for a
    using that by (intro parentActionImpl_cong) (simp add: nth_append)
  have "parentActionImpl (hp @ [x]) (length hp) = None"
    using assms(2) by (simp add: parentActionImpl_None)
  moreover have "object_ok (hp @ [x]) a" if a: "a < length hp" for a
  proof -
    have "object_ok hp a"
      using assms(1) a by (simp add: heap_ok_def)
    then show ?thesis
      using a by (auto simp: object_ok_def nth_append same split: option.splits)
  qed
  ultimately show ?thesis
    using assms(2,3) by (auto simp: heap_ok_def less_Suc_eq object_ok_def [of _ "length hp"])
qed

lemma heap_ok_addChild:
  assumes ok: "heap_ok (hp @ [x])" and x: "ai_ancestors x = []" "ai_children x = []" and p: "p < length hp"
  shows "\<exists>hp'. addChild p (length hp) (hp @ [x]) = Some hp' \<and> heap_ok hp' \<and> length hp' = Suc (length hp) \<and>
    hp' ! length hp = x\<lparr>ai_ancestors := ai_ancestors (hp ! p) @ [p]\<rparr> \<and>
    (\<forall>a < length hp. hp' ! a = (if a = p then (hp ! p)\<lparr>ai_children := ai_children (hp ! p) @ [length hp]\<rparr> else hp ! a))"
proof -
  let ?n = "length hp" and ?anc = "ai_ancestors (hp ! p) @ [p]"
  define H where "H = (hp @ [x\<lparr>ai_ancestors := ?anc\<rparr>])[p := (hp ! p)\<lparr>ai_children := ai_children (hp ! p) @ [?n]\<rparr>]"
  have "climb (hp @ [x]) (parentActionImpl (hp @ [x]) p) [p] = Some ?anc"
    using climb_ancestors [OF ok, of p "[p]"] p by (simp add: nth_append)
  then have add: "addChild p ?n (hp @ [x]) = Some H"
    using p x by (simp add: addChild_def set_children_def Let_def nth_append H_def)
  have nth: "H ! a = (if a = ?n then x\<lparr>ai_ancestors := ?anc\<rparr>
      else if a = p then (hp ! p)\<lparr>ai_children := ai_children (hp ! p) @ [?n]\<rparr> else hp ! a)" if "a \<le> ?n" for a
    using that p by (auto simp: nth_append nth_list_update H_def)
  have anc: "ai_ancestors (H ! a) = (if a = ?n then ?anc else ai_ancestors ((hp @ [x]) ! a))" if "a \<le> ?n" for a
    using that p by (auto simp: nth nth_append)
  have parent: "parentActionImpl H a = (if a = ?n then Some p else parentActionImpl (hp @ [x]) a)" if "a \<le> ?n" for a
    using parent_of_snoc [of H ?n "ai_ancestors (hp ! p)" p] anc [OF that]
    by (auto intro: parentActionImpl_cong simp: anc)
  have len: "length H = Suc ?n"
    by (simp add: H_def)
  have "object_ok H a" if a: "a \<le> ?n" for a
  proof -
    have o: "object_ok (hp @ [x]) a"
      using ok a by (simp add: heap_ok_def)
    show ?thesis
    proof (cases "a = ?n")
      case True
      then show ?thesis
        using p x parent [of ?n] by (simp add: object_ok_def nth nth_append len)
    next
      case False
      have child: "c \<noteq> ?n" if "c \<in> set (ai_children (hp ! a))" for c
      proof
        assume "c = ?n"
        then have "parentActionImpl (hp @ [x]) ?n = Some a"
          using o that a False by (auto simp: object_ok_def nth_append)
        then show False
          using x by (simp add: parentActionImpl_def)
      qed
      have other: "q \<noteq> ?n" if "parentActionImpl (hp @ [x]) a = Some q" for q
        using o that a by (auto simp: object_ok_def)
      show ?thesis
        using o False a p child other
        by (auto simp: object_ok_def nth parent nth_append anc len split: option.splits)
    qed
  qed
  moreover have "length H = Suc ?n"
    by (simp add: H_def)
  ultimately have "heap_ok H" and "length H = Suc ?n"
    by (simp_all add: heap_ok_def less_Suc_eq_le)
  with add show ?thesis
    using nth p by auto
qed

section \<open>Registering\<close>

definition action_keys :: "'p actionInterface \<Rightarrow> string set" where
  "action_keys I = set (map fst (if_actions I))"

text \<open>An action is registered: its object has its data and stands below its parent.\<close>

definition registered :: "'p action \<Rightarrow> 'p actionInterface \<Rightarrow> bool" where
  "registered a I \<longleftrightarrow>
     (case map_of (if_actions I) (ac_id a) of
        None \<Rightarrow> False
      | Some n \<Rightarrow>
          (if_heap I ! n)\<lparr>ai_ancestors := [], ai_children := []\<rparr> = newActionImpl a \<and>
          (case parentActionImpl (if_heap I) n of
             None \<Rightarrow> or_empty (ac_parent a) = []
           | Some p \<Rightarrow> ai_id (if_heap I ! p) = or_empty (ac_parent a) \<and> or_empty (ac_parent a) \<noteq> []))"

text \<open>Every parent comes before its children.\<close>

fun parents_known :: "string set \<Rightarrow> 'p action list \<Rightarrow> bool" where
  "parents_known known [] = True"
| "parents_known known (a # as) =
     ((or_empty (ac_parent a) = [] \<or> or_empty (ac_parent a) \<in> known) \<and>
      parents_known (insert (ac_id a) known) as)"

text \<open>The objects of a heap only get more children.\<close>

definition extends :: "'p actionImpl list \<Rightarrow> 'p actionImpl list \<Rightarrow> bool" where
  "extends hp hp' \<longleftrightarrow>
     length hp \<le> length hp' \<and> (\<forall>a < length hp. hp' ! a = (hp ! a)\<lparr>ai_children := ai_children (hp' ! a)\<rparr>)"

lemma extends_fields:
  assumes "extends hp hp'" and "a < length hp"
  shows "ai_id (hp' ! a) = ai_id (hp ! a) \<and> ai_ancestors (hp' ! a) = ai_ancestors (hp ! a) \<and>
    parentActionImpl hp' a = parentActionImpl hp a \<and>
    (hp' ! a)\<lparr>ai_ancestors := [], ai_children := []\<rparr> = (hp ! a)\<lparr>ai_ancestors := [], ai_children := []\<rparr>"
proof -
  have e: "hp' ! a = (hp ! a)\<lparr>ai_children := ai_children (hp' ! a)\<rparr>"
    using assms by (simp add: extends_def)
  have "ai_ancestors (hp' ! a) = ai_ancestors (hp ! a)"
    by (subst e) simp
  moreover from this have "parentActionImpl hp' a = parentActionImpl hp a"
    by (rule parentActionImpl_cong)
  moreover have "ai_id (hp' ! a) = ai_id (hp ! a)"
    by (subst e) simp
  moreover have "(hp' ! a)\<lparr>ai_ancestors := [], ai_children := []\<rparr> = (hp ! a)\<lparr>ai_ancestors := [], ai_children := []\<rparr>"
    by (subst e) simp
  ultimately show ?thesis by simp
qed

lemma registered_extends:
  assumes "iface_ok I" and "registered b I" and "extends (if_heap I) (if_heap J)"
    and "map_of (if_actions J) (ac_id b) = map_of (if_actions I) (ac_id b)"
  shows "registered b J"
proof -
  obtain n where n: "map_of (if_actions I) (ac_id b) = Some n"
    using assms(2) by (auto simp: registered_def split: option.splits)
  then have len: "n < length (if_heap I)"
    using assms(1) by (auto simp: iface_ok_def)
  have "p < length (if_heap I)" if "parentActionImpl (if_heap I) n = Some p" for p
  proof -
    have "object_ok (if_heap I) n"
      using assms(1) len by (simp add: iface_ok_def heap_ok_def)
    then show ?thesis
      using that len by (simp add: object_ok_def)
  qed
  then show ?thesis
    using assms(2,4) n extends_fields [OF assms(3) len] extends_fields [OF assms(3)]
    by (auto simp: registered_def split: option.splits)
qed

lemma addOne_iface:
  assumes "iface_ok I"
  shows "if or_empty (ac_parent a) = [] \<or> or_empty (ac_parent a) \<in> action_keys I
    then \<exists>J. addOne a I = Some (J, None) \<and> iface_ok J \<and> action_keys J = insert (ac_id a) (action_keys I) \<and>
      registered a J \<and> extends (if_heap I) (if_heap J) \<and>
      length (if_heap J) = Suc (length (if_heap I)) \<and> ai_id (if_heap J ! length (if_heap I)) = ac_id a \<and>
      ai_parent (if_heap J ! length (if_heap I)) = ac_parent a \<and>
      (\<forall>k. k \<noteq> ac_id a \<longrightarrow> map_of (if_actions J) k = map_of (if_actions I) k)
    else \<exists>e. addOne a I = Some (I, Some e)"
proof -
  let ?n = "length (if_heap I)" and ?new = "newActionImpl a" and ?acts = "AList.update (ac_id a) (length (if_heap I)) (if_actions I)"
  have heap: "heap_ok (if_heap I)" and keys: "distinct (map fst (if_actions I))"
    and range: "\<And>k m. map_of (if_actions I) k = Some m \<Longrightarrow> m < ?n \<and> ai_id (if_heap I ! m) = k"
    using assms by (auto simp: iface_ok_def)
  have new: "ai_ancestors ?new = []" "ai_children ?new = []" "ai_id ?new = ac_id a" "ai_parent ?new = ac_parent a"
    by (simp_all add: newActionImpl_def)
  have heap1: "heap_ok (if_heap I @ [?new])"
    by (rule heap_ok_snoc [OF heap new(1,2)])
  have keys1: "distinct (map fst ?acts)"
    using keys by (rule distinct_update)
  have lookup: "map_of ?acts k = (if k = ac_id a then Some ?n else map_of (if_actions I) k)" for k
    by (simp add: update_conv')
  have keyset: "set (map fst ?acts) = insert (ac_id a) (action_keys I)"
    by (auto simp: action_keys_def dom_update)
  show ?thesis
  proof (cases "or_empty (ac_parent a) = []")
    case True
    let ?J = "I\<lparr>if_heap := if_heap I @ [?new], if_actions := ?acts\<rparr>"
    have "addOne a I = Some (?J, None)"
      using True by (simp add: addOne_def Let_def)
    moreover have "iface_ok ?J"
      using heap1 keys1 new by (auto simp: iface_ok_def lookup nth_append less_SucI split: if_splits dest!: range)
    moreover have "registered a ?J"
      using True new by (simp add: registered_def lookup parentActionImpl_def newActionImpl_def)
    ultimately show ?thesis
      using True keyset new by (auto simp: action_keys_def lookup extends_def nth_append)
  next
    case False
    show ?thesis
    proof (cases "map_of (if_actions I) (or_empty (ac_parent a))")
      case None
      then have "or_empty (ac_parent a) \<notin> action_keys I"
        by (simp add: action_keys_def map_of_eq_None_iff)
      with False None show ?thesis
        by (simp add: addOne_def Let_def)
    next
      case (Some p)
      with range have p: "p < ?n" "ai_id (if_heap I ! p) = or_empty (ac_parent a)"
        by auto
      obtain hp where hp: "addChild p ?n (if_heap I @ [?new]) = Some hp" "heap_ok hp" "length hp = Suc ?n"
        "hp ! ?n = ?new\<lparr>ai_ancestors := ai_ancestors (if_heap I ! p) @ [p]\<rparr>"
        "\<And>m. m < ?n \<Longrightarrow> hp ! m = (if m = p then (if_heap I ! p)\<lparr>ai_children := ai_children (if_heap I ! p) @ [?n]\<rparr> else if_heap I ! m)"
        using heap_ok_addChild [OF heap1 new(1,2) p(1)] by blast
      let ?J = "I\<lparr>if_heap := hp, if_actions := ?acts\<rparr>"
      have add: "addOne a I = Some (?J, None)"
        using False Some hp(1) by (simp add: addOne_def Let_def)
      have ids: "ai_id (hp ! m) = ai_id (if_heap I ! m)" if "m < ?n" for m
        using hp(5) [OF that] that by simp
      have "iface_ok ?J"
        using hp(2,3,4) keys1 range new ids by (auto simp: iface_ok_def lookup less_Suc_eq split: if_splits)
      moreover have "registered a ?J"
        using False parent_of_snoc [of hp ?n _ p] hp(4) p ids new
        by (simp add: registered_def lookup newActionImpl_def)
      moreover have "extends (if_heap I) hp"
        using hp(3,5) by (auto simp: extends_def)
      moreover have "or_empty (ac_parent a) \<in> action_keys I"
        using Some by (metis action_keys_def map_of_eq_None_iff image_set option.distinct(1))
      ultimately show ?thesis
        using add keyset hp(3,4) new by (auto simp: action_keys_def lookup)
    qed
  qed
qed

lemma add_iface:
  assumes "iface_ok I"
  shows "\<exists>J e. add as I = Some (J, e) \<and> iface_ok J \<and>
    (e = None \<longleftrightarrow> parents_known (action_keys I) as) \<and>
    (\<forall>b. registered b I \<and> ac_id b \<notin> set (map ac_id as) \<longrightarrow> registered b J) \<and>
    (e = None \<and> distinct (map ac_id as) \<longrightarrow> list_all (\<lambda>a. registered a J) as)"
  using assms
proof (induction as arbitrary: I)
  case (Cons a as)
  show ?case
  proof (cases "or_empty (ac_parent a) = [] \<or> or_empty (ac_parent a) \<in> action_keys I")
    case True
    then obtain J where J: "addOne a I = Some (J, None)" "iface_ok J"
      "action_keys J = insert (ac_id a) (action_keys I)" "registered a J" "extends (if_heap I) (if_heap J)"
      "\<And>k. k \<noteq> ac_id a \<Longrightarrow> map_of (if_actions J) k = map_of (if_actions I) k"
      using addOne_iface [OF Cons.prems, of a] by auto
    have "registered b J" if "registered b I" "ac_id b \<noteq> ac_id a" for b
      using registered_extends [OF Cons.prems that(1) J(5) J(6) [OF that(2)]] .
    with Cons.IH [OF J(2)] J True show ?thesis
      by (fastforce simp: list_all_iff)
  next
    case False
    then show ?thesis
      using addOne_iface [OF Cons.prems, of a] Cons.prems by auto
  qed
qed simp

section \<open>The matches\<close>

text \<open>What is at or below some objects.\<close>

definition below :: "'p actionImpl list \<Rightarrow> nat list \<Rightarrow> nat set" where
  "below hp as = {c. c < length hp \<and> set as \<inter> set (ai_ancestors (hp ! c)) \<noteq> {}}"

lemma below_Cons: "below hp (a # as) = below hp [a] \<union> below hp as"
  by (auto simp: below_def)

lemma below_child:
  assumes "heap_ok hp" and "c < length hp" and "a \<in> set (ai_ancestors (hp ! c))"
  shows "\<exists>b \<in> set (ai_children (hp ! a)). c = b \<or> b \<in> set (ai_ancestors (hp ! c))"
  using assms(2,3)
proof (induction c rule: less_induct)
  case (less c)
  have o: "object_ok hp c"
    using assms(1) less.prems(1) by (simp add: heap_ok_def)
  obtain p where parent: "parentActionImpl hp c = Some p"
    using less.prems(2) parentActionImpl_None [of hp c] by (cases "parentActionImpl hp c") auto
  then have p: "p < c" "ai_ancestors (hp ! c) = ai_ancestors (hp ! p) @ [p]" "c \<in> set (ai_children (hp ! p))"
    using o unfolding object_ok_def parent by simp_all
  show ?case
  proof (cases "a = p")
    case True
    with p(3) show ?thesis by blast
  next
    case False
    then have "a \<in> set (ai_ancestors (hp ! p))"
      using less.prems(2) p(2) by simp
    then have "\<exists>b \<in> set (ai_children (hp ! a)). p = b \<or> b \<in> set (ai_ancestors (hp ! p))"
      using less.IH [OF p(1)] p(1) less.prems(1) by simp
    then show ?thesis
      unfolding p(2) by auto
  qed
qed

lemma children_below:
  assumes "heap_ok hp" and "a < length hp"
  shows "below hp [a] = set (ai_children (hp ! a)) \<union> below hp (ai_children (hp ! a))"
proof -
  have "object_ok hp a"
    using assms by (simp add: heap_ok_def)
  then have kids: "c < length hp \<and> ai_ancestors (hp ! c) = ai_ancestors (hp ! a) @ [a]" if "c \<in> set (ai_children (hp ! a))" for c
  proof -
    have c: "c < length hp" "parentActionImpl hp c = Some a"
      using \<open>object_ok hp a\<close> that by (auto simp: object_ok_def)
    have "object_ok hp c"
      using assms(1) c(1) by (simp add: heap_ok_def)
    then show ?thesis
      using c unfolding object_ok_def c(2) by simp
  qed
  have anc: "a \<in> set (ai_ancestors (hp ! c))" if "c < length hp" "b \<in> set (ai_children (hp ! a))" "b \<in> set (ai_ancestors (hp ! c))" for b c
    using that
  proof (induction c rule: less_induct)
    case (less c)
    have o: "object_ok hp c"
      using assms(1) less.prems(1) by (simp add: heap_ok_def)
    obtain p where parent: "parentActionImpl hp c = Some p"
      using less.prems(3) parentActionImpl_None [of hp c] by (cases "parentActionImpl hp c") auto
    then have p: "p < c" "ai_ancestors (hp ! c) = ai_ancestors (hp ! p) @ [p]"
      using o unfolding object_ok_def parent by simp_all
    show ?case
    proof (cases "b = p")
      case True
      then show ?thesis using kids [OF less.prems(2)] p(2) by simp
    next
      case False
      then show ?thesis
        using less.IH [OF p(1)] less.prems p by simp
    qed
  qed
  show ?thesis
    using below_child [OF assms(1)] kids anc by (fastforce simp: below_def)
qed

lemma collectChildren_below:
  assumes "heap_ok hp"
  shows "\<forall>a \<in> set as. k \<le> a \<and> a < length hp \<Longrightarrow>
    \<exists>l. collectChildren hp as acc = Some l \<and> set l = set acc \<union> below hp as"
proof (induction "length hp - k" arbitrary: k as acc rule: less_induct)
  case less
  show ?case
    using less.prems
  proof (induction as arbitrary: acc)
    case Nil
    then show ?case
      by (subst collectChildren.simps) (simp add: below_def)
  next
    case (Cons a as)
    let ?cs = "ai_children (hp ! a)"
    have a: "k \<le> a" "a < length hp" and o: "object_ok hp a"
      using Cons.prems assms by (auto simp: heap_ok_def)
    obtain acc' where acc': "(if ?cs = [] then Some acc else collectChildren hp ?cs (acc @ ?cs)) = Some acc'"
      "set acc' = set acc \<union> below hp [a]"
    proof (cases "?cs = []")
      case True
      then show ?thesis
        using that [of acc] children_below [OF assms a(2)] by (auto simp: below_def)
    next
      case False
      have "\<forall>c \<in> set ?cs. Suc a \<le> c \<and> c < length hp"
        using o by (auto simp: object_ok_def)
      then have "\<exists>l. collectChildren hp ?cs (acc @ ?cs) = Some l \<and> set l = set (acc @ ?cs) \<union> below hp ?cs"
        using a by (intro less.hyps [of "Suc a"]) auto
      then show ?thesis
        using that children_below [OF assms a(2)] False by auto
    qed
    obtain l where "collectChildren hp as acc' = Some l" "set l = set acc' \<union> below hp as"
      using Cons.IH [of acc'] Cons.prems by auto
    then show ?case
      using acc' below_Cons [of hp a as] by (subst collectChildren.simps) (auto split: if_splits)
  qed
qed

text \<open>Grouping: the groups are not empty, their names are distinct, and each holds its part of the list.\<close>

lemma map_of_groupPush:
  "map_of (groupPush name x gm) s =
     (if s = name then Some ((case map_of gm name of Some xs \<Rightarrow> xs | None \<Rightarrow> []) @ [x]) else map_of gm s)"
proof (cases "map_of gm name")
  case None
  then show ?thesis
    by (auto simp: groupPush_def map_add_def split: option.splits)
next
  case (Some xs)
  then show ?thesis
    by (simp add: groupPush_def update_conv')
qed

lemma groupBy_snoc: "groupBy f (xs @ [x]) = groupPush (f x) x (groupBy f xs)"
  by (simp add: groupBy_def)

lemma distinct_groupPush: "distinct (map fst gm) \<Longrightarrow> distinct (map fst (groupPush name x gm))"
  by (auto simp: groupPush_def distinct_update map_of_eq_None_iff split: option.splits)

lemma groupBy_spec:
  "distinct (map fst (groupBy f xs)) \<and>
   map_of (groupBy f xs) s = (case filter (\<lambda>x. f x = s) xs of [] \<Rightarrow> None | ys \<Rightarrow> Some ys)"
proof (induction xs arbitrary: s rule: rev_induct)
  case (snoc x xs)
  show ?case
    using snoc by (auto simp: groupBy_snoc map_of_groupPush distinct_groupPush split: list.splits option.splits)
qed (simp add: groupBy_def)

lemma groupBy_member:
  "(name, as) \<in> set (groupBy f xs) \<Longrightarrow> as = filter (\<lambda>x. f x = name) xs \<and> as \<noteq> []"
  using groupBy_spec [of f xs name] map_of_is_SomeI [of "groupBy f xs" name as]
  by (auto split: list.splits)

lemma well_grouped_items [simp]: "well_grouped (map Item as @ rows) = well_grouped rows"
  by (induction as) auto

lemma groupRows_well_grouped: "list_all (\<lambda>g. snd g \<noteq> []) gm \<Longrightarrow> well_grouped (groupRows gm)"
proof (induction gm)
  case (Cons g gm)
  obtain name a as where g: "g = (name, a # as)"
    using Cons.prems by (cases g; cases "snd g") auto
  then show ?case
    using Cons by (simp add: groupRows_def)
qed (simp add: groupRows_def)

definition row_items :: "'a row list \<Rightarrow> 'a list" where
  "row_items rows = concat (map (\<lambda>r. case r of Item a \<Rightarrow> [a] | Divider _ \<Rightarrow> []) rows)"

lemma row_items_append [simp]: "row_items (xs @ ys) = row_items xs @ row_items ys"
  by (simp add: row_items_def)

lemma row_items_map [simp]: "row_items (map Item as) = as"
  by (induction as) (simp_all add: row_items_def)

lemma row_items_simps [simp]: "row_items [] = []" "row_items (Divider s # rows) = row_items rows"
  by (simp_all add: row_items_def)

lemma row_items_groupRows: "row_items (groupRows gm) = concat (map snd gm)"
proof (induction gm)
  case Nil
  then show ?case by (simp add: groupRows_def row_items_def)
next
  case (Cons g gm)
  then show ?case by (cases g) (simp add: groupRows_def)
qed

lemma row_items_filter: "filter (\<lambda>x. f x = s) (row_items (groupRows (groupBy f xs))) = filter (\<lambda>x. f x = s) xs"
proof -
  have "filter (\<lambda>x. f x = s) (concat (map snd gm)) = (case map_of gm s of None \<Rightarrow> [] | Some as \<Rightarrow> as)"
    if "distinct (map fst gm)" "\<forall>(name, as) \<in> set gm. list_all (\<lambda>x. f x = name) as" for gm
    using that
  proof (induction gm)
    case (Cons g gm)
    obtain name as where g: "g = (name, as)" by fastforce
    have as: "filter (\<lambda>x. f x = s) as = (if s = name then as else [])"
      using Cons.prems(2) g by (auto simp: list_all_iff filter_id_conv filter_empty_conv)
    have "s = name \<Longrightarrow> map_of gm s = None"
      using Cons.prems(1) g by (auto simp: map_of_eq_None_iff)
    with Cons g as show ?case
      by auto
  qed simp
  moreover have "\<forall>(name, as) \<in> set (groupBy f xs). list_all (\<lambda>x. f x = name) as"
    using groupBy_member [of _ _ f xs] by (fastforce simp: list_all_iff)
  ultimately have "filter (\<lambda>x. f x = s) (concat (map snd (groupBy f xs))) =
      (case map_of (groupBy f xs) s of None \<Rightarrow> [] | Some as \<Rightarrow> as)"
    using groupBy_spec [of f xs s] by blast
  then show ?thesis
    using groupBy_spec [of f xs s] unfolding row_items_groupRows by (auto split: list.splits)
qed

lemma rootResults_range:
  assumes "iface_ok I"
  shows "set (rootResults (if_heap I) (if_actions I) rootId) \<subseteq> {a. a < length (if_heap I)}"
proof -
  let ?hp = "if_heap I"
  let ?f = "\<lambda>(k :: string, a) acc.
    (let acc' = (if or_empty (ai_parent (?hp ! a)) = [] \<and> or_empty rootId = [] then acc @ [a] else acc)
     in if Some (ai_id (?hp ! a)) = rootId then acc' @ ai_children (?hp ! a) else acc')"
  have "set (fold ?f acts acc) \<subseteq> {a. a < length ?hp}"
    if "\<forall>(k, a) \<in> set acts. a < length ?hp" "set acc \<subseteq> {a. a < length ?hp}" for acts acc
    using that
  proof (induction acts arbitrary: acc)
    case (Cons x acts)
    obtain k a where x: "x = (k, a)" by fastforce
    then have "object_ok ?hp a" "a < length ?hp"
      using assms Cons.prems(1) by (auto simp: iface_ok_def heap_ok_def)
    then have "set (?f x acc) \<subseteq> {a. a < length ?hp}"
      using x Cons.prems(2) by (auto simp: object_ok_def Let_def)
    with Cons show ?case by simp
  qed simp
  moreover have "\<forall>(k, a) \<in> set (if_actions I). a < length ?hp"
    using assms by (auto simp: iface_ok_def)
  ultimately show ?thesis
    by (simp add: rootResults_def)
qed

lemma useMatches_rows:
  assumes "iface_ok I"
  shows "\<exists>filtered rows. useMatches matchSorter I rootId search = Some rows \<and>
    (if search = [] then filtered = rootResults (if_heap I) (if_actions I) rootId
     else set filtered = set (rootResults (if_heap I) (if_actions I) rootId)
            \<union> below (if_heap I) (rootResults (if_heap I) (if_actions I) rootId)) \<and>
    well_grouped rows \<and>
    (\<forall>s. filter (\<lambda>a. section_of (if_heap I ! a) = s) (row_items rows) =
         filter (\<lambda>a. section_of (if_heap I ! a) = s) (internalMatches matchSorter (if_heap I) filtered search))"
proof -
  let ?hp = "if_heap I" and ?roots = "rootResults (if_heap I) (if_actions I) rootId"
  let ?rows = "\<lambda>filtered. groupRows (groupBy (\<lambda>a. section_of (?hp ! a)) (internalMatches matchSorter ?hp filtered search))"
  have heap: "heap_ok ?hp"
    using assms by (simp add: iface_ok_def)
  have deep: "\<exists>l. getDeepResults ?hp ?roots = Some l \<and> set l = set ?roots \<union> below ?hp ?roots"
    unfolding getDeepResults_def
    using rootResults_range [OF assms] by (intro collectChildren_below [OF heap, of _ 0]) auto
  have grouped: "well_grouped (?rows filtered)" for filtered
    using groupBy_member by (intro groupRows_well_grouped) (fastforce simp: list_all_iff)
  show ?thesis
  proof (cases "search = []")
    case True
    then show ?thesis
      using grouped by (intro exI [of _ ?roots] exI [of _ "?rows ?roots"])
        (simp add: useMatches_def Let_def row_items_filter)
  next
    case False
    obtain l where "getDeepResults ?hp ?roots = Some l" "set l = set ?roots \<union> below ?hp ?roots"
      using deep by blast
    with False show ?thesis
      using grouped by (intro exI [of _ l] exI [of _ "?rows l"])
        (simp add: useMatches_def Let_def row_items_filter)
  qed
qed

text \<open>A matcher answers with some of the objects it is given.\<close>

definition matcher_ok :: "('p actionImpl list \<Rightarrow> nat list \<Rightarrow> string \<Rightarrow> nat list) \<Rightarrow> bool" where
  "matcher_ok matchSorter \<longleftrightarrow> (\<forall>hp as s. set (matchSorter hp as s) \<subseteq> set as)"

lemma useMatches_range:
  assumes "iface_ok I" and "matcher_ok matchSorter"
  shows "\<exists>rows. useMatches matchSorter I rootId search = Some rows \<and> well_grouped rows \<and>
    set (row_items rows) \<subseteq> {a. a < length (if_heap I)}"
proof -
  obtain filtered rows where rows: "useMatches matchSorter I rootId search = Some rows" "well_grouped rows"
    and filtered: "if search = [] then filtered = rootResults (if_heap I) (if_actions I) rootId
      else set filtered = set (rootResults (if_heap I) (if_actions I) rootId)
        \<union> below (if_heap I) (rootResults (if_heap I) (if_actions I) rootId)"
    and items: "\<And>s. filter (\<lambda>a. section_of (if_heap I ! a) = s) (row_items rows) =
         filter (\<lambda>a. section_of (if_heap I ! a) = s) (internalMatches matchSorter (if_heap I) filtered search)"
    using useMatches_rows [OF assms(1), of matchSorter rootId search] by blast
  have range: "set filtered \<subseteq> {a. a < length (if_heap I)}"
    using filtered rootResults_range [OF assms(1), of rootId] by (auto simp: below_def split: if_splits)
  have "a \<in> set filtered" if "a \<in> set (row_items rows)" for a
  proof -
    have "a \<in> set (filter (\<lambda>b. section_of (if_heap I ! b) = section_of (if_heap I ! a)) (row_items rows))"
      using that by simp
    then have "a \<in> set (internalMatches matchSorter (if_heap I) filtered search)"
      unfolding items by simp
    then show ?thesis
      using assms(2) by (auto simp: internalMatches_def matcher_ok_def split: if_splits)
  qed
  with rows range show ?thesis by blast
qed

text \<open>
  An interface whose objects are all registered under their identifiers, with their parents; so it is
  after any registrations.
\<close>

definition iface_closed :: "'p actionInterface \<Rightarrow> bool" where
  "iface_closed I \<longleftrightarrow>
     iface_ok I \<and>
     (\<forall>a < length (if_heap I). ai_id (if_heap I ! a) \<in> action_keys I \<and>
        (or_empty (ai_parent (if_heap I ! a)) = [] \<or> or_empty (ai_parent (if_heap I ! a)) \<in> action_keys I))"

lemma addOne_closed:
  assumes "iface_closed I" and "addOne a I = Some (J, None)"
  shows "iface_closed J"
proof -
  have ok: "iface_ok I"
    using assms(1) by (simp add: iface_closed_def)
  have known: "or_empty (ac_parent a) = [] \<or> or_empty (ac_parent a) \<in> action_keys I" and J: "iface_ok J"
    "action_keys J = insert (ac_id a) (action_keys I)" "extends (if_heap I) (if_heap J)"
    "length (if_heap J) = Suc (length (if_heap I))" "ai_id (if_heap J ! length (if_heap I)) = ac_id a"
    "ai_parent (if_heap J ! length (if_heap I)) = ac_parent a"
    using addOne_iface [OF ok, of a] assms(2) by (auto split: if_splits)
  have same: "ai_id (if_heap J ! m) = ai_id (if_heap I ! m) \<and> ai_parent (if_heap J ! m) = ai_parent (if_heap I ! m)"
    if "m < length (if_heap I)" for m
  proof -
    have e: "if_heap J ! m = (if_heap I ! m)\<lparr>ai_children := ai_children (if_heap J ! m)\<rparr>"
      using J(3) that by (simp add: extends_def)
    have "ai_id (if_heap J ! m) = ai_id (if_heap I ! m)"
      by (subst e) simp
    moreover have "ai_parent (if_heap J ! m) = ai_parent (if_heap I ! m)"
      by (subst e) simp
    ultimately show ?thesis by simp
  qed
  show ?thesis
    using assms(1) known J same by (auto simp: iface_closed_def less_Suc_eq)
qed

lemma add_closed: "iface_closed I \<Longrightarrow> add as I = Some (J, None) \<Longrightarrow> iface_closed J"
  by (induction as arbitrary: I) (auto split: option.splits dest: addOne_closed)

lemma ActionInterface_closed: "ActionInterface as = Some (J, None) \<Longrightarrow> iface_closed J"
  unfolding ActionInterface_def
  by (erule add_closed [rotated]) (simp add: iface_closed_def iface_ok_def heap_ok_def)

section \<open>Unregistering\<close>

text \<open>An object without children is taken out at once.\<close>

lemma removeChild_leaf:
  assumes "ai_children (hp ! a) = []" and "a \<noteq> p"
  shows "removeChild p a hp = Some (set_children p (remove1 a (ai_children (hp ! p))) hp)"
  using assms
  by (simp add: removeChild_def removeChildren.simps [of p "[a]"] removeChildren.simps [of p "[]"] set_children_def Let_def)

lemma removeLoop_leaf: "ai_children (if_heap I ! a) = [] \<Longrightarrow> removeLoop a I = Some I"
  by (simp add: removeLoop.simps Let_def)

lemma remove_added_leaf:
  assumes "iface_ok I" and "ac_id a \<notin> action_keys I"
    and "or_empty (ac_parent a) = [] \<or> or_empty (ac_parent a) \<in> action_keys I"
  shows "\<exists>J K. addOne a I = Some (J, None) \<and> removeOne a J = Some K \<and> if_actions K = if_actions I \<and>
    take (length (if_heap I)) (if_heap K) = if_heap I"
proof -
  let ?n = "length (if_heap I)" and ?new = "newActionImpl a" and ?acts = "AList.update (ac_id a) (length (if_heap I)) (if_actions I)"
  have heap: "heap_ok (if_heap I)"
    using assms(1) by (simp add: iface_ok_def)
  have new: "ai_ancestors ?new = []" "ai_children ?new = []"
    by (simp_all add: newActionImpl_def)
  have delete: "AList.delete (ac_id a) ?acts = if_actions I"
    using assms(2) by (simp add: action_keys_def delete_update_same delete_id)
  have lookup: "map_of ?acts (ac_id a) = Some ?n"
    by (simp add: update_conv')
  show ?thesis
  proof (cases "or_empty (ac_parent a) = []")
    case True
    then show ?thesis
      using new lookup delete
      by (simp add: addOne_def removeOne_def removeLoop_leaf parentActionImpl_def Let_def)
  next
    case False
    then obtain p where p: "map_of (if_actions I) (or_empty (ac_parent a)) = Some p"
      using assms(3) map_of_eq_None_iff [of "if_actions I" "or_empty (ac_parent a)"] by (auto simp: action_keys_def)
    then have less: "p < ?n"
      using assms(1) by (auto simp: iface_ok_def)
    obtain hp where hp: "addChild p ?n (if_heap I @ [?new]) = Some hp" "length hp = Suc ?n"
      "hp ! ?n = ?new\<lparr>ai_ancestors := ai_ancestors (if_heap I ! p) @ [p]\<rparr>"
      "\<And>m. m < ?n \<Longrightarrow> hp ! m = (if m = p then (if_heap I ! p)\<lparr>ai_children := ai_children (if_heap I ! p) @ [?n]\<rparr> else if_heap I ! m)"
      using heap_ok_addChild [OF heap_ok_snoc [OF heap new] new less] by blast
    let ?J = "I\<lparr>if_heap := hp, if_actions := ?acts\<rparr>"
    have add: "addOne a I = Some (?J, None)"
      using False p hp(1) by (simp add: addOne_def Let_def)
    have "?n \<notin> set (ai_children (if_heap I ! p))"
    proof -
      have "object_ok (if_heap I) p"
        using heap less by (simp add: heap_ok_def)
      then show ?thesis
        unfolding object_ok_def by blast
    qed
    then have restored: "remove1 ?n (ai_children (hp ! p)) = ai_children (if_heap I ! p)"
      using hp(4) [OF less] by (simp add: remove1_append)
    have "removeOne a ?J = Some (?J\<lparr>if_heap := set_children p (ai_children (if_heap I ! p)) hp, if_actions := if_actions I\<rparr>)"
      using lookup delete parent_of_snoc [of hp ?n _ p] hp(3) less new restored
      by (simp add: removeOne_def removeLoop_leaf removeChild_leaf)
    moreover have "take ?n (set_children p (ai_children (if_heap I ! p)) hp) = if_heap I"
      using hp(2,4) less by (intro nth_equalityI) (auto simp: set_children_def nth_list_update)
    ultimately show ?thesis
      using add by simp
  qed
qed

section \<open>Properties\<close>

text \<open>
  C19. Registering actions always returns. It succeeds exactly when every parent is registered before
  its children, in the same call or an earlier one; the result is a forest again (every object's
  ancestors are its parent's and the parent); and with distinct identifiers every action of the call
  is found under its identifier, with its own data, below the parent it names.
\<close>

theorem register_spec:
  assumes "iface_ok I"
  shows "\<exists>J e. add as I = Some (J, e) \<and> iface_ok J \<and>
    (e = None \<longleftrightarrow> parents_known (action_keys I) as) \<and>
    (e = None \<and> distinct (map ac_id as) \<longrightarrow> list_all (\<lambda>a. registered a J) as)"
  using add_iface [OF assms, of as] by blast


text \<open>
  Registering and unregistering one action with a new identifier: the registered actions and all
  objects that existed before, with their children, are what they were.
\<close>

theorem register_unregister:
  assumes "iface_ok I" and "ac_id a \<notin> action_keys I"
    and "or_empty (ac_parent a) = [] \<or> or_empty (ac_parent a) \<in> action_keys I"
  shows "\<exists>J K. add [a] I = Some (J, None) \<and> remove [a] J = Some K \<and> if_actions K = if_actions I \<and>
    take (length (if_heap I)) (if_heap K) = if_heap I"
  using remove_added_leaf [OF assms] by force

section \<open>Witnesses\<close>

definition sample_action :: "string \<Rightarrow> string option \<Rightarrow> string option \<Rightarrow> unit action" where
  "sample_action i section parent =
     \<lparr>ac_id = i, ac_name = i, ac_shortcut = None, ac_keywords = None, ac_section = section,
      ac_subtitle = None, ac_perform = None, ac_parent = parent\<rparr>"

definition sample_interface :: "unit actionInterface" where
  "sample_interface =
     \<lparr>if_heap = [newActionImpl (sample_action ''theme'' None None)], if_actions = [(''theme'', 0)]\<rparr>"

lemma sample_interface_ok: "iface_ok sample_interface"
  by (simp add: sample_interface_def iface_ok_def heap_ok_def object_ok_def parentActionImpl_def newActionImpl_def
      sample_action_def)

theorem register_spec_witness:
  "\<exists>J. add [sample_action ''dark'' (Some ''colours'') (Some ''theme'')] sample_interface = Some (J, None) \<and>
     registered (sample_action ''dark'' (Some ''colours'') (Some ''theme'')) J"
  using register_spec [OF sample_interface_ok, of "[sample_action ''dark'' (Some ''colours'') (Some ''theme'')]"]
  by (auto simp: sample_interface_def action_keys_def sample_action_def or_empty_def)

theorem register_unregister_witness:
  "\<exists>J K. add [sample_action ''dark'' None (Some ''theme'')] sample_interface = Some (J, None) \<and>
     remove [sample_action ''dark'' None (Some ''theme'')] J = Some K \<and> if_actions K = [(''theme'', 0)]"
  using register_unregister [OF sample_interface_ok, of "sample_action ''dark'' None (Some ''theme'')"]
  by (auto simp: sample_interface_def action_keys_def sample_action_def or_empty_def)


end
