(* ===== verification/KBar.thy ===== *)
theory KBar imports KBarStore begin

text \<open>
  The state machine of the command palette: the state and the queries of \<open>UseStore.tsx\<close> with
  its publisher, the key handlers and the animation timer of \<open>InternalEvents.tsx\<close>, the search
  field (\<open>CmdKSearch.tsx\<close>), the list of results (\<open>CmdKResultHandler.tsx\<close>) and its throttled
  rows (\<open>CmdKMatches.tsx\<close>, \<open>utils.ts\<close>). The registered actions are those of \<open>KBarStore\<close>.
  What the application does in answer is a list of effects.
\<close>

section \<open>State and queries\<close>

datatype visualState = AnimatingIn | Showing | AnimatingOut | Hidden

text \<open>
  Besides the state of the store: the rows that are rendered, the animation that the pending timer
  ends, and the buffer of the shortcuts with the time of its last key.
\<close>

record kbarState =
  kb_search :: string
  kb_root :: "string option"
  kb_visual :: visualState
  kb_active :: int
  kb_rows :: "nat row list"
  kb_timer :: "visualState option"
  kb_buffer :: "string list"
  kb_last :: int

definition useStore_init :: "int \<Rightarrow> kbarState" where
  "useStore_init now =
     \<lparr>kb_search = [], kb_root = None, kb_visual = Hidden, kb_active = 0, kb_rows = [], kb_timer = None,
      kb_buffer = [], kb_last = now\<rparr>"

datatype 'p kbarEffect = KOpen | KClose | KSelect string | KQueryChange string | KPerform 'p

definition setCurrentRootAction :: "string option \<Rightarrow> kbarState \<Rightarrow> kbarState" where
  "setCurrentRootAction actionId s = s\<lparr>kb_root := actionId\<rparr>"

definition setVisualState :: "(visualState \<Rightarrow> visualState) \<Rightarrow> kbarState \<Rightarrow> kbarState" where
  "setVisualState cb s = s\<lparr>kb_visual := cb (kb_visual s)\<rparr>"

definition setSearch :: "string \<Rightarrow> kbarState \<Rightarrow> kbarState" where
  "setSearch searchQuery s = s\<lparr>kb_search := searchQuery\<rparr>"

definition toggle :: "kbarState \<Rightarrow> kbarState" where
  "toggle s = s\<lparr>kb_visual := (if kb_visual s = AnimatingOut \<or> kb_visual s = Hidden then AnimatingIn else AnimatingOut)\<rparr>"

definition setActiveIndex :: "(int \<Rightarrow> int) \<Rightarrow> kbarState \<Rightarrow> kbarState" where
  "setActiveIndex cb s = s\<lparr>kb_active := cb (kb_active s)\<rparr>"

section \<open>InternalEvents\<close>

definition isModKey :: "bool \<Rightarrow> keyEvent \<Rightarrow> bool" where
  "isModKey isMac e = (if isMac then ev_meta e else ev_ctrl e)"

definition kb_showing :: "kbarState \<Rightarrow> bool" where
  "kb_showing s \<longleftrightarrow> kb_visual s \<noteq> Hidden"

definition useToggleHandler_onKeyDown ::
  "bool \<Rightarrow> bool \<Rightarrow> keyEvent \<Rightarrow> kbarState \<Rightarrow> kbarState \<times> 'p kbarEffect list" where
  "useToggleHandler_onKeyDown isMac prevented e s =
     (let (s1, fx1) =
            (if isModKey isMac e \<and> ev_key e = ''k'' \<and> \<not> prevented
             then (toggle s, [if kb_showing s then KClose else KOpen]) else (s, []))
      in if ev_key e = ''Escape''
         then (setVisualState (\<lambda>vs. if vs = Hidden \<or> vs = AnimatingOut then vs else AnimatingOut) s1,
               fx1 @ (if kb_showing s then [KClose] else []))
         else (s1, fx1))"

text \<open>The timer that ends an animation, with the default durations of zero.\<close>

definition runAnimateTimer :: "visualState \<Rightarrow> kbarState \<Rightarrow> kbarState" where
  "runAnimateTimer vs s = s\<lparr>kb_timer := Some vs\<rparr>"

definition animateTimer_fires :: "kbarState \<Rightarrow> kbarState" where
  "animateTimer_fires s =
     (case kb_timer s of
        None \<Rightarrow> s
      | Some vs \<Rightarrow>
          (let finalVs = (if vs = AnimatingIn then Showing else Hidden);
               s' = setVisualState (\<lambda>_. finalVs) (s\<lparr>kb_timer := None\<rparr>)
           in if finalVs = Hidden then setCurrentRootAction None s' else s'))"

text \<open>
  The shortcuts. \<open>rejected\<close> is \<open>shouldRejectKeystrokes()\<close>: the focus is in a text field.
  The keys of the last 400 milliseconds have to be exactly a shortcut.
\<close>

definition shortcut_match :: "'p actionInterface \<Rightarrow> string list \<Rightarrow> (string \<times> nat) option" where
  "shortcut_match I buffer =
     find (\<lambda>(k, a). case ai_shortcut (if_heap I ! a) of None \<Rightarrow> False
                   | Some keys \<Rightarrow> js_join [] keys = js_join [] buffer) (if_actions I)"

definition shortcut_fire :: "'p actionInterface \<Rightarrow> nat \<Rightarrow> kbarState \<Rightarrow> kbarState \<times> 'p kbarEffect list" where
  "shortcut_fire I a s =
     (let action = if_heap I ! a
      in if ai_children action \<noteq> []
         then (toggle (setCurrentRootAction (Some (ai_id action)) s), [KOpen])
         else (s, (case ai_command action of Some p \<Rightarrow> [KPerform p] | None \<Rightarrow> []) @ [KSelect (ai_id action)]))"

definition useShortcuts_onKeyDown ::
  "'p actionInterface \<Rightarrow> bool \<Rightarrow> int \<Rightarrow> keyEvent \<Rightarrow> kbarState \<Rightarrow> kbarState \<times> 'p kbarEffect list" where
  "useShortcuts_onKeyDown I rejected now e s =
     (let key = js_toLowerCase (ev_key e)
      in if rejected \<or> ev_meta e \<or> key = ''shift'' then (s, [])
         else (let buffer = (if now - kb_last s > 400 then [] else kb_buffer s) @ [key]
               in case shortcut_match I buffer of
                    None \<Rightarrow> (s\<lparr>kb_buffer := buffer, kb_last := now\<rparr>, [])
                  | Some (k, a) \<Rightarrow> shortcut_fire I a (s\<lparr>kb_buffer := [], kb_last := now\<rparr>)))"

section \<open>CmdKSearch\<close>

definition CmdKSearch_onChange :: "string \<Rightarrow> kbarState \<Rightarrow> kbarState \<times> 'p kbarEffect list" where
  "CmdKSearch_onChange v s = (setSearch v s, [KQueryChange v])"

text \<open>Backspace in the empty field goes up to the parent; it reads the root among the actions.\<close>

definition CmdKSearch_onKeyDown :: "'p actionInterface \<Rightarrow> keyEvent \<Rightarrow> kbarState \<Rightarrow> js_error + kbarState" where
  "CmdKSearch_onKeyDown I e s =
     (if or_empty (kb_root s) \<noteq> [] \<and> kb_search s = [] \<and> ev_key e = ''Backspace''
      then (case map_of (if_actions I) (or_empty (kb_root s)) of
              None \<Rightarrow> Inl (TypeError ''Cannot read properties of undefined (reading 'parent')'')
            | Some a \<Rightarrow> Inr (setCurrentRootAction (ai_parent (if_heap I ! a)) s))
      else Inr s)"

definition CmdKSearch_placeholder :: "string \<Rightarrow> 'p actionInterface \<Rightarrow> kbarState \<Rightarrow> js_error + string" where
  "CmdKSearch_placeholder defaultText I s =
     (if or_empty (kb_root s) \<noteq> []
      then (case map_of (if_actions I) (or_empty (kb_root s)) of
              None \<Rightarrow> Inl (TypeError ''Cannot read properties of undefined (reading 'name')'')
            | Some a \<Rightarrow> Inr (ai_name (if_heap I ! a)))
      else Inr defaultText)"

section \<open>CmdKResultHandler\<close>

definition CmdK_execute :: "'p actionInterface \<Rightarrow> nat row option \<Rightarrow> kbarState \<Rightarrow> kbarState \<times> 'p kbarEffect list" where
  "CmdK_execute I item s =
     (case item of
        Some (Item a) \<Rightarrow>
          (let i = if_heap I ! a
           in case ai_command i of
                Some p \<Rightarrow> (toggle s, [KPerform p, KSelect (ai_id i)])
              | None \<Rightarrow> (setCurrentRootAction (Some (ai_id i)) (setSearch [] s), [KSelect (ai_id i)]))
      | _ \<Rightarrow> (s, []))"

definition CmdKResultHandler_onKeyDown ::
  "'p actionInterface \<Rightarrow> keyEvent \<Rightarrow> kbarState \<Rightarrow> kbarState \<times> 'p kbarEffect list" where
  "CmdKResultHandler_onKeyDown I e s =
     (if ev_key e = ''ArrowUp'' \<or> ev_ctrl e \<and> ev_key e = ''k''
      then (setActiveIndex (cmdk_up (kb_rows s)) s, [])
      else if ev_key e = ''ArrowDown'' \<or> ev_ctrl e \<and> ev_key e = ''j''
      then (setActiveIndex (cmdk_down (kb_rows s)) s, [])
      else if ev_key e = ''Enter'' then CmdK_execute I (row_at (kb_rows s) (kb_active s)) s
      else (s, []))"

definition CmdK_pointer :: "int \<Rightarrow> kbarState \<Rightarrow> kbarState" where
  "CmdK_pointer k s = (if item_at (kb_rows s) k then setActiveIndex (\<lambda>_. k) s else s)"

definition CmdK_click :: "'p actionInterface \<Rightarrow> int \<Rightarrow> kbarState \<Rightarrow> kbarState \<times> 'p kbarEffect list" where
  "CmdK_click I k s = CmdK_execute I (row_at (kb_rows s) k) s"

section \<open>The palette\<close>

type_synonym 'p matcher = "'p actionImpl list \<Rightarrow> nat list \<Rightarrow> string \<Rightarrow> nat list"

text \<open>
  The effects after a change. The field and the list are mounted while the palette is not hidden.
  Mounting computes the rows; mounting, unmounting and a new root clear the search; a new search, root
  or list moves the active index to the start; a new animation starts its timer.
\<close>

definition mount_effect :: "'p matcher \<Rightarrow> 'p actionInterface \<Rightarrow> kbarState \<Rightarrow> kbarState \<Rightarrow> kbarState option" where
  "mount_effect matchSorter I old s =
     (if kb_showing s \<and> \<not> kb_showing old
      then map_option (\<lambda>rows. s\<lparr>kb_rows := rows\<rparr>) (useMatches matchSorter I (kb_root s) (kb_search s))
      else Some s)"

definition search_effect :: "kbarState \<Rightarrow> kbarState \<Rightarrow> kbarState" where
  "search_effect old s =
     (if kb_showing s \<noteq> kb_showing old \<or> kb_showing s \<and> kb_root s \<noteq> kb_root old then setSearch [] s else s)"

definition active_effect :: "kbarState \<Rightarrow> kbarState \<Rightarrow> kbarState" where
  "active_effect old s =
     (if kb_showing s \<and> (\<not> kb_showing old \<or> kb_search s \<noteq> kb_search old \<or> kb_root s \<noteq> kb_root old \<or> kb_rows s \<noteq> kb_rows old)
      then setActiveIndex (\<lambda>_. cmdk_start (kb_rows s)) s else s)"

definition animate_effect :: "kbarState \<Rightarrow> kbarState \<Rightarrow> kbarState" where
  "animate_effect old s =
     (if kb_visual s \<noteq> kb_visual old \<and> (kb_visual s = AnimatingIn \<or> kb_visual s = AnimatingOut)
      then runAnimateTimer (kb_visual s) s else s)"

definition settle :: "'p matcher \<Rightarrow> 'p actionInterface \<Rightarrow> kbarState \<Rightarrow> kbarState \<Rightarrow> kbarState option" where
  "settle matchSorter I old s =
     map_option (\<lambda>s1. animate_effect old (active_effect old (search_effect old s1))) (mount_effect matchSorter I old s)"

datatype kbarEvent =
    KeyDown keyEvent bool bool int
  | TimerFires
  | TypeSearch string
  | SearchKey keyEvent
  | ThrottleFires
  | PointerTo int
  | ClickRow int

text \<open>The three listeners of the window, one after the other; the last one only while it is mounted.\<close>

definition kbar_onKeyDown ::
  "bool \<Rightarrow> 'p actionInterface \<Rightarrow> keyEvent \<Rightarrow> bool \<Rightarrow> bool \<Rightarrow> int \<Rightarrow> kbarState \<Rightarrow> kbarState \<times> 'p kbarEffect list" where
  "kbar_onKeyDown isMac I e prevented rejected now s =
     (let (s1, fx1) = useToggleHandler_onKeyDown isMac prevented e s;
          (s2, fx2) = useShortcuts_onKeyDown I rejected now e s1;
          (s3, fx3) = (if kb_showing s then CmdKResultHandler_onKeyDown I e s2 else (s2, []))
      in (s3, fx1 @ fx2 @ fx3))"

text \<open>What an event does before the effects; the throttled rows may have to be computed.\<close>

definition kbar_event ::
  "bool \<Rightarrow> 'p matcher \<Rightarrow> 'p actionInterface \<Rightarrow> kbarEvent \<Rightarrow> kbarState \<Rightarrow>
   (js_error + kbarState \<times> 'p kbarEffect list) option" where
  "kbar_event isMac matchSorter I ev s =
     (case ev of
        KeyDown e prevented rejected now \<Rightarrow> Some (Inr (kbar_onKeyDown isMac I e prevented rejected now s))
      | TimerFires \<Rightarrow> Some (Inr (animateTimer_fires s, []))
      | TypeSearch v \<Rightarrow> Some (Inr (if kb_showing s then CmdKSearch_onChange v s else (s, [])))
      | SearchKey e \<Rightarrow>
          Some (if kb_showing s then bind_result (CmdKSearch_onKeyDown I e s) (\<lambda>s'. Inr (s', [])) else Inr (s, []))
      | ThrottleFires \<Rightarrow>
          (if kb_showing s
           then map_option (\<lambda>rows. Inr (s\<lparr>kb_rows := rows\<rparr>, [])) (useMatches matchSorter I (kb_root s) (kb_search s))
           else Some (Inr (s, [])))
      | PointerTo k \<Rightarrow> Some (Inr (if kb_showing s then CmdK_pointer k s else s, []))
      | ClickRow k \<Rightarrow> Some (Inr (if kb_showing s then CmdK_click I k s else (s, []))))"

definition kbar_step ::
  "bool \<Rightarrow> 'p matcher \<Rightarrow> 'p actionInterface \<Rightarrow> kbarEvent \<Rightarrow> kbarState \<Rightarrow>
   (js_error + kbarState \<times> 'p kbarEffect list) option" where
  "kbar_step isMac matchSorter I ev s =
     (case kbar_event isMac matchSorter I ev s of
        None \<Rightarrow> None
      | Some (Inl e) \<Rightarrow> Some (Inl e)
      | Some (Inr (s', fx)) \<Rightarrow> map_option (\<lambda>s''. Inr (s'', fx)) (settle matchSorter I s s'))"

fun kbar_run ::
  "bool \<Rightarrow> 'p matcher \<Rightarrow> 'p actionInterface \<Rightarrow> kbarEvent list \<Rightarrow> kbarState \<Rightarrow>
   (js_error + kbarState \<times> 'p kbarEffect list) option" where
  "kbar_run isMac ms I [] s = Some (Inr (s, []))"
| "kbar_run isMac ms I (ev # evs) s =
     (case kbar_step isMac ms I ev s of
        None \<Rightarrow> None
      | Some (Inl e) \<Rightarrow> Some (Inl e)
      | Some (Inr (s', fx)) \<Rightarrow>
          map_option (\<lambda>r. bind_result r (\<lambda>(s'', fx'). Inr (s'', fx @ fx'))) (kbar_run isMac ms I evs s'))"

section \<open>Publisher and subscribers\<close>

text \<open>
  A subscriber is identified by the number of its subscription; \<open>deepEqual\<close> of the collected
  values is equality, and nothing is collected before the first notification.
\<close>

record ('s, 'c) subscriber =
  sb_key :: nat
  sb_collector :: "'s \<Rightarrow> 'c"
  sb_collected :: "'c option"

definition subscribe :: "nat \<Rightarrow> ('s \<Rightarrow> 'c) \<Rightarrow> ('s, 'c) subscriber list \<Rightarrow> ('s, 'c) subscriber list" where
  "subscribe k collector subs = subs @ [\<lparr>sb_key = k, sb_collector = collector, sb_collected = None\<rparr>]"

definition unsubscribe :: "nat \<Rightarrow> ('s, 'c) subscriber list \<Rightarrow> ('s, 'c) subscriber list" where
  "unsubscribe k subs =
     (let index = js_findIndex (\<lambda>b. sb_key b = k) subs
      in if index > -1 then take (nat index) subs @ drop (Suc (nat index)) subs else subs)"

definition collect :: "'s \<Rightarrow> ('s, 'c) subscriber \<Rightarrow> ('s, 'c) subscriber \<times> (nat \<times> 'c) list" where
  "collect st b =
     (let recollect = sb_collector b st
      in if Some recollect \<noteq> sb_collected b
         then (b\<lparr>sb_collected := Some recollect\<rparr>, [(sb_key b, recollect)]) else (b, []))"

definition notify_all :: "'s \<Rightarrow> ('s, 'c) subscriber list \<Rightarrow> ('s, 'c) subscriber list \<times> (nat \<times> 'c) list" where
  "notify_all st subs = (map (\<lambda>b. fst (collect st b)) subs, concat (map (\<lambda>b. snd (collect st b)) subs))"

section \<open>The invariant of the palette\<close>

definition timer_ok :: "kbarState \<Rightarrow> bool" where
  "timer_ok s \<longleftrightarrow>
     (case kb_visual s of
        AnimatingIn \<Rightarrow> kb_timer s = Some AnimatingIn
      | AnimatingOut \<Rightarrow> kb_timer s = Some AnimatingOut
      | Showing \<Rightarrow> kb_timer s = None
      | Hidden \<Rightarrow> kb_timer s = None)"

definition root_ok :: "'p actionInterface \<Rightarrow> kbarState \<Rightarrow> bool" where
  "root_ok I s \<longleftrightarrow> or_empty (kb_root s) = [] \<or> or_empty (kb_root s) \<in> action_keys I"

definition rows_ok :: "'p actionInterface \<Rightarrow> kbarState \<Rightarrow> bool" where
  "rows_ok I s \<longleftrightarrow> set (row_items (kb_rows s)) \<subseteq> {a. a < length (if_heap I)}"

definition active_ok :: "kbarState \<Rightarrow> bool" where
  "active_ok s \<longleftrightarrow> kb_rows s = [] \<or> item_at (kb_rows s) (kb_active s)"

text \<open>
  While an animation runs its timer is pending; a hidden palette is back at the root with an empty
  search; the root is registered; and the active row of a palette that shows is an action.
\<close>

definition kbar_ok :: "'p actionInterface \<Rightarrow> kbarState \<Rightarrow> bool" where
  "kbar_ok I s \<longleftrightarrow>
     timer_ok s \<and> root_ok I s \<and> rows_ok I s \<and>
     (if kb_showing s then well_grouped (kb_rows s) \<and> active_ok s else kb_root s = None \<and> kb_search s = [])"

text \<open>What holds between an event and its effects; the second part is about events without the timer.\<close>

definition unsettled_ok :: "'p actionInterface \<Rightarrow> kbarState \<Rightarrow> kbarState \<Rightarrow> bool" where
  "unsettled_ok I old s \<longleftrightarrow>
     root_ok I s \<and> rows_ok I s \<and> (kb_showing s \<or> kb_root s = None) \<and>
     (kb_showing old \<or> kb_showing s \<or> kb_search s = []) \<and>
     (kb_showing old \<and> kb_showing s \<longrightarrow> well_grouped (kb_rows s) \<and>
        (active_ok s \<or> kb_rows s \<noteq> kb_rows old))"

definition animation_ok :: "kbarState \<Rightarrow> kbarState \<Rightarrow> bool" where
  "animation_ok old s \<longleftrightarrow>
     kb_timer s = kb_timer old \<and> (kb_visual s = kb_visual old \<or> kb_visual s = AnimatingIn \<or> kb_visual s = AnimatingOut)"

lemmas query_defs = setCurrentRootAction_def setVisualState_def setSearch_def toggle_def setActiveIndex_def runAnimateTimer_def

lemmas kbar_ok_defs = kbar_ok_def unsettled_ok_def root_ok_def rows_ok_def active_ok_def kb_showing_def

lemma search_effect_fields [simp]:
  "kb_root (search_effect old s) = kb_root s"
  "kb_visual (search_effect old s) = kb_visual s"
  "kb_rows (search_effect old s) = kb_rows s"
  "kb_active (search_effect old s) = kb_active s"
  "kb_timer (search_effect old s) = kb_timer s"
  "kb_showing (search_effect old s) = kb_showing s"
  "kb_showing s \<noteq> kb_showing old \<Longrightarrow> kb_search (search_effect old s) = []"
  "kb_showing s = kb_showing old \<Longrightarrow> \<not> kb_showing s \<Longrightarrow> kb_search (search_effect old s) = kb_search s"
  by (simp_all add: search_effect_def setSearch_def kb_showing_def)

lemma active_effect_fields [simp]:
  "kb_root (active_effect old s) = kb_root s"
  "kb_visual (active_effect old s) = kb_visual s"
  "kb_rows (active_effect old s) = kb_rows s"
  "kb_search (active_effect old s) = kb_search s"
  "kb_timer (active_effect old s) = kb_timer s"
  "kb_showing (active_effect old s) = kb_showing s"
  by (simp_all add: active_effect_def setActiveIndex_def kb_showing_def)

lemma active_effect_ok:
  assumes "well_grouped (kb_rows s)" and "kb_showing s"
    and "active_ok s \<or> kb_rows s \<noteq> kb_rows old \<or> \<not> kb_showing old"
  shows "active_ok (active_effect old s)"
proof (cases "kb_rows s = []")
  case False
  then have "item_at (kb_rows s) (cmdk_start (kb_rows s))"
    by (rule cmdkList.start_item [OF assms(1)])
  with assms(2,3) show ?thesis
    by (auto simp: active_effect_def active_ok_def setActiveIndex_def)
qed (simp add: active_ok_def)

lemma settle_ok:
  assumes "iface_ok I" and "matcher_ok matchSorter" and "unsettled_ok I old s"
    and "timer_ok old \<and> animation_ok old s \<or> timer_ok s \<and> (kb_visual s = Showing \<or> kb_visual s = Hidden)"
  shows "\<exists>s'. settle matchSorter I old s = Some s' \<and> kbar_ok I s' \<and> kb_visual s' = kb_visual s"
proof -
  obtain rows where rows: "useMatches matchSorter I (kb_root s) (kb_search s) = Some rows" "well_grouped rows"
    "set (row_items rows) \<subseteq> {a. a < length (if_heap I)}"
    using useMatches_range [OF assms(1,2)] by blast
  define s1 where "s1 = (if kb_showing s \<and> \<not> kb_showing old then s\<lparr>kb_rows := rows\<rparr> else s)"
  have s1: "mount_effect matchSorter I old s = Some s1"
    "if kb_showing s \<and> \<not> kb_showing old
     then \<exists>rows. s1 = s\<lparr>kb_rows := rows\<rparr> \<and> well_grouped rows \<and> set (row_items rows) \<subseteq> {a. a < length (if_heap I)}
     else s1 = s"
    using rows by (auto simp: mount_effect_def s1_def)
  let ?s2 = "active_effect old (search_effect old s1)"
  have s1_fields: "kb_root s1 = kb_root s" "kb_visual s1 = kb_visual s" "kb_search s1 = kb_search s" "kb_timer s1 = kb_timer s"
    "kb_active s1 = kb_active s" "kb_showing s1 = kb_showing s"
    by (simp_all add: s1_def kb_showing_def)
  then have same: "kb_visual ?s2 = kb_visual s" "kb_timer ?s2 = kb_timer s"
    by simp_all
  have closed: "root_ok I ?s2" "rows_ok I ?s2"
    using assms(3) s1_fields rows by (auto simp: unsettled_ok_def root_ok_def rows_ok_def s1_def)
  have hidden: "kb_root ?s2 = None \<and> kb_search ?s2 = []" if "\<not> kb_showing s"
    using that assms(3) s1_fields by (cases "kb_showing old") (auto simp: unsettled_ok_def)
  have grouped: "well_grouped (kb_rows s1)" if "kb_showing s"
    using that assms(3) rows(2) by (auto simp: unsettled_ok_def s1_def)
  have active: "active_ok ?s2" if "kb_showing s"
    using that assms(3) s1_fields grouped
    by (intro active_effect_ok) (auto simp: unsettled_ok_def active_ok_def s1_def split: if_splits)
  have s2: "root_ok I ?s2 \<and> rows_ok I ?s2 \<and>
      (if kb_showing ?s2 then well_grouped (kb_rows ?s2) \<and> active_ok ?s2 else kb_root ?s2 = None \<and> kb_search ?s2 = [])"
    using closed hidden grouped active s1_fields by simp
  have "timer_ok (animate_effect old ?s2)"
    using assms(4) same
    by (auto simp: animate_effect_def animation_ok_def timer_ok_def runAnimateTimer_def split: visualState.splits)
  then have "kbar_ok I (animate_effect old ?s2)"
    using s2 by (auto simp: animate_effect_def runAnimateTimer_def kbar_ok_defs)
  moreover have "kb_visual (animate_effect old ?s2) = kb_visual s"
    using same by (simp add: animate_effect_def runAnimateTimer_def)
  ultimately show ?thesis
    using s1(1) by (auto simp: settle_def)
qed

section \<open>The handlers keep it\<close>

lemma toggle_unsettled: "unsettled_ok I old s \<Longrightarrow> animation_ok old s \<Longrightarrow> unsettled_ok I old (toggle s) \<and> animation_ok old (toggle s)"
  by (auto simp: toggle_def kbar_ok_defs animation_ok_def)

lemma toggleHandler_unsettled:
  assumes "unsettled_ok I old s" and "animation_ok old s"
  shows "unsettled_ok I old (fst (useToggleHandler_onKeyDown isMac prevented e s)) \<and>
    animation_ok old (fst (useToggleHandler_onKeyDown isMac prevented e s))"
proof -
  have escape: "unsettled_ok I old (setVisualState (\<lambda>vs. if vs = Hidden \<or> vs = AnimatingOut then vs else AnimatingOut) t) \<and>
      animation_ok old (setVisualState (\<lambda>vs. if vs = Hidden \<or> vs = AnimatingOut then vs else AnimatingOut) t)"
    if "unsettled_ok I old t" "animation_ok old t" for t
    using that by (auto simp: setVisualState_def kbar_ok_defs animation_ok_def)
  show ?thesis
    using escape assms toggle_unsettled [OF assms] by (auto simp: useToggleHandler_onKeyDown_def Let_def)
qed

lemma iface_closed_id: "iface_closed I \<Longrightarrow> a < length (if_heap I) \<Longrightarrow> ai_id (if_heap I ! a) \<in> action_keys I"
  by (simp add: iface_closed_def)

lemma setRoot_unsettled:
  assumes "unsettled_ok I old s" and "kb_showing s" and "or_empty i = [] \<or> or_empty i \<in> action_keys I"
  shows "unsettled_ok I old (setCurrentRootAction i s)"
  using assms by (auto simp: setCurrentRootAction_def kbar_ok_defs)

lemma shortcuts_unsettled:
  assumes "iface_closed I" and "unsettled_ok I old s" and "animation_ok old s"
  shows "unsettled_ok I old (fst (useShortcuts_onKeyDown I rejected now e s)) \<and>
    animation_ok old (fst (useShortcuts_onKeyDown I rejected now e s))"
proof -
  have keep: "unsettled_ok I old (s\<lparr>kb_buffer := b, kb_last := l\<rparr>) \<and> animation_ok old (s\<lparr>kb_buffer := b, kb_last := l\<rparr>)" for b l
    using assms(2,3) by (auto simp: kbar_ok_defs animation_ok_def)
  have root: "unsettled_ok I old (toggle (setCurrentRootAction (Some (ai_id (if_heap I ! a))) t)) \<and>
      animation_ok old (toggle (setCurrentRootAction (Some (ai_id (if_heap I ! a))) t))"
    if "unsettled_ok I old t" "animation_ok old t" "a < length (if_heap I)" for t a
    using that iface_closed_id [OF assms(1) that(3)]
    by (auto simp: query_defs kbar_ok_defs animation_ok_def or_empty_def)
  have range: "a < length (if_heap I)" if "shortcut_match I b = Some (k, a)" for b k a
  proof -
    have "(k, a) \<in> set (if_actions I)"
      using that by (auto simp: shortcut_match_def find_Some_iff in_set_conv_nth)
    then show ?thesis
      using assms(1) by (auto simp: iface_closed_def iface_ok_def)
  qed
  have fire: "unsettled_ok I old (fst (shortcut_fire I a (s\<lparr>kb_buffer := [], kb_last := now\<rparr>))) \<and>
      animation_ok old (fst (shortcut_fire I a (s\<lparr>kb_buffer := [], kb_last := now\<rparr>)))" if "a < length (if_heap I)" for a
    using keep root [OF _ _ that] by (auto simp: shortcut_fire_def Let_def)
  show ?thesis
    using assms(2,3) keep fire range
    by (simp add: useShortcuts_onKeyDown_def Let_def split: option.split prod.split)
qed

lemma execute_unsettled:
  assumes "iface_closed I" and "unsettled_ok I old s" and "animation_ok old s" and "kb_showing s"
  shows "unsettled_ok I old (fst (CmdK_execute I (row_at (kb_rows s) k) s)) \<and>
    animation_ok old (fst (CmdK_execute I (row_at (kb_rows s) k) s))"
proof (cases "row_at (kb_rows s) k")
  case (Some r)
  show ?thesis
  proof (cases r)
    case (Item a)
    have "Item a \<in> set (kb_rows s)"
      using Some Item by (auto simp: row_at_def split: if_splits) (metis nat_less_iff nth_mem)
    then have "a \<in> set (row_items (kb_rows s))"
      by (auto simp: row_items_def intro: bexI [of _ "Item a"])
    then have "ai_id (if_heap I ! a) \<in> action_keys I"
      using assms(2) by (intro iface_closed_id [OF assms(1)]) (auto simp: kbar_ok_defs)
    moreover have "unsettled_ok I old (setSearch [] s)" "animation_ok old (setSearch [] s)" "kb_showing (setSearch [] s)"
      using assms(2-4) by (auto simp: setSearch_def kbar_ok_defs animation_ok_def)
    ultimately show ?thesis
      using toggle_unsettled [OF assms(2,3)] Some Item setRoot_unsettled [of I old "setSearch [] s" "Some (ai_id (if_heap I ! a))"]
      by (auto simp: CmdK_execute_def or_empty_def Let_def animation_ok_def setCurrentRootAction_def setSearch_def
          split: option.splits)
  qed (use assms Some in \<open>simp add: CmdK_execute_def\<close>)
qed (use assms in \<open>simp add: CmdK_execute_def\<close>)

lemma kbar_ok_unsettled: "kbar_ok I s \<Longrightarrow> unsettled_ok I s s \<and> animation_ok s s \<and> timer_ok s"
  by (auto simp: kbar_ok_defs animation_ok_def)

lemma resultHandler_unsettled:
  assumes "iface_closed I" and "unsettled_ok I old s" and "animation_ok old s" and "kb_showing s" and "kb_showing old"
  shows "unsettled_ok I old (fst (CmdKResultHandler_onKeyDown I e s)) \<and>
    animation_ok old (fst (CmdKResultHandler_onKeyDown I e s))"
proof -
  have move: "unsettled_ok I old (setActiveIndex f s) \<and> animation_ok old (setActiveIndex f s)"
    if "\<And>k. item_at (kb_rows s) k \<Longrightarrow> item_at (kb_rows s) (f k)" for f
    using assms that by (auto simp: kbar_ok_defs animation_ok_def setActiveIndex_def)
  have grouped: "well_grouped (kb_rows s)"
    using assms by (auto simp: unsettled_ok_def)
  show ?thesis
    using execute_unsettled [OF assms(1-4)] assms(2,3)
      move [of "cmdk_up (kb_rows s)"] move [of "cmdk_down (kb_rows s)"]
      cmdkList.up_item [OF grouped] cmdkList.down_item [OF grouped]
    by (simp add: CmdKResultHandler_onKeyDown_def)
qed

lemma keyDown_unsettled:
  assumes "iface_closed I" and "kbar_ok I s"
  shows "unsettled_ok I s (fst (kbar_onKeyDown isMac I e prevented rejected now s)) \<and>
    animation_ok s (fst (kbar_onKeyDown isMac I e prevented rejected now s))"
proof -
  note start = kbar_ok_unsettled [OF assms(2)]
  obtain s1 fx1 where 1: "useToggleHandler_onKeyDown isMac prevented e s = (s1, fx1 :: 'a kbarEffect list)"
    by fastforce
  then have u1: "unsettled_ok I s s1 \<and> animation_ok s s1"
    using toggleHandler_unsettled [of I s s isMac prevented e] start
    by (metis (mono_tags) fst_conv useToggleHandler_onKeyDown_def)
  obtain s2 fx2 where 2: "useShortcuts_onKeyDown I rejected now e s1 = (s2, fx2)"
    by fastforce
  then have u2: "unsettled_ok I s s2 \<and> animation_ok s s2"
    using shortcuts_unsettled [OF assms(1), of s s1 rejected now e] u1 by simp
  have "kb_showing s \<Longrightarrow> kb_showing s2"
    using u2 by (auto simp: animation_ok_def kb_showing_def)
  then have "unsettled_ok I s (fst (if kb_showing s then CmdKResultHandler_onKeyDown I e s2 else (s2, []))) \<and>
      animation_ok s (fst (if kb_showing s then CmdKResultHandler_onKeyDown I e s2 else (s2, [])))"
    using u2 resultHandler_unsettled [OF assms(1), of s s2 e] by simp
  then show ?thesis
    using 1 2 by (cases "kb_showing s") (auto simp: kbar_onKeyDown_def split: prod.split)
qed

lemma timer_unsettled:
  assumes "kbar_ok I s"
  shows "unsettled_ok I s (animateTimer_fires s) \<and>
    (timer_ok s \<and> animation_ok s (animateTimer_fires s) \<or>
     timer_ok (animateTimer_fires s) \<and> (kb_visual (animateTimer_fires s) = Showing \<or> kb_visual (animateTimer_fires s) = Hidden))"
proof (cases "kb_timer s")
  case None
  then show ?thesis
    using kbar_ok_unsettled [OF assms] by (simp add: animateTimer_fires_def)
next
  case (Some vs)
  then have "kb_visual s = vs" "vs = AnimatingIn \<or> vs = AnimatingOut"
    using assms by (auto simp: kbar_ok_def timer_ok_def split: visualState.splits)
  then show ?thesis
    using assms Some by (auto simp: animateTimer_fires_def query_defs kbar_ok_defs timer_ok_def or_empty_def)
qed

lemma searchKey_total:
  assumes "iface_closed I" and "kbar_ok I s" and "kb_showing s"
  shows "\<exists>s'. CmdKSearch_onKeyDown I e s = Inr s' \<and> unsettled_ok I s s' \<and> animation_ok s s'"
proof (cases "or_empty (kb_root s) \<noteq> [] \<and> kb_search s = [] \<and> ev_key e = ''Backspace''")
  case True
  then obtain a where a: "map_of (if_actions I) (or_empty (kb_root s)) = Some a"
    using assms(2) map_of_eq_None_iff [of "if_actions I" "or_empty (kb_root s)"]
    by (auto simp: kbar_ok_def root_ok_def action_keys_def)
  then have "a < length (if_heap I)"
    using assms(1) by (auto simp: iface_closed_def iface_ok_def)
  then have "or_empty (ai_parent (if_heap I ! a)) = [] \<or> or_empty (ai_parent (if_heap I ! a)) \<in> action_keys I"
    using assms(1) by (simp add: iface_closed_def)
  then have "unsettled_ok I s (setCurrentRootAction (ai_parent (if_heap I ! a)) s)"
    using kbar_ok_unsettled [OF assms(2)] assms(3) by (intro setRoot_unsettled) auto
  with True a show ?thesis
    by (simp add: CmdKSearch_onKeyDown_def animation_ok_def setCurrentRootAction_def)
next
  case False
  then have "CmdKSearch_onKeyDown I e s = Inr s"
    unfolding CmdKSearch_onKeyDown_def by (rule if_not_P)
  then show ?thesis
    using kbar_ok_unsettled [OF assms(2)] by simp
qed

lemma kbar_event_ok:
  assumes "iface_closed I" and "matcher_ok matchSorter" and "kbar_ok I s"
  shows "\<exists>s' fx. kbar_event isMac matchSorter I ev s = Some (Inr (s', fx)) \<and> unsettled_ok I s s' \<and>
    (timer_ok s \<and> animation_ok s s' \<or> timer_ok s' \<and> (kb_visual s' = Showing \<or> kb_visual s' = Hidden))"
proof -
  note start = kbar_ok_unsettled [OF assms(3)]
  have iface: "iface_ok I"
    using assms(1) by (simp add: iface_closed_def)
  show ?thesis
  proof (cases ev)
    case (KeyDown e prevented rejected now)
    then show ?thesis
      using keyDown_unsettled [OF assms(1,3), of isMac e prevented rejected now] start
      by (cases "kbar_onKeyDown isMac I e prevented rejected now s") (simp add: kbar_event_def)
  next
    case TimerFires
    then show ?thesis
      using timer_unsettled [OF assms(3)] by (simp add: kbar_event_def)
  next
    case (TypeSearch v)
    then show ?thesis
      using start by (auto simp: kbar_event_def CmdKSearch_onChange_def setSearch_def kbar_ok_defs animation_ok_def)
  next
    case (SearchKey e)
    then show ?thesis
      using searchKey_total [OF assms(1,3), of e] start by (cases "kb_showing s") (auto simp: kbar_event_def)
  next
    case ThrottleFires
    obtain rows where "useMatches matchSorter I (kb_root s) (kb_search s) = Some rows" "well_grouped rows"
      "set (row_items rows) \<subseteq> {a. a < length (if_heap I)}"
      using useMatches_range [OF iface assms(2)] by blast
    with ThrottleFires start show ?thesis
      by (auto simp: kbar_event_def kbar_ok_defs animation_ok_def)
  next
    case (PointerTo k)
    then show ?thesis
      using start by (auto simp: kbar_event_def CmdK_pointer_def setActiveIndex_def kbar_ok_defs animation_ok_def)
  next
    case (ClickRow k)
    then show ?thesis
      using start execute_unsettled [OF assms(1), of s s k]
      by (cases "CmdK_execute I (row_at (kb_rows s) k) s") (auto simp: kbar_event_def CmdK_click_def)
  qed
qed

lemma kbar_step_ok:
  assumes "iface_closed I" and "matcher_ok matchSorter" and "kbar_ok I s"
  shows "\<exists>s' fx. kbar_step isMac matchSorter I ev s = Some (Inr (s', fx)) \<and> kbar_ok I s'"
proof -
  obtain t fx where t: "kbar_event isMac matchSorter I ev s = Some (Inr (t, fx))" "unsettled_ok I s t"
    "timer_ok s \<and> animation_ok s t \<or> timer_ok t \<and> (kb_visual t = Showing \<or> kb_visual t = Hidden)"
    using kbar_event_ok [OF assms] by blast
  have "iface_ok I"
    using assms(1) by (simp add: iface_closed_def)
  from settle_ok [OF this assms(2) t(2,3)] t(1) show ?thesis
    by (auto simp: kbar_step_def)
qed

lemma kbar_run_ok:
  assumes "iface_closed I" and "matcher_ok matchSorter" and "kbar_ok I s"
  shows "\<exists>s' fx. kbar_run isMac matchSorter I evs s = Some (Inr (s', fx)) \<and> kbar_ok I s'"
  using assms(3)
proof (induction evs arbitrary: s)
  case (Cons ev evs)
  obtain t fx where t: "kbar_step isMac matchSorter I ev s = Some (Inr (t, fx))" "kbar_ok I t"
    using kbar_step_ok [OF assms(1,2) Cons.prems] by blast
  with Cons.IH [OF t(2)] show ?case by auto
qed simp

lemma kbar_ok_init: "kbar_ok I (useStore_init now)"
  by (simp add: kbar_ok_defs useStore_init_def timer_ok_def or_empty_def row_items_def)

section \<open>Typing a shortcut\<close>

fun type_keys ::
  "'p actionInterface \<Rightarrow> (string \<times> int) list \<Rightarrow> kbarState \<Rightarrow> kbarState \<times> 'p kbarEffect list" where
  "type_keys I [] s = (s, [])"
| "type_keys I ((k, t) # ks) s =
     (let (s1, fx1) = useShortcuts_onKeyDown I False t (plain_key k) s; (s2, fx2) = type_keys I ks s1
      in (s2, fx1 @ fx2))"

text \<open>No key comes more than 400 milliseconds after the one before.\<close>

fun paced :: "int \<Rightarrow> (string \<times> int) list \<Rightarrow> bool" where
  "paced t0 [] = True"
| "paced t0 ((k, t) # ks) = (t - t0 \<le> 400 \<and> paced t ks)"

text \<open>No proper prefix of the keys is a shortcut itself.\<close>

definition no_prefix_match :: "'p actionInterface \<Rightarrow> string list \<Rightarrow> bool" where
  "no_prefix_match I ks \<longleftrightarrow> list_all (\<lambda>j. shortcut_match I (take j ks) = None) [1..<length ks]"

definition letter_key :: "string \<Rightarrow> bool" where
  "letter_key k \<longleftrightarrow> js_toLowerCase k = k \<and> k \<noteq> ''shift''"

lemma shortcut_key:
  assumes "letter_key k" and "t - kb_last s \<le> 400 \<or> kb_buffer s = []"
  shows "useShortcuts_onKeyDown I False t (plain_key k) s =
    (case shortcut_match I (kb_buffer s @ [k]) of
       None \<Rightarrow> (s\<lparr>kb_buffer := kb_buffer s @ [k], kb_last := t\<rparr>, [])
     | Some (i, a) \<Rightarrow> shortcut_fire I a (s\<lparr>kb_buffer := [], kb_last := t\<rparr>))"
proof -
  have "(if t - kb_last s > 400 then [] else kb_buffer s) = kb_buffer s"
    using assms(2) by auto
  then show ?thesis
    using assms(1) by (simp add: useShortcuts_onKeyDown_def letter_key_def plain_key_def Let_def)
qed

lemma type_keys_match:
  assumes "shortcut_match I (kb_buffer s @ map fst ks) = Some (i, a)" and "ks \<noteq> []"
    and "list_all (\<lambda>j. shortcut_match I (kb_buffer s @ take j (map fst ks)) = None) [1..<length ks]"
    and "list_all letter_key (map fst ks)" and "paced (kb_last s) ks \<or> kb_buffer s = [] \<and> paced (snd (hd ks)) ks"
  shows "type_keys I ks s = shortcut_fire I a (s\<lparr>kb_buffer := [], kb_last := snd (last ks)\<rparr>)"
  using assms
proof (induction ks arbitrary: s)
  case (Cons x ks)
  obtain k t where x: "x = (k, t)" by fastforce
  have key: "letter_key k" "t - kb_last s \<le> 400 \<or> kb_buffer s = []" "paced t ks"
    using Cons.prems(4,5) x by auto
  show ?case
  proof (cases "ks = []")
    case True
    then show ?thesis
      using Cons.prems(1) x by (simp add: shortcut_key [OF key(1,2)] split: prod.split)
  next
    case False
    let ?s = "s\<lparr>kb_buffer := kb_buffer s @ [k], kb_last := t\<rparr>"
    have none: "shortcut_match I (kb_buffer s @ take j (k # map fst ks)) = None" if "1 \<le> j" "j \<le> length ks" for j
    proof -
      have "j \<in> set [1..<length (x # ks)]"
        using that by auto
      then show ?thesis
        using Cons.prems(3) x unfolding list_all_iff by (metis fst_conv list.simps(9))
    qed
    have "shortcut_match I (kb_buffer s @ [k]) = None"
      using none [of 1] False by (cases ks) simp_all
    then have step: "useShortcuts_onKeyDown I False t (plain_key k) s = (?s, [])"
      using shortcut_key [OF key(1,2), of I] by simp
    have "list_all (\<lambda>j. shortcut_match I (kb_buffer ?s @ take j (map fst ks)) = None) [1..<length ks]"
      using none [of "Suc _"] by (simp add: list_all_iff)
    then have "type_keys I ks ?s = shortcut_fire I a (?s\<lparr>kb_buffer := [], kb_last := snd (last ks)\<rparr>)"
      using Cons.prems(1,4) x False key(3) by (intro Cons.IH) auto
    then show ?thesis
      using x step False by (simp split: prod.split)
  qed
qed simp

lemma open_close_run:
  assumes "iface_closed I" and "matcher_ok matchSorter" and "kbar_ok I s" and "\<not> kb_showing s"
    and "isModKey isMac e" and "ev_key e = ''k''"
  shows "\<exists>s1 s2 rows.
    kbar_run isMac matchSorter I [KeyDown e False True t1, TimerFires] s = Some (Inr (s1, [KOpen])) \<and>
    kb_visual s1 = Showing \<and> useMatches matchSorter I None [] = Some rows \<and> kb_rows s1 = rows \<and>
    kb_active s1 = cmdk_start rows \<and>
    kbar_run isMac matchSorter I [KeyDown (plain_key ''Escape'') False True t2, TimerFires] s1
      = Some (Inr (s2, [KClose])) \<and> kb_visual s2 = Hidden"
proof -
  have iface: "iface_ok I"
    using assms(1) by (simp add: iface_closed_def)
  have hidden: "kb_visual s = Hidden" "kb_root s = None" "kb_search s = []" "kb_timer s = None"
    using assms(3,4) by (auto simp: kbar_ok_def kb_showing_def timer_ok_def)
  obtain rows where rows: "useMatches matchSorter I None [] = Some rows"
    using useMatches_range [OF iface assms(2)] by blast
  let ?open = "s\<lparr>kb_rows := rows, kb_active := cmdk_start rows, kb_visual := AnimatingIn, kb_timer := Some AnimatingIn\<rparr>"
  let ?s1 = "?open\<lparr>kb_visual := Showing, kb_timer := None\<rparr>"
  let ?s2 = "?s1\<lparr>kb_visual := Hidden\<rparr>"
  have "kbar_step isMac matchSorter I (KeyDown e False True t1) s = Some (Inr (?open, [KOpen]))"
    using assms(5,6) hidden rows
    by (simp add: kbar_step_def kbar_event_def kbar_onKeyDown_def useToggleHandler_onKeyDown_def
        useShortcuts_onKeyDown_def settle_def mount_effect_def search_effect_def active_effect_def animate_effect_def
        query_defs kb_showing_def Let_def)
  moreover have "kbar_step isMac matchSorter I TimerFires ?open = Some (Inr (?s1, []))"
    using hidden
    by (simp add: kbar_step_def kbar_event_def animateTimer_fires_def settle_def mount_effect_def search_effect_def
        active_effect_def animate_effect_def query_defs kb_showing_def Let_def)
  moreover have "kbar_step isMac matchSorter I (KeyDown (plain_key ''Escape'') False True t2) ?s1
      = Some (Inr (?s1\<lparr>kb_visual := AnimatingOut, kb_timer := Some AnimatingOut\<rparr>, [KClose]))"
    by (simp add: kbar_step_def kbar_event_def kbar_onKeyDown_def useToggleHandler_onKeyDown_def
        useShortcuts_onKeyDown_def CmdKResultHandler_onKeyDown_def settle_def mount_effect_def search_effect_def
        active_effect_def animate_effect_def query_defs kb_showing_def plain_key_def Let_def)
  moreover have "kbar_step isMac matchSorter I TimerFires (?s1\<lparr>kb_visual := AnimatingOut, kb_timer := Some AnimatingOut\<rparr>)
      = Some (Inr (?s2, []))"
    using hidden
    by (simp add: kbar_step_def kbar_event_def animateTimer_fires_def settle_def mount_effect_def search_effect_def
        active_effect_def animate_effect_def query_defs kb_showing_def Let_def)
  ultimately show ?thesis
    using rows by (intro exI [of _ ?s1] exI [of _ ?s2] exI [of _ rows]) simp
qed

section \<open>Properties\<close>

text \<open>
  C18. The palette never throws and never hangs: after any sequence of keys, clicks, texts and timers
  every running animation has its timer, a hidden palette is back at the root with an empty search,
  the name of the root can be read, and the active row of a palette that shows is an action and never
  the name of a section.
\<close>

theorem palette_reachable:
  assumes "iface_closed I" and "matcher_ok matchSorter"
  shows "\<exists>s fx. kbar_run isMac matchSorter I evs (useStore_init now) = Some (Inr (s, fx)) \<and>
    timer_ok s \<and> (\<exists>text_shown. CmdKSearch_placeholder d I s = Inr text_shown) \<and>
    (if kb_showing s then kb_rows s = [] \<or> item_at (kb_rows s) (kb_active s)
     else kb_root s = None \<and> kb_search s = [])"
proof -
  obtain s fx where s: "kbar_run isMac matchSorter I evs (useStore_init now) = Some (Inr (s, fx))" "kbar_ok I s"
    using kbar_run_ok [OF assms kbar_ok_init] by blast
  moreover have "\<exists>text_shown. CmdKSearch_placeholder d I s = Inr text_shown"
    using s(2) map_of_eq_None_iff [of "if_actions I" "or_empty (kb_root s)"]
    by (auto simp: CmdKSearch_placeholder_def kbar_ok_def root_ok_def action_keys_def split: option.splits)
  ultimately show ?thesis
    by (auto simp: kbar_ok_def active_ok_def)
qed


text \<open>
  C30. A shortcut whose keys are typed without a pause of more than 400 milliseconds performs its
  action, and nothing before the last key, provided no beginning of it is a shortcut itself and no
  keys are left over from just before.
\<close>

theorem shortcut_performs:
  assumes "shortcut_match I (map fst ks) = Some (i, a)" and "ks \<noteq> []" and "no_prefix_match I (map fst ks)"
    and "list_all letter_key (map fst ks)" and "paced (snd (hd ks)) ks" and "kb_buffer s = []"
    and "ai_children (if_heap I ! a) = []" and "ai_command (if_heap I ! a) = Some p"
  shows "snd (type_keys I ks s) = [KPerform p, KSelect (ai_id (if_heap I ! a))] \<and>
    kb_buffer (fst (type_keys I ks s)) = []"
proof -
  have "type_keys I ks s = shortcut_fire I a (s\<lparr>kb_buffer := [], kb_last := snd (last ks)\<rparr>)"
    using assms by (intro type_keys_match) (auto simp: no_prefix_match_def)
  then show ?thesis
    using assms(7,8) by (simp add: shortcut_fire_def Let_def)
qed

text \<open>
  The publisher. A notification calls exactly the subscribers whose collected value changed, in
  the order of their subscription, with the new value; afterwards a notification of the same state
  calls nobody; and unsubscribing undoes subscribing.
\<close>

theorem publisher_spec:
  assumes "k \<notin> set (map sb_key subs)"
  shows "snd (notify_all st subs) = map (\<lambda>b. (sb_key b, sb_collector b st))
      (filter (\<lambda>b. sb_collected b \<noteq> Some (sb_collector b st)) subs) \<and>
    list_all (\<lambda>b. sb_collected b = Some (sb_collector b st)) (fst (notify_all st subs)) \<and>
    snd (notify_all st (fst (notify_all st subs))) = [] \<and>
    unsubscribe k (subscribe k collector subs) = subs"
proof -
  have calls: "snd (notify_all st bs) = map (\<lambda>b. (sb_key b, sb_collector b st))
      (filter (\<lambda>b. sb_collected b \<noteq> Some (sb_collector b st)) bs)" for bs :: "('a, 'b) subscriber list"
    by (induction bs) (auto simp: notify_all_def collect_def Let_def)
  have fresh: "list_all (\<lambda>b. sb_collected b = Some (sb_collector b st)) (fst (notify_all st subs))"
    by (auto simp: notify_all_def collect_def Let_def list_all_iff)
  have "js_findIndex (\<lambda>b. sb_key b = k) (subs @ [\<lparr>sb_key = k, sb_collector = c, sb_collected = None\<rparr>]) = int (length subs)" for c :: "'a \<Rightarrow> 'b"
    using assms by (induction subs) (auto simp: Let_def)
  then have "unsubscribe k (subscribe k collector subs) = subs"
    by (simp add: unsubscribe_def subscribe_def)
  with calls [of subs] calls [of "fst (notify_all st subs)"] fresh show ?thesis
    by (auto simp: list_all_iff filter_empty_conv)
qed

section \<open>Witnesses\<close>

definition sample_palette :: "nat actionInterface" where
  "sample_palette =
     \<lparr>if_heap = [newActionImpl \<lparr>ac_id = ''next_tab'', ac_name = ''Next Tab'', ac_shortcut = Some [''g'', ''t''],
          ac_keywords = Some ''next tab'', ac_section = None, ac_subtitle = None, ac_perform = Some 7, ac_parent = None\<rparr>],
      if_actions = [(''next_tab'', 0)]\<rparr>"

lemma sample_palette_closed: "iface_closed sample_palette"
  by (simp add: sample_palette_def iface_closed_def iface_ok_def heap_ok_def object_ok_def parentActionImpl_def
      newActionImpl_def action_keys_def or_empty_def)

lemma all_match_ok: "matcher_ok (\<lambda>hp as s. as)"
  by (simp add: matcher_ok_def)

theorem palette_reachable_witness:
  "\<exists>s fx. kbar_run True (\<lambda>hp as s. as) sample_palette
     [KeyDown (plain_key ''g'') False False 0, KeyDown (plain_key ''t'') False False 100, TypeSearch ''x''] (useStore_init 0)
     = Some (Inr (s, fx)) \<and> timer_ok s"
  using palette_reachable [OF sample_palette_closed all_match_ok, of True
      "[KeyDown (plain_key ''g'') False False 0, KeyDown (plain_key ''t'') False False 100, TypeSearch ''x'']" 0]
  by blast


theorem shortcut_performs_witness:
  "snd (type_keys sample_palette [(''g'', 1000), (''t'', 1300)] (useStore_init 0)) = [KPerform 7, KSelect ''next_tab'']"
  using shortcut_performs [of sample_palette "[(''g'', 1000), (''t'', 1300)]" "''next_tab''" 0 "useStore_init 0" 7]
  by (simp add: sample_palette_def newActionImpl_def shortcut_match_def no_prefix_match_def letter_key_def
      js_toLowerCase_def js_lower_char_def useStore_init_def)

theorem publisher_spec_witness:
  "unsubscribe 1 (subscribe 1 fst [\<lparr>sb_key = 0, sb_collector = snd, sb_collected = Some (5 :: nat)\<rparr>])
   = [\<lparr>sb_key = 0, sb_collector = snd, sb_collected = Some 5\<rparr>]"
  using publisher_spec [of 1 "[\<lparr>sb_key = 0, sb_collector = snd, sb_collected = Some (5 :: nat)\<rparr>]" _ fst] by simp

end
