(* ===== verification/MainView.thy ===== *)
theory MainView imports Tabs Messages Compose InPerson KBar begin

text \<open>
  The main window: \<open>Main.tsx\<close>, which keeps the tabs, the dialog, the side bar and the status,
  and decides what is shown; and \<open>index.tsx\<close>, which starts it. The pieces are those of the other
  theories: the tab bar through the interface \<open>tab_store\<close>, the palette through the effects of
  its events.
\<close>

section \<open>State\<close>

text \<open>The data of a tab: none, the message of a Read tab, the form of a Write tab.\<close>

datatype tabData = NoData | ReadData anyMessage | WriteTabData writeData

definition plainTab :: "tabType \<Rightarrow> string \<Rightarrow> string \<Rightarrow> bool \<Rightarrow> tabData tab" where
  "plainTab ty name i unclosable =
     \<lparr>tab_type = ty, tab_name = name, tab_data = NoData, tab_unclosable = unclosable, tab_id = i\<rparr>"

definition defaultTabs :: "tabData tab list" where
  "defaultTabs = [plainTab TabNew ''New'' ''new'' True, plainTab TabAll ''All'' ''all'' True]"

abbreviation defaultTab :: "tabData tab" where
  "defaultTab \<equiv> plainTab TabNew ''New'' ''new'' True"

datatype mainModal = AddFriendModal addFriendProps | RegisterDialog | InstallCliModal bool

record mainState =
  mn_tabs :: "tabData tabsState"
  mn_modal :: "mainModal option"
  mn_hasShownInitialModal :: bool
  mn_sidebarOpen :: bool
  mn_status :: statusState

definition Main_init :: mainState where
  "Main_init =
     \<lparr>mn_tabs = \<lparr>st_tabs = defaultTabs, st_previous = ''new'', st_selected = ''new''\<rparr>, mn_modal = None,
      mn_hasShownInitialModal = False, mn_sidebarOpen = False, mn_status = StatusHandler_init\<rparr>"

definition selectedTab :: "mainState \<Rightarrow> tabData tab" where
  "selectedTab s = selectedActualTab defaultTab (mn_tabs s)"

definition showStatus :: "string \<Rightarrow> mainState \<Rightarrow> mainState" where
  "showStatus m s = s\<lparr>mn_status := status_run [SetStatusMessage m, SetVisible] (mn_status s)\<rparr>"

section \<open>Messages\<close>

fun message_uid :: "anyMessage \<Rightarrow> int" where
  "message_uid (Incoming m) = im_uid m"
| "message_uid (Outgoing m) = om_uid m"

text \<open>
  \<open>tab.data.id\<close>: messages have a \<open>uid\<close> but no \<open>id\<close>, so the value is \<open>undefined\<close>
  (\<open>None\<close>), which equals no number.
\<close>

fun data_id :: "tabData \<Rightarrow> js_error + int option" where
  "data_id NoData = Inl (TypeError ''Cannot read properties of null (reading 'id')'')"
| "data_id (ReadData m) = Inr None"
| "data_id (WriteTabData w) = Inr None"

fun findRead :: "int \<Rightarrow> tabData tab list \<Rightarrow> js_error + string option" where
  "findRead uid [] = Inr None"
| "findRead uid (t # ts) =
     (if tab_type t = TabRead
      then bind_result (data_id (tab_data t))
             (\<lambda>i. if i = Some uid then Inr (Some (tab_id t)) else findRead uid ts)
      else findRead uid ts)"

definition readTab :: "anyMessage \<Rightarrow> tabData tab" where
  "readTab m =
     \<lparr>tab_type = TabRead,
      tab_name = Utils.truncate (message_text m) 10 @ '' - '' @ read_from m,
      tab_data = ReadData m, tab_unclosable = False, tab_id = ''read-'' @ js_int_str (message_uid m)\<rparr>"

text \<open>\<open>r\<close> are the tabs of the render whose callback runs. An error of \<open>messageSeen\<close> is only logged.\<close>

definition readMessage ::
  "daemonImpl \<Rightarrow> tabData tabsState \<Rightarrow> anyMessage \<Rightarrow> mainState \<Rightarrow> js_error + rpc list \<times> mainState" where
  "readMessage d r m s =
     bind_result (findRead (message_uid m) (st_tabs r))
       (\<lambda>found. case found of
          Some i \<Rightarrow> Inr ([], s\<lparr>mn_tabs := switchTab i (mn_tabs s)\<rparr>)
        | None \<Rightarrow> Inr (fst (messageSeen d \<lparr>ms_id = message_uid m\<rparr>), s\<lparr>mn_tabs := pushTab (readTab m) (mn_tabs s)\<rparr>))"

definition editWrite :: "tabData tabsState \<Rightarrow> writeData \<Rightarrow> mainState \<Rightarrow> mainState" where
  "editWrite r wd s =
     (let sel = selectedActualTab defaultTab r
      in if tab_type sel \<noteq> TabWrite then s
         else s\<lparr>mn_tabs := updateTab (sel\<lparr>tab_data := WriteTabData wd\<rparr>) (mn_tabs s)\<rparr>)"

definition emptyWrite :: writeData where
  "emptyWrite = \<lparr>wd_content = [], wd_multiSelect = \<lparr>ml_friends = [], ml_text = []\<rparr>, wd_focus = FocusTo\<rparr>"

definition writeTab :: "string \<Rightarrow> tabData tab" where
  "writeTab random =
     \<lparr>tab_type = TabWrite, tab_name = ''Compose'', tab_data = WriteTabData emptyWrite, tab_unclosable = False,
      tab_id = ''write-'' @ random\<rparr>"

definition writeMessage :: "rng \<Rightarrow> mainState \<Rightarrow> mainState option" where
  "writeMessage rnd s =
     map_option (\<lambda>random. s\<lparr>mn_tabs := pushTab (writeTab random) (mn_tabs s)\<rparr>) (randomString rnd 10)"

text \<open>What \<open>onClose\<close> and \<open>onDone\<close> of the shown page do.\<close>

definition closePage :: "tabData tabsState \<Rightarrow> mainState \<Rightarrow> mainState" where
  "closePage r s = s\<lparr>mn_tabs := closeTab defaultTab r (tab_id (selectedActualTab defaultTab r)) (mn_tabs s)\<rparr>"

section \<open>Dialogs\<close>

definition closeModal :: "mainState \<Rightarrow> mainState" where
  "closeModal s = s\<lparr>mn_modal := None\<rparr>"

definition openFriendModal :: "mainState \<Rightarrow> mainState" where
  "openFriendModal s =
     s\<lparr>mn_modal := Some (AddFriendModal \<lparr>ap_initialScreen = None, ap_incomingInvitation = None, ap_theirPublicId = None\<rparr>)\<rparr>"

definition handleIncomingInvitation :: "incomingAsyncInvitation \<Rightarrow> mainState \<Rightarrow> mainState" where
  "handleIncomingInvitation i s =
     s\<lparr>mn_modal := Some (AddFriendModal \<lparr>ap_initialScreen = Some IncomingScreen, ap_incomingInvitation = Some i,
         ap_theirPublicId = None\<rparr>)\<rparr>"

datatype initialModal = AddFriendByPublicId

record mainProps =
  mp_initialModal :: "initialModal option"
  mp_initialModalData :: "string option"

text \<open>\<open>index.tsx\<close>: the \<open>publicID\<close> of the address, when there is one, becomes the initial dialog.\<close>

definition index_component :: "string option \<Rightarrow> mainProps" where
  "index_component publicID =
     (case publicID of
        Some i \<Rightarrow> \<lparr>mp_initialModal = Some AddFriendByPublicId, mp_initialModalData = Some i\<rparr>
      | None \<Rightarrow> \<lparr>mp_initialModal = None, mp_initialModalData = None\<rparr>)"

definition initialModal_effect :: "mainProps \<Rightarrow> mainState \<Rightarrow> mainState" where
  "initialModal_effect p s =
     (if mn_hasShownInitialModal s then s
      else (let s' = (if mp_initialModal p = Some AddFriendByPublicId
                      then s\<lparr>mn_modal := Some (AddFriendModal \<lparr>ap_initialScreen = Some RemotePartTwo,
                               ap_incomingInvitation = None, ap_theirPublicId = mp_initialModalData p\<rparr>)\<rparr>
                      else s)
            in s'\<lparr>mn_hasShownInitialModal := True\<rparr>))"

text \<open>The effect that asks whether a user is registered, once the daemon has answered.\<close>

definition hasRegistered_effect :: "daemonImpl \<Rightarrow> mainState \<Rightarrow> rpc list \<times> mainState" where
  "hasRegistered_effect d s =
     (fst (hasRegistered d),
      (case snd (hasRegistered d) of
         Inr True \<Rightarrow> s
       | _ \<Rightarrow> s\<lparr>mn_modal := Some RegisterDialog\<rparr>))"

definition onRegister :: "daemonImpl \<Rightarrow> string \<Rightarrow> string \<Rightarrow> mainState \<Rightarrow> rpc list \<times> mainState" where
  "onRegister d username key s =
     (let r = registerUser d \<lparr>ru_name = username, ru_betaKey = key\<rparr>
      in (fst r,
          (case snd r of
             Inr _ \<Rightarrow> showStatus ''Registered!'' (closeModal s)
           | Inl e \<Rightarrow> showStatus ''Unable to register. Perhaps incorrect access key?'' s)))"

section \<open>The side bar\<close>

text \<open>Opening the tab of a kind: the first one of the render's tabs, or a new one.\<close>

definition openKind :: "(tabData tab \<Rightarrow> bool) \<Rightarrow> tabData tab \<Rightarrow> tabData tabsState \<Rightarrow> mainState \<Rightarrow> mainState" where
  "openKind p t r s =
     (case find p (st_tabs r) of
        Some u \<Rightarrow> s\<lparr>mn_tabs := switchTab (tab_id u) (mn_tabs s)\<rparr>
      | None \<Rightarrow> s\<lparr>mn_tabs := pushTab t (mn_tabs s)\<rparr>)"

definition openOutbox :: "tabData tabsState \<Rightarrow> mainState \<Rightarrow> mainState" where
  "openOutbox = openKind (\<lambda>t. tab_type t = TabOutbox) (plainTab TabOutbox ''Outbox'' ''outbox'' False)"

definition openSent :: "tabData tabsState \<Rightarrow> mainState \<Rightarrow> mainState" where
  "openSent = openKind (\<lambda>t. tab_type t = TabSent) (plainTab TabSent ''Sent'' ''sent'' False)"

definition sideBarCallback :: "tabData tabsState \<Rightarrow> sideBarButton \<Rightarrow> mainState \<Rightarrow> mainState" where
  "sideBarCallback r b s =
     (let s' = s\<lparr>mn_sidebarOpen := False\<rparr>
      in case b of
           INBOX \<Rightarrow> s'\<lparr>mn_tabs := switchTab ''all'' (mn_tabs s')\<rparr>
         | OUTBOX \<Rightarrow> openOutbox r s'
         | SENT \<Rightarrow> openSent r s'
         | ADD_FRIEND \<Rightarrow> openFriendModal s'
         | INVITATIONS \<Rightarrow>
             openKind (\<lambda>t. tab_type t = TabInvitations \<and> tab_id t = ''invitations'')
               (plainTab TabInvitations ''Invitations'' ''invitations'' False) r s')"

section \<open>The palette\<close>

text \<open>
  The actions of a render: a command holds what its closure captured, the tabs of that render and
  whether the side bar was open.
\<close>

datatype mainCommand =
    PerformFriend
  | PerformWrite
  | PerformNextTab "tabData tabsState"
  | PerformSidebar bool
  | PerformInstall

definition mainAction :: "string \<Rightarrow> string \<Rightarrow> string list option \<Rightarrow> string \<Rightarrow> mainCommand option \<Rightarrow> mainCommand action" where
  "mainAction i name keys keywords p =
     \<lparr>ac_id = i, ac_name = name, ac_shortcut = keys, ac_keywords = Some keywords, ac_section = None,
      ac_subtitle = None, ac_perform = p, ac_parent = None\<rparr>"

definition cmdKActions :: "tabData tabsState \<Rightarrow> bool \<Rightarrow> mainCommand action list" where
  "cmdKActions r sidebarOpen =
     [mainAction ''friend'' ''Add and Manage Friends'' (Some [''f'']) ''friends'' (Some PerformFriend),
      mainAction ''write'' ''Compose'' (Some [''c'']) ''write compose messages'' (Some PerformWrite),
      mainAction ''search'' ''Search'' (Some [''/'']) ''search'' None,
      mainAction ''next_tab'' ''Next Tab'' (Some [''g'', ''t'']) ''next tab'' (Some (PerformNextTab r)),
      mainAction ''sidebar'' ''Toggle Sidebar'' (Some [''m'']) ''sidebar, side, menu, sent, outbox''
        (Some (PerformSidebar sidebarOpen)),
      mainAction ''help'' ''Help'' (Some [''h'']) ''help'' None,
      mainAction ''install-cli'' (''Install '' @ [CHR 0x27] @ ''anysphere'' @ [CHR 0x27] @ '' command'') None
        ''install, cli, command'' (Some PerformInstall)]"

text \<open>
  The store memoises the interface of the first render, so the palette performs the commands of that
  render for good.
\<close>

definition palette_actions :: "mainCommand actionInterface" where
  "palette_actions =
     \<lparr>if_heap = map newActionImpl (cmdKActions (mn_tabs Main_init) (mn_sidebarOpen Main_init)),
      if_actions = [(''friend'', 0), (''write'', 1), (''search'', 2), (''next_tab'', 3), (''sidebar'', 4),
        (''help'', 5), (''install-cli'', 6)]\<rparr>"

fun perform_command :: "bool \<Rightarrow> rng \<Rightarrow> mainCommand \<Rightarrow> mainState \<Rightarrow> (js_error + mainState) option" where
  "perform_command isMac rnd PerformFriend s = Some (Inr (openFriendModal s))"
| "perform_command isMac rnd PerformWrite s = map_option Inr (writeMessage rnd s)"
| "perform_command isMac rnd (PerformNextTab r) s =
     Some (bind_result (nextTab r (mn_tabs s)) (\<lambda>t. Inr (s\<lparr>mn_tabs := t\<rparr>)))"
| "perform_command isMac rnd (PerformSidebar b) s = Some (Inr (s\<lparr>mn_sidebarOpen := \<not> b\<rparr>))"
| "perform_command isMac rnd PerformInstall s = Some (Inr (s\<lparr>mn_modal := Some (InstallCliModal isMac)\<rparr>))"

text \<open>The only callback that the main window gives to the palette closes the dialog.\<close>

fun palette_effect :: "bool \<Rightarrow> rng \<Rightarrow> mainCommand kbarEffect \<Rightarrow> mainState \<Rightarrow> (js_error + mainState) option" where
  "palette_effect isMac rnd KClose s = Some (Inr (closeModal s))"
| "palette_effect isMac rnd (KPerform c) s = perform_command isMac rnd c s"
| "palette_effect isMac rnd KOpen s = Some (Inr s)"
| "palette_effect isMac rnd (KSelect i) s = Some (Inr s)"
| "palette_effect isMac rnd (KQueryChange q) s = Some (Inr s)"

fun palette_effects :: "bool \<Rightarrow> rng \<Rightarrow> mainCommand kbarEffect list \<Rightarrow> mainState \<Rightarrow> (js_error + mainState) option" where
  "palette_effects isMac rnd [] s = Some (Inr s)"
| "palette_effects isMac rnd (fx # fxs) s =
     (case palette_effect isMac rnd fx s of
        None \<Rightarrow> None
      | Some (Inl e) \<Rightarrow> Some (Inl e)
      | Some (Inr s') \<Rightarrow> palette_effects isMac rnd fxs s')"

section \<open>What is shown\<close>

datatype mainComponent =
    ShowIncomingList listType
  | ShowOutgoingList outgoingType
  | ShowRead tabData
  | ShowWrite tabData
  | ShowInvitations

definition selectedComponent :: "mainState \<Rightarrow> mainComponent" where
  "selectedComponent s =
     (let t = selectedTab s
      in case tab_type t of
           TabNew \<Rightarrow> ShowIncomingList ListNew
         | TabAll \<Rightarrow> ShowIncomingList ListAll
         | TabOutbox \<Rightarrow> ShowOutgoingList Outbox
         | TabSent \<Rightarrow> ShowOutgoingList Sent
         | TabRead \<Rightarrow> ShowRead (tab_data t)
         | TabWrite \<Rightarrow> ShowWrite (tab_data t)
         | TabInvitations \<Rightarrow> ShowInvitations)"

section \<open>The window as a whole\<close>

datatype mainEvent =
    ReadMessage anyMessage
  | EditWrite writeData
  | WriteMessage rng
  | ClosePage
  | PressSideBar sideBarButton
  | SetSidebarOpen bool
  | OpenFriend
  | CloseModal
  | IncomingInvitation incomingAsyncInvitation
  | ClickTab tabAction
  | TabKey keyEvent
  | Registering string string
  | AskRegistered
  | InitialModal mainProps
  | PaletteEffect bool rng "mainCommand kbarEffect"

text \<open>
  Each event runs the callbacks of the current render. The result is the remote calls and the state,
  or the exception; \<open>None\<close> would be a loop that does not end.
\<close>

definition main_step :: "daemonImpl \<Rightarrow> mainEvent \<Rightarrow> mainState \<Rightarrow> (js_error + rpc list \<times> mainState) option" where
  "main_step d ev s =
     (case ev of
        ReadMessage m \<Rightarrow> Some (readMessage d (mn_tabs s) m s)
      | EditWrite wd \<Rightarrow> Some (Inr ([], editWrite (mn_tabs s) wd s))
      | WriteMessage rnd \<Rightarrow> map_option (\<lambda>s'. Inr ([], s')) (writeMessage rnd s)
      | ClosePage \<Rightarrow> Some (Inr ([], closePage (mn_tabs s) s))
      | PressSideBar b \<Rightarrow> Some (Inr ([], sideBarCallback (mn_tabs s) b s))
      | SetSidebarOpen b \<Rightarrow> Some (Inr ([], s\<lparr>mn_sidebarOpen := b\<rparr>))
      | OpenFriend \<Rightarrow> Some (Inr ([], openFriendModal s))
      | CloseModal \<Rightarrow> Some (Inr ([], closeModal s))
      | IncomingInvitation i \<Rightarrow> Some (Inr ([], handleIncomingInvitation i s))
      | ClickTab a \<Rightarrow> Some (Inr ([], s\<lparr>mn_tabs := perform_tabAction defaultTab (mn_tabs s) a (mn_tabs s)\<rparr>))
      | TabKey e \<Rightarrow>
          Some (bind_result (TabContainer_onKeyDown defaultTab (mn_tabs s) e (mn_tabs s))
                  (\<lambda>t. Inr ([], s\<lparr>mn_tabs := t\<rparr>)))
      | Registering u k \<Rightarrow> Some (Inr (onRegister d u k s))
      | AskRegistered \<Rightarrow> Some (Inr (hasRegistered_effect d s))
      | InitialModal p \<Rightarrow> Some (Inr ([], initialModal_effect p s))
      | PaletteEffect isMac rnd fx \<Rightarrow>
          map_option (\<lambda>r. bind_result r (\<lambda>s'. Inr ([], s'))) (palette_effect isMac rnd fx s))"

fun main_run :: "daemonImpl \<Rightarrow> mainEvent list \<Rightarrow> mainState \<Rightarrow> (js_error + rpc list \<times> mainState) option" where
  "main_run d [] s = Some (Inr ([], s))"
| "main_run d (ev # evs) s =
     (case main_step d ev s of
        None \<Rightarrow> None
      | Some (Inl e) \<Rightarrow> Some (Inl e)
      | Some (Inr (calls, s')) \<Rightarrow>
          map_option (\<lambda>r. bind_result r (\<lambda>(calls', s''). Inr (calls @ calls', s''))) (main_run d evs s'))"

lemma palette_actions_registered:
  "ActionInterface (cmdKActions (mn_tabs Main_init) (mn_sidebarOpen Main_init)) = Some (palette_actions, None)"
  by (simp add: ActionInterface_def addOne_def palette_actions_def cmdKActions_def mainAction_def or_empty_def Let_def)

lemma palette_actions_closed: "iface_closed palette_actions"
  by (rule ActionInterface_closed [OF palette_actions_registered])

section \<open>The invariant\<close>

text \<open>Every tab is one that the window makes, with the data of its kind.\<close>

definition tab_ok :: "tabData tab \<Rightarrow> bool" where
  "tab_ok t \<longleftrightarrow>
     (case tab_type t of
        TabNew \<Rightarrow> t \<in> set defaultTabs
      | TabAll \<Rightarrow> t \<in> set defaultTabs
      | TabOutbox \<Rightarrow> t = plainTab TabOutbox ''Outbox'' ''outbox'' False
      | TabSent \<Rightarrow> t = plainTab TabSent ''Sent'' ''sent'' False
      | TabInvitations \<Rightarrow> t = plainTab TabInvitations ''Invitations'' ''invitations'' False
      | TabRead \<Rightarrow> (\<exists>m. t = readTab m)
      | TabWrite \<Rightarrow> (\<exists>r wd. t = (writeTab r)\<lparr>tab_data := WriteTabData wd\<rparr>))"

definition store_ok :: "tabData tabsState \<Rightarrow> bool" where
  "store_ok st \<longleftrightarrow> tabs_wf defaultTab st \<and> ''all'' \<in> set (tab_ids st) \<and> list_all tab_ok (st_tabs st)"

definition modal_ok :: "mainModal option \<Rightarrow> bool" where
  "modal_ok m \<longleftrightarrow>
     (case m of
        Some (AddFriendModal p) \<Rightarrow> ap_initialScreen p = Some IncomingScreen \<longrightarrow> ap_incomingInvitation p \<noteq> None
      | _ \<Rightarrow> True)"

definition main_wf :: "mainState \<Rightarrow> bool" where
  "main_wf s \<longleftrightarrow> store_ok (mn_tabs s) \<and> modal_ok (mn_modal s)"

lemmas tab_defs_main = plainTab_def defaultTabs_def readTab_def writeTab_def

lemma plainTab_sel [simp]:
  "tab_type (plainTab ty name i u) = ty"
  "tab_id (plainTab ty name i u) = i"
  "tab_unclosable (plainTab ty name i u) = u"
  by (simp_all add: plainTab_def)

lemma tab_ok_cases:
  assumes "tab_ok t"
  obtains "t \<in> set defaultTabs"
  | "t = plainTab TabOutbox ''Outbox'' ''outbox'' False"
  | "t = plainTab TabSent ''Sent'' ''sent'' False"
  | "t = plainTab TabInvitations ''Invitations'' ''invitations'' False"
  | m where "t = readTab m"
  | r wd where "t = (writeTab r)\<lparr>tab_data := WriteTabData wd\<rparr>"
  using assms by (cases "tab_type t") (auto simp: tab_ok_def)

lemma tab_ok_intros [simp]:
  "tab_ok (plainTab TabNew ''New'' ''new'' True)"
  "tab_ok (plainTab TabAll ''All'' ''all'' True)"
  "tab_ok (plainTab TabOutbox ''Outbox'' ''outbox'' False)"
  "tab_ok (plainTab TabSent ''Sent'' ''sent'' False)"
  "tab_ok (plainTab TabInvitations ''Invitations'' ''invitations'' False)"
  "tab_ok (readTab m)"
  "tab_ok (writeTab r)"
  by (auto simp: tab_ok_def tab_defs_main)

text \<open>The identifier of a tab tells its kind.\<close>

lemma tab_ok_kind:
  assumes "tab_ok t"
  shows "(tab_id t = ''outbox'' \<longleftrightarrow> tab_type t = TabOutbox) \<and> (tab_id t = ''sent'' \<longleftrightarrow> tab_type t = TabSent) \<and>
    (tab_id t = ''invitations'' \<longleftrightarrow> tab_type t = TabInvitations) \<and> (tab_id t = ''all'' \<longleftrightarrow> tab_type t = TabAll) \<and>
    (tab_unclosable t \<longleftrightarrow> tab_id t = ''new'' \<or> tab_id t = ''all'')"
  using assms by (cases rule: tab_ok_cases) (auto simp: tab_defs_main)

lemma tab_ok_data:
  assumes "tab_ok t"
  shows "(tab_type t = TabRead \<longrightarrow> (\<exists>m. tab_data t = ReadData m)) \<and>
    (tab_type t = TabWrite \<longrightarrow> (\<exists>wd. tab_data t = WriteTabData wd))"
  using assms by (cases rule: tab_ok_cases) (auto simp: tab_defs_main)

lemma findRead_None: "list_all tab_ok ts \<Longrightarrow> findRead uid ts = Inr None"
  by (induction ts) (auto dest!: tab_ok_data)

section \<open>The tab bar keeps the invariant\<close>

lemma store_ok_init: "store_ok (mn_tabs Main_init)"
  by (auto simp: store_ok_def tabs_wf_def Main_init_def tab_defs_main tab_ok_def)

lemma store_ok_push: "store_ok st \<Longrightarrow> tab_id t \<notin> set (tab_ids st) \<Longrightarrow> tab_ok t \<Longrightarrow> store_ok (pushTab t st)"
  by (simp add: store_ok_def tabs_wf_push)

lemma store_ok_switch: "store_ok st \<Longrightarrow> i \<in> set (tab_ids st) \<Longrightarrow> store_ok (switchTab i st)"
  by (simp add: store_ok_def tabs_wf_switch)

lemma store_ok_close:
  assumes "store_ok st" and "i \<noteq> ''new''" and "i \<noteq> ''all''"
  shows "store_ok (closeTab defaultTab r i st)"
proof -
  have "tabs_wf defaultTab (closeTab defaultTab r i st)"
    using assms by (intro tabs_wf_close) (simp_all add: store_ok_def plainTab_def)
  then show ?thesis
    using assms by (auto simp: store_ok_def list_all_iff image_iff)
qed

lemma store_ok_next: "store_ok st \<Longrightarrow> \<exists>st'. nextTab st st = Inr st' \<and> store_ok st'"
proof -
  assume ok: "store_ok st"
  then have "st_tabs st \<noteq> []"
    by (auto simp: store_ok_def)
  then show ?thesis
    using nextTab_total [of st st] ok by (auto intro!: store_ok_switch)
qed

lemma store_ok_previous: "store_ok st \<Longrightarrow> \<exists>st'. previousTab st st = Inr st' \<and> store_ok st'"
proof -
  assume ok: "store_ok st"
  then obtain i where "i < length (st_tabs st)" "st_selected st = tab_id (st_tabs st ! i)" "distinct (tab_ids st)"
    using tabs_wf_index [of defaultTab st] by (auto simp: store_ok_def tabs_wf_def)
  then show ?thesis
    using previousTab_at [of st i] ok nth_mod_id_mem [of i st] by (auto intro!: store_ok_switch)
qed

lemma store_ok_selected:
  "store_ok st \<Longrightarrow> selectedActualTab defaultTab st \<in> set (st_tabs st) \<and> tab_ok (selectedActualTab defaultTab st)"
  using tabs_wf_shown [of defaultTab st] by (auto simp: store_ok_def list_all_iff)

lemma store_ok_edit:
  assumes "store_ok st" and "tab_type (selectedActualTab defaultTab st) = TabWrite"
  shows "store_ok (updateTab ((selectedActualTab defaultTab st)\<lparr>tab_data := WriteTabData wd\<rparr>) st)"
proof -
  have "tab_ok ((selectedActualTab defaultTab st)\<lparr>tab_data := WriteTabData wd\<rparr>)"
  proof -
    obtain r v where "selectedActualTab defaultTab st = (writeTab r)\<lparr>tab_data := WriteTabData v\<rparr>"
      using store_ok_selected [OF assms(1)] assms(2) by (auto simp: tab_ok_def)
    then have "(selectedActualTab defaultTab st)\<lparr>tab_data := WriteTabData wd\<rparr> = (writeTab r)\<lparr>tab_data := WriteTabData wd\<rparr>"
      by simp
    then show ?thesis
      by (auto simp: tab_ok_def writeTab_def)
  qed
  then have "list_all tab_ok (st_tabs (updateTab ((selectedActualTab defaultTab st)\<lparr>tab_data := WriteTabData wd\<rparr>) st))"
    using assms(1) by (auto simp: updateTab_def list_all_iff store_ok_def)
  then show ?thesis
    using assms(1) by (simp only: store_ok_def updateTab_ids tabs_wf_update)
qed

section \<open>The window keeps the invariant\<close>

text \<open>Opening a kind is the client of the interface \<open>tab_store\<close>.\<close>

lemma openKind_store:
  "mn_tabs (openKind p t (mn_tabs s) s) = tabStore.open_or_switch p t (mn_tabs s)"
  by (simp add: openKind_def tabStore.open_or_switch_def split: option.split)

lemma openKind_fields [simp]:
  "mn_modal (openKind p t r s) = mn_modal s"
  "mn_sidebarOpen (openKind p t r s) = mn_sidebarOpen s"
  by (simp_all add: openKind_def split: option.split)

lemma store_ok_interface: "store_ok st \<Longrightarrow> distinct (tab_ids st) \<and> st_selected st \<in> set (tab_ids st)"
  by (simp add: store_ok_def tabs_wf_def)

lemma openKind_ok:
  assumes "store_ok (mn_tabs s)" and "p t" and "tab_ok t" and "\<And>u. tab_ok u \<Longrightarrow> tab_id u = tab_id t \<Longrightarrow> p u"
  shows "store_ok (mn_tabs (openKind p t (mn_tabs s) s)) \<and>
    p (selectedActualTab defaultTab (mn_tabs (openKind p t (mn_tabs s) s)))"
proof -
  have other: "\<forall>u \<in> set (st_tabs (mn_tabs s)). \<not> p u \<longrightarrow> tab_id u \<noteq> tab_id t"
    using assms(1,4) by (auto simp: store_ok_def list_all_iff)
  have "p (selectedActualTab defaultTab (tabStore.open_or_switch p t (mn_tabs s)))"
    using tabStore.open_or_switch_shows [OF store_ok_interface [OF assms(1)] assms(2) other] by blast
  moreover have "store_ok (tabStore.open_or_switch p t (mn_tabs s))"
  proof (cases "find p (st_tabs (mn_tabs s))")
    case None
    then have "tab_id t \<notin> set (tab_ids (mn_tabs s))"
      using other by (auto simp: find_None_iff)
    with None assms show ?thesis
      by (simp add: tabStore.open_or_switch_def store_ok_push)
  next
    case (Some u)
    then have "u \<in> set (st_tabs (mn_tabs s))"
      by (auto simp: find_Some_iff)
    with Some assms(1) show ?thesis
      by (simp add: tabStore.open_or_switch_def store_ok_switch)
  qed
  ultimately show ?thesis
    by (simp add: openKind_store)
qed

text \<open>
  What the user can do in a state, except for two things whose effect is described separately: reading
  a message that is open already, and Command-w on an unclosable tab. The identifier drawn for a new
  message is fresh. A tab has a close icon, and a page a way to close it, only if it is closable.
\<close>

definition fresh_write :: "rng \<Rightarrow> mainState \<Rightarrow> bool" where
  "fresh_write rnd s \<longleftrightarrow>
     unit_source rnd \<and>
     (case randomString rnd 10 of Some r \<Rightarrow> tab_id (writeTab r) \<notin> set (tab_ids (mn_tabs s)) | None \<Rightarrow> True)"

fun main_allowed :: "mainEvent \<Rightarrow> mainState \<Rightarrow> bool" where
  "main_allowed (ReadMessage m) s = (tab_id (readTab m) \<notin> set (tab_ids (mn_tabs s)))"
| "main_allowed (WriteMessage rnd) s = fresh_write rnd s"
| "main_allowed ClosePage s = (\<not> tab_unclosable (selectedTab s))"
| "main_allowed (ClickTab (SelectTab i)) s = (i \<in> set (tab_ids (mn_tabs s)))"
| "main_allowed (ClickTab (CloseTab i)) s = (i \<noteq> ''new'' \<and> i \<noteq> ''all'')"
| "main_allowed (TabKey e) s = (ev_meta e \<and> ev_key e = ''w'' \<longrightarrow> \<not> tab_unclosable (selectedTab s))"
| "main_allowed (PaletteEffect isMac rnd (KPerform c)) s =
     (c \<in> {PerformFriend, PerformWrite, PerformNextTab (mn_tabs Main_init), PerformSidebar False, PerformInstall} \<and>
      (c = PerformWrite \<longrightarrow> fresh_write rnd s))"
| "main_allowed ev s = True"

inductive main_reachable :: "daemonImpl \<Rightarrow> mainState \<Rightarrow> bool" for d :: daemonImpl where
  main_start: "main_reachable d Main_init"
| main_next: "main_reachable d s \<Longrightarrow> main_allowed ev s \<Longrightarrow> main_step d ev s = Some (Inr (calls, s')) \<Longrightarrow> main_reachable d s'"

inductive_cases main_reachableE: "main_reachable d s"

lemma main_wf_init: "main_wf Main_init"
  using store_ok_init by (simp add: main_wf_def Main_init_def modal_ok_def)

lemma writeMessage_ok:
  assumes "main_wf s" and "fresh_write rnd s"
  shows "\<exists>r. writeMessage rnd s = Some (s\<lparr>mn_tabs := pushTab (writeTab r) (mn_tabs s)\<rparr>) \<and>
    main_wf (s\<lparr>mn_tabs := pushTab (writeTab r) (mn_tabs s)\<rparr>)"
proof -
  obtain r where r: "randomString rnd 10 = Some r"
    using randomString_loop_total [of rnd "[]" 10 0] assms(2) by (auto simp: fresh_write_def randomString_def)
  then have "tab_id (writeTab r) \<notin> set (tab_ids (mn_tabs s))"
    using assms(2) by (simp add: fresh_write_def)
  then have "store_ok (pushTab (writeTab r) (mn_tabs s))"
    using assms(1) by (intro store_ok_push) (simp_all add: main_wf_def)
  then show ?thesis
    using assms(1) r by (intro exI [of _ r]) (simp add: writeMessage_def main_wf_def)
qed

lemma close_ok:
  assumes "store_ok st" and "\<not> tab_unclosable (selectedActualTab defaultTab st)"
  shows "store_ok (closeTab defaultTab r (tab_id (selectedActualTab defaultTab st)) st)"
  using store_ok_selected [OF assms(1)] tab_ok_kind [of "selectedActualTab defaultTab st"] assms
  by (intro store_ok_close) auto

lemma sideBar_kind:
  assumes "store_ok (mn_tabs s)"
  shows "store_ok (mn_tabs (sideBarCallback (mn_tabs s) b s)) \<and>
    (case b of
       INBOX \<Rightarrow> tab_type (selectedTab (sideBarCallback (mn_tabs s) b s)) = TabAll
     | OUTBOX \<Rightarrow> tab_type (selectedTab (sideBarCallback (mn_tabs s) b s)) = TabOutbox
     | SENT \<Rightarrow> tab_type (selectedTab (sideBarCallback (mn_tabs s) b s)) = TabSent
     | INVITATIONS \<Rightarrow> tab_type (selectedTab (sideBarCallback (mn_tabs s) b s)) = TabInvitations
     | ADD_FRIEND \<Rightarrow> mn_tabs (sideBarCallback (mn_tabs s) b s) = mn_tabs s)"
proof -
  let ?s = "s\<lparr>mn_sidebarOpen := False\<rparr>"
  have ok: "store_ok (mn_tabs ?s)"
    using assms by simp
  have kind: "store_ok (mn_tabs (openKind p t (mn_tabs s) ?s)) \<and> p (selectedTab (openKind p t (mn_tabs s) ?s))"
    if "p t" "tab_ok t" "\<And>u. tab_ok u \<Longrightarrow> tab_id u = tab_id t \<Longrightarrow> p u" for p t
    using openKind_ok [of ?s p t] ok that by (simp add: selectedTab_def)
  have inbox: "store_ok (switchTab ''all'' (mn_tabs s)) \<and>
      tab_type (selectedActualTab defaultTab (switchTab ''all'' (mn_tabs s))) = TabAll"
  proof -
    have all: "store_ok (switchTab ''all'' (mn_tabs s))"
      using assms by (intro store_ok_switch) (simp_all add: store_ok_def)
    have "tab_id (selectedActualTab defaultTab (switchTab ''all'' (mn_tabs s))) = ''all''"
      using all tabs_wf_shown [of defaultTab "switchTab ''all'' (mn_tabs s)"] by (simp add: store_ok_def)
    then show ?thesis
      using all store_ok_selected [OF all] tab_ok_kind by blast
  qed
  have outbox: "store_ok (mn_tabs (openOutbox (mn_tabs s) ?s)) \<and> tab_type (selectedTab (openOutbox (mn_tabs s) ?s)) = TabOutbox"
    unfolding openOutbox_def by (rule kind) (simp_all add: tab_ok_kind)
  have sent: "store_ok (mn_tabs (openSent (mn_tabs s) ?s)) \<and> tab_type (selectedTab (openSent (mn_tabs s) ?s)) = TabSent"
    unfolding openSent_def by (rule kind) (simp_all add: tab_ok_kind)
  have invitations: "store_ok (mn_tabs (sideBarCallback (mn_tabs s) INVITATIONS s)) \<and>
      tab_type (selectedTab (sideBarCallback (mn_tabs s) INVITATIONS s)) = TabInvitations"
    using kind [of "\<lambda>t. tab_type t = TabInvitations \<and> tab_id t = ''invitations''"
        "plainTab TabInvitations ''Invitations'' ''invitations'' False"]
    by (auto simp: sideBarCallback_def Let_def tab_ok_kind)
  show ?thesis
    using inbox outbox sent invitations ok
    by (cases b) (simp_all add: sideBarCallback_def Let_def selectedTab_def openFriendModal_def)
qed

lemma sideBar_modal: "modal_ok (mn_modal s) \<Longrightarrow> modal_ok (mn_modal (sideBarCallback r b s))"
  by (cases b) (simp_all add: sideBarCallback_def Let_def openOutbox_def openSent_def openFriendModal_def modal_ok_def)

lemma modal_ok_None: "modal_ok None"
  by (simp add: modal_ok_def)

lemma plain_tabs_edit [simp]: "mn_modal (editWrite r wd s) = mn_modal s"
  by (simp add: editWrite_def Let_def)

lemma tabKey_ok:
  assumes "store_ok st" and "ev_meta e \<and> ev_key e = ''w'' \<longrightarrow> \<not> tab_unclosable (selectedActualTab defaultTab st)"
  shows "\<exists>st'. TabContainer_onKeyDown defaultTab st e st = Inr st' \<and> store_ok st'"
  using store_ok_next [OF assms(1)] store_ok_previous [OF assms(1)] close_ok [OF assms(1)] assms
  by (auto simp: TabContainer_onKeyDown_def)

lemma nextTab_first_render:
  assumes "store_ok st"
  shows "\<exists>st'. nextTab (mn_tabs Main_init) st = Inr st' \<and> store_ok st' \<and> st_tabs st' = st_tabs st \<and>
    (st_selected st' = ''new'' \<or> st_selected st' = ''all'')"
proof -
  have "st_tabs (mn_tabs Main_init) \<noteq> []"
    by (simp add: Main_init_def defaultTabs_def)
  then obtain t where t: "t \<in> set defaultTabs" "nextTab (mn_tabs Main_init) st = Inr (switchTab (tab_id t) st)"
    using nextTab_total [of "mn_tabs Main_init" st] by (auto simp: Main_init_def)
  then have "tab_id t = ''new'' \<or> tab_id t = ''all''"
    by (auto simp: defaultTabs_def)
  moreover have "''new'' \<in> set (tab_ids st)" "''all'' \<in> set (tab_ids st)"
    using assms by (simp_all add: store_ok_def tabs_wf_def)
  ultimately have "store_ok (switchTab (tab_id t) st)"
    using assms by (auto intro!: store_ok_switch simp del: set_map)
  with t \<open>tab_id t = ''new'' \<or> tab_id t = ''all''\<close> show ?thesis by simp
qed

lemma command_ok:
  assumes "main_wf s" and "main_allowed (PaletteEffect isMac rnd (KPerform c)) s"
  shows "\<exists>s'. perform_command isMac rnd c s = Some (Inr s') \<and> main_wf s'"
proof (cases c)
  case PerformWrite
  then show ?thesis
    using writeMessage_ok [OF assms(1), of rnd] assms(2) by auto
next
  case (PerformNextTab r)
  then show ?thesis
    using nextTab_first_render [of "mn_tabs s"] assms by (auto simp: main_wf_def)
qed (use assms in \<open>auto simp: main_wf_def modal_ok_def openFriendModal_def\<close>)

lemma readMessage_new:
  assumes "store_ok (mn_tabs s)"
  shows "readMessage d (mn_tabs s) m s =
    Inr (fst (messageSeen d \<lparr>ms_id = message_uid m\<rparr>), s\<lparr>mn_tabs := pushTab (readTab m) (mn_tabs s)\<rparr>)"
  using findRead_None [of "st_tabs (mn_tabs s)"] assms by (simp add: readMessage_def store_ok_def)

lemma showStatus_fields [simp]:
  "mn_tabs (showStatus m s) = mn_tabs s" "mn_modal (showStatus m s) = mn_modal s"
  by (simp_all add: showStatus_def)

lemma main_step_ok:
  assumes "main_wf s" and "main_allowed ev s"
  shows "\<exists>calls s'. main_step d ev s = Some (Inr (calls, s')) \<and> main_wf s'"
proof -
  have store: "store_ok (mn_tabs s)" and modal: "modal_ok (mn_modal s)"
    using assms(1) by (auto simp: main_wf_def)
  show ?thesis
  proof (cases ev)
    case (ReadMessage m)
    then have "store_ok (pushTab (readTab m) (mn_tabs s))"
      using store assms(2) by (intro store_ok_push) simp_all
    then show ?thesis
      using ReadMessage modal by (simp add: main_step_def readMessage_new [OF store] main_wf_def)
  next
    case (EditWrite wd)
    then show ?thesis
      using store modal store_ok_edit [OF store] by (simp add: main_step_def main_wf_def editWrite_def Let_def)
  next
    case (WriteMessage rnd)
    then show ?thesis
      using writeMessage_ok [OF assms(1), of rnd] assms(2) by (auto simp: main_step_def)
  next
    case ClosePage
    then show ?thesis
      using close_ok [OF store] assms(2) modal
      by (simp add: main_step_def main_wf_def closePage_def selectedTab_def)
  next
    case (PressSideBar b)
    then show ?thesis
      using sideBar_kind [OF store, of b] sideBar_modal [OF modal] by (simp add: main_step_def main_wf_def)
  next
    case (ClickTab a)
    then show ?thesis
      using store modal assms(2)
      by (cases a) (auto simp: main_step_def main_wf_def intro!: store_ok_switch store_ok_close)
  next
    case (TabKey e)
    then show ?thesis
      using tabKey_ok [OF store, of e] modal assms(2) by (auto simp: main_step_def main_wf_def selectedTab_def)
  next
    case (PaletteEffect isMac rnd fx)
    then show ?thesis
    proof (cases fx)
      case (KPerform c)
      then show ?thesis
        using command_ok [OF assms(1), of isMac rnd c] assms(2) PaletteEffect by (auto simp: main_step_def)
    qed (use store modal in \<open>auto simp: main_step_def main_wf_def closeModal_def modal_ok_None\<close>)
  qed (use store modal in \<open>auto simp: main_step_def main_wf_def modal_ok_def closeModal_def openFriendModal_def
      handleIncomingInvitation_def onRegister_def hasRegistered_effect_def initialModal_effect_def Let_def
      split: sum.splits bool.splits\<close>)
qed

lemma main_wf_reachable: "main_reachable d s \<Longrightarrow> main_wf s"
proof (induction rule: main_reachable.induct)
  case main_start
  show ?case by (rule main_wf_init)
next
  case (main_next s ev calls s')
  then show ?case
    using main_step_ok [of s ev d] by auto
qed

lemma selectedComponent_data:
  assumes "store_ok (mn_tabs s)"
  shows "case selectedComponent s of
      ShowRead td \<Rightarrow> \<exists>m. td = ReadData m
    | ShowWrite td \<Rightarrow> \<exists>wd. td = WriteTabData wd
    | _ \<Rightarrow> True"
  using tab_ok_data [of "selectedTab s"] store_ok_selected [OF assms]
  by (auto simp: selectedComponent_def selectedTab_def Let_def split: tabType.splits)

section \<open>Properties\<close>

text \<open>
  C5. In every state that the window reaches by allowed events (all but reading a message that is open
  already and Command-w on an unclosable tab, whose effects are stated separately), nothing throws and
  every loop ends: each allowed event has a result. The tabs have distinct identifiers, both inbox tabs are open, the page that is
  shown gets the data of its kind (a message to read, a form to write), and the contact dialog always
  renders a screen, whatever is chosen in it.
\<close>

theorem main_window_safe:
  assumes "main_reachable d s" and "main_allowed ev s"
  shows "(\<exists>calls s'. main_step d ev s = Some (Inr (calls, s'))) \<and>
    distinct (tab_ids (mn_tabs s)) \<and> {''new'', ''all''} \<subseteq> set (tab_ids (mn_tabs s)) \<and>
    (case selectedComponent s of
       ShowRead td \<Rightarrow> \<exists>m. td = ReadData m
     | ShowWrite td \<Rightarrow> \<exists>wd. td = WriteTabData wd
     | _ \<Rightarrow> True) \<and>
    (case mn_modal s of
       Some (AddFriendModal p) \<Rightarrow> \<exists>c. AddFriend_render p (fold AddFriend_step acts (AddFriend_init p)) = Inr c
     | _ \<Rightarrow> True)"
proof -
  have wf: "main_wf s"
    using assms(1) by (rule main_wf_reachable)
  then have store: "store_ok (mn_tabs s)" and modal: "modal_ok (mn_modal s)"
    by (auto simp: main_wf_def)
  have "\<exists>c. AddFriend_render p (fold AddFriend_step acts (AddFriend_init p)) = Inr c"
    if "mn_modal s = Some (AddFriendModal p)" for p
    using AddFriend_steps_render [of p acts] modal that by (auto simp: modal_ok_def)
  then have "case mn_modal s of
       Some (AddFriendModal p) \<Rightarrow> \<exists>c. AddFriend_render p (fold AddFriend_step acts (AddFriend_init p)) = Inr c
     | _ \<Rightarrow> True"
    by (auto split: option.splits mainModal.splits)
  moreover have "\<exists>calls s'. main_step d ev s = Some (Inr (calls, s'))"
    using main_step_ok [OF wf assms(2), of d] by blast
  moreover have "distinct (tab_ids (mn_tabs s)) \<and> {''new'', ''all''} \<subseteq> set (tab_ids (mn_tabs s))"
    using store by (simp add: store_ok_def tabs_wf_def)
  ultimately show ?thesis
    using selectedComponent_data [OF store] by blast
qed

text \<open>
  The side bar. Each of its buttons closes it and shows the page it names: the inbox, the outbox, the
  sent messages or the invitations; and pressing the same button once more opens no second tab.
\<close>

theorem sideBar_shows:
  assumes "main_reachable d s" and "s1 = sideBarCallback (mn_tabs s) b s"
  shows "\<not> mn_sidebarOpen s1 \<and>
    (case b of
       INBOX \<Rightarrow> selectedComponent s1 = ShowIncomingList ListAll
     | OUTBOX \<Rightarrow> selectedComponent s1 = ShowOutgoingList Outbox
     | SENT \<Rightarrow> selectedComponent s1 = ShowOutgoingList Sent
     | INVITATIONS \<Rightarrow> selectedComponent s1 = ShowInvitations
     | ADD_FRIEND \<Rightarrow> selectedComponent s1 = selectedComponent s \<and> mn_modal s1 \<noteq> None) \<and>
    st_tabs (mn_tabs (sideBarCallback (mn_tabs s1) b s1)) = st_tabs (mn_tabs s1)"
proof -
  have store: "store_ok (mn_tabs s)"
    using main_wf_reachable [OF assms(1)] by (simp add: main_wf_def)
  have kind: "store_ok (mn_tabs s1)" "case b of
       INBOX \<Rightarrow> tab_type (selectedTab s1) = TabAll
     | OUTBOX \<Rightarrow> tab_type (selectedTab s1) = TabOutbox
     | SENT \<Rightarrow> tab_type (selectedTab s1) = TabSent
     | INVITATIONS \<Rightarrow> tab_type (selectedTab s1) = TabInvitations
     | ADD_FRIEND \<Rightarrow> mn_tabs s1 = mn_tabs s"
    using sideBar_kind [OF store, of b] unfolding assms(2) by blast+
  have closed: "\<not> mn_sidebarOpen s1"
    using assms(2) by (cases b) (simp_all add: sideBarCallback_def Let_def openOutbox_def openSent_def openFriendModal_def)
  have shown: "selectedTab s1 \<in> set (st_tabs (mn_tabs s1))" "tab_ok (selectedTab s1)"
    using store_ok_selected [OF kind(1)] by (simp_all add: selectedTab_def)
  have again: "st_tabs (mn_tabs (openKind p t (mn_tabs s1) u)) = st_tabs (mn_tabs s1)"
    if "p (selectedTab s1)" "mn_tabs u = mn_tabs s1" for p t u
    using that shown(1) by (auto simp: openKind_def find_None_iff split: option.split)
  have "st_tabs (mn_tabs (sideBarCallback (mn_tabs s1) b s1)) = st_tabs (mn_tabs s1)"
    using kind(2) again tab_ok_kind [OF shown(2)]
    by (cases b) (simp_all add: sideBarCallback_def Let_def openOutbox_def openSent_def openFriendModal_def)
  with closed kind(2) show ?thesis
    using assms(2) by (cases b) (simp_all add: selectedComponent_def selectedTab_def Let_def sideBarCallback_def openFriendModal_def)
qed

text \<open>
  Reading a message that is open already does not switch to its tab, since the callback looks for an
  \<open>id\<close> in the tab's data that messages do not have: it opens a second tab with the same identifier, and
  closing one of the two closes both.
\<close>

theorem read_twice_duplicates:
  assumes "main_reachable d s" and "tab_id (readTab m) \<notin> set (tab_ids (mn_tabs s))"
    and "readMessage d (mn_tabs s) m s = Inr (calls1, s1)" and "readMessage d (mn_tabs s1) m s1 = Inr (calls2, s2)"
  shows "st_tabs (mn_tabs s2) = st_tabs (mn_tabs s) @ [readTab m, readTab m] \<and>
    calls1 = calls2 \<and>
    st_tabs (closeTab defaultTab (mn_tabs s2) (tab_id (readTab m)) (mn_tabs s2)) = st_tabs (mn_tabs s)"
proof -
  have store: "store_ok (mn_tabs s)"
    using main_wf_reachable [OF assms(1)] by (simp add: main_wf_def)
  have "store_ok (pushTab (readTab m) (mn_tabs s))"
    using store assms(2) by (intro store_ok_push) simp_all
  then have s1: "s1 = s\<lparr>mn_tabs := pushTab (readTab m) (mn_tabs s)\<rparr>" "store_ok (mn_tabs s1)"
    "calls1 = fst (messageSeen d \<lparr>ms_id = message_uid m\<rparr>)"
    using assms(3) by (auto simp: readMessage_new [OF store])
  have "s2 = s1\<lparr>mn_tabs := pushTab (readTab m) (mn_tabs s1)\<rparr>" "calls2 = fst (messageSeen d \<lparr>ms_id = message_uid m\<rparr>)"
    using assms(4) unfolding readMessage_new [OF s1(2)] by simp_all
  then have s2: "st_tabs (mn_tabs s2) = st_tabs (mn_tabs s) @ [readTab m, readTab m]" "calls2 = calls1"
    using s1(1,3) by simp_all
  moreover have "filter (\<lambda>t. tab_id t \<noteq> tab_id (readTab m)) (st_tabs (mn_tabs s)) = st_tabs (mn_tabs s)"
    using assms(2) unfolding filter_id_conv by (metis image_eqI set_map)
  ultimately show ?thesis by simp
qed


text \<open>
  An address with a \<open>publicID\<close> opens the invitation form for exactly that identifier, once: after the
  dialog was closed the effect does not open it again; without a \<open>publicID\<close> no dialog is opened.
\<close>

theorem link_opens_invitation:
  "(\<exists>p. mn_modal (initialModal_effect (index_component (Some i)) Main_init) = Some (AddFriendModal p) \<and>
      AddFriend_render p (AddFriend_init p) = Inr (ShowPartTwo [] i)) \<and>
   mn_modal (initialModal_effect (index_component (Some i))
     (closeModal (initialModal_effect (index_component (Some i)) Main_init))) = None \<and>
   mn_modal (initialModal_effect (index_component None) Main_init) = None"
  by (simp add: initialModal_effect_def index_component_def Main_init_def closeModal_def AddFriend_init_def
      AddFriend_render_def Let_def)

text \<open>
  The registration dialog, which cannot be closed by clicking beside it, is dismissed by opening and
  closing the palette (Command-k, Escape): nobody is registered, and the window can be used.
\<close>

theorem palette_dismisses_registration:
  assumes "mn_modal s = Some RegisterDialog" and "matcher_ok matchSorter" and "kbar_ok palette_actions k"
    and "\<not> kb_showing k" and "isModKey isMac e" and "ev_key e = ''k''"
  shows "\<exists>k1 k2 fx1 fx2. kbar_run isMac matchSorter palette_actions [KeyDown e False True t1, TimerFires] k = Some (Inr (k1, fx1)) \<and>
    kbar_run isMac matchSorter palette_actions [KeyDown (plain_key ''Escape'') False True t2, TimerFires] k1 = Some (Inr (k2, fx2)) \<and>
    palette_effects isMac rnd (fx1 @ fx2) s = Some (Inr (s\<lparr>mn_modal := None\<rparr>))"
proof -
  obtain k1 k2 where "kbar_run isMac matchSorter palette_actions [KeyDown e False True t1, TimerFires] k = Some (Inr (k1, [KOpen]))"
    "kbar_run isMac matchSorter palette_actions [KeyDown (plain_key ''Escape'') False True t2, TimerFires] k1 = Some (Inr (k2, [KClose]))"
    using open_close_run [OF palette_actions_closed assms(2-6), of t1 t2] by blast
  then show ?thesis
    by (intro exI [of _ k1] exI [of _ k2] exI [of _ "[KOpen]"] exI [of _ "[KClose]"]) (simp add: closeModal_def)
qed

text \<open>
  Pressing c outside a text field composes: the palette's shortcut performs the write command, and a
  new tab with an empty form is shown, in addition to the tabs that were open.
\<close>

theorem compose_by_shortcut:
  assumes "main_reachable d s" and "fresh_write rnd s" and "kb_buffer k = []"
  shows "\<exists>s' t. palette_effects isMac rnd (snd (type_keys palette_actions [(''c'', now)] k)) s = Some (Inr s') \<and>
    selectedComponent s' = ShowWrite (WriteTabData emptyWrite) \<and>
    st_tabs (mn_tabs s') = st_tabs (mn_tabs s) @ [t]"
proof -
  have wf: "main_wf s"
    using assms(1) by (rule main_wf_reachable)
  obtain r where r: "writeMessage rnd s = Some (s\<lparr>mn_tabs := pushTab (writeTab r) (mn_tabs s)\<rparr>)"
    "main_wf (s\<lparr>mn_tabs := pushTab (writeTab r) (mn_tabs s)\<rparr>)"
    using writeMessage_ok [OF wf assms(2)] by blast
  let ?s' = "s\<lparr>mn_tabs := pushTab (writeTab r) (mn_tabs s)\<rparr>"
  have "distinct (tab_ids (mn_tabs ?s'))"
    using r(2) by (simp add: main_wf_def store_ok_def tabs_wf_def)
  then have shown: "selectedTab ?s' = writeTab r"
    by (simp add: selectedTab_def selectedActualTab_of_member)
  have match: "shortcut_match palette_actions [''c''] = Some (''write'', 1)"
    by (simp add: shortcut_match_def palette_actions_def cmdKActions_def mainAction_def newActionImpl_def)
  have "snd (type_keys palette_actions [(''c'', now)] k) = [KPerform PerformWrite, KSelect ''write'']"
    using match assms(3)
    by (subst type_keys_match [where i = "''write''" and a = 1])
      (simp_all add: letter_key_def js_toLowerCase_def js_lower_char_def shortcut_fire_def palette_actions_def
        cmdKActions_def mainAction_def newActionImpl_def Let_def)
  then show ?thesis
    using r(1) shown
    by (intro exI [of _ ?s'] exI [of _ "writeTab r"]) (simp add: selectedComponent_def writeTab_def Let_def)
qed

text \<open>
  Registering makes one call with the name and the key. When the daemon accepts, the dialog closes and
  the user is told; when it refuses, the dialog stays and the failure is shown. Either status is shown
  for its ten seconds if nothing else is set.
\<close>

theorem register_outcome:
  assumes "0 \<le> t" and "t < 10000" and "su_timers (mn_status s) = []"
  shows "fst (onRegister d u key s) = [RpcRegisterUser \<lparr>ru_name = u, ru_betaKey = key\<rparr>] \<and>
    (case cl_registerUser (di_client d) \<lparr>ru_name = u, ru_betaKey = key\<rparr> of
       Inr (Some _) \<Rightarrow> mn_modal (snd (onRegister d u key s)) = None \<and>
         su_message (mn_status (snd (onRegister d u key s))) = ''Registered!''
     | _ \<Rightarrow> mn_modal (snd (onRegister d u key s)) = mn_modal s \<and>
         su_message (mn_status (snd (onRegister d u key s))) = ''Unable to register. Perhaps incorrect access key?'') \<and>
    su_display (status_run [Wait t] (mn_status (snd (onRegister d u key s))))"
  using assms
  by (auto simp: onRegister_def registerUser_def new_registerUserRequest_def unary_def showStatus_def closeModal_def
      status_run_def Let_def split: sum.splits option.splits)

section \<open>Witnesses\<close>

definition sample_message :: anyMessage where
  "sample_message = Incoming (hd (fake_getMessages 0 FilterNEW))"

theorem main_window_safe_witness:
  "\<exists>calls s'. main_step (sample_daemon True) (ReadMessage sample_message) Main_init = Some (Inr (calls, s'))"
  using main_window_safe [OF main_start, of "ReadMessage sample_message" "sample_daemon True"]
  by (simp add: Main_init_def defaultTabs_def readTab_def)

theorem sideBar_shows_witness:
  "selectedComponent (sideBarCallback (mn_tabs Main_init) SENT Main_init) = ShowOutgoingList Sent"
  using sideBar_shows [OF main_start refl, of SENT] by simp

theorem read_twice_duplicates_witness:
  "st_tabs (pushTab (readTab sample_message) (pushTab (readTab sample_message) (mn_tabs Main_init)))
   = defaultTabs @ [readTab sample_message, readTab sample_message]"
proof -
  let ?s1 = "Main_init\<lparr>mn_tabs := pushTab (readTab sample_message) (mn_tabs Main_init)\<rparr>"
  let ?s2 = "?s1\<lparr>mn_tabs := pushTab (readTab sample_message) (mn_tabs ?s1)\<rparr>"
  have fresh: "tab_id (readTab sample_message) \<notin> set (tab_ids (mn_tabs Main_init))"
    by (simp add: Main_init_def defaultTabs_def readTab_def)
  have "store_ok (mn_tabs ?s1)"
    using store_ok_init fresh by (auto intro!: store_ok_push simp del: set_map)
  then have "st_tabs (mn_tabs ?s2) = st_tabs (mn_tabs Main_init) @ [readTab sample_message, readTab sample_message]"
    using read_twice_duplicates [where d = "sample_daemon True", OF main_start fresh readMessage_new [OF store_ok_init] readMessage_new]
    by blast
  then show ?thesis
    by (simp add: Main_init_def)
qed


theorem palette_dismisses_registration_witness:
  "\<exists>fx1 fx2. palette_effects True (\<lambda>k. 0) (fx1 @ fx2) (Main_init\<lparr>mn_modal := Some RegisterDialog\<rparr>)
     = Some (Inr (Main_init\<lparr>mn_modal := None\<rparr>))"
proof -
  let ?e = "\<lparr>ev_key = ''k'', ev_ctrl = False, ev_shift = False, ev_meta = True\<rparr>"
  have "mn_modal (Main_init\<lparr>mn_modal := Some RegisterDialog\<rparr>) = Some RegisterDialog" "\<not> kb_showing (useStore_init 0)"
    "isModKey True ?e" "ev_key ?e = ''k''"
    by (simp_all add: useStore_init_def kb_showing_def isModKey_def)
  from palette_dismisses_registration [OF this(1) all_match_ok kbar_ok_init this(2-4), of 0 0 "\<lambda>k. 0"]
  show ?thesis by auto
qed

theorem compose_by_shortcut_witness:
  "\<exists>s' t. palette_effects False (\<lambda>k. 0) (snd (type_keys palette_actions [(''c'', 5)] (useStore_init 0))) Main_init
     = Some (Inr s') \<and> st_tabs (mn_tabs s') = defaultTabs @ [t]"
proof -
  have "fresh_write (\<lambda>k. 0) Main_init"
    by (auto simp: fresh_write_def unit_source_def Main_init_def defaultTabs_def writeTab_def split: option.split)
  from compose_by_shortcut [OF main_start this, of "useStore_init 0" False 5] show ?thesis
    by (auto simp: useStore_init_def Main_init_def)
qed

theorem register_outcome_witness:
  "su_display (status_run [Wait 9999] (mn_status (snd (onRegister (sample_daemon False) ''No Name'' ''key'' Main_init))))"
  using register_outcome [of 9999 Main_init] by (simp add: Main_init_def StatusHandler_init_def)

end
