(* ===== verification/MainTotal.thy ===== *)
theory MainTotal imports MainView begin

text \<open>
  The main window under every sequence of events, also those that \<open>main_allowed\<close> excludes: an
  invariant that needs neither distinct identifiers nor open inbox tabs, and the one exception that is
  left.
\<close>

section \<open>Events\<close>

text \<open>
  Random numbers are from the unit interval, and the palette's command Next Tab is the one of the
  first render; nothing else is asked of an event.
\<close>

fun real_event :: "mainEvent \<Rightarrow> bool" where
  "real_event (WriteMessage rnd) = unit_source rnd"
| "real_event (PaletteEffect isMac rnd (KPerform c)) =
     (case c of PerformWrite \<Rightarrow> unit_source rnd | PerformNextTab r \<Rightarrow> r = mn_tabs Main_init | _ \<Rightarrow> True)"
| "real_event ev = True"

definition main_typed :: "mainState \<Rightarrow> bool" where
  "main_typed s \<longleftrightarrow> list_all tab_ok (st_tabs (mn_tabs s)) \<and> modal_ok (mn_modal s)"

text \<open>The page that is shown gets the data of its kind.\<close>

definition page_typed :: "mainComponent \<Rightarrow> bool" where
  "page_typed c \<longleftrightarrow>
     (case c of
        ShowRead td \<Rightarrow> (case td of ReadData m \<Rightarrow> True | _ \<Rightarrow> False)
      | ShowWrite td \<Rightarrow> (case td of WriteTabData wd \<Rightarrow> True | _ \<Rightarrow> False)
      | _ \<Rightarrow> True)"

definition cycles_tabs :: "keyEvent \<Rightarrow> bool" where
  "cycles_tabs e \<longleftrightarrow> ev_ctrl e \<and> ev_key e = ''Tab''"

lemma selected_typed:
  assumes "list_all tab_ok (st_tabs st)"
  shows "tab_ok (selectedActualTab defaultTab st)"
  using assms by (auto simp: selectedActualTab_def list_all_iff find_Some_iff split: option.split)

lemma typed_tabs [simp]:
  "list_all tab_ok (st_tabs (switchTab i st)) = list_all tab_ok (st_tabs st)"
  "list_all tab_ok (st_tabs (pushTab t st)) = (list_all tab_ok (st_tabs st) \<and> tab_ok t)"
  "list_all tab_ok ts \<Longrightarrow> list_all tab_ok (filter p ts)"
  by (auto simp: tab_defs list_all_iff Let_def)

lemma typed_step:
  "nextTab r st = Inr st' \<Longrightarrow> st_tabs st' = st_tabs st"
  "previousTab r st = Inr st' \<Longrightarrow> st_tabs st' = st_tabs st"
  by (auto simp: tab_defs tab_at_def split: if_splits)

lemma cycling_throws:
  "nextTab r st = Inl e \<Longrightarrow> st_tabs r = []"
  "previousTab r st = Inl e \<Longrightarrow> st_tabs r = []"
  by (auto simp: tab_defs tab_at_def split: if_splits)

lemma typed_openKind:
  assumes "list_all tab_ok (st_tabs (mn_tabs s))" and "tab_ok t"
  shows "list_all tab_ok (st_tabs (mn_tabs (openKind p t r s)))"
  using assms by (simp add: openKind_def split: option.split)

lemma typed_edit:
  assumes "list_all tab_ok (st_tabs (mn_tabs s))"
  shows "list_all tab_ok (st_tabs (mn_tabs (editWrite (mn_tabs s) wd s)))"
proof (cases "tab_type (selectedActualTab defaultTab (mn_tabs s)) = TabWrite")
  case True
  then obtain r v where "selectedActualTab defaultTab (mn_tabs s) = (writeTab r)\<lparr>tab_data := WriteTabData v\<rparr>"
    using selected_typed [OF assms] by (auto simp: tab_ok_def)
  moreover have "tab_ok ((writeTab r)\<lparr>tab_data := WriteTabData wd\<rparr>)"
    by (auto simp: tab_ok_def writeTab_def)
  ultimately show ?thesis
    using assms by (auto simp: editWrite_def updateTab_def list_all_iff Let_def)
qed (simp add: editWrite_def assms)

lemma typed_write:
  assumes "unit_source rnd" and "main_typed s"
  shows "\<exists>s'. writeMessage rnd s = Some s' \<and> main_typed s'"
  using randomString_loop_total [OF assms(1), of "[]" 10 0] assms(2)
  by (auto simp: writeMessage_def randomString_def main_typed_def)

lemma typed_sideBar: "main_typed s \<Longrightarrow> main_typed (sideBarCallback (mn_tabs s) b s)"
  using sideBar_modal [of s "mn_tabs s" b]
  by (cases b)
    (auto simp: main_typed_def sideBarCallback_def openOutbox_def openSent_def openFriendModal_def Let_def
      intro!: typed_openKind)

lemma typed_tabKey:
  assumes "list_all tab_ok (st_tabs st)"
  shows "case TabContainer_onKeyDown defaultTab st e st of
      Inr st' \<Rightarrow> list_all tab_ok (st_tabs st')
    | Inl x \<Rightarrow> st_tabs st = [] \<and> cycles_tabs e"
  using assms
  by (auto simp: TabContainer_onKeyDown_def cycles_tabs_def typed_step split: sum.split dest: cycling_throws)

lemma typed_command:
  assumes "main_typed s" and "real_event (PaletteEffect isMac rnd (KPerform c))"
  shows "\<exists>s'. perform_command isMac rnd c s = Some (Inr s') \<and> main_typed s'"
proof (cases c)
  case PerformWrite
  then show ?thesis
    using typed_write [of rnd s] assms by auto
next
  case (PerformNextTab r)
  then have "st_tabs r \<noteq> []"
    using assms(2) by (simp add: Main_init_def defaultTabs_def)
  then obtain st' where "nextTab r (mn_tabs s) = Inr st'"
    using cycling_throws(1) [of r "mn_tabs s"] by (cases "nextTab r (mn_tabs s)") auto
  with PerformNextTab show ?thesis
    using assms(1) by (simp add: main_typed_def typed_step)
qed (use assms(1) in \<open>auto simp: main_typed_def modal_ok_def openFriendModal_def\<close>)

lemma readMessage_typed:
  "main_typed s \<Longrightarrow> \<exists>calls s'. readMessage d (mn_tabs s) m s = Inr (calls, s') \<and> main_typed s'"
  by (auto simp: readMessage_def main_typed_def findRead_None)

section \<open>The invariant of every event\<close>

lemma main_step_typed:
  assumes "main_typed s" and "real_event ev"
  shows "case main_step d ev s of
      None \<Rightarrow> False
    | Some (Inr (calls, s')) \<Rightarrow> main_typed s'
    | Some (Inl e) \<Rightarrow> st_tabs (mn_tabs s) = [] \<and> (\<exists>k. ev = TabKey k \<and> cycles_tabs k)"
proof (cases ev)
  case (ReadMessage m)
  then show ?thesis
    using readMessage_typed [OF assms(1), of d m] by (auto simp: main_step_def)
next
  case (EditWrite wd)
  then show ?thesis
    using typed_edit [of s wd] assms(1) by (simp add: main_step_def main_typed_def)
next
  case (WriteMessage rnd)
  then show ?thesis
    using typed_write [of rnd s] assms by (auto simp: main_step_def)
next
  case (PressSideBar b)
  then show ?thesis
    using typed_sideBar [OF assms(1), of b] by (simp add: main_step_def)
next
  case (ClickTab a)
  then show ?thesis
    using assms(1) by (cases a) (simp_all add: main_step_def main_typed_def)
next
  case (TabKey e)
  then show ?thesis
    using typed_tabKey [of "mn_tabs s" e] assms(1)
    by (cases "TabContainer_onKeyDown defaultTab (mn_tabs s) e (mn_tabs s)")
      (auto simp: main_step_def main_typed_def)
next
  case (PaletteEffect isMac rnd fx)
  show ?thesis
  proof (cases fx)
    case (KPerform c)
    then obtain s' where "perform_command isMac rnd c s = Some (Inr s')" "main_typed s'"
      using typed_command [OF assms(1), of isMac rnd c] assms(2) PaletteEffect by blast
    then show ?thesis
      using PaletteEffect KPerform by (simp add: main_step_def)
  qed (use PaletteEffect assms(1) in \<open>simp_all add: main_step_def main_typed_def closeModal_def modal_ok_None\<close>)
qed (use assms(1) in \<open>auto simp: main_step_def main_typed_def closePage_def openFriendModal_def closeModal_def
    handleIncomingInvitation_def modal_ok_def onRegister_def hasRegistered_effect_def initialModal_effect_def Let_def
    split: sum.splits bool.splits\<close>)

lemma main_run_Cons:
  "main_step d ev s = Some (Inr (calls, s')) \<Longrightarrow>
   main_run d (ev # evs) s = map_option (\<lambda>r. bind_result r (\<lambda>(calls', s''). Inr (calls @ calls', s''))) (main_run d evs s')"
  by simp

text \<open>Where an exception comes from: a beginning of the events that emptied the tab bar.\<close>

definition emptied :: "daemonImpl \<Rightarrow> mainEvent list \<Rightarrow> mainState \<Rightarrow> bool" where
  "emptied d evs s \<longleftrightarrow>
     (\<exists>evs1 k evs2 calls s'. evs = evs1 @ TabKey k # evs2 \<and> cycles_tabs k \<and>
        main_run d evs1 s = Some (Inr (calls, s')) \<and> st_tabs (mn_tabs s') = [])"

lemma emptied_Cons:
  assumes "main_step d ev s = Some (Inr (calls, s'))" and "emptied d evs s'"
  shows "emptied d (ev # evs) s"
proof -
  obtain evs1 k evs2 cs t where "evs = evs1 @ TabKey k # evs2" "cycles_tabs k"
      "main_run d evs1 s' = Some (Inr (cs, t))" "st_tabs (mn_tabs t) = []"
    using assms(2) by (auto simp: emptied_def)
  then show ?thesis
    unfolding emptied_def using assms(1)
    by (intro exI [of _ "ev # evs1"] exI [of _ k] exI [of _ evs2] exI [of _ "calls @ cs"] exI [of _ t]) simp
qed

lemma main_run_typed:
  assumes "main_typed s" and "list_all real_event evs"
  shows "case main_run d evs s of
      None \<Rightarrow> False
    | Some (Inr (calls, s')) \<Rightarrow> main_typed s'
    | Some (Inl e) \<Rightarrow> emptied d evs s"
  using assms
proof (induction evs arbitrary: s)
  case (Cons ev evs)
  note step = main_step_typed [OF Cons.prems(1), of ev d]
  show ?case
  proof (cases "main_step d ev s")
    case None
    then show ?thesis
      using step Cons.prems(2) by simp
  next
    case (Some r)
    show ?thesis
    proof (cases r)
      case (Inl e)
      then have "\<exists>k. ev = TabKey k \<and> cycles_tabs k" "st_tabs (mn_tabs s) = []"
        using step Cons.prems(2) Some by auto
      then have "emptied d (ev # evs) s"
        unfolding emptied_def by (intro exI [of _ "[]"]) auto
      with Some Inl show ?thesis by simp
    next
      case (Inr cs)
      obtain calls s' where cs: "cs = (calls, s')" by (cases cs)
      have typed: "main_typed s'"
        using step Cons.prems(2) Some Inr cs by simp
      show ?thesis
        using Cons.IH [OF typed] Cons.prems(2) Some Inr cs emptied_Cons [of d ev s calls s' evs]
        by (auto split: option.splits sum.splits)
    qed
  qed
qed simp

lemma main_typed_init: "main_typed Main_init"
  by (simp add: main_typed_def Main_init_def defaultTabs_def modal_ok_def)

lemma main_typed_page: "main_typed s \<Longrightarrow> page_typed (selectedComponent s)"
  using selected_typed [of "mn_tabs s"] tab_ok_data [of "selectedTab s"]
  by (auto simp: main_typed_def page_typed_def selectedComponent_def selectedTab_def Let_def split: tabType.splits)

section \<open>Properties\<close>

text \<open>
  C6. Whatever happens, in any order, reading a message twice and closing the inbox tabs included: every
  loop ends, and afterwards the shown page has the data of its kind and the contact dialog renders a
  screen, whatever was chosen in it. The only exception is that of cycling through the tabs with
  Control-Tab when all of them have been closed.
\<close>

theorem main_total:
  assumes "list_all real_event evs"
  shows "case main_run d evs Main_init of
      None \<Rightarrow> False
    | Some (Inr (calls, s)) \<Rightarrow>
        page_typed (selectedComponent s) \<and>
        (case mn_modal s of
           Some (AddFriendModal p) \<Rightarrow> \<exists>c. AddFriend_render p (fold AddFriend_step acts (AddFriend_init p)) = Inr c
         | _ \<Rightarrow> True)
    | Some (Inl e) \<Rightarrow> emptied d evs Main_init"
proof -
  have "\<exists>c. AddFriend_render p (fold AddFriend_step acts (AddFriend_init p)) = Inr c"
    if "modal_ok (Some (AddFriendModal p))" for p
    using AddFriend_steps_render [of p acts] that by (auto simp: modal_ok_def)
  then show ?thesis
    using main_run_typed [OF main_typed_init assms, of d] main_typed_page
    by (auto simp: main_typed_def split: option.splits sum.splits mainModal.splits)
qed

text \<open>The witness goes to the other inbox tab, closes both with Command-w and presses Control-Tab again.\<close>

definition command_w :: keyEvent where
  "command_w = (plain_key ''w'')\<lparr>ev_meta := True\<rparr>"

definition control_tab :: keyEvent where
  "control_tab = (plain_key ''Tab'')\<lparr>ev_ctrl := True\<rparr>"

theorem main_total_witness:
  "(\<exists>e. main_run (sample_daemon False) [TabKey control_tab, TabKey command_w, TabKey command_w, TabKey control_tab] Main_init = Some (Inl e)) \<and>
   emptied (sample_daemon False) [TabKey control_tab, TabKey command_w, TabKey command_w, TabKey control_tab] Main_init"
proof -
  have throws: "\<exists>e. main_run (sample_daemon False) [TabKey control_tab, TabKey command_w, TabKey command_w, TabKey control_tab] Main_init = Some (Inl e)"
    by (simp add: main_step_def TabContainer_onKeyDown_def command_w_def control_tab_def plain_key_def Main_init_def
        defaultTabs_def selectedActualTab_def closeTab_def nextTab_def tab_at_def js_rem_def)
  then show ?thesis
    using main_total [of "[TabKey control_tab, TabKey command_w, TabKey command_w, TabKey control_tab]" "sample_daemon False"] by auto
qed

end
