(* ===== verification/Keyboard.thy ===== *)
theory Keyboard imports MainView begin

text \<open>
  The keyboard of the whole window. Every component that is mounted adds its own listener to the
  window, and every one of them sees every key: the tab bar, the page, the dialog, the palette with its
  own dialog, and the side bar. For a key and a render, a listener is the list of the callbacks it calls;
  a key is answered by the listeners whose list is not empty. What the callbacks do is described with
  the components.
\<close>

section \<open>Listeners\<close>

text \<open>What the render shows: the state of the window and of the palette, and the rows of the mounted lists.\<close>

record windowView =
  wv_main :: mainState
  wv_kbar :: kbarState
  wv_incoming :: "incomingMessage list"
  wv_outgoing :: "outgoingMessage list"
  wv_invited :: "incomingAsyncInvitation list"
  wv_inviting :: "outgoingAsyncInvitation list"
  wv_recipients :: "(string, multiSelectData) listItem row list"
  wv_editor :: "string option"
  wv_active :: int
  wv_second :: int
  wv_sideActive :: int

datatype windowRequest =
    CycleTabs
  | CloseSelectedTab
  | SelectRow int
  | SelectSecondRow int
  | SelectSideRow int
  | RunRead readAction
  | RunInvitation incomingAsyncInvitation
  | RunSideBar sideBarButton
  | PageClose
  | PageRemote rpc
  | PageWrites writeEffect
  | ChooseRecipients multiSelectData
  | CloseDialog
  | PaletteChanges
  | PaletteCalls "mainCommand kbarEffect"

definition list_requests :: "(int \<Rightarrow> 'r) \<Rightarrow> ('e \<Rightarrow> 'r) \<Rightarrow> int \<Rightarrow> int \<times> 'e list \<Rightarrow> 'r list" where
  "list_requests select run k r = (if fst r \<noteq> k then [select (fst r)] else []) @ map run (snd r)"

definition tab_listener :: "keyEvent \<Rightarrow> windowRequest list" where
  "tab_listener e =
     (if ev_ctrl e \<and> ev_key e = ''Tab'' then [CycleTabs]
      else if ev_meta e \<and> ev_key e = ''w'' then [CloseSelectedTab] else [])"

text \<open>The compose page has two listeners: its own, and that of the list of contacts while it is shown.\<close>

definition write_listener :: "daemonImpl \<Rightarrow> windowView \<Rightarrow> writeData \<Rightarrow> keyEvent \<Rightarrow> windowRequest list" where
  "write_listener d v wd e =
     (let r = Write_onKeyDown d (wv_editor v) e wd
      in map PageRemote (fst r) @ map PageWrites (snd r) @
         (if wd_focus wd = FocusTo \<and> wv_recipients v \<noteq> []
          then list_requests SelectRow ChooseRecipients (wv_active v)
                 (SelectableList_onKeyDown (wv_recipients v) [] True e (wv_active v))
          else []))"

definition page_listener :: "daemonImpl \<Rightarrow> windowView \<Rightarrow> keyEvent \<Rightarrow> windowRequest list" where
  "page_listener d v e =
     (case selectedComponent (wv_main v) of
        ShowIncomingList ty \<Rightarrow>
          list_requests SelectRow RunRead (wv_active v)
            (SelectableList_onKeyDown (incomingItems (wv_incoming v)) [] False e (wv_active v))
      | ShowOutgoingList ty \<Rightarrow>
          list_requests SelectRow RunRead (wv_active v)
            (SelectableList_onKeyDown (outgoingItems (wv_outgoing v)) [] False e (wv_active v))
      | ShowRead td \<Rightarrow> snd (Read_onKeyDown PageClose e)
      | ShowWrite td \<Rightarrow> (case td of WriteTabData wd \<Rightarrow> write_listener d v wd e | _ \<Rightarrow> [])
      | ShowInvitations \<Rightarrow>
          list_requests SelectRow RunInvitation (wv_active v)
            (SelectableList_onKeyDown (incomingInvitationItems (wv_invited v)) [] False e (wv_active v)) @
          list_requests SelectSecondRow RunInvitation (wv_second v)
            (SelectableList_onKeyDown (outgoingInvitationItems (wv_inviting v)) [] False e (wv_second v)))"

text \<open>The registration dialog has a callback that only logs.\<close>

definition dialog_listener :: "windowView \<Rightarrow> keyEvent \<Rightarrow> windowRequest list" where
  "dialog_listener v e =
     (case mn_modal (wv_main v) of
        None \<Rightarrow> []
      | Some RegisterDialog \<Rightarrow> []
      | Some m \<Rightarrow> Modal_onKeyDown CloseDialog e)"

definition palette_listener ::
  "bool \<Rightarrow> windowView \<Rightarrow> bool \<Rightarrow> bool \<Rightarrow> int \<Rightarrow> keyEvent \<Rightarrow> windowRequest list" where
  "palette_listener isMac v prevented rejected now e =
     (let s = wv_kbar v; r = kbar_onKeyDown isMac palette_actions e prevented rejected now s
      in (if kb_visual (fst r) \<noteq> kb_visual s \<or> kb_active (fst r) \<noteq> kb_active s \<or> kb_root (fst r) \<noteq> kb_root s
          then [PaletteChanges] else []) @
         map PaletteCalls (snd r) @
         (if kb_showing s then Modal_onKeyDown CloseDialog e else []))"

definition side_listener :: "windowView \<Rightarrow> keyEvent \<Rightarrow> windowRequest list" where
  "side_listener v e =
     (if mn_sidebarOpen (wv_main v)
      then list_requests SelectSideRow RunSideBar (wv_sideActive v) (SideBar_onKeyDown e (wv_sideActive v)) else [])"

text \<open>The answers to a key, one for each listener that does something.\<close>

definition answers ::
  "daemonImpl \<Rightarrow> bool \<Rightarrow> windowView \<Rightarrow> bool \<Rightarrow> bool \<Rightarrow> int \<Rightarrow> keyEvent \<Rightarrow> windowRequest list list" where
  "answers d isMac v prevented rejected now e =
     filter (\<lambda>rs. rs \<noteq> [])
       [tab_listener e, page_listener d v e, dialog_listener v e,
        palette_listener isMac v prevented rejected now e, side_listener v e]"

section \<open>A plain page\<close>

definition plain_page :: "windowView \<Rightarrow> bool" where
  "plain_page v \<longleftrightarrow>
     mn_modal (wv_main v) = None \<and> kb_visual (wv_kbar v) = Hidden \<and> \<not> mn_sidebarOpen (wv_main v) \<and>
     (case selectedComponent (wv_main v) of ShowWrite td \<Rightarrow> False | _ \<Rightarrow> True)"

definition page_keys :: "string list" where
  "page_keys = [''ArrowUp'', ''ArrowDown'', ''k'', ''j'', ''Enter'', ''Escape'']"

lemma lower_keys:
  "js_toLowerCase ''Tab'' = ''tab''" "js_toLowerCase ''w'' = ''w''" "js_toLowerCase ''ArrowUp'' = ''arrowup''"
  "js_toLowerCase ''ArrowDown'' = ''arrowdown''" "js_toLowerCase ''k'' = ''k''" "js_toLowerCase ''j'' = ''j''"
  "js_toLowerCase ''Enter'' = ''enter''" "js_toLowerCase ''Escape'' = ''escape''"
  by code_simp+

lemma list_requests_key:
  assumes "list_requests f g k (SelectableList_onKeyDown rows [] b e k) \<noteq> []"
  shows "ev_key e \<in> {''ArrowUp'', ''ArrowDown'', ''k'', ''j'', ''Enter''}"
  using assms by (auto simp: list_requests_def SelectableList_onKeyDown_def split: if_splits)

lemma page_listener_key:
  assumes "plain_page v" and "page_listener d v e \<noteq> []"
  shows "ev_key e \<in> set page_keys"
  using assms
  by (auto simp: page_listener_def plain_page_def page_keys_def Read_onKeyDown_def
      dest!: list_requests_key split: mainComponent.splits if_splits)

text \<open>No shortcut of the window ends with a key that pages and the tab bar use.\<close>

lemma shortcut_last:
  assumes "shortcut_match palette_actions buffer = Some x"
  shows "last (concat buffer) \<in> set ''fc/tmh''"
proof -
  obtain k a where x: "x = (k, a)" by (cases x)
  then have "(k, a) \<in> set (if_actions palette_actions)"
      "\<exists>keys. ai_shortcut (if_heap palette_actions ! a) = Some keys \<and> js_join [] keys = js_join [] buffer"
    using assms by (auto simp: shortcut_match_def find_Some_iff in_set_conv_nth split: option.splits)
  then have "js_join [] buffer \<in> {''f'', ''c'', ''/'', ''gt'', ''m'', ''h''}"
    by (auto simp: palette_actions_def cmdKActions_def mainAction_def newActionImpl_def)
  then show ?thesis
    by (auto simp: js_join_empty_sep)
qed

lemma shortcuts_silent:
  assumes "js_toLowerCase (ev_key e) \<noteq> []" and "last (js_toLowerCase (ev_key e)) \<notin> set ''fc/tmh''"
  shows "snd (useShortcuts_onKeyDown palette_actions rejected now e s) = [] \<and>
    kb_visual (fst (useShortcuts_onKeyDown palette_actions rejected now e s)) = kb_visual s \<and>
    kb_active (fst (useShortcuts_onKeyDown palette_actions rejected now e s)) = kb_active s \<and>
    kb_root (fst (useShortcuts_onKeyDown palette_actions rejected now e s)) = kb_root s"
proof -
  have "shortcut_match palette_actions (b @ [js_toLowerCase (ev_key e)]) = None" for b
    using shortcut_last [of "b @ [js_toLowerCase (ev_key e)]"] assms
    by (cases "shortcut_match palette_actions (b @ [js_toLowerCase (ev_key e)])") auto
  then show ?thesis
    by (simp add: useShortcuts_onKeyDown_def Let_def)
qed

lemma palette_silent:
  assumes "kb_visual (wv_kbar v) = Hidden" and "\<not> (isModKey isMac e \<and> ev_key e = ''k'')"
    and "js_toLowerCase (ev_key e) \<noteq> []" and "last (js_toLowerCase (ev_key e)) \<notin> set ''fc/tmh''"
  shows "palette_listener isMac v prevented rejected now e = []"
  using shortcuts_silent [OF assms(3,4), of rejected now] assms(1,2)
  by (auto simp: palette_listener_def kbar_onKeyDown_def useToggleHandler_onKeyDown_def kb_showing_def
      setVisualState_def Let_def split: prod.splits)

section \<open>Properties\<close>


text \<open>
  C39. Keys are shared between what is on top and what is below it. While the palette shows, Enter
  performs its active action and also opens the active message of the list below; and while the contact
  dialog is over an open message, Escape closes both the dialog and the message.
\<close>

theorem keys_shared:
  assumes "selectedComponent (wv_main v) = ShowIncomingList ty"
    and "wv_active v = int n" and "n < length (wv_incoming v)"
    and "kb_visual (wv_kbar v) = Showing"
    and "row_at (kb_rows (wv_kbar v)) (kb_active (wv_kbar v)) = Some (Item a)"
    and "ai_command (if_heap palette_actions ! a) = Some c"
    and "selectedComponent (wv_main w) = ShowRead td" and "mn_modal (wv_main w) = Some (AddFriendModal p)"
  shows "[RunRead (ReadIncoming (wv_incoming v ! n))] \<in> set (answers d isMac v prevented True now (plain_key ''Enter'')) \<and>
    (\<exists>rs \<in> set (answers d isMac v prevented True now (plain_key ''Enter'')). PaletteCalls (KPerform c) \<in> set rs) \<and>
    {[PageClose], [CloseDialog]} \<subseteq> set (answers d isMac w prevented True now (plain_key ''Escape''))"
proof (intro conjI)
  have "page_listener d v (plain_key ''Enter'') = [RunRead (ReadIncoming (wv_incoming v ! n))]"
    using assms(1-3)
    by (simp add: page_listener_def list_requests_def SelectableList_onKeyDown_def plain_key_def incomingItems_def
        row_at_def execute_def)
  then show "[RunRead (ReadIncoming (wv_incoming v ! n))] \<in> set (answers d isMac v prevented True now (plain_key ''Enter''))"
    by (simp add: answers_def)
  have "PaletteCalls (KPerform c) \<in> set (palette_listener isMac v prevented True now (plain_key ''Enter''))"
    using assms(4-6)
    by (simp add: palette_listener_def kbar_onKeyDown_def useToggleHandler_onKeyDown_def useShortcuts_onKeyDown_def
        CmdKResultHandler_onKeyDown_def CmdK_execute_def kb_showing_def plain_key_def Let_def)
  then show "\<exists>rs \<in> set (answers d isMac v prevented True now (plain_key ''Enter'')). PaletteCalls (KPerform c) \<in> set rs"
    by (intro bexI [of _ "palette_listener isMac v prevented True now (plain_key ''Enter'')"]) (auto simp: answers_def)
  show "{[PageClose], [CloseDialog]} \<subseteq> set (answers d isMac w prevented True now (plain_key ''Escape''))"
    using assms(7,8)
    by (simp add: answers_def page_listener_def dialog_listener_def Read_onKeyDown_def Modal_onKeyDown_def plain_key_def)
qed

section \<open>Witnesses\<close>

definition sample_view :: windowView where
  "sample_view =
     \<lparr>wv_main = Main_init, wv_kbar = useStore_init 0, wv_incoming = (case sample_message of Incoming m \<Rightarrow> [m] | _ \<Rightarrow> []),
      wv_outgoing = [], wv_invited = [], wv_inviting = [], wv_recipients = [], wv_editor = None,
      wv_active = 0, wv_second = 0, wv_sideActive = 0\<rparr>"

lemma sample_view_page: "selectedComponent (wv_main sample_view) = ShowIncomingList ListNew"
  by (simp add: sample_view_def Main_init_def selectedComponent_def selectedTab_def selectedActualTab_def defaultTabs_def)


text \<open>The palette over the list of new messages, its first action active; and the dialog over a message.\<close>

definition palette_view :: windowView where
  "palette_view = sample_view\<lparr>wv_kbar := (useStore_init 0)\<lparr>kb_visual := Showing, kb_rows := [Item 0]\<rparr>\<rparr>"

definition dialog_view :: windowView where
  "dialog_view = sample_view\<lparr>wv_main := openFriendModal
     (Main_init\<lparr>mn_tabs := pushTab (readTab sample_message) (mn_tabs Main_init)\<rparr>)\<rparr>"

theorem keys_shared_witness:
  "\<exists>m c. [RunRead m] \<in> set (answers (sample_daemon False) False palette_view False True 0 (plain_key ''Enter'')) \<and>
    (\<exists>rs \<in> set (answers (sample_daemon False) False palette_view False True 0 (plain_key ''Enter'')). PaletteCalls (KPerform c) \<in> set rs) \<and>
    {[PageClose], [CloseDialog]} \<subseteq> set (answers (sample_daemon False) False dialog_view False True 0 (plain_key ''Escape''))"
proof -
  have "selectedComponent (wv_main palette_view) = ShowIncomingList ListNew"
    using sample_view_page by (simp add: palette_view_def)
  moreover have "wv_active palette_view = int 0" "0 < length (wv_incoming palette_view)"
    by (simp_all add: palette_view_def sample_view_def sample_message_def)
  moreover have "kb_visual (wv_kbar palette_view) = Showing"
      "row_at (kb_rows (wv_kbar palette_view)) (kb_active (wv_kbar palette_view)) = Some (Item 0)"
    by (simp_all add: palette_view_def sample_view_def useStore_init_def row_at_def)
  moreover have "ai_command (if_heap palette_actions ! 0) = Some PerformFriend"
    by (simp add: palette_actions_def cmdKActions_def mainAction_def newActionImpl_def)
  moreover have "selectedComponent (wv_main dialog_view) = ShowRead (ReadData sample_message)"
    by (simp add: dialog_view_def sample_view_def openFriendModal_def selectedComponent_def selectedTab_def
        selectedActualTab_def pushTab_def Main_init_def defaultTabs_def readTab_def)
  moreover have "mn_modal (wv_main dialog_view)
      = Some (AddFriendModal \<lparr>ap_initialScreen = None, ap_incomingInvitation = None, ap_theirPublicId = None\<rparr>)"
    by (simp add: dialog_view_def openFriendModal_def)
  ultimately show ?thesis
    using keys_shared [of palette_view ListNew 0 0 PerformFriend dialog_view "ReadData sample_message" _ "sample_daemon False" False False 0]
    by blast
qed

end
