(* ===== verification/Scenarios.thy ===== *)
theory Scenarios imports MainProcess MainView begin

text \<open>
  What a user does from beginning to end, across the components: a message arrives and is read, a
  message is composed and sent, an invitation is accepted, a link becomes an invitation.
\<close>

section \<open>The address of the page\<close>

text \<open>
  \<open>new URLSearchParams(new URL(href).search).get(name)\<close> in \<open>index.tsx\<close>: the query is what is between
  the first question mark and the fragment; its pieces are names and values, decoded by
  \<open>decode\<close> of the browser.
\<close>

definition url_search :: "string \<Rightarrow> string" where
  "url_search href = drop 1 (dropWhile (\<lambda>c. c \<noteq> CHR ''?'') (takeWhile (\<lambda>c. c \<noteq> CHR ''#'') href))"

definition search_param :: "(string \<Rightarrow> string) \<Rightarrow> string \<Rightarrow> string \<Rightarrow> string option" where
  "search_param decode search name =
     (case find (\<lambda>p. p \<noteq> [] \<and> decode (takeWhile (\<lambda>c. c \<noteq> CHR ''='') p) = name) (js_split search ''&'') of
        Some p \<Rightarrow> Some (decode (drop 1 (dropWhile (\<lambda>c. c \<noteq> CHR ''='') p)))
      | None \<Rightarrow> None)"

definition location_publicID :: "(string \<Rightarrow> string) \<Rightarrow> string \<Rightarrow> string option" where
  "location_publicID decode href = search_param decode (url_search href) ''publicID''"

text \<open>Characters that mean nothing in an address, and the documented decoding of such strings.\<close>

definition plain_char :: "char \<Rightarrow> bool" where
  "plain_char c \<longleftrightarrow> c \<notin> set ''/?#&=+%''"

definition decodes_plain :: "(string \<Rightarrow> string) \<Rightarrow> bool" where
  "decodes_plain decode \<longleftrightarrow> (\<forall>s. list_all plain_char s \<longrightarrow> decode s = s)"

lemma takeWhile_dropWhile_all:
  assumes "\<forall>c \<in> set xs. p c"
  shows "takeWhile p (xs @ ys) = xs @ takeWhile p ys" and "dropWhile p (xs @ ys) = dropWhile p ys"
  using assms by simp_all

lemma url_search_query:
  assumes "CHR ''?'' \<notin> set p" and "CHR ''#'' \<notin> set p" and "CHR ''#'' \<notin> set q"
  shows "url_search (p @ ''?'' @ q) = q"
proof -
  have all: "\<forall>c \<in> set (p @ ''?'' @ q). c \<noteq> CHR ''#''"
    using assms(2,3) by auto
  have "\<forall>c \<in> set p. c \<noteq> CHR ''?''"
    using assms(1) by auto
  then have "dropWhile (\<lambda>c. c \<noteq> CHR ''?'') (p @ ''?'' @ q) = ''?'' @ q"
    by (subst takeWhile_dropWhile_all(2)) simp_all
  moreover have "takeWhile (\<lambda>c. c \<noteq> CHR ''#'') (p @ ''?'' @ q) = p @ ''?'' @ q"
    using all by (intro takeWhile_eq_all_conv [THEN iffD2])
  ultimately show ?thesis
    unfolding url_search_def by (simp only:) simp
qed

lemma search_param_single:
  assumes "decodes_plain decode" and "list_all plain_char i"
  shows "search_param decode (''publicID='' @ i) ''publicID'' = Some i"
proof -
  have "\<forall>x \<in> set [''publicID='' @ i]. CHR ''&'' \<notin> set x"
    using assms(2) by (auto simp: plain_char_def list_all_iff)
  then have "js_split (''publicID='' @ i) ''&'' = [''publicID='' @ i]"
    using js_split_join [of "''&''" "CHR ''&''" "[]" "[''publicID='' @ i]"] by simp
  moreover have "decode ''publicID'' = ''publicID''" "decode i = i"
    using assms by (auto simp: decodes_plain_def plain_char_def)
  ultimately show ?thesis
    by (simp add: search_param_def)
qed

lemma page_publicID:
  assumes "decodes_plain decode" and "list_all plain_char i"
    and "CHR ''?'' \<notin> set p" and "CHR ''#'' \<notin> set p"
  shows "location_publicID decode (p @ ''/index.html?publicID='' @ i) = Some i"
proof -
  have "CHR ''#'' \<notin> set (''publicID='' @ i)"
    using assms(2) by (auto simp: plain_char_def list_all_iff)
  then have "url_search ((p @ ''/index.html'') @ ''?'' @ ''publicID='' @ i) = ''publicID='' @ i"
    using assms(3,4) by (intro url_search_query) auto
  then have "url_search (p @ ''/index.html?publicID='' @ i) = ''publicID='' @ i"
    by simp
  then show ?thesis
    using search_param_single [OF assms(1,2)] by (simp add: location_publicID_def)
qed

section \<open>Pages\<close>

lemma pushed_shown:
  assumes "store_ok (pushTab t st)"
  shows "selectedActualTab defaultTab (pushTab t st) = t"
  using assms by (intro selectedActualTab_of_member) (auto simp: store_ok_def tabs_wf_def)

lemma shown_read:
  assumes "store_ok (pushTab (readTab m) (mn_tabs s))"
  shows "selectedComponent (s\<lparr>mn_tabs := pushTab (readTab m) (mn_tabs s)\<rparr>) = ShowRead (ReadData m)"
  using pushed_shown [OF assms] by (simp add: selectedComponent_def selectedTab_def readTab_def Let_def)

text \<open>Editing the form of a compose tab that was just opened: its data changes, nothing else.\<close>

lemma edit_pushed:
  assumes "store_ok (pushTab (writeTab r) st)" and "mn_tabs s = pushTab (writeTab r) st"
  shows "selectedActualTab defaultTab (mn_tabs (editWrite (mn_tabs s) wd s)) = (writeTab r)\<lparr>tab_data := WriteTabData wd\<rparr> \<and>
    st_tabs (mn_tabs (editWrite (mn_tabs s) wd s)) = st_tabs st @ [(writeTab r)\<lparr>tab_data := WriteTabData wd\<rparr>]"
proof -
  let ?t = "(writeTab r)\<lparr>tab_data := WriteTabData wd\<rparr>"
  have shown: "selectedActualTab defaultTab (pushTab (writeTab r) st) = writeTab r"
    by (rule pushed_shown [OF assms(1)])
  have fresh: "tab_id (writeTab r) \<notin> set (tab_ids st)"
    using assms(1) by (auto simp: store_ok_def tabs_wf_def)
  have "mn_tabs (editWrite (mn_tabs s) wd s) = updateTab ?t (pushTab (writeTab r) st)"
    using shown assms(2) by (simp add: editWrite_def writeTab_def Let_def)
  moreover have tabs: "st_tabs (updateTab ?t (pushTab (writeTab r) st)) = st_tabs st @ [?t]"
    using fresh by (simp add: updateTab_def image_iff, intro map_idI) metis
  moreover have "store_ok (updateTab ?t (pushTab (writeTab r) st))"
    using store_ok_edit [OF assms(1), of wd] shown by (simp add: writeTab_def)
  then have "selectedActualTab defaultTab (updateTab ?t (pushTab (writeTab r) st)) = ?t"
    using tabs by (intro selectedActualTab_of_member) (auto simp: store_ok_def tabs_wf_def)
  ultimately show ?thesis
    by simp
qed

section \<open>Properties\<close>

text \<open>
  C8. A delivered message can be read. When the stream has brought a message and an inbox tab is shown,
  some number of moves down and Enter ask for exactly this message; the daemon is told that it was seen,
  with one call, and a new tab shows it.
\<close>

theorem delivered_message_read:
  assumes "main_reachable d s" and "selectedComponent s = ShowIncomingList ty" and "\<not> di_fake d"
    and "m \<in> set (concat (stream_batches evs))"
    and "tab_id (readTab (Incoming m)) \<notin> set (tab_ids (mn_tabs s))"
    and "rows = incomingItems (incomingAfter d ty evs)"
  shows "\<exists>i k s'. (nextIndex rows ^^ i) (startIndex rows) = k \<and>
    snd (SelectableList_onKeyDown rows [] False (plain_key ''Enter'') k) = [ReadIncoming m] \<and>
    main_step d (ReadMessage (Incoming m)) s = Some (Inr ([RpcMessageSeen \<lparr>ms_id = im_uid m\<rparr>], s')) \<and>
    selectedComponent s' = ShowRead (ReadData (Incoming m)) \<and>
    st_tabs (mn_tabs s') = st_tabs (mn_tabs s) @ [readTab (Incoming m)]"
proof -
  have "m \<in> set (incomingAfter d ty evs)"
    using assms(3,4) by (simp add: incomingAfter_batches)
  then obtain n where n: "n < length (incomingAfter d ty evs)" "incomingAfter d ty evs ! n = m"
    by (auto simp: in_set_conv_nth)
  have keys: "\<exists>i. (nextIndex rows ^^ i) (startIndex rows) = int n"
      "snd (SelectableList_onKeyDown rows [] False (plain_key ''Enter'') (int n)) = [ReadIncoming m]"
    using n messages_by_keyboard [of n "incomingAfter d ty evs" 0 "[undefined]"] assms(6) by simp_all
  let ?s' = "s\<lparr>mn_tabs := pushTab (readTab (Incoming m)) (mn_tabs s)\<rparr>"
  have store: "store_ok (mn_tabs s)"
    using main_wf_reachable [OF assms(1)] by (simp add: main_wf_def)
  then have "store_ok (pushTab (readTab (Incoming m)) (mn_tabs s))"
    using assms(5) by (intro store_ok_push) simp_all
  then have "selectedComponent ?s' = ShowRead (ReadData (Incoming m))"
    by (rule shown_read)
  moreover have "main_step d (ReadMessage (Incoming m)) s = Some (Inr ([RpcMessageSeen \<lparr>ms_id = im_uid m\<rparr>], ?s'))"
    by (simp add: main_step_def readMessage_new [OF store] messageSeen_def unary_def new_messageSeenRequest_def Let_def)
  moreover have "st_tabs (mn_tabs ?s') = st_tabs (mn_tabs s) @ [readTab (Incoming m)]"
    by simp
  ultimately show ?thesis
    using keys by blast
qed

text \<open>
  C9. A message can be composed and sent with the keyboard. A new compose tab shows the empty form; moving
  down to a contact and Enter makes it the recipient; Command-Enter sends the text of the editor to
  exactly this contact with one call; and when the daemon accepts, the status says so and finishing the
  page leaves the tabs as they were.
\<close>

theorem message_composed_sent:
  assumes "main_reachable d s" and "fresh_write rnd s" and "\<not> di_fake d"
    and "n < length (search (Write_options friends emptyWrite) [])" and "Write_options friends emptyWrite \<noteq> []"
    and "rows = selectableOptions search (Write_options friends emptyWrite) (wd_multiSelect emptyWrite)"
    and "f = search (Write_options friends emptyWrite) [] ! n"
    and "q = \<lparr>sm_uniqueNameList = [wf_uniqueName f], sm_message = collapse_newlines text\<rparr>"
  shows "\<exists>s1 s2 ml wd.
    main_step d (WriteMessage rnd) s = Some (Inr ([], s1)) \<and> selectedComponent s1 = ShowWrite (WriteTabData emptyWrite) \<and>
    (\<exists>i. (nextIndex rows ^^ i) (startIndex rows) = int n) \<and>
    snd (SelectableList_onKeyDown rows [] True (plain_key ''Enter'') (int n)) = [ml] \<and> wd = onEdit ml emptyWrite \<and>
    main_step d (EditWrite wd) s1 = Some (Inr ([], s2)) \<and> selectedComponent s2 = ShowWrite (WriteTabData wd) \<and>
    fst (Write_onKeyDown d (Some text) ((plain_key ''Enter'')\<lparr>ev_meta := True\<rparr>) wd) = [RpcSendMessage q] \<and>
    (cl_sendMessage (di_client d) q = Inr (Some ()) \<longrightarrow>
       snd (Write_onKeyDown d (Some text) ((plain_key ''Enter'')\<lparr>ev_meta := True\<rparr>) wd)
         = [SetStatus (''Message sent to '' @ wf_displayName f @ ''.''), OnDone]) \<and>
    st_tabs (mn_tabs (closePage (mn_tabs s2) s2)) = st_tabs (mn_tabs s)"
proof -
  have wf: "main_wf s"
    using assms(1) by (rule main_wf_reachable)
  obtain r where r: "writeMessage rnd s = Some (s\<lparr>mn_tabs := pushTab (writeTab r) (mn_tabs s)\<rparr>)"
      "main_wf (s\<lparr>mn_tabs := pushTab (writeTab r) (mn_tabs s)\<rparr>)"
    using writeMessage_ok [OF wf assms(2)] by blast
  let ?s1 = "s\<lparr>mn_tabs := pushTab (writeTab r) (mn_tabs s)\<rparr>"
  let ?ml = "selectFriend f (wd_multiSelect emptyWrite)"
  let ?wd = "onEdit ?ml emptyWrite"
  let ?s2 = "editWrite (mn_tabs ?s1) ?wd ?s1"
  have store: "store_ok (pushTab (writeTab r) (mn_tabs s))"
    using r(2) by (simp add: main_wf_def)
  have fresh: "tab_id (writeTab r) \<notin> set (tab_ids (mn_tabs s))"
    using store by (auto simp: store_ok_def tabs_wf_def)
  have ml: "ml_friends ?ml = [f]" "ml_text ?ml = []"
    by (simp_all add: selectFriend_def emptyWrite_def)
  have keys: "(\<exists>i. (nextIndex rows ^^ i) (startIndex rows) = int n)"
      "snd (SelectableList_onKeyDown rows [] True (plain_key ''Enter'') (int n)) = [?ml]"
    using options_by_keyboard [of n search "Write_options friends emptyWrite" "wd_multiSelect emptyWrite"] assms(4-7)
    by (simp_all add: emptyWrite_def)
  have edited: "selectedActualTab defaultTab (mn_tabs ?s2) = (writeTab r)\<lparr>tab_data := WriteTabData ?wd\<rparr> \<and>
      st_tabs (mn_tabs ?s2) = st_tabs (mn_tabs s) @ [(writeTab r)\<lparr>tab_data := WriteTabData ?wd\<rparr>]"
    by (rule edit_pushed [OF store]) simp
  have sent: "Write_onKeyDown d (Some text) ((plain_key ''Enter'')\<lparr>ev_meta := True\<rparr>) ?wd = send d (Some text) ?wd"
    by (simp add: Write_onKeyDown_def plain_key_def)
  have "fst (send d (Some text) ?wd) = [RpcSendMessage q]"
    "cl_sendMessage (di_client d) q = Inr (Some ()) \<Longrightarrow>
       snd (send d (Some text) ?wd) = [SetStatus (''Message sent to '' @ wf_displayName f @ ''.''), OnDone]"
    using assms(3,8) ml by (simp_all add: send_def methods_real unary_def onEdit_def Let_def)
  moreover have "filter (\<lambda>t. tab_id t \<noteq> tab_id (writeTab r)) (st_tabs (mn_tabs s)) = st_tabs (mn_tabs s)"
    using fresh unfolding filter_id_conv by (metis image_eqI set_map)
  then have "st_tabs (mn_tabs (closePage (mn_tabs ?s2) ?s2)) = st_tabs (mn_tabs s)"
    using edited by (simp add: closePage_def)
  ultimately show ?thesis
    using r(1) keys edited pushed_shown [OF store]
    by (intro exI [of _ ?s1] exI [of _ ?s2] exI [of _ ?ml] exI [of _ ?wd])
      (simp add: main_step_def sent selectedComponent_def selectedTab_def writeTab_def Let_def)
qed

text \<open>
  C10. An invitation can be accepted with the keyboard: some number of moves down and Enter hand exactly
  that invitation to the window, whose dialog then shows it; with the names typed there, Finish accepts
  exactly that invitation with one call.
\<close>

theorem invitation_accepted:
  assumes "\<not> di_fake d" and "n < length l" and "typed_display evs \<noteq> []" and "rows = incomingInvitationItems l"
  shows "\<exists>s' p own. (\<exists>i. (nextIndex rows ^^ i) (startIndex rows) = int n) \<and>
    snd (SelectableList_onKeyDown rows [] False (plain_key ''Enter'') (int n)) = [l ! n] \<and>
    main_step d (IncomingInvitation (l ! n)) s = Some (Inr ([], s')) \<and> mn_modal s' = Some (AddFriendModal p) \<and>
    AddFriend_render p (AddFriend_init p) = Inr (ShowIncoming own (l ! n)) \<and>
    fst (Incoming_accept d (l ! n) (type_names Incoming_display Incoming_unique evs Incoming_init)) =
      [RpcAcceptAsyncInvitation \<lparr>ac_publicId = ia_publicId (l ! n), ac_uniqueName = final_unique evs,
         ac_displayName = typed_display evs\<rparr>]"
proof -
  let ?p = "\<lparr>ap_initialScreen = Some IncomingScreen, ap_incomingInvitation = Some (l ! n), ap_theirPublicId = None\<rparr>"
  have names: "ic_displayName (type_names Incoming_display Incoming_unique evs Incoming_init) = typed_display evs"
      "ic_uniqueName (type_names Incoming_display Incoming_unique evs Incoming_init) = final_unique evs"
    using incomingForm.type_names_final [of Incoming_init evs]
    by (simp_all add: incomingForm.untouched_def Incoming_init_def)
  have "fst (Incoming_accept d (l ! n) (type_names Incoming_display Incoming_unique evs Incoming_init)) =
      [RpcAcceptAsyncInvitation \<lparr>ac_publicId = ia_publicId (l ! n), ac_uniqueName = final_unique evs,
         ac_displayName = typed_display evs\<rparr>]"
    using incomingDialog.finish_calls [of "l ! n" "(d, type_names Incoming_display Incoming_unique evs Incoming_init)"]
      names assms(1,3) by (simp add: incomingRequest_def)
  moreover have "\<exists>own. AddFriend_render ?p (AddFriend_init ?p) = Inr (ShowIncoming own (l ! n))"
    by (simp add: AddFriend_render_def AddFriend_init_def)
  moreover have "\<exists>s'. main_step d (IncomingInvitation (l ! n)) s = Some (Inr ([], s')) \<and> mn_modal s' = Some (AddFriendModal ?p)"
    by (simp add: main_step_def handleIncomingInvitation_def)
  ultimately show ?thesis
    using sidebar_invitations_keyboard [OF assms(2)] assms(4) by blast
qed

text \<open>
  C11. A link becomes an invitation. Opening \<open>anysphere://.../i\<close> in an installed application makes a window
  whose page reads \<open>i\<close> back from its address; the first thing it shows is the invitation form for
  \<open>i\<close>; and with the names typed there, the request is for exactly \<open>i\<close>.
\<close>

theorem link_becomes_invitation:
  assumes "env ''NODE_ENV'' \<noteq> Some ''development''"
    and "pk_dirname pk = clean_path ss" and "ss \<noteq> []" and "\<forall>s \<in> set ss. clean_segment s"
    and "CHR ''?'' \<notin> set (clean_path ss)" and "CHR ''#'' \<notin> set (clean_path ss)"
    and "list_all plain_char i" and "decodes_plain decode" and "\<not> di_fake d" and "typed_display evs \<noteq> []"
  shows "\<exists>w p. onOpenUrl env pk 0 (u @ ''/'' @ i) = [CreateWindow w] \<and>
    mn_modal (initialModal_effect (index_component (location_publicID decode (mw_url w))) Main_init) = Some (AddFriendModal p) \<and>
    AddFriend_render p (AddFriend_init p) = Inr (ShowPartTwo [] i) \<and>
    fst (PartTwo_finish d i (Some content) (type_names PartTwo_display PartTwo_unique evs PartTwo_init)) =
      [RpcAddAsyncFriend \<lparr>aa_uniqueName = final_unique evs, aa_displayName = typed_display evs, aa_publicId = i,
         aa_message = content\<rparr>]"
proof -
  have slash: "CHR ''/'' \<notin> set i"
    using assms(7) by (auto simp: plain_char_def list_all_iff)
  obtain w where w: "onOpenUrl env pk 0 (u @ ''/'' @ i) = [CreateWindow w]"
      "mw_url w = ''file://'' @ clean_path (butlast ss @ [''renderer'', ''index.html?publicID='' @ i])"
    using openUrl_loads [of env pk ss i 0 u] assms(1-4) slash by auto
  let ?p = "''file://'' @ clean_path (butlast ss) @ ''/renderer''"
  have "mw_url w = ?p @ ''/index.html?publicID='' @ i"
    using w(2) by (simp add: clean_path_def)
  moreover have "set (clean_path (butlast ss)) \<subseteq> set (clean_path ss)"
    by (auto simp: clean_path_def dest: in_set_butlastD)
  then have "CHR ''?'' \<notin> set ?p" "CHR ''#'' \<notin> set ?p"
    using assms(5,6) by auto
  ultimately have page: "location_publicID decode (mw_url w) = Some i"
    using page_publicID [OF assms(8,7), of ?p] by simp
  let ?q = "\<lparr>ap_initialScreen = Some RemotePartTwo, ap_incomingInvitation = None, ap_theirPublicId = Some i\<rparr>"
  have "mn_modal (initialModal_effect (index_component (location_publicID decode (mw_url w))) Main_init)
      = Some (AddFriendModal ?q)"
    by (simp add: page index_component_def initialModal_effect_def Main_init_def Let_def)
  moreover have "AddFriend_render ?q (AddFriend_init ?q) = Inr (ShowPartTwo [] i)"
    by (simp add: AddFriend_render_def AddFriend_init_def)
  moreover have "pt_displayName (type_names PartTwo_display PartTwo_unique evs PartTwo_init) = typed_display evs"
      "pt_uniqueName (type_names PartTwo_display PartTwo_unique evs PartTwo_init) = final_unique evs"
    using partTwoForm.type_names_final [of PartTwo_init evs]
    by (simp_all add: partTwoForm.untouched_def PartTwo_init_def)
  then have "fst (PartTwo_finish d i (Some content) (type_names PartTwo_display PartTwo_unique evs PartTwo_init)) =
      [RpcAddAsyncFriend \<lparr>aa_uniqueName = final_unique evs, aa_displayName = typed_display evs, aa_publicId = i,
         aa_message = content\<rparr>]"
    using partTwoDialog.finish_calls [of i content "(d, type_names PartTwo_display PartTwo_unique evs PartTwo_init)"]
      assms(9,10) by (simp add: partTwoRequest_def)
  ultimately show ?thesis
    using w(1) by blast
qed

section \<open>Witnesses\<close>

text \<open>A message arrives in the inbox of a fresh window, with a daemon that accepts everything.\<close>

theorem delivered_message_read_witness:
  "\<exists>m s'. main_step (sample_daemon False) (ReadMessage (Incoming m)) Main_init
       = Some (Inr ([RpcMessageSeen \<lparr>ms_id = im_uid m\<rparr>], s')) \<and>
    selectedComponent s' = ShowRead (ReadData (Incoming m))"
proof -
  let ?m = "hd (fake_getMessages 0 FilterNEW)"
  have "selectedComponent Main_init = ShowIncomingList ListNew"
    by (simp add: Main_init_def selectedComponent_def selectedTab_def selectedActualTab_def defaultTabs_def)
  moreover have "\<not> di_fake (sample_daemon False)"
    by (simp add: sample_daemon_def)
  moreover have "?m \<in> set (concat (stream_batches [StreamData [?m]]))"
    by simp
  moreover have "tab_id (readTab (Incoming ?m)) \<notin> set (tab_ids (mn_tabs Main_init))"
    by (simp add: readTab_def Main_init_def defaultTabs_def)
  ultimately show ?thesis
    using delivered_message_read [OF main_start] by blast
qed

theorem message_composed_sent_witness:
  "\<exists>s1. main_step (sample_daemon False) (WriteMessage (\<lambda>k. 0)) Main_init = Some (Inr ([], s1)) \<and>
    selectedComponent s1 = ShowWrite (WriteTabData emptyWrite)"
proof -
  have "fresh_write (\<lambda>k. 0) Main_init"
    by (auto simp: fresh_write_def unit_source_def Main_init_def defaultTabs_def writeTab_def split: option.split)
  moreover have "\<not> di_fake (sample_daemon False)"
    by (simp add: sample_daemon_def)
  moreover have "Write_options [bob] emptyWrite = [bob]"
    by (simp add: Write_options_def emptyWrite_def)
  ultimately show ?thesis
    using message_composed_sent [OF main_start, of "\<lambda>k. 0" "sample_daemon False" 0 "\<lambda>os t. os" "[bob]" _ bob _ "''hi''"]
    by (metis length_Cons list.distinct(1) nth_Cons_0 zero_less_Suc)
qed

theorem invitation_accepted_witness:
  "\<exists>s' p own. main_step (sample_daemon False) (IncomingInvitation (fake_incoming_async 0 ! 1)) Main_init = Some (Inr ([], s')) \<and>
    mn_modal s' = Some (AddFriendModal p) \<and>
    AddFriend_render p (AddFriend_init p) = Inr (ShowIncoming own (fake_incoming_async 0 ! 1))"
proof -
  have "\<not> di_fake (sample_daemon False)" "1 < length (fake_incoming_async 0)" "typed_display [TypeDisplay ''Bob''] \<noteq> []"
    by (simp_all add: sample_daemon_def fake_incoming_async_def typed_display_def)
  from invitation_accepted [OF this refl, of Main_init] show ?thesis
    by blast
qed

theorem link_becomes_invitation_witness:
  "\<exists>w p. onOpenUrl Map.empty sample_packaging 0 ''anysphere://add/abc'' = [CreateWindow w] \<and>
    mn_modal (initialModal_effect (index_component (location_publicID (\<lambda>s. s) (mw_url w))) Main_init) = Some (AddFriendModal p) \<and>
    AddFriend_render p (AddFriend_init p) = Inr (ShowPartTwo [] ''abc'')"
proof -
  have "pk_dirname sample_packaging = clean_path [''opt'', ''main'']"
    "\<forall>s \<in> set [''opt'', ''main'']. clean_segment s"
    "CHR ''?'' \<notin> set (clean_path [''opt'', ''main''])" "CHR ''#'' \<notin> set (clean_path [''opt'', ''main''])"
    "list_all plain_char ''abc''" "decodes_plain (\<lambda>s. s)" "\<not> di_fake (sample_daemon False)"
    "typed_display [TypeDisplay ''Bob''] \<noteq> []"
    by (simp_all add: sample_packaging_def clean_segment_def clean_path_def plain_char_def decodes_plain_def
        sample_daemon_def typed_display_def)
  from link_becomes_invitation [of Map.empty sample_packaging, OF _ this(1) _ this(2-8), of "''anysphere://add''" "''hi''"]
  obtain w p where "onOpenUrl Map.empty sample_packaging 0 (''anysphere://add'' @ ''/'' @ ''abc'') = [CreateWindow w]"
    "mn_modal (initialModal_effect (index_component (location_publicID (\<lambda>s. s) (mw_url w))) Main_init) = Some (AddFriendModal p)"
    "AddFriend_render p (AddFriend_init p) = Inr (ShowPartTwo [] ''abc'')"
    by auto
  then show ?thesis
    by (intro exI [of _ w] exI [of _ p]) simp
qed

end
