(* ===== verification/Jspb.thy ===== *)
theory Jspb imports Schema begin

text \<open>
  What the generated classes of \<open>daemon/schema/daemon_pb.js\<close> take from the package
  \<open>google-protobuf\<close>, which is not part of the repository. The record \<open>jspb\<close> has one field per
  function of the package that the classes call; \<open>'m\<close> is the state of a message object, \<open>'w\<close>
  that of a \<open>BinaryWriter\<close>, \<open>'r\<close> that of a \<open>BinaryReader\<close> and \<open>'b\<close> a buffer of bytes. A method
  that changes its object returns the object's new state. \<open>field_loop\<close> is the loop that every
  generated \<open>deserializeBinaryFromReader\<close> runs. The locales \<open>jspb_message\<close> and \<open>jspb_codec\<close> state
  what the documentation of the package promises of these functions.
\<close>

section \<open>The package\<close>

text \<open>
  Reading either fails to return (\<open>None\<close>), throws, or gives a value and the reader's new state.
  The plain objects that \<open>toObject\<close> makes are lists of properties; \<open>JMessage\<close> is the instance that
  they carry when \<open>includeInstance\<close> is true.
\<close>

type_synonym ('r, 'a) reading = "'r \<Rightarrow> (js_error + 'a \<times> 'r) option"

datatype 'm jsvalue =
    JString string
  | JNumber int
  | JBoolean bool
  | JUndefined
  | JArray "'m jsvalue list"
  | JObject "(string \<times> 'm jsvalue) list"
  | JMessage 'm

text \<open>
  What a message class is to others: its constructor, its static functions, and the two methods of
  its prototype that convert a message.
\<close>

record ('m, 'w, 'r, 'b) pbclass =
  pc_displayName :: string
  pc_new :: 'm
  pc_toObject :: "bool \<Rightarrow> 'm \<Rightarrow> 'm jsvalue"
  pc_deserializeBinary :: "'b \<Rightarrow> (js_error + 'm) option"
  pc_deserializeBinaryFromReader :: "'m \<Rightarrow> ('r, 'm) reading"
  pc_serializeBinaryToWriter :: "'m \<Rightarrow> 'w \<Rightarrow> 'w"
  pc_prototype_toObject :: "'m \<Rightarrow> bool \<Rightarrow> 'm jsvalue"
  pc_prototype_serializeBinary :: "'m \<Rightarrow> 'b"

text \<open>
  \<open>getField\<close>, \<open>getFieldWithDefault\<close>, \<open>getRepeatedField\<close> and \<open>setField\<close> of the package work on
  every type of field; there is one parameter for every type at which the classes use them.
  \<open>getField_set\<close> is \<open>getField(\<dots>) != null\<close>. A constructor passes the numbers of its repeated fields
  or \<open>null\<close> to \<open>initialize\<close>; the initial data is left out, no caller in the program passes any. An
  index for the adding functions is optional.
\<close>

record ('m, 'w, 'r, 'b) jspb =
  initialize :: "nat list option \<Rightarrow> 'm"
  getField_string :: "'m \<Rightarrow> nat \<Rightarrow> string option"
  getField_set :: "'m \<Rightarrow> nat \<Rightarrow> bool"
  getFieldWithDefault_string :: "'m \<Rightarrow> nat \<Rightarrow> string \<Rightarrow> string"
  getFieldWithDefault_number :: "'m \<Rightarrow> nat \<Rightarrow> int \<Rightarrow> int"
  getBooleanFieldWithDefault :: "'m \<Rightarrow> nat \<Rightarrow> bool \<Rightarrow> bool"
  getRepeatedField :: "'m \<Rightarrow> nat \<Rightarrow> string list"
  getWrapperField :: "'m \<Rightarrow> nat \<Rightarrow> 'm option"
  getRepeatedWrapperField :: "'m \<Rightarrow> nat \<Rightarrow> 'm list"
  setField_string :: "'m \<Rightarrow> nat \<Rightarrow> string option \<Rightarrow> 'm"
  setField_list :: "'m \<Rightarrow> nat \<Rightarrow> string list \<Rightarrow> 'm"
  setProto3StringField :: "'m \<Rightarrow> nat \<Rightarrow> string \<Rightarrow> 'm"
  setProto3IntField :: "'m \<Rightarrow> nat \<Rightarrow> int \<Rightarrow> 'm"
  setProto3EnumField :: "'m \<Rightarrow> nat \<Rightarrow> int \<Rightarrow> 'm"
  setProto3BooleanField :: "'m \<Rightarrow> nat \<Rightarrow> bool \<Rightarrow> 'm"
  setWrapperField :: "'m \<Rightarrow> nat \<Rightarrow> 'm option \<Rightarrow> 'm"
  setRepeatedWrapperField :: "'m \<Rightarrow> nat \<Rightarrow> 'm list \<Rightarrow> 'm"
  addToRepeatedField :: "'m \<Rightarrow> nat \<Rightarrow> string \<Rightarrow> nat option \<Rightarrow> 'm"
  addToRepeatedWrapperField :: "'m \<Rightarrow> nat \<Rightarrow> 'm option \<Rightarrow> 'm \<Rightarrow> nat option \<Rightarrow> 'm \<times> 'm"
  toObjectList :: "'m list \<Rightarrow> (bool \<Rightarrow> 'm \<Rightarrow> 'm jsvalue) \<Rightarrow> bool \<Rightarrow> 'm jsvalue"
  BinaryWriter :: 'w
  writeString :: "nat \<Rightarrow> string \<Rightarrow> 'w \<Rightarrow> 'w"
  writeInt32 :: "nat \<Rightarrow> int \<Rightarrow> 'w \<Rightarrow> 'w"
  writeEnum :: "nat \<Rightarrow> int \<Rightarrow> 'w \<Rightarrow> 'w"
  writeBool :: "nat \<Rightarrow> bool \<Rightarrow> 'w \<Rightarrow> 'w"
  writeRepeatedString :: "nat \<Rightarrow> string list \<Rightarrow> 'w \<Rightarrow> 'w"
  writeMessage :: "nat \<Rightarrow> 'm \<Rightarrow> ('m \<Rightarrow> 'w \<Rightarrow> 'w) \<Rightarrow> 'w \<Rightarrow> 'w"
  writeRepeatedMessage :: "nat \<Rightarrow> 'm list \<Rightarrow> ('m \<Rightarrow> 'w \<Rightarrow> 'w) \<Rightarrow> 'w \<Rightarrow> 'w"
  getResultBuffer :: "'w \<Rightarrow> 'b"
  BinaryReader :: "'b \<Rightarrow> 'r"
  nextField :: "('r, bool) reading"
  isEndGroup :: "'r \<Rightarrow> bool"
  getFieldNumber :: "'r \<Rightarrow> nat"
  readString :: "('r, string) reading"
  readInt32 :: "('r, int) reading"
  readEnum :: "('r, int) reading"
  readBool :: "('r, bool) reading"
  readMessage :: "'m \<Rightarrow> ('m \<Rightarrow> ('r, 'm) reading) \<Rightarrow> ('r, 'm) reading"
  skipField :: "('r, unit) reading"
  Timestamp :: "('m, 'w, 'r, 'b) pbclass"

text \<open>One branch of a generated switch: read a value, then update the message.\<close>

definition read_then :: "('r, 'a) reading \<Rightarrow> ('a \<Rightarrow> 'b) \<Rightarrow> ('r, 'b) reading" where
  "read_then rd upd r =
     (case rd r of
        None \<Rightarrow> None
      | Some (Inl e) \<Rightarrow> Some (Inl e)
      | Some (Inr (value, r')) \<Rightarrow> Some (Inr (upd value, r')))"

lemma read_then_simps [simp]:
  "rd r = None \<Longrightarrow> read_then rd upd r = None"
  "rd r = Some (Inl e) \<Longrightarrow> read_then rd upd r = Some (Inl e)"
  "rd r = Some (Inr (v, r')) \<Longrightarrow> read_then rd upd r = Some (Inr (upd v, r'))"
  by (simp_all add: read_then_def)

text \<open>
  \<open>if (\<dots>) { writer.write\<dots>(\<dots>); }\<close> and \<open>if (f != null) { writer.write\<dots>(\<dots>, f); }\<close>, statements
  that change the writer or leave it.
\<close>

definition write_if :: "bool \<Rightarrow> ('w \<Rightarrow> 'w) \<Rightarrow> 'w \<Rightarrow> 'w" where
  "write_if c put writer = (if c then put writer else writer)"

definition write_present :: "'a option \<Rightarrow> ('a \<Rightarrow> 'w \<Rightarrow> 'w) \<Rightarrow> 'w \<Rightarrow> 'w" where
  "write_present f put writer = (case f of None \<Rightarrow> writer | Some x \<Rightarrow> put x writer)"

lemma write_simps [simp]:
  "write_if True put writer = put writer" "write_if False put writer = writer"
  "write_present None getput writer = writer" "write_present (Some x) getput writer = getput x writer"
  by (simp_all add: write_if_def write_present_def)

lemma reading_cases:
  assumes "x \<noteq> None"
  obtains (Throws) e where "x = Some (Inl e)" | (Reads) v r where "x = Some (Inr (v, r))"
proof -
  obtain y where y: "x = Some y" using assms by blast
  then show thesis using that by (cases y) auto
qed

text \<open>The message that a class's \<open>deserializeBinary\<close> returns; its reader is dropped.\<close>

definition returned :: "(js_error + 'a \<times> 'r) option \<Rightarrow> (js_error + 'a) option" where
  "returned res = map_option (map_sum id fst) res"

text \<open>
  \<open>while (reader.nextField()) { if (reader.isEndGroup()) break; \<dots> switch (field) \<dots> } return msg\<close>,
  where \<open>body field msg\<close> is the switch. The value \<open>None\<close> is a loop that does not end.
\<close>

partial_function (option) field_loop ::
  "('m, 'w, 'r, 'b) jspb \<Rightarrow> (nat \<Rightarrow> 'm \<Rightarrow> ('r, 'm) reading) \<Rightarrow> 'm \<Rightarrow> ('r, 'm) reading" where
  "field_loop L body msg r =
     (case nextField L r of
        None \<Rightarrow> None
      | Some (Inl e) \<Rightarrow> Some (Inl e)
      | Some (Inr (again, r1)) \<Rightarrow>
          if \<not> again then Some (Inr (msg, r1))
          else if isEndGroup L r1 then Some (Inr (msg, r1))
          else (case body (getFieldNumber L r1) msg r1 of
                  None \<Rightarrow> None
                | Some (Inl e) \<Rightarrow> Some (Inl e)
                | Some (Inr (msg', r2)) \<Rightarrow> field_loop L body msg' r2))"

section \<open>What the package promises\<close>

text \<open>
  The value of a field of a message. A message is seen as a partial map from field numbers to
  values (\<open>view\<close>); a field that is absent reads as its default.
\<close>

datatype 'm pbvalue =
    VString string
  | VNumber int
  | VBoolean bool
  | VMessage 'm
  | VStrings "string list"
  | VMessages "'m list"

definition strings_in :: "'m pbvalue option \<Rightarrow> string list" where
  "strings_in v = (case v of Some (VStrings l) \<Rightarrow> l | _ \<Rightarrow> [])"

definition messages_in :: "'m pbvalue option \<Rightarrow> 'm list" where
  "messages_in v = (case v of Some (VMessages l) \<Rightarrow> l | _ \<Rightarrow> [])"

lemma in_simps [simp]:
  "strings_in None = []" "strings_in (Some (VStrings l)) = l"
  "messages_in None = []" "messages_in (Some (VMessages ms)) = ms"
  by (simp_all add: strings_in_def messages_in_def)

text \<open>The numbers that \<open>writeInt32\<close> and \<open>writeEnum\<close> accept, and the numbers a field may have.\<close>

definition int32 :: "int \<Rightarrow> bool" where
  "int32 i \<longleftrightarrow> - (2 ^ 31) \<le> i \<and> i < 2 ^ 31"

definition field_number :: "nat \<Rightarrow> bool" where
  "field_number n \<longleftrightarrow> 0 < n \<and> n < 2 ^ 29"

locale jspb_message =
  fixes L :: "('m, 'w, 'r, 'b) jspb"
    and view :: "'m \<Rightarrow> nat \<Rightarrow> 'm pbvalue option"
  assumes view_initialize: "view (initialize L rs) = (\<lambda>_. None)"
    and getField_string:
      "view m n = None \<Longrightarrow> getField_string L m n = None"
      "view m n = Some (VString s) \<Longrightarrow> getField_string L m n = Some s"
    and getField_set: "getField_set L m n \<longleftrightarrow> view m n \<noteq> None"
    and getFieldWithDefault_string:
      "view m n = None \<Longrightarrow> getFieldWithDefault_string L m n ds = ds"
      "view m n = Some (VString s) \<Longrightarrow> getFieldWithDefault_string L m n ds = s"
    and getFieldWithDefault_number:
      "view m n = None \<Longrightarrow> getFieldWithDefault_number L m n dn = dn"
      "view m n = Some (VNumber i) \<Longrightarrow> getFieldWithDefault_number L m n dn = i"
    and getBooleanFieldWithDefault:
      "view m n = None \<Longrightarrow> getBooleanFieldWithDefault L m n db = db"
      "view m n = Some (VBoolean b) \<Longrightarrow> getBooleanFieldWithDefault L m n db = b"
    and getRepeatedField:
      "view m n = None \<Longrightarrow> getRepeatedField L m n = []"
      "view m n = Some (VStrings l) \<Longrightarrow> getRepeatedField L m n = l"
    and getWrapperField:
      "view m n = None \<Longrightarrow> getWrapperField L m n = None"
      "view m n = Some (VMessage x) \<Longrightarrow> getWrapperField L m n = Some x"
    and getRepeatedWrapperField:
      "view m n = None \<Longrightarrow> getRepeatedWrapperField L m n = []"
      "view m n = Some (VMessages xs) \<Longrightarrow> getRepeatedWrapperField L m n = xs"
    and view_setField_string:
      "view (setField_string L m n so) = (view m)(n := map_option VString so)"
    and view_setField_list: "view (setField_list L m n l) = (view m)(n := Some (VStrings l))"
    and view_setProto3StringField:
      "view (setProto3StringField L m n s) = (view m)(n := if s = [] then None else Some (VString s))"
    and view_setProto3IntField:
      "view (setProto3IntField L m n i) = (view m)(n := if i = 0 then None else Some (VNumber i))"
    and view_setProto3EnumField:
      "view (setProto3EnumField L m n i) = (view m)(n := if i = 0 then None else Some (VNumber i))"
    and view_setProto3BooleanField:
      "view (setProto3BooleanField L m n b) = (view m)(n := if b then Some (VBoolean b) else None)"
    and view_setWrapperField:
      "view (setWrapperField L m n xo) = (view m)(n := map_option VMessage xo)"
    and view_setRepeatedWrapperField:
      "view (setRepeatedWrapperField L m n xs) = (view m)(n := Some (VMessages xs))"
    and view_addToRepeatedField:
      "view m n = None \<or> view m n = Some (VStrings l) \<Longrightarrow>
       view (addToRepeatedField L m n s None)
       = (view m)(n := Some (VStrings (strings_in (view m n) @ [s])))"
    and view_addToRepeatedWrapperField:
      "view m n = None \<or> view m n = Some (VMessages xs) \<Longrightarrow>
       fst (addToRepeatedWrapperField L m n (Some x) d None) = x
       \<and> view (snd (addToRepeatedWrapperField L m n (Some x) d None))
         = (view m)(n := Some (VMessages (messages_in (view m n) @ [x])))"
    and toObjectList: "toObjectList L xs obj incl = JArray (map (obj incl) xs)"

text \<open>
  A wire value is what one field of a message is on the wire, with the meaning that its writer gave
  it. \<open>wrote w fs\<close> says that the writer \<open>w\<close> has written the fields \<open>fs\<close> in this order, \<open>reads r fs\<close>
  that these are what the reader \<open>r\<close> still has to read up to the end of its message, and
  \<open>on_field r n v fs\<close> that \<open>r\<close> is on the field \<open>n\<close> with the value \<open>v\<close> and \<open>fs\<close> come after it.
  \<open>stamp\<close> are the time stamps that can be written; the 64-bit integers occur in them only.
\<close>

datatype wire_value =
    WString string
  | WInt32 int
  | WInt64 int
  | WEnum int
  | WBool bool
  | WMessage "(nat \<times> wire_value) list"

locale jspb_codec = jspb_message L view
  for L :: "('m, 'w, 'r, 'b) jspb" and view :: "'m \<Rightarrow> nat \<Rightarrow> 'm pbvalue option" +
  fixes wrote :: "'w \<Rightarrow> (nat \<times> wire_value) list \<Rightarrow> bool"
    and reads :: "'r \<Rightarrow> (nat \<times> wire_value) list \<Rightarrow> bool"
    and on_field :: "'r \<Rightarrow> nat \<Rightarrow> wire_value \<Rightarrow> (nat \<times> wire_value) list \<Rightarrow> bool"
    and stamp :: "'m \<Rightarrow> bool"
  assumes wrote_nothing: "wrote (BinaryWriter L) []"
    and wrote_string: "wrote w fs \<Longrightarrow> field_number n \<Longrightarrow> wrote (writeString L n s w) (fs @ [(n, WString s)])"
    and wrote_int32:
      "wrote w fs \<Longrightarrow> field_number n \<Longrightarrow> int32 i \<Longrightarrow> wrote (writeInt32 L n i w) (fs @ [(n, WInt32 i)])"
    and wrote_enum:
      "wrote w fs \<Longrightarrow> field_number n \<Longrightarrow> int32 i \<Longrightarrow> wrote (writeEnum L n i w) (fs @ [(n, WEnum i)])"
    and wrote_bool: "wrote w fs \<Longrightarrow> field_number n \<Longrightarrow> wrote (writeBool L n b w) (fs @ [(n, WBool b)])"
    and wrote_strings:
      "wrote w fs \<Longrightarrow> field_number n \<Longrightarrow>
       wrote (writeRepeatedString L n l w) (fs @ map (\<lambda>s. (n, WString s)) l)"
    and wrote_message:
      "wrote w fs \<Longrightarrow> field_number n \<Longrightarrow>
       (\<And>w' fs'. wrote w' fs' \<Longrightarrow> wrote (put x w') (fs' @ gs)) \<Longrightarrow>
       wrote (writeMessage L n x put w) (fs @ [(n, WMessage gs)])"
    and wrote_messages:
      "wrote w fs \<Longrightarrow> field_number n \<Longrightarrow>
       list_all2 (\<lambda>x gs. \<forall>w' fs'. wrote w' fs' \<longrightarrow> wrote (put x w') (fs' @ gs)) xs gss \<Longrightarrow>
       wrote (writeRepeatedMessage L n xs put w) (fs @ map (\<lambda>gs. (n, WMessage gs)) gss)"
    and reads_buffer: "wrote w fs \<Longrightarrow> reads (BinaryReader L (getResultBuffer L w)) fs"
    and next_end: "reads r [] \<Longrightarrow> \<exists>r'. nextField L r = Some (Inr (False, r')) \<and> reads r' []"
    and next_field:
      "reads r ((n, v) # fs) \<Longrightarrow> \<exists>r'. nextField L r = Some (Inr (True, r')) \<and> on_field r' n v fs"
    and field_here: "on_field r n v fs \<Longrightarrow> \<not> isEndGroup L r \<and> getFieldNumber L r = n"
    and read_string: "on_field r n (WString s) fs \<Longrightarrow> \<exists>r'. readString L r = Some (Inr (s, r')) \<and> reads r' fs"
    and read_int32: "on_field r n (WInt32 i) fs \<Longrightarrow> \<exists>r'. readInt32 L r = Some (Inr (i, r')) \<and> reads r' fs"
    and read_enum: "on_field r n (WEnum i) fs \<Longrightarrow> \<exists>r'. readEnum L r = Some (Inr (i, r')) \<and> reads r' fs"
    and read_bool: "on_field r n (WBool b) fs \<Longrightarrow> \<exists>r'. readBool L r = Some (Inr (b, r')) \<and> reads r' fs"
    and read_message:
      "on_field r n (WMessage gs) fs \<Longrightarrow>
       (\<And>r1. reads r1 gs \<Longrightarrow> \<exists>r2. get x r1 = Some (Inr (x', r2)) \<and> reads r2 []) \<Longrightarrow>
       \<exists>r'. readMessage L x get r = Some (Inr (x', r')) \<and> reads r' fs"
    and skip_field: "on_field r n v fs \<Longrightarrow> \<exists>r'. skipField L r = Some (Inr ((), r')) \<and> reads r' fs"
    and stamp_codec:
      "stamp x \<Longrightarrow>
       \<exists>gs x'. (\<forall>w fs. wrote w fs \<longrightarrow> wrote (pc_serializeBinaryToWriter (Timestamp L) x w) (fs @ gs))
         \<and> (\<forall>r. reads r gs \<longrightarrow>
              (\<exists>r'. pc_deserializeBinaryFromReader (Timestamp L) (pc_new (Timestamp L)) r
                 = Some (Inr (x', r')) \<and> reads r' []))
         \<and> stamp x' \<and> pc_toObject (Timestamp L) False x' = pc_toObject (Timestamp L) False x"

end
