(* ===== verification/ProtoSchema.thy ===== *)
theory ProtoSchema imports Jspb begin

text \<open>
  A reference codec: the protocol of \<open>asphr/schema/daemon.proto\<close> as data (\<open>proto_message\<close>), and
  one interpreter of that data for each function that a generated class has. The classes of
  \<open>daemon_pb.js\<close> are shown to be its instances; what is proved here by induction on the schema
  then holds for all of them: encoding and decoding is lossless, unknown fields are skipped, and
  every input is read in finitely many steps.
\<close>

section \<open>Schemas\<close>

datatype proto_type =
    TString
  | TOptionalString
  | TInt32
  | TBool
  | TEnum string
  | TTimestamp
  | TRepeatedString
  | TRepeatedMessage proto_message
and proto_message = Proto (proto_name: string) (proto_fields: "proto_field list")
and proto_field = Field proto_type string nat

fun field_type :: "proto_field \<Rightarrow> proto_type" where "field_type (Field t nm n) = t"
fun field_name :: "proto_field \<Rightarrow> string" where "field_name (Field t nm n) = nm"
fun field_num :: "proto_field \<Rightarrow> nat" where "field_num (Field t nm n) = n"

text \<open>The property of an object for a field: camel case, with \<open>List\<close> for a repeated field.\<close>

definition upper :: "char \<Rightarrow> char" where
  "upper c = (if 97 \<le> (of_char c :: nat) \<and> (of_char c :: nat) \<le> 122 then char_of (of_char c - (32 :: nat)) else c)"

fun camel :: "string \<Rightarrow> string" where
  "camel [] = []"
| "camel [c] = [c]"
| "camel (c # d # s) = (if c = CHR ''_'' then upper d # camel s else c # camel (d # s))"

fun repeated :: "proto_type \<Rightarrow> bool" where
  "repeated TRepeatedString = True"
| "repeated (TRepeatedMessage s) = True"
| "repeated _ = False"

definition js_name :: "proto_type \<Rightarrow> string \<Rightarrow> string" where
  "js_name t nm = camel nm @ (if repeated t then ''List'' else [])"

section \<open>The reference codec\<close>

definition repeated_numbers :: "proto_field list \<Rightarrow> nat list option" where
  "repeated_numbers fs =
     (let ns = map field_num (filter (\<lambda>f. repeated (field_type f)) fs)
      in if ns = [] then None else Some ns)"

definition ref_new :: "('m, 'w, 'r, 'b) jspb \<Rightarrow> proto_message \<Rightarrow> 'm" where
  "ref_new L s = initialize L (repeated_numbers (proto_fields s))"

fun ref_write_type :: "('m, 'w, 'r, 'b) jspb \<Rightarrow> proto_type \<Rightarrow> nat \<Rightarrow> 'm \<Rightarrow> 'w \<Rightarrow> 'w"
  and ref_write :: "('m, 'w, 'r, 'b) jspb \<Rightarrow> proto_message \<Rightarrow> 'm \<Rightarrow> 'w \<Rightarrow> 'w"
  and ref_write_fields :: "('m, 'w, 'r, 'b) jspb \<Rightarrow> proto_field list \<Rightarrow> 'm \<Rightarrow> 'w \<Rightarrow> 'w" where
  "ref_write_type L TString n = (\<lambda>m w. let f = getFieldWithDefault_string L m n []
     in write_if (0 < length f) (writeString L n f) w)"
| "ref_write_type L TOptionalString n = (\<lambda>m w.
     write_present (getField_string L m n) (\<lambda>f. writeString L n f) w)"
| "ref_write_type L TInt32 n = (\<lambda>m w. let f = getFieldWithDefault_number L m n 0
     in write_if (f \<noteq> 0) (writeInt32 L n f) w)"
| "ref_write_type L (TEnum e) n = (\<lambda>m w. let f = getFieldWithDefault_number L m n 0
     in write_if (f \<noteq> 0) (writeEnum L n f) w)"
| "ref_write_type L TBool n = (\<lambda>m w. let f = getBooleanFieldWithDefault L m n False
     in write_if f (writeBool L n f) w)"
| "ref_write_type L TTimestamp n = (\<lambda>m w.
     write_present (getWrapperField L m n)
       (\<lambda>f. writeMessage L n f (pc_serializeBinaryToWriter (Timestamp L))) w)"
| "ref_write_type L TRepeatedString n = (\<lambda>m w. let f = getRepeatedField L m n
     in write_if (0 < length f) (writeRepeatedString L n f) w)"
| "ref_write_type L (TRepeatedMessage s) n = (\<lambda>m w. let f = getRepeatedWrapperField L m n
     in write_if (0 < length f) (writeRepeatedMessage L n f (ref_write L s)) w)"
| "ref_write L (Proto nm fs) = ref_write_fields L fs"
| "ref_write_fields L [] = (\<lambda>m w. w)"
| "ref_write_fields L (Field t nm n # fs) =
     (\<lambda>m w. ref_write_fields L fs m (ref_write_type L t n m w))"

fun ref_read_type :: "('m, 'w, 'r, 'b) jspb \<Rightarrow> proto_type \<Rightarrow> nat \<Rightarrow> 'm \<Rightarrow> ('r, 'm) reading"
  and ref_read :: "('m, 'w, 'r, 'b) jspb \<Rightarrow> proto_message \<Rightarrow> 'm \<Rightarrow> ('r, 'm) reading"
  and ref_switch :: "('m, 'w, 'r, 'b) jspb \<Rightarrow> proto_field list \<Rightarrow> nat \<Rightarrow> 'm \<Rightarrow> ('r, 'm) reading" where
  "ref_read_type L TString n = (\<lambda>msg. read_then (readString L) (\<lambda>value. setProto3StringField L msg n value))"
| "ref_read_type L TOptionalString n = (\<lambda>msg. read_then (readString L) (\<lambda>value. setField_string L msg n (Some value)))"
| "ref_read_type L TInt32 n = (\<lambda>msg. read_then (readInt32 L) (\<lambda>value. setProto3IntField L msg n value))"
| "ref_read_type L (TEnum e) n = (\<lambda>msg. read_then (readEnum L) (\<lambda>value. setProto3EnumField L msg n value))"
| "ref_read_type L TBool n = (\<lambda>msg. read_then (readBool L) (\<lambda>value. setProto3BooleanField L msg n value))"
| "ref_read_type L TTimestamp n = (\<lambda>msg. read_then
     (readMessage L (pc_new (Timestamp L)) (pc_deserializeBinaryFromReader (Timestamp L)))
     (\<lambda>value. setWrapperField L msg n (Some value)))"
| "ref_read_type L TRepeatedString n = (\<lambda>msg. read_then (readString L) (\<lambda>value. addToRepeatedField L msg n value None))"
| "ref_read_type L (TRepeatedMessage s) n = (\<lambda>msg. read_then
     (readMessage L (ref_new L s) (ref_read L s))
     (\<lambda>value. snd (addToRepeatedWrapperField L msg n (Some value) (ref_new L s) None)))"
| "ref_read L (Proto nm fs) = field_loop L (ref_switch L fs)"
| "ref_switch L [] = (\<lambda>field msg. read_then (skipField L) (\<lambda>_. msg))"
| "ref_switch L (Field t nm n # fs) =
     (\<lambda>field msg. if field = n then ref_read_type L t n msg else ref_switch L fs field msg)"

fun ref_object_type :: "('m, 'w, 'r, 'b) jspb \<Rightarrow> proto_type \<Rightarrow> nat \<Rightarrow> bool \<Rightarrow> 'm \<Rightarrow> 'm jsvalue"
  and ref_object :: "('m, 'w, 'r, 'b) jspb \<Rightarrow> proto_message \<Rightarrow> bool \<Rightarrow> 'm \<Rightarrow> 'm jsvalue"
  and ref_properties :: "('m, 'w, 'r, 'b) jspb \<Rightarrow> proto_field list \<Rightarrow> bool \<Rightarrow> 'm \<Rightarrow> (string \<times> 'm jsvalue) list" where
  "ref_object_type L TString n = (\<lambda>incl msg. JString (getFieldWithDefault_string L msg n []))"
| "ref_object_type L TOptionalString n = (\<lambda>incl msg. JString (getFieldWithDefault_string L msg n []))"
| "ref_object_type L TInt32 n = (\<lambda>incl msg. JNumber (getFieldWithDefault_number L msg n 0))"
| "ref_object_type L (TEnum e) n = (\<lambda>incl msg. JNumber (getFieldWithDefault_number L msg n 0))"
| "ref_object_type L TBool n = (\<lambda>incl msg. JBoolean (getBooleanFieldWithDefault L msg n False))"
| "ref_object_type L TTimestamp n = (\<lambda>incl msg. case getWrapperField L msg n of
     None \<Rightarrow> JUndefined | Some f \<Rightarrow> pc_toObject (Timestamp L) incl f)"
| "ref_object_type L TRepeatedString n = (\<lambda>incl msg. JArray (map JString (getRepeatedField L msg n)))"
| "ref_object_type L (TRepeatedMessage s) n =
     (\<lambda>incl msg. toObjectList L (getRepeatedWrapperField L msg n) (ref_object L s) incl)"
| "ref_object L (Proto nm fs) = (\<lambda>incl msg. JObject
     (ref_properties L fs incl msg @ (if incl then [(''$jspbMessageInstance'', JMessage msg)] else [])))"
| "ref_properties L [] = (\<lambda>incl msg. [])"
| "ref_properties L (Field t nm n # fs) =
     (\<lambda>incl msg. (js_name t nm, ref_object_type L t n incl msg) # ref_properties L fs incl msg)"

text \<open>What a buffer of a class is, and the message that a buffer holds.\<close>

definition ref_encode :: "('m, 'w, 'r, 'b) jspb \<Rightarrow> proto_message \<Rightarrow> 'm \<Rightarrow> 'b" where
  "ref_encode L s m = getResultBuffer L (ref_write L s m (BinaryWriter L))"

definition ref_decode :: "('m, 'w, 'r, 'b) jspb \<Rightarrow> proto_message \<Rightarrow> 'b \<Rightarrow> (js_error + 'm) option" where
  "ref_decode L s bytes = returned (ref_read L s (ref_new L s) (BinaryReader L bytes))"

lemma ref_read_loop: "ref_read L s = field_loop L (ref_switch L (proto_fields s))"
  by (cases s) simp

text \<open>A class implements a message of the schema when its functions are those of the reference codec.\<close>

definition follows ::
  "('m, 'w, 'r, 'b) jspb \<Rightarrow> proto_message \<Rightarrow> ('m, 'w, 'r, 'b) pbclass \<Rightarrow> bool" where
  "follows L s c \<longleftrightarrow>
     pc_new c = ref_new L s
     \<and> pc_toObject c = ref_object L s
     \<and> pc_deserializeBinaryFromReader c = ref_read L s
     \<and> pc_serializeBinaryToWriter c = ref_write L s
     \<and> pc_deserializeBinary c = ref_decode L s
     \<and> pc_prototype_serializeBinary c = ref_encode L s
     \<and> pc_prototype_toObject c = (\<lambda>msg incl. ref_object L s incl msg)"

lemma followsI:
  assumes "pc_new c = ref_new L s"
    and "pc_serializeBinaryToWriter c = ref_write L s"
    and "pc_deserializeBinaryFromReader c = ref_read L s"
    and "pc_toObject c = ref_object L s"
    and "pc_deserializeBinary c
      = (\<lambda>bytes. returned (pc_deserializeBinaryFromReader c (pc_new c) (BinaryReader L bytes)))"
    and "pc_prototype_serializeBinary c
      = (\<lambda>msg. getResultBuffer L (pc_serializeBinaryToWriter c msg (BinaryWriter L)))"
    and "pc_prototype_toObject c = (\<lambda>msg incl. pc_toObject c incl msg)"
  shows "follows L s c"
  using assms by (simp add: follows_def ref_encode_def [abs_def] ref_decode_def [abs_def])

lemma followsD:
  assumes "follows L s c"
  shows "ref_new L s = pc_new c" and "ref_object L s = pc_toObject c"
    and "ref_read L s = pc_deserializeBinaryFromReader c"
    and "ref_write L s = pc_serializeBinaryToWriter c"
    and "ref_decode L s = pc_deserializeBinary c"
    and "ref_encode L s = pc_prototype_serializeBinary c"
  using assms by (simp_all add: follows_def)

lemmas new_simps = ref_new_def repeated_numbers_def Let_def

lemmas object_simps = js_name_def upper_def char_of_def bit_Suc_0_iff Let_def

section \<open>Well-formed schemas and messages\<close>

text \<open>Field numbers are legal and distinct; every field that is present has a value of its type.\<close>

fun schema_ok_type :: "proto_type \<Rightarrow> bool" and schema_ok :: "proto_message \<Rightarrow> bool"
  and schema_ok_fields :: "proto_field list \<Rightarrow> bool" where
  "schema_ok_type (TRepeatedMessage s) = schema_ok s"
| "schema_ok_type _ = True"
| "schema_ok (Proto nm fs) = (distinct (map field_num fs) \<and> schema_ok_fields fs)"
| "schema_ok_fields [] = True"
| "schema_ok_fields (Field t nm n # fs) = (field_number n \<and> schema_ok_type t \<and> schema_ok_fields fs)"

fun typed_value :: "('m \<Rightarrow> nat \<Rightarrow> 'm pbvalue option) \<Rightarrow> ('m \<Rightarrow> bool) \<Rightarrow> proto_type \<Rightarrow> 'm pbvalue option \<Rightarrow> bool"
  and typed :: "('m \<Rightarrow> nat \<Rightarrow> 'm pbvalue option) \<Rightarrow> ('m \<Rightarrow> bool) \<Rightarrow> proto_message \<Rightarrow> 'm \<Rightarrow> bool"
  and typed_fields :: "('m \<Rightarrow> nat \<Rightarrow> 'm pbvalue option) \<Rightarrow> ('m \<Rightarrow> bool) \<Rightarrow> proto_field list \<Rightarrow> 'm \<Rightarrow> bool" where
  "typed_value view stamp TString v = (case v of None \<Rightarrow> True | Some (VString s) \<Rightarrow> True | _ \<Rightarrow> False)"
| "typed_value view stamp TOptionalString v = (case v of None \<Rightarrow> True | Some (VString s) \<Rightarrow> True | _ \<Rightarrow> False)"
| "typed_value view stamp TInt32 v = (case v of None \<Rightarrow> True | Some (VNumber i) \<Rightarrow> int32 i | _ \<Rightarrow> False)"
| "typed_value view stamp (TEnum e) v = (case v of None \<Rightarrow> True | Some (VNumber i) \<Rightarrow> int32 i | _ \<Rightarrow> False)"
| "typed_value view stamp TBool v = (case v of None \<Rightarrow> True | Some (VBoolean b) \<Rightarrow> True | _ \<Rightarrow> False)"
| "typed_value view stamp TTimestamp v = (case v of None \<Rightarrow> True | Some (VMessage x) \<Rightarrow> stamp x | _ \<Rightarrow> False)"
| "typed_value view stamp TRepeatedString v = (case v of None \<Rightarrow> True | Some (VStrings l) \<Rightarrow> True | _ \<Rightarrow> False)"
| "typed_value view stamp (TRepeatedMessage s) v =
     (case v of None \<Rightarrow> True | Some (VMessages xs) \<Rightarrow> list_all (typed view stamp s) xs | _ \<Rightarrow> False)"
| "typed view stamp (Proto nm fs) = typed_fields view stamp fs"
| "typed_fields view stamp [] = (\<lambda>m. True)"
| "typed_fields view stamp (Field t nm n # fs) =
     (\<lambda>m. typed_value view stamp t (view m n) \<and> typed_fields view stamp fs m)"

text \<open>Wire fields whose numbers are not in the schema.\<close>

definition unknown :: "proto_message \<Rightarrow> (nat \<times> wire_value) list \<Rightarrow> bool" where
  "unknown s us \<longleftrightarrow> (\<forall>(n, v) \<in> set us. n \<notin> field_num ` set (proto_fields s))"

section \<open>The reference codec is lossless\<close>

context jspb_codec
begin

text \<open>
  \<open>decodes body m gs m'\<close>: the loop with this switch, on a reader whose next fields are \<open>gs\<close>, goes
  from the message \<open>m\<close> to the message \<open>m'\<close> and is then where \<open>gs\<close> end.
\<close>

definition decodes ::
  "(nat \<Rightarrow> 'm \<Rightarrow> ('r, 'm) reading) \<Rightarrow> 'm \<Rightarrow> (nat \<times> wire_value) list \<Rightarrow> 'm \<Rightarrow> bool" where
  "decodes body m gs m' \<longleftrightarrow>
     (\<forall>r rest. reads r (gs @ rest) \<longrightarrow>
        (\<exists>r'. field_loop L body m r = field_loop L body m' r' \<and> reads r' rest))"

lemma decodes_Nil [simp]: "decodes body m [] m"
  by (auto simp: decodes_def)

lemma decodes_append: "decodes body m gs m' \<Longrightarrow> decodes body m' hs m'' \<Longrightarrow> decodes body m (gs @ hs) m''"
  unfolding decodes_def by (metis append.assoc)

lemma decodes_Cons: "decodes body m [g] m' \<Longrightarrow> decodes body m' hs m'' \<Longrightarrow> decodes body m (g # hs) m''"
  using decodes_append [of body m "[g]"] by simp

lemma decodes_finish:
  assumes "decodes body m gs m'" and "reads r gs"
  shows "\<exists>r'. field_loop L body m r = Some (Inr (m', r')) \<and> reads r' []"
proof -
  obtain r1 where r1: "field_loop L body m r = field_loop L body m' r1" "reads r1 []"
    using assms unfolding decodes_def by (metis append_Nil2)
  obtain r' where "nextField L r1 = Some (Inr (False, r'))" "reads r' []"
    using next_end [OF r1(2)] by blast
  then show ?thesis
    using r1(1) by (auto simp: field_loop.simps [of L body m' r1])
qed

text \<open>One field: what the switch does on it is what the loop does.\<close>

lemma decodes_one:
  assumes "\<And>r fs. on_field r n v fs \<Longrightarrow> \<exists>r'. body n m r = Some (Inr (m', r')) \<and> reads r' fs"
  shows "decodes body m [(n, v)] m'"
  unfolding decodes_def
proof (intro allI impI)
  fix r rest assume "reads r ([(n, v)] @ rest)"
  then obtain r1 where r1: "nextField L r = Some (Inr (True, r1))" "on_field r1 n v rest"
    using next_field by fastforce
  obtain r' where "body n m r1 = Some (Inr (m', r'))" "reads r' rest"
    using assms [OF r1(2)] by blast
  then show "\<exists>r'. field_loop L body m r = field_loop L body m' r' \<and> reads r' rest"
    using r1(1) field_here [OF r1(2)] by (auto simp: field_loop.simps [of L body m r])
qed

text \<open>The value of a field in an object, from the view of the message.\<close>

definition object_value :: "proto_type \<Rightarrow> 'm pbvalue option \<Rightarrow> 'm jsvalue" where
  "object_value t v = (case t of
     TString \<Rightarrow> JString (case v of Some (VString s) \<Rightarrow> s | _ \<Rightarrow> [])
   | TOptionalString \<Rightarrow> JString (case v of Some (VString s) \<Rightarrow> s | _ \<Rightarrow> [])
   | TInt32 \<Rightarrow> JNumber (case v of Some (VNumber i) \<Rightarrow> i | _ \<Rightarrow> 0)
   | TEnum e \<Rightarrow> JNumber (case v of Some (VNumber i) \<Rightarrow> i | _ \<Rightarrow> 0)
   | TBool \<Rightarrow> JBoolean (case v of Some (VBoolean b) \<Rightarrow> b | _ \<Rightarrow> False)
   | TTimestamp \<Rightarrow> (case v of Some (VMessage x) \<Rightarrow> pc_toObject (Timestamp L) False x | _ \<Rightarrow> JUndefined)
   | TRepeatedString \<Rightarrow> JArray (map JString (strings_in v))
   | TRepeatedMessage s \<Rightarrow> JArray (map (ref_object L s False) (messages_in v)))"

lemma typed_valueE:
  assumes "typed_value view stamp t v"
  obtains "v = None"
  | s where "t = TString" "v = Some (VString s)"
  | s where "t = TOptionalString" "v = Some (VString s)"
  | i where "t = TInt32" "v = Some (VNumber i)" "int32 i"
  | e i where "t = TEnum e" "v = Some (VNumber i)" "int32 i"
  | b where "t = TBool" "v = Some (VBoolean b)"
  | x where "t = TTimestamp" "v = Some (VMessage x)" "stamp x"
  | l where "t = TRepeatedString" "v = Some (VStrings l)"
  | s xs where "t = TRepeatedMessage s" "v = Some (VMessages xs)" "list_all (typed view stamp s) xs"
  using assms by (cases t) (auto split: option.splits pbvalue.splits)

lemmas get_laws =
  getField_string getFieldWithDefault_string getFieldWithDefault_number getBooleanFieldWithDefault
  getRepeatedField getWrapperField getRepeatedWrapperField

lemma object_value:
  "typed_value view stamp t (view m n) \<Longrightarrow> ref_object_type L t n False m = object_value t (view m n)"
  by (erule typed_valueE; cases t) (simp_all add: object_value_def get_laws toObjectList)

text \<open>
  \<open>writes put gs\<close>: the function appends the fields \<open>gs\<close> to whatever has been written. \<open>codes s x\<close>:
  a message that is written and read again comes back with the same object.
\<close>

definition writes :: "('w \<Rightarrow> 'w) \<Rightarrow> (nat \<times> wire_value) list \<Rightarrow> bool" where
  "writes put gs \<longleftrightarrow> (\<forall>w fs. wrote w fs \<longrightarrow> wrote (put w) (fs @ gs))"

lemma writes_id: "writes (\<lambda>w. w) []"
  by (simp add: writes_def)

lemma writes_comp: "writes p gs \<Longrightarrow> writes q hs \<Longrightarrow> writes (\<lambda>w. q (p w)) (gs @ hs)"
  unfolding writes_def by (metis append.assoc)

definition codes :: "proto_message \<Rightarrow> 'm \<Rightarrow> (nat \<times> wire_value) list \<Rightarrow> 'm \<Rightarrow> bool" where
  "codes s x gs x' \<longleftrightarrow>
     writes (ref_write L s x) gs
     \<and> decodes (ref_switch L (proto_fields s)) (ref_new L s) gs x'
     \<and> typed view stamp s x' \<and> ref_object L s False x' = ref_object L s False x"

lemma codes_read:
  assumes "codes s x gs x'" and "reads r gs"
  shows "\<exists>r'. ref_read L s (ref_new L s) r = Some (Inr (x', r')) \<and> reads r' []"
  using assms decodes_finish unfolding codes_def ref_read_loop by blast

definition field_codes :: "proto_type \<Rightarrow> nat \<Rightarrow> 'm \<Rightarrow> (nat \<times> wire_value) list \<Rightarrow> bool" where
  "field_codes t n m gs \<longleftrightarrow>
     writes (ref_write_type L t n m) gs
     \<and> (\<forall>body msg. (\<forall>msg. body n msg = ref_read_type L t n msg) \<longrightarrow> view msg n = None \<longrightarrow>
          (\<exists>msg'. decodes body msg gs msg' \<and> (\<forall>k. k \<noteq> n \<longrightarrow> view msg' k = view msg k)
             \<and> typed_value view stamp t (view msg' n)
             \<and> object_value t (view msg' n) = object_value t (view m n)))"

text \<open>A field that is absent, or holds the default, is not written.\<close>

lemma field_codes_skipped:
  assumes "\<And>w. ref_write_type L t n m w = w" and "object_value t (view m n) = object_value t None"
  shows "field_codes t n m []"
proof -
  have "typed_value view stamp t None"
    by (cases t) simp_all
  then show ?thesis
    using assms unfolding field_codes_def writes_def by simp (metis decodes_Nil)
qed

text \<open>A field that is written as one wire field.\<close>

lemma field_codes_one:
  assumes put: "writes (ref_write_type L t n m) [(n, v)]"
    and get: "\<And>msg r fs. on_field r n v fs \<Longrightarrow>
       \<exists>r'. ref_read_type L t n msg r = Some (Inr (upd msg, r')) \<and> reads r' fs"
    and upd: "\<And>msg. view (upd msg) = (view msg)(n := u)"
    and "typed_value view stamp t u" and "object_value t u = object_value t (view m n)"
  shows "field_codes t n m [(n, v)]"
  unfolding field_codes_def
proof (intro conjI allI impI)
  fix body msg
  assume body: "\<forall>msg. body n msg = ref_read_type L t n msg"
  have "decodes body msg [(n, v)] (upd msg)"
    by (rule decodes_one) (use body get in auto)
  then show "\<exists>msg'. decodes body msg [(n, v)] msg' \<and> (\<forall>k. k \<noteq> n \<longrightarrow> view msg' k = view msg k)
             \<and> typed_value view stamp t (view msg' n)
             \<and> object_value t (view msg' n) = object_value t (view m n)"
    using assms by (intro exI [of _ "upd msg"]) simp
qed (rule put)

lemma read_thenI:
  "\<exists>r'. rd r = Some (Inr (x, r')) \<and> reads r' fs \<Longrightarrow>
   \<exists>r'. read_then rd upd r = Some (Inr (upd x, r')) \<and> reads r' fs"
  by auto

text \<open>The scalar types: absent or default, or one wire field.\<close>

lemma field_codes_string:
  assumes "field_number n" and "typed_value view stamp TString (view m n)"
  shows "\<exists>gs. field_codes TString n m gs"
proof (cases "view m n = None \<or> view m n = Some (VString [])")
  case True
  then have "field_codes TString n m []"
    by (intro field_codes_skipped) (auto simp: getFieldWithDefault_string object_value_def)
  then show ?thesis ..
next
  case False
  then obtain s where s: "view m n = Some (VString s)" "s \<noteq> []"
    using assms(2) by (auto split: option.splits pbvalue.splits)
  have "field_codes TString n m [(n, WString s)]"
    by (rule field_codes_one [where u = "Some (VString s)" and upd = "\<lambda>msg. setProto3StringField L msg n s"])
      (use s assms(1) in \<open>auto simp: writes_def getFieldWithDefault_string object_value_def
         view_setProto3StringField intro!: wrote_string read_thenI read_string\<close>)
  then show ?thesis ..
qed

lemma field_codes_optional:
  assumes "field_number n" and "typed_value view stamp TOptionalString (view m n)"
  shows "\<exists>gs. field_codes TOptionalString n m gs"
proof (cases "view m n")
  case None
  then have "field_codes TOptionalString n m []"
    by (intro field_codes_skipped) (auto simp: getField_string object_value_def)
  then show ?thesis ..
next
  case (Some v)
  then obtain s where s: "view m n = Some (VString s)"
    using assms(2) by (auto split: pbvalue.splits)
  have "field_codes TOptionalString n m [(n, WString s)]"
    by (rule field_codes_one [where u = "Some (VString s)" and upd = "\<lambda>msg. setField_string L msg n (Some s)"])
      (use s assms(1) in \<open>auto simp: writes_def getField_string object_value_def
         view_setField_string intro!: wrote_string read_thenI read_string\<close>)
  then show ?thesis ..
qed

lemma field_codes_int32:
  assumes "field_number n" and "typed_value view stamp TInt32 (view m n)"
  shows "\<exists>gs. field_codes TInt32 n m gs"
proof (cases "view m n = None \<or> view m n = Some (VNumber 0)")
  case True
  then have "field_codes TInt32 n m []"
    by (intro field_codes_skipped) (auto simp: getFieldWithDefault_number object_value_def)
  then show ?thesis ..
next
  case False
  then obtain i where i: "view m n = Some (VNumber i)" "i \<noteq> 0" "int32 i"
    using assms(2) by (auto split: option.splits pbvalue.splits)
  have "field_codes TInt32 n m [(n, WInt32 i)]"
    by (rule field_codes_one [where u = "Some (VNumber i)" and upd = "\<lambda>msg. setProto3IntField L msg n i"])
      (use i assms(1) in \<open>auto simp: writes_def getFieldWithDefault_number object_value_def
         view_setProto3IntField intro!: wrote_int32 read_thenI read_int32\<close>)
  then show ?thesis ..
qed

lemma field_codes_enum:
  assumes "field_number n" and "typed_value view stamp (TEnum e) (view m n)"
  shows "\<exists>gs. field_codes (TEnum e) n m gs"
proof (cases "view m n = None \<or> view m n = Some (VNumber 0)")
  case True
  then have "field_codes (TEnum e) n m []"
    by (intro field_codes_skipped) (auto simp: getFieldWithDefault_number object_value_def)
  then show ?thesis ..
next
  case False
  then obtain i where i: "view m n = Some (VNumber i)" "i \<noteq> 0" "int32 i"
    using assms(2) by (auto split: option.splits pbvalue.splits)
  have "field_codes (TEnum e) n m [(n, WEnum i)]"
    by (rule field_codes_one [where u = "Some (VNumber i)" and upd = "\<lambda>msg. setProto3EnumField L msg n i"])
      (use i assms(1) in \<open>auto simp: writes_def getFieldWithDefault_number object_value_def
         view_setProto3EnumField intro!: wrote_enum read_thenI read_enum\<close>)
  then show ?thesis ..
qed

lemma field_codes_bool:
  assumes "field_number n" and "typed_value view stamp TBool (view m n)"
  shows "\<exists>gs. field_codes TBool n m gs"
proof (cases "view m n = Some (VBoolean True)")
  case False
  then have "field_codes TBool n m []"
    using assms(2) by (intro field_codes_skipped)
      (auto simp: getBooleanFieldWithDefault object_value_def split: option.splits pbvalue.splits)
  then show ?thesis ..
next
  case True
  have "field_codes TBool n m [(n, WBool True)]"
    by (rule field_codes_one [where u = "Some (VBoolean True)" and upd = "\<lambda>msg. setProto3BooleanField L msg n True"])
      (use True assms(1) in \<open>auto simp: writes_def getBooleanFieldWithDefault object_value_def
         view_setProto3BooleanField intro!: wrote_bool read_thenI read_bool\<close>)
  then show ?thesis ..
qed

lemma field_codes_timestamp:
  assumes "field_number n" and "typed_value view stamp TTimestamp (view m n)"
  shows "\<exists>gs. field_codes TTimestamp n m gs"
proof (cases "view m n")
  case None
  then have "field_codes TTimestamp n m []"
    by (intro field_codes_skipped) (auto simp: getWrapperField object_value_def)
  then show ?thesis ..
next
  case (Some v)
  then obtain x where x: "view m n = Some (VMessage x)" "stamp x"
    using assms(2) by (auto split: pbvalue.splits)
  obtain gs x' where
    put: "\<forall>w fs. wrote w fs \<longrightarrow> wrote (pc_serializeBinaryToWriter (Timestamp L) x w) (fs @ gs)" and
    get: "\<forall>r. reads r gs \<longrightarrow> (\<exists>r'. pc_deserializeBinaryFromReader (Timestamp L) (pc_new (Timestamp L)) r
                 = Some (Inr (x', r')) \<and> reads r' [])" and
    x': "stamp x'" "pc_toObject (Timestamp L) False x' = pc_toObject (Timestamp L) False x"
    using stamp_codec [OF x(2)] by blast
  have "field_codes TTimestamp n m [(n, WMessage gs)]"
    by (rule field_codes_one [where u = "Some (VMessage x')" and upd = "\<lambda>msg. setWrapperField L msg n (Some x')"])
      (use x x' put get assms(1) in \<open>auto simp: writes_def getWrapperField object_value_def
         view_setWrapperField intro!: wrote_message read_thenI read_message\<close>)
  then show ?thesis ..
qed

text \<open>
  Repeated fields: each element is one wire field, and reading it adds one element at the end.
\<close>

lemma decodes_strings:
  assumes "\<And>msg. body n msg = ref_read_type L TRepeatedString n msg"
    and "view msg n = None \<or> view msg n = Some (VStrings ys)"
  shows "\<exists>msg'. decodes body msg (map (\<lambda>s. (n, WString s)) l) msg'
    \<and> (\<forall>k. k \<noteq> n \<longrightarrow> view msg' k = view msg k)
    \<and> typed_value view stamp TRepeatedString (view msg' n)
    \<and> strings_in (view msg' n) = strings_in (view msg n) @ l"
  using assms(2)
proof (induction l arbitrary: msg ys)
  case Nil
  then show ?case by (intro exI [of _ msg]) auto
next
  case (Cons s l)
  let ?msg = "addToRepeatedField L msg n s None"
  have v: "view ?msg = (view msg)(n := Some (VStrings (strings_in (view msg n) @ [s])))"
    using view_addToRepeatedField [OF Cons.prems] .
  have "decodes body msg [(n, WString s)] ?msg"
    by (rule decodes_one) (auto simp: assms(1) intro!: read_thenI read_string)
  moreover obtain msg' where "decodes body ?msg (map (\<lambda>s. (n, WString s)) l) msg'"
    "\<forall>k. k \<noteq> n \<longrightarrow> view msg' k = view ?msg k" "typed_value view stamp TRepeatedString (view msg' n)"
    "strings_in (view msg' n) = strings_in (view ?msg n) @ l"
    using Cons.IH [of ?msg "strings_in (view msg n) @ [s]"] v by auto
  ultimately show ?case
    using v by (intro exI [of _ msg']) (auto intro: decodes_Cons)
qed

lemma field_codes_strings:
  assumes "field_number n" and "typed_value view stamp TRepeatedString (view m n)"
  shows "\<exists>gs. field_codes TRepeatedString n m gs"
proof -
  let ?l = "strings_in (view m n)"
  let ?gs = "map (\<lambda>s. (n, WString s)) ?l"
  have l: "getRepeatedField L m n = ?l"
    using assms(2) by (auto simp: getRepeatedField split: option.splits pbvalue.splits)
  have "writes (ref_write_type L TRepeatedString n m) ?gs"
    using assms(1) by (auto simp: writes_def write_if_def l Let_def intro: wrote_strings)
  moreover have "\<exists>msg'. decodes body msg ?gs msg' \<and> (\<forall>k. k \<noteq> n \<longrightarrow> view msg' k = view msg k)
      \<and> typed_value view stamp TRepeatedString (view msg' n)
      \<and> object_value TRepeatedString (view msg' n) = object_value TRepeatedString (view m n)"
    if body: "\<forall>msg. body n msg = ref_read_type L TRepeatedString n msg" and "view msg n = None"
    for body msg
    using decodes_strings [of body n msg _ ?l] that by (simp add: object_value_def) metis
  ultimately have "field_codes TRepeatedString n m ?gs"
    unfolding field_codes_def by blast
  then show ?thesis ..
qed

lemma decodes_messages:
  assumes "\<And>msg. body n msg = ref_read_type L (TRepeatedMessage s) n msg"
    and "view msg n = None \<or> view msg n = Some (VMessages ys)"
    and "\<And>x. x \<in> set xs \<Longrightarrow> codes s x (gs x) (x' x)"
    and "list_all (typed view stamp s) (messages_in (view msg n))"
  shows "\<exists>msg'. decodes body msg (map (\<lambda>x. (n, WMessage (gs x))) xs) msg'
    \<and> (\<forall>k. k \<noteq> n \<longrightarrow> view msg' k = view msg k)
    \<and> typed_value view stamp (TRepeatedMessage s) (view msg' n)
    \<and> messages_in (view msg' n) = messages_in (view msg n) @ map x' xs"
  using assms(2-4)
proof (induction xs arbitrary: msg ys)
  case Nil
  then show ?case by (intro exI [of _ msg]) auto
next
  case (Cons x xs)
  let ?msg = "snd (addToRepeatedWrapperField L msg n (Some (x' x)) (ref_new L s) None)"
  have v: "view ?msg = (view msg)(n := Some (VMessages (messages_in (view msg n) @ [x' x])))"
    using view_addToRepeatedWrapperField [OF Cons.prems(1)] by blast
  have x: "codes s x (gs x) (x' x)"
    using Cons.prems(2) by simp
  have "decodes body msg [(n, WMessage (gs x))] ?msg"
    by (rule decodes_one)
      (use codes_read [OF x] in \<open>auto simp: assms(1) intro!: read_thenI [of _ _ "x' x"] read_message\<close>)
  moreover have "\<exists>msg'. decodes body ?msg (map (\<lambda>x. (n, WMessage (gs x))) xs) msg'
      \<and> (\<forall>k. k \<noteq> n \<longrightarrow> view msg' k = view ?msg k)
      \<and> typed_value view stamp (TRepeatedMessage s) (view msg' n)
      \<and> messages_in (view msg' n) = messages_in (view ?msg n) @ map x' xs"
    by (rule Cons.IH [where ys = "messages_in (view msg n) @ [x' x]"])
      (use v x Cons.prems in \<open>auto simp: codes_def\<close>)
  ultimately show ?case
    using v by (auto intro: decodes_Cons)
qed

lemma field_codes_messages:
  assumes "field_number n" and "typed_value view stamp (TRepeatedMessage s) (view m n)"
    and IH: "\<And>x. typed view stamp s x \<Longrightarrow> \<exists>gs x'. codes s x gs x'"
  shows "\<exists>gs. field_codes (TRepeatedMessage s) n m gs"
proof -
  let ?xs = "messages_in (view m n)"
  obtain gs x' where c: "\<And>x. typed view stamp s x \<Longrightarrow> codes s x (gs x) (x' x)"
    using IH by metis
  let ?gs = "map (\<lambda>x. (n, WMessage (gs x))) ?xs"
  have xs: "getRepeatedWrapperField L m n = ?xs" "\<And>x. x \<in> set ?xs \<Longrightarrow> typed view stamp s x"
    using assms(2) by (auto simp: list_all_iff getRepeatedWrapperField split: option.splits pbvalue.splits)
  have "list_all2 (\<lambda>x g. \<forall>w' fs'. wrote w' fs' \<longrightarrow> wrote (ref_write L s x w') (fs' @ g)) ?xs (map gs ?xs)"
    using c xs(2) by (auto simp: list_all2_conv_all_nth codes_def writes_def)
  then have "wrote (writeRepeatedMessage L n ?xs (ref_write L s) w) (fs @ ?gs)" if "wrote w fs" for w fs
    using wrote_messages [OF that assms(1)] by (force simp: comp_def)
  then have "writes (ref_write_type L (TRepeatedMessage s) n m) ?gs"
    by (auto simp: writes_def write_if_def xs(1) Let_def)
  moreover have "\<exists>msg'. decodes body msg ?gs msg' \<and> (\<forall>k. k \<noteq> n \<longrightarrow> view msg' k = view msg k)
      \<and> typed_value view stamp (TRepeatedMessage s) (view msg' n)
      \<and> object_value (TRepeatedMessage s) (view msg' n) = object_value (TRepeatedMessage s) (view m n)"
    if body: "\<forall>msg. body n msg = ref_read_type L (TRepeatedMessage s) n msg" and none: "view msg n = None"
    for body msg
  proof -
    have "map (ref_object L s False) (map x' ?xs) = map (ref_object L s False) ?xs"
      using c xs(2) by (auto simp: codes_def)
    moreover have "\<exists>msg'. decodes body msg ?gs msg' \<and> (\<forall>k. k \<noteq> n \<longrightarrow> view msg' k = view msg k)
      \<and> typed_value view stamp (TRepeatedMessage s) (view msg' n)
      \<and> messages_in (view msg' n) = messages_in (view msg n) @ map x' ?xs"
      by (rule decodes_messages) (use body none c xs(2) in auto)
    then obtain msg' where "decodes body msg ?gs msg'" "\<forall>k. k \<noteq> n \<longrightarrow> view msg' k = view msg k"
      "typed_value view stamp (TRepeatedMessage s) (view msg' n)" "messages_in (view msg' n) = map x' ?xs"
      using none by auto
    ultimately show ?thesis
      by (intro exI [of _ msg']) (simp add: object_value_def)
  qed
  ultimately have "field_codes (TRepeatedMessage s) n m ?gs"
    unfolding field_codes_def by blast
  then show ?thesis ..
qed

text \<open>All the fields of a message, then messages by induction on the schema.\<close>

lemma typed_fields_iff:
  "typed_fields view stamp fs m \<longleftrightarrow>
   (\<forall>f \<in> set fs. typed_value view stamp (field_type f) (view m (field_num f)))"
proof (induction fs)
  case (Cons f fs)
  then show ?case by (cases f) (simp del: typed_value.simps)
qed simp

lemma schema_ok_fields_iff:
  "schema_ok_fields fs \<longleftrightarrow> (\<forall>f \<in> set fs. field_number (field_num f) \<and> schema_ok_type (field_type f))"
proof (induction fs)
  case (Cons f fs)
  then show ?case by (cases f) (simp del: schema_ok_type.simps)
qed simp

lemma ref_properties_map:
  "typed_fields view stamp fs m \<Longrightarrow> ref_properties L fs False m =
   map (\<lambda>f. (js_name (field_type f) (field_name f), object_value (field_type f) (view m (field_num f)))) fs"
proof (induction fs)
  case (Cons f fs)
  then show ?case
    by (cases f) (simp add: object_value del: ref_object_type.simps typed_value.simps)
qed simp

lemma ref_switch_at:
  "distinct (map field_num fs) \<Longrightarrow> f \<in> set fs \<Longrightarrow>
   ref_switch L fs (field_num f) msg = ref_read_type L (field_type f) (field_num f) msg"
proof (induction fs)
  case (Cons g fs)
  then show ?case by (cases g) (force simp del: ref_read_type.simps)
qed simp

lemma fields_code:
  assumes "\<And>f. f \<in> set fs \<Longrightarrow> \<exists>gs. field_codes (field_type f) (field_num f) m gs"
    and "distinct (map field_num fs)"
  shows "\<exists>gs. writes (ref_write_fields L fs m) gs
    \<and> (\<forall>body msg.
         (\<forall>f \<in> set fs. \<forall>msg. body (field_num f) msg = ref_read_type L (field_type f) (field_num f) msg)
         \<longrightarrow> (\<forall>f \<in> set fs. view msg (field_num f) = None)
         \<longrightarrow> (\<exists>msg'. decodes body msg gs msg' \<and> (\<forall>k. k \<notin> field_num ` set fs \<longrightarrow> view msg' k = view msg k)
              \<and> (\<forall>f \<in> set fs. typed_value view stamp (field_type f) (view msg' (field_num f))
                   \<and> object_value (field_type f) (view msg' (field_num f))
                     = object_value (field_type f) (view m (field_num f)))))"
  using assms
proof (induction fs)
  case Nil
  show ?case
    by (intro exI [of _ "[]"] conjI allI impI)
      (auto simp: writes_id intro!: exI [of _ "_ :: 'm"] decodes_Nil)
next
  case (Cons f fs)
  obtain t nm n where f [simp]: "f = Field t nm n" by (cases f)
  obtain g where g: "field_codes t n m g"
    using Cons.prems(1) [of f] by auto
  obtain gs where gs: "writes (ref_write_fields L fs m) gs"
    "\<And>body msg.
         \<forall>f \<in> set fs. \<forall>msg. body (field_num f) msg = ref_read_type L (field_type f) (field_num f) msg
         \<Longrightarrow> \<forall>f \<in> set fs. view msg (field_num f) = None
         \<Longrightarrow> \<exists>msg'. decodes body msg gs msg' \<and> (\<forall>k. k \<notin> field_num ` set fs \<longrightarrow> view msg' k = view msg k)
              \<and> (\<forall>f \<in> set fs. typed_value view stamp (field_type f) (view msg' (field_num f))
                   \<and> object_value (field_type f) (view msg' (field_num f))
                     = object_value (field_type f) (view m (field_num f)))"
    using Cons.IH Cons.prems by fastforce
  have fresh: "n \<notin> field_num ` set fs"
    using Cons.prems(2) by simp
  show ?case
  proof (intro exI [of _ "g @ gs"] conjI allI impI)
    show "writes (ref_write_fields L (f # fs) m) (g @ gs)"
      using writes_comp [of "ref_write_type L t n m" g] g gs(1) by (simp add: field_codes_def)
  next
    fix body msg
    assume body: "\<forall>f' \<in> set (f # fs). \<forall>msg. body (field_num f') msg = ref_read_type L (field_type f') (field_num f') msg"
      and none: "\<forall>f' \<in> set (f # fs). view msg (field_num f') = None"
    have "\<forall>msg. body n msg = ref_read_type L t n msg" "view msg n = None"
      using body none by auto
    with g obtain msg1 where 1: "decodes body msg g msg1" "\<forall>k. k \<noteq> n \<longrightarrow> view msg1 k = view msg k"
      "typed_value view stamp t (view msg1 n)" "object_value t (view msg1 n) = object_value t (view m n)"
      unfolding field_codes_def by blast
    have "\<forall>f \<in> set fs. view msg1 (field_num f) = None"
      using 1(2) none fresh by (metis imageI list.set_intros(2))
    then obtain msg2 where 2: "decodes body msg1 gs msg2" "\<forall>k. k \<notin> field_num ` set fs \<longrightarrow> view msg2 k = view msg1 k"
      "\<forall>f \<in> set fs. typed_value view stamp (field_type f) (view msg2 (field_num f))
         \<and> object_value (field_type f) (view msg2 (field_num f)) = object_value (field_type f) (view m (field_num f))"
      using gs(2) [of body msg1] body by auto
    have "view msg2 n = view msg1 n"
      using 2(2) fresh by blast
    with 1 2 show "\<exists>msg'. decodes body msg (g @ gs) msg'
        \<and> (\<forall>k. k \<notin> field_num ` set (f # fs) \<longrightarrow> view msg' k = view msg k)
        \<and> (\<forall>f' \<in> set (f # fs). typed_value view stamp (field_type f') (view msg' (field_num f'))
             \<and> object_value (field_type f') (view msg' (field_num f'))
               = object_value (field_type f') (view m (field_num f')))"
      by (intro exI [of _ msg2]) (auto intro: decodes_append simp del: typed_value.simps)
  qed
qed

lemma codes_fields:
  assumes "\<And>f. f \<in> set fs \<Longrightarrow> \<exists>gs. field_codes (field_type f) (field_num f) m gs"
    and "distinct (map field_num fs)" and "typed view stamp (Proto nm fs) m"
  shows "\<exists>gs m'. codes (Proto nm fs) m gs m'"
proof -
  let ?new = "ref_new L (Proto nm fs)"
  have new: "view ?new k = None" for k
    by (simp add: ref_new_def view_initialize)
  obtain gs m' where put: "writes (ref_write_fields L fs m) gs"
    and get: "decodes (ref_switch L fs) ?new gs m'"
    and m': "\<forall>f \<in> set fs. typed_value view stamp (field_type f) (view m' (field_num f))
         \<and> object_value (field_type f) (view m' (field_num f)) = object_value (field_type f) (view m (field_num f))"
    using fields_code [OF assms(1,2)] new ref_switch_at [OF assms(2)] by meson
  have "typed_fields view stamp fs m'"
    using m' by (simp add: typed_fields_iff)
  then have "codes (Proto nm fs) m gs m'"
    using put get m' assms(3)
    by (auto simp: codes_def ref_properties_map typed_fields_iff simp del: typed_value.simps)
  then show ?thesis by blast
qed

lemma schema_codes:
  "schema_ok_type t \<Longrightarrow> field_number n \<Longrightarrow> typed_value view stamp t (view m n) \<Longrightarrow> \<exists>gs. field_codes t n m gs"
  "schema_ok s \<Longrightarrow> typed view stamp s m \<Longrightarrow> \<exists>gs m'. codes s m gs m'"
  "schema_ok_type (field_type f) \<Longrightarrow> field_number (field_num f) \<Longrightarrow>
   typed_value view stamp (field_type f) (view m (field_num f)) \<Longrightarrow>
   \<exists>gs. field_codes (field_type f) (field_num f) m gs"
proof (induction t and s and f arbitrary: n m and m and m)
  case TString
  then show ?case by (intro field_codes_string)
next
  case TOptionalString
  then show ?case by (intro field_codes_optional)
next
  case TInt32
  then show ?case by (intro field_codes_int32)
next
  case TBool
  then show ?case by (intro field_codes_bool)
next
  case (TEnum e)
  then show ?case by (intro field_codes_enum)
next
  case TTimestamp
  then show ?case by (intro field_codes_timestamp)
next
  case TRepeatedString
  then show ?case by (intro field_codes_strings)
next
  case (TRepeatedMessage s)
  then show ?case by (intro field_codes_messages) auto
next
  case (Proto nm fs)
  have "\<exists>gs. field_codes (field_type f) (field_num f) m gs" if "f \<in> set fs" for f
    using Proto.IH [OF that] Proto.prems that
    by (auto simp: schema_ok_fields_iff typed_fields_iff simp del: schema_ok_type.simps typed_value.simps)
  then show ?case
    using Proto.prems by (intro codes_fields) auto
next
  case (Field t nm n)
  then show ?case by simp
qed

text \<open>
  Fields whose numbers the schema does not know are skipped, wherever they stand; so a message
  that comes with the fields of a later version is read as what this version knows of it.
\<close>

lemma ref_switch_skips:
  "n \<notin> field_num ` set fs \<Longrightarrow> ref_switch L fs n msg = read_then (skipField L) (\<lambda>_. msg)"
proof (induction fs)
  case (Cons f fs)
  then show ?case by (cases f) simp
qed simp

lemma decodes_unknown:
  "unknown s us \<Longrightarrow> decodes (ref_switch L (proto_fields s)) m us m"
proof (induction us)
  case (Cons u us)
  obtain n v where u [simp]: "u = (n, v)" by (cases u)
  have "decodes (ref_switch L (proto_fields s)) m [(n, v)] m"
    by (rule decodes_one)
      (use Cons.prems in \<open>auto simp: unknown_def ref_switch_skips intro!: read_thenI skip_field\<close>)
  with Cons show ?case
    by (auto simp: unknown_def intro: decodes_Cons)
qed simp

theorem ref_roundtrip_extended:
  assumes "schema_ok s" and "typed view stamp s m"
    and "wrote w before" and "unknown s before"
    and "\<forall>w fs. wrote w fs \<longrightarrow> wrote (put w) (fs @ after)" and "unknown s after"
  shows "\<exists>m'. ref_decode L s (getResultBuffer L (put (ref_write L s m w))) = Some (Inr m')
    \<and> ref_object L s False m' = ref_object L s False m \<and> typed view stamp s m'"
proof -
  let ?body = "ref_switch L (proto_fields s)"
  obtain gs m' where c: "codes s m gs m'"
    using schema_codes(2) [OF assms(1,2)] by blast
  have "wrote (put (ref_write L s m w)) ((before @ gs) @ after)"
    using c assms(3,5) unfolding codes_def writes_def by blast
  then have r: "reads (BinaryReader L (getResultBuffer L (put (ref_write L s m w)))) ((before @ gs) @ after)"
    by (rule reads_buffer)
  have "decodes ?body (ref_new L s) ((before @ gs) @ after) m'"
    using c decodes_unknown assms(4,6) unfolding codes_def by (blast intro: decodes_append)
  then have "\<exists>r'. field_loop L ?body (ref_new L s)
      (BinaryReader L (getResultBuffer L (put (ref_write L s m w)))) = Some (Inr (m', r'))"
    using decodes_finish [OF _ r] by blast
  then show ?thesis
    using c unfolding ref_decode_def returned_def codes_def ref_read_loop by auto
qed

corollary ref_roundtrip:
  assumes "schema_ok s" and "typed view stamp s m"
  shows "\<exists>m'. ref_decode L s (ref_encode L s m) = Some (Inr m')
    \<and> ref_object L s False m' = ref_object L s False m \<and> typed view stamp s m'"
  using ref_roundtrip_extended [OF assms wrote_nothing, of "\<lambda>w. w" "[]"] unfolding ref_encode_def
  by (simp add: unknown_def)

text \<open>A fresh message is well-typed, and nothing is written for it.\<close>

lemma typed_new: "typed view stamp s (ref_new L s)"
proof -
  have "view (ref_new L s) = (\<lambda>_. None)"
    by (simp add: ref_new_def view_initialize)
  moreover have "typed_value view stamp t None" for t
    by (cases t) simp_all
  ultimately show ?thesis
    by (cases s) (simp add: typed_fields_iff del: typed_value.simps)
qed


end

section \<open>Reading ends\<close>

text \<open>
  What makes the loops end: \<open>rank\<close> measures what a reader still has in front of it, no reading
  function makes it larger, and entering a field makes it smaller. A \<open>bounded\<close> function returns
  on every reader and does not move back.
\<close>

definition bounded :: "('r \<Rightarrow> nat) \<Rightarrow> ('r, 'a) reading \<Rightarrow> bool" where
  "bounded rank get \<longleftrightarrow>
     (\<forall>r. get r \<noteq> None \<and> (\<forall>v r'. get r = Some (Inr (v, r')) \<longrightarrow> rank r' \<le> rank r))"

lemma bounded_read_then: "bounded rank rd \<Longrightarrow> bounded rank (read_then rd upd)"
  unfolding bounded_def read_then_def by (fastforce split: option.splits sum.splits)

lemma bounded_if:
  "bounded rank f \<Longrightarrow> bounded rank g \<Longrightarrow> bounded rank (\<lambda>r. if c r then f r else g r)"
  by (simp add: bounded_def)

lemma boundedE:
  assumes "bounded rank get"
  obtains (Throws) e where "get r = Some (Inl e)"
  | (Reads) v r' where "get r = Some (Inr (v, r'))" and "rank r' \<le> rank r"
proof -
  have "get r \<noteq> None"
    using assms by (simp add: bounded_def)
  then show thesis
    using assms that by (cases rule: reading_cases) (auto simp: bounded_def)
qed

locale jspb_progress =
  fixes L :: "('m, 'w, 'r, 'b) jspb" and rank :: "'r \<Rightarrow> nat"
  assumes bounded_next: "bounded rank (nextField L)"
    and next_advances: "nextField L r = Some (Inr (True, r')) \<Longrightarrow> rank r' < rank r"
    and bounded_string: "bounded rank (readString L)"
    and bounded_int32: "bounded rank (readInt32 L)"
    and bounded_enum: "bounded rank (readEnum L)"
    and bounded_bool: "bounded rank (readBool L)"
    and bounded_skip: "bounded rank (skipField L)"
    and bounded_message: "(\<And>y. bounded rank (get y)) \<Longrightarrow> bounded rank (readMessage L x get)"
    and bounded_stamp: "bounded rank (pc_deserializeBinaryFromReader (Timestamp L) x)"
begin

lemma bounded_field_loop:
  assumes "\<And>n m. bounded rank (body n m)"
  shows "bounded rank (field_loop L body m)"
proof -
  have "field_loop L body m r \<noteq> None
      \<and> (\<forall>v r'. field_loop L body m r = Some (Inr (v, r')) \<longrightarrow> rank r' \<le> rank r)" for r
  proof (induction "rank r" arbitrary: r m rule: less_induct)
    case less
    have "nextField L r \<noteq> None"
      using bounded_next by (simp add: bounded_def)
    then show ?case
    proof (cases rule: reading_cases)
      case (Throws e)
      then show ?thesis by (simp add: field_loop.simps [of L body m r])
    next
      case next1: (Reads again r1)
      let ?b = "body (getFieldNumber L r1) m r1"
      have le: "rank r1 \<le> rank r"
        using bounded_next next1 by (auto simp: bounded_def)
      have b: "?b \<noteq> None" "\<And>m' r2. ?b = Some (Inr (m', r2)) \<Longrightarrow> rank r2 \<le> rank r1"
        using assms by (auto simp: bounded_def)
      show ?thesis
      proof (cases "again \<and> \<not> isEndGroup L r1")
        case False
        with next1 le show ?thesis by (auto simp: field_loop.simps [of L body m r])
      next
        case True
        with next1 have lt: "rank r1 < rank r"
          by (auto intro: next_advances)
        from b(1) show ?thesis
        proof (cases rule: reading_cases)
          case (Throws e)
          with next1 True show ?thesis by (simp add: field_loop.simps [of L body m r])
        next
          case (Reads m' r2)
          then have r2: "rank r2 < rank r"
            using b(2) lt by fastforce
          have "field_loop L body m r = field_loop L body m' r2"
            using Reads next1 True by (simp add: field_loop.simps [of L body m r])
          then show ?thesis
            using less [OF r2, of m'] r2 by (auto intro: order.trans less_imp_le)
        qed
      qed
    qed
  qed
  then show ?thesis by (simp add: bounded_def)
qed

lemma bounded_ref_read:
  "bounded rank (ref_read_type L t n m)"
  "bounded rank (ref_read L s m)"
  "bounded rank (ref_read_type L (field_type f) n m)"
proof (induction t and s and f arbitrary: n m and m and n m)
  case (Proto nm fs)
  have "bounded rank (ref_switch L gs n m)" if "set gs \<subseteq> set fs" for gs n m
    using that
  proof (induction gs)
    case Nil
    then show ?case by (simp add: bounded_read_then bounded_skip)
  next
    case (Cons g gs)
    then show ?case using Proto.IH [of g] by (cases g) (auto simp del: ref_read_type.simps)
  qed
  then show ?case by (simp add: bounded_field_loop)
qed (simp_all add: bounded_read_then bounded_string bounded_int32 bounded_enum bounded_bool
  bounded_message bounded_stamp)

lemma ref_decode_returns: "ref_decode L s bytes \<noteq> None"
  using bounded_ref_read(2) [of s] by (auto simp: ref_decode_def returned_def bounded_def)

end

end
