(* ===== verification/PbIdentity.thy ===== *)
theory PbIdentity imports ProtoSchema begin

text \<open>
  The classes of \<open>daemon/schema/daemon_pb.js\<close> for registration, the contact list and identities, function by
  function, and beside each class the message of \<open>asphr/schema/daemon.proto\<close> that it implements,
  with the proof that the class is the reference codec of that message.
\<close>

section \<open>RegisterUserRequest\<close>

definition RegisterUserRequest_new ::
  "('m, 'w, 'r, 'b) jspb \<Rightarrow> 'm" where
  "RegisterUserRequest_new L = initialize L None"

definition RegisterUserRequest_getName ::
  "('m, 'w, 'r, 'b) jspb \<Rightarrow> 'm \<Rightarrow> string" where
  "RegisterUserRequest_getName L this = getFieldWithDefault_string L this 1 []"

definition RegisterUserRequest_setName ::
  "('m, 'w, 'r, 'b) jspb \<Rightarrow> 'm \<Rightarrow> string \<Rightarrow> 'm" where
  "RegisterUserRequest_setName L this value = setProto3StringField L this 1 value"

definition RegisterUserRequest_getBetaKey ::
  "('m, 'w, 'r, 'b) jspb \<Rightarrow> 'm \<Rightarrow> string" where
  "RegisterUserRequest_getBetaKey L this = getFieldWithDefault_string L this 2 []"

definition RegisterUserRequest_setBetaKey ::
  "('m, 'w, 'r, 'b) jspb \<Rightarrow> 'm \<Rightarrow> string \<Rightarrow> 'm" where
  "RegisterUserRequest_setBetaKey L this value = setProto3StringField L this 2 value"

definition RegisterUserRequest_toObject ::
  "('m, 'w, 'r, 'b) jspb \<Rightarrow> bool \<Rightarrow> 'm \<Rightarrow> 'm jsvalue" where
  "RegisterUserRequest_toObject L includeInstance msg = JObject
     ([(''name'', JString (getFieldWithDefault_string L msg 1 [])),
       (''betaKey'', JString (getFieldWithDefault_string L msg 2 []))]
      @ (if includeInstance then [(''$jspbMessageInstance'', JMessage msg)] else []))"

definition RegisterUserRequest_prototype_toObject ::
  "('m, 'w, 'r, 'b) jspb \<Rightarrow> 'm \<Rightarrow> bool \<Rightarrow> 'm jsvalue" where
  "RegisterUserRequest_prototype_toObject L this opt_includeInstance =
     RegisterUserRequest_toObject L opt_includeInstance this"

definition RegisterUserRequest_deserializeBinaryFromReader ::
  "('m, 'w, 'r, 'b) jspb \<Rightarrow> 'm \<Rightarrow> ('r, 'm) reading" where
  "RegisterUserRequest_deserializeBinaryFromReader L = field_loop L (\<lambda>field msg.
        if field = 1 then read_then (readString L) (\<lambda>value. RegisterUserRequest_setName L msg value)
        else if field = 2 then read_then (readString L) (\<lambda>value. RegisterUserRequest_setBetaKey L msg value)
        else read_then (skipField L) (\<lambda>_. msg))"

definition RegisterUserRequest_deserializeBinary ::
  "('m, 'w, 'r, 'b) jspb \<Rightarrow> 'b \<Rightarrow> (js_error + 'm) option" where
  "RegisterUserRequest_deserializeBinary L bytes =
     (let reader = BinaryReader L bytes; msg = RegisterUserRequest_new L
      in returned (RegisterUserRequest_deserializeBinaryFromReader L msg reader))"

definition RegisterUserRequest_serializeBinaryToWriter ::
  "('m, 'w, 'r, 'b) jspb \<Rightarrow> 'm \<Rightarrow> 'w \<Rightarrow> 'w" where
  "RegisterUserRequest_serializeBinaryToWriter L message writer =
     (let f = RegisterUserRequest_getName L message;
          writer = write_if (0 < length f) (writeString L 1 f) writer;
          f = RegisterUserRequest_getBetaKey L message;
          writer = write_if (0 < length f) (writeString L 2 f) writer
      in writer)"

definition RegisterUserRequest_serializeBinary ::
  "('m, 'w, 'r, 'b) jspb \<Rightarrow> 'm \<Rightarrow> 'b" where
  "RegisterUserRequest_serializeBinary L this =
     (let writer = BinaryWriter L; writer = RegisterUserRequest_serializeBinaryToWriter L this writer
      in getResultBuffer L writer)"

definition RegisterUserRequest ::
  "('m, 'w, 'r, 'b) jspb \<Rightarrow> ('m, 'w, 'r, 'b) pbclass" where
  "RegisterUserRequest L =
     \<lparr>pc_displayName = ''proto.asphrdaemon.RegisterUserRequest'',
      pc_new = RegisterUserRequest_new L,
      pc_toObject = RegisterUserRequest_toObject L,
      pc_deserializeBinary = RegisterUserRequest_deserializeBinary L,
      pc_deserializeBinaryFromReader = RegisterUserRequest_deserializeBinaryFromReader L,
      pc_serializeBinaryToWriter = RegisterUserRequest_serializeBinaryToWriter L,
      pc_prototype_toObject = RegisterUserRequest_prototype_toObject L,
      pc_prototype_serializeBinary = RegisterUserRequest_serializeBinary L\<rparr>"

definition RegisterUserRequest_proto :: proto_message where
  "RegisterUserRequest_proto = Proto ''RegisterUserRequest''
     [Field TString ''name'' 1,
      Field TString ''beta_key'' 2]"

lemmas RegisterUserRequest_defs =
  RegisterUserRequest_def [abs_def] RegisterUserRequest_new_def [abs_def]
  RegisterUserRequest_getName_def [abs_def] RegisterUserRequest_setName_def [abs_def]
  RegisterUserRequest_getBetaKey_def [abs_def] RegisterUserRequest_setBetaKey_def [abs_def]
  RegisterUserRequest_toObject_def [abs_def]
  RegisterUserRequest_deserializeBinaryFromReader_def [abs_def]
  RegisterUserRequest_serializeBinaryToWriter_def [abs_def]
  RegisterUserRequest_proto_def

lemma follows_RegisterUserRequest:
  "follows L RegisterUserRequest_proto (RegisterUserRequest L)"
  by (rule followsI, simp add: RegisterUserRequest_defs new_simps,
    simp add: RegisterUserRequest_defs Let_def,
    simp add: RegisterUserRequest_defs cong: if_cong,
    simp add: RegisterUserRequest_defs object_simps,
    simp_all add: RegisterUserRequest_def [abs_def]
      RegisterUserRequest_prototype_toObject_def [abs_def]
      RegisterUserRequest_deserializeBinary_def [abs_def]
      RegisterUserRequest_serializeBinary_def [abs_def] Let_def)

section \<open>RegisterUserResponse\<close>

definition RegisterUserResponse_new ::
  "('m, 'w, 'r, 'b) jspb \<Rightarrow> 'm" where
  "RegisterUserResponse_new L = initialize L None"

definition RegisterUserResponse_toObject ::
  "('m, 'w, 'r, 'b) jspb \<Rightarrow> bool \<Rightarrow> 'm \<Rightarrow> 'm jsvalue" where
  "RegisterUserResponse_toObject L includeInstance msg = JObject
     ([]
      @ (if includeInstance then [(''$jspbMessageInstance'', JMessage msg)] else []))"

definition RegisterUserResponse_prototype_toObject ::
  "('m, 'w, 'r, 'b) jspb \<Rightarrow> 'm \<Rightarrow> bool \<Rightarrow> 'm jsvalue" where
  "RegisterUserResponse_prototype_toObject L this opt_includeInstance =
     RegisterUserResponse_toObject L opt_includeInstance this"

definition RegisterUserResponse_deserializeBinaryFromReader ::
  "('m, 'w, 'r, 'b) jspb \<Rightarrow> 'm \<Rightarrow> ('r, 'm) reading" where
  "RegisterUserResponse_deserializeBinaryFromReader L = field_loop L (\<lambda>field msg.
        read_then (skipField L) (\<lambda>_. msg))"

definition RegisterUserResponse_deserializeBinary ::
  "('m, 'w, 'r, 'b) jspb \<Rightarrow> 'b \<Rightarrow> (js_error + 'm) option" where
  "RegisterUserResponse_deserializeBinary L bytes =
     (let reader = BinaryReader L bytes; msg = RegisterUserResponse_new L
      in returned (RegisterUserResponse_deserializeBinaryFromReader L msg reader))"

definition RegisterUserResponse_serializeBinaryToWriter ::
  "('m, 'w, 'r, 'b) jspb \<Rightarrow> 'm \<Rightarrow> 'w \<Rightarrow> 'w" where
  "RegisterUserResponse_serializeBinaryToWriter L message writer = writer"

definition RegisterUserResponse_serializeBinary ::
  "('m, 'w, 'r, 'b) jspb \<Rightarrow> 'm \<Rightarrow> 'b" where
  "RegisterUserResponse_serializeBinary L this =
     (let writer = BinaryWriter L; writer = RegisterUserResponse_serializeBinaryToWriter L this writer
      in getResultBuffer L writer)"

definition RegisterUserResponse ::
  "('m, 'w, 'r, 'b) jspb \<Rightarrow> ('m, 'w, 'r, 'b) pbclass" where
  "RegisterUserResponse L =
     \<lparr>pc_displayName = ''proto.asphrdaemon.RegisterUserResponse'',
      pc_new = RegisterUserResponse_new L,
      pc_toObject = RegisterUserResponse_toObject L,
      pc_deserializeBinary = RegisterUserResponse_deserializeBinary L,
      pc_deserializeBinaryFromReader = RegisterUserResponse_deserializeBinaryFromReader L,
      pc_serializeBinaryToWriter = RegisterUserResponse_serializeBinaryToWriter L,
      pc_prototype_toObject = RegisterUserResponse_prototype_toObject L,
      pc_prototype_serializeBinary = RegisterUserResponse_serializeBinary L\<rparr>"

definition RegisterUserResponse_proto :: proto_message where
  "RegisterUserResponse_proto = Proto ''RegisterUserResponse''
     []"

lemmas RegisterUserResponse_defs =
  RegisterUserResponse_def [abs_def] RegisterUserResponse_new_def [abs_def]
  RegisterUserResponse_toObject_def [abs_def]
  RegisterUserResponse_deserializeBinaryFromReader_def [abs_def]
  RegisterUserResponse_serializeBinaryToWriter_def [abs_def]
  RegisterUserResponse_proto_def

lemma follows_RegisterUserResponse:
  "follows L RegisterUserResponse_proto (RegisterUserResponse L)"
  by (rule followsI, simp add: RegisterUserResponse_defs new_simps,
    simp add: RegisterUserResponse_defs Let_def,
    simp add: RegisterUserResponse_defs cong: if_cong,
    simp add: RegisterUserResponse_defs object_simps,
    simp_all add: RegisterUserResponse_def [abs_def]
      RegisterUserResponse_prototype_toObject_def [abs_def]
      RegisterUserResponse_deserializeBinary_def [abs_def]
      RegisterUserResponse_serializeBinary_def [abs_def] Let_def)

section \<open>GetFriendListRequest\<close>

definition GetFriendListRequest_new ::
  "('m, 'w, 'r, 'b) jspb \<Rightarrow> 'm" where
  "GetFriendListRequest_new L = initialize L None"

definition GetFriendListRequest_toObject ::
  "('m, 'w, 'r, 'b) jspb \<Rightarrow> bool \<Rightarrow> 'm \<Rightarrow> 'm jsvalue" where
  "GetFriendListRequest_toObject L includeInstance msg = JObject
     ([]
      @ (if includeInstance then [(''$jspbMessageInstance'', JMessage msg)] else []))"

definition GetFriendListRequest_prototype_toObject ::
  "('m, 'w, 'r, 'b) jspb \<Rightarrow> 'm \<Rightarrow> bool \<Rightarrow> 'm jsvalue" where
  "GetFriendListRequest_prototype_toObject L this opt_includeInstance =
     GetFriendListRequest_toObject L opt_includeInstance this"

definition GetFriendListRequest_deserializeBinaryFromReader ::
  "('m, 'w, 'r, 'b) jspb \<Rightarrow> 'm \<Rightarrow> ('r, 'm) reading" where
  "GetFriendListRequest_deserializeBinaryFromReader L = field_loop L (\<lambda>field msg.
        read_then (skipField L) (\<lambda>_. msg))"

definition GetFriendListRequest_deserializeBinary ::
  "('m, 'w, 'r, 'b) jspb \<Rightarrow> 'b \<Rightarrow> (js_error + 'm) option" where
  "GetFriendListRequest_deserializeBinary L bytes =
     (let reader = BinaryReader L bytes; msg = GetFriendListRequest_new L
      in returned (GetFriendListRequest_deserializeBinaryFromReader L msg reader))"

definition GetFriendListRequest_serializeBinaryToWriter ::
  "('m, 'w, 'r, 'b) jspb \<Rightarrow> 'm \<Rightarrow> 'w \<Rightarrow> 'w" where
  "GetFriendListRequest_serializeBinaryToWriter L message writer = writer"

definition GetFriendListRequest_serializeBinary ::
  "('m, 'w, 'r, 'b) jspb \<Rightarrow> 'm \<Rightarrow> 'b" where
  "GetFriendListRequest_serializeBinary L this =
     (let writer = BinaryWriter L; writer = GetFriendListRequest_serializeBinaryToWriter L this writer
      in getResultBuffer L writer)"

definition GetFriendListRequest ::
  "('m, 'w, 'r, 'b) jspb \<Rightarrow> ('m, 'w, 'r, 'b) pbclass" where
  "GetFriendListRequest L =
     \<lparr>pc_displayName = ''proto.asphrdaemon.GetFriendListRequest'',
      pc_new = GetFriendListRequest_new L,
      pc_toObject = GetFriendListRequest_toObject L,
      pc_deserializeBinary = GetFriendListRequest_deserializeBinary L,
      pc_deserializeBinaryFromReader = GetFriendListRequest_deserializeBinaryFromReader L,
      pc_serializeBinaryToWriter = GetFriendListRequest_serializeBinaryToWriter L,
      pc_prototype_toObject = GetFriendListRequest_prototype_toObject L,
      pc_prototype_serializeBinary = GetFriendListRequest_serializeBinary L\<rparr>"

definition GetFriendListRequest_proto :: proto_message where
  "GetFriendListRequest_proto = Proto ''GetFriendListRequest''
     []"

lemmas GetFriendListRequest_defs =
  GetFriendListRequest_def [abs_def] GetFriendListRequest_new_def [abs_def]
  GetFriendListRequest_toObject_def [abs_def]
  GetFriendListRequest_deserializeBinaryFromReader_def [abs_def]
  GetFriendListRequest_serializeBinaryToWriter_def [abs_def]
  GetFriendListRequest_proto_def

lemma follows_GetFriendListRequest:
  "follows L GetFriendListRequest_proto (GetFriendListRequest L)"
  by (rule followsI, simp add: GetFriendListRequest_defs new_simps,
    simp add: GetFriendListRequest_defs Let_def,
    simp add: GetFriendListRequest_defs cong: if_cong,
    simp add: GetFriendListRequest_defs object_simps,
    simp_all add: GetFriendListRequest_def [abs_def]
      GetFriendListRequest_prototype_toObject_def [abs_def]
      GetFriendListRequest_deserializeBinary_def [abs_def]
      GetFriendListRequest_serializeBinary_def [abs_def] Let_def)

section \<open>FriendInfo\<close>

definition FriendInfo_new ::
  "('m, 'w, 'r, 'b) jspb \<Rightarrow> 'm" where
  "FriendInfo_new L = initialize L None"

definition FriendInfo_getUniqueName ::
  "('m, 'w, 'r, 'b) jspb \<Rightarrow> 'm \<Rightarrow> string" where
  "FriendInfo_getUniqueName L this = getFieldWithDefault_string L this 1 []"

definition FriendInfo_setUniqueName ::
  "('m, 'w, 'r, 'b) jspb \<Rightarrow> 'm \<Rightarrow> string \<Rightarrow> 'm" where
  "FriendInfo_setUniqueName L this value = setProto3StringField L this 1 value"

definition FriendInfo_getDisplayName ::
  "('m, 'w, 'r, 'b) jspb \<Rightarrow> 'm \<Rightarrow> string" where
  "FriendInfo_getDisplayName L this = getFieldWithDefault_string L this 2 []"

definition FriendInfo_setDisplayName ::
  "('m, 'w, 'r, 'b) jspb \<Rightarrow> 'm \<Rightarrow> string \<Rightarrow> 'm" where
  "FriendInfo_setDisplayName L this value = setProto3StringField L this 2 value"

definition FriendInfo_getPublicId ::
  "('m, 'w, 'r, 'b) jspb \<Rightarrow> 'm \<Rightarrow> string" where
  "FriendInfo_getPublicId L this = getFieldWithDefault_string L this 3 []"

definition FriendInfo_setPublicId ::
  "('m, 'w, 'r, 'b) jspb \<Rightarrow> 'm \<Rightarrow> string \<Rightarrow> 'm" where
  "FriendInfo_setPublicId L this value = setProto3StringField L this 3 value"

definition FriendInfo_getInvitationProgress ::
  "('m, 'w, 'r, 'b) jspb \<Rightarrow> 'm \<Rightarrow> int" where
  "FriendInfo_getInvitationProgress L this = getFieldWithDefault_number L this 4 0"

definition FriendInfo_setInvitationProgress ::
  "('m, 'w, 'r, 'b) jspb \<Rightarrow> 'm \<Rightarrow> int \<Rightarrow> 'm" where
  "FriendInfo_setInvitationProgress L this value = setProto3EnumField L this 4 value"

definition FriendInfo_toObject ::
  "('m, 'w, 'r, 'b) jspb \<Rightarrow> bool \<Rightarrow> 'm \<Rightarrow> 'm jsvalue" where
  "FriendInfo_toObject L includeInstance msg = JObject
     ([(''uniqueName'', JString (getFieldWithDefault_string L msg 1 [])),
       (''displayName'', JString (getFieldWithDefault_string L msg 2 [])),
       (''publicId'', JString (getFieldWithDefault_string L msg 3 [])),
       (''invitationProgress'', JNumber (getFieldWithDefault_number L msg 4 0))]
      @ (if includeInstance then [(''$jspbMessageInstance'', JMessage msg)] else []))"

definition FriendInfo_prototype_toObject ::
  "('m, 'w, 'r, 'b) jspb \<Rightarrow> 'm \<Rightarrow> bool \<Rightarrow> 'm jsvalue" where
  "FriendInfo_prototype_toObject L this opt_includeInstance =
     FriendInfo_toObject L opt_includeInstance this"

definition FriendInfo_deserializeBinaryFromReader ::
  "('m, 'w, 'r, 'b) jspb \<Rightarrow> 'm \<Rightarrow> ('r, 'm) reading" where
  "FriendInfo_deserializeBinaryFromReader L = field_loop L (\<lambda>field msg.
        if field = 1 then read_then (readString L) (\<lambda>value. FriendInfo_setUniqueName L msg value)
        else if field = 2 then read_then (readString L) (\<lambda>value. FriendInfo_setDisplayName L msg value)
        else if field = 3 then read_then (readString L) (\<lambda>value. FriendInfo_setPublicId L msg value)
        else if field = 4 then read_then (readEnum L) (\<lambda>value. FriendInfo_setInvitationProgress L msg value)
        else read_then (skipField L) (\<lambda>_. msg))"

definition FriendInfo_deserializeBinary ::
  "('m, 'w, 'r, 'b) jspb \<Rightarrow> 'b \<Rightarrow> (js_error + 'm) option" where
  "FriendInfo_deserializeBinary L bytes =
     (let reader = BinaryReader L bytes; msg = FriendInfo_new L
      in returned (FriendInfo_deserializeBinaryFromReader L msg reader))"

definition FriendInfo_serializeBinaryToWriter ::
  "('m, 'w, 'r, 'b) jspb \<Rightarrow> 'm \<Rightarrow> 'w \<Rightarrow> 'w" where
  "FriendInfo_serializeBinaryToWriter L message writer =
     (let f = FriendInfo_getUniqueName L message;
          writer = write_if (0 < length f) (writeString L 1 f) writer;
          f = FriendInfo_getDisplayName L message;
          writer = write_if (0 < length f) (writeString L 2 f) writer;
          f = FriendInfo_getPublicId L message;
          writer = write_if (0 < length f) (writeString L 3 f) writer;
          f = FriendInfo_getInvitationProgress L message;
          writer = write_if (f \<noteq> 0) (writeEnum L 4 f) writer
      in writer)"

definition FriendInfo_serializeBinary ::
  "('m, 'w, 'r, 'b) jspb \<Rightarrow> 'm \<Rightarrow> 'b" where
  "FriendInfo_serializeBinary L this =
     (let writer = BinaryWriter L; writer = FriendInfo_serializeBinaryToWriter L this writer
      in getResultBuffer L writer)"

definition FriendInfo ::
  "('m, 'w, 'r, 'b) jspb \<Rightarrow> ('m, 'w, 'r, 'b) pbclass" where
  "FriendInfo L =
     \<lparr>pc_displayName = ''proto.asphrdaemon.FriendInfo'',
      pc_new = FriendInfo_new L,
      pc_toObject = FriendInfo_toObject L,
      pc_deserializeBinary = FriendInfo_deserializeBinary L,
      pc_deserializeBinaryFromReader = FriendInfo_deserializeBinaryFromReader L,
      pc_serializeBinaryToWriter = FriendInfo_serializeBinaryToWriter L,
      pc_prototype_toObject = FriendInfo_prototype_toObject L,
      pc_prototype_serializeBinary = FriendInfo_serializeBinary L\<rparr>"

definition FriendInfo_proto :: proto_message where
  "FriendInfo_proto = Proto ''FriendInfo''
     [Field TString ''unique_name'' 1,
      Field TString ''display_name'' 2,
      Field TString ''public_id'' 3,
      Field (TEnum ''InvitationProgress'') ''invitation_progress'' 4]"

lemmas FriendInfo_defs =
  FriendInfo_def [abs_def] FriendInfo_new_def [abs_def] FriendInfo_getUniqueName_def [abs_def]
  FriendInfo_setUniqueName_def [abs_def] FriendInfo_getDisplayName_def [abs_def]
  FriendInfo_setDisplayName_def [abs_def] FriendInfo_getPublicId_def [abs_def]
  FriendInfo_setPublicId_def [abs_def] FriendInfo_getInvitationProgress_def [abs_def]
  FriendInfo_setInvitationProgress_def [abs_def] FriendInfo_toObject_def [abs_def]
  FriendInfo_deserializeBinaryFromReader_def [abs_def]
  FriendInfo_serializeBinaryToWriter_def [abs_def]
  FriendInfo_proto_def

lemma follows_FriendInfo:
  "follows L FriendInfo_proto (FriendInfo L)"
  by (rule followsI, simp add: FriendInfo_defs new_simps,
    simp add: FriendInfo_defs Let_def,
    simp add: FriendInfo_defs cong: if_cong,
    simp add: FriendInfo_defs object_simps,
    simp_all add: FriendInfo_def [abs_def]
      FriendInfo_prototype_toObject_def [abs_def] FriendInfo_deserializeBinary_def [abs_def]
      FriendInfo_serializeBinary_def [abs_def] Let_def)

section \<open>GetFriendListResponse\<close>

definition GetFriendListResponse_repeatedFields ::
  "nat list" where
  "GetFriendListResponse_repeatedFields = [1]"

definition GetFriendListResponse_new ::
  "('m, 'w, 'r, 'b) jspb \<Rightarrow> 'm" where
  "GetFriendListResponse_new L = initialize L (Some GetFriendListResponse_repeatedFields)"

definition GetFriendListResponse_getFriendInfosList ::
  "('m, 'w, 'r, 'b) jspb \<Rightarrow> 'm \<Rightarrow> 'm list" where
  "GetFriendListResponse_getFriendInfosList L this = getRepeatedWrapperField L this 1"

definition GetFriendListResponse_setFriendInfosList ::
  "('m, 'w, 'r, 'b) jspb \<Rightarrow> 'm \<Rightarrow> 'm list \<Rightarrow> 'm" where
  "GetFriendListResponse_setFriendInfosList L this value = setRepeatedWrapperField L this 1 value"

definition GetFriendListResponse_addFriendInfos ::
  "('m, 'w, 'r, 'b) jspb \<Rightarrow> 'm \<Rightarrow> 'm option \<Rightarrow> nat option \<Rightarrow> 'm \<times> 'm" where
  "GetFriendListResponse_addFriendInfos L this opt_value opt_index =
     addToRepeatedWrapperField L this 1 opt_value (FriendInfo_new L) opt_index"

definition GetFriendListResponse_clearFriendInfosList ::
  "('m, 'w, 'r, 'b) jspb \<Rightarrow> 'm \<Rightarrow> 'm" where
  "GetFriendListResponse_clearFriendInfosList L this = GetFriendListResponse_setFriendInfosList L this []"

definition GetFriendListResponse_toObject ::
  "('m, 'w, 'r, 'b) jspb \<Rightarrow> bool \<Rightarrow> 'm \<Rightarrow> 'm jsvalue" where
  "GetFriendListResponse_toObject L includeInstance msg = JObject
     ([(''friendInfosList'', toObjectList L (GetFriendListResponse_getFriendInfosList L msg) (FriendInfo_toObject L) includeInstance)]
      @ (if includeInstance then [(''$jspbMessageInstance'', JMessage msg)] else []))"

definition GetFriendListResponse_prototype_toObject ::
  "('m, 'w, 'r, 'b) jspb \<Rightarrow> 'm \<Rightarrow> bool \<Rightarrow> 'm jsvalue" where
  "GetFriendListResponse_prototype_toObject L this opt_includeInstance =
     GetFriendListResponse_toObject L opt_includeInstance this"

definition GetFriendListResponse_deserializeBinaryFromReader ::
  "('m, 'w, 'r, 'b) jspb \<Rightarrow> 'm \<Rightarrow> ('r, 'm) reading" where
  "GetFriendListResponse_deserializeBinaryFromReader L = field_loop L (\<lambda>field msg.
        if field = 1 then read_then 
           (readMessage L (FriendInfo_new L) (FriendInfo_deserializeBinaryFromReader L)) (\<lambda>value. snd (GetFriendListResponse_addFriendInfos L msg (Some value) None))
        else read_then (skipField L) (\<lambda>_. msg))"

definition GetFriendListResponse_deserializeBinary ::
  "('m, 'w, 'r, 'b) jspb \<Rightarrow> 'b \<Rightarrow> (js_error + 'm) option" where
  "GetFriendListResponse_deserializeBinary L bytes =
     (let reader = BinaryReader L bytes; msg = GetFriendListResponse_new L
      in returned (GetFriendListResponse_deserializeBinaryFromReader L msg reader))"

definition GetFriendListResponse_serializeBinaryToWriter ::
  "('m, 'w, 'r, 'b) jspb \<Rightarrow> 'm \<Rightarrow> 'w \<Rightarrow> 'w" where
  "GetFriendListResponse_serializeBinaryToWriter L message writer =
     (let f = GetFriendListResponse_getFriendInfosList L message;
          writer = write_if (0 < length f) (writeRepeatedMessage L 1 f (FriendInfo_serializeBinaryToWriter L)) writer
      in writer)"

definition GetFriendListResponse_serializeBinary ::
  "('m, 'w, 'r, 'b) jspb \<Rightarrow> 'm \<Rightarrow> 'b" where
  "GetFriendListResponse_serializeBinary L this =
     (let writer = BinaryWriter L; writer = GetFriendListResponse_serializeBinaryToWriter L this writer
      in getResultBuffer L writer)"

definition GetFriendListResponse ::
  "('m, 'w, 'r, 'b) jspb \<Rightarrow> ('m, 'w, 'r, 'b) pbclass" where
  "GetFriendListResponse L =
     \<lparr>pc_displayName = ''proto.asphrdaemon.GetFriendListResponse'',
      pc_new = GetFriendListResponse_new L,
      pc_toObject = GetFriendListResponse_toObject L,
      pc_deserializeBinary = GetFriendListResponse_deserializeBinary L,
      pc_deserializeBinaryFromReader = GetFriendListResponse_deserializeBinaryFromReader L,
      pc_serializeBinaryToWriter = GetFriendListResponse_serializeBinaryToWriter L,
      pc_prototype_toObject = GetFriendListResponse_prototype_toObject L,
      pc_prototype_serializeBinary = GetFriendListResponse_serializeBinary L\<rparr>"

definition GetFriendListResponse_proto :: proto_message where
  "GetFriendListResponse_proto = Proto ''GetFriendListResponse''
     [Field (TRepeatedMessage FriendInfo_proto) ''friend_infos'' 1]"

lemmas GetFriendListResponse_defs =
  GetFriendListResponse_def [abs_def] GetFriendListResponse_repeatedFields_def [abs_def]
  GetFriendListResponse_new_def [abs_def] GetFriendListResponse_getFriendInfosList_def [abs_def]
  GetFriendListResponse_setFriendInfosList_def [abs_def]
  GetFriendListResponse_addFriendInfos_def [abs_def]
  GetFriendListResponse_clearFriendInfosList_def [abs_def]
  GetFriendListResponse_toObject_def [abs_def]
  GetFriendListResponse_deserializeBinaryFromReader_def [abs_def]
  GetFriendListResponse_serializeBinaryToWriter_def [abs_def]
  GetFriendListResponse_proto_def

lemma follows_GetFriendListResponse:
  "follows L GetFriendListResponse_proto (GetFriendListResponse L)"
  by (rule followsI, simp add: GetFriendListResponse_defs new_simps,
    simp add: GetFriendListResponse_defs followsD [OF follows_FriendInfo, unfolded FriendInfo_def, simplified] Let_def,
    simp add: GetFriendListResponse_defs followsD [OF follows_FriendInfo, unfolded FriendInfo_def, simplified] cong: if_cong,
    simp add: GetFriendListResponse_defs followsD [OF follows_FriendInfo, unfolded FriendInfo_def, simplified] object_simps,
    simp_all add: GetFriendListResponse_def [abs_def]
      GetFriendListResponse_prototype_toObject_def [abs_def]
      GetFriendListResponse_deserializeBinary_def [abs_def]
      GetFriendListResponse_serializeBinary_def [abs_def] Let_def)

section \<open>GetMyPublicIDRequest\<close>

definition GetMyPublicIDRequest_new ::
  "('m, 'w, 'r, 'b) jspb \<Rightarrow> 'm" where
  "GetMyPublicIDRequest_new L = initialize L None"

definition GetMyPublicIDRequest_toObject ::
  "('m, 'w, 'r, 'b) jspb \<Rightarrow> bool \<Rightarrow> 'm \<Rightarrow> 'm jsvalue" where
  "GetMyPublicIDRequest_toObject L includeInstance msg = JObject
     ([]
      @ (if includeInstance then [(''$jspbMessageInstance'', JMessage msg)] else []))"

definition GetMyPublicIDRequest_prototype_toObject ::
  "('m, 'w, 'r, 'b) jspb \<Rightarrow> 'm \<Rightarrow> bool \<Rightarrow> 'm jsvalue" where
  "GetMyPublicIDRequest_prototype_toObject L this opt_includeInstance =
     GetMyPublicIDRequest_toObject L opt_includeInstance this"

definition GetMyPublicIDRequest_deserializeBinaryFromReader ::
  "('m, 'w, 'r, 'b) jspb \<Rightarrow> 'm \<Rightarrow> ('r, 'm) reading" where
  "GetMyPublicIDRequest_deserializeBinaryFromReader L = field_loop L (\<lambda>field msg.
        read_then (skipField L) (\<lambda>_. msg))"

definition GetMyPublicIDRequest_deserializeBinary ::
  "('m, 'w, 'r, 'b) jspb \<Rightarrow> 'b \<Rightarrow> (js_error + 'm) option" where
  "GetMyPublicIDRequest_deserializeBinary L bytes =
     (let reader = BinaryReader L bytes; msg = GetMyPublicIDRequest_new L
      in returned (GetMyPublicIDRequest_deserializeBinaryFromReader L msg reader))"

definition GetMyPublicIDRequest_serializeBinaryToWriter ::
  "('m, 'w, 'r, 'b) jspb \<Rightarrow> 'm \<Rightarrow> 'w \<Rightarrow> 'w" where
  "GetMyPublicIDRequest_serializeBinaryToWriter L message writer = writer"

definition GetMyPublicIDRequest_serializeBinary ::
  "('m, 'w, 'r, 'b) jspb \<Rightarrow> 'm \<Rightarrow> 'b" where
  "GetMyPublicIDRequest_serializeBinary L this =
     (let writer = BinaryWriter L; writer = GetMyPublicIDRequest_serializeBinaryToWriter L this writer
      in getResultBuffer L writer)"

definition GetMyPublicIDRequest ::
  "('m, 'w, 'r, 'b) jspb \<Rightarrow> ('m, 'w, 'r, 'b) pbclass" where
  "GetMyPublicIDRequest L =
     \<lparr>pc_displayName = ''proto.asphrdaemon.GetMyPublicIDRequest'',
      pc_new = GetMyPublicIDRequest_new L,
      pc_toObject = GetMyPublicIDRequest_toObject L,
      pc_deserializeBinary = GetMyPublicIDRequest_deserializeBinary L,
      pc_deserializeBinaryFromReader = GetMyPublicIDRequest_deserializeBinaryFromReader L,
      pc_serializeBinaryToWriter = GetMyPublicIDRequest_serializeBinaryToWriter L,
      pc_prototype_toObject = GetMyPublicIDRequest_prototype_toObject L,
      pc_prototype_serializeBinary = GetMyPublicIDRequest_serializeBinary L\<rparr>"

definition GetMyPublicIDRequest_proto :: proto_message where
  "GetMyPublicIDRequest_proto = Proto ''GetMyPublicIDRequest''
     []"

lemmas GetMyPublicIDRequest_defs =
  GetMyPublicIDRequest_def [abs_def] GetMyPublicIDRequest_new_def [abs_def]
  GetMyPublicIDRequest_toObject_def [abs_def]
  GetMyPublicIDRequest_deserializeBinaryFromReader_def [abs_def]
  GetMyPublicIDRequest_serializeBinaryToWriter_def [abs_def]
  GetMyPublicIDRequest_proto_def

lemma follows_GetMyPublicIDRequest:
  "follows L GetMyPublicIDRequest_proto (GetMyPublicIDRequest L)"
  by (rule followsI, simp add: GetMyPublicIDRequest_defs new_simps,
    simp add: GetMyPublicIDRequest_defs Let_def,
    simp add: GetMyPublicIDRequest_defs cong: if_cong,
    simp add: GetMyPublicIDRequest_defs object_simps,
    simp_all add: GetMyPublicIDRequest_def [abs_def]
      GetMyPublicIDRequest_prototype_toObject_def [abs_def]
      GetMyPublicIDRequest_deserializeBinary_def [abs_def]
      GetMyPublicIDRequest_serializeBinary_def [abs_def] Let_def)

section \<open>GetMyPublicIDResponse\<close>

definition GetMyPublicIDResponse_new ::
  "('m, 'w, 'r, 'b) jspb \<Rightarrow> 'm" where
  "GetMyPublicIDResponse_new L = initialize L None"

definition GetMyPublicIDResponse_getPublicId ::
  "('m, 'w, 'r, 'b) jspb \<Rightarrow> 'm \<Rightarrow> string" where
  "GetMyPublicIDResponse_getPublicId L this = getFieldWithDefault_string L this 1 []"

definition GetMyPublicIDResponse_setPublicId ::
  "('m, 'w, 'r, 'b) jspb \<Rightarrow> 'm \<Rightarrow> string \<Rightarrow> 'm" where
  "GetMyPublicIDResponse_setPublicId L this value = setProto3StringField L this 1 value"

definition GetMyPublicIDResponse_getStory ::
  "('m, 'w, 'r, 'b) jspb \<Rightarrow> 'm \<Rightarrow> string" where
  "GetMyPublicIDResponse_getStory L this = getFieldWithDefault_string L this 2 []"

definition GetMyPublicIDResponse_setStory ::
  "('m, 'w, 'r, 'b) jspb \<Rightarrow> 'm \<Rightarrow> string \<Rightarrow> 'm" where
  "GetMyPublicIDResponse_setStory L this value = setProto3StringField L this 2 value"

definition GetMyPublicIDResponse_toObject ::
  "('m, 'w, 'r, 'b) jspb \<Rightarrow> bool \<Rightarrow> 'm \<Rightarrow> 'm jsvalue" where
  "GetMyPublicIDResponse_toObject L includeInstance msg = JObject
     ([(''publicId'', JString (getFieldWithDefault_string L msg 1 [])),
       (''story'', JString (getFieldWithDefault_string L msg 2 []))]
      @ (if includeInstance then [(''$jspbMessageInstance'', JMessage msg)] else []))"

definition GetMyPublicIDResponse_prototype_toObject ::
  "('m, 'w, 'r, 'b) jspb \<Rightarrow> 'm \<Rightarrow> bool \<Rightarrow> 'm jsvalue" where
  "GetMyPublicIDResponse_prototype_toObject L this opt_includeInstance =
     GetMyPublicIDResponse_toObject L opt_includeInstance this"

definition GetMyPublicIDResponse_deserializeBinaryFromReader ::
  "('m, 'w, 'r, 'b) jspb \<Rightarrow> 'm \<Rightarrow> ('r, 'm) reading" where
  "GetMyPublicIDResponse_deserializeBinaryFromReader L = field_loop L (\<lambda>field msg.
        if field = 1 then read_then (readString L) (\<lambda>value. GetMyPublicIDResponse_setPublicId L msg value)
        else if field = 2 then read_then (readString L) (\<lambda>value. GetMyPublicIDResponse_setStory L msg value)
        else read_then (skipField L) (\<lambda>_. msg))"

definition GetMyPublicIDResponse_deserializeBinary ::
  "('m, 'w, 'r, 'b) jspb \<Rightarrow> 'b \<Rightarrow> (js_error + 'm) option" where
  "GetMyPublicIDResponse_deserializeBinary L bytes =
     (let reader = BinaryReader L bytes; msg = GetMyPublicIDResponse_new L
      in returned (GetMyPublicIDResponse_deserializeBinaryFromReader L msg reader))"

definition GetMyPublicIDResponse_serializeBinaryToWriter ::
  "('m, 'w, 'r, 'b) jspb \<Rightarrow> 'm \<Rightarrow> 'w \<Rightarrow> 'w" where
  "GetMyPublicIDResponse_serializeBinaryToWriter L message writer =
     (let f = GetMyPublicIDResponse_getPublicId L message;
          writer = write_if (0 < length f) (writeString L 1 f) writer;
          f = GetMyPublicIDResponse_getStory L message;
          writer = write_if (0 < length f) (writeString L 2 f) writer
      in writer)"

definition GetMyPublicIDResponse_serializeBinary ::
  "('m, 'w, 'r, 'b) jspb \<Rightarrow> 'm \<Rightarrow> 'b" where
  "GetMyPublicIDResponse_serializeBinary L this =
     (let writer = BinaryWriter L; writer = GetMyPublicIDResponse_serializeBinaryToWriter L this writer
      in getResultBuffer L writer)"

definition GetMyPublicIDResponse ::
  "('m, 'w, 'r, 'b) jspb \<Rightarrow> ('m, 'w, 'r, 'b) pbclass" where
  "GetMyPublicIDResponse L =
     \<lparr>pc_displayName = ''proto.asphrdaemon.GetMyPublicIDResponse'',
      pc_new = GetMyPublicIDResponse_new L,
      pc_toObject = GetMyPublicIDResponse_toObject L,
      pc_deserializeBinary = GetMyPublicIDResponse_deserializeBinary L,
      pc_deserializeBinaryFromReader = GetMyPublicIDResponse_deserializeBinaryFromReader L,
      pc_serializeBinaryToWriter = GetMyPublicIDResponse_serializeBinaryToWriter L,
      pc_prototype_toObject = GetMyPublicIDResponse_prototype_toObject L,
      pc_prototype_serializeBinary = GetMyPublicIDResponse_serializeBinary L\<rparr>"

definition GetMyPublicIDResponse_proto :: proto_message where
  "GetMyPublicIDResponse_proto = Proto ''GetMyPublicIDResponse''
     [Field TString ''public_id'' 1,
      Field TString ''story'' 2]"

lemmas GetMyPublicIDResponse_defs =
  GetMyPublicIDResponse_def [abs_def] GetMyPublicIDResponse_new_def [abs_def]
  GetMyPublicIDResponse_getPublicId_def [abs_def] GetMyPublicIDResponse_setPublicId_def [abs_def]
  GetMyPublicIDResponse_getStory_def [abs_def] GetMyPublicIDResponse_setStory_def [abs_def]
  GetMyPublicIDResponse_toObject_def [abs_def]
  GetMyPublicIDResponse_deserializeBinaryFromReader_def [abs_def]
  GetMyPublicIDResponse_serializeBinaryToWriter_def [abs_def]
  GetMyPublicIDResponse_proto_def

lemma follows_GetMyPublicIDResponse:
  "follows L GetMyPublicIDResponse_proto (GetMyPublicIDResponse L)"
  by (rule followsI, simp add: GetMyPublicIDResponse_defs new_simps,
    simp add: GetMyPublicIDResponse_defs Let_def,
    simp add: GetMyPublicIDResponse_defs cong: if_cong,
    simp add: GetMyPublicIDResponse_defs object_simps,
    simp_all add: GetMyPublicIDResponse_def [abs_def]
      GetMyPublicIDResponse_prototype_toObject_def [abs_def]
      GetMyPublicIDResponse_deserializeBinary_def [abs_def]
      GetMyPublicIDResponse_serializeBinary_def [abs_def] Let_def)

section \<open>IsValidPublicIDRequest\<close>

definition IsValidPublicIDRequest_new ::
  "('m, 'w, 'r, 'b) jspb \<Rightarrow> 'm" where
  "IsValidPublicIDRequest_new L = initialize L None"

definition IsValidPublicIDRequest_getPublicId ::
  "('m, 'w, 'r, 'b) jspb \<Rightarrow> 'm \<Rightarrow> string" where
  "IsValidPublicIDRequest_getPublicId L this = getFieldWithDefault_string L this 1 []"

definition IsValidPublicIDRequest_setPublicId ::
  "('m, 'w, 'r, 'b) jspb \<Rightarrow> 'm \<Rightarrow> string \<Rightarrow> 'm" where
  "IsValidPublicIDRequest_setPublicId L this value = setProto3StringField L this 1 value"

definition IsValidPublicIDRequest_toObject ::
  "('m, 'w, 'r, 'b) jspb \<Rightarrow> bool \<Rightarrow> 'm \<Rightarrow> 'm jsvalue" where
  "IsValidPublicIDRequest_toObject L includeInstance msg = JObject
     ([(''publicId'', JString (getFieldWithDefault_string L msg 1 []))]
      @ (if includeInstance then [(''$jspbMessageInstance'', JMessage msg)] else []))"

definition IsValidPublicIDRequest_prototype_toObject ::
  "('m, 'w, 'r, 'b) jspb \<Rightarrow> 'm \<Rightarrow> bool \<Rightarrow> 'm jsvalue" where
  "IsValidPublicIDRequest_prototype_toObject L this opt_includeInstance =
     IsValidPublicIDRequest_toObject L opt_includeInstance this"

definition IsValidPublicIDRequest_deserializeBinaryFromReader ::
  "('m, 'w, 'r, 'b) jspb \<Rightarrow> 'm \<Rightarrow> ('r, 'm) reading" where
  "IsValidPublicIDRequest_deserializeBinaryFromReader L = field_loop L (\<lambda>field msg.
        if field = 1 then read_then (readString L) (\<lambda>value. IsValidPublicIDRequest_setPublicId L msg value)
        else read_then (skipField L) (\<lambda>_. msg))"

definition IsValidPublicIDRequest_deserializeBinary ::
  "('m, 'w, 'r, 'b) jspb \<Rightarrow> 'b \<Rightarrow> (js_error + 'm) option" where
  "IsValidPublicIDRequest_deserializeBinary L bytes =
     (let reader = BinaryReader L bytes; msg = IsValidPublicIDRequest_new L
      in returned (IsValidPublicIDRequest_deserializeBinaryFromReader L msg reader))"

definition IsValidPublicIDRequest_serializeBinaryToWriter ::
  "('m, 'w, 'r, 'b) jspb \<Rightarrow> 'm \<Rightarrow> 'w \<Rightarrow> 'w" where
  "IsValidPublicIDRequest_serializeBinaryToWriter L message writer =
     (let f = IsValidPublicIDRequest_getPublicId L message;
          writer = write_if (0 < length f) (writeString L 1 f) writer
      in writer)"

definition IsValidPublicIDRequest_serializeBinary ::
  "('m, 'w, 'r, 'b) jspb \<Rightarrow> 'm \<Rightarrow> 'b" where
  "IsValidPublicIDRequest_serializeBinary L this =
     (let writer = BinaryWriter L; writer = IsValidPublicIDRequest_serializeBinaryToWriter L this writer
      in getResultBuffer L writer)"

definition IsValidPublicIDRequest ::
  "('m, 'w, 'r, 'b) jspb \<Rightarrow> ('m, 'w, 'r, 'b) pbclass" where
  "IsValidPublicIDRequest L =
     \<lparr>pc_displayName = ''proto.asphrdaemon.IsValidPublicIDRequest'',
      pc_new = IsValidPublicIDRequest_new L,
      pc_toObject = IsValidPublicIDRequest_toObject L,
      pc_deserializeBinary = IsValidPublicIDRequest_deserializeBinary L,
      pc_deserializeBinaryFromReader = IsValidPublicIDRequest_deserializeBinaryFromReader L,
      pc_serializeBinaryToWriter = IsValidPublicIDRequest_serializeBinaryToWriter L,
      pc_prototype_toObject = IsValidPublicIDRequest_prototype_toObject L,
      pc_prototype_serializeBinary = IsValidPublicIDRequest_serializeBinary L\<rparr>"

definition IsValidPublicIDRequest_proto :: proto_message where
  "IsValidPublicIDRequest_proto = Proto ''IsValidPublicIDRequest''
     [Field TString ''public_id'' 1]"

lemmas IsValidPublicIDRequest_defs =
  IsValidPublicIDRequest_def [abs_def] IsValidPublicIDRequest_new_def [abs_def]
  IsValidPublicIDRequest_getPublicId_def [abs_def]
  IsValidPublicIDRequest_setPublicId_def [abs_def] IsValidPublicIDRequest_toObject_def [abs_def]
  IsValidPublicIDRequest_deserializeBinaryFromReader_def [abs_def]
  IsValidPublicIDRequest_serializeBinaryToWriter_def [abs_def]
  IsValidPublicIDRequest_proto_def

lemma follows_IsValidPublicIDRequest:
  "follows L IsValidPublicIDRequest_proto (IsValidPublicIDRequest L)"
  by (rule followsI, simp add: IsValidPublicIDRequest_defs new_simps,
    simp add: IsValidPublicIDRequest_defs Let_def,
    simp add: IsValidPublicIDRequest_defs cong: if_cong,
    simp add: IsValidPublicIDRequest_defs object_simps,
    simp_all add: IsValidPublicIDRequest_def [abs_def]
      IsValidPublicIDRequest_prototype_toObject_def [abs_def]
      IsValidPublicIDRequest_deserializeBinary_def [abs_def]
      IsValidPublicIDRequest_serializeBinary_def [abs_def] Let_def)

section \<open>IsValidPublicIDResponse\<close>

definition IsValidPublicIDResponse_new ::
  "('m, 'w, 'r, 'b) jspb \<Rightarrow> 'm" where
  "IsValidPublicIDResponse_new L = initialize L None"

definition IsValidPublicIDResponse_getValid ::
  "('m, 'w, 'r, 'b) jspb \<Rightarrow> 'm \<Rightarrow> bool" where
  "IsValidPublicIDResponse_getValid L this = getBooleanFieldWithDefault L this 1 False"

definition IsValidPublicIDResponse_setValid ::
  "('m, 'w, 'r, 'b) jspb \<Rightarrow> 'm \<Rightarrow> bool \<Rightarrow> 'm" where
  "IsValidPublicIDResponse_setValid L this value = setProto3BooleanField L this 1 value"

definition IsValidPublicIDResponse_toObject ::
  "('m, 'w, 'r, 'b) jspb \<Rightarrow> bool \<Rightarrow> 'm \<Rightarrow> 'm jsvalue" where
  "IsValidPublicIDResponse_toObject L includeInstance msg = JObject
     ([(''valid'', JBoolean (getBooleanFieldWithDefault L msg 1 False))]
      @ (if includeInstance then [(''$jspbMessageInstance'', JMessage msg)] else []))"

definition IsValidPublicIDResponse_prototype_toObject ::
  "('m, 'w, 'r, 'b) jspb \<Rightarrow> 'm \<Rightarrow> bool \<Rightarrow> 'm jsvalue" where
  "IsValidPublicIDResponse_prototype_toObject L this opt_includeInstance =
     IsValidPublicIDResponse_toObject L opt_includeInstance this"

definition IsValidPublicIDResponse_deserializeBinaryFromReader ::
  "('m, 'w, 'r, 'b) jspb \<Rightarrow> 'm \<Rightarrow> ('r, 'm) reading" where
  "IsValidPublicIDResponse_deserializeBinaryFromReader L = field_loop L (\<lambda>field msg.
        if field = 1 then read_then (readBool L) (\<lambda>value. IsValidPublicIDResponse_setValid L msg value)
        else read_then (skipField L) (\<lambda>_. msg))"

definition IsValidPublicIDResponse_deserializeBinary ::
  "('m, 'w, 'r, 'b) jspb \<Rightarrow> 'b \<Rightarrow> (js_error + 'm) option" where
  "IsValidPublicIDResponse_deserializeBinary L bytes =
     (let reader = BinaryReader L bytes; msg = IsValidPublicIDResponse_new L
      in returned (IsValidPublicIDResponse_deserializeBinaryFromReader L msg reader))"

definition IsValidPublicIDResponse_serializeBinaryToWriter ::
  "('m, 'w, 'r, 'b) jspb \<Rightarrow> 'm \<Rightarrow> 'w \<Rightarrow> 'w" where
  "IsValidPublicIDResponse_serializeBinaryToWriter L message writer =
     (let f = IsValidPublicIDResponse_getValid L message;
          writer = write_if f (writeBool L 1 f) writer
      in writer)"

definition IsValidPublicIDResponse_serializeBinary ::
  "('m, 'w, 'r, 'b) jspb \<Rightarrow> 'm \<Rightarrow> 'b" where
  "IsValidPublicIDResponse_serializeBinary L this =
     (let writer = BinaryWriter L; writer = IsValidPublicIDResponse_serializeBinaryToWriter L this writer
      in getResultBuffer L writer)"

definition IsValidPublicIDResponse ::
  "('m, 'w, 'r, 'b) jspb \<Rightarrow> ('m, 'w, 'r, 'b) pbclass" where
  "IsValidPublicIDResponse L =
     \<lparr>pc_displayName = ''proto.asphrdaemon.IsValidPublicIDResponse'',
      pc_new = IsValidPublicIDResponse_new L,
      pc_toObject = IsValidPublicIDResponse_toObject L,
      pc_deserializeBinary = IsValidPublicIDResponse_deserializeBinary L,
      pc_deserializeBinaryFromReader = IsValidPublicIDResponse_deserializeBinaryFromReader L,
      pc_serializeBinaryToWriter = IsValidPublicIDResponse_serializeBinaryToWriter L,
      pc_prototype_toObject = IsValidPublicIDResponse_prototype_toObject L,
      pc_prototype_serializeBinary = IsValidPublicIDResponse_serializeBinary L\<rparr>"

definition IsValidPublicIDResponse_proto :: proto_message where
  "IsValidPublicIDResponse_proto = Proto ''IsValidPublicIDResponse''
     [Field TBool ''valid'' 1]"

lemmas IsValidPublicIDResponse_defs =
  IsValidPublicIDResponse_def [abs_def] IsValidPublicIDResponse_new_def [abs_def]
  IsValidPublicIDResponse_getValid_def [abs_def] IsValidPublicIDResponse_setValid_def [abs_def]
  IsValidPublicIDResponse_toObject_def [abs_def]
  IsValidPublicIDResponse_deserializeBinaryFromReader_def [abs_def]
  IsValidPublicIDResponse_serializeBinaryToWriter_def [abs_def]
  IsValidPublicIDResponse_proto_def

lemma follows_IsValidPublicIDResponse:
  "follows L IsValidPublicIDResponse_proto (IsValidPublicIDResponse L)"
  by (rule followsI, simp add: IsValidPublicIDResponse_defs new_simps,
    simp add: IsValidPublicIDResponse_defs Let_def,
    simp add: IsValidPublicIDResponse_defs cong: if_cong,
    simp add: IsValidPublicIDResponse_defs object_simps,
    simp_all add: IsValidPublicIDResponse_def [abs_def]
      IsValidPublicIDResponse_prototype_toObject_def [abs_def]
      IsValidPublicIDResponse_deserializeBinary_def [abs_def]
      IsValidPublicIDResponse_serializeBinary_def [abs_def] Let_def)

end
