(* ===== verification/PbInvitations.thy ===== *)
theory PbInvitations imports ProtoSchema begin

text \<open>
  The classes of \<open>daemon/schema/daemon_pb.js\<close> for invitations, function by
  function, and beside each class the message of \<open>asphr/schema/daemon.proto\<close> that it implements,
  with the proof that the class is the reference codec of that message.
\<close>

section \<open>AddSyncFriendRequest\<close>

definition AddSyncFriendRequest_new ::
  "('m, 'w, 'r, 'b) jspb \<Rightarrow> 'm" where
  "AddSyncFriendRequest_new L = initialize L None"

definition AddSyncFriendRequest_getUniqueName ::
  "('m, 'w, 'r, 'b) jspb \<Rightarrow> 'm \<Rightarrow> string" where
  "AddSyncFriendRequest_getUniqueName L this = getFieldWithDefault_string L this 1 []"

definition AddSyncFriendRequest_setUniqueName ::
  "('m, 'w, 'r, 'b) jspb \<Rightarrow> 'm \<Rightarrow> string \<Rightarrow> 'm" where
  "AddSyncFriendRequest_setUniqueName L this value = setProto3StringField L this 1 value"

definition AddSyncFriendRequest_getDisplayName ::
  "('m, 'w, 'r, 'b) jspb \<Rightarrow> 'm \<Rightarrow> string" where
  "AddSyncFriendRequest_getDisplayName L this = getFieldWithDefault_string L this 2 []"

definition AddSyncFriendRequest_setDisplayName ::
  "('m, 'w, 'r, 'b) jspb \<Rightarrow> 'm \<Rightarrow> string \<Rightarrow> 'm" where
  "AddSyncFriendRequest_setDisplayName L this value = setProto3StringField L this 2 value"

definition AddSyncFriendRequest_getStory ::
  "('m, 'w, 'r, 'b) jspb \<Rightarrow> 'm \<Rightarrow> string" where
  "AddSyncFriendRequest_getStory L this = getFieldWithDefault_string L this 3 []"

definition AddSyncFriendRequest_setStory ::
  "('m, 'w, 'r, 'b) jspb \<Rightarrow> 'm \<Rightarrow> string \<Rightarrow> 'm" where
  "AddSyncFriendRequest_setStory L this value = setProto3StringField L this 3 value"

definition AddSyncFriendRequest_toObject ::
  "('m, 'w, 'r, 'b) jspb \<Rightarrow> bool \<Rightarrow> 'm \<Rightarrow> 'm jsvalue" where
  "AddSyncFriendRequest_toObject L includeInstance msg = JObject
     ([(''uniqueName'', JString (getFieldWithDefault_string L msg 1 [])),
       (''displayName'', JString (getFieldWithDefault_string L msg 2 [])),
       (''story'', JString (getFieldWithDefault_string L msg 3 []))]
      @ (if includeInstance then [(''$jspbMessageInstance'', JMessage msg)] else []))"

definition AddSyncFriendRequest_prototype_toObject ::
  "('m, 'w, 'r, 'b) jspb \<Rightarrow> 'm \<Rightarrow> bool \<Rightarrow> 'm jsvalue" where
  "AddSyncFriendRequest_prototype_toObject L this opt_includeInstance =
     AddSyncFriendRequest_toObject L opt_includeInstance this"

definition AddSyncFriendRequest_deserializeBinaryFromReader ::
  "('m, 'w, 'r, 'b) jspb \<Rightarrow> 'm \<Rightarrow> ('r, 'm) reading" where
  "AddSyncFriendRequest_deserializeBinaryFromReader L = field_loop L (\<lambda>field msg.
        if field = 1 then read_then (readString L) (\<lambda>value. AddSyncFriendRequest_setUniqueName L msg value)
        else if field = 2 then read_then (readString L) (\<lambda>value. AddSyncFriendRequest_setDisplayName L msg value)
        else if field = 3 then read_then (readString L) (\<lambda>value. AddSyncFriendRequest_setStory L msg value)
        else read_then (skipField L) (\<lambda>_. msg))"

definition AddSyncFriendRequest_deserializeBinary ::
  "('m, 'w, 'r, 'b) jspb \<Rightarrow> 'b \<Rightarrow> (js_error + 'm) option" where
  "AddSyncFriendRequest_deserializeBinary L bytes =
     (let reader = BinaryReader L bytes; msg = AddSyncFriendRequest_new L
      in returned (AddSyncFriendRequest_deserializeBinaryFromReader L msg reader))"

definition AddSyncFriendRequest_serializeBinaryToWriter ::
  "('m, 'w, 'r, 'b) jspb \<Rightarrow> 'm \<Rightarrow> 'w \<Rightarrow> 'w" where
  "AddSyncFriendRequest_serializeBinaryToWriter L message writer =
     (let f = AddSyncFriendRequest_getUniqueName L message;
          writer = write_if (0 < length f) (writeString L 1 f) writer;
          f = AddSyncFriendRequest_getDisplayName L message;
          writer = write_if (0 < length f) (writeString L 2 f) writer;
          f = AddSyncFriendRequest_getStory L message;
          writer = write_if (0 < length f) (writeString L 3 f) writer
      in writer)"

definition AddSyncFriendRequest_serializeBinary ::
  "('m, 'w, 'r, 'b) jspb \<Rightarrow> 'm \<Rightarrow> 'b" where
  "AddSyncFriendRequest_serializeBinary L this =
     (let writer = BinaryWriter L; writer = AddSyncFriendRequest_serializeBinaryToWriter L this writer
      in getResultBuffer L writer)"

definition AddSyncFriendRequest ::
  "('m, 'w, 'r, 'b) jspb \<Rightarrow> ('m, 'w, 'r, 'b) pbclass" where
  "AddSyncFriendRequest L =
     \<lparr>pc_displayName = ''proto.asphrdaemon.AddSyncFriendRequest'',
      pc_new = AddSyncFriendRequest_new L,
      pc_toObject = AddSyncFriendRequest_toObject L,
      pc_deserializeBinary = AddSyncFriendRequest_deserializeBinary L,
      pc_deserializeBinaryFromReader = AddSyncFriendRequest_deserializeBinaryFromReader L,
      pc_serializeBinaryToWriter = AddSyncFriendRequest_serializeBinaryToWriter L,
      pc_prototype_toObject = AddSyncFriendRequest_prototype_toObject L,
      pc_prototype_serializeBinary = AddSyncFriendRequest_serializeBinary L\<rparr>"

definition AddSyncFriendRequest_proto :: proto_message where
  "AddSyncFriendRequest_proto = Proto ''AddSyncFriendRequest''
     [Field TString ''unique_name'' 1,
      Field TString ''display_name'' 2,
      Field TString ''story'' 3]"

lemmas AddSyncFriendRequest_defs =
  AddSyncFriendRequest_def [abs_def] AddSyncFriendRequest_new_def [abs_def]
  AddSyncFriendRequest_getUniqueName_def [abs_def]
  AddSyncFriendRequest_setUniqueName_def [abs_def]
  AddSyncFriendRequest_getDisplayName_def [abs_def]
  AddSyncFriendRequest_setDisplayName_def [abs_def] AddSyncFriendRequest_getStory_def [abs_def]
  AddSyncFriendRequest_setStory_def [abs_def] AddSyncFriendRequest_toObject_def [abs_def]
  AddSyncFriendRequest_deserializeBinaryFromReader_def [abs_def]
  AddSyncFriendRequest_serializeBinaryToWriter_def [abs_def]
  AddSyncFriendRequest_proto_def

lemma follows_AddSyncFriendRequest:
  "follows L AddSyncFriendRequest_proto (AddSyncFriendRequest L)"
  by (rule followsI, simp add: AddSyncFriendRequest_defs new_simps,
    simp add: AddSyncFriendRequest_defs Let_def,
    simp add: AddSyncFriendRequest_defs cong: if_cong,
    simp add: AddSyncFriendRequest_defs object_simps,
    simp_all add: AddSyncFriendRequest_def [abs_def]
      AddSyncFriendRequest_prototype_toObject_def [abs_def]
      AddSyncFriendRequest_deserializeBinary_def [abs_def]
      AddSyncFriendRequest_serializeBinary_def [abs_def] Let_def)

section \<open>AddSyncFriendResponse\<close>

definition AddSyncFriendResponse_new ::
  "('m, 'w, 'r, 'b) jspb \<Rightarrow> 'm" where
  "AddSyncFriendResponse_new L = initialize L None"

definition AddSyncFriendResponse_toObject ::
  "('m, 'w, 'r, 'b) jspb \<Rightarrow> bool \<Rightarrow> 'm \<Rightarrow> 'm jsvalue" where
  "AddSyncFriendResponse_toObject L includeInstance msg = JObject
     ([]
      @ (if includeInstance then [(''$jspbMessageInstance'', JMessage msg)] else []))"

definition AddSyncFriendResponse_prototype_toObject ::
  "('m, 'w, 'r, 'b) jspb \<Rightarrow> 'm \<Rightarrow> bool \<Rightarrow> 'm jsvalue" where
  "AddSyncFriendResponse_prototype_toObject L this opt_includeInstance =
     AddSyncFriendResponse_toObject L opt_includeInstance this"

definition AddSyncFriendResponse_deserializeBinaryFromReader ::
  "('m, 'w, 'r, 'b) jspb \<Rightarrow> 'm \<Rightarrow> ('r, 'm) reading" where
  "AddSyncFriendResponse_deserializeBinaryFromReader L = field_loop L (\<lambda>field msg.
        read_then (skipField L) (\<lambda>_. msg))"

definition AddSyncFriendResponse_deserializeBinary ::
  "('m, 'w, 'r, 'b) jspb \<Rightarrow> 'b \<Rightarrow> (js_error + 'm) option" where
  "AddSyncFriendResponse_deserializeBinary L bytes =
     (let reader = BinaryReader L bytes; msg = AddSyncFriendResponse_new L
      in returned (AddSyncFriendResponse_deserializeBinaryFromReader L msg reader))"

definition AddSyncFriendResponse_serializeBinaryToWriter ::
  "('m, 'w, 'r, 'b) jspb \<Rightarrow> 'm \<Rightarrow> 'w \<Rightarrow> 'w" where
  "AddSyncFriendResponse_serializeBinaryToWriter L message writer = writer"

definition AddSyncFriendResponse_serializeBinary ::
  "('m, 'w, 'r, 'b) jspb \<Rightarrow> 'm \<Rightarrow> 'b" where
  "AddSyncFriendResponse_serializeBinary L this =
     (let writer = BinaryWriter L; writer = AddSyncFriendResponse_serializeBinaryToWriter L this writer
      in getResultBuffer L writer)"

definition AddSyncFriendResponse ::
  "('m, 'w, 'r, 'b) jspb \<Rightarrow> ('m, 'w, 'r, 'b) pbclass" where
  "AddSyncFriendResponse L =
     \<lparr>pc_displayName = ''proto.asphrdaemon.AddSyncFriendResponse'',
      pc_new = AddSyncFriendResponse_new L,
      pc_toObject = AddSyncFriendResponse_toObject L,
      pc_deserializeBinary = AddSyncFriendResponse_deserializeBinary L,
      pc_deserializeBinaryFromReader = AddSyncFriendResponse_deserializeBinaryFromReader L,
      pc_serializeBinaryToWriter = AddSyncFriendResponse_serializeBinaryToWriter L,
      pc_prototype_toObject = AddSyncFriendResponse_prototype_toObject L,
      pc_prototype_serializeBinary = AddSyncFriendResponse_serializeBinary L\<rparr>"

definition AddSyncFriendResponse_proto :: proto_message where
  "AddSyncFriendResponse_proto = Proto ''AddSyncFriendResponse''
     []"

lemmas AddSyncFriendResponse_defs =
  AddSyncFriendResponse_def [abs_def] AddSyncFriendResponse_new_def [abs_def]
  AddSyncFriendResponse_toObject_def [abs_def]
  AddSyncFriendResponse_deserializeBinaryFromReader_def [abs_def]
  AddSyncFriendResponse_serializeBinaryToWriter_def [abs_def]
  AddSyncFriendResponse_proto_def

lemma follows_AddSyncFriendResponse:
  "follows L AddSyncFriendResponse_proto (AddSyncFriendResponse L)"
  by (rule followsI, simp add: AddSyncFriendResponse_defs new_simps,
    simp add: AddSyncFriendResponse_defs Let_def,
    simp add: AddSyncFriendResponse_defs cong: if_cong,
    simp add: AddSyncFriendResponse_defs object_simps,
    simp_all add: AddSyncFriendResponse_def [abs_def]
      AddSyncFriendResponse_prototype_toObject_def [abs_def]
      AddSyncFriendResponse_deserializeBinary_def [abs_def]
      AddSyncFriendResponse_serializeBinary_def [abs_def] Let_def)

section \<open>AddAsyncFriendRequest\<close>

definition AddAsyncFriendRequest_new ::
  "('m, 'w, 'r, 'b) jspb \<Rightarrow> 'm" where
  "AddAsyncFriendRequest_new L = initialize L None"

definition AddAsyncFriendRequest_getUniqueName ::
  "('m, 'w, 'r, 'b) jspb \<Rightarrow> 'm \<Rightarrow> string" where
  "AddAsyncFriendRequest_getUniqueName L this = getFieldWithDefault_string L this 1 []"

definition AddAsyncFriendRequest_setUniqueName ::
  "('m, 'w, 'r, 'b) jspb \<Rightarrow> 'm \<Rightarrow> string \<Rightarrow> 'm" where
  "AddAsyncFriendRequest_setUniqueName L this value = setProto3StringField L this 1 value"

definition AddAsyncFriendRequest_getDisplayName ::
  "('m, 'w, 'r, 'b) jspb \<Rightarrow> 'm \<Rightarrow> string" where
  "AddAsyncFriendRequest_getDisplayName L this = getFieldWithDefault_string L this 2 []"

definition AddAsyncFriendRequest_setDisplayName ::
  "('m, 'w, 'r, 'b) jspb \<Rightarrow> 'm \<Rightarrow> string \<Rightarrow> 'm" where
  "AddAsyncFriendRequest_setDisplayName L this value = setProto3StringField L this 2 value"

definition AddAsyncFriendRequest_getPublicId ::
  "('m, 'w, 'r, 'b) jspb \<Rightarrow> 'm \<Rightarrow> string" where
  "AddAsyncFriendRequest_getPublicId L this = getFieldWithDefault_string L this 3 []"

definition AddAsyncFriendRequest_setPublicId ::
  "('m, 'w, 'r, 'b) jspb \<Rightarrow> 'm \<Rightarrow> string \<Rightarrow> 'm" where
  "AddAsyncFriendRequest_setPublicId L this value = setProto3StringField L this 3 value"

definition AddAsyncFriendRequest_getMessage ::
  "('m, 'w, 'r, 'b) jspb \<Rightarrow> 'm \<Rightarrow> string" where
  "AddAsyncFriendRequest_getMessage L this = getFieldWithDefault_string L this 4 []"

definition AddAsyncFriendRequest_setMessage ::
  "('m, 'w, 'r, 'b) jspb \<Rightarrow> 'm \<Rightarrow> string \<Rightarrow> 'm" where
  "AddAsyncFriendRequest_setMessage L this value = setProto3StringField L this 4 value"

definition AddAsyncFriendRequest_toObject ::
  "('m, 'w, 'r, 'b) jspb \<Rightarrow> bool \<Rightarrow> 'm \<Rightarrow> 'm jsvalue" where
  "AddAsyncFriendRequest_toObject L includeInstance msg = JObject
     ([(''uniqueName'', JString (getFieldWithDefault_string L msg 1 [])),
       (''displayName'', JString (getFieldWithDefault_string L msg 2 [])),
       (''publicId'', JString (getFieldWithDefault_string L msg 3 [])),
       (''message'', JString (getFieldWithDefault_string L msg 4 []))]
      @ (if includeInstance then [(''$jspbMessageInstance'', JMessage msg)] else []))"

definition AddAsyncFriendRequest_prototype_toObject ::
  "('m, 'w, 'r, 'b) jspb \<Rightarrow> 'm \<Rightarrow> bool \<Rightarrow> 'm jsvalue" where
  "AddAsyncFriendRequest_prototype_toObject L this opt_includeInstance =
     AddAsyncFriendRequest_toObject L opt_includeInstance this"

definition AddAsyncFriendRequest_deserializeBinaryFromReader ::
  "('m, 'w, 'r, 'b) jspb \<Rightarrow> 'm \<Rightarrow> ('r, 'm) reading" where
  "AddAsyncFriendRequest_deserializeBinaryFromReader L = field_loop L (\<lambda>field msg.
        if field = 1 then read_then (readString L) (\<lambda>value. AddAsyncFriendRequest_setUniqueName L msg value)
        else if field = 2 then read_then (readString L) (\<lambda>value. AddAsyncFriendRequest_setDisplayName L msg value)
        else if field = 3 then read_then (readString L) (\<lambda>value. AddAsyncFriendRequest_setPublicId L msg value)
        else if field = 4 then read_then (readString L) (\<lambda>value. AddAsyncFriendRequest_setMessage L msg value)
        else read_then (skipField L) (\<lambda>_. msg))"

definition AddAsyncFriendRequest_deserializeBinary ::
  "('m, 'w, 'r, 'b) jspb \<Rightarrow> 'b \<Rightarrow> (js_error + 'm) option" where
  "AddAsyncFriendRequest_deserializeBinary L bytes =
     (let reader = BinaryReader L bytes; msg = AddAsyncFriendRequest_new L
      in returned (AddAsyncFriendRequest_deserializeBinaryFromReader L msg reader))"

definition AddAsyncFriendRequest_serializeBinaryToWriter ::
  "('m, 'w, 'r, 'b) jspb \<Rightarrow> 'm \<Rightarrow> 'w \<Rightarrow> 'w" where
  "AddAsyncFriendRequest_serializeBinaryToWriter L message writer =
     (let f = AddAsyncFriendRequest_getUniqueName L message;
          writer = write_if (0 < length f) (writeString L 1 f) writer;
          f = AddAsyncFriendRequest_getDisplayName L message;
          writer = write_if (0 < length f) (writeString L 2 f) writer;
          f = AddAsyncFriendRequest_getPublicId L message;
          writer = write_if (0 < length f) (writeString L 3 f) writer;
          f = AddAsyncFriendRequest_getMessage L message;
          writer = write_if (0 < length f) (writeString L 4 f) writer
      in writer)"

definition AddAsyncFriendRequest_serializeBinary ::
  "('m, 'w, 'r, 'b) jspb \<Rightarrow> 'm \<Rightarrow> 'b" where
  "AddAsyncFriendRequest_serializeBinary L this =
     (let writer = BinaryWriter L; writer = AddAsyncFriendRequest_serializeBinaryToWriter L this writer
      in getResultBuffer L writer)"

definition AddAsyncFriendRequest ::
  "('m, 'w, 'r, 'b) jspb \<Rightarrow> ('m, 'w, 'r, 'b) pbclass" where
  "AddAsyncFriendRequest L =
     \<lparr>pc_displayName = ''proto.asphrdaemon.AddAsyncFriendRequest'',
      pc_new = AddAsyncFriendRequest_new L,
      pc_toObject = AddAsyncFriendRequest_toObject L,
      pc_deserializeBinary = AddAsyncFriendRequest_deserializeBinary L,
      pc_deserializeBinaryFromReader = AddAsyncFriendRequest_deserializeBinaryFromReader L,
      pc_serializeBinaryToWriter = AddAsyncFriendRequest_serializeBinaryToWriter L,
      pc_prototype_toObject = AddAsyncFriendRequest_prototype_toObject L,
      pc_prototype_serializeBinary = AddAsyncFriendRequest_serializeBinary L\<rparr>"

definition AddAsyncFriendRequest_proto :: proto_message where
  "AddAsyncFriendRequest_proto = Proto ''AddAsyncFriendRequest''
     [Field TString ''unique_name'' 1,
      Field TString ''display_name'' 2,
      Field TString ''public_id'' 3,
      Field TString ''message'' 4]"

lemmas AddAsyncFriendRequest_defs =
  AddAsyncFriendRequest_def [abs_def] AddAsyncFriendRequest_new_def [abs_def]
  AddAsyncFriendRequest_getUniqueName_def [abs_def]
  AddAsyncFriendRequest_setUniqueName_def [abs_def]
  AddAsyncFriendRequest_getDisplayName_def [abs_def]
  AddAsyncFriendRequest_setDisplayName_def [abs_def]
  AddAsyncFriendRequest_getPublicId_def [abs_def] AddAsyncFriendRequest_setPublicId_def [abs_def]
  AddAsyncFriendRequest_getMessage_def [abs_def] AddAsyncFriendRequest_setMessage_def [abs_def]
  AddAsyncFriendRequest_toObject_def [abs_def]
  AddAsyncFriendRequest_deserializeBinaryFromReader_def [abs_def]
  AddAsyncFriendRequest_serializeBinaryToWriter_def [abs_def]
  AddAsyncFriendRequest_proto_def

lemma follows_AddAsyncFriendRequest:
  "follows L AddAsyncFriendRequest_proto (AddAsyncFriendRequest L)"
  by (rule followsI, simp add: AddAsyncFriendRequest_defs new_simps,
    simp add: AddAsyncFriendRequest_defs Let_def,
    simp add: AddAsyncFriendRequest_defs cong: if_cong,
    simp add: AddAsyncFriendRequest_defs object_simps,
    simp_all add: AddAsyncFriendRequest_def [abs_def]
      AddAsyncFriendRequest_prototype_toObject_def [abs_def]
      AddAsyncFriendRequest_deserializeBinary_def [abs_def]
      AddAsyncFriendRequest_serializeBinary_def [abs_def] Let_def)

section \<open>AddAsyncFriendResponse\<close>

definition AddAsyncFriendResponse_new ::
  "('m, 'w, 'r, 'b) jspb \<Rightarrow> 'm" where
  "AddAsyncFriendResponse_new L = initialize L None"

definition AddAsyncFriendResponse_toObject ::
  "('m, 'w, 'r, 'b) jspb \<Rightarrow> bool \<Rightarrow> 'm \<Rightarrow> 'm jsvalue" where
  "AddAsyncFriendResponse_toObject L includeInstance msg = JObject
     ([]
      @ (if includeInstance then [(''$jspbMessageInstance'', JMessage msg)] else []))"

definition AddAsyncFriendResponse_prototype_toObject ::
  "('m, 'w, 'r, 'b) jspb \<Rightarrow> 'm \<Rightarrow> bool \<Rightarrow> 'm jsvalue" where
  "AddAsyncFriendResponse_prototype_toObject L this opt_includeInstance =
     AddAsyncFriendResponse_toObject L opt_includeInstance this"

definition AddAsyncFriendResponse_deserializeBinaryFromReader ::
  "('m, 'w, 'r, 'b) jspb \<Rightarrow> 'm \<Rightarrow> ('r, 'm) reading" where
  "AddAsyncFriendResponse_deserializeBinaryFromReader L = field_loop L (\<lambda>field msg.
        read_then (skipField L) (\<lambda>_. msg))"

definition AddAsyncFriendResponse_deserializeBinary ::
  "('m, 'w, 'r, 'b) jspb \<Rightarrow> 'b \<Rightarrow> (js_error + 'm) option" where
  "AddAsyncFriendResponse_deserializeBinary L bytes =
     (let reader = BinaryReader L bytes; msg = AddAsyncFriendResponse_new L
      in returned (AddAsyncFriendResponse_deserializeBinaryFromReader L msg reader))"

definition AddAsyncFriendResponse_serializeBinaryToWriter ::
  "('m, 'w, 'r, 'b) jspb \<Rightarrow> 'm \<Rightarrow> 'w \<Rightarrow> 'w" where
  "AddAsyncFriendResponse_serializeBinaryToWriter L message writer = writer"

definition AddAsyncFriendResponse_serializeBinary ::
  "('m, 'w, 'r, 'b) jspb \<Rightarrow> 'm \<Rightarrow> 'b" where
  "AddAsyncFriendResponse_serializeBinary L this =
     (let writer = BinaryWriter L; writer = AddAsyncFriendResponse_serializeBinaryToWriter L this writer
      in getResultBuffer L writer)"

definition AddAsyncFriendResponse ::
  "('m, 'w, 'r, 'b) jspb \<Rightarrow> ('m, 'w, 'r, 'b) pbclass" where
  "AddAsyncFriendResponse L =
     \<lparr>pc_displayName = ''proto.asphrdaemon.AddAsyncFriendResponse'',
      pc_new = AddAsyncFriendResponse_new L,
      pc_toObject = AddAsyncFriendResponse_toObject L,
      pc_deserializeBinary = AddAsyncFriendResponse_deserializeBinary L,
      pc_deserializeBinaryFromReader = AddAsyncFriendResponse_deserializeBinaryFromReader L,
      pc_serializeBinaryToWriter = AddAsyncFriendResponse_serializeBinaryToWriter L,
      pc_prototype_toObject = AddAsyncFriendResponse_prototype_toObject L,
      pc_prototype_serializeBinary = AddAsyncFriendResponse_serializeBinary L\<rparr>"

definition AddAsyncFriendResponse_proto :: proto_message where
  "AddAsyncFriendResponse_proto = Proto ''AddAsyncFriendResponse''
     []"

lemmas AddAsyncFriendResponse_defs =
  AddAsyncFriendResponse_def [abs_def] AddAsyncFriendResponse_new_def [abs_def]
  AddAsyncFriendResponse_toObject_def [abs_def]
  AddAsyncFriendResponse_deserializeBinaryFromReader_def [abs_def]
  AddAsyncFriendResponse_serializeBinaryToWriter_def [abs_def]
  AddAsyncFriendResponse_proto_def

lemma follows_AddAsyncFriendResponse:
  "follows L AddAsyncFriendResponse_proto (AddAsyncFriendResponse L)"
  by (rule followsI, simp add: AddAsyncFriendResponse_defs new_simps,
    simp add: AddAsyncFriendResponse_defs Let_def,
    simp add: AddAsyncFriendResponse_defs cong: if_cong,
    simp add: AddAsyncFriendResponse_defs object_simps,
    simp_all add: AddAsyncFriendResponse_def [abs_def]
      AddAsyncFriendResponse_prototype_toObject_def [abs_def]
      AddAsyncFriendResponse_deserializeBinary_def [abs_def]
      AddAsyncFriendResponse_serializeBinary_def [abs_def] Let_def)

section \<open>GetOutgoingSyncInvitationsRequest\<close>

definition GetOutgoingSyncInvitationsRequest_new ::
  "('m, 'w, 'r, 'b) jspb \<Rightarrow> 'm" where
  "GetOutgoingSyncInvitationsRequest_new L = initialize L None"

definition GetOutgoingSyncInvitationsRequest_toObject ::
  "('m, 'w, 'r, 'b) jspb \<Rightarrow> bool \<Rightarrow> 'm \<Rightarrow> 'm jsvalue" where
  "GetOutgoingSyncInvitationsRequest_toObject L includeInstance msg = JObject
     ([]
      @ (if includeInstance then [(''$jspbMessageInstance'', JMessage msg)] else []))"

definition GetOutgoingSyncInvitationsRequest_prototype_toObject ::
  "('m, 'w, 'r, 'b) jspb \<Rightarrow> 'm \<Rightarrow> bool \<Rightarrow> 'm jsvalue" where
  "GetOutgoingSyncInvitationsRequest_prototype_toObject L this opt_includeInstance =
     GetOutgoingSyncInvitationsRequest_toObject L opt_includeInstance this"

definition GetOutgoingSyncInvitationsRequest_deserializeBinaryFromReader ::
  "('m, 'w, 'r, 'b) jspb \<Rightarrow> 'm \<Rightarrow> ('r, 'm) reading" where
  "GetOutgoingSyncInvitationsRequest_deserializeBinaryFromReader L = field_loop L (\<lambda>field msg.
        read_then (skipField L) (\<lambda>_. msg))"

definition GetOutgoingSyncInvitationsRequest_deserializeBinary ::
  "('m, 'w, 'r, 'b) jspb \<Rightarrow> 'b \<Rightarrow> (js_error + 'm) option" where
  "GetOutgoingSyncInvitationsRequest_deserializeBinary L bytes =
     (let reader = BinaryReader L bytes; msg = GetOutgoingSyncInvitationsRequest_new L
      in returned (GetOutgoingSyncInvitationsRequest_deserializeBinaryFromReader L msg reader))"

definition GetOutgoingSyncInvitationsRequest_serializeBinaryToWriter ::
  "('m, 'w, 'r, 'b) jspb \<Rightarrow> 'm \<Rightarrow> 'w \<Rightarrow> 'w" where
  "GetOutgoingSyncInvitationsRequest_serializeBinaryToWriter L message writer = writer"

definition GetOutgoingSyncInvitationsRequest_serializeBinary ::
  "('m, 'w, 'r, 'b) jspb \<Rightarrow> 'm \<Rightarrow> 'b" where
  "GetOutgoingSyncInvitationsRequest_serializeBinary L this =
     (let writer = BinaryWriter L; writer = GetOutgoingSyncInvitationsRequest_serializeBinaryToWriter L this writer
      in getResultBuffer L writer)"

definition GetOutgoingSyncInvitationsRequest ::
  "('m, 'w, 'r, 'b) jspb \<Rightarrow> ('m, 'w, 'r, 'b) pbclass" where
  "GetOutgoingSyncInvitationsRequest L =
     \<lparr>pc_displayName = ''proto.asphrdaemon.GetOutgoingSyncInvitationsRequest'',
      pc_new = GetOutgoingSyncInvitationsRequest_new L,
      pc_toObject = GetOutgoingSyncInvitationsRequest_toObject L,
      pc_deserializeBinary = GetOutgoingSyncInvitationsRequest_deserializeBinary L,
      pc_deserializeBinaryFromReader = GetOutgoingSyncInvitationsRequest_deserializeBinaryFromReader L,
      pc_serializeBinaryToWriter = GetOutgoingSyncInvitationsRequest_serializeBinaryToWriter L,
      pc_prototype_toObject = GetOutgoingSyncInvitationsRequest_prototype_toObject L,
      pc_prototype_serializeBinary = GetOutgoingSyncInvitationsRequest_serializeBinary L\<rparr>"

definition GetOutgoingSyncInvitationsRequest_proto :: proto_message where
  "GetOutgoingSyncInvitationsRequest_proto = Proto ''GetOutgoingSyncInvitationsRequest''
     []"

lemmas GetOutgoingSyncInvitationsRequest_defs =
  GetOutgoingSyncInvitationsRequest_def [abs_def]
  GetOutgoingSyncInvitationsRequest_new_def [abs_def]
  GetOutgoingSyncInvitationsRequest_toObject_def [abs_def]
  GetOutgoingSyncInvitationsRequest_deserializeBinaryFromReader_def [abs_def]
  GetOutgoingSyncInvitationsRequest_serializeBinaryToWriter_def [abs_def]
  GetOutgoingSyncInvitationsRequest_proto_def

lemma follows_GetOutgoingSyncInvitationsRequest:
  "follows L GetOutgoingSyncInvitationsRequest_proto (GetOutgoingSyncInvitationsRequest L)"
  by (rule followsI, simp add: GetOutgoingSyncInvitationsRequest_defs new_simps,
    simp add: GetOutgoingSyncInvitationsRequest_defs Let_def,
    simp add: GetOutgoingSyncInvitationsRequest_defs cong: if_cong,
    simp add: GetOutgoingSyncInvitationsRequest_defs object_simps,
    simp_all add: GetOutgoingSyncInvitationsRequest_def [abs_def]
      GetOutgoingSyncInvitationsRequest_prototype_toObject_def [abs_def]
      GetOutgoingSyncInvitationsRequest_deserializeBinary_def [abs_def]
      GetOutgoingSyncInvitationsRequest_serializeBinary_def [abs_def] Let_def)

section \<open>OutgoingSyncInvitationInfo\<close>

definition OutgoingSyncInvitationInfo_new ::
  "('m, 'w, 'r, 'b) jspb \<Rightarrow> 'm" where
  "OutgoingSyncInvitationInfo_new L = initialize L None"

definition OutgoingSyncInvitationInfo_getUniqueName ::
  "('m, 'w, 'r, 'b) jspb \<Rightarrow> 'm \<Rightarrow> string" where
  "OutgoingSyncInvitationInfo_getUniqueName L this = getFieldWithDefault_string L this 1 []"

definition OutgoingSyncInvitationInfo_setUniqueName ::
  "('m, 'w, 'r, 'b) jspb \<Rightarrow> 'm \<Rightarrow> string \<Rightarrow> 'm" where
  "OutgoingSyncInvitationInfo_setUniqueName L this value = setProto3StringField L this 1 value"

definition OutgoingSyncInvitationInfo_getDisplayName ::
  "('m, 'w, 'r, 'b) jspb \<Rightarrow> 'm \<Rightarrow> string" where
  "OutgoingSyncInvitationInfo_getDisplayName L this = getFieldWithDefault_string L this 2 []"

definition OutgoingSyncInvitationInfo_setDisplayName ::
  "('m, 'w, 'r, 'b) jspb \<Rightarrow> 'm \<Rightarrow> string \<Rightarrow> 'm" where
  "OutgoingSyncInvitationInfo_setDisplayName L this value = setProto3StringField L this 2 value"

definition OutgoingSyncInvitationInfo_getStory ::
  "('m, 'w, 'r, 'b) jspb \<Rightarrow> 'm \<Rightarrow> string" where
  "OutgoingSyncInvitationInfo_getStory L this = getFieldWithDefault_string L this 3 []"

definition OutgoingSyncInvitationInfo_setStory ::
  "('m, 'w, 'r, 'b) jspb \<Rightarrow> 'm \<Rightarrow> string \<Rightarrow> 'm" where
  "OutgoingSyncInvitationInfo_setStory L this value = setProto3StringField L this 3 value"

definition OutgoingSyncInvitationInfo_getSentAt ::
  "('m, 'w, 'r, 'b) jspb \<Rightarrow> 'm \<Rightarrow> 'm option" where
  "OutgoingSyncInvitationInfo_getSentAt L this = getWrapperField L this 4"

definition OutgoingSyncInvitationInfo_setSentAt ::
  "('m, 'w, 'r, 'b) jspb \<Rightarrow> 'm \<Rightarrow> 'm option \<Rightarrow> 'm" where
  "OutgoingSyncInvitationInfo_setSentAt L this value = setWrapperField L this 4 value"

definition OutgoingSyncInvitationInfo_clearSentAt ::
  "('m, 'w, 'r, 'b) jspb \<Rightarrow> 'm \<Rightarrow> 'm" where
  "OutgoingSyncInvitationInfo_clearSentAt L this = OutgoingSyncInvitationInfo_setSentAt L this None"

definition OutgoingSyncInvitationInfo_hasSentAt ::
  "('m, 'w, 'r, 'b) jspb \<Rightarrow> 'm \<Rightarrow> bool" where
  "OutgoingSyncInvitationInfo_hasSentAt L this = getField_set L this 4"

definition OutgoingSyncInvitationInfo_toObject ::
  "('m, 'w, 'r, 'b) jspb \<Rightarrow> bool \<Rightarrow> 'm \<Rightarrow> 'm jsvalue" where
  "OutgoingSyncInvitationInfo_toObject L includeInstance msg = JObject
     ([(''uniqueName'', JString (getFieldWithDefault_string L msg 1 [])),
       (''displayName'', JString (getFieldWithDefault_string L msg 2 [])),
       (''story'', JString (getFieldWithDefault_string L msg 3 [])),
       (''sentAt'', case OutgoingSyncInvitationInfo_getSentAt L msg of None \<Rightarrow> JUndefined
         | Some f \<Rightarrow> pc_toObject (Timestamp L) includeInstance f)]
      @ (if includeInstance then [(''$jspbMessageInstance'', JMessage msg)] else []))"

definition OutgoingSyncInvitationInfo_prototype_toObject ::
  "('m, 'w, 'r, 'b) jspb \<Rightarrow> 'm \<Rightarrow> bool \<Rightarrow> 'm jsvalue" where
  "OutgoingSyncInvitationInfo_prototype_toObject L this opt_includeInstance =
     OutgoingSyncInvitationInfo_toObject L opt_includeInstance this"

definition OutgoingSyncInvitationInfo_deserializeBinaryFromReader ::
  "('m, 'w, 'r, 'b) jspb \<Rightarrow> 'm \<Rightarrow> ('r, 'm) reading" where
  "OutgoingSyncInvitationInfo_deserializeBinaryFromReader L = field_loop L (\<lambda>field msg.
        if field = 1 then read_then (readString L) (\<lambda>value. OutgoingSyncInvitationInfo_setUniqueName L msg value)
        else if field = 2 then read_then (readString L) (\<lambda>value. OutgoingSyncInvitationInfo_setDisplayName L msg value)
        else if field = 3 then read_then (readString L) (\<lambda>value. OutgoingSyncInvitationInfo_setStory L msg value)
        else if field = 4 then read_then 
           (readMessage L (pc_new (Timestamp L)) (pc_deserializeBinaryFromReader (Timestamp L))) (\<lambda>value. OutgoingSyncInvitationInfo_setSentAt L msg (Some value))
        else read_then (skipField L) (\<lambda>_. msg))"

definition OutgoingSyncInvitationInfo_deserializeBinary ::
  "('m, 'w, 'r, 'b) jspb \<Rightarrow> 'b \<Rightarrow> (js_error + 'm) option" where
  "OutgoingSyncInvitationInfo_deserializeBinary L bytes =
     (let reader = BinaryReader L bytes; msg = OutgoingSyncInvitationInfo_new L
      in returned (OutgoingSyncInvitationInfo_deserializeBinaryFromReader L msg reader))"

definition OutgoingSyncInvitationInfo_serializeBinaryToWriter ::
  "('m, 'w, 'r, 'b) jspb \<Rightarrow> 'm \<Rightarrow> 'w \<Rightarrow> 'w" where
  "OutgoingSyncInvitationInfo_serializeBinaryToWriter L message writer =
     (let f = OutgoingSyncInvitationInfo_getUniqueName L message;
          writer = write_if (0 < length f) (writeString L 1 f) writer;
          f = OutgoingSyncInvitationInfo_getDisplayName L message;
          writer = write_if (0 < length f) (writeString L 2 f) writer;
          f = OutgoingSyncInvitationInfo_getStory L message;
          writer = write_if (0 < length f) (writeString L 3 f) writer;
          f = OutgoingSyncInvitationInfo_getSentAt L message;
          writer = write_present f (\<lambda>f. writeMessage L 4 f (pc_serializeBinaryToWriter (Timestamp L))) writer
      in writer)"

definition OutgoingSyncInvitationInfo_serializeBinary ::
  "('m, 'w, 'r, 'b) jspb \<Rightarrow> 'm \<Rightarrow> 'b" where
  "OutgoingSyncInvitationInfo_serializeBinary L this =
     (let writer = BinaryWriter L; writer = OutgoingSyncInvitationInfo_serializeBinaryToWriter L this writer
      in getResultBuffer L writer)"

definition OutgoingSyncInvitationInfo ::
  "('m, 'w, 'r, 'b) jspb \<Rightarrow> ('m, 'w, 'r, 'b) pbclass" where
  "OutgoingSyncInvitationInfo L =
     \<lparr>pc_displayName = ''proto.asphrdaemon.GetOutgoingSyncInvitationsResponse.OutgoingSyncInvitationInfo'',
      pc_new = OutgoingSyncInvitationInfo_new L,
      pc_toObject = OutgoingSyncInvitationInfo_toObject L,
      pc_deserializeBinary = OutgoingSyncInvitationInfo_deserializeBinary L,
      pc_deserializeBinaryFromReader = OutgoingSyncInvitationInfo_deserializeBinaryFromReader L,
      pc_serializeBinaryToWriter = OutgoingSyncInvitationInfo_serializeBinaryToWriter L,
      pc_prototype_toObject = OutgoingSyncInvitationInfo_prototype_toObject L,
      pc_prototype_serializeBinary = OutgoingSyncInvitationInfo_serializeBinary L\<rparr>"

definition OutgoingSyncInvitationInfo_proto :: proto_message where
  "OutgoingSyncInvitationInfo_proto = Proto ''OutgoingSyncInvitationInfo''
     [Field TString ''unique_name'' 1,
      Field TString ''display_name'' 2,
      Field TString ''story'' 3,
      Field TTimestamp ''sent_at'' 4]"

lemmas OutgoingSyncInvitationInfo_defs =
  OutgoingSyncInvitationInfo_def [abs_def] OutgoingSyncInvitationInfo_new_def [abs_def]
  OutgoingSyncInvitationInfo_getUniqueName_def [abs_def]
  OutgoingSyncInvitationInfo_setUniqueName_def [abs_def]
  OutgoingSyncInvitationInfo_getDisplayName_def [abs_def]
  OutgoingSyncInvitationInfo_setDisplayName_def [abs_def]
  OutgoingSyncInvitationInfo_getStory_def [abs_def]
  OutgoingSyncInvitationInfo_setStory_def [abs_def]
  OutgoingSyncInvitationInfo_getSentAt_def [abs_def]
  OutgoingSyncInvitationInfo_setSentAt_def [abs_def]
  OutgoingSyncInvitationInfo_clearSentAt_def [abs_def]
  OutgoingSyncInvitationInfo_hasSentAt_def [abs_def]
  OutgoingSyncInvitationInfo_toObject_def [abs_def]
  OutgoingSyncInvitationInfo_deserializeBinaryFromReader_def [abs_def]
  OutgoingSyncInvitationInfo_serializeBinaryToWriter_def [abs_def]
  OutgoingSyncInvitationInfo_proto_def

lemma follows_OutgoingSyncInvitationInfo:
  "follows L OutgoingSyncInvitationInfo_proto (OutgoingSyncInvitationInfo L)"
  by (rule followsI, simp add: OutgoingSyncInvitationInfo_defs new_simps,
    simp add: OutgoingSyncInvitationInfo_defs Let_def,
    simp add: OutgoingSyncInvitationInfo_defs cong: if_cong,
    simp add: OutgoingSyncInvitationInfo_defs object_simps,
    simp_all add: OutgoingSyncInvitationInfo_def [abs_def]
      OutgoingSyncInvitationInfo_prototype_toObject_def [abs_def]
      OutgoingSyncInvitationInfo_deserializeBinary_def [abs_def]
      OutgoingSyncInvitationInfo_serializeBinary_def [abs_def] Let_def)

section \<open>GetOutgoingSyncInvitationsResponse\<close>

definition GetOutgoingSyncInvitationsResponse_repeatedFields ::
  "nat list" where
  "GetOutgoingSyncInvitationsResponse_repeatedFields = [1]"

definition GetOutgoingSyncInvitationsResponse_new ::
  "('m, 'w, 'r, 'b) jspb \<Rightarrow> 'm" where
  "GetOutgoingSyncInvitationsResponse_new L = initialize L (Some GetOutgoingSyncInvitationsResponse_repeatedFields)"

definition GetOutgoingSyncInvitationsResponse_getInvitationsList ::
  "('m, 'w, 'r, 'b) jspb \<Rightarrow> 'm \<Rightarrow> 'm list" where
  "GetOutgoingSyncInvitationsResponse_getInvitationsList L this = getRepeatedWrapperField L this 1"

definition GetOutgoingSyncInvitationsResponse_setInvitationsList ::
  "('m, 'w, 'r, 'b) jspb \<Rightarrow> 'm \<Rightarrow> 'm list \<Rightarrow> 'm" where
  "GetOutgoingSyncInvitationsResponse_setInvitationsList L this value = setRepeatedWrapperField L this 1 value"

definition GetOutgoingSyncInvitationsResponse_addInvitations ::
  "('m, 'w, 'r, 'b) jspb \<Rightarrow> 'm \<Rightarrow> 'm option \<Rightarrow> nat option \<Rightarrow> 'm \<times> 'm" where
  "GetOutgoingSyncInvitationsResponse_addInvitations L this opt_value opt_index =
     addToRepeatedWrapperField L this 1 opt_value (OutgoingSyncInvitationInfo_new L) opt_index"

definition GetOutgoingSyncInvitationsResponse_clearInvitationsList ::
  "('m, 'w, 'r, 'b) jspb \<Rightarrow> 'm \<Rightarrow> 'm" where
  "GetOutgoingSyncInvitationsResponse_clearInvitationsList L this = GetOutgoingSyncInvitationsResponse_setInvitationsList L this []"

definition GetOutgoingSyncInvitationsResponse_toObject ::
  "('m, 'w, 'r, 'b) jspb \<Rightarrow> bool \<Rightarrow> 'm \<Rightarrow> 'm jsvalue" where
  "GetOutgoingSyncInvitationsResponse_toObject L includeInstance msg = JObject
     ([(''invitationsList'', toObjectList L (GetOutgoingSyncInvitationsResponse_getInvitationsList L msg) (OutgoingSyncInvitationInfo_toObject L) includeInstance)]
      @ (if includeInstance then [(''$jspbMessageInstance'', JMessage msg)] else []))"

definition GetOutgoingSyncInvitationsResponse_prototype_toObject ::
  "('m, 'w, 'r, 'b) jspb \<Rightarrow> 'm \<Rightarrow> bool \<Rightarrow> 'm jsvalue" where
  "GetOutgoingSyncInvitationsResponse_prototype_toObject L this opt_includeInstance =
     GetOutgoingSyncInvitationsResponse_toObject L opt_includeInstance this"

definition GetOutgoingSyncInvitationsResponse_deserializeBinaryFromReader ::
  "('m, 'w, 'r, 'b) jspb \<Rightarrow> 'm \<Rightarrow> ('r, 'm) reading" where
  "GetOutgoingSyncInvitationsResponse_deserializeBinaryFromReader L = field_loop L (\<lambda>field msg.
        if field = 1 then read_then 
           (readMessage L (OutgoingSyncInvitationInfo_new L) (OutgoingSyncInvitationInfo_deserializeBinaryFromReader L)) (\<lambda>value. snd (GetOutgoingSyncInvitationsResponse_addInvitations L msg (Some value) None))
        else read_then (skipField L) (\<lambda>_. msg))"

definition GetOutgoingSyncInvitationsResponse_deserializeBinary ::
  "('m, 'w, 'r, 'b) jspb \<Rightarrow> 'b \<Rightarrow> (js_error + 'm) option" where
  "GetOutgoingSyncInvitationsResponse_deserializeBinary L bytes =
     (let reader = BinaryReader L bytes; msg = GetOutgoingSyncInvitationsResponse_new L
      in returned (GetOutgoingSyncInvitationsResponse_deserializeBinaryFromReader L msg reader))"

definition GetOutgoingSyncInvitationsResponse_serializeBinaryToWriter ::
  "('m, 'w, 'r, 'b) jspb \<Rightarrow> 'm \<Rightarrow> 'w \<Rightarrow> 'w" where
  "GetOutgoingSyncInvitationsResponse_serializeBinaryToWriter L message writer =
     (let f = GetOutgoingSyncInvitationsResponse_getInvitationsList L message;
          writer = write_if (0 < length f) (writeRepeatedMessage L 1 f (OutgoingSyncInvitationInfo_serializeBinaryToWriter L)) writer
      in writer)"

definition GetOutgoingSyncInvitationsResponse_serializeBinary ::
  "('m, 'w, 'r, 'b) jspb \<Rightarrow> 'm \<Rightarrow> 'b" where
  "GetOutgoingSyncInvitationsResponse_serializeBinary L this =
     (let writer = BinaryWriter L; writer = GetOutgoingSyncInvitationsResponse_serializeBinaryToWriter L this writer
      in getResultBuffer L writer)"

definition GetOutgoingSyncInvitationsResponse ::
  "('m, 'w, 'r, 'b) jspb \<Rightarrow> ('m, 'w, 'r, 'b) pbclass" where
  "GetOutgoingSyncInvitationsResponse L =
     \<lparr>pc_displayName = ''proto.asphrdaemon.GetOutgoingSyncInvitationsResponse'',
      pc_new = GetOutgoingSyncInvitationsResponse_new L,
      pc_toObject = GetOutgoingSyncInvitationsResponse_toObject L,
      pc_deserializeBinary = GetOutgoingSyncInvitationsResponse_deserializeBinary L,
      pc_deserializeBinaryFromReader = GetOutgoingSyncInvitationsResponse_deserializeBinaryFromReader L,
      pc_serializeBinaryToWriter = GetOutgoingSyncInvitationsResponse_serializeBinaryToWriter L,
      pc_prototype_toObject = GetOutgoingSyncInvitationsResponse_prototype_toObject L,
      pc_prototype_serializeBinary = GetOutgoingSyncInvitationsResponse_serializeBinary L\<rparr>"

definition GetOutgoingSyncInvitationsResponse_proto :: proto_message where
  "GetOutgoingSyncInvitationsResponse_proto = Proto ''GetOutgoingSyncInvitationsResponse''
     [Field (TRepeatedMessage OutgoingSyncInvitationInfo_proto) ''invitations'' 1]"

lemmas GetOutgoingSyncInvitationsResponse_defs =
  GetOutgoingSyncInvitationsResponse_def [abs_def]
  GetOutgoingSyncInvitationsResponse_repeatedFields_def [abs_def]
  GetOutgoingSyncInvitationsResponse_new_def [abs_def]
  GetOutgoingSyncInvitationsResponse_getInvitationsList_def [abs_def]
  GetOutgoingSyncInvitationsResponse_setInvitationsList_def [abs_def]
  GetOutgoingSyncInvitationsResponse_addInvitations_def [abs_def]
  GetOutgoingSyncInvitationsResponse_clearInvitationsList_def [abs_def]
  GetOutgoingSyncInvitationsResponse_toObject_def [abs_def]
  GetOutgoingSyncInvitationsResponse_deserializeBinaryFromReader_def [abs_def]
  GetOutgoingSyncInvitationsResponse_serializeBinaryToWriter_def [abs_def]
  GetOutgoingSyncInvitationsResponse_proto_def

lemma follows_GetOutgoingSyncInvitationsResponse:
  "follows L GetOutgoingSyncInvitationsResponse_proto (GetOutgoingSyncInvitationsResponse L)"
  by (rule followsI, simp add: GetOutgoingSyncInvitationsResponse_defs new_simps,
    simp add: GetOutgoingSyncInvitationsResponse_defs followsD [OF follows_OutgoingSyncInvitationInfo, unfolded OutgoingSyncInvitationInfo_def, simplified] Let_def,
    simp add: GetOutgoingSyncInvitationsResponse_defs followsD [OF follows_OutgoingSyncInvitationInfo, unfolded OutgoingSyncInvitationInfo_def, simplified] cong: if_cong,
    simp add: GetOutgoingSyncInvitationsResponse_defs followsD [OF follows_OutgoingSyncInvitationInfo, unfolded OutgoingSyncInvitationInfo_def, simplified] object_simps,
    simp_all add: GetOutgoingSyncInvitationsResponse_def [abs_def]
      GetOutgoingSyncInvitationsResponse_prototype_toObject_def [abs_def]
      GetOutgoingSyncInvitationsResponse_deserializeBinary_def [abs_def]
      GetOutgoingSyncInvitationsResponse_serializeBinary_def [abs_def] Let_def)

section \<open>GetOutgoingAsyncInvitationsRequest\<close>

definition GetOutgoingAsyncInvitationsRequest_new ::
  "('m, 'w, 'r, 'b) jspb \<Rightarrow> 'm" where
  "GetOutgoingAsyncInvitationsRequest_new L = initialize L None"

definition GetOutgoingAsyncInvitationsRequest_toObject ::
  "('m, 'w, 'r, 'b) jspb \<Rightarrow> bool \<Rightarrow> 'm \<Rightarrow> 'm jsvalue" where
  "GetOutgoingAsyncInvitationsRequest_toObject L includeInstance msg = JObject
     ([]
      @ (if includeInstance then [(''$jspbMessageInstance'', JMessage msg)] else []))"

definition GetOutgoingAsyncInvitationsRequest_prototype_toObject ::
  "('m, 'w, 'r, 'b) jspb \<Rightarrow> 'm \<Rightarrow> bool \<Rightarrow> 'm jsvalue" where
  "GetOutgoingAsyncInvitationsRequest_prototype_toObject L this opt_includeInstance =
     GetOutgoingAsyncInvitationsRequest_toObject L opt_includeInstance this"

definition GetOutgoingAsyncInvitationsRequest_deserializeBinaryFromReader ::
  "('m, 'w, 'r, 'b) jspb \<Rightarrow> 'm \<Rightarrow> ('r, 'm) reading" where
  "GetOutgoingAsyncInvitationsRequest_deserializeBinaryFromReader L = field_loop L (\<lambda>field msg.
        read_then (skipField L) (\<lambda>_. msg))"

definition GetOutgoingAsyncInvitationsRequest_deserializeBinary ::
  "('m, 'w, 'r, 'b) jspb \<Rightarrow> 'b \<Rightarrow> (js_error + 'm) option" where
  "GetOutgoingAsyncInvitationsRequest_deserializeBinary L bytes =
     (let reader = BinaryReader L bytes; msg = GetOutgoingAsyncInvitationsRequest_new L
      in returned (GetOutgoingAsyncInvitationsRequest_deserializeBinaryFromReader L msg reader))"

definition GetOutgoingAsyncInvitationsRequest_serializeBinaryToWriter ::
  "('m, 'w, 'r, 'b) jspb \<Rightarrow> 'm \<Rightarrow> 'w \<Rightarrow> 'w" where
  "GetOutgoingAsyncInvitationsRequest_serializeBinaryToWriter L message writer = writer"

definition GetOutgoingAsyncInvitationsRequest_serializeBinary ::
  "('m, 'w, 'r, 'b) jspb \<Rightarrow> 'm \<Rightarrow> 'b" where
  "GetOutgoingAsyncInvitationsRequest_serializeBinary L this =
     (let writer = BinaryWriter L; writer = GetOutgoingAsyncInvitationsRequest_serializeBinaryToWriter L this writer
      in getResultBuffer L writer)"

definition GetOutgoingAsyncInvitationsRequest ::
  "('m, 'w, 'r, 'b) jspb \<Rightarrow> ('m, 'w, 'r, 'b) pbclass" where
  "GetOutgoingAsyncInvitationsRequest L =
     \<lparr>pc_displayName = ''proto.asphrdaemon.GetOutgoingAsyncInvitationsRequest'',
      pc_new = GetOutgoingAsyncInvitationsRequest_new L,
      pc_toObject = GetOutgoingAsyncInvitationsRequest_toObject L,
      pc_deserializeBinary = GetOutgoingAsyncInvitationsRequest_deserializeBinary L,
      pc_deserializeBinaryFromReader = GetOutgoingAsyncInvitationsRequest_deserializeBinaryFromReader L,
      pc_serializeBinaryToWriter = GetOutgoingAsyncInvitationsRequest_serializeBinaryToWriter L,
      pc_prototype_toObject = GetOutgoingAsyncInvitationsRequest_prototype_toObject L,
      pc_prototype_serializeBinary = GetOutgoingAsyncInvitationsRequest_serializeBinary L\<rparr>"

definition GetOutgoingAsyncInvitationsRequest_proto :: proto_message where
  "GetOutgoingAsyncInvitationsRequest_proto = Proto ''GetOutgoingAsyncInvitationsRequest''
     []"

lemmas GetOutgoingAsyncInvitationsRequest_defs =
  GetOutgoingAsyncInvitationsRequest_def [abs_def]
  GetOutgoingAsyncInvitationsRequest_new_def [abs_def]
  GetOutgoingAsyncInvitationsRequest_toObject_def [abs_def]
  GetOutgoingAsyncInvitationsRequest_deserializeBinaryFromReader_def [abs_def]
  GetOutgoingAsyncInvitationsRequest_serializeBinaryToWriter_def [abs_def]
  GetOutgoingAsyncInvitationsRequest_proto_def

lemma follows_GetOutgoingAsyncInvitationsRequest:
  "follows L GetOutgoingAsyncInvitationsRequest_proto (GetOutgoingAsyncInvitationsRequest L)"
  by (rule followsI, simp add: GetOutgoingAsyncInvitationsRequest_defs new_simps,
    simp add: GetOutgoingAsyncInvitationsRequest_defs Let_def,
    simp add: GetOutgoingAsyncInvitationsRequest_defs cong: if_cong,
    simp add: GetOutgoingAsyncInvitationsRequest_defs object_simps,
    simp_all add: GetOutgoingAsyncInvitationsRequest_def [abs_def]
      GetOutgoingAsyncInvitationsRequest_prototype_toObject_def [abs_def]
      GetOutgoingAsyncInvitationsRequest_deserializeBinary_def [abs_def]
      GetOutgoingAsyncInvitationsRequest_serializeBinary_def [abs_def] Let_def)

section \<open>OutgoingAsyncInvitationInfo\<close>

definition OutgoingAsyncInvitationInfo_new ::
  "('m, 'w, 'r, 'b) jspb \<Rightarrow> 'm" where
  "OutgoingAsyncInvitationInfo_new L = initialize L None"

definition OutgoingAsyncInvitationInfo_getUniqueName ::
  "('m, 'w, 'r, 'b) jspb \<Rightarrow> 'm \<Rightarrow> string" where
  "OutgoingAsyncInvitationInfo_getUniqueName L this = getFieldWithDefault_string L this 1 []"

definition OutgoingAsyncInvitationInfo_setUniqueName ::
  "('m, 'w, 'r, 'b) jspb \<Rightarrow> 'm \<Rightarrow> string \<Rightarrow> 'm" where
  "OutgoingAsyncInvitationInfo_setUniqueName L this value = setProto3StringField L this 1 value"

definition OutgoingAsyncInvitationInfo_getDisplayName ::
  "('m, 'w, 'r, 'b) jspb \<Rightarrow> 'm \<Rightarrow> string" where
  "OutgoingAsyncInvitationInfo_getDisplayName L this = getFieldWithDefault_string L this 2 []"

definition OutgoingAsyncInvitationInfo_setDisplayName ::
  "('m, 'w, 'r, 'b) jspb \<Rightarrow> 'm \<Rightarrow> string \<Rightarrow> 'm" where
  "OutgoingAsyncInvitationInfo_setDisplayName L this value = setProto3StringField L this 2 value"

definition OutgoingAsyncInvitationInfo_getPublicId ::
  "('m, 'w, 'r, 'b) jspb \<Rightarrow> 'm \<Rightarrow> string" where
  "OutgoingAsyncInvitationInfo_getPublicId L this = getFieldWithDefault_string L this 3 []"

definition OutgoingAsyncInvitationInfo_setPublicId ::
  "('m, 'w, 'r, 'b) jspb \<Rightarrow> 'm \<Rightarrow> string \<Rightarrow> 'm" where
  "OutgoingAsyncInvitationInfo_setPublicId L this value = setProto3StringField L this 3 value"

definition OutgoingAsyncInvitationInfo_getMessage ::
  "('m, 'w, 'r, 'b) jspb \<Rightarrow> 'm \<Rightarrow> string" where
  "OutgoingAsyncInvitationInfo_getMessage L this = getFieldWithDefault_string L this 4 []"

definition OutgoingAsyncInvitationInfo_setMessage ::
  "('m, 'w, 'r, 'b) jspb \<Rightarrow> 'm \<Rightarrow> string \<Rightarrow> 'm" where
  "OutgoingAsyncInvitationInfo_setMessage L this value = setProto3StringField L this 4 value"

definition OutgoingAsyncInvitationInfo_getSentAt ::
  "('m, 'w, 'r, 'b) jspb \<Rightarrow> 'm \<Rightarrow> 'm option" where
  "OutgoingAsyncInvitationInfo_getSentAt L this = getWrapperField L this 5"

definition OutgoingAsyncInvitationInfo_setSentAt ::
  "('m, 'w, 'r, 'b) jspb \<Rightarrow> 'm \<Rightarrow> 'm option \<Rightarrow> 'm" where
  "OutgoingAsyncInvitationInfo_setSentAt L this value = setWrapperField L this 5 value"

definition OutgoingAsyncInvitationInfo_clearSentAt ::
  "('m, 'w, 'r, 'b) jspb \<Rightarrow> 'm \<Rightarrow> 'm" where
  "OutgoingAsyncInvitationInfo_clearSentAt L this = OutgoingAsyncInvitationInfo_setSentAt L this None"

definition OutgoingAsyncInvitationInfo_hasSentAt ::
  "('m, 'w, 'r, 'b) jspb \<Rightarrow> 'm \<Rightarrow> bool" where
  "OutgoingAsyncInvitationInfo_hasSentAt L this = getField_set L this 5"

definition OutgoingAsyncInvitationInfo_toObject ::
  "('m, 'w, 'r, 'b) jspb \<Rightarrow> bool \<Rightarrow> 'm \<Rightarrow> 'm jsvalue" where
  "OutgoingAsyncInvitationInfo_toObject L includeInstance msg = JObject
     ([(''uniqueName'', JString (getFieldWithDefault_string L msg 1 [])),
       (''displayName'', JString (getFieldWithDefault_string L msg 2 [])),
       (''publicId'', JString (getFieldWithDefault_string L msg 3 [])),
       (''message'', JString (getFieldWithDefault_string L msg 4 [])),
       (''sentAt'', case OutgoingAsyncInvitationInfo_getSentAt L msg of None \<Rightarrow> JUndefined
         | Some f \<Rightarrow> pc_toObject (Timestamp L) includeInstance f)]
      @ (if includeInstance then [(''$jspbMessageInstance'', JMessage msg)] else []))"

definition OutgoingAsyncInvitationInfo_prototype_toObject ::
  "('m, 'w, 'r, 'b) jspb \<Rightarrow> 'm \<Rightarrow> bool \<Rightarrow> 'm jsvalue" where
  "OutgoingAsyncInvitationInfo_prototype_toObject L this opt_includeInstance =
     OutgoingAsyncInvitationInfo_toObject L opt_includeInstance this"

definition OutgoingAsyncInvitationInfo_deserializeBinaryFromReader ::
  "('m, 'w, 'r, 'b) jspb \<Rightarrow> 'm \<Rightarrow> ('r, 'm) reading" where
  "OutgoingAsyncInvitationInfo_deserializeBinaryFromReader L = field_loop L (\<lambda>field msg.
        if field = 1 then read_then (readString L) (\<lambda>value. OutgoingAsyncInvitationInfo_setUniqueName L msg value)
        else if field = 2 then read_then (readString L) (\<lambda>value. OutgoingAsyncInvitationInfo_setDisplayName L msg value)
        else if field = 3 then read_then (readString L) (\<lambda>value. OutgoingAsyncInvitationInfo_setPublicId L msg value)
        else if field = 4 then read_then (readString L) (\<lambda>value. OutgoingAsyncInvitationInfo_setMessage L msg value)
        else if field = 5 then read_then 
           (readMessage L (pc_new (Timestamp L)) (pc_deserializeBinaryFromReader (Timestamp L))) (\<lambda>value. OutgoingAsyncInvitationInfo_setSentAt L msg (Some value))
        else read_then (skipField L) (\<lambda>_. msg))"

definition OutgoingAsyncInvitationInfo_deserializeBinary ::
  "('m, 'w, 'r, 'b) jspb \<Rightarrow> 'b \<Rightarrow> (js_error + 'm) option" where
  "OutgoingAsyncInvitationInfo_deserializeBinary L bytes =
     (let reader = BinaryReader L bytes; msg = OutgoingAsyncInvitationInfo_new L
      in returned (OutgoingAsyncInvitationInfo_deserializeBinaryFromReader L msg reader))"

definition OutgoingAsyncInvitationInfo_serializeBinaryToWriter ::
  "('m, 'w, 'r, 'b) jspb \<Rightarrow> 'm \<Rightarrow> 'w \<Rightarrow> 'w" where
  "OutgoingAsyncInvitationInfo_serializeBinaryToWriter L message writer =
     (let f = OutgoingAsyncInvitationInfo_getUniqueName L message;
          writer = write_if (0 < length f) (writeString L 1 f) writer;
          f = OutgoingAsyncInvitationInfo_getDisplayName L message;
          writer = write_if (0 < length f) (writeString L 2 f) writer;
          f = OutgoingAsyncInvitationInfo_getPublicId L message;
          writer = write_if (0 < length f) (writeString L 3 f) writer;
          f = OutgoingAsyncInvitationInfo_getMessage L message;
          writer = write_if (0 < length f) (writeString L 4 f) writer;
          f = OutgoingAsyncInvitationInfo_getSentAt L message;
          writer = write_present f (\<lambda>f. writeMessage L 5 f (pc_serializeBinaryToWriter (Timestamp L))) writer
      in writer)"

definition OutgoingAsyncInvitationInfo_serializeBinary ::
  "('m, 'w, 'r, 'b) jspb \<Rightarrow> 'm \<Rightarrow> 'b" where
  "OutgoingAsyncInvitationInfo_serializeBinary L this =
     (let writer = BinaryWriter L; writer = OutgoingAsyncInvitationInfo_serializeBinaryToWriter L this writer
      in getResultBuffer L writer)"

definition OutgoingAsyncInvitationInfo ::
  "('m, 'w, 'r, 'b) jspb \<Rightarrow> ('m, 'w, 'r, 'b) pbclass" where
  "OutgoingAsyncInvitationInfo L =
     \<lparr>pc_displayName = ''proto.asphrdaemon.GetOutgoingAsyncInvitationsResponse.OutgoingAsyncInvitationInfo'',
      pc_new = OutgoingAsyncInvitationInfo_new L,
      pc_toObject = OutgoingAsyncInvitationInfo_toObject L,
      pc_deserializeBinary = OutgoingAsyncInvitationInfo_deserializeBinary L,
      pc_deserializeBinaryFromReader = OutgoingAsyncInvitationInfo_deserializeBinaryFromReader L,
      pc_serializeBinaryToWriter = OutgoingAsyncInvitationInfo_serializeBinaryToWriter L,
      pc_prototype_toObject = OutgoingAsyncInvitationInfo_prototype_toObject L,
      pc_prototype_serializeBinary = OutgoingAsyncInvitationInfo_serializeBinary L\<rparr>"

definition OutgoingAsyncInvitationInfo_proto :: proto_message where
  "OutgoingAsyncInvitationInfo_proto = Proto ''OutgoingAsyncInvitationInfo''
     [Field TString ''unique_name'' 1,
      Field TString ''display_name'' 2,
      Field TString ''public_id'' 3,
      Field TString ''message'' 4,
      Field TTimestamp ''sent_at'' 5]"

lemmas OutgoingAsyncInvitationInfo_defs =
  OutgoingAsyncInvitationInfo_def [abs_def] OutgoingAsyncInvitationInfo_new_def [abs_def]
  OutgoingAsyncInvitationInfo_getUniqueName_def [abs_def]
  OutgoingAsyncInvitationInfo_setUniqueName_def [abs_def]
  OutgoingAsyncInvitationInfo_getDisplayName_def [abs_def]
  OutgoingAsyncInvitationInfo_setDisplayName_def [abs_def]
  OutgoingAsyncInvitationInfo_getPublicId_def [abs_def]
  OutgoingAsyncInvitationInfo_setPublicId_def [abs_def]
  OutgoingAsyncInvitationInfo_getMessage_def [abs_def]
  OutgoingAsyncInvitationInfo_setMessage_def [abs_def]
  OutgoingAsyncInvitationInfo_getSentAt_def [abs_def]
  OutgoingAsyncInvitationInfo_setSentAt_def [abs_def]
  OutgoingAsyncInvitationInfo_clearSentAt_def [abs_def]
  OutgoingAsyncInvitationInfo_hasSentAt_def [abs_def]
  OutgoingAsyncInvitationInfo_toObject_def [abs_def]
  OutgoingAsyncInvitationInfo_deserializeBinaryFromReader_def [abs_def]
  OutgoingAsyncInvitationInfo_serializeBinaryToWriter_def [abs_def]
  OutgoingAsyncInvitationInfo_proto_def

lemma follows_OutgoingAsyncInvitationInfo:
  "follows L OutgoingAsyncInvitationInfo_proto (OutgoingAsyncInvitationInfo L)"
  by (rule followsI, simp add: OutgoingAsyncInvitationInfo_defs new_simps,
    simp add: OutgoingAsyncInvitationInfo_defs Let_def,
    simp add: OutgoingAsyncInvitationInfo_defs cong: if_cong,
    simp add: OutgoingAsyncInvitationInfo_defs object_simps,
    simp_all add: OutgoingAsyncInvitationInfo_def [abs_def]
      OutgoingAsyncInvitationInfo_prototype_toObject_def [abs_def]
      OutgoingAsyncInvitationInfo_deserializeBinary_def [abs_def]
      OutgoingAsyncInvitationInfo_serializeBinary_def [abs_def] Let_def)

section \<open>GetOutgoingAsyncInvitationsResponse\<close>

definition GetOutgoingAsyncInvitationsResponse_repeatedFields ::
  "nat list" where
  "GetOutgoingAsyncInvitationsResponse_repeatedFields = [1]"

definition GetOutgoingAsyncInvitationsResponse_new ::
  "('m, 'w, 'r, 'b) jspb \<Rightarrow> 'm" where
  "GetOutgoingAsyncInvitationsResponse_new L = initialize L (Some GetOutgoingAsyncInvitationsResponse_repeatedFields)"

definition GetOutgoingAsyncInvitationsResponse_getInvitationsList ::
  "('m, 'w, 'r, 'b) jspb \<Rightarrow> 'm \<Rightarrow> 'm list" where
  "GetOutgoingAsyncInvitationsResponse_getInvitationsList L this = getRepeatedWrapperField L this 1"

definition GetOutgoingAsyncInvitationsResponse_setInvitationsList ::
  "('m, 'w, 'r, 'b) jspb \<Rightarrow> 'm \<Rightarrow> 'm list \<Rightarrow> 'm" where
  "GetOutgoingAsyncInvitationsResponse_setInvitationsList L this value = setRepeatedWrapperField L this 1 value"

definition GetOutgoingAsyncInvitationsResponse_addInvitations ::
  "('m, 'w, 'r, 'b) jspb \<Rightarrow> 'm \<Rightarrow> 'm option \<Rightarrow> nat option \<Rightarrow> 'm \<times> 'm" where
  "GetOutgoingAsyncInvitationsResponse_addInvitations L this opt_value opt_index =
     addToRepeatedWrapperField L this 1 opt_value (OutgoingAsyncInvitationInfo_new L) opt_index"

definition GetOutgoingAsyncInvitationsResponse_clearInvitationsList ::
  "('m, 'w, 'r, 'b) jspb \<Rightarrow> 'm \<Rightarrow> 'm" where
  "GetOutgoingAsyncInvitationsResponse_clearInvitationsList L this = GetOutgoingAsyncInvitationsResponse_setInvitationsList L this []"

definition GetOutgoingAsyncInvitationsResponse_toObject ::
  "('m, 'w, 'r, 'b) jspb \<Rightarrow> bool \<Rightarrow> 'm \<Rightarrow> 'm jsvalue" where
  "GetOutgoingAsyncInvitationsResponse_toObject L includeInstance msg = JObject
     ([(''invitationsList'', toObjectList L (GetOutgoingAsyncInvitationsResponse_getInvitationsList L msg) (OutgoingAsyncInvitationInfo_toObject L) includeInstance)]
      @ (if includeInstance then [(''$jspbMessageInstance'', JMessage msg)] else []))"

definition GetOutgoingAsyncInvitationsResponse_prototype_toObject ::
  "('m, 'w, 'r, 'b) jspb \<Rightarrow> 'm \<Rightarrow> bool \<Rightarrow> 'm jsvalue" where
  "GetOutgoingAsyncInvitationsResponse_prototype_toObject L this opt_includeInstance =
     GetOutgoingAsyncInvitationsResponse_toObject L opt_includeInstance this"

definition GetOutgoingAsyncInvitationsResponse_deserializeBinaryFromReader ::
  "('m, 'w, 'r, 'b) jspb \<Rightarrow> 'm \<Rightarrow> ('r, 'm) reading" where
  "GetOutgoingAsyncInvitationsResponse_deserializeBinaryFromReader L = field_loop L (\<lambda>field msg.
        if field = 1 then read_then 
           (readMessage L (OutgoingAsyncInvitationInfo_new L) (OutgoingAsyncInvitationInfo_deserializeBinaryFromReader L)) (\<lambda>value. snd (GetOutgoingAsyncInvitationsResponse_addInvitations L msg (Some value) None))
        else read_then (skipField L) (\<lambda>_. msg))"

definition GetOutgoingAsyncInvitationsResponse_deserializeBinary ::
  "('m, 'w, 'r, 'b) jspb \<Rightarrow> 'b \<Rightarrow> (js_error + 'm) option" where
  "GetOutgoingAsyncInvitationsResponse_deserializeBinary L bytes =
     (let reader = BinaryReader L bytes; msg = GetOutgoingAsyncInvitationsResponse_new L
      in returned (GetOutgoingAsyncInvitationsResponse_deserializeBinaryFromReader L msg reader))"

definition GetOutgoingAsyncInvitationsResponse_serializeBinaryToWriter ::
  "('m, 'w, 'r, 'b) jspb \<Rightarrow> 'm \<Rightarrow> 'w \<Rightarrow> 'w" where
  "GetOutgoingAsyncInvitationsResponse_serializeBinaryToWriter L message writer =
     (let f = GetOutgoingAsyncInvitationsResponse_getInvitationsList L message;
          writer = write_if (0 < length f) (writeRepeatedMessage L 1 f (OutgoingAsyncInvitationInfo_serializeBinaryToWriter L)) writer
      in writer)"

definition GetOutgoingAsyncInvitationsResponse_serializeBinary ::
  "('m, 'w, 'r, 'b) jspb \<Rightarrow> 'm \<Rightarrow> 'b" where
  "GetOutgoingAsyncInvitationsResponse_serializeBinary L this =
     (let writer = BinaryWriter L; writer = GetOutgoingAsyncInvitationsResponse_serializeBinaryToWriter L this writer
      in getResultBuffer L writer)"

definition GetOutgoingAsyncInvitationsResponse ::
  "('m, 'w, 'r, 'b) jspb \<Rightarrow> ('m, 'w, 'r, 'b) pbclass" where
  "GetOutgoingAsyncInvitationsResponse L =
     \<lparr>pc_displayName = ''proto.asphrdaemon.GetOutgoingAsyncInvitationsResponse'',
      pc_new = GetOutgoingAsyncInvitationsResponse_new L,
      pc_toObject = GetOutgoingAsyncInvitationsResponse_toObject L,
      pc_deserializeBinary = GetOutgoingAsyncInvitationsResponse_deserializeBinary L,
      pc_deserializeBinaryFromReader = GetOutgoingAsyncInvitationsResponse_deserializeBinaryFromReader L,
      pc_serializeBinaryToWriter = GetOutgoingAsyncInvitationsResponse_serializeBinaryToWriter L,
      pc_prototype_toObject = GetOutgoingAsyncInvitationsResponse_prototype_toObject L,
      pc_prototype_serializeBinary = GetOutgoingAsyncInvitationsResponse_serializeBinary L\<rparr>"

definition GetOutgoingAsyncInvitationsResponse_proto :: proto_message where
  "GetOutgoingAsyncInvitationsResponse_proto = Proto ''GetOutgoingAsyncInvitationsResponse''
     [Field (TRepeatedMessage OutgoingAsyncInvitationInfo_proto) ''invitations'' 1]"

lemmas GetOutgoingAsyncInvitationsResponse_defs =
  GetOutgoingAsyncInvitationsResponse_def [abs_def]
  GetOutgoingAsyncInvitationsResponse_repeatedFields_def [abs_def]
  GetOutgoingAsyncInvitationsResponse_new_def [abs_def]
  GetOutgoingAsyncInvitationsResponse_getInvitationsList_def [abs_def]
  GetOutgoingAsyncInvitationsResponse_setInvitationsList_def [abs_def]
  GetOutgoingAsyncInvitationsResponse_addInvitations_def [abs_def]
  GetOutgoingAsyncInvitationsResponse_clearInvitationsList_def [abs_def]
  GetOutgoingAsyncInvitationsResponse_toObject_def [abs_def]
  GetOutgoingAsyncInvitationsResponse_deserializeBinaryFromReader_def [abs_def]
  GetOutgoingAsyncInvitationsResponse_serializeBinaryToWriter_def [abs_def]
  GetOutgoingAsyncInvitationsResponse_proto_def

lemma follows_GetOutgoingAsyncInvitationsResponse:
  "follows L GetOutgoingAsyncInvitationsResponse_proto (GetOutgoingAsyncInvitationsResponse L)"
  by (rule followsI, simp add: GetOutgoingAsyncInvitationsResponse_defs new_simps,
    simp add: GetOutgoingAsyncInvitationsResponse_defs followsD [OF follows_OutgoingAsyncInvitationInfo, unfolded OutgoingAsyncInvitationInfo_def, simplified] Let_def,
    simp add: GetOutgoingAsyncInvitationsResponse_defs followsD [OF follows_OutgoingAsyncInvitationInfo, unfolded OutgoingAsyncInvitationInfo_def, simplified] cong: if_cong,
    simp add: GetOutgoingAsyncInvitationsResponse_defs followsD [OF follows_OutgoingAsyncInvitationInfo, unfolded OutgoingAsyncInvitationInfo_def, simplified] object_simps,
    simp_all add: GetOutgoingAsyncInvitationsResponse_def [abs_def]
      GetOutgoingAsyncInvitationsResponse_prototype_toObject_def [abs_def]
      GetOutgoingAsyncInvitationsResponse_deserializeBinary_def [abs_def]
      GetOutgoingAsyncInvitationsResponse_serializeBinary_def [abs_def] Let_def)

section \<open>GetIncomingAsyncInvitationsRequest\<close>

definition GetIncomingAsyncInvitationsRequest_new ::
  "('m, 'w, 'r, 'b) jspb \<Rightarrow> 'm" where
  "GetIncomingAsyncInvitationsRequest_new L = initialize L None"

definition GetIncomingAsyncInvitationsRequest_toObject ::
  "('m, 'w, 'r, 'b) jspb \<Rightarrow> bool \<Rightarrow> 'm \<Rightarrow> 'm jsvalue" where
  "GetIncomingAsyncInvitationsRequest_toObject L includeInstance msg = JObject
     ([]
      @ (if includeInstance then [(''$jspbMessageInstance'', JMessage msg)] else []))"

definition GetIncomingAsyncInvitationsRequest_prototype_toObject ::
  "('m, 'w, 'r, 'b) jspb \<Rightarrow> 'm \<Rightarrow> bool \<Rightarrow> 'm jsvalue" where
  "GetIncomingAsyncInvitationsRequest_prototype_toObject L this opt_includeInstance =
     GetIncomingAsyncInvitationsRequest_toObject L opt_includeInstance this"

definition GetIncomingAsyncInvitationsRequest_deserializeBinaryFromReader ::
  "('m, 'w, 'r, 'b) jspb \<Rightarrow> 'm \<Rightarrow> ('r, 'm) reading" where
  "GetIncomingAsyncInvitationsRequest_deserializeBinaryFromReader L = field_loop L (\<lambda>field msg.
        read_then (skipField L) (\<lambda>_. msg))"

definition GetIncomingAsyncInvitationsRequest_deserializeBinary ::
  "('m, 'w, 'r, 'b) jspb \<Rightarrow> 'b \<Rightarrow> (js_error + 'm) option" where
  "GetIncomingAsyncInvitationsRequest_deserializeBinary L bytes =
     (let reader = BinaryReader L bytes; msg = GetIncomingAsyncInvitationsRequest_new L
      in returned (GetIncomingAsyncInvitationsRequest_deserializeBinaryFromReader L msg reader))"

definition GetIncomingAsyncInvitationsRequest_serializeBinaryToWriter ::
  "('m, 'w, 'r, 'b) jspb \<Rightarrow> 'm \<Rightarrow> 'w \<Rightarrow> 'w" where
  "GetIncomingAsyncInvitationsRequest_serializeBinaryToWriter L message writer = writer"

definition GetIncomingAsyncInvitationsRequest_serializeBinary ::
  "('m, 'w, 'r, 'b) jspb \<Rightarrow> 'm \<Rightarrow> 'b" where
  "GetIncomingAsyncInvitationsRequest_serializeBinary L this =
     (let writer = BinaryWriter L; writer = GetIncomingAsyncInvitationsRequest_serializeBinaryToWriter L this writer
      in getResultBuffer L writer)"

definition GetIncomingAsyncInvitationsRequest ::
  "('m, 'w, 'r, 'b) jspb \<Rightarrow> ('m, 'w, 'r, 'b) pbclass" where
  "GetIncomingAsyncInvitationsRequest L =
     \<lparr>pc_displayName = ''proto.asphrdaemon.GetIncomingAsyncInvitationsRequest'',
      pc_new = GetIncomingAsyncInvitationsRequest_new L,
      pc_toObject = GetIncomingAsyncInvitationsRequest_toObject L,
      pc_deserializeBinary = GetIncomingAsyncInvitationsRequest_deserializeBinary L,
      pc_deserializeBinaryFromReader = GetIncomingAsyncInvitationsRequest_deserializeBinaryFromReader L,
      pc_serializeBinaryToWriter = GetIncomingAsyncInvitationsRequest_serializeBinaryToWriter L,
      pc_prototype_toObject = GetIncomingAsyncInvitationsRequest_prototype_toObject L,
      pc_prototype_serializeBinary = GetIncomingAsyncInvitationsRequest_serializeBinary L\<rparr>"

definition GetIncomingAsyncInvitationsRequest_proto :: proto_message where
  "GetIncomingAsyncInvitationsRequest_proto = Proto ''GetIncomingAsyncInvitationsRequest''
     []"

lemmas GetIncomingAsyncInvitationsRequest_defs =
  GetIncomingAsyncInvitationsRequest_def [abs_def]
  GetIncomingAsyncInvitationsRequest_new_def [abs_def]
  GetIncomingAsyncInvitationsRequest_toObject_def [abs_def]
  GetIncomingAsyncInvitationsRequest_deserializeBinaryFromReader_def [abs_def]
  GetIncomingAsyncInvitationsRequest_serializeBinaryToWriter_def [abs_def]
  GetIncomingAsyncInvitationsRequest_proto_def

lemma follows_GetIncomingAsyncInvitationsRequest:
  "follows L GetIncomingAsyncInvitationsRequest_proto (GetIncomingAsyncInvitationsRequest L)"
  by (rule followsI, simp add: GetIncomingAsyncInvitationsRequest_defs new_simps,
    simp add: GetIncomingAsyncInvitationsRequest_defs Let_def,
    simp add: GetIncomingAsyncInvitationsRequest_defs cong: if_cong,
    simp add: GetIncomingAsyncInvitationsRequest_defs object_simps,
    simp_all add: GetIncomingAsyncInvitationsRequest_def [abs_def]
      GetIncomingAsyncInvitationsRequest_prototype_toObject_def [abs_def]
      GetIncomingAsyncInvitationsRequest_deserializeBinary_def [abs_def]
      GetIncomingAsyncInvitationsRequest_serializeBinary_def [abs_def] Let_def)

section \<open>IncomingAsyncInvitationInfo\<close>

definition IncomingAsyncInvitationInfo_new ::
  "('m, 'w, 'r, 'b) jspb \<Rightarrow> 'm" where
  "IncomingAsyncInvitationInfo_new L = initialize L None"

definition IncomingAsyncInvitationInfo_getPublicId ::
  "('m, 'w, 'r, 'b) jspb \<Rightarrow> 'm \<Rightarrow> string" where
  "IncomingAsyncInvitationInfo_getPublicId L this = getFieldWithDefault_string L this 1 []"

definition IncomingAsyncInvitationInfo_setPublicId ::
  "('m, 'w, 'r, 'b) jspb \<Rightarrow> 'm \<Rightarrow> string \<Rightarrow> 'm" where
  "IncomingAsyncInvitationInfo_setPublicId L this value = setProto3StringField L this 1 value"

definition IncomingAsyncInvitationInfo_getMessage ::
  "('m, 'w, 'r, 'b) jspb \<Rightarrow> 'm \<Rightarrow> string" where
  "IncomingAsyncInvitationInfo_getMessage L this = getFieldWithDefault_string L this 2 []"

definition IncomingAsyncInvitationInfo_setMessage ::
  "('m, 'w, 'r, 'b) jspb \<Rightarrow> 'm \<Rightarrow> string \<Rightarrow> 'm" where
  "IncomingAsyncInvitationInfo_setMessage L this value = setProto3StringField L this 2 value"

definition IncomingAsyncInvitationInfo_getReceivedAt ::
  "('m, 'w, 'r, 'b) jspb \<Rightarrow> 'm \<Rightarrow> 'm option" where
  "IncomingAsyncInvitationInfo_getReceivedAt L this = getWrapperField L this 3"

definition IncomingAsyncInvitationInfo_setReceivedAt ::
  "('m, 'w, 'r, 'b) jspb \<Rightarrow> 'm \<Rightarrow> 'm option \<Rightarrow> 'm" where
  "IncomingAsyncInvitationInfo_setReceivedAt L this value = setWrapperField L this 3 value"

definition IncomingAsyncInvitationInfo_clearReceivedAt ::
  "('m, 'w, 'r, 'b) jspb \<Rightarrow> 'm \<Rightarrow> 'm" where
  "IncomingAsyncInvitationInfo_clearReceivedAt L this = IncomingAsyncInvitationInfo_setReceivedAt L this None"

definition IncomingAsyncInvitationInfo_hasReceivedAt ::
  "('m, 'w, 'r, 'b) jspb \<Rightarrow> 'm \<Rightarrow> bool" where
  "IncomingAsyncInvitationInfo_hasReceivedAt L this = getField_set L this 3"

definition IncomingAsyncInvitationInfo_toObject ::
  "('m, 'w, 'r, 'b) jspb \<Rightarrow> bool \<Rightarrow> 'm \<Rightarrow> 'm jsvalue" where
  "IncomingAsyncInvitationInfo_toObject L includeInstance msg = JObject
     ([(''publicId'', JString (getFieldWithDefault_string L msg 1 [])),
       (''message'', JString (getFieldWithDefault_string L msg 2 [])),
       (''receivedAt'', case IncomingAsyncInvitationInfo_getReceivedAt L msg of None \<Rightarrow> JUndefined
         | Some f \<Rightarrow> pc_toObject (Timestamp L) includeInstance f)]
      @ (if includeInstance then [(''$jspbMessageInstance'', JMessage msg)] else []))"

definition IncomingAsyncInvitationInfo_prototype_toObject ::
  "('m, 'w, 'r, 'b) jspb \<Rightarrow> 'm \<Rightarrow> bool \<Rightarrow> 'm jsvalue" where
  "IncomingAsyncInvitationInfo_prototype_toObject L this opt_includeInstance =
     IncomingAsyncInvitationInfo_toObject L opt_includeInstance this"

definition IncomingAsyncInvitationInfo_deserializeBinaryFromReader ::
  "('m, 'w, 'r, 'b) jspb \<Rightarrow> 'm \<Rightarrow> ('r, 'm) reading" where
  "IncomingAsyncInvitationInfo_deserializeBinaryFromReader L = field_loop L (\<lambda>field msg.
        if field = 1 then read_then (readString L) (\<lambda>value. IncomingAsyncInvitationInfo_setPublicId L msg value)
        else if field = 2 then read_then (readString L) (\<lambda>value. IncomingAsyncInvitationInfo_setMessage L msg value)
        else if field = 3 then read_then 
           (readMessage L (pc_new (Timestamp L)) (pc_deserializeBinaryFromReader (Timestamp L))) (\<lambda>value. IncomingAsyncInvitationInfo_setReceivedAt L msg (Some value))
        else read_then (skipField L) (\<lambda>_. msg))"

definition IncomingAsyncInvitationInfo_deserializeBinary ::
  "('m, 'w, 'r, 'b) jspb \<Rightarrow> 'b \<Rightarrow> (js_error + 'm) option" where
  "IncomingAsyncInvitationInfo_deserializeBinary L bytes =
     (let reader = BinaryReader L bytes; msg = IncomingAsyncInvitationInfo_new L
      in returned (IncomingAsyncInvitationInfo_deserializeBinaryFromReader L msg reader))"

definition IncomingAsyncInvitationInfo_serializeBinaryToWriter ::
  "('m, 'w, 'r, 'b) jspb \<Rightarrow> 'm \<Rightarrow> 'w \<Rightarrow> 'w" where
  "IncomingAsyncInvitationInfo_serializeBinaryToWriter L message writer =
     (let f = IncomingAsyncInvitationInfo_getPublicId L message;
          writer = write_if (0 < length f) (writeString L 1 f) writer;
          f = IncomingAsyncInvitationInfo_getMessage L message;
          writer = write_if (0 < length f) (writeString L 2 f) writer;
          f = IncomingAsyncInvitationInfo_getReceivedAt L message;
          writer = write_present f (\<lambda>f. writeMessage L 3 f (pc_serializeBinaryToWriter (Timestamp L))) writer
      in writer)"

definition IncomingAsyncInvitationInfo_serializeBinary ::
  "('m, 'w, 'r, 'b) jspb \<Rightarrow> 'm \<Rightarrow> 'b" where
  "IncomingAsyncInvitationInfo_serializeBinary L this =
     (let writer = BinaryWriter L; writer = IncomingAsyncInvitationInfo_serializeBinaryToWriter L this writer
      in getResultBuffer L writer)"

definition IncomingAsyncInvitationInfo ::
  "('m, 'w, 'r, 'b) jspb \<Rightarrow> ('m, 'w, 'r, 'b) pbclass" where
  "IncomingAsyncInvitationInfo L =
     \<lparr>pc_displayName = ''proto.asphrdaemon.GetIncomingAsyncInvitationsResponse.IncomingAsyncInvitationInfo'',
      pc_new = IncomingAsyncInvitationInfo_new L,
      pc_toObject = IncomingAsyncInvitationInfo_toObject L,
      pc_deserializeBinary = IncomingAsyncInvitationInfo_deserializeBinary L,
      pc_deserializeBinaryFromReader = IncomingAsyncInvitationInfo_deserializeBinaryFromReader L,
      pc_serializeBinaryToWriter = IncomingAsyncInvitationInfo_serializeBinaryToWriter L,
      pc_prototype_toObject = IncomingAsyncInvitationInfo_prototype_toObject L,
      pc_prototype_serializeBinary = IncomingAsyncInvitationInfo_serializeBinary L\<rparr>"

definition IncomingAsyncInvitationInfo_proto :: proto_message where
  "IncomingAsyncInvitationInfo_proto = Proto ''IncomingAsyncInvitationInfo''
     [Field TString ''public_id'' 1,
      Field TString ''message'' 2,
      Field TTimestamp ''received_at'' 3]"

lemmas IncomingAsyncInvitationInfo_defs =
  IncomingAsyncInvitationInfo_def [abs_def] IncomingAsyncInvitationInfo_new_def [abs_def]
  IncomingAsyncInvitationInfo_getPublicId_def [abs_def]
  IncomingAsyncInvitationInfo_setPublicId_def [abs_def]
  IncomingAsyncInvitationInfo_getMessage_def [abs_def]
  IncomingAsyncInvitationInfo_setMessage_def [abs_def]
  IncomingAsyncInvitationInfo_getReceivedAt_def [abs_def]
  IncomingAsyncInvitationInfo_setReceivedAt_def [abs_def]
  IncomingAsyncInvitationInfo_clearReceivedAt_def [abs_def]
  IncomingAsyncInvitationInfo_hasReceivedAt_def [abs_def]
  IncomingAsyncInvitationInfo_toObject_def [abs_def]
  IncomingAsyncInvitationInfo_deserializeBinaryFromReader_def [abs_def]
  IncomingAsyncInvitationInfo_serializeBinaryToWriter_def [abs_def]
  IncomingAsyncInvitationInfo_proto_def

lemma follows_IncomingAsyncInvitationInfo:
  "follows L IncomingAsyncInvitationInfo_proto (IncomingAsyncInvitationInfo L)"
  by (rule followsI, simp add: IncomingAsyncInvitationInfo_defs new_simps,
    simp add: IncomingAsyncInvitationInfo_defs Let_def,
    simp add: IncomingAsyncInvitationInfo_defs cong: if_cong,
    simp add: IncomingAsyncInvitationInfo_defs object_simps,
    simp_all add: IncomingAsyncInvitationInfo_def [abs_def]
      IncomingAsyncInvitationInfo_prototype_toObject_def [abs_def]
      IncomingAsyncInvitationInfo_deserializeBinary_def [abs_def]
      IncomingAsyncInvitationInfo_serializeBinary_def [abs_def] Let_def)

section \<open>GetIncomingAsyncInvitationsResponse\<close>

definition GetIncomingAsyncInvitationsResponse_repeatedFields ::
  "nat list" where
  "GetIncomingAsyncInvitationsResponse_repeatedFields = [1]"

definition GetIncomingAsyncInvitationsResponse_new ::
  "('m, 'w, 'r, 'b) jspb \<Rightarrow> 'm" where
  "GetIncomingAsyncInvitationsResponse_new L = initialize L (Some GetIncomingAsyncInvitationsResponse_repeatedFields)"

definition GetIncomingAsyncInvitationsResponse_getInvitationsList ::
  "('m, 'w, 'r, 'b) jspb \<Rightarrow> 'm \<Rightarrow> 'm list" where
  "GetIncomingAsyncInvitationsResponse_getInvitationsList L this = getRepeatedWrapperField L this 1"

definition GetIncomingAsyncInvitationsResponse_setInvitationsList ::
  "('m, 'w, 'r, 'b) jspb \<Rightarrow> 'm \<Rightarrow> 'm list \<Rightarrow> 'm" where
  "GetIncomingAsyncInvitationsResponse_setInvitationsList L this value = setRepeatedWrapperField L this 1 value"

definition GetIncomingAsyncInvitationsResponse_addInvitations ::
  "('m, 'w, 'r, 'b) jspb \<Rightarrow> 'm \<Rightarrow> 'm option \<Rightarrow> nat option \<Rightarrow> 'm \<times> 'm" where
  "GetIncomingAsyncInvitationsResponse_addInvitations L this opt_value opt_index =
     addToRepeatedWrapperField L this 1 opt_value (IncomingAsyncInvitationInfo_new L) opt_index"

definition GetIncomingAsyncInvitationsResponse_clearInvitationsList ::
  "('m, 'w, 'r, 'b) jspb \<Rightarrow> 'm \<Rightarrow> 'm" where
  "GetIncomingAsyncInvitationsResponse_clearInvitationsList L this = GetIncomingAsyncInvitationsResponse_setInvitationsList L this []"

definition GetIncomingAsyncInvitationsResponse_toObject ::
  "('m, 'w, 'r, 'b) jspb \<Rightarrow> bool \<Rightarrow> 'm \<Rightarrow> 'm jsvalue" where
  "GetIncomingAsyncInvitationsResponse_toObject L includeInstance msg = JObject
     ([(''invitationsList'', toObjectList L (GetIncomingAsyncInvitationsResponse_getInvitationsList L msg) (IncomingAsyncInvitationInfo_toObject L) includeInstance)]
      @ (if includeInstance then [(''$jspbMessageInstance'', JMessage msg)] else []))"

definition GetIncomingAsyncInvitationsResponse_prototype_toObject ::
  "('m, 'w, 'r, 'b) jspb \<Rightarrow> 'm \<Rightarrow> bool \<Rightarrow> 'm jsvalue" where
  "GetIncomingAsyncInvitationsResponse_prototype_toObject L this opt_includeInstance =
     GetIncomingAsyncInvitationsResponse_toObject L opt_includeInstance this"

definition GetIncomingAsyncInvitationsResponse_deserializeBinaryFromReader ::
  "('m, 'w, 'r, 'b) jspb \<Rightarrow> 'm \<Rightarrow> ('r, 'm) reading" where
  "GetIncomingAsyncInvitationsResponse_deserializeBinaryFromReader L = field_loop L (\<lambda>field msg.
        if field = 1 then read_then 
           (readMessage L (IncomingAsyncInvitationInfo_new L) (IncomingAsyncInvitationInfo_deserializeBinaryFromReader L)) (\<lambda>value. snd (GetIncomingAsyncInvitationsResponse_addInvitations L msg (Some value) None))
        else read_then (skipField L) (\<lambda>_. msg))"

definition GetIncomingAsyncInvitationsResponse_deserializeBinary ::
  "('m, 'w, 'r, 'b) jspb \<Rightarrow> 'b \<Rightarrow> (js_error + 'm) option" where
  "GetIncomingAsyncInvitationsResponse_deserializeBinary L bytes =
     (let reader = BinaryReader L bytes; msg = GetIncomingAsyncInvitationsResponse_new L
      in returned (GetIncomingAsyncInvitationsResponse_deserializeBinaryFromReader L msg reader))"

definition GetIncomingAsyncInvitationsResponse_serializeBinaryToWriter ::
  "('m, 'w, 'r, 'b) jspb \<Rightarrow> 'm \<Rightarrow> 'w \<Rightarrow> 'w" where
  "GetIncomingAsyncInvitationsResponse_serializeBinaryToWriter L message writer =
     (let f = GetIncomingAsyncInvitationsResponse_getInvitationsList L message;
          writer = write_if (0 < length f) (writeRepeatedMessage L 1 f (IncomingAsyncInvitationInfo_serializeBinaryToWriter L)) writer
      in writer)"

definition GetIncomingAsyncInvitationsResponse_serializeBinary ::
  "('m, 'w, 'r, 'b) jspb \<Rightarrow> 'm \<Rightarrow> 'b" where
  "GetIncomingAsyncInvitationsResponse_serializeBinary L this =
     (let writer = BinaryWriter L; writer = GetIncomingAsyncInvitationsResponse_serializeBinaryToWriter L this writer
      in getResultBuffer L writer)"

definition GetIncomingAsyncInvitationsResponse ::
  "('m, 'w, 'r, 'b) jspb \<Rightarrow> ('m, 'w, 'r, 'b) pbclass" where
  "GetIncomingAsyncInvitationsResponse L =
     \<lparr>pc_displayName = ''proto.asphrdaemon.GetIncomingAsyncInvitationsResponse'',
      pc_new = GetIncomingAsyncInvitationsResponse_new L,
      pc_toObject = GetIncomingAsyncInvitationsResponse_toObject L,
      pc_deserializeBinary = GetIncomingAsyncInvitationsResponse_deserializeBinary L,
      pc_deserializeBinaryFromReader = GetIncomingAsyncInvitationsResponse_deserializeBinaryFromReader L,
      pc_serializeBinaryToWriter = GetIncomingAsyncInvitationsResponse_serializeBinaryToWriter L,
      pc_prototype_toObject = GetIncomingAsyncInvitationsResponse_prototype_toObject L,
      pc_prototype_serializeBinary = GetIncomingAsyncInvitationsResponse_serializeBinary L\<rparr>"

definition GetIncomingAsyncInvitationsResponse_proto :: proto_message where
  "GetIncomingAsyncInvitationsResponse_proto = Proto ''GetIncomingAsyncInvitationsResponse''
     [Field (TRepeatedMessage IncomingAsyncInvitationInfo_proto) ''invitations'' 1]"

lemmas GetIncomingAsyncInvitationsResponse_defs =
  GetIncomingAsyncInvitationsResponse_def [abs_def]
  GetIncomingAsyncInvitationsResponse_repeatedFields_def [abs_def]
  GetIncomingAsyncInvitationsResponse_new_def [abs_def]
  GetIncomingAsyncInvitationsResponse_getInvitationsList_def [abs_def]
  GetIncomingAsyncInvitationsResponse_setInvitationsList_def [abs_def]
  GetIncomingAsyncInvitationsResponse_addInvitations_def [abs_def]
  GetIncomingAsyncInvitationsResponse_clearInvitationsList_def [abs_def]
  GetIncomingAsyncInvitationsResponse_toObject_def [abs_def]
  GetIncomingAsyncInvitationsResponse_deserializeBinaryFromReader_def [abs_def]
  GetIncomingAsyncInvitationsResponse_serializeBinaryToWriter_def [abs_def]
  GetIncomingAsyncInvitationsResponse_proto_def

lemma follows_GetIncomingAsyncInvitationsResponse:
  "follows L GetIncomingAsyncInvitationsResponse_proto (GetIncomingAsyncInvitationsResponse L)"
  by (rule followsI, simp add: GetIncomingAsyncInvitationsResponse_defs new_simps,
    simp add: GetIncomingAsyncInvitationsResponse_defs followsD [OF follows_IncomingAsyncInvitationInfo, unfolded IncomingAsyncInvitationInfo_def, simplified] Let_def,
    simp add: GetIncomingAsyncInvitationsResponse_defs followsD [OF follows_IncomingAsyncInvitationInfo, unfolded IncomingAsyncInvitationInfo_def, simplified] cong: if_cong,
    simp add: GetIncomingAsyncInvitationsResponse_defs followsD [OF follows_IncomingAsyncInvitationInfo, unfolded IncomingAsyncInvitationInfo_def, simplified] object_simps,
    simp_all add: GetIncomingAsyncInvitationsResponse_def [abs_def]
      GetIncomingAsyncInvitationsResponse_prototype_toObject_def [abs_def]
      GetIncomingAsyncInvitationsResponse_deserializeBinary_def [abs_def]
      GetIncomingAsyncInvitationsResponse_serializeBinary_def [abs_def] Let_def)

section \<open>AcceptAsyncInvitationRequest\<close>

definition AcceptAsyncInvitationRequest_new ::
  "('m, 'w, 'r, 'b) jspb \<Rightarrow> 'm" where
  "AcceptAsyncInvitationRequest_new L = initialize L None"

definition AcceptAsyncInvitationRequest_getPublicId ::
  "('m, 'w, 'r, 'b) jspb \<Rightarrow> 'm \<Rightarrow> string" where
  "AcceptAsyncInvitationRequest_getPublicId L this = getFieldWithDefault_string L this 1 []"

definition AcceptAsyncInvitationRequest_setPublicId ::
  "('m, 'w, 'r, 'b) jspb \<Rightarrow> 'm \<Rightarrow> string \<Rightarrow> 'm" where
  "AcceptAsyncInvitationRequest_setPublicId L this value = setProto3StringField L this 1 value"

definition AcceptAsyncInvitationRequest_getUniqueName ::
  "('m, 'w, 'r, 'b) jspb \<Rightarrow> 'm \<Rightarrow> string" where
  "AcceptAsyncInvitationRequest_getUniqueName L this = getFieldWithDefault_string L this 2 []"

definition AcceptAsyncInvitationRequest_setUniqueName ::
  "('m, 'w, 'r, 'b) jspb \<Rightarrow> 'm \<Rightarrow> string \<Rightarrow> 'm" where
  "AcceptAsyncInvitationRequest_setUniqueName L this value = setProto3StringField L this 2 value"

definition AcceptAsyncInvitationRequest_getDisplayName ::
  "('m, 'w, 'r, 'b) jspb \<Rightarrow> 'm \<Rightarrow> string" where
  "AcceptAsyncInvitationRequest_getDisplayName L this = getFieldWithDefault_string L this 3 []"

definition AcceptAsyncInvitationRequest_setDisplayName ::
  "('m, 'w, 'r, 'b) jspb \<Rightarrow> 'm \<Rightarrow> string \<Rightarrow> 'm" where
  "AcceptAsyncInvitationRequest_setDisplayName L this value = setProto3StringField L this 3 value"

definition AcceptAsyncInvitationRequest_toObject ::
  "('m, 'w, 'r, 'b) jspb \<Rightarrow> bool \<Rightarrow> 'm \<Rightarrow> 'm jsvalue" where
  "AcceptAsyncInvitationRequest_toObject L includeInstance msg = JObject
     ([(''publicId'', JString (getFieldWithDefault_string L msg 1 [])),
       (''uniqueName'', JString (getFieldWithDefault_string L msg 2 [])),
       (''displayName'', JString (getFieldWithDefault_string L msg 3 []))]
      @ (if includeInstance then [(''$jspbMessageInstance'', JMessage msg)] else []))"

definition AcceptAsyncInvitationRequest_prototype_toObject ::
  "('m, 'w, 'r, 'b) jspb \<Rightarrow> 'm \<Rightarrow> bool \<Rightarrow> 'm jsvalue" where
  "AcceptAsyncInvitationRequest_prototype_toObject L this opt_includeInstance =
     AcceptAsyncInvitationRequest_toObject L opt_includeInstance this"

definition AcceptAsyncInvitationRequest_deserializeBinaryFromReader ::
  "('m, 'w, 'r, 'b) jspb \<Rightarrow> 'm \<Rightarrow> ('r, 'm) reading" where
  "AcceptAsyncInvitationRequest_deserializeBinaryFromReader L = field_loop L (\<lambda>field msg.
        if field = 1 then read_then (readString L) (\<lambda>value. AcceptAsyncInvitationRequest_setPublicId L msg value)
        else if field = 2 then read_then (readString L) (\<lambda>value. AcceptAsyncInvitationRequest_setUniqueName L msg value)
        else if field = 3 then read_then (readString L) (\<lambda>value. AcceptAsyncInvitationRequest_setDisplayName L msg value)
        else read_then (skipField L) (\<lambda>_. msg))"

definition AcceptAsyncInvitationRequest_deserializeBinary ::
  "('m, 'w, 'r, 'b) jspb \<Rightarrow> 'b \<Rightarrow> (js_error + 'm) option" where
  "AcceptAsyncInvitationRequest_deserializeBinary L bytes =
     (let reader = BinaryReader L bytes; msg = AcceptAsyncInvitationRequest_new L
      in returned (AcceptAsyncInvitationRequest_deserializeBinaryFromReader L msg reader))"

definition AcceptAsyncInvitationRequest_serializeBinaryToWriter ::
  "('m, 'w, 'r, 'b) jspb \<Rightarrow> 'm \<Rightarrow> 'w \<Rightarrow> 'w" where
  "AcceptAsyncInvitationRequest_serializeBinaryToWriter L message writer =
     (let f = AcceptAsyncInvitationRequest_getPublicId L message;
          writer = write_if (0 < length f) (writeString L 1 f) writer;
          f = AcceptAsyncInvitationRequest_getUniqueName L message;
          writer = write_if (0 < length f) (writeString L 2 f) writer;
          f = AcceptAsyncInvitationRequest_getDisplayName L message;
          writer = write_if (0 < length f) (writeString L 3 f) writer
      in writer)"

definition AcceptAsyncInvitationRequest_serializeBinary ::
  "('m, 'w, 'r, 'b) jspb \<Rightarrow> 'm \<Rightarrow> 'b" where
  "AcceptAsyncInvitationRequest_serializeBinary L this =
     (let writer = BinaryWriter L; writer = AcceptAsyncInvitationRequest_serializeBinaryToWriter L this writer
      in getResultBuffer L writer)"

definition AcceptAsyncInvitationRequest ::
  "('m, 'w, 'r, 'b) jspb \<Rightarrow> ('m, 'w, 'r, 'b) pbclass" where
  "AcceptAsyncInvitationRequest L =
     \<lparr>pc_displayName = ''proto.asphrdaemon.AcceptAsyncInvitationRequest'',
      pc_new = AcceptAsyncInvitationRequest_new L,
      pc_toObject = AcceptAsyncInvitationRequest_toObject L,
      pc_deserializeBinary = AcceptAsyncInvitationRequest_deserializeBinary L,
      pc_deserializeBinaryFromReader = AcceptAsyncInvitationRequest_deserializeBinaryFromReader L,
      pc_serializeBinaryToWriter = AcceptAsyncInvitationRequest_serializeBinaryToWriter L,
      pc_prototype_toObject = AcceptAsyncInvitationRequest_prototype_toObject L,
      pc_prototype_serializeBinary = AcceptAsyncInvitationRequest_serializeBinary L\<rparr>"

definition AcceptAsyncInvitationRequest_proto :: proto_message where
  "AcceptAsyncInvitationRequest_proto = Proto ''AcceptAsyncInvitationRequest''
     [Field TString ''public_id'' 1,
      Field TString ''unique_name'' 2,
      Field TString ''display_name'' 3]"

lemmas AcceptAsyncInvitationRequest_defs =
  AcceptAsyncInvitationRequest_def [abs_def] AcceptAsyncInvitationRequest_new_def [abs_def]
  AcceptAsyncInvitationRequest_getPublicId_def [abs_def]
  AcceptAsyncInvitationRequest_setPublicId_def [abs_def]
  AcceptAsyncInvitationRequest_getUniqueName_def [abs_def]
  AcceptAsyncInvitationRequest_setUniqueName_def [abs_def]
  AcceptAsyncInvitationRequest_getDisplayName_def [abs_def]
  AcceptAsyncInvitationRequest_setDisplayName_def [abs_def]
  AcceptAsyncInvitationRequest_toObject_def [abs_def]
  AcceptAsyncInvitationRequest_deserializeBinaryFromReader_def [abs_def]
  AcceptAsyncInvitationRequest_serializeBinaryToWriter_def [abs_def]
  AcceptAsyncInvitationRequest_proto_def

lemma follows_AcceptAsyncInvitationRequest:
  "follows L AcceptAsyncInvitationRequest_proto (AcceptAsyncInvitationRequest L)"
  by (rule followsI, simp add: AcceptAsyncInvitationRequest_defs new_simps,
    simp add: AcceptAsyncInvitationRequest_defs Let_def,
    simp add: AcceptAsyncInvitationRequest_defs cong: if_cong,
    simp add: AcceptAsyncInvitationRequest_defs object_simps,
    simp_all add: AcceptAsyncInvitationRequest_def [abs_def]
      AcceptAsyncInvitationRequest_prototype_toObject_def [abs_def]
      AcceptAsyncInvitationRequest_deserializeBinary_def [abs_def]
      AcceptAsyncInvitationRequest_serializeBinary_def [abs_def] Let_def)

section \<open>AcceptAsyncInvitationResponse\<close>

definition AcceptAsyncInvitationResponse_new ::
  "('m, 'w, 'r, 'b) jspb \<Rightarrow> 'm" where
  "AcceptAsyncInvitationResponse_new L = initialize L None"

definition AcceptAsyncInvitationResponse_toObject ::
  "('m, 'w, 'r, 'b) jspb \<Rightarrow> bool \<Rightarrow> 'm \<Rightarrow> 'm jsvalue" where
  "AcceptAsyncInvitationResponse_toObject L includeInstance msg = JObject
     ([]
      @ (if includeInstance then [(''$jspbMessageInstance'', JMessage msg)] else []))"

definition AcceptAsyncInvitationResponse_prototype_toObject ::
  "('m, 'w, 'r, 'b) jspb \<Rightarrow> 'm \<Rightarrow> bool \<Rightarrow> 'm jsvalue" where
  "AcceptAsyncInvitationResponse_prototype_toObject L this opt_includeInstance =
     AcceptAsyncInvitationResponse_toObject L opt_includeInstance this"

definition AcceptAsyncInvitationResponse_deserializeBinaryFromReader ::
  "('m, 'w, 'r, 'b) jspb \<Rightarrow> 'm \<Rightarrow> ('r, 'm) reading" where
  "AcceptAsyncInvitationResponse_deserializeBinaryFromReader L = field_loop L (\<lambda>field msg.
        read_then (skipField L) (\<lambda>_. msg))"

definition AcceptAsyncInvitationResponse_deserializeBinary ::
  "('m, 'w, 'r, 'b) jspb \<Rightarrow> 'b \<Rightarrow> (js_error + 'm) option" where
  "AcceptAsyncInvitationResponse_deserializeBinary L bytes =
     (let reader = BinaryReader L bytes; msg = AcceptAsyncInvitationResponse_new L
      in returned (AcceptAsyncInvitationResponse_deserializeBinaryFromReader L msg reader))"

definition AcceptAsyncInvitationResponse_serializeBinaryToWriter ::
  "('m, 'w, 'r, 'b) jspb \<Rightarrow> 'm \<Rightarrow> 'w \<Rightarrow> 'w" where
  "AcceptAsyncInvitationResponse_serializeBinaryToWriter L message writer = writer"

definition AcceptAsyncInvitationResponse_serializeBinary ::
  "('m, 'w, 'r, 'b) jspb \<Rightarrow> 'm \<Rightarrow> 'b" where
  "AcceptAsyncInvitationResponse_serializeBinary L this =
     (let writer = BinaryWriter L; writer = AcceptAsyncInvitationResponse_serializeBinaryToWriter L this writer
      in getResultBuffer L writer)"

definition AcceptAsyncInvitationResponse ::
  "('m, 'w, 'r, 'b) jspb \<Rightarrow> ('m, 'w, 'r, 'b) pbclass" where
  "AcceptAsyncInvitationResponse L =
     \<lparr>pc_displayName = ''proto.asphrdaemon.AcceptAsyncInvitationResponse'',
      pc_new = AcceptAsyncInvitationResponse_new L,
      pc_toObject = AcceptAsyncInvitationResponse_toObject L,
      pc_deserializeBinary = AcceptAsyncInvitationResponse_deserializeBinary L,
      pc_deserializeBinaryFromReader = AcceptAsyncInvitationResponse_deserializeBinaryFromReader L,
      pc_serializeBinaryToWriter = AcceptAsyncInvitationResponse_serializeBinaryToWriter L,
      pc_prototype_toObject = AcceptAsyncInvitationResponse_prototype_toObject L,
      pc_prototype_serializeBinary = AcceptAsyncInvitationResponse_serializeBinary L\<rparr>"

definition AcceptAsyncInvitationResponse_proto :: proto_message where
  "AcceptAsyncInvitationResponse_proto = Proto ''AcceptAsyncInvitationResponse''
     []"

lemmas AcceptAsyncInvitationResponse_defs =
  AcceptAsyncInvitationResponse_def [abs_def] AcceptAsyncInvitationResponse_new_def [abs_def]
  AcceptAsyncInvitationResponse_toObject_def [abs_def]
  AcceptAsyncInvitationResponse_deserializeBinaryFromReader_def [abs_def]
  AcceptAsyncInvitationResponse_serializeBinaryToWriter_def [abs_def]
  AcceptAsyncInvitationResponse_proto_def

lemma follows_AcceptAsyncInvitationResponse:
  "follows L AcceptAsyncInvitationResponse_proto (AcceptAsyncInvitationResponse L)"
  by (rule followsI, simp add: AcceptAsyncInvitationResponse_defs new_simps,
    simp add: AcceptAsyncInvitationResponse_defs Let_def,
    simp add: AcceptAsyncInvitationResponse_defs cong: if_cong,
    simp add: AcceptAsyncInvitationResponse_defs object_simps,
    simp_all add: AcceptAsyncInvitationResponse_def [abs_def]
      AcceptAsyncInvitationResponse_prototype_toObject_def [abs_def]
      AcceptAsyncInvitationResponse_deserializeBinary_def [abs_def]
      AcceptAsyncInvitationResponse_serializeBinary_def [abs_def] Let_def)

section \<open>RejectAsyncInvitationRequest\<close>

definition RejectAsyncInvitationRequest_new ::
  "('m, 'w, 'r, 'b) jspb \<Rightarrow> 'm" where
  "RejectAsyncInvitationRequest_new L = initialize L None"

definition RejectAsyncInvitationRequest_getPublicId ::
  "('m, 'w, 'r, 'b) jspb \<Rightarrow> 'm \<Rightarrow> string" where
  "RejectAsyncInvitationRequest_getPublicId L this = getFieldWithDefault_string L this 1 []"

definition RejectAsyncInvitationRequest_setPublicId ::
  "('m, 'w, 'r, 'b) jspb \<Rightarrow> 'm \<Rightarrow> string \<Rightarrow> 'm" where
  "RejectAsyncInvitationRequest_setPublicId L this value = setProto3StringField L this 1 value"

definition RejectAsyncInvitationRequest_toObject ::
  "('m, 'w, 'r, 'b) jspb \<Rightarrow> bool \<Rightarrow> 'm \<Rightarrow> 'm jsvalue" where
  "RejectAsyncInvitationRequest_toObject L includeInstance msg = JObject
     ([(''publicId'', JString (getFieldWithDefault_string L msg 1 []))]
      @ (if includeInstance then [(''$jspbMessageInstance'', JMessage msg)] else []))"

definition RejectAsyncInvitationRequest_prototype_toObject ::
  "('m, 'w, 'r, 'b) jspb \<Rightarrow> 'm \<Rightarrow> bool \<Rightarrow> 'm jsvalue" where
  "RejectAsyncInvitationRequest_prototype_toObject L this opt_includeInstance =
     RejectAsyncInvitationRequest_toObject L opt_includeInstance this"

definition RejectAsyncInvitationRequest_deserializeBinaryFromReader ::
  "('m, 'w, 'r, 'b) jspb \<Rightarrow> 'm \<Rightarrow> ('r, 'm) reading" where
  "RejectAsyncInvitationRequest_deserializeBinaryFromReader L = field_loop L (\<lambda>field msg.
        if field = 1 then read_then (readString L) (\<lambda>value. RejectAsyncInvitationRequest_setPublicId L msg value)
        else read_then (skipField L) (\<lambda>_. msg))"

definition RejectAsyncInvitationRequest_deserializeBinary ::
  "('m, 'w, 'r, 'b) jspb \<Rightarrow> 'b \<Rightarrow> (js_error + 'm) option" where
  "RejectAsyncInvitationRequest_deserializeBinary L bytes =
     (let reader = BinaryReader L bytes; msg = RejectAsyncInvitationRequest_new L
      in returned (RejectAsyncInvitationRequest_deserializeBinaryFromReader L msg reader))"

definition RejectAsyncInvitationRequest_serializeBinaryToWriter ::
  "('m, 'w, 'r, 'b) jspb \<Rightarrow> 'm \<Rightarrow> 'w \<Rightarrow> 'w" where
  "RejectAsyncInvitationRequest_serializeBinaryToWriter L message writer =
     (let f = RejectAsyncInvitationRequest_getPublicId L message;
          writer = write_if (0 < length f) (writeString L 1 f) writer
      in writer)"

definition RejectAsyncInvitationRequest_serializeBinary ::
  "('m, 'w, 'r, 'b) jspb \<Rightarrow> 'm \<Rightarrow> 'b" where
  "RejectAsyncInvitationRequest_serializeBinary L this =
     (let writer = BinaryWriter L; writer = RejectAsyncInvitationRequest_serializeBinaryToWriter L this writer
      in getResultBuffer L writer)"

definition RejectAsyncInvitationRequest ::
  "('m, 'w, 'r, 'b) jspb \<Rightarrow> ('m, 'w, 'r, 'b) pbclass" where
  "RejectAsyncInvitationRequest L =
     \<lparr>pc_displayName = ''proto.asphrdaemon.RejectAsyncInvitationRequest'',
      pc_new = RejectAsyncInvitationRequest_new L,
      pc_toObject = RejectAsyncInvitationRequest_toObject L,
      pc_deserializeBinary = RejectAsyncInvitationRequest_deserializeBinary L,
      pc_deserializeBinaryFromReader = RejectAsyncInvitationRequest_deserializeBinaryFromReader L,
      pc_serializeBinaryToWriter = RejectAsyncInvitationRequest_serializeBinaryToWriter L,
      pc_prototype_toObject = RejectAsyncInvitationRequest_prototype_toObject L,
      pc_prototype_serializeBinary = RejectAsyncInvitationRequest_serializeBinary L\<rparr>"

definition RejectAsyncInvitationRequest_proto :: proto_message where
  "RejectAsyncInvitationRequest_proto = Proto ''RejectAsyncInvitationRequest''
     [Field TString ''public_id'' 1]"

lemmas RejectAsyncInvitationRequest_defs =
  RejectAsyncInvitationRequest_def [abs_def] RejectAsyncInvitationRequest_new_def [abs_def]
  RejectAsyncInvitationRequest_getPublicId_def [abs_def]
  RejectAsyncInvitationRequest_setPublicId_def [abs_def]
  RejectAsyncInvitationRequest_toObject_def [abs_def]
  RejectAsyncInvitationRequest_deserializeBinaryFromReader_def [abs_def]
  RejectAsyncInvitationRequest_serializeBinaryToWriter_def [abs_def]
  RejectAsyncInvitationRequest_proto_def

lemma follows_RejectAsyncInvitationRequest:
  "follows L RejectAsyncInvitationRequest_proto (RejectAsyncInvitationRequest L)"
  by (rule followsI, simp add: RejectAsyncInvitationRequest_defs new_simps,
    simp add: RejectAsyncInvitationRequest_defs Let_def,
    simp add: RejectAsyncInvitationRequest_defs cong: if_cong,
    simp add: RejectAsyncInvitationRequest_defs object_simps,
    simp_all add: RejectAsyncInvitationRequest_def [abs_def]
      RejectAsyncInvitationRequest_prototype_toObject_def [abs_def]
      RejectAsyncInvitationRequest_deserializeBinary_def [abs_def]
      RejectAsyncInvitationRequest_serializeBinary_def [abs_def] Let_def)

section \<open>RejectAsyncInvitationResponse\<close>

definition RejectAsyncInvitationResponse_new ::
  "('m, 'w, 'r, 'b) jspb \<Rightarrow> 'm" where
  "RejectAsyncInvitationResponse_new L = initialize L None"

definition RejectAsyncInvitationResponse_toObject ::
  "('m, 'w, 'r, 'b) jspb \<Rightarrow> bool \<Rightarrow> 'm \<Rightarrow> 'm jsvalue" where
  "RejectAsyncInvitationResponse_toObject L includeInstance msg = JObject
     ([]
      @ (if includeInstance then [(''$jspbMessageInstance'', JMessage msg)] else []))"

definition RejectAsyncInvitationResponse_prototype_toObject ::
  "('m, 'w, 'r, 'b) jspb \<Rightarrow> 'm \<Rightarrow> bool \<Rightarrow> 'm jsvalue" where
  "RejectAsyncInvitationResponse_prototype_toObject L this opt_includeInstance =
     RejectAsyncInvitationResponse_toObject L opt_includeInstance this"

definition RejectAsyncInvitationResponse_deserializeBinaryFromReader ::
  "('m, 'w, 'r, 'b) jspb \<Rightarrow> 'm \<Rightarrow> ('r, 'm) reading" where
  "RejectAsyncInvitationResponse_deserializeBinaryFromReader L = field_loop L (\<lambda>field msg.
        read_then (skipField L) (\<lambda>_. msg))"

definition RejectAsyncInvitationResponse_deserializeBinary ::
  "('m, 'w, 'r, 'b) jspb \<Rightarrow> 'b \<Rightarrow> (js_error + 'm) option" where
  "RejectAsyncInvitationResponse_deserializeBinary L bytes =
     (let reader = BinaryReader L bytes; msg = RejectAsyncInvitationResponse_new L
      in returned (RejectAsyncInvitationResponse_deserializeBinaryFromReader L msg reader))"

definition RejectAsyncInvitationResponse_serializeBinaryToWriter ::
  "('m, 'w, 'r, 'b) jspb \<Rightarrow> 'm \<Rightarrow> 'w \<Rightarrow> 'w" where
  "RejectAsyncInvitationResponse_serializeBinaryToWriter L message writer = writer"

definition RejectAsyncInvitationResponse_serializeBinary ::
  "('m, 'w, 'r, 'b) jspb \<Rightarrow> 'm \<Rightarrow> 'b" where
  "RejectAsyncInvitationResponse_serializeBinary L this =
     (let writer = BinaryWriter L; writer = RejectAsyncInvitationResponse_serializeBinaryToWriter L this writer
      in getResultBuffer L writer)"

definition RejectAsyncInvitationResponse ::
  "('m, 'w, 'r, 'b) jspb \<Rightarrow> ('m, 'w, 'r, 'b) pbclass" where
  "RejectAsyncInvitationResponse L =
     \<lparr>pc_displayName = ''proto.asphrdaemon.RejectAsyncInvitationResponse'',
      pc_new = RejectAsyncInvitationResponse_new L,
      pc_toObject = RejectAsyncInvitationResponse_toObject L,
      pc_deserializeBinary = RejectAsyncInvitationResponse_deserializeBinary L,
      pc_deserializeBinaryFromReader = RejectAsyncInvitationResponse_deserializeBinaryFromReader L,
      pc_serializeBinaryToWriter = RejectAsyncInvitationResponse_serializeBinaryToWriter L,
      pc_prototype_toObject = RejectAsyncInvitationResponse_prototype_toObject L,
      pc_prototype_serializeBinary = RejectAsyncInvitationResponse_serializeBinary L\<rparr>"

definition RejectAsyncInvitationResponse_proto :: proto_message where
  "RejectAsyncInvitationResponse_proto = Proto ''RejectAsyncInvitationResponse''
     []"

lemmas RejectAsyncInvitationResponse_defs =
  RejectAsyncInvitationResponse_def [abs_def] RejectAsyncInvitationResponse_new_def [abs_def]
  RejectAsyncInvitationResponse_toObject_def [abs_def]
  RejectAsyncInvitationResponse_deserializeBinaryFromReader_def [abs_def]
  RejectAsyncInvitationResponse_serializeBinaryToWriter_def [abs_def]
  RejectAsyncInvitationResponse_proto_def

lemma follows_RejectAsyncInvitationResponse:
  "follows L RejectAsyncInvitationResponse_proto (RejectAsyncInvitationResponse L)"
  by (rule followsI, simp add: RejectAsyncInvitationResponse_defs new_simps,
    simp add: RejectAsyncInvitationResponse_defs Let_def,
    simp add: RejectAsyncInvitationResponse_defs cong: if_cong,
    simp add: RejectAsyncInvitationResponse_defs object_simps,
    simp_all add: RejectAsyncInvitationResponse_def [abs_def]
      RejectAsyncInvitationResponse_prototype_toObject_def [abs_def]
      RejectAsyncInvitationResponse_deserializeBinary_def [abs_def]
      RejectAsyncInvitationResponse_serializeBinary_def [abs_def] Let_def)

section \<open>CancelAsyncInvitationRequest\<close>

definition CancelAsyncInvitationRequest_new ::
  "('m, 'w, 'r, 'b) jspb \<Rightarrow> 'm" where
  "CancelAsyncInvitationRequest_new L = initialize L None"

definition CancelAsyncInvitationRequest_getPublicId ::
  "('m, 'w, 'r, 'b) jspb \<Rightarrow> 'm \<Rightarrow> string" where
  "CancelAsyncInvitationRequest_getPublicId L this = getFieldWithDefault_string L this 1 []"

definition CancelAsyncInvitationRequest_setPublicId ::
  "('m, 'w, 'r, 'b) jspb \<Rightarrow> 'm \<Rightarrow> string \<Rightarrow> 'm" where
  "CancelAsyncInvitationRequest_setPublicId L this value = setProto3StringField L this 1 value"

definition CancelAsyncInvitationRequest_toObject ::
  "('m, 'w, 'r, 'b) jspb \<Rightarrow> bool \<Rightarrow> 'm \<Rightarrow> 'm jsvalue" where
  "CancelAsyncInvitationRequest_toObject L includeInstance msg = JObject
     ([(''publicId'', JString (getFieldWithDefault_string L msg 1 []))]
      @ (if includeInstance then [(''$jspbMessageInstance'', JMessage msg)] else []))"

definition CancelAsyncInvitationRequest_prototype_toObject ::
  "('m, 'w, 'r, 'b) jspb \<Rightarrow> 'm \<Rightarrow> bool \<Rightarrow> 'm jsvalue" where
  "CancelAsyncInvitationRequest_prototype_toObject L this opt_includeInstance =
     CancelAsyncInvitationRequest_toObject L opt_includeInstance this"

definition CancelAsyncInvitationRequest_deserializeBinaryFromReader ::
  "('m, 'w, 'r, 'b) jspb \<Rightarrow> 'm \<Rightarrow> ('r, 'm) reading" where
  "CancelAsyncInvitationRequest_deserializeBinaryFromReader L = field_loop L (\<lambda>field msg.
        if field = 1 then read_then (readString L) (\<lambda>value. CancelAsyncInvitationRequest_setPublicId L msg value)
        else read_then (skipField L) (\<lambda>_. msg))"

definition CancelAsyncInvitationRequest_deserializeBinary ::
  "('m, 'w, 'r, 'b) jspb \<Rightarrow> 'b \<Rightarrow> (js_error + 'm) option" where
  "CancelAsyncInvitationRequest_deserializeBinary L bytes =
     (let reader = BinaryReader L bytes; msg = CancelAsyncInvitationRequest_new L
      in returned (CancelAsyncInvitationRequest_deserializeBinaryFromReader L msg reader))"

definition CancelAsyncInvitationRequest_serializeBinaryToWriter ::
  "('m, 'w, 'r, 'b) jspb \<Rightarrow> 'm \<Rightarrow> 'w \<Rightarrow> 'w" where
  "CancelAsyncInvitationRequest_serializeBinaryToWriter L message writer =
     (let f = CancelAsyncInvitationRequest_getPublicId L message;
          writer = write_if (0 < length f) (writeString L 1 f) writer
      in writer)"

definition CancelAsyncInvitationRequest_serializeBinary ::
  "('m, 'w, 'r, 'b) jspb \<Rightarrow> 'm \<Rightarrow> 'b" where
  "CancelAsyncInvitationRequest_serializeBinary L this =
     (let writer = BinaryWriter L; writer = CancelAsyncInvitationRequest_serializeBinaryToWriter L this writer
      in getResultBuffer L writer)"

definition CancelAsyncInvitationRequest ::
  "('m, 'w, 'r, 'b) jspb \<Rightarrow> ('m, 'w, 'r, 'b) pbclass" where
  "CancelAsyncInvitationRequest L =
     \<lparr>pc_displayName = ''proto.asphrdaemon.CancelAsyncInvitationRequest'',
      pc_new = CancelAsyncInvitationRequest_new L,
      pc_toObject = CancelAsyncInvitationRequest_toObject L,
      pc_deserializeBinary = CancelAsyncInvitationRequest_deserializeBinary L,
      pc_deserializeBinaryFromReader = CancelAsyncInvitationRequest_deserializeBinaryFromReader L,
      pc_serializeBinaryToWriter = CancelAsyncInvitationRequest_serializeBinaryToWriter L,
      pc_prototype_toObject = CancelAsyncInvitationRequest_prototype_toObject L,
      pc_prototype_serializeBinary = CancelAsyncInvitationRequest_serializeBinary L\<rparr>"

definition CancelAsyncInvitationRequest_proto :: proto_message where
  "CancelAsyncInvitationRequest_proto = Proto ''CancelAsyncInvitationRequest''
     [Field TString ''public_id'' 1]"

lemmas CancelAsyncInvitationRequest_defs =
  CancelAsyncInvitationRequest_def [abs_def] CancelAsyncInvitationRequest_new_def [abs_def]
  CancelAsyncInvitationRequest_getPublicId_def [abs_def]
  CancelAsyncInvitationRequest_setPublicId_def [abs_def]
  CancelAsyncInvitationRequest_toObject_def [abs_def]
  CancelAsyncInvitationRequest_deserializeBinaryFromReader_def [abs_def]
  CancelAsyncInvitationRequest_serializeBinaryToWriter_def [abs_def]
  CancelAsyncInvitationRequest_proto_def

lemma follows_CancelAsyncInvitationRequest:
  "follows L CancelAsyncInvitationRequest_proto (CancelAsyncInvitationRequest L)"
  by (rule followsI, simp add: CancelAsyncInvitationRequest_defs new_simps,
    simp add: CancelAsyncInvitationRequest_defs Let_def,
    simp add: CancelAsyncInvitationRequest_defs cong: if_cong,
    simp add: CancelAsyncInvitationRequest_defs object_simps,
    simp_all add: CancelAsyncInvitationRequest_def [abs_def]
      CancelAsyncInvitationRequest_prototype_toObject_def [abs_def]
      CancelAsyncInvitationRequest_deserializeBinary_def [abs_def]
      CancelAsyncInvitationRequest_serializeBinary_def [abs_def] Let_def)

section \<open>CancelAsyncInvitationResponse\<close>

definition CancelAsyncInvitationResponse_new ::
  "('m, 'w, 'r, 'b) jspb \<Rightarrow> 'm" where
  "CancelAsyncInvitationResponse_new L = initialize L None"

definition CancelAsyncInvitationResponse_toObject ::
  "('m, 'w, 'r, 'b) jspb \<Rightarrow> bool \<Rightarrow> 'm \<Rightarrow> 'm jsvalue" where
  "CancelAsyncInvitationResponse_toObject L includeInstance msg = JObject
     ([]
      @ (if includeInstance then [(''$jspbMessageInstance'', JMessage msg)] else []))"

definition CancelAsyncInvitationResponse_prototype_toObject ::
  "('m, 'w, 'r, 'b) jspb \<Rightarrow> 'm \<Rightarrow> bool \<Rightarrow> 'm jsvalue" where
  "CancelAsyncInvitationResponse_prototype_toObject L this opt_includeInstance =
     CancelAsyncInvitationResponse_toObject L opt_includeInstance this"

definition CancelAsyncInvitationResponse_deserializeBinaryFromReader ::
  "('m, 'w, 'r, 'b) jspb \<Rightarrow> 'm \<Rightarrow> ('r, 'm) reading" where
  "CancelAsyncInvitationResponse_deserializeBinaryFromReader L = field_loop L (\<lambda>field msg.
        read_then (skipField L) (\<lambda>_. msg))"

definition CancelAsyncInvitationResponse_deserializeBinary ::
  "('m, 'w, 'r, 'b) jspb \<Rightarrow> 'b \<Rightarrow> (js_error + 'm) option" where
  "CancelAsyncInvitationResponse_deserializeBinary L bytes =
     (let reader = BinaryReader L bytes; msg = CancelAsyncInvitationResponse_new L
      in returned (CancelAsyncInvitationResponse_deserializeBinaryFromReader L msg reader))"

definition CancelAsyncInvitationResponse_serializeBinaryToWriter ::
  "('m, 'w, 'r, 'b) jspb \<Rightarrow> 'm \<Rightarrow> 'w \<Rightarrow> 'w" where
  "CancelAsyncInvitationResponse_serializeBinaryToWriter L message writer = writer"

definition CancelAsyncInvitationResponse_serializeBinary ::
  "('m, 'w, 'r, 'b) jspb \<Rightarrow> 'm \<Rightarrow> 'b" where
  "CancelAsyncInvitationResponse_serializeBinary L this =
     (let writer = BinaryWriter L; writer = CancelAsyncInvitationResponse_serializeBinaryToWriter L this writer
      in getResultBuffer L writer)"

definition CancelAsyncInvitationResponse ::
  "('m, 'w, 'r, 'b) jspb \<Rightarrow> ('m, 'w, 'r, 'b) pbclass" where
  "CancelAsyncInvitationResponse L =
     \<lparr>pc_displayName = ''proto.asphrdaemon.CancelAsyncInvitationResponse'',
      pc_new = CancelAsyncInvitationResponse_new L,
      pc_toObject = CancelAsyncInvitationResponse_toObject L,
      pc_deserializeBinary = CancelAsyncInvitationResponse_deserializeBinary L,
      pc_deserializeBinaryFromReader = CancelAsyncInvitationResponse_deserializeBinaryFromReader L,
      pc_serializeBinaryToWriter = CancelAsyncInvitationResponse_serializeBinaryToWriter L,
      pc_prototype_toObject = CancelAsyncInvitationResponse_prototype_toObject L,
      pc_prototype_serializeBinary = CancelAsyncInvitationResponse_serializeBinary L\<rparr>"

definition CancelAsyncInvitationResponse_proto :: proto_message where
  "CancelAsyncInvitationResponse_proto = Proto ''CancelAsyncInvitationResponse''
     []"

lemmas CancelAsyncInvitationResponse_defs =
  CancelAsyncInvitationResponse_def [abs_def] CancelAsyncInvitationResponse_new_def [abs_def]
  CancelAsyncInvitationResponse_toObject_def [abs_def]
  CancelAsyncInvitationResponse_deserializeBinaryFromReader_def [abs_def]
  CancelAsyncInvitationResponse_serializeBinaryToWriter_def [abs_def]
  CancelAsyncInvitationResponse_proto_def

lemma follows_CancelAsyncInvitationResponse:
  "follows L CancelAsyncInvitationResponse_proto (CancelAsyncInvitationResponse L)"
  by (rule followsI, simp add: CancelAsyncInvitationResponse_defs new_simps,
    simp add: CancelAsyncInvitationResponse_defs Let_def,
    simp add: CancelAsyncInvitationResponse_defs cong: if_cong,
    simp add: CancelAsyncInvitationResponse_defs object_simps,
    simp_all add: CancelAsyncInvitationResponse_def [abs_def]
      CancelAsyncInvitationResponse_prototype_toObject_def [abs_def]
      CancelAsyncInvitationResponse_deserializeBinary_def [abs_def]
      CancelAsyncInvitationResponse_serializeBinary_def [abs_def] Let_def)

end
