(* ===== verification/PbMessages.thy ===== *)
theory PbMessages imports ProtoSchema begin

text \<open>
  The classes of \<open>daemon/schema/daemon_pb.js\<close> for contacts that are removed, and messages, function by
  function, and beside each class the message of \<open>asphr/schema/daemon.proto\<close> that it implements,
  with the proof that the class is the reference codec of that message.
\<close>

section \<open>RemoveFriendRequest\<close>

definition RemoveFriendRequest_new ::
  "('m, 'w, 'r, 'b) jspb \<Rightarrow> 'm" where
  "RemoveFriendRequest_new L = initialize L None"

definition RemoveFriendRequest_getUniqueName ::
  "('m, 'w, 'r, 'b) jspb \<Rightarrow> 'm \<Rightarrow> string" where
  "RemoveFriendRequest_getUniqueName L this = getFieldWithDefault_string L this 1 []"

definition RemoveFriendRequest_setUniqueName ::
  "('m, 'w, 'r, 'b) jspb \<Rightarrow> 'm \<Rightarrow> string \<Rightarrow> 'm" where
  "RemoveFriendRequest_setUniqueName L this value = setProto3StringField L this 1 value"

definition RemoveFriendRequest_toObject ::
  "('m, 'w, 'r, 'b) jspb \<Rightarrow> bool \<Rightarrow> 'm \<Rightarrow> 'm jsvalue" where
  "RemoveFriendRequest_toObject L includeInstance msg = JObject
     ([(''uniqueName'', JString (getFieldWithDefault_string L msg 1 []))]
      @ (if includeInstance then [(''$jspbMessageInstance'', JMessage msg)] else []))"

definition RemoveFriendRequest_prototype_toObject ::
  "('m, 'w, 'r, 'b) jspb \<Rightarrow> 'm \<Rightarrow> bool \<Rightarrow> 'm jsvalue" where
  "RemoveFriendRequest_prototype_toObject L this opt_includeInstance =
     RemoveFriendRequest_toObject L opt_includeInstance this"

definition RemoveFriendRequest_deserializeBinaryFromReader ::
  "('m, 'w, 'r, 'b) jspb \<Rightarrow> 'm \<Rightarrow> ('r, 'm) reading" where
  "RemoveFriendRequest_deserializeBinaryFromReader L = field_loop L (\<lambda>field msg.
        if field = 1 then read_then (readString L) (\<lambda>value. RemoveFriendRequest_setUniqueName L msg value)
        else read_then (skipField L) (\<lambda>_. msg))"

definition RemoveFriendRequest_deserializeBinary ::
  "('m, 'w, 'r, 'b) jspb \<Rightarrow> 'b \<Rightarrow> (js_error + 'm) option" where
  "RemoveFriendRequest_deserializeBinary L bytes =
     (let reader = BinaryReader L bytes; msg = RemoveFriendRequest_new L
      in returned (RemoveFriendRequest_deserializeBinaryFromReader L msg reader))"

definition RemoveFriendRequest_serializeBinaryToWriter ::
  "('m, 'w, 'r, 'b) jspb \<Rightarrow> 'm \<Rightarrow> 'w \<Rightarrow> 'w" where
  "RemoveFriendRequest_serializeBinaryToWriter L message writer =
     (let f = RemoveFriendRequest_getUniqueName L message;
          writer = write_if (0 < length f) (writeString L 1 f) writer
      in writer)"

definition RemoveFriendRequest_serializeBinary ::
  "('m, 'w, 'r, 'b) jspb \<Rightarrow> 'm \<Rightarrow> 'b" where
  "RemoveFriendRequest_serializeBinary L this =
     (let writer = BinaryWriter L; writer = RemoveFriendRequest_serializeBinaryToWriter L this writer
      in getResultBuffer L writer)"

definition RemoveFriendRequest ::
  "('m, 'w, 'r, 'b) jspb \<Rightarrow> ('m, 'w, 'r, 'b) pbclass" where
  "RemoveFriendRequest L =
     \<lparr>pc_displayName = ''proto.asphrdaemon.RemoveFriendRequest'',
      pc_new = RemoveFriendRequest_new L,
      pc_toObject = RemoveFriendRequest_toObject L,
      pc_deserializeBinary = RemoveFriendRequest_deserializeBinary L,
      pc_deserializeBinaryFromReader = RemoveFriendRequest_deserializeBinaryFromReader L,
      pc_serializeBinaryToWriter = RemoveFriendRequest_serializeBinaryToWriter L,
      pc_prototype_toObject = RemoveFriendRequest_prototype_toObject L,
      pc_prototype_serializeBinary = RemoveFriendRequest_serializeBinary L\<rparr>"

definition RemoveFriendRequest_proto :: proto_message where
  "RemoveFriendRequest_proto = Proto ''RemoveFriendRequest''
     [Field TString ''unique_name'' 1]"

lemmas RemoveFriendRequest_defs =
  RemoveFriendRequest_def [abs_def] RemoveFriendRequest_new_def [abs_def]
  RemoveFriendRequest_getUniqueName_def [abs_def] RemoveFriendRequest_setUniqueName_def [abs_def]
  RemoveFriendRequest_toObject_def [abs_def]
  RemoveFriendRequest_deserializeBinaryFromReader_def [abs_def]
  RemoveFriendRequest_serializeBinaryToWriter_def [abs_def]
  RemoveFriendRequest_proto_def

lemma follows_RemoveFriendRequest:
  "follows L RemoveFriendRequest_proto (RemoveFriendRequest L)"
  by (rule followsI, simp add: RemoveFriendRequest_defs new_simps,
    simp add: RemoveFriendRequest_defs Let_def,
    simp add: RemoveFriendRequest_defs cong: if_cong,
    simp add: RemoveFriendRequest_defs object_simps,
    simp_all add: RemoveFriendRequest_def [abs_def]
      RemoveFriendRequest_prototype_toObject_def [abs_def]
      RemoveFriendRequest_deserializeBinary_def [abs_def]
      RemoveFriendRequest_serializeBinary_def [abs_def] Let_def)

section \<open>RemoveFriendResponse\<close>

definition RemoveFriendResponse_new ::
  "('m, 'w, 'r, 'b) jspb \<Rightarrow> 'm" where
  "RemoveFriendResponse_new L = initialize L None"

definition RemoveFriendResponse_toObject ::
  "('m, 'w, 'r, 'b) jspb \<Rightarrow> bool \<Rightarrow> 'm \<Rightarrow> 'm jsvalue" where
  "RemoveFriendResponse_toObject L includeInstance msg = JObject
     ([]
      @ (if includeInstance then [(''$jspbMessageInstance'', JMessage msg)] else []))"

definition RemoveFriendResponse_prototype_toObject ::
  "('m, 'w, 'r, 'b) jspb \<Rightarrow> 'm \<Rightarrow> bool \<Rightarrow> 'm jsvalue" where
  "RemoveFriendResponse_prototype_toObject L this opt_includeInstance =
     RemoveFriendResponse_toObject L opt_includeInstance this"

definition RemoveFriendResponse_deserializeBinaryFromReader ::
  "('m, 'w, 'r, 'b) jspb \<Rightarrow> 'm \<Rightarrow> ('r, 'm) reading" where
  "RemoveFriendResponse_deserializeBinaryFromReader L = field_loop L (\<lambda>field msg.
        read_then (skipField L) (\<lambda>_. msg))"

definition RemoveFriendResponse_deserializeBinary ::
  "('m, 'w, 'r, 'b) jspb \<Rightarrow> 'b \<Rightarrow> (js_error + 'm) option" where
  "RemoveFriendResponse_deserializeBinary L bytes =
     (let reader = BinaryReader L bytes; msg = RemoveFriendResponse_new L
      in returned (RemoveFriendResponse_deserializeBinaryFromReader L msg reader))"

definition RemoveFriendResponse_serializeBinaryToWriter ::
  "('m, 'w, 'r, 'b) jspb \<Rightarrow> 'm \<Rightarrow> 'w \<Rightarrow> 'w" where
  "RemoveFriendResponse_serializeBinaryToWriter L message writer = writer"

definition RemoveFriendResponse_serializeBinary ::
  "('m, 'w, 'r, 'b) jspb \<Rightarrow> 'm \<Rightarrow> 'b" where
  "RemoveFriendResponse_serializeBinary L this =
     (let writer = BinaryWriter L; writer = RemoveFriendResponse_serializeBinaryToWriter L this writer
      in getResultBuffer L writer)"

definition RemoveFriendResponse ::
  "('m, 'w, 'r, 'b) jspb \<Rightarrow> ('m, 'w, 'r, 'b) pbclass" where
  "RemoveFriendResponse L =
     \<lparr>pc_displayName = ''proto.asphrdaemon.RemoveFriendResponse'',
      pc_new = RemoveFriendResponse_new L,
      pc_toObject = RemoveFriendResponse_toObject L,
      pc_deserializeBinary = RemoveFriendResponse_deserializeBinary L,
      pc_deserializeBinaryFromReader = RemoveFriendResponse_deserializeBinaryFromReader L,
      pc_serializeBinaryToWriter = RemoveFriendResponse_serializeBinaryToWriter L,
      pc_prototype_toObject = RemoveFriendResponse_prototype_toObject L,
      pc_prototype_serializeBinary = RemoveFriendResponse_serializeBinary L\<rparr>"

definition RemoveFriendResponse_proto :: proto_message where
  "RemoveFriendResponse_proto = Proto ''RemoveFriendResponse''
     []"

lemmas RemoveFriendResponse_defs =
  RemoveFriendResponse_def [abs_def] RemoveFriendResponse_new_def [abs_def]
  RemoveFriendResponse_toObject_def [abs_def]
  RemoveFriendResponse_deserializeBinaryFromReader_def [abs_def]
  RemoveFriendResponse_serializeBinaryToWriter_def [abs_def]
  RemoveFriendResponse_proto_def

lemma follows_RemoveFriendResponse:
  "follows L RemoveFriendResponse_proto (RemoveFriendResponse L)"
  by (rule followsI, simp add: RemoveFriendResponse_defs new_simps,
    simp add: RemoveFriendResponse_defs Let_def,
    simp add: RemoveFriendResponse_defs cong: if_cong,
    simp add: RemoveFriendResponse_defs object_simps,
    simp_all add: RemoveFriendResponse_def [abs_def]
      RemoveFriendResponse_prototype_toObject_def [abs_def]
      RemoveFriendResponse_deserializeBinary_def [abs_def]
      RemoveFriendResponse_serializeBinary_def [abs_def] Let_def)

section \<open>SendMessageRequest\<close>

definition SendMessageRequest_repeatedFields ::
  "nat list" where
  "SendMessageRequest_repeatedFields = [1]"

definition SendMessageRequest_new ::
  "('m, 'w, 'r, 'b) jspb \<Rightarrow> 'm" where
  "SendMessageRequest_new L = initialize L (Some SendMessageRequest_repeatedFields)"

definition SendMessageRequest_getUniqueNameList ::
  "('m, 'w, 'r, 'b) jspb \<Rightarrow> 'm \<Rightarrow> string list" where
  "SendMessageRequest_getUniqueNameList L this = getRepeatedField L this 1"

definition SendMessageRequest_setUniqueNameList ::
  "('m, 'w, 'r, 'b) jspb \<Rightarrow> 'm \<Rightarrow> string list \<Rightarrow> 'm" where
  "SendMessageRequest_setUniqueNameList L this value = setField_list L this 1 value"

definition SendMessageRequest_addUniqueName ::
  "('m, 'w, 'r, 'b) jspb \<Rightarrow> 'm \<Rightarrow> string \<Rightarrow> nat option \<Rightarrow> 'm" where
  "SendMessageRequest_addUniqueName L this value opt_index = addToRepeatedField L this 1 value opt_index"

definition SendMessageRequest_clearUniqueNameList ::
  "('m, 'w, 'r, 'b) jspb \<Rightarrow> 'm \<Rightarrow> 'm" where
  "SendMessageRequest_clearUniqueNameList L this = SendMessageRequest_setUniqueNameList L this []"

definition SendMessageRequest_getMessage ::
  "('m, 'w, 'r, 'b) jspb \<Rightarrow> 'm \<Rightarrow> string" where
  "SendMessageRequest_getMessage L this = getFieldWithDefault_string L this 2 []"

definition SendMessageRequest_setMessage ::
  "('m, 'w, 'r, 'b) jspb \<Rightarrow> 'm \<Rightarrow> string \<Rightarrow> 'm" where
  "SendMessageRequest_setMessage L this value = setProto3StringField L this 2 value"

definition SendMessageRequest_toObject ::
  "('m, 'w, 'r, 'b) jspb \<Rightarrow> bool \<Rightarrow> 'm \<Rightarrow> 'm jsvalue" where
  "SendMessageRequest_toObject L includeInstance msg = JObject
     ([(''uniqueNameList'', JArray (map JString (getRepeatedField L msg 1))),
       (''message'', JString (getFieldWithDefault_string L msg 2 []))]
      @ (if includeInstance then [(''$jspbMessageInstance'', JMessage msg)] else []))"

definition SendMessageRequest_prototype_toObject ::
  "('m, 'w, 'r, 'b) jspb \<Rightarrow> 'm \<Rightarrow> bool \<Rightarrow> 'm jsvalue" where
  "SendMessageRequest_prototype_toObject L this opt_includeInstance =
     SendMessageRequest_toObject L opt_includeInstance this"

definition SendMessageRequest_deserializeBinaryFromReader ::
  "('m, 'w, 'r, 'b) jspb \<Rightarrow> 'm \<Rightarrow> ('r, 'm) reading" where
  "SendMessageRequest_deserializeBinaryFromReader L = field_loop L (\<lambda>field msg.
        if field = 1 then read_then (readString L) (\<lambda>value. SendMessageRequest_addUniqueName L msg value None)
        else if field = 2 then read_then (readString L) (\<lambda>value. SendMessageRequest_setMessage L msg value)
        else read_then (skipField L) (\<lambda>_. msg))"

definition SendMessageRequest_deserializeBinary ::
  "('m, 'w, 'r, 'b) jspb \<Rightarrow> 'b \<Rightarrow> (js_error + 'm) option" where
  "SendMessageRequest_deserializeBinary L bytes =
     (let reader = BinaryReader L bytes; msg = SendMessageRequest_new L
      in returned (SendMessageRequest_deserializeBinaryFromReader L msg reader))"

definition SendMessageRequest_serializeBinaryToWriter ::
  "('m, 'w, 'r, 'b) jspb \<Rightarrow> 'm \<Rightarrow> 'w \<Rightarrow> 'w" where
  "SendMessageRequest_serializeBinaryToWriter L message writer =
     (let f = SendMessageRequest_getUniqueNameList L message;
          writer = write_if (0 < length f) (writeRepeatedString L 1 f) writer;
          f = SendMessageRequest_getMessage L message;
          writer = write_if (0 < length f) (writeString L 2 f) writer
      in writer)"

definition SendMessageRequest_serializeBinary ::
  "('m, 'w, 'r, 'b) jspb \<Rightarrow> 'm \<Rightarrow> 'b" where
  "SendMessageRequest_serializeBinary L this =
     (let writer = BinaryWriter L; writer = SendMessageRequest_serializeBinaryToWriter L this writer
      in getResultBuffer L writer)"

definition SendMessageRequest ::
  "('m, 'w, 'r, 'b) jspb \<Rightarrow> ('m, 'w, 'r, 'b) pbclass" where
  "SendMessageRequest L =
     \<lparr>pc_displayName = ''proto.asphrdaemon.SendMessageRequest'',
      pc_new = SendMessageRequest_new L,
      pc_toObject = SendMessageRequest_toObject L,
      pc_deserializeBinary = SendMessageRequest_deserializeBinary L,
      pc_deserializeBinaryFromReader = SendMessageRequest_deserializeBinaryFromReader L,
      pc_serializeBinaryToWriter = SendMessageRequest_serializeBinaryToWriter L,
      pc_prototype_toObject = SendMessageRequest_prototype_toObject L,
      pc_prototype_serializeBinary = SendMessageRequest_serializeBinary L\<rparr>"

definition SendMessageRequest_proto :: proto_message where
  "SendMessageRequest_proto = Proto ''SendMessageRequest''
     [Field TRepeatedString ''unique_name'' 1,
      Field TString ''message'' 2]"

lemmas SendMessageRequest_defs =
  SendMessageRequest_def [abs_def] SendMessageRequest_repeatedFields_def [abs_def]
  SendMessageRequest_new_def [abs_def] SendMessageRequest_getUniqueNameList_def [abs_def]
  SendMessageRequest_setUniqueNameList_def [abs_def]
  SendMessageRequest_addUniqueName_def [abs_def]
  SendMessageRequest_clearUniqueNameList_def [abs_def] SendMessageRequest_getMessage_def [abs_def]
  SendMessageRequest_setMessage_def [abs_def] SendMessageRequest_toObject_def [abs_def]
  SendMessageRequest_deserializeBinaryFromReader_def [abs_def]
  SendMessageRequest_serializeBinaryToWriter_def [abs_def]
  SendMessageRequest_proto_def

lemma follows_SendMessageRequest:
  "follows L SendMessageRequest_proto (SendMessageRequest L)"
  by (rule followsI, simp add: SendMessageRequest_defs new_simps,
    simp add: SendMessageRequest_defs Let_def,
    simp add: SendMessageRequest_defs cong: if_cong,
    simp add: SendMessageRequest_defs object_simps,
    simp_all add: SendMessageRequest_def [abs_def]
      SendMessageRequest_prototype_toObject_def [abs_def]
      SendMessageRequest_deserializeBinary_def [abs_def]
      SendMessageRequest_serializeBinary_def [abs_def] Let_def)

section \<open>SendMessageResponse\<close>

definition SendMessageResponse_new ::
  "('m, 'w, 'r, 'b) jspb \<Rightarrow> 'm" where
  "SendMessageResponse_new L = initialize L None"

definition SendMessageResponse_toObject ::
  "('m, 'w, 'r, 'b) jspb \<Rightarrow> bool \<Rightarrow> 'm \<Rightarrow> 'm jsvalue" where
  "SendMessageResponse_toObject L includeInstance msg = JObject
     ([]
      @ (if includeInstance then [(''$jspbMessageInstance'', JMessage msg)] else []))"

definition SendMessageResponse_prototype_toObject ::
  "('m, 'w, 'r, 'b) jspb \<Rightarrow> 'm \<Rightarrow> bool \<Rightarrow> 'm jsvalue" where
  "SendMessageResponse_prototype_toObject L this opt_includeInstance =
     SendMessageResponse_toObject L opt_includeInstance this"

definition SendMessageResponse_deserializeBinaryFromReader ::
  "('m, 'w, 'r, 'b) jspb \<Rightarrow> 'm \<Rightarrow> ('r, 'm) reading" where
  "SendMessageResponse_deserializeBinaryFromReader L = field_loop L (\<lambda>field msg.
        read_then (skipField L) (\<lambda>_. msg))"

definition SendMessageResponse_deserializeBinary ::
  "('m, 'w, 'r, 'b) jspb \<Rightarrow> 'b \<Rightarrow> (js_error + 'm) option" where
  "SendMessageResponse_deserializeBinary L bytes =
     (let reader = BinaryReader L bytes; msg = SendMessageResponse_new L
      in returned (SendMessageResponse_deserializeBinaryFromReader L msg reader))"

definition SendMessageResponse_serializeBinaryToWriter ::
  "('m, 'w, 'r, 'b) jspb \<Rightarrow> 'm \<Rightarrow> 'w \<Rightarrow> 'w" where
  "SendMessageResponse_serializeBinaryToWriter L message writer = writer"

definition SendMessageResponse_serializeBinary ::
  "('m, 'w, 'r, 'b) jspb \<Rightarrow> 'm \<Rightarrow> 'b" where
  "SendMessageResponse_serializeBinary L this =
     (let writer = BinaryWriter L; writer = SendMessageResponse_serializeBinaryToWriter L this writer
      in getResultBuffer L writer)"

definition SendMessageResponse ::
  "('m, 'w, 'r, 'b) jspb \<Rightarrow> ('m, 'w, 'r, 'b) pbclass" where
  "SendMessageResponse L =
     \<lparr>pc_displayName = ''proto.asphrdaemon.SendMessageResponse'',
      pc_new = SendMessageResponse_new L,
      pc_toObject = SendMessageResponse_toObject L,
      pc_deserializeBinary = SendMessageResponse_deserializeBinary L,
      pc_deserializeBinaryFromReader = SendMessageResponse_deserializeBinaryFromReader L,
      pc_serializeBinaryToWriter = SendMessageResponse_serializeBinaryToWriter L,
      pc_prototype_toObject = SendMessageResponse_prototype_toObject L,
      pc_prototype_serializeBinary = SendMessageResponse_serializeBinary L\<rparr>"

definition SendMessageResponse_proto :: proto_message where
  "SendMessageResponse_proto = Proto ''SendMessageResponse''
     []"

lemmas SendMessageResponse_defs =
  SendMessageResponse_def [abs_def] SendMessageResponse_new_def [abs_def]
  SendMessageResponse_toObject_def [abs_def]
  SendMessageResponse_deserializeBinaryFromReader_def [abs_def]
  SendMessageResponse_serializeBinaryToWriter_def [abs_def]
  SendMessageResponse_proto_def

lemma follows_SendMessageResponse:
  "follows L SendMessageResponse_proto (SendMessageResponse L)"
  by (rule followsI, simp add: SendMessageResponse_defs new_simps,
    simp add: SendMessageResponse_defs Let_def,
    simp add: SendMessageResponse_defs cong: if_cong,
    simp add: SendMessageResponse_defs object_simps,
    simp_all add: SendMessageResponse_def [abs_def]
      SendMessageResponse_prototype_toObject_def [abs_def]
      SendMessageResponse_deserializeBinary_def [abs_def]
      SendMessageResponse_serializeBinary_def [abs_def] Let_def)

section \<open>IncomingMaybeFriend\<close>

definition IncomingMaybeFriend_new ::
  "('m, 'w, 'r, 'b) jspb \<Rightarrow> 'm" where
  "IncomingMaybeFriend_new L = initialize L None"

definition IncomingMaybeFriend_getPublicId ::
  "('m, 'w, 'r, 'b) jspb \<Rightarrow> 'm \<Rightarrow> string" where
  "IncomingMaybeFriend_getPublicId L this = getFieldWithDefault_string L this 1 []"

definition IncomingMaybeFriend_setPublicId ::
  "('m, 'w, 'r, 'b) jspb \<Rightarrow> 'm \<Rightarrow> string \<Rightarrow> 'm" where
  "IncomingMaybeFriend_setPublicId L this value = setProto3StringField L this 1 value"

definition IncomingMaybeFriend_getUniqueName ::
  "('m, 'w, 'r, 'b) jspb \<Rightarrow> 'm \<Rightarrow> string" where
  "IncomingMaybeFriend_getUniqueName L this = getFieldWithDefault_string L this 2 []"

definition IncomingMaybeFriend_setUniqueName ::
  "('m, 'w, 'r, 'b) jspb \<Rightarrow> 'm \<Rightarrow> string \<Rightarrow> 'm" where
  "IncomingMaybeFriend_setUniqueName L this value = setField_string L this 2 (Some value)"

definition IncomingMaybeFriend_clearUniqueName ::
  "('m, 'w, 'r, 'b) jspb \<Rightarrow> 'm \<Rightarrow> 'm" where
  "IncomingMaybeFriend_clearUniqueName L this = setField_string L this 2 None"

definition IncomingMaybeFriend_hasUniqueName ::
  "('m, 'w, 'r, 'b) jspb \<Rightarrow> 'm \<Rightarrow> bool" where
  "IncomingMaybeFriend_hasUniqueName L this = getField_set L this 2"

definition IncomingMaybeFriend_getDisplayName ::
  "('m, 'w, 'r, 'b) jspb \<Rightarrow> 'm \<Rightarrow> string" where
  "IncomingMaybeFriend_getDisplayName L this = getFieldWithDefault_string L this 3 []"

definition IncomingMaybeFriend_setDisplayName ::
  "('m, 'w, 'r, 'b) jspb \<Rightarrow> 'm \<Rightarrow> string \<Rightarrow> 'm" where
  "IncomingMaybeFriend_setDisplayName L this value = setField_string L this 3 (Some value)"

definition IncomingMaybeFriend_clearDisplayName ::
  "('m, 'w, 'r, 'b) jspb \<Rightarrow> 'm \<Rightarrow> 'm" where
  "IncomingMaybeFriend_clearDisplayName L this = setField_string L this 3 None"

definition IncomingMaybeFriend_hasDisplayName ::
  "('m, 'w, 'r, 'b) jspb \<Rightarrow> 'm \<Rightarrow> bool" where
  "IncomingMaybeFriend_hasDisplayName L this = getField_set L this 3"

definition IncomingMaybeFriend_toObject ::
  "('m, 'w, 'r, 'b) jspb \<Rightarrow> bool \<Rightarrow> 'm \<Rightarrow> 'm jsvalue" where
  "IncomingMaybeFriend_toObject L includeInstance msg = JObject
     ([(''publicId'', JString (getFieldWithDefault_string L msg 1 [])),
       (''uniqueName'', JString (getFieldWithDefault_string L msg 2 [])),
       (''displayName'', JString (getFieldWithDefault_string L msg 3 []))]
      @ (if includeInstance then [(''$jspbMessageInstance'', JMessage msg)] else []))"

definition IncomingMaybeFriend_prototype_toObject ::
  "('m, 'w, 'r, 'b) jspb \<Rightarrow> 'm \<Rightarrow> bool \<Rightarrow> 'm jsvalue" where
  "IncomingMaybeFriend_prototype_toObject L this opt_includeInstance =
     IncomingMaybeFriend_toObject L opt_includeInstance this"

definition IncomingMaybeFriend_deserializeBinaryFromReader ::
  "('m, 'w, 'r, 'b) jspb \<Rightarrow> 'm \<Rightarrow> ('r, 'm) reading" where
  "IncomingMaybeFriend_deserializeBinaryFromReader L = field_loop L (\<lambda>field msg.
        if field = 1 then read_then (readString L) (\<lambda>value. IncomingMaybeFriend_setPublicId L msg value)
        else if field = 2 then read_then (readString L) (\<lambda>value. IncomingMaybeFriend_setUniqueName L msg value)
        else if field = 3 then read_then (readString L) (\<lambda>value. IncomingMaybeFriend_setDisplayName L msg value)
        else read_then (skipField L) (\<lambda>_. msg))"

definition IncomingMaybeFriend_deserializeBinary ::
  "('m, 'w, 'r, 'b) jspb \<Rightarrow> 'b \<Rightarrow> (js_error + 'm) option" where
  "IncomingMaybeFriend_deserializeBinary L bytes =
     (let reader = BinaryReader L bytes; msg = IncomingMaybeFriend_new L
      in returned (IncomingMaybeFriend_deserializeBinaryFromReader L msg reader))"

definition IncomingMaybeFriend_serializeBinaryToWriter ::
  "('m, 'w, 'r, 'b) jspb \<Rightarrow> 'm \<Rightarrow> 'w \<Rightarrow> 'w" where
  "IncomingMaybeFriend_serializeBinaryToWriter L message writer =
     (let f = IncomingMaybeFriend_getPublicId L message;
          writer = write_if (0 < length f) (writeString L 1 f) writer;
          f = getField_string L message 2;
          writer = write_present f (\<lambda>f. writeString L 2 f) writer;
          f = getField_string L message 3;
          writer = write_present f (\<lambda>f. writeString L 3 f) writer
      in writer)"

definition IncomingMaybeFriend_serializeBinary ::
  "('m, 'w, 'r, 'b) jspb \<Rightarrow> 'm \<Rightarrow> 'b" where
  "IncomingMaybeFriend_serializeBinary L this =
     (let writer = BinaryWriter L; writer = IncomingMaybeFriend_serializeBinaryToWriter L this writer
      in getResultBuffer L writer)"

definition IncomingMaybeFriend ::
  "('m, 'w, 'r, 'b) jspb \<Rightarrow> ('m, 'w, 'r, 'b) pbclass" where
  "IncomingMaybeFriend L =
     \<lparr>pc_displayName = ''proto.asphrdaemon.IncomingMaybeFriend'',
      pc_new = IncomingMaybeFriend_new L,
      pc_toObject = IncomingMaybeFriend_toObject L,
      pc_deserializeBinary = IncomingMaybeFriend_deserializeBinary L,
      pc_deserializeBinaryFromReader = IncomingMaybeFriend_deserializeBinaryFromReader L,
      pc_serializeBinaryToWriter = IncomingMaybeFriend_serializeBinaryToWriter L,
      pc_prototype_toObject = IncomingMaybeFriend_prototype_toObject L,
      pc_prototype_serializeBinary = IncomingMaybeFriend_serializeBinary L\<rparr>"

definition IncomingMaybeFriend_proto :: proto_message where
  "IncomingMaybeFriend_proto = Proto ''IncomingMaybeFriend''
     [Field TString ''public_id'' 1,
      Field TOptionalString ''unique_name'' 2,
      Field TOptionalString ''display_name'' 3]"

lemmas IncomingMaybeFriend_defs =
  IncomingMaybeFriend_def [abs_def] IncomingMaybeFriend_new_def [abs_def]
  IncomingMaybeFriend_getPublicId_def [abs_def] IncomingMaybeFriend_setPublicId_def [abs_def]
  IncomingMaybeFriend_getUniqueName_def [abs_def] IncomingMaybeFriend_setUniqueName_def [abs_def]
  IncomingMaybeFriend_clearUniqueName_def [abs_def]
  IncomingMaybeFriend_hasUniqueName_def [abs_def] IncomingMaybeFriend_getDisplayName_def [abs_def]
  IncomingMaybeFriend_setDisplayName_def [abs_def]
  IncomingMaybeFriend_clearDisplayName_def [abs_def]
  IncomingMaybeFriend_hasDisplayName_def [abs_def] IncomingMaybeFriend_toObject_def [abs_def]
  IncomingMaybeFriend_deserializeBinaryFromReader_def [abs_def]
  IncomingMaybeFriend_serializeBinaryToWriter_def [abs_def]
  IncomingMaybeFriend_proto_def

lemma follows_IncomingMaybeFriend:
  "follows L IncomingMaybeFriend_proto (IncomingMaybeFriend L)"
  by (rule followsI, simp add: IncomingMaybeFriend_defs new_simps,
    simp add: IncomingMaybeFriend_defs Let_def,
    simp add: IncomingMaybeFriend_defs cong: if_cong,
    simp add: IncomingMaybeFriend_defs object_simps,
    simp_all add: IncomingMaybeFriend_def [abs_def]
      IncomingMaybeFriend_prototype_toObject_def [abs_def]
      IncomingMaybeFriend_deserializeBinary_def [abs_def]
      IncomingMaybeFriend_serializeBinary_def [abs_def] Let_def)

section \<open>IncomingMessage\<close>

definition IncomingMessage_repeatedFields ::
  "nat list" where
  "IncomingMessage_repeatedFields = [5]"

definition IncomingMessage_new ::
  "('m, 'w, 'r, 'b) jspb \<Rightarrow> 'm" where
  "IncomingMessage_new L = initialize L (Some IncomingMessage_repeatedFields)"

definition IncomingMessage_getUid ::
  "('m, 'w, 'r, 'b) jspb \<Rightarrow> 'm \<Rightarrow> int" where
  "IncomingMessage_getUid L this = getFieldWithDefault_number L this 1 0"

definition IncomingMessage_setUid ::
  "('m, 'w, 'r, 'b) jspb \<Rightarrow> 'm \<Rightarrow> int \<Rightarrow> 'm" where
  "IncomingMessage_setUid L this value = setProto3IntField L this 1 value"

definition IncomingMessage_getMessage ::
  "('m, 'w, 'r, 'b) jspb \<Rightarrow> 'm \<Rightarrow> string" where
  "IncomingMessage_getMessage L this = getFieldWithDefault_string L this 2 []"

definition IncomingMessage_setMessage ::
  "('m, 'w, 'r, 'b) jspb \<Rightarrow> 'm \<Rightarrow> string \<Rightarrow> 'm" where
  "IncomingMessage_setMessage L this value = setProto3StringField L this 2 value"

definition IncomingMessage_getFromUniqueName ::
  "('m, 'w, 'r, 'b) jspb \<Rightarrow> 'm \<Rightarrow> string" where
  "IncomingMessage_getFromUniqueName L this = getFieldWithDefault_string L this 3 []"

definition IncomingMessage_setFromUniqueName ::
  "('m, 'w, 'r, 'b) jspb \<Rightarrow> 'm \<Rightarrow> string \<Rightarrow> 'm" where
  "IncomingMessage_setFromUniqueName L this value = setProto3StringField L this 3 value"

definition IncomingMessage_getFromDisplayName ::
  "('m, 'w, 'r, 'b) jspb \<Rightarrow> 'm \<Rightarrow> string" where
  "IncomingMessage_getFromDisplayName L this = getFieldWithDefault_string L this 4 []"

definition IncomingMessage_setFromDisplayName ::
  "('m, 'w, 'r, 'b) jspb \<Rightarrow> 'm \<Rightarrow> string \<Rightarrow> 'm" where
  "IncomingMessage_setFromDisplayName L this value = setProto3StringField L this 4 value"

definition IncomingMessage_getOtherRecipientsList ::
  "('m, 'w, 'r, 'b) jspb \<Rightarrow> 'm \<Rightarrow> 'm list" where
  "IncomingMessage_getOtherRecipientsList L this = getRepeatedWrapperField L this 5"

definition IncomingMessage_setOtherRecipientsList ::
  "('m, 'w, 'r, 'b) jspb \<Rightarrow> 'm \<Rightarrow> 'm list \<Rightarrow> 'm" where
  "IncomingMessage_setOtherRecipientsList L this value = setRepeatedWrapperField L this 5 value"

definition IncomingMessage_addOtherRecipients ::
  "('m, 'w, 'r, 'b) jspb \<Rightarrow> 'm \<Rightarrow> 'm option \<Rightarrow> nat option \<Rightarrow> 'm \<times> 'm" where
  "IncomingMessage_addOtherRecipients L this opt_value opt_index =
     addToRepeatedWrapperField L this 5 opt_value (IncomingMaybeFriend_new L) opt_index"

definition IncomingMessage_clearOtherRecipientsList ::
  "('m, 'w, 'r, 'b) jspb \<Rightarrow> 'm \<Rightarrow> 'm" where
  "IncomingMessage_clearOtherRecipientsList L this = IncomingMessage_setOtherRecipientsList L this []"

definition IncomingMessage_getDeliveredAt ::
  "('m, 'w, 'r, 'b) jspb \<Rightarrow> 'm \<Rightarrow> 'm option" where
  "IncomingMessage_getDeliveredAt L this = getWrapperField L this 6"

definition IncomingMessage_setDeliveredAt ::
  "('m, 'w, 'r, 'b) jspb \<Rightarrow> 'm \<Rightarrow> 'm option \<Rightarrow> 'm" where
  "IncomingMessage_setDeliveredAt L this value = setWrapperField L this 6 value"

definition IncomingMessage_clearDeliveredAt ::
  "('m, 'w, 'r, 'b) jspb \<Rightarrow> 'm \<Rightarrow> 'm" where
  "IncomingMessage_clearDeliveredAt L this = IncomingMessage_setDeliveredAt L this None"

definition IncomingMessage_hasDeliveredAt ::
  "('m, 'w, 'r, 'b) jspb \<Rightarrow> 'm \<Rightarrow> bool" where
  "IncomingMessage_hasDeliveredAt L this = getField_set L this 6"

definition IncomingMessage_getSeen ::
  "('m, 'w, 'r, 'b) jspb \<Rightarrow> 'm \<Rightarrow> bool" where
  "IncomingMessage_getSeen L this = getBooleanFieldWithDefault L this 7 False"

definition IncomingMessage_setSeen ::
  "('m, 'w, 'r, 'b) jspb \<Rightarrow> 'm \<Rightarrow> bool \<Rightarrow> 'm" where
  "IncomingMessage_setSeen L this value = setProto3BooleanField L this 7 value"

definition IncomingMessage_getDelivered ::
  "('m, 'w, 'r, 'b) jspb \<Rightarrow> 'm \<Rightarrow> bool" where
  "IncomingMessage_getDelivered L this = getBooleanFieldWithDefault L this 8 False"

definition IncomingMessage_setDelivered ::
  "('m, 'w, 'r, 'b) jspb \<Rightarrow> 'm \<Rightarrow> bool \<Rightarrow> 'm" where
  "IncomingMessage_setDelivered L this value = setProto3BooleanField L this 8 value"

definition IncomingMessage_toObject ::
  "('m, 'w, 'r, 'b) jspb \<Rightarrow> bool \<Rightarrow> 'm \<Rightarrow> 'm jsvalue" where
  "IncomingMessage_toObject L includeInstance msg = JObject
     ([(''uid'', JNumber (getFieldWithDefault_number L msg 1 0)),
       (''message'', JString (getFieldWithDefault_string L msg 2 [])),
       (''fromUniqueName'', JString (getFieldWithDefault_string L msg 3 [])),
       (''fromDisplayName'', JString (getFieldWithDefault_string L msg 4 [])),
       (''otherRecipientsList'', toObjectList L (IncomingMessage_getOtherRecipientsList L msg) (IncomingMaybeFriend_toObject L) includeInstance),
       (''deliveredAt'', case IncomingMessage_getDeliveredAt L msg of None \<Rightarrow> JUndefined
         | Some f \<Rightarrow> pc_toObject (Timestamp L) includeInstance f),
       (''seen'', JBoolean (getBooleanFieldWithDefault L msg 7 False)),
       (''delivered'', JBoolean (getBooleanFieldWithDefault L msg 8 False))]
      @ (if includeInstance then [(''$jspbMessageInstance'', JMessage msg)] else []))"

definition IncomingMessage_prototype_toObject ::
  "('m, 'w, 'r, 'b) jspb \<Rightarrow> 'm \<Rightarrow> bool \<Rightarrow> 'm jsvalue" where
  "IncomingMessage_prototype_toObject L this opt_includeInstance =
     IncomingMessage_toObject L opt_includeInstance this"

definition IncomingMessage_deserializeBinaryFromReader ::
  "('m, 'w, 'r, 'b) jspb \<Rightarrow> 'm \<Rightarrow> ('r, 'm) reading" where
  "IncomingMessage_deserializeBinaryFromReader L = field_loop L (\<lambda>field msg.
        if field = 1 then read_then (readInt32 L) (\<lambda>value. IncomingMessage_setUid L msg value)
        else if field = 2 then read_then (readString L) (\<lambda>value. IncomingMessage_setMessage L msg value)
        else if field = 3 then read_then (readString L) (\<lambda>value. IncomingMessage_setFromUniqueName L msg value)
        else if field = 4 then read_then (readString L) (\<lambda>value. IncomingMessage_setFromDisplayName L msg value)
        else if field = 5 then read_then 
           (readMessage L (IncomingMaybeFriend_new L) (IncomingMaybeFriend_deserializeBinaryFromReader L)) (\<lambda>value. snd (IncomingMessage_addOtherRecipients L msg (Some value) None))
        else if field = 6 then read_then 
           (readMessage L (pc_new (Timestamp L)) (pc_deserializeBinaryFromReader (Timestamp L))) (\<lambda>value. IncomingMessage_setDeliveredAt L msg (Some value))
        else if field = 7 then read_then (readBool L) (\<lambda>value. IncomingMessage_setSeen L msg value)
        else if field = 8 then read_then (readBool L) (\<lambda>value. IncomingMessage_setDelivered L msg value)
        else read_then (skipField L) (\<lambda>_. msg))"

definition IncomingMessage_deserializeBinary ::
  "('m, 'w, 'r, 'b) jspb \<Rightarrow> 'b \<Rightarrow> (js_error + 'm) option" where
  "IncomingMessage_deserializeBinary L bytes =
     (let reader = BinaryReader L bytes; msg = IncomingMessage_new L
      in returned (IncomingMessage_deserializeBinaryFromReader L msg reader))"

definition IncomingMessage_serializeBinaryToWriter ::
  "('m, 'w, 'r, 'b) jspb \<Rightarrow> 'm \<Rightarrow> 'w \<Rightarrow> 'w" where
  "IncomingMessage_serializeBinaryToWriter L message writer =
     (let f = IncomingMessage_getUid L message;
          writer = write_if (f \<noteq> 0) (writeInt32 L 1 f) writer;
          f = IncomingMessage_getMessage L message;
          writer = write_if (0 < length f) (writeString L 2 f) writer;
          f = IncomingMessage_getFromUniqueName L message;
          writer = write_if (0 < length f) (writeString L 3 f) writer;
          f = IncomingMessage_getFromDisplayName L message;
          writer = write_if (0 < length f) (writeString L 4 f) writer;
          f = IncomingMessage_getOtherRecipientsList L message;
          writer = write_if (0 < length f) (writeRepeatedMessage L 5 f (IncomingMaybeFriend_serializeBinaryToWriter L)) writer;
          f = IncomingMessage_getDeliveredAt L message;
          writer = write_present f (\<lambda>f. writeMessage L 6 f (pc_serializeBinaryToWriter (Timestamp L))) writer;
          f = IncomingMessage_getSeen L message;
          writer = write_if f (writeBool L 7 f) writer;
          f = IncomingMessage_getDelivered L message;
          writer = write_if f (writeBool L 8 f) writer
      in writer)"

definition IncomingMessage_serializeBinary ::
  "('m, 'w, 'r, 'b) jspb \<Rightarrow> 'm \<Rightarrow> 'b" where
  "IncomingMessage_serializeBinary L this =
     (let writer = BinaryWriter L; writer = IncomingMessage_serializeBinaryToWriter L this writer
      in getResultBuffer L writer)"

definition IncomingMessage ::
  "('m, 'w, 'r, 'b) jspb \<Rightarrow> ('m, 'w, 'r, 'b) pbclass" where
  "IncomingMessage L =
     \<lparr>pc_displayName = ''proto.asphrdaemon.IncomingMessage'',
      pc_new = IncomingMessage_new L,
      pc_toObject = IncomingMessage_toObject L,
      pc_deserializeBinary = IncomingMessage_deserializeBinary L,
      pc_deserializeBinaryFromReader = IncomingMessage_deserializeBinaryFromReader L,
      pc_serializeBinaryToWriter = IncomingMessage_serializeBinaryToWriter L,
      pc_prototype_toObject = IncomingMessage_prototype_toObject L,
      pc_prototype_serializeBinary = IncomingMessage_serializeBinary L\<rparr>"

definition IncomingMessage_proto :: proto_message where
  "IncomingMessage_proto = Proto ''IncomingMessage''
     [Field TInt32 ''uid'' 1,
      Field TString ''message'' 2,
      Field TString ''from_unique_name'' 3,
      Field TString ''from_display_name'' 4,
      Field (TRepeatedMessage IncomingMaybeFriend_proto) ''other_recipients'' 5,
      Field TTimestamp ''delivered_at'' 6,
      Field TBool ''seen'' 7,
      Field TBool ''delivered'' 8]"

lemmas IncomingMessage_defs =
  IncomingMessage_def [abs_def] IncomingMessage_repeatedFields_def [abs_def]
  IncomingMessage_new_def [abs_def] IncomingMessage_getUid_def [abs_def]
  IncomingMessage_setUid_def [abs_def] IncomingMessage_getMessage_def [abs_def]
  IncomingMessage_setMessage_def [abs_def] IncomingMessage_getFromUniqueName_def [abs_def]
  IncomingMessage_setFromUniqueName_def [abs_def] IncomingMessage_getFromDisplayName_def [abs_def]
  IncomingMessage_setFromDisplayName_def [abs_def]
  IncomingMessage_getOtherRecipientsList_def [abs_def]
  IncomingMessage_setOtherRecipientsList_def [abs_def]
  IncomingMessage_addOtherRecipients_def [abs_def]
  IncomingMessage_clearOtherRecipientsList_def [abs_def]
  IncomingMessage_getDeliveredAt_def [abs_def] IncomingMessage_setDeliveredAt_def [abs_def]
  IncomingMessage_clearDeliveredAt_def [abs_def] IncomingMessage_hasDeliveredAt_def [abs_def]
  IncomingMessage_getSeen_def [abs_def] IncomingMessage_setSeen_def [abs_def]
  IncomingMessage_getDelivered_def [abs_def] IncomingMessage_setDelivered_def [abs_def]
  IncomingMessage_toObject_def [abs_def] IncomingMessage_deserializeBinaryFromReader_def [abs_def]
  IncomingMessage_serializeBinaryToWriter_def [abs_def]
  IncomingMessage_proto_def

lemma follows_IncomingMessage:
  "follows L IncomingMessage_proto (IncomingMessage L)"
  by (rule followsI, simp add: IncomingMessage_defs new_simps,
    simp add: IncomingMessage_defs followsD [OF follows_IncomingMaybeFriend, unfolded IncomingMaybeFriend_def, simplified] Let_def,
    simp add: IncomingMessage_defs followsD [OF follows_IncomingMaybeFriend, unfolded IncomingMaybeFriend_def, simplified] cong: if_cong,
    simp add: IncomingMessage_defs followsD [OF follows_IncomingMaybeFriend, unfolded IncomingMaybeFriend_def, simplified] object_simps,
    simp_all add: IncomingMessage_def [abs_def]
      IncomingMessage_prototype_toObject_def [abs_def] IncomingMessage_deserializeBinary_def [abs_def]
      IncomingMessage_serializeBinary_def [abs_def] Let_def)

section \<open>OutgoingFriend\<close>

definition OutgoingFriend_new ::
  "('m, 'w, 'r, 'b) jspb \<Rightarrow> 'm" where
  "OutgoingFriend_new L = initialize L None"

definition OutgoingFriend_getUniqueName ::
  "('m, 'w, 'r, 'b) jspb \<Rightarrow> 'm \<Rightarrow> string" where
  "OutgoingFriend_getUniqueName L this = getFieldWithDefault_string L this 1 []"

definition OutgoingFriend_setUniqueName ::
  "('m, 'w, 'r, 'b) jspb \<Rightarrow> 'm \<Rightarrow> string \<Rightarrow> 'm" where
  "OutgoingFriend_setUniqueName L this value = setProto3StringField L this 1 value"

definition OutgoingFriend_getDisplayName ::
  "('m, 'w, 'r, 'b) jspb \<Rightarrow> 'm \<Rightarrow> string" where
  "OutgoingFriend_getDisplayName L this = getFieldWithDefault_string L this 2 []"

definition OutgoingFriend_setDisplayName ::
  "('m, 'w, 'r, 'b) jspb \<Rightarrow> 'm \<Rightarrow> string \<Rightarrow> 'm" where
  "OutgoingFriend_setDisplayName L this value = setProto3StringField L this 2 value"

definition OutgoingFriend_getDelivered ::
  "('m, 'w, 'r, 'b) jspb \<Rightarrow> 'm \<Rightarrow> bool" where
  "OutgoingFriend_getDelivered L this = getBooleanFieldWithDefault L this 3 False"

definition OutgoingFriend_setDelivered ::
  "('m, 'w, 'r, 'b) jspb \<Rightarrow> 'm \<Rightarrow> bool \<Rightarrow> 'm" where
  "OutgoingFriend_setDelivered L this value = setProto3BooleanField L this 3 value"

definition OutgoingFriend_getDeliveredAt ::
  "('m, 'w, 'r, 'b) jspb \<Rightarrow> 'm \<Rightarrow> 'm option" where
  "OutgoingFriend_getDeliveredAt L this = getWrapperField L this 4"

definition OutgoingFriend_setDeliveredAt ::
  "('m, 'w, 'r, 'b) jspb \<Rightarrow> 'm \<Rightarrow> 'm option \<Rightarrow> 'm" where
  "OutgoingFriend_setDeliveredAt L this value = setWrapperField L this 4 value"

definition OutgoingFriend_clearDeliveredAt ::
  "('m, 'w, 'r, 'b) jspb \<Rightarrow> 'm \<Rightarrow> 'm" where
  "OutgoingFriend_clearDeliveredAt L this = OutgoingFriend_setDeliveredAt L this None"

definition OutgoingFriend_hasDeliveredAt ::
  "('m, 'w, 'r, 'b) jspb \<Rightarrow> 'm \<Rightarrow> bool" where
  "OutgoingFriend_hasDeliveredAt L this = getField_set L this 4"

definition OutgoingFriend_toObject ::
  "('m, 'w, 'r, 'b) jspb \<Rightarrow> bool \<Rightarrow> 'm \<Rightarrow> 'm jsvalue" where
  "OutgoingFriend_toObject L includeInstance msg = JObject
     ([(''uniqueName'', JString (getFieldWithDefault_string L msg 1 [])),
       (''displayName'', JString (getFieldWithDefault_string L msg 2 [])),
       (''delivered'', JBoolean (getBooleanFieldWithDefault L msg 3 False)),
       (''deliveredAt'', case OutgoingFriend_getDeliveredAt L msg of None \<Rightarrow> JUndefined
         | Some f \<Rightarrow> pc_toObject (Timestamp L) includeInstance f)]
      @ (if includeInstance then [(''$jspbMessageInstance'', JMessage msg)] else []))"

definition OutgoingFriend_prototype_toObject ::
  "('m, 'w, 'r, 'b) jspb \<Rightarrow> 'm \<Rightarrow> bool \<Rightarrow> 'm jsvalue" where
  "OutgoingFriend_prototype_toObject L this opt_includeInstance =
     OutgoingFriend_toObject L opt_includeInstance this"

definition OutgoingFriend_deserializeBinaryFromReader ::
  "('m, 'w, 'r, 'b) jspb \<Rightarrow> 'm \<Rightarrow> ('r, 'm) reading" where
  "OutgoingFriend_deserializeBinaryFromReader L = field_loop L (\<lambda>field msg.
        if field = 1 then read_then (readString L) (\<lambda>value. OutgoingFriend_setUniqueName L msg value)
        else if field = 2 then read_then (readString L) (\<lambda>value. OutgoingFriend_setDisplayName L msg value)
        else if field = 3 then read_then (readBool L) (\<lambda>value. OutgoingFriend_setDelivered L msg value)
        else if field = 4 then read_then 
           (readMessage L (pc_new (Timestamp L)) (pc_deserializeBinaryFromReader (Timestamp L))) (\<lambda>value. OutgoingFriend_setDeliveredAt L msg (Some value))
        else read_then (skipField L) (\<lambda>_. msg))"

definition OutgoingFriend_deserializeBinary ::
  "('m, 'w, 'r, 'b) jspb \<Rightarrow> 'b \<Rightarrow> (js_error + 'm) option" where
  "OutgoingFriend_deserializeBinary L bytes =
     (let reader = BinaryReader L bytes; msg = OutgoingFriend_new L
      in returned (OutgoingFriend_deserializeBinaryFromReader L msg reader))"

definition OutgoingFriend_serializeBinaryToWriter ::
  "('m, 'w, 'r, 'b) jspb \<Rightarrow> 'm \<Rightarrow> 'w \<Rightarrow> 'w" where
  "OutgoingFriend_serializeBinaryToWriter L message writer =
     (let f = OutgoingFriend_getUniqueName L message;
          writer = write_if (0 < length f) (writeString L 1 f) writer;
          f = OutgoingFriend_getDisplayName L message;
          writer = write_if (0 < length f) (writeString L 2 f) writer;
          f = OutgoingFriend_getDelivered L message;
          writer = write_if f (writeBool L 3 f) writer;
          f = OutgoingFriend_getDeliveredAt L message;
          writer = write_present f (\<lambda>f. writeMessage L 4 f (pc_serializeBinaryToWriter (Timestamp L))) writer
      in writer)"

definition OutgoingFriend_serializeBinary ::
  "('m, 'w, 'r, 'b) jspb \<Rightarrow> 'm \<Rightarrow> 'b" where
  "OutgoingFriend_serializeBinary L this =
     (let writer = BinaryWriter L; writer = OutgoingFriend_serializeBinaryToWriter L this writer
      in getResultBuffer L writer)"

definition OutgoingFriend ::
  "('m, 'w, 'r, 'b) jspb \<Rightarrow> ('m, 'w, 'r, 'b) pbclass" where
  "OutgoingFriend L =
     \<lparr>pc_displayName = ''proto.asphrdaemon.OutgoingFriend'',
      pc_new = OutgoingFriend_new L,
      pc_toObject = OutgoingFriend_toObject L,
      pc_deserializeBinary = OutgoingFriend_deserializeBinary L,
      pc_deserializeBinaryFromReader = OutgoingFriend_deserializeBinaryFromReader L,
      pc_serializeBinaryToWriter = OutgoingFriend_serializeBinaryToWriter L,
      pc_prototype_toObject = OutgoingFriend_prototype_toObject L,
      pc_prototype_serializeBinary = OutgoingFriend_serializeBinary L\<rparr>"

definition OutgoingFriend_proto :: proto_message where
  "OutgoingFriend_proto = Proto ''OutgoingFriend''
     [Field TString ''unique_name'' 1,
      Field TString ''display_name'' 2,
      Field TBool ''delivered'' 3,
      Field TTimestamp ''delivered_at'' 4]"

lemmas OutgoingFriend_defs =
  OutgoingFriend_def [abs_def] OutgoingFriend_new_def [abs_def]
  OutgoingFriend_getUniqueName_def [abs_def] OutgoingFriend_setUniqueName_def [abs_def]
  OutgoingFriend_getDisplayName_def [abs_def] OutgoingFriend_setDisplayName_def [abs_def]
  OutgoingFriend_getDelivered_def [abs_def] OutgoingFriend_setDelivered_def [abs_def]
  OutgoingFriend_getDeliveredAt_def [abs_def] OutgoingFriend_setDeliveredAt_def [abs_def]
  OutgoingFriend_clearDeliveredAt_def [abs_def] OutgoingFriend_hasDeliveredAt_def [abs_def]
  OutgoingFriend_toObject_def [abs_def] OutgoingFriend_deserializeBinaryFromReader_def [abs_def]
  OutgoingFriend_serializeBinaryToWriter_def [abs_def]
  OutgoingFriend_proto_def

lemma follows_OutgoingFriend:
  "follows L OutgoingFriend_proto (OutgoingFriend L)"
  by (rule followsI, simp add: OutgoingFriend_defs new_simps,
    simp add: OutgoingFriend_defs Let_def,
    simp add: OutgoingFriend_defs cong: if_cong,
    simp add: OutgoingFriend_defs object_simps,
    simp_all add: OutgoingFriend_def [abs_def]
      OutgoingFriend_prototype_toObject_def [abs_def] OutgoingFriend_deserializeBinary_def [abs_def]
      OutgoingFriend_serializeBinary_def [abs_def] Let_def)

section \<open>OutgoingMessage\<close>

definition OutgoingMessage_repeatedFields ::
  "nat list" where
  "OutgoingMessage_repeatedFields = [3]"

definition OutgoingMessage_new ::
  "('m, 'w, 'r, 'b) jspb \<Rightarrow> 'm" where
  "OutgoingMessage_new L = initialize L (Some OutgoingMessage_repeatedFields)"

definition OutgoingMessage_getUid ::
  "('m, 'w, 'r, 'b) jspb \<Rightarrow> 'm \<Rightarrow> int" where
  "OutgoingMessage_getUid L this = getFieldWithDefault_number L this 1 0"

definition OutgoingMessage_setUid ::
  "('m, 'w, 'r, 'b) jspb \<Rightarrow> 'm \<Rightarrow> int \<Rightarrow> 'm" where
  "OutgoingMessage_setUid L this value = setProto3IntField L this 1 value"

definition OutgoingMessage_getMessage ::
  "('m, 'w, 'r, 'b) jspb \<Rightarrow> 'm \<Rightarrow> string" where
  "OutgoingMessage_getMessage L this = getFieldWithDefault_string L this 2 []"

definition OutgoingMessage_setMessage ::
  "('m, 'w, 'r, 'b) jspb \<Rightarrow> 'm \<Rightarrow> string \<Rightarrow> 'm" where
  "OutgoingMessage_setMessage L this value = setProto3StringField L this 2 value"

definition OutgoingMessage_getToFriendsList ::
  "('m, 'w, 'r, 'b) jspb \<Rightarrow> 'm \<Rightarrow> 'm list" where
  "OutgoingMessage_getToFriendsList L this = getRepeatedWrapperField L this 3"

definition OutgoingMessage_setToFriendsList ::
  "('m, 'w, 'r, 'b) jspb \<Rightarrow> 'm \<Rightarrow> 'm list \<Rightarrow> 'm" where
  "OutgoingMessage_setToFriendsList L this value = setRepeatedWrapperField L this 3 value"

definition OutgoingMessage_addToFriends ::
  "('m, 'w, 'r, 'b) jspb \<Rightarrow> 'm \<Rightarrow> 'm option \<Rightarrow> nat option \<Rightarrow> 'm \<times> 'm" where
  "OutgoingMessage_addToFriends L this opt_value opt_index =
     addToRepeatedWrapperField L this 3 opt_value (OutgoingFriend_new L) opt_index"

definition OutgoingMessage_clearToFriendsList ::
  "('m, 'w, 'r, 'b) jspb \<Rightarrow> 'm \<Rightarrow> 'm" where
  "OutgoingMessage_clearToFriendsList L this = OutgoingMessage_setToFriendsList L this []"

definition OutgoingMessage_getSentAt ::
  "('m, 'w, 'r, 'b) jspb \<Rightarrow> 'm \<Rightarrow> 'm option" where
  "OutgoingMessage_getSentAt L this = getWrapperField L this 4"

definition OutgoingMessage_setSentAt ::
  "('m, 'w, 'r, 'b) jspb \<Rightarrow> 'm \<Rightarrow> 'm option \<Rightarrow> 'm" where
  "OutgoingMessage_setSentAt L this value = setWrapperField L this 4 value"

definition OutgoingMessage_clearSentAt ::
  "('m, 'w, 'r, 'b) jspb \<Rightarrow> 'm \<Rightarrow> 'm" where
  "OutgoingMessage_clearSentAt L this = OutgoingMessage_setSentAt L this None"

definition OutgoingMessage_hasSentAt ::
  "('m, 'w, 'r, 'b) jspb \<Rightarrow> 'm \<Rightarrow> bool" where
  "OutgoingMessage_hasSentAt L this = getField_set L this 4"

definition OutgoingMessage_toObject ::
  "('m, 'w, 'r, 'b) jspb \<Rightarrow> bool \<Rightarrow> 'm \<Rightarrow> 'm jsvalue" where
  "OutgoingMessage_toObject L includeInstance msg = JObject
     ([(''uid'', JNumber (getFieldWithDefault_number L msg 1 0)),
       (''message'', JString (getFieldWithDefault_string L msg 2 [])),
       (''toFriendsList'', toObjectList L (OutgoingMessage_getToFriendsList L msg) (OutgoingFriend_toObject L) includeInstance),
       (''sentAt'', case OutgoingMessage_getSentAt L msg of None \<Rightarrow> JUndefined
         | Some f \<Rightarrow> pc_toObject (Timestamp L) includeInstance f)]
      @ (if includeInstance then [(''$jspbMessageInstance'', JMessage msg)] else []))"

definition OutgoingMessage_prototype_toObject ::
  "('m, 'w, 'r, 'b) jspb \<Rightarrow> 'm \<Rightarrow> bool \<Rightarrow> 'm jsvalue" where
  "OutgoingMessage_prototype_toObject L this opt_includeInstance =
     OutgoingMessage_toObject L opt_includeInstance this"

definition OutgoingMessage_deserializeBinaryFromReader ::
  "('m, 'w, 'r, 'b) jspb \<Rightarrow> 'm \<Rightarrow> ('r, 'm) reading" where
  "OutgoingMessage_deserializeBinaryFromReader L = field_loop L (\<lambda>field msg.
        if field = 1 then read_then (readInt32 L) (\<lambda>value. OutgoingMessage_setUid L msg value)
        else if field = 2 then read_then (readString L) (\<lambda>value. OutgoingMessage_setMessage L msg value)
        else if field = 3 then read_then 
           (readMessage L (OutgoingFriend_new L) (OutgoingFriend_deserializeBinaryFromReader L)) (\<lambda>value. snd (OutgoingMessage_addToFriends L msg (Some value) None))
        else if field = 4 then read_then 
           (readMessage L (pc_new (Timestamp L)) (pc_deserializeBinaryFromReader (Timestamp L))) (\<lambda>value. OutgoingMessage_setSentAt L msg (Some value))
        else read_then (skipField L) (\<lambda>_. msg))"

definition OutgoingMessage_deserializeBinary ::
  "('m, 'w, 'r, 'b) jspb \<Rightarrow> 'b \<Rightarrow> (js_error + 'm) option" where
  "OutgoingMessage_deserializeBinary L bytes =
     (let reader = BinaryReader L bytes; msg = OutgoingMessage_new L
      in returned (OutgoingMessage_deserializeBinaryFromReader L msg reader))"

definition OutgoingMessage_serializeBinaryToWriter ::
  "('m, 'w, 'r, 'b) jspb \<Rightarrow> 'm \<Rightarrow> 'w \<Rightarrow> 'w" where
  "OutgoingMessage_serializeBinaryToWriter L message writer =
     (let f = OutgoingMessage_getUid L message;
          writer = write_if (f \<noteq> 0) (writeInt32 L 1 f) writer;
          f = OutgoingMessage_getMessage L message;
          writer = write_if (0 < length f) (writeString L 2 f) writer;
          f = OutgoingMessage_getToFriendsList L message;
          writer = write_if (0 < length f) (writeRepeatedMessage L 3 f (OutgoingFriend_serializeBinaryToWriter L)) writer;
          f = OutgoingMessage_getSentAt L message;
          writer = write_present f (\<lambda>f. writeMessage L 4 f (pc_serializeBinaryToWriter (Timestamp L))) writer
      in writer)"

definition OutgoingMessage_serializeBinary ::
  "('m, 'w, 'r, 'b) jspb \<Rightarrow> 'm \<Rightarrow> 'b" where
  "OutgoingMessage_serializeBinary L this =
     (let writer = BinaryWriter L; writer = OutgoingMessage_serializeBinaryToWriter L this writer
      in getResultBuffer L writer)"

definition OutgoingMessage ::
  "('m, 'w, 'r, 'b) jspb \<Rightarrow> ('m, 'w, 'r, 'b) pbclass" where
  "OutgoingMessage L =
     \<lparr>pc_displayName = ''proto.asphrdaemon.OutgoingMessage'',
      pc_new = OutgoingMessage_new L,
      pc_toObject = OutgoingMessage_toObject L,
      pc_deserializeBinary = OutgoingMessage_deserializeBinary L,
      pc_deserializeBinaryFromReader = OutgoingMessage_deserializeBinaryFromReader L,
      pc_serializeBinaryToWriter = OutgoingMessage_serializeBinaryToWriter L,
      pc_prototype_toObject = OutgoingMessage_prototype_toObject L,
      pc_prototype_serializeBinary = OutgoingMessage_serializeBinary L\<rparr>"

definition OutgoingMessage_proto :: proto_message where
  "OutgoingMessage_proto = Proto ''OutgoingMessage''
     [Field TInt32 ''uid'' 1,
      Field TString ''message'' 2,
      Field (TRepeatedMessage OutgoingFriend_proto) ''to_friends'' 3,
      Field TTimestamp ''sent_at'' 4]"

lemmas OutgoingMessage_defs =
  OutgoingMessage_def [abs_def] OutgoingMessage_repeatedFields_def [abs_def]
  OutgoingMessage_new_def [abs_def] OutgoingMessage_getUid_def [abs_def]
  OutgoingMessage_setUid_def [abs_def] OutgoingMessage_getMessage_def [abs_def]
  OutgoingMessage_setMessage_def [abs_def] OutgoingMessage_getToFriendsList_def [abs_def]
  OutgoingMessage_setToFriendsList_def [abs_def] OutgoingMessage_addToFriends_def [abs_def]
  OutgoingMessage_clearToFriendsList_def [abs_def] OutgoingMessage_getSentAt_def [abs_def]
  OutgoingMessage_setSentAt_def [abs_def] OutgoingMessage_clearSentAt_def [abs_def]
  OutgoingMessage_hasSentAt_def [abs_def] OutgoingMessage_toObject_def [abs_def]
  OutgoingMessage_deserializeBinaryFromReader_def [abs_def]
  OutgoingMessage_serializeBinaryToWriter_def [abs_def]
  OutgoingMessage_proto_def

lemma follows_OutgoingMessage:
  "follows L OutgoingMessage_proto (OutgoingMessage L)"
  by (rule followsI, simp add: OutgoingMessage_defs new_simps,
    simp add: OutgoingMessage_defs followsD [OF follows_OutgoingFriend, unfolded OutgoingFriend_def, simplified] Let_def,
    simp add: OutgoingMessage_defs followsD [OF follows_OutgoingFriend, unfolded OutgoingFriend_def, simplified] cong: if_cong,
    simp add: OutgoingMessage_defs followsD [OF follows_OutgoingFriend, unfolded OutgoingFriend_def, simplified] object_simps,
    simp_all add: OutgoingMessage_def [abs_def]
      OutgoingMessage_prototype_toObject_def [abs_def] OutgoingMessage_deserializeBinary_def [abs_def]
      OutgoingMessage_serializeBinary_def [abs_def] Let_def)

section \<open>GetMessagesRequest\<close>

definition GetMessagesRequest_new ::
  "('m, 'w, 'r, 'b) jspb \<Rightarrow> 'm" where
  "GetMessagesRequest_new L = initialize L None"

definition GetMessagesRequest_getFilter ::
  "('m, 'w, 'r, 'b) jspb \<Rightarrow> 'm \<Rightarrow> int" where
  "GetMessagesRequest_getFilter L this = getFieldWithDefault_number L this 1 0"

definition GetMessagesRequest_setFilter ::
  "('m, 'w, 'r, 'b) jspb \<Rightarrow> 'm \<Rightarrow> int \<Rightarrow> 'm" where
  "GetMessagesRequest_setFilter L this value = setProto3EnumField L this 1 value"

definition GetMessagesRequest_toObject ::
  "('m, 'w, 'r, 'b) jspb \<Rightarrow> bool \<Rightarrow> 'm \<Rightarrow> 'm jsvalue" where
  "GetMessagesRequest_toObject L includeInstance msg = JObject
     ([(''filter'', JNumber (getFieldWithDefault_number L msg 1 0))]
      @ (if includeInstance then [(''$jspbMessageInstance'', JMessage msg)] else []))"

definition GetMessagesRequest_prototype_toObject ::
  "('m, 'w, 'r, 'b) jspb \<Rightarrow> 'm \<Rightarrow> bool \<Rightarrow> 'm jsvalue" where
  "GetMessagesRequest_prototype_toObject L this opt_includeInstance =
     GetMessagesRequest_toObject L opt_includeInstance this"

definition GetMessagesRequest_deserializeBinaryFromReader ::
  "('m, 'w, 'r, 'b) jspb \<Rightarrow> 'm \<Rightarrow> ('r, 'm) reading" where
  "GetMessagesRequest_deserializeBinaryFromReader L = field_loop L (\<lambda>field msg.
        if field = 1 then read_then (readEnum L) (\<lambda>value. GetMessagesRequest_setFilter L msg value)
        else read_then (skipField L) (\<lambda>_. msg))"

definition GetMessagesRequest_deserializeBinary ::
  "('m, 'w, 'r, 'b) jspb \<Rightarrow> 'b \<Rightarrow> (js_error + 'm) option" where
  "GetMessagesRequest_deserializeBinary L bytes =
     (let reader = BinaryReader L bytes; msg = GetMessagesRequest_new L
      in returned (GetMessagesRequest_deserializeBinaryFromReader L msg reader))"

definition GetMessagesRequest_serializeBinaryToWriter ::
  "('m, 'w, 'r, 'b) jspb \<Rightarrow> 'm \<Rightarrow> 'w \<Rightarrow> 'w" where
  "GetMessagesRequest_serializeBinaryToWriter L message writer =
     (let f = GetMessagesRequest_getFilter L message;
          writer = write_if (f \<noteq> 0) (writeEnum L 1 f) writer
      in writer)"

definition GetMessagesRequest_serializeBinary ::
  "('m, 'w, 'r, 'b) jspb \<Rightarrow> 'm \<Rightarrow> 'b" where
  "GetMessagesRequest_serializeBinary L this =
     (let writer = BinaryWriter L; writer = GetMessagesRequest_serializeBinaryToWriter L this writer
      in getResultBuffer L writer)"

definition GetMessagesRequest ::
  "('m, 'w, 'r, 'b) jspb \<Rightarrow> ('m, 'w, 'r, 'b) pbclass" where
  "GetMessagesRequest L =
     \<lparr>pc_displayName = ''proto.asphrdaemon.GetMessagesRequest'',
      pc_new = GetMessagesRequest_new L,
      pc_toObject = GetMessagesRequest_toObject L,
      pc_deserializeBinary = GetMessagesRequest_deserializeBinary L,
      pc_deserializeBinaryFromReader = GetMessagesRequest_deserializeBinaryFromReader L,
      pc_serializeBinaryToWriter = GetMessagesRequest_serializeBinaryToWriter L,
      pc_prototype_toObject = GetMessagesRequest_prototype_toObject L,
      pc_prototype_serializeBinary = GetMessagesRequest_serializeBinary L\<rparr>"

definition GetMessagesRequest_Filter ::
  "(string \<times> int) list" where
  "GetMessagesRequest_Filter = [(''ALL'', 0), (''NEW'', 1)]"

definition GetMessagesRequest_proto :: proto_message where
  "GetMessagesRequest_proto = Proto ''GetMessagesRequest''
     [Field (TEnum ''Filter'') ''filter'' 1]"

lemmas GetMessagesRequest_defs =
  GetMessagesRequest_def [abs_def] GetMessagesRequest_new_def [abs_def]
  GetMessagesRequest_getFilter_def [abs_def] GetMessagesRequest_setFilter_def [abs_def]
  GetMessagesRequest_toObject_def [abs_def]
  GetMessagesRequest_deserializeBinaryFromReader_def [abs_def]
  GetMessagesRequest_serializeBinaryToWriter_def [abs_def] GetMessagesRequest_Filter_def [abs_def]
  GetMessagesRequest_proto_def

lemma follows_GetMessagesRequest:
  "follows L GetMessagesRequest_proto (GetMessagesRequest L)"
  by (rule followsI, simp add: GetMessagesRequest_defs new_simps,
    simp add: GetMessagesRequest_defs Let_def,
    simp add: GetMessagesRequest_defs cong: if_cong,
    simp add: GetMessagesRequest_defs object_simps,
    simp_all add: GetMessagesRequest_def [abs_def]
      GetMessagesRequest_prototype_toObject_def [abs_def]
      GetMessagesRequest_deserializeBinary_def [abs_def]
      GetMessagesRequest_serializeBinary_def [abs_def] Let_def)

section \<open>GetMessagesResponse\<close>

definition GetMessagesResponse_repeatedFields ::
  "nat list" where
  "GetMessagesResponse_repeatedFields = [1]"

definition GetMessagesResponse_new ::
  "('m, 'w, 'r, 'b) jspb \<Rightarrow> 'm" where
  "GetMessagesResponse_new L = initialize L (Some GetMessagesResponse_repeatedFields)"

definition GetMessagesResponse_getMessagesList ::
  "('m, 'w, 'r, 'b) jspb \<Rightarrow> 'm \<Rightarrow> 'm list" where
  "GetMessagesResponse_getMessagesList L this = getRepeatedWrapperField L this 1"

definition GetMessagesResponse_setMessagesList ::
  "('m, 'w, 'r, 'b) jspb \<Rightarrow> 'm \<Rightarrow> 'm list \<Rightarrow> 'm" where
  "GetMessagesResponse_setMessagesList L this value = setRepeatedWrapperField L this 1 value"

definition GetMessagesResponse_addMessages ::
  "('m, 'w, 'r, 'b) jspb \<Rightarrow> 'm \<Rightarrow> 'm option \<Rightarrow> nat option \<Rightarrow> 'm \<times> 'm" where
  "GetMessagesResponse_addMessages L this opt_value opt_index =
     addToRepeatedWrapperField L this 1 opt_value (IncomingMessage_new L) opt_index"

definition GetMessagesResponse_clearMessagesList ::
  "('m, 'w, 'r, 'b) jspb \<Rightarrow> 'm \<Rightarrow> 'm" where
  "GetMessagesResponse_clearMessagesList L this = GetMessagesResponse_setMessagesList L this []"

definition GetMessagesResponse_toObject ::
  "('m, 'w, 'r, 'b) jspb \<Rightarrow> bool \<Rightarrow> 'm \<Rightarrow> 'm jsvalue" where
  "GetMessagesResponse_toObject L includeInstance msg = JObject
     ([(''messagesList'', toObjectList L (GetMessagesResponse_getMessagesList L msg) (IncomingMessage_toObject L) includeInstance)]
      @ (if includeInstance then [(''$jspbMessageInstance'', JMessage msg)] else []))"

definition GetMessagesResponse_prototype_toObject ::
  "('m, 'w, 'r, 'b) jspb \<Rightarrow> 'm \<Rightarrow> bool \<Rightarrow> 'm jsvalue" where
  "GetMessagesResponse_prototype_toObject L this opt_includeInstance =
     GetMessagesResponse_toObject L opt_includeInstance this"

definition GetMessagesResponse_deserializeBinaryFromReader ::
  "('m, 'w, 'r, 'b) jspb \<Rightarrow> 'm \<Rightarrow> ('r, 'm) reading" where
  "GetMessagesResponse_deserializeBinaryFromReader L = field_loop L (\<lambda>field msg.
        if field = 1 then read_then 
           (readMessage L (IncomingMessage_new L) (IncomingMessage_deserializeBinaryFromReader L)) (\<lambda>value. snd (GetMessagesResponse_addMessages L msg (Some value) None))
        else read_then (skipField L) (\<lambda>_. msg))"

definition GetMessagesResponse_deserializeBinary ::
  "('m, 'w, 'r, 'b) jspb \<Rightarrow> 'b \<Rightarrow> (js_error + 'm) option" where
  "GetMessagesResponse_deserializeBinary L bytes =
     (let reader = BinaryReader L bytes; msg = GetMessagesResponse_new L
      in returned (GetMessagesResponse_deserializeBinaryFromReader L msg reader))"

definition GetMessagesResponse_serializeBinaryToWriter ::
  "('m, 'w, 'r, 'b) jspb \<Rightarrow> 'm \<Rightarrow> 'w \<Rightarrow> 'w" where
  "GetMessagesResponse_serializeBinaryToWriter L message writer =
     (let f = GetMessagesResponse_getMessagesList L message;
          writer = write_if (0 < length f) (writeRepeatedMessage L 1 f (IncomingMessage_serializeBinaryToWriter L)) writer
      in writer)"

definition GetMessagesResponse_serializeBinary ::
  "('m, 'w, 'r, 'b) jspb \<Rightarrow> 'm \<Rightarrow> 'b" where
  "GetMessagesResponse_serializeBinary L this =
     (let writer = BinaryWriter L; writer = GetMessagesResponse_serializeBinaryToWriter L this writer
      in getResultBuffer L writer)"

definition GetMessagesResponse ::
  "('m, 'w, 'r, 'b) jspb \<Rightarrow> ('m, 'w, 'r, 'b) pbclass" where
  "GetMessagesResponse L =
     \<lparr>pc_displayName = ''proto.asphrdaemon.GetMessagesResponse'',
      pc_new = GetMessagesResponse_new L,
      pc_toObject = GetMessagesResponse_toObject L,
      pc_deserializeBinary = GetMessagesResponse_deserializeBinary L,
      pc_deserializeBinaryFromReader = GetMessagesResponse_deserializeBinaryFromReader L,
      pc_serializeBinaryToWriter = GetMessagesResponse_serializeBinaryToWriter L,
      pc_prototype_toObject = GetMessagesResponse_prototype_toObject L,
      pc_prototype_serializeBinary = GetMessagesResponse_serializeBinary L\<rparr>"

definition GetMessagesResponse_proto :: proto_message where
  "GetMessagesResponse_proto = Proto ''GetMessagesResponse''
     [Field (TRepeatedMessage IncomingMessage_proto) ''messages'' 1]"

lemmas GetMessagesResponse_defs =
  GetMessagesResponse_def [abs_def] GetMessagesResponse_repeatedFields_def [abs_def]
  GetMessagesResponse_new_def [abs_def] GetMessagesResponse_getMessagesList_def [abs_def]
  GetMessagesResponse_setMessagesList_def [abs_def] GetMessagesResponse_addMessages_def [abs_def]
  GetMessagesResponse_clearMessagesList_def [abs_def] GetMessagesResponse_toObject_def [abs_def]
  GetMessagesResponse_deserializeBinaryFromReader_def [abs_def]
  GetMessagesResponse_serializeBinaryToWriter_def [abs_def]
  GetMessagesResponse_proto_def

lemma follows_GetMessagesResponse:
  "follows L GetMessagesResponse_proto (GetMessagesResponse L)"
  by (rule followsI, simp add: GetMessagesResponse_defs new_simps,
    simp add: GetMessagesResponse_defs followsD [OF follows_IncomingMessage, unfolded IncomingMessage_def, simplified] Let_def,
    simp add: GetMessagesResponse_defs followsD [OF follows_IncomingMessage, unfolded IncomingMessage_def, simplified] cong: if_cong,
    simp add: GetMessagesResponse_defs followsD [OF follows_IncomingMessage, unfolded IncomingMessage_def, simplified] object_simps,
    simp_all add: GetMessagesResponse_def [abs_def]
      GetMessagesResponse_prototype_toObject_def [abs_def]
      GetMessagesResponse_deserializeBinary_def [abs_def]
      GetMessagesResponse_serializeBinary_def [abs_def] Let_def)

section \<open>GetOutboxMessagesRequest\<close>

definition GetOutboxMessagesRequest_new ::
  "('m, 'w, 'r, 'b) jspb \<Rightarrow> 'm" where
  "GetOutboxMessagesRequest_new L = initialize L None"

definition GetOutboxMessagesRequest_toObject ::
  "('m, 'w, 'r, 'b) jspb \<Rightarrow> bool \<Rightarrow> 'm \<Rightarrow> 'm jsvalue" where
  "GetOutboxMessagesRequest_toObject L includeInstance msg = JObject
     ([]
      @ (if includeInstance then [(''$jspbMessageInstance'', JMessage msg)] else []))"

definition GetOutboxMessagesRequest_prototype_toObject ::
  "('m, 'w, 'r, 'b) jspb \<Rightarrow> 'm \<Rightarrow> bool \<Rightarrow> 'm jsvalue" where
  "GetOutboxMessagesRequest_prototype_toObject L this opt_includeInstance =
     GetOutboxMessagesRequest_toObject L opt_includeInstance this"

definition GetOutboxMessagesRequest_deserializeBinaryFromReader ::
  "('m, 'w, 'r, 'b) jspb \<Rightarrow> 'm \<Rightarrow> ('r, 'm) reading" where
  "GetOutboxMessagesRequest_deserializeBinaryFromReader L = field_loop L (\<lambda>field msg.
        read_then (skipField L) (\<lambda>_. msg))"

definition GetOutboxMessagesRequest_deserializeBinary ::
  "('m, 'w, 'r, 'b) jspb \<Rightarrow> 'b \<Rightarrow> (js_error + 'm) option" where
  "GetOutboxMessagesRequest_deserializeBinary L bytes =
     (let reader = BinaryReader L bytes; msg = GetOutboxMessagesRequest_new L
      in returned (GetOutboxMessagesRequest_deserializeBinaryFromReader L msg reader))"

definition GetOutboxMessagesRequest_serializeBinaryToWriter ::
  "('m, 'w, 'r, 'b) jspb \<Rightarrow> 'm \<Rightarrow> 'w \<Rightarrow> 'w" where
  "GetOutboxMessagesRequest_serializeBinaryToWriter L message writer = writer"

definition GetOutboxMessagesRequest_serializeBinary ::
  "('m, 'w, 'r, 'b) jspb \<Rightarrow> 'm \<Rightarrow> 'b" where
  "GetOutboxMessagesRequest_serializeBinary L this =
     (let writer = BinaryWriter L; writer = GetOutboxMessagesRequest_serializeBinaryToWriter L this writer
      in getResultBuffer L writer)"

definition GetOutboxMessagesRequest ::
  "('m, 'w, 'r, 'b) jspb \<Rightarrow> ('m, 'w, 'r, 'b) pbclass" where
  "GetOutboxMessagesRequest L =
     \<lparr>pc_displayName = ''proto.asphrdaemon.GetOutboxMessagesRequest'',
      pc_new = GetOutboxMessagesRequest_new L,
      pc_toObject = GetOutboxMessagesRequest_toObject L,
      pc_deserializeBinary = GetOutboxMessagesRequest_deserializeBinary L,
      pc_deserializeBinaryFromReader = GetOutboxMessagesRequest_deserializeBinaryFromReader L,
      pc_serializeBinaryToWriter = GetOutboxMessagesRequest_serializeBinaryToWriter L,
      pc_prototype_toObject = GetOutboxMessagesRequest_prototype_toObject L,
      pc_prototype_serializeBinary = GetOutboxMessagesRequest_serializeBinary L\<rparr>"

definition GetOutboxMessagesRequest_proto :: proto_message where
  "GetOutboxMessagesRequest_proto = Proto ''GetOutboxMessagesRequest''
     []"

lemmas GetOutboxMessagesRequest_defs =
  GetOutboxMessagesRequest_def [abs_def] GetOutboxMessagesRequest_new_def [abs_def]
  GetOutboxMessagesRequest_toObject_def [abs_def]
  GetOutboxMessagesRequest_deserializeBinaryFromReader_def [abs_def]
  GetOutboxMessagesRequest_serializeBinaryToWriter_def [abs_def]
  GetOutboxMessagesRequest_proto_def

lemma follows_GetOutboxMessagesRequest:
  "follows L GetOutboxMessagesRequest_proto (GetOutboxMessagesRequest L)"
  by (rule followsI, simp add: GetOutboxMessagesRequest_defs new_simps,
    simp add: GetOutboxMessagesRequest_defs Let_def,
    simp add: GetOutboxMessagesRequest_defs cong: if_cong,
    simp add: GetOutboxMessagesRequest_defs object_simps,
    simp_all add: GetOutboxMessagesRequest_def [abs_def]
      GetOutboxMessagesRequest_prototype_toObject_def [abs_def]
      GetOutboxMessagesRequest_deserializeBinary_def [abs_def]
      GetOutboxMessagesRequest_serializeBinary_def [abs_def] Let_def)

section \<open>GetOutboxMessagesResponse\<close>

definition GetOutboxMessagesResponse_repeatedFields ::
  "nat list" where
  "GetOutboxMessagesResponse_repeatedFields = [1]"

definition GetOutboxMessagesResponse_new ::
  "('m, 'w, 'r, 'b) jspb \<Rightarrow> 'm" where
  "GetOutboxMessagesResponse_new L = initialize L (Some GetOutboxMessagesResponse_repeatedFields)"

definition GetOutboxMessagesResponse_getMessagesList ::
  "('m, 'w, 'r, 'b) jspb \<Rightarrow> 'm \<Rightarrow> 'm list" where
  "GetOutboxMessagesResponse_getMessagesList L this = getRepeatedWrapperField L this 1"

definition GetOutboxMessagesResponse_setMessagesList ::
  "('m, 'w, 'r, 'b) jspb \<Rightarrow> 'm \<Rightarrow> 'm list \<Rightarrow> 'm" where
  "GetOutboxMessagesResponse_setMessagesList L this value = setRepeatedWrapperField L this 1 value"

definition GetOutboxMessagesResponse_addMessages ::
  "('m, 'w, 'r, 'b) jspb \<Rightarrow> 'm \<Rightarrow> 'm option \<Rightarrow> nat option \<Rightarrow> 'm \<times> 'm" where
  "GetOutboxMessagesResponse_addMessages L this opt_value opt_index =
     addToRepeatedWrapperField L this 1 opt_value (OutgoingMessage_new L) opt_index"

definition GetOutboxMessagesResponse_clearMessagesList ::
  "('m, 'w, 'r, 'b) jspb \<Rightarrow> 'm \<Rightarrow> 'm" where
  "GetOutboxMessagesResponse_clearMessagesList L this = GetOutboxMessagesResponse_setMessagesList L this []"

definition GetOutboxMessagesResponse_toObject ::
  "('m, 'w, 'r, 'b) jspb \<Rightarrow> bool \<Rightarrow> 'm \<Rightarrow> 'm jsvalue" where
  "GetOutboxMessagesResponse_toObject L includeInstance msg = JObject
     ([(''messagesList'', toObjectList L (GetOutboxMessagesResponse_getMessagesList L msg) (OutgoingMessage_toObject L) includeInstance)]
      @ (if includeInstance then [(''$jspbMessageInstance'', JMessage msg)] else []))"

definition GetOutboxMessagesResponse_prototype_toObject ::
  "('m, 'w, 'r, 'b) jspb \<Rightarrow> 'm \<Rightarrow> bool \<Rightarrow> 'm jsvalue" where
  "GetOutboxMessagesResponse_prototype_toObject L this opt_includeInstance =
     GetOutboxMessagesResponse_toObject L opt_includeInstance this"

definition GetOutboxMessagesResponse_deserializeBinaryFromReader ::
  "('m, 'w, 'r, 'b) jspb \<Rightarrow> 'm \<Rightarrow> ('r, 'm) reading" where
  "GetOutboxMessagesResponse_deserializeBinaryFromReader L = field_loop L (\<lambda>field msg.
        if field = 1 then read_then 
           (readMessage L (OutgoingMessage_new L) (OutgoingMessage_deserializeBinaryFromReader L)) (\<lambda>value. snd (GetOutboxMessagesResponse_addMessages L msg (Some value) None))
        else read_then (skipField L) (\<lambda>_. msg))"

definition GetOutboxMessagesResponse_deserializeBinary ::
  "('m, 'w, 'r, 'b) jspb \<Rightarrow> 'b \<Rightarrow> (js_error + 'm) option" where
  "GetOutboxMessagesResponse_deserializeBinary L bytes =
     (let reader = BinaryReader L bytes; msg = GetOutboxMessagesResponse_new L
      in returned (GetOutboxMessagesResponse_deserializeBinaryFromReader L msg reader))"

definition GetOutboxMessagesResponse_serializeBinaryToWriter ::
  "('m, 'w, 'r, 'b) jspb \<Rightarrow> 'm \<Rightarrow> 'w \<Rightarrow> 'w" where
  "GetOutboxMessagesResponse_serializeBinaryToWriter L message writer =
     (let f = GetOutboxMessagesResponse_getMessagesList L message;
          writer = write_if (0 < length f) (writeRepeatedMessage L 1 f (OutgoingMessage_serializeBinaryToWriter L)) writer
      in writer)"

definition GetOutboxMessagesResponse_serializeBinary ::
  "('m, 'w, 'r, 'b) jspb \<Rightarrow> 'm \<Rightarrow> 'b" where
  "GetOutboxMessagesResponse_serializeBinary L this =
     (let writer = BinaryWriter L; writer = GetOutboxMessagesResponse_serializeBinaryToWriter L this writer
      in getResultBuffer L writer)"

definition GetOutboxMessagesResponse ::
  "('m, 'w, 'r, 'b) jspb \<Rightarrow> ('m, 'w, 'r, 'b) pbclass" where
  "GetOutboxMessagesResponse L =
     \<lparr>pc_displayName = ''proto.asphrdaemon.GetOutboxMessagesResponse'',
      pc_new = GetOutboxMessagesResponse_new L,
      pc_toObject = GetOutboxMessagesResponse_toObject L,
      pc_deserializeBinary = GetOutboxMessagesResponse_deserializeBinary L,
      pc_deserializeBinaryFromReader = GetOutboxMessagesResponse_deserializeBinaryFromReader L,
      pc_serializeBinaryToWriter = GetOutboxMessagesResponse_serializeBinaryToWriter L,
      pc_prototype_toObject = GetOutboxMessagesResponse_prototype_toObject L,
      pc_prototype_serializeBinary = GetOutboxMessagesResponse_serializeBinary L\<rparr>"

definition GetOutboxMessagesResponse_proto :: proto_message where
  "GetOutboxMessagesResponse_proto = Proto ''GetOutboxMessagesResponse''
     [Field (TRepeatedMessage OutgoingMessage_proto) ''messages'' 1]"

lemmas GetOutboxMessagesResponse_defs =
  GetOutboxMessagesResponse_def [abs_def] GetOutboxMessagesResponse_repeatedFields_def [abs_def]
  GetOutboxMessagesResponse_new_def [abs_def]
  GetOutboxMessagesResponse_getMessagesList_def [abs_def]
  GetOutboxMessagesResponse_setMessagesList_def [abs_def]
  GetOutboxMessagesResponse_addMessages_def [abs_def]
  GetOutboxMessagesResponse_clearMessagesList_def [abs_def]
  GetOutboxMessagesResponse_toObject_def [abs_def]
  GetOutboxMessagesResponse_deserializeBinaryFromReader_def [abs_def]
  GetOutboxMessagesResponse_serializeBinaryToWriter_def [abs_def]
  GetOutboxMessagesResponse_proto_def

lemma follows_GetOutboxMessagesResponse:
  "follows L GetOutboxMessagesResponse_proto (GetOutboxMessagesResponse L)"
  by (rule followsI, simp add: GetOutboxMessagesResponse_defs new_simps,
    simp add: GetOutboxMessagesResponse_defs followsD [OF follows_OutgoingMessage, unfolded OutgoingMessage_def, simplified] Let_def,
    simp add: GetOutboxMessagesResponse_defs followsD [OF follows_OutgoingMessage, unfolded OutgoingMessage_def, simplified] cong: if_cong,
    simp add: GetOutboxMessagesResponse_defs followsD [OF follows_OutgoingMessage, unfolded OutgoingMessage_def, simplified] object_simps,
    simp_all add: GetOutboxMessagesResponse_def [abs_def]
      GetOutboxMessagesResponse_prototype_toObject_def [abs_def]
      GetOutboxMessagesResponse_deserializeBinary_def [abs_def]
      GetOutboxMessagesResponse_serializeBinary_def [abs_def] Let_def)

section \<open>GetSentMessagesRequest\<close>

definition GetSentMessagesRequest_new ::
  "('m, 'w, 'r, 'b) jspb \<Rightarrow> 'm" where
  "GetSentMessagesRequest_new L = initialize L None"

definition GetSentMessagesRequest_toObject ::
  "('m, 'w, 'r, 'b) jspb \<Rightarrow> bool \<Rightarrow> 'm \<Rightarrow> 'm jsvalue" where
  "GetSentMessagesRequest_toObject L includeInstance msg = JObject
     ([]
      @ (if includeInstance then [(''$jspbMessageInstance'', JMessage msg)] else []))"

definition GetSentMessagesRequest_prototype_toObject ::
  "('m, 'w, 'r, 'b) jspb \<Rightarrow> 'm \<Rightarrow> bool \<Rightarrow> 'm jsvalue" where
  "GetSentMessagesRequest_prototype_toObject L this opt_includeInstance =
     GetSentMessagesRequest_toObject L opt_includeInstance this"

definition GetSentMessagesRequest_deserializeBinaryFromReader ::
  "('m, 'w, 'r, 'b) jspb \<Rightarrow> 'm \<Rightarrow> ('r, 'm) reading" where
  "GetSentMessagesRequest_deserializeBinaryFromReader L = field_loop L (\<lambda>field msg.
        read_then (skipField L) (\<lambda>_. msg))"

definition GetSentMessagesRequest_deserializeBinary ::
  "('m, 'w, 'r, 'b) jspb \<Rightarrow> 'b \<Rightarrow> (js_error + 'm) option" where
  "GetSentMessagesRequest_deserializeBinary L bytes =
     (let reader = BinaryReader L bytes; msg = GetSentMessagesRequest_new L
      in returned (GetSentMessagesRequest_deserializeBinaryFromReader L msg reader))"

definition GetSentMessagesRequest_serializeBinaryToWriter ::
  "('m, 'w, 'r, 'b) jspb \<Rightarrow> 'm \<Rightarrow> 'w \<Rightarrow> 'w" where
  "GetSentMessagesRequest_serializeBinaryToWriter L message writer = writer"

definition GetSentMessagesRequest_serializeBinary ::
  "('m, 'w, 'r, 'b) jspb \<Rightarrow> 'm \<Rightarrow> 'b" where
  "GetSentMessagesRequest_serializeBinary L this =
     (let writer = BinaryWriter L; writer = GetSentMessagesRequest_serializeBinaryToWriter L this writer
      in getResultBuffer L writer)"

definition GetSentMessagesRequest ::
  "('m, 'w, 'r, 'b) jspb \<Rightarrow> ('m, 'w, 'r, 'b) pbclass" where
  "GetSentMessagesRequest L =
     \<lparr>pc_displayName = ''proto.asphrdaemon.GetSentMessagesRequest'',
      pc_new = GetSentMessagesRequest_new L,
      pc_toObject = GetSentMessagesRequest_toObject L,
      pc_deserializeBinary = GetSentMessagesRequest_deserializeBinary L,
      pc_deserializeBinaryFromReader = GetSentMessagesRequest_deserializeBinaryFromReader L,
      pc_serializeBinaryToWriter = GetSentMessagesRequest_serializeBinaryToWriter L,
      pc_prototype_toObject = GetSentMessagesRequest_prototype_toObject L,
      pc_prototype_serializeBinary = GetSentMessagesRequest_serializeBinary L\<rparr>"

definition GetSentMessagesRequest_proto :: proto_message where
  "GetSentMessagesRequest_proto = Proto ''GetSentMessagesRequest''
     []"

lemmas GetSentMessagesRequest_defs =
  GetSentMessagesRequest_def [abs_def] GetSentMessagesRequest_new_def [abs_def]
  GetSentMessagesRequest_toObject_def [abs_def]
  GetSentMessagesRequest_deserializeBinaryFromReader_def [abs_def]
  GetSentMessagesRequest_serializeBinaryToWriter_def [abs_def]
  GetSentMessagesRequest_proto_def

lemma follows_GetSentMessagesRequest:
  "follows L GetSentMessagesRequest_proto (GetSentMessagesRequest L)"
  by (rule followsI, simp add: GetSentMessagesRequest_defs new_simps,
    simp add: GetSentMessagesRequest_defs Let_def,
    simp add: GetSentMessagesRequest_defs cong: if_cong,
    simp add: GetSentMessagesRequest_defs object_simps,
    simp_all add: GetSentMessagesRequest_def [abs_def]
      GetSentMessagesRequest_prototype_toObject_def [abs_def]
      GetSentMessagesRequest_deserializeBinary_def [abs_def]
      GetSentMessagesRequest_serializeBinary_def [abs_def] Let_def)

section \<open>GetSentMessagesResponse\<close>

definition GetSentMessagesResponse_repeatedFields ::
  "nat list" where
  "GetSentMessagesResponse_repeatedFields = [1]"

definition GetSentMessagesResponse_new ::
  "('m, 'w, 'r, 'b) jspb \<Rightarrow> 'm" where
  "GetSentMessagesResponse_new L = initialize L (Some GetSentMessagesResponse_repeatedFields)"

definition GetSentMessagesResponse_getMessagesList ::
  "('m, 'w, 'r, 'b) jspb \<Rightarrow> 'm \<Rightarrow> 'm list" where
  "GetSentMessagesResponse_getMessagesList L this = getRepeatedWrapperField L this 1"

definition GetSentMessagesResponse_setMessagesList ::
  "('m, 'w, 'r, 'b) jspb \<Rightarrow> 'm \<Rightarrow> 'm list \<Rightarrow> 'm" where
  "GetSentMessagesResponse_setMessagesList L this value = setRepeatedWrapperField L this 1 value"

definition GetSentMessagesResponse_addMessages ::
  "('m, 'w, 'r, 'b) jspb \<Rightarrow> 'm \<Rightarrow> 'm option \<Rightarrow> nat option \<Rightarrow> 'm \<times> 'm" where
  "GetSentMessagesResponse_addMessages L this opt_value opt_index =
     addToRepeatedWrapperField L this 1 opt_value (OutgoingMessage_new L) opt_index"

definition GetSentMessagesResponse_clearMessagesList ::
  "('m, 'w, 'r, 'b) jspb \<Rightarrow> 'm \<Rightarrow> 'm" where
  "GetSentMessagesResponse_clearMessagesList L this = GetSentMessagesResponse_setMessagesList L this []"

definition GetSentMessagesResponse_toObject ::
  "('m, 'w, 'r, 'b) jspb \<Rightarrow> bool \<Rightarrow> 'm \<Rightarrow> 'm jsvalue" where
  "GetSentMessagesResponse_toObject L includeInstance msg = JObject
     ([(''messagesList'', toObjectList L (GetSentMessagesResponse_getMessagesList L msg) (OutgoingMessage_toObject L) includeInstance)]
      @ (if includeInstance then [(''$jspbMessageInstance'', JMessage msg)] else []))"

definition GetSentMessagesResponse_prototype_toObject ::
  "('m, 'w, 'r, 'b) jspb \<Rightarrow> 'm \<Rightarrow> bool \<Rightarrow> 'm jsvalue" where
  "GetSentMessagesResponse_prototype_toObject L this opt_includeInstance =
     GetSentMessagesResponse_toObject L opt_includeInstance this"

definition GetSentMessagesResponse_deserializeBinaryFromReader ::
  "('m, 'w, 'r, 'b) jspb \<Rightarrow> 'm \<Rightarrow> ('r, 'm) reading" where
  "GetSentMessagesResponse_deserializeBinaryFromReader L = field_loop L (\<lambda>field msg.
        if field = 1 then read_then 
           (readMessage L (OutgoingMessage_new L) (OutgoingMessage_deserializeBinaryFromReader L)) (\<lambda>value. snd (GetSentMessagesResponse_addMessages L msg (Some value) None))
        else read_then (skipField L) (\<lambda>_. msg))"

definition GetSentMessagesResponse_deserializeBinary ::
  "('m, 'w, 'r, 'b) jspb \<Rightarrow> 'b \<Rightarrow> (js_error + 'm) option" where
  "GetSentMessagesResponse_deserializeBinary L bytes =
     (let reader = BinaryReader L bytes; msg = GetSentMessagesResponse_new L
      in returned (GetSentMessagesResponse_deserializeBinaryFromReader L msg reader))"

definition GetSentMessagesResponse_serializeBinaryToWriter ::
  "('m, 'w, 'r, 'b) jspb \<Rightarrow> 'm \<Rightarrow> 'w \<Rightarrow> 'w" where
  "GetSentMessagesResponse_serializeBinaryToWriter L message writer =
     (let f = GetSentMessagesResponse_getMessagesList L message;
          writer = write_if (0 < length f) (writeRepeatedMessage L 1 f (OutgoingMessage_serializeBinaryToWriter L)) writer
      in writer)"

definition GetSentMessagesResponse_serializeBinary ::
  "('m, 'w, 'r, 'b) jspb \<Rightarrow> 'm \<Rightarrow> 'b" where
  "GetSentMessagesResponse_serializeBinary L this =
     (let writer = BinaryWriter L; writer = GetSentMessagesResponse_serializeBinaryToWriter L this writer
      in getResultBuffer L writer)"

definition GetSentMessagesResponse ::
  "('m, 'w, 'r, 'b) jspb \<Rightarrow> ('m, 'w, 'r, 'b) pbclass" where
  "GetSentMessagesResponse L =
     \<lparr>pc_displayName = ''proto.asphrdaemon.GetSentMessagesResponse'',
      pc_new = GetSentMessagesResponse_new L,
      pc_toObject = GetSentMessagesResponse_toObject L,
      pc_deserializeBinary = GetSentMessagesResponse_deserializeBinary L,
      pc_deserializeBinaryFromReader = GetSentMessagesResponse_deserializeBinaryFromReader L,
      pc_serializeBinaryToWriter = GetSentMessagesResponse_serializeBinaryToWriter L,
      pc_prototype_toObject = GetSentMessagesResponse_prototype_toObject L,
      pc_prototype_serializeBinary = GetSentMessagesResponse_serializeBinary L\<rparr>"

definition GetSentMessagesResponse_proto :: proto_message where
  "GetSentMessagesResponse_proto = Proto ''GetSentMessagesResponse''
     [Field (TRepeatedMessage OutgoingMessage_proto) ''messages'' 1]"

lemmas GetSentMessagesResponse_defs =
  GetSentMessagesResponse_def [abs_def] GetSentMessagesResponse_repeatedFields_def [abs_def]
  GetSentMessagesResponse_new_def [abs_def] GetSentMessagesResponse_getMessagesList_def [abs_def]
  GetSentMessagesResponse_setMessagesList_def [abs_def]
  GetSentMessagesResponse_addMessages_def [abs_def]
  GetSentMessagesResponse_clearMessagesList_def [abs_def]
  GetSentMessagesResponse_toObject_def [abs_def]
  GetSentMessagesResponse_deserializeBinaryFromReader_def [abs_def]
  GetSentMessagesResponse_serializeBinaryToWriter_def [abs_def]
  GetSentMessagesResponse_proto_def

lemma follows_GetSentMessagesResponse:
  "follows L GetSentMessagesResponse_proto (GetSentMessagesResponse L)"
  by (rule followsI, simp add: GetSentMessagesResponse_defs new_simps,
    simp add: GetSentMessagesResponse_defs followsD [OF follows_OutgoingMessage, unfolded OutgoingMessage_def, simplified] Let_def,
    simp add: GetSentMessagesResponse_defs followsD [OF follows_OutgoingMessage, unfolded OutgoingMessage_def, simplified] cong: if_cong,
    simp add: GetSentMessagesResponse_defs followsD [OF follows_OutgoingMessage, unfolded OutgoingMessage_def, simplified] object_simps,
    simp_all add: GetSentMessagesResponse_def [abs_def]
      GetSentMessagesResponse_prototype_toObject_def [abs_def]
      GetSentMessagesResponse_deserializeBinary_def [abs_def]
      GetSentMessagesResponse_serializeBinary_def [abs_def] Let_def)

section \<open>MessageSeenRequest\<close>

definition MessageSeenRequest_new ::
  "('m, 'w, 'r, 'b) jspb \<Rightarrow> 'm" where
  "MessageSeenRequest_new L = initialize L None"

definition MessageSeenRequest_getId ::
  "('m, 'w, 'r, 'b) jspb \<Rightarrow> 'm \<Rightarrow> int" where
  "MessageSeenRequest_getId L this = getFieldWithDefault_number L this 1 0"

definition MessageSeenRequest_setId ::
  "('m, 'w, 'r, 'b) jspb \<Rightarrow> 'm \<Rightarrow> int \<Rightarrow> 'm" where
  "MessageSeenRequest_setId L this value = setProto3IntField L this 1 value"

definition MessageSeenRequest_toObject ::
  "('m, 'w, 'r, 'b) jspb \<Rightarrow> bool \<Rightarrow> 'm \<Rightarrow> 'm jsvalue" where
  "MessageSeenRequest_toObject L includeInstance msg = JObject
     ([(''id'', JNumber (getFieldWithDefault_number L msg 1 0))]
      @ (if includeInstance then [(''$jspbMessageInstance'', JMessage msg)] else []))"

definition MessageSeenRequest_prototype_toObject ::
  "('m, 'w, 'r, 'b) jspb \<Rightarrow> 'm \<Rightarrow> bool \<Rightarrow> 'm jsvalue" where
  "MessageSeenRequest_prototype_toObject L this opt_includeInstance =
     MessageSeenRequest_toObject L opt_includeInstance this"

definition MessageSeenRequest_deserializeBinaryFromReader ::
  "('m, 'w, 'r, 'b) jspb \<Rightarrow> 'm \<Rightarrow> ('r, 'm) reading" where
  "MessageSeenRequest_deserializeBinaryFromReader L = field_loop L (\<lambda>field msg.
        if field = 1 then read_then (readInt32 L) (\<lambda>value. MessageSeenRequest_setId L msg value)
        else read_then (skipField L) (\<lambda>_. msg))"

definition MessageSeenRequest_deserializeBinary ::
  "('m, 'w, 'r, 'b) jspb \<Rightarrow> 'b \<Rightarrow> (js_error + 'm) option" where
  "MessageSeenRequest_deserializeBinary L bytes =
     (let reader = BinaryReader L bytes; msg = MessageSeenRequest_new L
      in returned (MessageSeenRequest_deserializeBinaryFromReader L msg reader))"

definition MessageSeenRequest_serializeBinaryToWriter ::
  "('m, 'w, 'r, 'b) jspb \<Rightarrow> 'm \<Rightarrow> 'w \<Rightarrow> 'w" where
  "MessageSeenRequest_serializeBinaryToWriter L message writer =
     (let f = MessageSeenRequest_getId L message;
          writer = write_if (f \<noteq> 0) (writeInt32 L 1 f) writer
      in writer)"

definition MessageSeenRequest_serializeBinary ::
  "('m, 'w, 'r, 'b) jspb \<Rightarrow> 'm \<Rightarrow> 'b" where
  "MessageSeenRequest_serializeBinary L this =
     (let writer = BinaryWriter L; writer = MessageSeenRequest_serializeBinaryToWriter L this writer
      in getResultBuffer L writer)"

definition MessageSeenRequest ::
  "('m, 'w, 'r, 'b) jspb \<Rightarrow> ('m, 'w, 'r, 'b) pbclass" where
  "MessageSeenRequest L =
     \<lparr>pc_displayName = ''proto.asphrdaemon.MessageSeenRequest'',
      pc_new = MessageSeenRequest_new L,
      pc_toObject = MessageSeenRequest_toObject L,
      pc_deserializeBinary = MessageSeenRequest_deserializeBinary L,
      pc_deserializeBinaryFromReader = MessageSeenRequest_deserializeBinaryFromReader L,
      pc_serializeBinaryToWriter = MessageSeenRequest_serializeBinaryToWriter L,
      pc_prototype_toObject = MessageSeenRequest_prototype_toObject L,
      pc_prototype_serializeBinary = MessageSeenRequest_serializeBinary L\<rparr>"

definition MessageSeenRequest_proto :: proto_message where
  "MessageSeenRequest_proto = Proto ''MessageSeenRequest''
     [Field TInt32 ''id'' 1]"

lemmas MessageSeenRequest_defs =
  MessageSeenRequest_def [abs_def] MessageSeenRequest_new_def [abs_def]
  MessageSeenRequest_getId_def [abs_def] MessageSeenRequest_setId_def [abs_def]
  MessageSeenRequest_toObject_def [abs_def]
  MessageSeenRequest_deserializeBinaryFromReader_def [abs_def]
  MessageSeenRequest_serializeBinaryToWriter_def [abs_def]
  MessageSeenRequest_proto_def

lemma follows_MessageSeenRequest:
  "follows L MessageSeenRequest_proto (MessageSeenRequest L)"
  by (rule followsI, simp add: MessageSeenRequest_defs new_simps,
    simp add: MessageSeenRequest_defs Let_def,
    simp add: MessageSeenRequest_defs cong: if_cong,
    simp add: MessageSeenRequest_defs object_simps,
    simp_all add: MessageSeenRequest_def [abs_def]
      MessageSeenRequest_prototype_toObject_def [abs_def]
      MessageSeenRequest_deserializeBinary_def [abs_def]
      MessageSeenRequest_serializeBinary_def [abs_def] Let_def)

section \<open>MessageSeenResponse\<close>

definition MessageSeenResponse_new ::
  "('m, 'w, 'r, 'b) jspb \<Rightarrow> 'm" where
  "MessageSeenResponse_new L = initialize L None"

definition MessageSeenResponse_toObject ::
  "('m, 'w, 'r, 'b) jspb \<Rightarrow> bool \<Rightarrow> 'm \<Rightarrow> 'm jsvalue" where
  "MessageSeenResponse_toObject L includeInstance msg = JObject
     ([]
      @ (if includeInstance then [(''$jspbMessageInstance'', JMessage msg)] else []))"

definition MessageSeenResponse_prototype_toObject ::
  "('m, 'w, 'r, 'b) jspb \<Rightarrow> 'm \<Rightarrow> bool \<Rightarrow> 'm jsvalue" where
  "MessageSeenResponse_prototype_toObject L this opt_includeInstance =
     MessageSeenResponse_toObject L opt_includeInstance this"

definition MessageSeenResponse_deserializeBinaryFromReader ::
  "('m, 'w, 'r, 'b) jspb \<Rightarrow> 'm \<Rightarrow> ('r, 'm) reading" where
  "MessageSeenResponse_deserializeBinaryFromReader L = field_loop L (\<lambda>field msg.
        read_then (skipField L) (\<lambda>_. msg))"

definition MessageSeenResponse_deserializeBinary ::
  "('m, 'w, 'r, 'b) jspb \<Rightarrow> 'b \<Rightarrow> (js_error + 'm) option" where
  "MessageSeenResponse_deserializeBinary L bytes =
     (let reader = BinaryReader L bytes; msg = MessageSeenResponse_new L
      in returned (MessageSeenResponse_deserializeBinaryFromReader L msg reader))"

definition MessageSeenResponse_serializeBinaryToWriter ::
  "('m, 'w, 'r, 'b) jspb \<Rightarrow> 'm \<Rightarrow> 'w \<Rightarrow> 'w" where
  "MessageSeenResponse_serializeBinaryToWriter L message writer = writer"

definition MessageSeenResponse_serializeBinary ::
  "('m, 'w, 'r, 'b) jspb \<Rightarrow> 'm \<Rightarrow> 'b" where
  "MessageSeenResponse_serializeBinary L this =
     (let writer = BinaryWriter L; writer = MessageSeenResponse_serializeBinaryToWriter L this writer
      in getResultBuffer L writer)"

definition MessageSeenResponse ::
  "('m, 'w, 'r, 'b) jspb \<Rightarrow> ('m, 'w, 'r, 'b) pbclass" where
  "MessageSeenResponse L =
     \<lparr>pc_displayName = ''proto.asphrdaemon.MessageSeenResponse'',
      pc_new = MessageSeenResponse_new L,
      pc_toObject = MessageSeenResponse_toObject L,
      pc_deserializeBinary = MessageSeenResponse_deserializeBinary L,
      pc_deserializeBinaryFromReader = MessageSeenResponse_deserializeBinaryFromReader L,
      pc_serializeBinaryToWriter = MessageSeenResponse_serializeBinaryToWriter L,
      pc_prototype_toObject = MessageSeenResponse_prototype_toObject L,
      pc_prototype_serializeBinary = MessageSeenResponse_serializeBinary L\<rparr>"

definition MessageSeenResponse_proto :: proto_message where
  "MessageSeenResponse_proto = Proto ''MessageSeenResponse''
     []"

lemmas MessageSeenResponse_defs =
  MessageSeenResponse_def [abs_def] MessageSeenResponse_new_def [abs_def]
  MessageSeenResponse_toObject_def [abs_def]
  MessageSeenResponse_deserializeBinaryFromReader_def [abs_def]
  MessageSeenResponse_serializeBinaryToWriter_def [abs_def]
  MessageSeenResponse_proto_def

lemma follows_MessageSeenResponse:
  "follows L MessageSeenResponse_proto (MessageSeenResponse L)"
  by (rule followsI, simp add: MessageSeenResponse_defs new_simps,
    simp add: MessageSeenResponse_defs Let_def,
    simp add: MessageSeenResponse_defs cong: if_cong,
    simp add: MessageSeenResponse_defs object_simps,
    simp_all add: MessageSeenResponse_def [abs_def]
      MessageSeenResponse_prototype_toObject_def [abs_def]
      MessageSeenResponse_deserializeBinary_def [abs_def]
      MessageSeenResponse_serializeBinary_def [abs_def] Let_def)

end
