(* ===== verification/PbStatus.thy ===== *)
theory PbStatus imports ProtoSchema begin

text \<open>
  The classes of \<open>daemon/schema/daemon_pb.js\<close> for the status, the latency and the end of the daemon, function by
  function, and beside each class the message of \<open>asphr/schema/daemon.proto\<close> that it implements,
  with the proof that the class is the reference codec of that message.
\<close>

section \<open>GetStatusRequest\<close>

definition GetStatusRequest_new ::
  "('m, 'w, 'r, 'b) jspb \<Rightarrow> 'm" where
  "GetStatusRequest_new L = initialize L None"

definition GetStatusRequest_toObject ::
  "('m, 'w, 'r, 'b) jspb \<Rightarrow> bool \<Rightarrow> 'm \<Rightarrow> 'm jsvalue" where
  "GetStatusRequest_toObject L includeInstance msg = JObject
     ([]
      @ (if includeInstance then [(''$jspbMessageInstance'', JMessage msg)] else []))"

definition GetStatusRequest_prototype_toObject ::
  "('m, 'w, 'r, 'b) jspb \<Rightarrow> 'm \<Rightarrow> bool \<Rightarrow> 'm jsvalue" where
  "GetStatusRequest_prototype_toObject L this opt_includeInstance =
     GetStatusRequest_toObject L opt_includeInstance this"

definition GetStatusRequest_deserializeBinaryFromReader ::
  "('m, 'w, 'r, 'b) jspb \<Rightarrow> 'm \<Rightarrow> ('r, 'm) reading" where
  "GetStatusRequest_deserializeBinaryFromReader L = field_loop L (\<lambda>field msg.
        read_then (skipField L) (\<lambda>_. msg))"

definition GetStatusRequest_deserializeBinary ::
  "('m, 'w, 'r, 'b) jspb \<Rightarrow> 'b \<Rightarrow> (js_error + 'm) option" where
  "GetStatusRequest_deserializeBinary L bytes =
     (let reader = BinaryReader L bytes; msg = GetStatusRequest_new L
      in returned (GetStatusRequest_deserializeBinaryFromReader L msg reader))"

definition GetStatusRequest_serializeBinaryToWriter ::
  "('m, 'w, 'r, 'b) jspb \<Rightarrow> 'm \<Rightarrow> 'w \<Rightarrow> 'w" where
  "GetStatusRequest_serializeBinaryToWriter L message writer = writer"

definition GetStatusRequest_serializeBinary ::
  "('m, 'w, 'r, 'b) jspb \<Rightarrow> 'm \<Rightarrow> 'b" where
  "GetStatusRequest_serializeBinary L this =
     (let writer = BinaryWriter L; writer = GetStatusRequest_serializeBinaryToWriter L this writer
      in getResultBuffer L writer)"

definition GetStatusRequest ::
  "('m, 'w, 'r, 'b) jspb \<Rightarrow> ('m, 'w, 'r, 'b) pbclass" where
  "GetStatusRequest L =
     \<lparr>pc_displayName = ''proto.asphrdaemon.GetStatusRequest'',
      pc_new = GetStatusRequest_new L,
      pc_toObject = GetStatusRequest_toObject L,
      pc_deserializeBinary = GetStatusRequest_deserializeBinary L,
      pc_deserializeBinaryFromReader = GetStatusRequest_deserializeBinaryFromReader L,
      pc_serializeBinaryToWriter = GetStatusRequest_serializeBinaryToWriter L,
      pc_prototype_toObject = GetStatusRequest_prototype_toObject L,
      pc_prototype_serializeBinary = GetStatusRequest_serializeBinary L\<rparr>"

definition GetStatusRequest_proto :: proto_message where
  "GetStatusRequest_proto = Proto ''GetStatusRequest''
     []"

lemmas GetStatusRequest_defs =
  GetStatusRequest_def [abs_def] GetStatusRequest_new_def [abs_def]
  GetStatusRequest_toObject_def [abs_def]
  GetStatusRequest_deserializeBinaryFromReader_def [abs_def]
  GetStatusRequest_serializeBinaryToWriter_def [abs_def]
  GetStatusRequest_proto_def

lemma follows_GetStatusRequest:
  "follows L GetStatusRequest_proto (GetStatusRequest L)"
  by (rule followsI, simp add: GetStatusRequest_defs new_simps,
    simp add: GetStatusRequest_defs Let_def,
    simp add: GetStatusRequest_defs cong: if_cong,
    simp add: GetStatusRequest_defs object_simps,
    simp_all add: GetStatusRequest_def [abs_def]
      GetStatusRequest_prototype_toObject_def [abs_def]
      GetStatusRequest_deserializeBinary_def [abs_def] GetStatusRequest_serializeBinary_def [abs_def] Let_def)

section \<open>GetStatusResponse\<close>

definition GetStatusResponse_new ::
  "('m, 'w, 'r, 'b) jspb \<Rightarrow> 'm" where
  "GetStatusResponse_new L = initialize L None"

definition GetStatusResponse_getRegistered ::
  "('m, 'w, 'r, 'b) jspb \<Rightarrow> 'm \<Rightarrow> bool" where
  "GetStatusResponse_getRegistered L this = getBooleanFieldWithDefault L this 1 False"

definition GetStatusResponse_setRegistered ::
  "('m, 'w, 'r, 'b) jspb \<Rightarrow> 'm \<Rightarrow> bool \<Rightarrow> 'm" where
  "GetStatusResponse_setRegistered L this value = setProto3BooleanField L this 1 value"

definition GetStatusResponse_getReleaseHash ::
  "('m, 'w, 'r, 'b) jspb \<Rightarrow> 'm \<Rightarrow> string" where
  "GetStatusResponse_getReleaseHash L this = getFieldWithDefault_string L this 2 []"

definition GetStatusResponse_setReleaseHash ::
  "('m, 'w, 'r, 'b) jspb \<Rightarrow> 'm \<Rightarrow> string \<Rightarrow> 'm" where
  "GetStatusResponse_setReleaseHash L this value = setProto3StringField L this 2 value"

definition GetStatusResponse_getLatencySeconds ::
  "('m, 'w, 'r, 'b) jspb \<Rightarrow> 'm \<Rightarrow> int" where
  "GetStatusResponse_getLatencySeconds L this = getFieldWithDefault_number L this 3 0"

definition GetStatusResponse_setLatencySeconds ::
  "('m, 'w, 'r, 'b) jspb \<Rightarrow> 'm \<Rightarrow> int \<Rightarrow> 'm" where
  "GetStatusResponse_setLatencySeconds L this value = setProto3IntField L this 3 value"

definition GetStatusResponse_getServerAddress ::
  "('m, 'w, 'r, 'b) jspb \<Rightarrow> 'm \<Rightarrow> string" where
  "GetStatusResponse_getServerAddress L this = getFieldWithDefault_string L this 4 []"

definition GetStatusResponse_setServerAddress ::
  "('m, 'w, 'r, 'b) jspb \<Rightarrow> 'm \<Rightarrow> string \<Rightarrow> 'm" where
  "GetStatusResponse_setServerAddress L this value = setProto3StringField L this 4 value"

definition GetStatusResponse_toObject ::
  "('m, 'w, 'r, 'b) jspb \<Rightarrow> bool \<Rightarrow> 'm \<Rightarrow> 'm jsvalue" where
  "GetStatusResponse_toObject L includeInstance msg = JObject
     ([(''registered'', JBoolean (getBooleanFieldWithDefault L msg 1 False)),
       (''releaseHash'', JString (getFieldWithDefault_string L msg 2 [])),
       (''latencySeconds'', JNumber (getFieldWithDefault_number L msg 3 0)),
       (''serverAddress'', JString (getFieldWithDefault_string L msg 4 []))]
      @ (if includeInstance then [(''$jspbMessageInstance'', JMessage msg)] else []))"

definition GetStatusResponse_prototype_toObject ::
  "('m, 'w, 'r, 'b) jspb \<Rightarrow> 'm \<Rightarrow> bool \<Rightarrow> 'm jsvalue" where
  "GetStatusResponse_prototype_toObject L this opt_includeInstance =
     GetStatusResponse_toObject L opt_includeInstance this"

definition GetStatusResponse_deserializeBinaryFromReader ::
  "('m, 'w, 'r, 'b) jspb \<Rightarrow> 'm \<Rightarrow> ('r, 'm) reading" where
  "GetStatusResponse_deserializeBinaryFromReader L = field_loop L (\<lambda>field msg.
        if field = 1 then read_then (readBool L) (\<lambda>value. GetStatusResponse_setRegistered L msg value)
        else if field = 2 then read_then (readString L) (\<lambda>value. GetStatusResponse_setReleaseHash L msg value)
        else if field = 3 then read_then (readInt32 L) (\<lambda>value. GetStatusResponse_setLatencySeconds L msg value)
        else if field = 4 then read_then (readString L) (\<lambda>value. GetStatusResponse_setServerAddress L msg value)
        else read_then (skipField L) (\<lambda>_. msg))"

definition GetStatusResponse_deserializeBinary ::
  "('m, 'w, 'r, 'b) jspb \<Rightarrow> 'b \<Rightarrow> (js_error + 'm) option" where
  "GetStatusResponse_deserializeBinary L bytes =
     (let reader = BinaryReader L bytes; msg = GetStatusResponse_new L
      in returned (GetStatusResponse_deserializeBinaryFromReader L msg reader))"

definition GetStatusResponse_serializeBinaryToWriter ::
  "('m, 'w, 'r, 'b) jspb \<Rightarrow> 'm \<Rightarrow> 'w \<Rightarrow> 'w" where
  "GetStatusResponse_serializeBinaryToWriter L message writer =
     (let f = GetStatusResponse_getRegistered L message;
          writer = write_if f (writeBool L 1 f) writer;
          f = GetStatusResponse_getReleaseHash L message;
          writer = write_if (0 < length f) (writeString L 2 f) writer;
          f = GetStatusResponse_getLatencySeconds L message;
          writer = write_if (f \<noteq> 0) (writeInt32 L 3 f) writer;
          f = GetStatusResponse_getServerAddress L message;
          writer = write_if (0 < length f) (writeString L 4 f) writer
      in writer)"

definition GetStatusResponse_serializeBinary ::
  "('m, 'w, 'r, 'b) jspb \<Rightarrow> 'm \<Rightarrow> 'b" where
  "GetStatusResponse_serializeBinary L this =
     (let writer = BinaryWriter L; writer = GetStatusResponse_serializeBinaryToWriter L this writer
      in getResultBuffer L writer)"

definition GetStatusResponse ::
  "('m, 'w, 'r, 'b) jspb \<Rightarrow> ('m, 'w, 'r, 'b) pbclass" where
  "GetStatusResponse L =
     \<lparr>pc_displayName = ''proto.asphrdaemon.GetStatusResponse'',
      pc_new = GetStatusResponse_new L,
      pc_toObject = GetStatusResponse_toObject L,
      pc_deserializeBinary = GetStatusResponse_deserializeBinary L,
      pc_deserializeBinaryFromReader = GetStatusResponse_deserializeBinaryFromReader L,
      pc_serializeBinaryToWriter = GetStatusResponse_serializeBinaryToWriter L,
      pc_prototype_toObject = GetStatusResponse_prototype_toObject L,
      pc_prototype_serializeBinary = GetStatusResponse_serializeBinary L\<rparr>"

definition GetStatusResponse_proto :: proto_message where
  "GetStatusResponse_proto = Proto ''GetStatusResponse''
     [Field TBool ''registered'' 1,
      Field TString ''release_hash'' 2,
      Field TInt32 ''latency_seconds'' 3,
      Field TString ''server_address'' 4]"

lemmas GetStatusResponse_defs =
  GetStatusResponse_def [abs_def] GetStatusResponse_new_def [abs_def]
  GetStatusResponse_getRegistered_def [abs_def] GetStatusResponse_setRegistered_def [abs_def]
  GetStatusResponse_getReleaseHash_def [abs_def] GetStatusResponse_setReleaseHash_def [abs_def]
  GetStatusResponse_getLatencySeconds_def [abs_def]
  GetStatusResponse_setLatencySeconds_def [abs_def]
  GetStatusResponse_getServerAddress_def [abs_def]
  GetStatusResponse_setServerAddress_def [abs_def] GetStatusResponse_toObject_def [abs_def]
  GetStatusResponse_deserializeBinaryFromReader_def [abs_def]
  GetStatusResponse_serializeBinaryToWriter_def [abs_def]
  GetStatusResponse_proto_def

lemma follows_GetStatusResponse:
  "follows L GetStatusResponse_proto (GetStatusResponse L)"
  by (rule followsI, simp add: GetStatusResponse_defs new_simps,
    simp add: GetStatusResponse_defs Let_def,
    simp add: GetStatusResponse_defs cong: if_cong,
    simp add: GetStatusResponse_defs object_simps,
    simp_all add: GetStatusResponse_def [abs_def]
      GetStatusResponse_prototype_toObject_def [abs_def]
      GetStatusResponse_deserializeBinary_def [abs_def]
      GetStatusResponse_serializeBinary_def [abs_def] Let_def)

section \<open>GetLatencyRequest\<close>

definition GetLatencyRequest_new ::
  "('m, 'w, 'r, 'b) jspb \<Rightarrow> 'm" where
  "GetLatencyRequest_new L = initialize L None"

definition GetLatencyRequest_toObject ::
  "('m, 'w, 'r, 'b) jspb \<Rightarrow> bool \<Rightarrow> 'm \<Rightarrow> 'm jsvalue" where
  "GetLatencyRequest_toObject L includeInstance msg = JObject
     ([]
      @ (if includeInstance then [(''$jspbMessageInstance'', JMessage msg)] else []))"

definition GetLatencyRequest_prototype_toObject ::
  "('m, 'w, 'r, 'b) jspb \<Rightarrow> 'm \<Rightarrow> bool \<Rightarrow> 'm jsvalue" where
  "GetLatencyRequest_prototype_toObject L this opt_includeInstance =
     GetLatencyRequest_toObject L opt_includeInstance this"

definition GetLatencyRequest_deserializeBinaryFromReader ::
  "('m, 'w, 'r, 'b) jspb \<Rightarrow> 'm \<Rightarrow> ('r, 'm) reading" where
  "GetLatencyRequest_deserializeBinaryFromReader L = field_loop L (\<lambda>field msg.
        read_then (skipField L) (\<lambda>_. msg))"

definition GetLatencyRequest_deserializeBinary ::
  "('m, 'w, 'r, 'b) jspb \<Rightarrow> 'b \<Rightarrow> (js_error + 'm) option" where
  "GetLatencyRequest_deserializeBinary L bytes =
     (let reader = BinaryReader L bytes; msg = GetLatencyRequest_new L
      in returned (GetLatencyRequest_deserializeBinaryFromReader L msg reader))"

definition GetLatencyRequest_serializeBinaryToWriter ::
  "('m, 'w, 'r, 'b) jspb \<Rightarrow> 'm \<Rightarrow> 'w \<Rightarrow> 'w" where
  "GetLatencyRequest_serializeBinaryToWriter L message writer = writer"

definition GetLatencyRequest_serializeBinary ::
  "('m, 'w, 'r, 'b) jspb \<Rightarrow> 'm \<Rightarrow> 'b" where
  "GetLatencyRequest_serializeBinary L this =
     (let writer = BinaryWriter L; writer = GetLatencyRequest_serializeBinaryToWriter L this writer
      in getResultBuffer L writer)"

definition GetLatencyRequest ::
  "('m, 'w, 'r, 'b) jspb \<Rightarrow> ('m, 'w, 'r, 'b) pbclass" where
  "GetLatencyRequest L =
     \<lparr>pc_displayName = ''proto.asphrdaemon.GetLatencyRequest'',
      pc_new = GetLatencyRequest_new L,
      pc_toObject = GetLatencyRequest_toObject L,
      pc_deserializeBinary = GetLatencyRequest_deserializeBinary L,
      pc_deserializeBinaryFromReader = GetLatencyRequest_deserializeBinaryFromReader L,
      pc_serializeBinaryToWriter = GetLatencyRequest_serializeBinaryToWriter L,
      pc_prototype_toObject = GetLatencyRequest_prototype_toObject L,
      pc_prototype_serializeBinary = GetLatencyRequest_serializeBinary L\<rparr>"

definition GetLatencyRequest_proto :: proto_message where
  "GetLatencyRequest_proto = Proto ''GetLatencyRequest''
     []"

lemmas GetLatencyRequest_defs =
  GetLatencyRequest_def [abs_def] GetLatencyRequest_new_def [abs_def]
  GetLatencyRequest_toObject_def [abs_def]
  GetLatencyRequest_deserializeBinaryFromReader_def [abs_def]
  GetLatencyRequest_serializeBinaryToWriter_def [abs_def]
  GetLatencyRequest_proto_def

lemma follows_GetLatencyRequest:
  "follows L GetLatencyRequest_proto (GetLatencyRequest L)"
  by (rule followsI, simp add: GetLatencyRequest_defs new_simps,
    simp add: GetLatencyRequest_defs Let_def,
    simp add: GetLatencyRequest_defs cong: if_cong,
    simp add: GetLatencyRequest_defs object_simps,
    simp_all add: GetLatencyRequest_def [abs_def]
      GetLatencyRequest_prototype_toObject_def [abs_def]
      GetLatencyRequest_deserializeBinary_def [abs_def]
      GetLatencyRequest_serializeBinary_def [abs_def] Let_def)

section \<open>GetLatencyResponse\<close>

definition GetLatencyResponse_new ::
  "('m, 'w, 'r, 'b) jspb \<Rightarrow> 'm" where
  "GetLatencyResponse_new L = initialize L None"

definition GetLatencyResponse_getLatencySeconds ::
  "('m, 'w, 'r, 'b) jspb \<Rightarrow> 'm \<Rightarrow> int" where
  "GetLatencyResponse_getLatencySeconds L this = getFieldWithDefault_number L this 1 0"

definition GetLatencyResponse_setLatencySeconds ::
  "('m, 'w, 'r, 'b) jspb \<Rightarrow> 'm \<Rightarrow> int \<Rightarrow> 'm" where
  "GetLatencyResponse_setLatencySeconds L this value = setProto3IntField L this 1 value"

definition GetLatencyResponse_toObject ::
  "('m, 'w, 'r, 'b) jspb \<Rightarrow> bool \<Rightarrow> 'm \<Rightarrow> 'm jsvalue" where
  "GetLatencyResponse_toObject L includeInstance msg = JObject
     ([(''latencySeconds'', JNumber (getFieldWithDefault_number L msg 1 0))]
      @ (if includeInstance then [(''$jspbMessageInstance'', JMessage msg)] else []))"

definition GetLatencyResponse_prototype_toObject ::
  "('m, 'w, 'r, 'b) jspb \<Rightarrow> 'm \<Rightarrow> bool \<Rightarrow> 'm jsvalue" where
  "GetLatencyResponse_prototype_toObject L this opt_includeInstance =
     GetLatencyResponse_toObject L opt_includeInstance this"

definition GetLatencyResponse_deserializeBinaryFromReader ::
  "('m, 'w, 'r, 'b) jspb \<Rightarrow> 'm \<Rightarrow> ('r, 'm) reading" where
  "GetLatencyResponse_deserializeBinaryFromReader L = field_loop L (\<lambda>field msg.
        if field = 1 then read_then (readInt32 L) (\<lambda>value. GetLatencyResponse_setLatencySeconds L msg value)
        else read_then (skipField L) (\<lambda>_. msg))"

definition GetLatencyResponse_deserializeBinary ::
  "('m, 'w, 'r, 'b) jspb \<Rightarrow> 'b \<Rightarrow> (js_error + 'm) option" where
  "GetLatencyResponse_deserializeBinary L bytes =
     (let reader = BinaryReader L bytes; msg = GetLatencyResponse_new L
      in returned (GetLatencyResponse_deserializeBinaryFromReader L msg reader))"

definition GetLatencyResponse_serializeBinaryToWriter ::
  "('m, 'w, 'r, 'b) jspb \<Rightarrow> 'm \<Rightarrow> 'w \<Rightarrow> 'w" where
  "GetLatencyResponse_serializeBinaryToWriter L message writer =
     (let f = GetLatencyResponse_getLatencySeconds L message;
          writer = write_if (f \<noteq> 0) (writeInt32 L 1 f) writer
      in writer)"

definition GetLatencyResponse_serializeBinary ::
  "('m, 'w, 'r, 'b) jspb \<Rightarrow> 'm \<Rightarrow> 'b" where
  "GetLatencyResponse_serializeBinary L this =
     (let writer = BinaryWriter L; writer = GetLatencyResponse_serializeBinaryToWriter L this writer
      in getResultBuffer L writer)"

definition GetLatencyResponse ::
  "('m, 'w, 'r, 'b) jspb \<Rightarrow> ('m, 'w, 'r, 'b) pbclass" where
  "GetLatencyResponse L =
     \<lparr>pc_displayName = ''proto.asphrdaemon.GetLatencyResponse'',
      pc_new = GetLatencyResponse_new L,
      pc_toObject = GetLatencyResponse_toObject L,
      pc_deserializeBinary = GetLatencyResponse_deserializeBinary L,
      pc_deserializeBinaryFromReader = GetLatencyResponse_deserializeBinaryFromReader L,
      pc_serializeBinaryToWriter = GetLatencyResponse_serializeBinaryToWriter L,
      pc_prototype_toObject = GetLatencyResponse_prototype_toObject L,
      pc_prototype_serializeBinary = GetLatencyResponse_serializeBinary L\<rparr>"

definition GetLatencyResponse_proto :: proto_message where
  "GetLatencyResponse_proto = Proto ''GetLatencyResponse''
     [Field TInt32 ''latency_seconds'' 1]"

lemmas GetLatencyResponse_defs =
  GetLatencyResponse_def [abs_def] GetLatencyResponse_new_def [abs_def]
  GetLatencyResponse_getLatencySeconds_def [abs_def]
  GetLatencyResponse_setLatencySeconds_def [abs_def] GetLatencyResponse_toObject_def [abs_def]
  GetLatencyResponse_deserializeBinaryFromReader_def [abs_def]
  GetLatencyResponse_serializeBinaryToWriter_def [abs_def]
  GetLatencyResponse_proto_def

lemma follows_GetLatencyResponse:
  "follows L GetLatencyResponse_proto (GetLatencyResponse L)"
  by (rule followsI, simp add: GetLatencyResponse_defs new_simps,
    simp add: GetLatencyResponse_defs Let_def,
    simp add: GetLatencyResponse_defs cong: if_cong,
    simp add: GetLatencyResponse_defs object_simps,
    simp_all add: GetLatencyResponse_def [abs_def]
      GetLatencyResponse_prototype_toObject_def [abs_def]
      GetLatencyResponse_deserializeBinary_def [abs_def]
      GetLatencyResponse_serializeBinary_def [abs_def] Let_def)

section \<open>ChangeLatencyRequest\<close>

definition ChangeLatencyRequest_new ::
  "('m, 'w, 'r, 'b) jspb \<Rightarrow> 'm" where
  "ChangeLatencyRequest_new L = initialize L None"

definition ChangeLatencyRequest_getLatencySeconds ::
  "('m, 'w, 'r, 'b) jspb \<Rightarrow> 'm \<Rightarrow> int" where
  "ChangeLatencyRequest_getLatencySeconds L this = getFieldWithDefault_number L this 1 0"

definition ChangeLatencyRequest_setLatencySeconds ::
  "('m, 'w, 'r, 'b) jspb \<Rightarrow> 'm \<Rightarrow> int \<Rightarrow> 'm" where
  "ChangeLatencyRequest_setLatencySeconds L this value = setProto3IntField L this 1 value"

definition ChangeLatencyRequest_toObject ::
  "('m, 'w, 'r, 'b) jspb \<Rightarrow> bool \<Rightarrow> 'm \<Rightarrow> 'm jsvalue" where
  "ChangeLatencyRequest_toObject L includeInstance msg = JObject
     ([(''latencySeconds'', JNumber (getFieldWithDefault_number L msg 1 0))]
      @ (if includeInstance then [(''$jspbMessageInstance'', JMessage msg)] else []))"

definition ChangeLatencyRequest_prototype_toObject ::
  "('m, 'w, 'r, 'b) jspb \<Rightarrow> 'm \<Rightarrow> bool \<Rightarrow> 'm jsvalue" where
  "ChangeLatencyRequest_prototype_toObject L this opt_includeInstance =
     ChangeLatencyRequest_toObject L opt_includeInstance this"

definition ChangeLatencyRequest_deserializeBinaryFromReader ::
  "('m, 'w, 'r, 'b) jspb \<Rightarrow> 'm \<Rightarrow> ('r, 'm) reading" where
  "ChangeLatencyRequest_deserializeBinaryFromReader L = field_loop L (\<lambda>field msg.
        if field = 1 then read_then (readInt32 L) (\<lambda>value. ChangeLatencyRequest_setLatencySeconds L msg value)
        else read_then (skipField L) (\<lambda>_. msg))"

definition ChangeLatencyRequest_deserializeBinary ::
  "('m, 'w, 'r, 'b) jspb \<Rightarrow> 'b \<Rightarrow> (js_error + 'm) option" where
  "ChangeLatencyRequest_deserializeBinary L bytes =
     (let reader = BinaryReader L bytes; msg = ChangeLatencyRequest_new L
      in returned (ChangeLatencyRequest_deserializeBinaryFromReader L msg reader))"

definition ChangeLatencyRequest_serializeBinaryToWriter ::
  "('m, 'w, 'r, 'b) jspb \<Rightarrow> 'm \<Rightarrow> 'w \<Rightarrow> 'w" where
  "ChangeLatencyRequest_serializeBinaryToWriter L message writer =
     (let f = ChangeLatencyRequest_getLatencySeconds L message;
          writer = write_if (f \<noteq> 0) (writeInt32 L 1 f) writer
      in writer)"

definition ChangeLatencyRequest_serializeBinary ::
  "('m, 'w, 'r, 'b) jspb \<Rightarrow> 'm \<Rightarrow> 'b" where
  "ChangeLatencyRequest_serializeBinary L this =
     (let writer = BinaryWriter L; writer = ChangeLatencyRequest_serializeBinaryToWriter L this writer
      in getResultBuffer L writer)"

definition ChangeLatencyRequest ::
  "('m, 'w, 'r, 'b) jspb \<Rightarrow> ('m, 'w, 'r, 'b) pbclass" where
  "ChangeLatencyRequest L =
     \<lparr>pc_displayName = ''proto.asphrdaemon.ChangeLatencyRequest'',
      pc_new = ChangeLatencyRequest_new L,
      pc_toObject = ChangeLatencyRequest_toObject L,
      pc_deserializeBinary = ChangeLatencyRequest_deserializeBinary L,
      pc_deserializeBinaryFromReader = ChangeLatencyRequest_deserializeBinaryFromReader L,
      pc_serializeBinaryToWriter = ChangeLatencyRequest_serializeBinaryToWriter L,
      pc_prototype_toObject = ChangeLatencyRequest_prototype_toObject L,
      pc_prototype_serializeBinary = ChangeLatencyRequest_serializeBinary L\<rparr>"

definition ChangeLatencyRequest_proto :: proto_message where
  "ChangeLatencyRequest_proto = Proto ''ChangeLatencyRequest''
     [Field TInt32 ''latency_seconds'' 1]"

lemmas ChangeLatencyRequest_defs =
  ChangeLatencyRequest_def [abs_def] ChangeLatencyRequest_new_def [abs_def]
  ChangeLatencyRequest_getLatencySeconds_def [abs_def]
  ChangeLatencyRequest_setLatencySeconds_def [abs_def] ChangeLatencyRequest_toObject_def [abs_def]
  ChangeLatencyRequest_deserializeBinaryFromReader_def [abs_def]
  ChangeLatencyRequest_serializeBinaryToWriter_def [abs_def]
  ChangeLatencyRequest_proto_def

lemma follows_ChangeLatencyRequest:
  "follows L ChangeLatencyRequest_proto (ChangeLatencyRequest L)"
  by (rule followsI, simp add: ChangeLatencyRequest_defs new_simps,
    simp add: ChangeLatencyRequest_defs Let_def,
    simp add: ChangeLatencyRequest_defs cong: if_cong,
    simp add: ChangeLatencyRequest_defs object_simps,
    simp_all add: ChangeLatencyRequest_def [abs_def]
      ChangeLatencyRequest_prototype_toObject_def [abs_def]
      ChangeLatencyRequest_deserializeBinary_def [abs_def]
      ChangeLatencyRequest_serializeBinary_def [abs_def] Let_def)

section \<open>ChangeLatencyResponse\<close>

definition ChangeLatencyResponse_new ::
  "('m, 'w, 'r, 'b) jspb \<Rightarrow> 'm" where
  "ChangeLatencyResponse_new L = initialize L None"

definition ChangeLatencyResponse_toObject ::
  "('m, 'w, 'r, 'b) jspb \<Rightarrow> bool \<Rightarrow> 'm \<Rightarrow> 'm jsvalue" where
  "ChangeLatencyResponse_toObject L includeInstance msg = JObject
     ([]
      @ (if includeInstance then [(''$jspbMessageInstance'', JMessage msg)] else []))"

definition ChangeLatencyResponse_prototype_toObject ::
  "('m, 'w, 'r, 'b) jspb \<Rightarrow> 'm \<Rightarrow> bool \<Rightarrow> 'm jsvalue" where
  "ChangeLatencyResponse_prototype_toObject L this opt_includeInstance =
     ChangeLatencyResponse_toObject L opt_includeInstance this"

definition ChangeLatencyResponse_deserializeBinaryFromReader ::
  "('m, 'w, 'r, 'b) jspb \<Rightarrow> 'm \<Rightarrow> ('r, 'm) reading" where
  "ChangeLatencyResponse_deserializeBinaryFromReader L = field_loop L (\<lambda>field msg.
        read_then (skipField L) (\<lambda>_. msg))"

definition ChangeLatencyResponse_deserializeBinary ::
  "('m, 'w, 'r, 'b) jspb \<Rightarrow> 'b \<Rightarrow> (js_error + 'm) option" where
  "ChangeLatencyResponse_deserializeBinary L bytes =
     (let reader = BinaryReader L bytes; msg = ChangeLatencyResponse_new L
      in returned (ChangeLatencyResponse_deserializeBinaryFromReader L msg reader))"

definition ChangeLatencyResponse_serializeBinaryToWriter ::
  "('m, 'w, 'r, 'b) jspb \<Rightarrow> 'm \<Rightarrow> 'w \<Rightarrow> 'w" where
  "ChangeLatencyResponse_serializeBinaryToWriter L message writer = writer"

definition ChangeLatencyResponse_serializeBinary ::
  "('m, 'w, 'r, 'b) jspb \<Rightarrow> 'm \<Rightarrow> 'b" where
  "ChangeLatencyResponse_serializeBinary L this =
     (let writer = BinaryWriter L; writer = ChangeLatencyResponse_serializeBinaryToWriter L this writer
      in getResultBuffer L writer)"

definition ChangeLatencyResponse ::
  "('m, 'w, 'r, 'b) jspb \<Rightarrow> ('m, 'w, 'r, 'b) pbclass" where
  "ChangeLatencyResponse L =
     \<lparr>pc_displayName = ''proto.asphrdaemon.ChangeLatencyResponse'',
      pc_new = ChangeLatencyResponse_new L,
      pc_toObject = ChangeLatencyResponse_toObject L,
      pc_deserializeBinary = ChangeLatencyResponse_deserializeBinary L,
      pc_deserializeBinaryFromReader = ChangeLatencyResponse_deserializeBinaryFromReader L,
      pc_serializeBinaryToWriter = ChangeLatencyResponse_serializeBinaryToWriter L,
      pc_prototype_toObject = ChangeLatencyResponse_prototype_toObject L,
      pc_prototype_serializeBinary = ChangeLatencyResponse_serializeBinary L\<rparr>"

definition ChangeLatencyResponse_proto :: proto_message where
  "ChangeLatencyResponse_proto = Proto ''ChangeLatencyResponse''
     []"

lemmas ChangeLatencyResponse_defs =
  ChangeLatencyResponse_def [abs_def] ChangeLatencyResponse_new_def [abs_def]
  ChangeLatencyResponse_toObject_def [abs_def]
  ChangeLatencyResponse_deserializeBinaryFromReader_def [abs_def]
  ChangeLatencyResponse_serializeBinaryToWriter_def [abs_def]
  ChangeLatencyResponse_proto_def

lemma follows_ChangeLatencyResponse:
  "follows L ChangeLatencyResponse_proto (ChangeLatencyResponse L)"
  by (rule followsI, simp add: ChangeLatencyResponse_defs new_simps,
    simp add: ChangeLatencyResponse_defs Let_def,
    simp add: ChangeLatencyResponse_defs cong: if_cong,
    simp add: ChangeLatencyResponse_defs object_simps,
    simp_all add: ChangeLatencyResponse_def [abs_def]
      ChangeLatencyResponse_prototype_toObject_def [abs_def]
      ChangeLatencyResponse_deserializeBinary_def [abs_def]
      ChangeLatencyResponse_serializeBinary_def [abs_def] Let_def)

section \<open>KillRequest\<close>

definition KillRequest_new ::
  "('m, 'w, 'r, 'b) jspb \<Rightarrow> 'm" where
  "KillRequest_new L = initialize L None"

definition KillRequest_toObject ::
  "('m, 'w, 'r, 'b) jspb \<Rightarrow> bool \<Rightarrow> 'm \<Rightarrow> 'm jsvalue" where
  "KillRequest_toObject L includeInstance msg = JObject
     ([]
      @ (if includeInstance then [(''$jspbMessageInstance'', JMessage msg)] else []))"

definition KillRequest_prototype_toObject ::
  "('m, 'w, 'r, 'b) jspb \<Rightarrow> 'm \<Rightarrow> bool \<Rightarrow> 'm jsvalue" where
  "KillRequest_prototype_toObject L this opt_includeInstance =
     KillRequest_toObject L opt_includeInstance this"

definition KillRequest_deserializeBinaryFromReader ::
  "('m, 'w, 'r, 'b) jspb \<Rightarrow> 'm \<Rightarrow> ('r, 'm) reading" where
  "KillRequest_deserializeBinaryFromReader L = field_loop L (\<lambda>field msg.
        read_then (skipField L) (\<lambda>_. msg))"

definition KillRequest_deserializeBinary ::
  "('m, 'w, 'r, 'b) jspb \<Rightarrow> 'b \<Rightarrow> (js_error + 'm) option" where
  "KillRequest_deserializeBinary L bytes =
     (let reader = BinaryReader L bytes; msg = KillRequest_new L
      in returned (KillRequest_deserializeBinaryFromReader L msg reader))"

definition KillRequest_serializeBinaryToWriter ::
  "('m, 'w, 'r, 'b) jspb \<Rightarrow> 'm \<Rightarrow> 'w \<Rightarrow> 'w" where
  "KillRequest_serializeBinaryToWriter L message writer = writer"

definition KillRequest_serializeBinary ::
  "('m, 'w, 'r, 'b) jspb \<Rightarrow> 'm \<Rightarrow> 'b" where
  "KillRequest_serializeBinary L this =
     (let writer = BinaryWriter L; writer = KillRequest_serializeBinaryToWriter L this writer
      in getResultBuffer L writer)"

definition KillRequest ::
  "('m, 'w, 'r, 'b) jspb \<Rightarrow> ('m, 'w, 'r, 'b) pbclass" where
  "KillRequest L =
     \<lparr>pc_displayName = ''proto.asphrdaemon.KillRequest'',
      pc_new = KillRequest_new L,
      pc_toObject = KillRequest_toObject L,
      pc_deserializeBinary = KillRequest_deserializeBinary L,
      pc_deserializeBinaryFromReader = KillRequest_deserializeBinaryFromReader L,
      pc_serializeBinaryToWriter = KillRequest_serializeBinaryToWriter L,
      pc_prototype_toObject = KillRequest_prototype_toObject L,
      pc_prototype_serializeBinary = KillRequest_serializeBinary L\<rparr>"

definition KillRequest_proto :: proto_message where
  "KillRequest_proto = Proto ''KillRequest''
     []"

lemmas KillRequest_defs =
  KillRequest_def [abs_def] KillRequest_new_def [abs_def] KillRequest_toObject_def [abs_def]
  KillRequest_deserializeBinaryFromReader_def [abs_def]
  KillRequest_serializeBinaryToWriter_def [abs_def]
  KillRequest_proto_def

lemma follows_KillRequest:
  "follows L KillRequest_proto (KillRequest L)"
  by (rule followsI, simp add: KillRequest_defs new_simps,
    simp add: KillRequest_defs Let_def,
    simp add: KillRequest_defs cong: if_cong,
    simp add: KillRequest_defs object_simps,
    simp_all add: KillRequest_def [abs_def]
      KillRequest_prototype_toObject_def [abs_def] KillRequest_deserializeBinary_def [abs_def]
      KillRequest_serializeBinary_def [abs_def] Let_def)

section \<open>KillResponse\<close>

definition KillResponse_new ::
  "('m, 'w, 'r, 'b) jspb \<Rightarrow> 'm" where
  "KillResponse_new L = initialize L None"

definition KillResponse_toObject ::
  "('m, 'w, 'r, 'b) jspb \<Rightarrow> bool \<Rightarrow> 'm \<Rightarrow> 'm jsvalue" where
  "KillResponse_toObject L includeInstance msg = JObject
     ([]
      @ (if includeInstance then [(''$jspbMessageInstance'', JMessage msg)] else []))"

definition KillResponse_prototype_toObject ::
  "('m, 'w, 'r, 'b) jspb \<Rightarrow> 'm \<Rightarrow> bool \<Rightarrow> 'm jsvalue" where
  "KillResponse_prototype_toObject L this opt_includeInstance =
     KillResponse_toObject L opt_includeInstance this"

definition KillResponse_deserializeBinaryFromReader ::
  "('m, 'w, 'r, 'b) jspb \<Rightarrow> 'm \<Rightarrow> ('r, 'm) reading" where
  "KillResponse_deserializeBinaryFromReader L = field_loop L (\<lambda>field msg.
        read_then (skipField L) (\<lambda>_. msg))"

definition KillResponse_deserializeBinary ::
  "('m, 'w, 'r, 'b) jspb \<Rightarrow> 'b \<Rightarrow> (js_error + 'm) option" where
  "KillResponse_deserializeBinary L bytes =
     (let reader = BinaryReader L bytes; msg = KillResponse_new L
      in returned (KillResponse_deserializeBinaryFromReader L msg reader))"

definition KillResponse_serializeBinaryToWriter ::
  "('m, 'w, 'r, 'b) jspb \<Rightarrow> 'm \<Rightarrow> 'w \<Rightarrow> 'w" where
  "KillResponse_serializeBinaryToWriter L message writer = writer"

definition KillResponse_serializeBinary ::
  "('m, 'w, 'r, 'b) jspb \<Rightarrow> 'm \<Rightarrow> 'b" where
  "KillResponse_serializeBinary L this =
     (let writer = BinaryWriter L; writer = KillResponse_serializeBinaryToWriter L this writer
      in getResultBuffer L writer)"

definition KillResponse ::
  "('m, 'w, 'r, 'b) jspb \<Rightarrow> ('m, 'w, 'r, 'b) pbclass" where
  "KillResponse L =
     \<lparr>pc_displayName = ''proto.asphrdaemon.KillResponse'',
      pc_new = KillResponse_new L,
      pc_toObject = KillResponse_toObject L,
      pc_deserializeBinary = KillResponse_deserializeBinary L,
      pc_deserializeBinaryFromReader = KillResponse_deserializeBinaryFromReader L,
      pc_serializeBinaryToWriter = KillResponse_serializeBinaryToWriter L,
      pc_prototype_toObject = KillResponse_prototype_toObject L,
      pc_prototype_serializeBinary = KillResponse_serializeBinary L\<rparr>"

definition KillResponse_proto :: proto_message where
  "KillResponse_proto = Proto ''KillResponse''
     []"

lemmas KillResponse_defs =
  KillResponse_def [abs_def] KillResponse_new_def [abs_def] KillResponse_toObject_def [abs_def]
  KillResponse_deserializeBinaryFromReader_def [abs_def]
  KillResponse_serializeBinaryToWriter_def [abs_def]
  KillResponse_proto_def

lemma follows_KillResponse:
  "follows L KillResponse_proto (KillResponse L)"
  by (rule followsI, simp add: KillResponse_defs new_simps,
    simp add: KillResponse_defs Let_def,
    simp add: KillResponse_defs cong: if_cong,
    simp add: KillResponse_defs object_simps,
    simp_all add: KillResponse_def [abs_def]
      KillResponse_prototype_toObject_def [abs_def] KillResponse_deserializeBinary_def [abs_def]
      KillResponse_serializeBinary_def [abs_def] Let_def)

end
