(* ===== verification/Wire.thy ===== *)
theory Wire imports ProtoSchema "HOL-Library.Word" begin

text \<open>
  The binary format of protocol buffers, byte by byte, as an instance of the package's interface:
  messages are lists of fields, writers and buffers are lists of bytes, and a reader is the bytes it
  has before it with the field it is on. It meets the laws of \<open>jspb_codec\<close> and \<open>jspb_progress\<close>, so
  these laws are consistent, and what they give for the generated classes can be evaluated on
  concrete bytes.
\<close>

section \<open>Numbers and strings\<close>

type_synonym byte = "8 word"

definition byte_of :: "nat \<Rightarrow> byte" where "byte_of k = word_of_nat k"

lemma unat_byte_of [simp]: "k < 256 \<Longrightarrow> unat (byte_of k) = k"
  by (simp add: byte_of_def unat_of_nat)

text \<open>Groups of seven bits, the lowest first; a set high bit says that more follow.\<close>

fun varint :: "nat \<Rightarrow> byte list" where
  "varint n = (if n < 128 then [byte_of n] else byte_of (n mod 128 + 128) # varint (n div 128))"

declare varint.simps [simp del]

fun unvarint :: "byte list \<Rightarrow> (nat \<times> byte list) option" where
  "unvarint [] = None"
| "unvarint (b # bs) =
     (if unat b < 128 then Some (unat b, bs)
      else (case unvarint bs of None \<Rightarrow> None | Some (m, rest) \<Rightarrow> Some (unat b - 128 + 128 * m, rest)))"

lemma unvarint_varint [simp]: "unvarint (varint n @ bs) = Some (n, bs)"
proof (induction n rule: varint.induct)
  case (1 n)
  show ?case
  proof (cases "n < 128")
    case True
    then show ?thesis by (simp add: varint.simps [of n])
  next
    case False
    have "n mod 128 + 128 < 256" by simp
    with False 1 show ?thesis by (simp add: varint.simps [of n] del: One_nat_def)
  qed
qed

lemma unvarint_shorter: "unvarint bs = Some (n, rest) \<Longrightarrow> length rest < length bs"
  by (induction bs arbitrary: n rest) (fastforce split: if_splits option.splits)+

lemma varint_not_Nil [simp]: "varint n \<noteq> []"
  by (subst varint.simps) simp

text \<open>UTF-8 for the characters of the model, which are those of Latin-1.\<close>

definition utf8_char :: "char \<Rightarrow> byte list" where
  "utf8_char c = (let k = of_char c in
     if k < 128 then [byte_of k] else [byte_of (192 + k div 64), byte_of (128 + k mod 64)])"

definition utf8 :: "string \<Rightarrow> byte list" where
  "utf8 s = concat (map utf8_char s)"

fun unutf8 :: "byte list \<Rightarrow> string option" where
  "unutf8 [] = Some []"
| "unutf8 (b # bs) =
     (if unat b < 128 then map_option (Cons (char_of (unat b))) (unutf8 bs)
      else (case bs of
              [] \<Rightarrow> None
            | c # cs \<Rightarrow> map_option (Cons (char_of ((unat b - 192) * 64 + (unat c - 128)))) (unutf8 cs)))"

lemma unutf8_char: "unutf8 (utf8_char c @ bs) = map_option (Cons c) (unutf8 bs)"
proof (cases "(of_char c :: nat) < 128")
  case True
  then show ?thesis by (simp add: utf8_char_def)
next
  case False
  define k :: nat where "k = of_char c"
  have k: "\<not> k < 128" "char_of k = c" and "k < 256"
    using False by (simp_all add: k_def)
  then have "192 + k div 64 < 256" "128 + k mod 64 < (256 :: nat)"
    by (simp_all add: less_mult_imp_div_less)
  moreover have "k div 64 * 64 + k mod 64 = k"
    by simp
  ultimately show ?thesis
    using k by (simp add: utf8_char_def Let_def flip: k_def)
qed

lemma unutf8_utf8 [simp]: "unutf8 (utf8 s) = Some s"
  by (induction s) (simp_all add: utf8_def unutf8_char)

text \<open>Integers are written as 64 bits in two's complement; a reader of 32 bits takes the low ones.\<close>

definition bits64 :: "int \<Rightarrow> nat" where
  "bits64 i = nat (i mod 2 ^ 64)"

definition signed32 :: "nat \<Rightarrow> int" where
  "signed32 k = (let j = int (k mod 2 ^ 32) in if j < 2 ^ 31 then j else j - 2 ^ 32)"

definition signed64 :: "nat \<Rightarrow> int" where
  "signed64 k = (let j = int (k mod 2 ^ 64) in if j < 2 ^ 63 then j else j - 2 ^ 64)"

definition int64 :: "int \<Rightarrow> bool" where
  "int64 i \<longleftrightarrow> - (2 ^ 63) \<le> i \<and> i < 2 ^ 63"

lemma mod_negative: "- N \<le> i \<Longrightarrow> i < 0 \<Longrightarrow> i mod N = i + (N :: int)"
  using mod_pos_pos_trivial [of "i + N" N] by simp

lemma mod_signed:
  "- N \<le> i \<Longrightarrow> i < N \<Longrightarrow> i mod N = (if i < 0 then i + N else (i :: int))"
  by (simp add: mod_negative)

lemma signed64_bits64 [simp]: "int64 i \<Longrightarrow> signed64 (bits64 i) = i"
  using mod_signed [of "2 ^ 64" i]
  by (auto simp: signed64_def bits64_def int64_def Let_def zmod_int)

lemma signed32_bits64 [simp]:
  assumes "int32 i"
  shows "signed32 (bits64 i) = i"
proof -
  have "int (bits64 i mod 2 ^ 32) = i mod 2 ^ 32"
    by (simp add: bits64_def zmod_int mod_mod_cancel)
  then show ?thesis
    using assms mod_signed [of "2 ^ 32" i] by (auto simp: signed32_def int32_def Let_def)
qed

section \<open>Fields\<close>

fun wire_type :: "wire_value \<Rightarrow> nat" where
  "wire_type (WString s) = 2"
| "wire_type (WMessage gs) = 2"
| "wire_type _ = 0"

definition tag :: "nat \<Rightarrow> nat \<Rightarrow> byte list" where
  "tag n t = varint (n * 8 + t)"

definition delimited :: "byte list \<Rightarrow> byte list" where
  "delimited bs = varint (length bs) @ bs"

fun payload :: "wire_value \<Rightarrow> byte list" and enc :: "(nat \<times> wire_value) list \<Rightarrow> byte list" where
  "payload (WString s) = delimited (utf8 s)"
| "payload (WInt32 i) = varint (bits64 i)"
| "payload (WInt64 i) = varint (bits64 i)"
| "payload (WEnum i) = varint (bits64 i)"
| "payload (WBool b) = varint (if b then 1 else 0)"
| "payload (WMessage gs) = delimited (enc gs)"
| "enc [] = []"
| "enc ((n, v) # fs) = tag n (wire_type v) @ payload v @ enc fs"

fun valid_value :: "wire_value \<Rightarrow> bool" and valid :: "(nat \<times> wire_value) list \<Rightarrow> bool" where
  "valid_value (WString s) = True"
| "valid_value (WInt32 i) = int32 i"
| "valid_value (WInt64 i) = int64 i"
| "valid_value (WEnum i) = int32 i"
| "valid_value (WBool b) = True"
| "valid_value (WMessage gs) = valid gs"
| "valid [] = True"
| "valid ((n, v) # fs) = (field_number n \<and> valid_value v \<and> valid fs)"

lemma enc_append [simp]: "enc (fs @ gs) = enc fs @ enc gs"
  by (induction fs) auto

lemma valid_append [simp]: "valid (fs @ gs) \<longleftrightarrow> valid fs \<and> valid gs"
  by (induction fs) auto

section \<open>Messages\<close>

datatype wmsg = WMsg (wfields: "(nat \<times> wmsg pbvalue) list")

definition wview :: "wmsg \<Rightarrow> nat \<Rightarrow> wmsg pbvalue option" where
  "wview m = map_of (wfields m)"

definition wput :: "wmsg \<Rightarrow> nat \<Rightarrow> wmsg pbvalue option \<Rightarrow> wmsg" where
  "wput m n v = WMsg ((case v of None \<Rightarrow> [] | Some x \<Rightarrow> [(n, x)]) @ filter (\<lambda>(k, _). k \<noteq> n) (wfields m))"

lemma wview_wput [simp]: "wview (wput m n v) = (wview m)(n := v)"
proof
  fix k
  have "map_of (filter (\<lambda>(k, _). k \<noteq> n) fs) k = (if k = n then None else map_of fs k)"
    for fs :: "(nat \<times> wmsg pbvalue) list"
    by (induction fs) auto
  then show "wview (wput m n v) k = ((wview m)(n := v)) k"
    by (cases v) (auto simp: wview_def wput_def)
qed

section \<open>Readers\<close>

record wreader =
  rd_bytes :: "byte list"
  rd_field :: nat
  rd_wire :: nat

definition wreader_of :: "byte list \<Rightarrow> wreader" where
  "wreader_of bs = \<lparr>rd_bytes = bs, rd_field = 0, rd_wire = 0\<rparr>"

definition wfail :: "(js_error + 'a \<times> wreader) option" where
  "wfail = Some (Inl (JsError ''malformed input''))"

definition wnext :: "(wreader, bool) reading" where
  "wnext r = (if rd_bytes r = [] then Some (Inr (False, r))
     else (case unvarint (rd_bytes r) of
             None \<Rightarrow> wfail
           | Some (t, rest) \<Rightarrow> Some (Inr (True, \<lparr>rd_bytes = rest, rd_field = t div 8, rd_wire = t mod 8\<rparr>))))"

definition wvarint :: "(wreader, nat) reading" where
  "wvarint r = (case unvarint (rd_bytes r) of
     None \<Rightarrow> wfail | Some (k, rest) \<Rightarrow> Some (Inr (k, r\<lparr>rd_bytes := rest\<rparr>)))"

definition wdelimited :: "(wreader, byte list) reading" where
  "wdelimited r = (case unvarint (rd_bytes r) of
     None \<Rightarrow> wfail
   | Some (k, rest) \<Rightarrow>
       if length rest < k then wfail else Some (Inr (take k rest, r\<lparr>rd_bytes := drop k rest\<rparr>)))"

definition wnumber :: "(nat \<Rightarrow> 'a) \<Rightarrow> (wreader, 'a) reading" where
  "wnumber f r = (if rd_wire r = 0 then read_then wvarint f r else wfail)"

definition wstring :: "(wreader, string) reading" where
  "wstring r = (if rd_wire r \<noteq> 2 then wfail
     else (case wdelimited r of
             Some (Inr (bs, r')) \<Rightarrow> (case unutf8 bs of None \<Rightarrow> wfail | Some s \<Rightarrow> Some (Inr (s, r')))
           | _ \<Rightarrow> wfail))"

definition wmessage :: "wmsg \<Rightarrow> (wmsg \<Rightarrow> (wreader, wmsg) reading) \<Rightarrow> (wreader, wmsg) reading" where
  "wmessage x get r = (if rd_wire r \<noteq> 2 then wfail
     else (case wdelimited r of
             Some (Inr (bs, r')) \<Rightarrow>
               (case get x (wreader_of bs) of
                  None \<Rightarrow> None
                | Some (Inl e) \<Rightarrow> Some (Inl e)
                | Some (Inr (x', _)) \<Rightarrow> Some (Inr (x', r')))
           | _ \<Rightarrow> wfail))"

definition wskip :: "(wreader, unit) reading" where
  "wskip r =
     (if rd_wire r = 0 then read_then wvarint (\<lambda>_. ()) r
      else if rd_wire r = 2 then read_then wdelimited (\<lambda>_. ()) r
      else wfail)"

section \<open>The instance\<close>

text \<open>The library without time stamps, then the class of time stamps written with it.\<close>

definition wire_base ::
  "(wmsg, byte list, wreader, byte list) pbclass \<Rightarrow> (wmsg, byte list, wreader, byte list) jspb" where
  "wire_base timestamp =
     \<lparr>initialize = (\<lambda>_. WMsg []),
      getField_string = (\<lambda>m n. case wview m n of Some (VString s) \<Rightarrow> Some s | _ \<Rightarrow> None),
      getField_set = (\<lambda>m n. wview m n \<noteq> None),
      getFieldWithDefault_string = (\<lambda>m n d. case wview m n of Some (VString s) \<Rightarrow> s | _ \<Rightarrow> d),
      getFieldWithDefault_number = (\<lambda>m n d. case wview m n of Some (VNumber i) \<Rightarrow> i | _ \<Rightarrow> d),
      getBooleanFieldWithDefault = (\<lambda>m n d. case wview m n of Some (VBoolean b) \<Rightarrow> b | _ \<Rightarrow> d),
      getRepeatedField = (\<lambda>m n. strings_in (wview m n)),
      getWrapperField = (\<lambda>m n. case wview m n of Some (VMessage x) \<Rightarrow> Some x | _ \<Rightarrow> None),
      getRepeatedWrapperField = (\<lambda>m n. messages_in (wview m n)),
      setField_string = (\<lambda>m n s. wput m n (map_option VString s)),
      setField_list = (\<lambda>m n l. wput m n (Some (VStrings l))),
      setProto3StringField = (\<lambda>m n s. wput m n (if s = [] then None else Some (VString s))),
      setProto3IntField = (\<lambda>m n i. wput m n (if i = 0 then None else Some (VNumber i))),
      setProto3EnumField = (\<lambda>m n i. wput m n (if i = 0 then None else Some (VNumber i))),
      setProto3BooleanField = (\<lambda>m n b. wput m n (if b then Some (VBoolean b) else None)),
      setWrapperField = (\<lambda>m n x. wput m n (map_option VMessage x)),
      setRepeatedWrapperField = (\<lambda>m n xs. wput m n (Some (VMessages xs))),
      addToRepeatedField = (\<lambda>m n s i. let l = strings_in (wview m n); k = (case i of None \<Rightarrow> length l | Some k \<Rightarrow> k)
        in wput m n (Some (VStrings (take k l @ [s] @ drop k l)))),
      addToRepeatedWrapperField = (\<lambda>m n x d i. let l = messages_in (wview m n); y = (case x of None \<Rightarrow> d | Some x \<Rightarrow> x);
          k = (case i of None \<Rightarrow> length l | Some k \<Rightarrow> k)
        in (y, wput m n (Some (VMessages (take k l @ [y] @ drop k l))))),
      toObjectList = (\<lambda>xs obj incl. JArray (map (obj incl) xs)),
      BinaryWriter = [],
      writeString = (\<lambda>n s w. w @ enc [(n, WString s)]),
      writeInt32 = (\<lambda>n i w. w @ enc [(n, WInt32 i)]),
      writeEnum = (\<lambda>n i w. w @ enc [(n, WEnum i)]),
      writeBool = (\<lambda>n b w. w @ enc [(n, WBool b)]),
      writeRepeatedString = (\<lambda>n l w. w @ enc (map (\<lambda>s. (n, WString s)) l)),
      writeMessage = (\<lambda>n x put w. w @ tag n 2 @ delimited (put x [])),
      writeRepeatedMessage = (\<lambda>n xs put w. w @ concat (map (\<lambda>x. tag n 2 @ delimited (put x [])) xs)),
      getResultBuffer = (\<lambda>w. w),
      BinaryReader = wreader_of,
      nextField = wnext,
      isEndGroup = (\<lambda>r. rd_wire r = 4),
      getFieldNumber = rd_field,
      readString = wstring,
      readInt32 = wnumber signed32,
      readEnum = wnumber signed32,
      readBool = wnumber (\<lambda>k. k \<noteq> 0),
      readMessage = wmessage,
      skipField = wskip,
      Timestamp = timestamp\<rparr>"

text \<open>\<open>google.protobuf.Timestamp\<close>: \<open>int64 seconds = 1; int32 nanos = 2\<close>.\<close>

definition number_in :: "wmsg pbvalue option \<Rightarrow> int" where
  "number_in v = (case v of Some (VNumber i) \<Rightarrow> i | _ \<Rightarrow> 0)"

definition stamp_fields :: "wmsg \<Rightarrow> (nat \<times> wire_value) list" where
  "stamp_fields m =
     (let s = number_in (wview m 1) in if s = 0 then [] else [(1, WInt64 s)])
     @ (let n = number_in (wview m 2) in if n = 0 then [] else [(2, WInt32 n)])"

definition stamp_switch :: "nat \<Rightarrow> wmsg \<Rightarrow> (wreader, wmsg) reading" where
  "stamp_switch field m =
     (if field = 1 then read_then (wnumber signed64) (\<lambda>v. wput m 1 (Some (VNumber v)))
      else if field = 2 then read_then (wnumber signed32) (\<lambda>v. wput m 2 (Some (VNumber v)))
      else read_then wskip (\<lambda>_. m))"

definition stamp_object :: "bool \<Rightarrow> wmsg \<Rightarrow> wmsg jsvalue" where
  "stamp_object incl m = JObject ([(''seconds'', JNumber (number_in (wview m 1))),
      (''nanos'', JNumber (number_in (wview m 2)))]
     @ (if incl then [(''$jspbMessageInstance'', JMessage m)] else []))"

definition no_Timestamp :: "(wmsg, byte list, wreader, byte list) pbclass" where
  "no_Timestamp =
     \<lparr>pc_displayName = [], pc_new = WMsg [], pc_toObject = (\<lambda>incl m. JUndefined),
      pc_deserializeBinary = (\<lambda>bs. None), pc_deserializeBinaryFromReader = (\<lambda>m r. wfail),
      pc_serializeBinaryToWriter = (\<lambda>m w. w), pc_prototype_toObject = (\<lambda>m incl. JUndefined),
      pc_prototype_serializeBinary = (\<lambda>m. [])\<rparr>"

definition stamp_read :: "wmsg \<Rightarrow> (wreader, wmsg) reading" where
  "stamp_read = field_loop (wire_base no_Timestamp) stamp_switch"

definition wire_Timestamp :: "(wmsg, byte list, wreader, byte list) pbclass" where
  "wire_Timestamp =
     \<lparr>pc_displayName = ''proto.google.protobuf.Timestamp'',
      pc_new = WMsg [],
      pc_toObject = stamp_object,
      pc_deserializeBinary = (\<lambda>bs. returned (stamp_read (WMsg []) (wreader_of bs))),
      pc_deserializeBinaryFromReader = stamp_read,
      pc_serializeBinaryToWriter = (\<lambda>m w. w @ enc (stamp_fields m)),
      pc_prototype_toObject = (\<lambda>m incl. stamp_object incl m),
      pc_prototype_serializeBinary = (\<lambda>m. enc (stamp_fields m))\<rparr>"

definition wire :: "(wmsg, byte list, wreader, byte list) jspb" where
  "wire = wire_base wire_Timestamp"

definition stamp_ok :: "wmsg \<Rightarrow> bool" where
  "stamp_ok m \<longleftrightarrow> int64 (number_in (wview m 1)) \<and> int32 (number_in (wview m 2))"

section \<open>The laws hold\<close>

lemma wire_base_simps [simp]:
  "nextField (wire_base T) = wnext"
  "isEndGroup (wire_base T) = (\<lambda>r. rd_wire r = 4)"
  "getFieldNumber (wire_base T) = rd_field"
  "readString (wire_base T) = wstring"
  "readInt32 (wire_base T) = wnumber signed32"
  "readEnum (wire_base T) = wnumber signed32"
  "readBool (wire_base T) = wnumber (\<lambda>k. k \<noteq> 0)"
  "readMessage (wire_base T) = wmessage"
  "skipField (wire_base T) = wskip"
  "BinaryReader (wire_base T) = wreader_of"
  "getResultBuffer (wire_base T) = (\<lambda>w. w)"
  "Timestamp (wire_base T) = T"
  by (simp_all add: wire_base_def)

lemma wire_message_laws: "jspb_message (wire_base T) wview"
  by unfold_locales
    (auto simp: wire_base_def wview_def [of "WMsg []"] strings_in_def messages_in_def
      split: option.splits pbvalue.splits)

definition wire_wrote :: "byte list \<Rightarrow> (nat \<times> wire_value) list \<Rightarrow> bool" where
  "wire_wrote w fs \<longleftrightarrow> w = enc fs \<and> valid fs"

definition wire_reads :: "wreader \<Rightarrow> (nat \<times> wire_value) list \<Rightarrow> bool" where
  "wire_reads r fs \<longleftrightarrow> rd_bytes r = enc fs \<and> valid fs"

definition wire_on :: "wreader \<Rightarrow> nat \<Rightarrow> wire_value \<Rightarrow> (nat \<times> wire_value) list \<Rightarrow> bool" where
  "wire_on r n v fs \<longleftrightarrow>
     rd_field r = n \<and> rd_wire r = wire_type v \<and> rd_bytes r = payload v @ enc fs \<and> valid_value v \<and> valid fs"

lemmas wire_rel_defs = wire_wrote_def wire_reads_def wire_on_def

lemma wire_type_lt: "wire_type v < 8"
  by (cases v) simp_all

lemma enc_not_Nil [simp]: "enc ((n, v) # fs) \<noteq> []"
  by (simp add: tag_def)

lemma wnext_field:
  assumes "wire_reads r ((n, v) # fs)"
  shows "\<exists>r'. wnext r = Some (Inr (True, r')) \<and> wire_on r' n v fs"
  using assms wire_type_lt [of v] enc_not_Nil [of n v fs]
  by (auto simp: wnext_def wire_rel_defs tag_def simp del: enc_not_Nil)

lemma unvarint_delimited: "unvarint (delimited bs @ rest) = Some (length bs, bs @ rest)"
  by (simp add: delimited_def)

lemma wnumber_field:
  assumes "wire_on r n v fs" and "payload v = varint k" and "wire_type v = 0"
  shows "\<exists>r'. wnumber f r = Some (Inr (f k, r')) \<and> wire_reads r' fs"
  using assms by (auto simp: wnumber_def wvarint_def read_then_def wire_rel_defs)

lemma wstring_field:
  assumes "wire_on r n (WString s) fs"
  shows "\<exists>r'. wstring r = Some (Inr (s, r')) \<and> wire_reads r' fs"
  using assms by (auto simp: wstring_def wdelimited_def wire_rel_defs unvarint_delimited)

lemma wmessage_field:
  assumes "wire_on r n (WMessage gs) fs"
    and "\<And>r1. wire_reads r1 gs \<Longrightarrow> \<exists>r2. get x r1 = Some (Inr (x', r2)) \<and> wire_reads r2 []"
  shows "\<exists>r'. wmessage x get r = Some (Inr (x', r')) \<and> wire_reads r' fs"
proof -
  have "wire_reads (wreader_of (enc gs)) gs"
    using assms(1) by (simp add: wire_rel_defs wreader_of_def)
  with assms show ?thesis
    by (fastforce simp: wmessage_def wdelimited_def wire_rel_defs unvarint_delimited)
qed

lemma wskip_field:
  assumes "wire_on r n v fs"
  shows "\<exists>r'. wskip r = Some (Inr ((), r')) \<and> wire_reads r' fs"
  using assms
  by (cases v) (auto simp: wskip_def wvarint_def wdelimited_def read_then_def wire_rel_defs unvarint_delimited)

lemma wire_codec_laws:
  assumes "\<And>x. stamp x \<Longrightarrow>
       \<exists>gs x'. (\<forall>w fs. wire_wrote w fs \<longrightarrow> wire_wrote (pc_serializeBinaryToWriter T x w) (fs @ gs))
         \<and> (\<forall>r. wire_reads r gs \<longrightarrow>
              (\<exists>r'. pc_deserializeBinaryFromReader T (pc_new T) r = Some (Inr (x', r')) \<and> wire_reads r' []))
         \<and> stamp x' \<and> pc_toObject T False x' = pc_toObject T False x"
  shows "jspb_codec (wire_base T) wview wire_wrote wire_reads wire_on stamp"
proof (rule jspb_codec.intro [OF wire_message_laws], rule jspb_codec_axioms.intro)
  fix w :: "byte list" and fs n and xs :: "wmsg list" and gss put
  assume w: "wire_wrote w fs" and n: "field_number n"
    and "list_all2 (\<lambda>x gs. \<forall>w' fs'. wire_wrote w' fs' \<longrightarrow> wire_wrote (put x w') (fs' @ gs)) xs gss"
  from this(3) have "concat (map (\<lambda>x. tag n 2 @ delimited (put x [])) xs) = enc (map (\<lambda>gs. (n, WMessage gs)) gss)
      \<and> valid (map (\<lambda>gs. (n, WMessage gs)) gss)"
  proof (induction xs gss rule: list_all2_induct)
    case (Cons x xs gs gss)
    have "wire_wrote (put x []) gs"
      using Cons(1) [rule_format, of "[]" "[]"] by (simp add: wire_wrote_def)
    with Cons n show ?case by (simp add: wire_wrote_def)
  qed simp
  with w show "wire_wrote (writeRepeatedMessage (wire_base T) n xs put w) (fs @ map (\<lambda>gs. (n, WMessage gs)) gss)"
    by (simp add: wire_base_def wire_wrote_def)
next
  fix w fs n x gs and put :: "wmsg \<Rightarrow> byte list \<Rightarrow> byte list"
  assume "wire_wrote w fs" "field_number n" "\<And>w' fs'. wire_wrote w' fs' \<Longrightarrow> wire_wrote (put x w') (fs' @ gs)"
  moreover from this(3) [of "[]" "[]"] have "wire_wrote (put x []) gs"
    by (simp add: wire_wrote_def)
  ultimately show "wire_wrote (writeMessage (wire_base T) n x put w) (fs @ [(n, WMessage gs)])"
    by (simp add: wire_base_def wire_wrote_def)
next
  fix w fs n l
  assume "wire_wrote w fs" "field_number n"
  moreover from this(2) have "valid (map (\<lambda>s. (n, WString s)) l)"
    by (induction l) simp_all
  ultimately show "wire_wrote (writeRepeatedString (wire_base T) n l w) (fs @ map (\<lambda>s. (n, WString s)) l)"
    by (simp add: wire_base_def wire_wrote_def)
next
  fix r n v fs
  assume "wire_on r n v fs"
  then show "\<not> isEndGroup (wire_base T) r \<and> getFieldNumber (wire_base T) r = n"
    by (cases v) (simp_all add: wire_base_def wire_on_def)
next
  fix r n i fs
  assume r: "wire_on r n (WInt32 i) fs"
  then have "int32 i" by (simp add: wire_on_def)
  with wnumber_field [OF r, of "bits64 i" signed32] show "\<exists>r'. readInt32 (wire_base T) r = Some (Inr (i, r')) \<and> wire_reads r' fs"
    by simp
next
  fix r n i fs
  assume r: "wire_on r n (WEnum i) fs"
  then have "int32 i" by (simp add: wire_on_def)
  with wnumber_field [OF r, of "bits64 i" signed32] show "\<exists>r'. readEnum (wire_base T) r = Some (Inr (i, r')) \<and> wire_reads r' fs"
    by simp
next
  fix r n b fs
  assume r: "wire_on r n (WBool b) fs"
  show "\<exists>r'. readBool (wire_base T) r = Some (Inr (b, r')) \<and> wire_reads r' fs"
    using wnumber_field [OF r, of "if b then 1 else 0" "\<lambda>k. k \<noteq> 0"] by (cases b) simp_all
next
  fix r assume "wire_reads r []"
  then show "\<exists>r'. nextField (wire_base T) r = Some (Inr (False, r')) \<and> wire_reads r' []"
    by (simp add: wnext_def wire_reads_def)
next
  fix w fs assume "wire_wrote w fs"
  then show "wire_reads (BinaryReader (wire_base T) (getResultBuffer (wire_base T) w)) fs"
    by (simp add: wire_wrote_def wire_reads_def wreader_of_def)
qed (use assms in \<open>simp_all add: wire_wrote_def [of "_ @ _"] wnext_field wstring_field wskip_field wmessage_field\<close>,
  simp_all add: wire_base_def wire_wrote_def)

text \<open>Time stamps are read with the laws of the library that does not have any yet.\<close>

interpretation base: jspb_codec "wire_base no_Timestamp" wview wire_wrote wire_reads wire_on "\<lambda>_. False"
  by (rule wire_codec_laws) simp

lemma number_in_simps [simp]: "number_in None = 0" "number_in (Some (VNumber i)) = i"
  by (simp_all add: number_in_def)

lemma stamp_decodes:
  assumes "stamp_ok x"
  shows "\<exists>x'. base.decodes stamp_switch (WMsg []) (stamp_fields x) x'
    \<and> number_in (wview x' 1) = number_in (wview x 1) \<and> number_in (wview x' 2) = number_in (wview x 2)"
proof -
  let ?s = "number_in (wview x 1)" and ?n = "number_in (wview x 2)"
  let ?m1 = "if ?s = 0 then WMsg [] else wput (WMsg []) 1 (Some (VNumber ?s))"
  let ?m2 = "if ?n = 0 then ?m1 else wput ?m1 2 (Some (VNumber ?n))"
  have "base.decodes stamp_switch (WMsg []) [(1, WInt64 ?s)] (wput (WMsg []) 1 (Some (VNumber ?s)))"
  proof (rule base.decodes_one)
    fix r fs assume r: "wire_on r 1 (WInt64 ?s) fs"
    then show "\<exists>r'. stamp_switch 1 (WMsg []) r = Some (Inr (wput (WMsg []) 1 (Some (VNumber ?s)), r'))
        \<and> wire_reads r' fs"
      using wnumber_field [OF r, of "bits64 ?s" signed64] assms
      by (auto simp: stamp_switch_def stamp_ok_def)
  qed
  then have 1: "base.decodes stamp_switch (WMsg []) (if ?s = 0 then [] else [(1, WInt64 ?s)]) ?m1"
    by simp
  have "base.decodes stamp_switch ?m1 [(2, WInt32 ?n)] (wput ?m1 2 (Some (VNumber ?n)))"
  proof (rule base.decodes_one)
    fix r fs assume r: "wire_on r 2 (WInt32 ?n) fs"
    then show "\<exists>r'. stamp_switch 2 ?m1 r = Some (Inr (wput ?m1 2 (Some (VNumber ?n)), r')) \<and> wire_reads r' fs"
      using wnumber_field [OF r, of "bits64 ?n" signed32] assms
      by (auto simp: stamp_switch_def stamp_ok_def)
  qed
  then have 2: "base.decodes stamp_switch ?m1 (if ?n = 0 then [] else [(2, WInt32 ?n)]) ?m2"
    by simp
  have "base.decodes stamp_switch (WMsg []) (stamp_fields x) ?m2"
    using base.decodes_append [OF 1 2] by (simp only: stamp_fields_def Let_def)
  moreover have "wview (WMsg []) = (\<lambda>_. None)"
    by (simp add: wview_def)
  ultimately show ?thesis
    by (intro exI [of _ ?m2]) simp
qed

interpretation wire: jspb_codec wire wview wire_wrote wire_reads wire_on stamp_ok
  unfolding wire_def
proof (rule wire_codec_laws)
  fix x assume x: "stamp_ok x"
  obtain x' where x': "base.decodes stamp_switch (WMsg []) (stamp_fields x) x'"
    "number_in (wview x' 1) = number_in (wview x 1)" "number_in (wview x' 2) = number_in (wview x 2)"
    using stamp_decodes [OF x] by blast
  have "valid (stamp_fields x)"
    using x by (simp add: stamp_fields_def stamp_ok_def field_number_def Let_def)
  with x x' base.decodes_finish [OF x'(1)]
  show "\<exists>gs x'. (\<forall>w fs. wire_wrote w fs \<longrightarrow> wire_wrote (pc_serializeBinaryToWriter wire_Timestamp x w) (fs @ gs))
         \<and> (\<forall>r. wire_reads r gs \<longrightarrow>
              (\<exists>r'. pc_deserializeBinaryFromReader wire_Timestamp (pc_new wire_Timestamp) r
                 = Some (Inr (x', r')) \<and> wire_reads r' []))
         \<and> stamp_ok x' \<and> pc_toObject wire_Timestamp False x' = pc_toObject wire_Timestamp False x"
    by (intro exI [of _ "stamp_fields x"] exI [of _ x'])
      (auto simp: wire_Timestamp_def stamp_read_def stamp_object_def stamp_ok_def wire_wrote_def)
qed

section \<open>Readers move forward\<close>

definition wrank :: "wreader \<Rightarrow> nat" where
  "wrank r = length (rd_bytes r)"

lemma bounded_wvarint: "bounded wrank wvarint"
  by (auto simp: bounded_def wvarint_def wrank_def wfail_def dest: unvarint_shorter split: option.splits)

lemma bounded_wdelimited: "bounded wrank wdelimited"
  by (fastforce simp: bounded_def wdelimited_def wrank_def wfail_def dest: unvarint_shorter
      split: option.splits if_splits)

lemma bounded_wnumber: "bounded wrank (wnumber f)"
  using bounded_read_then [OF bounded_wvarint, of f]
  by (auto simp: bounded_def wnumber_def wfail_def)

lemma bounded_wstring: "bounded wrank wstring"
  using bounded_wdelimited
  by (fastforce simp: bounded_def wstring_def wfail_def split: option.splits sum.splits)

lemma bounded_wfail: "bounded wrank (\<lambda>_. wfail)"
  by (simp add: bounded_def wfail_def)

lemma bounded_wskip: "bounded wrank wskip"
  unfolding wskip_def [abs_def]
  by (intro bounded_if bounded_read_then bounded_wvarint bounded_wdelimited bounded_wfail)

lemma bounded_wnext: "bounded wrank wnext"
  by (fastforce simp: bounded_def wnext_def wrank_def wfail_def dest: unvarint_shorter
      split: option.splits if_splits)

lemma wnext_advances: "wnext r = Some (Inr (True, r')) \<Longrightarrow> wrank r' < wrank r"
  by (fastforce simp: wnext_def wrank_def wfail_def dest: unvarint_shorter split: option.splits if_splits)

lemma bounded_wmessage:
  assumes "\<And>y. bounded wrank (get y)"
  shows "bounded wrank (wmessage x get)"
proof -
  have "wmessage x get r \<noteq> None
      \<and> (\<forall>v r'. wmessage x get r = Some (Inr (v, r')) \<longrightarrow> wrank r' \<le> wrank r)" for r
    using bounded_wdelimited
  proof (cases rule: boundedE [where r = r])
    case (Throws e)
    then show ?thesis by (simp add: wmessage_def wfail_def)
  next
    case (Reads bs r')
    from assms [of x] Reads show ?thesis
      by (cases rule: boundedE [where r = "wreader_of bs"]) (simp_all add: wmessage_def wfail_def)
  qed
  then show ?thesis by (simp add: bounded_def)
qed

lemmas bounded_w = bounded_wnext wnext_advances bounded_wstring bounded_wnumber bounded_wskip bounded_wmessage

lemma wire_progress_laws:
  assumes "\<And>x. bounded wrank (pc_deserializeBinaryFromReader T x)"
  shows "jspb_progress (wire_base T) wrank"
  by unfold_locales (simp_all add: bounded_w assms)

interpretation base_progress: jspb_progress "wire_base no_Timestamp" wrank
  by (rule wire_progress_laws) (simp add: no_Timestamp_def bounded_wfail)

interpretation wire_progress: jspb_progress wire wrank
  unfolding wire_def
proof (rule wire_progress_laws)
  have "bounded wrank (stamp_switch n m)" for n m
    by (simp add: stamp_switch_def [abs_def] bounded_read_then bounded_wnumber bounded_wskip)
  then show "bounded wrank (pc_deserializeBinaryFromReader wire_Timestamp x)" for x
    using base_progress.bounded_field_loop by (simp add: wire_Timestamp_def stamp_read_def)
qed

end
