(* ===== verification/PbCodec.thy ===== *)
theory PbCodec imports PbIdentity PbInvitations PbMessages PbStatus Wire begin

text \<open>
  All the classes of \<open>daemon/schema/daemon_pb.js\<close> together, each with the message of
  \<open>asphr/schema/daemon.proto\<close> that it stands for, and what follows from the reference codec for each
  of them.
\<close>

definition InvitationProgress_values :: "(string \<times> int) list" where
  "InvitationProgress_values = [(''OUTGOINGASYNC'', 0), (''OUTGOINGSYNC'', 1), (''COMPLETE'', 2)]"

definition pb_classes ::
  "('m, 'w, 'r, 'b) jspb \<Rightarrow> (proto_message \<times> ('m, 'w, 'r, 'b) pbclass) list" where
  "pb_classes L =
     [(AcceptAsyncInvitationRequest_proto, AcceptAsyncInvitationRequest L),
      (AcceptAsyncInvitationResponse_proto, AcceptAsyncInvitationResponse L),
      (AddAsyncFriendRequest_proto, AddAsyncFriendRequest L),
      (AddAsyncFriendResponse_proto, AddAsyncFriendResponse L),
      (AddSyncFriendRequest_proto, AddSyncFriendRequest L),
      (AddSyncFriendResponse_proto, AddSyncFriendResponse L),
      (CancelAsyncInvitationRequest_proto, CancelAsyncInvitationRequest L),
      (CancelAsyncInvitationResponse_proto, CancelAsyncInvitationResponse L),
      (ChangeLatencyRequest_proto, ChangeLatencyRequest L),
      (ChangeLatencyResponse_proto, ChangeLatencyResponse L),
      (FriendInfo_proto, FriendInfo L),
      (GetFriendListRequest_proto, GetFriendListRequest L),
      (GetFriendListResponse_proto, GetFriendListResponse L),
      (GetIncomingAsyncInvitationsRequest_proto, GetIncomingAsyncInvitationsRequest L),
      (GetIncomingAsyncInvitationsResponse_proto, GetIncomingAsyncInvitationsResponse L),
      (IncomingAsyncInvitationInfo_proto, IncomingAsyncInvitationInfo L),
      (GetLatencyRequest_proto, GetLatencyRequest L),
      (GetLatencyResponse_proto, GetLatencyResponse L),
      (GetMessagesRequest_proto, GetMessagesRequest L),
      (GetMessagesResponse_proto, GetMessagesResponse L),
      (GetMyPublicIDRequest_proto, GetMyPublicIDRequest L),
      (GetMyPublicIDResponse_proto, GetMyPublicIDResponse L),
      (GetOutboxMessagesRequest_proto, GetOutboxMessagesRequest L),
      (GetOutboxMessagesResponse_proto, GetOutboxMessagesResponse L),
      (GetOutgoingAsyncInvitationsRequest_proto, GetOutgoingAsyncInvitationsRequest L),
      (GetOutgoingAsyncInvitationsResponse_proto, GetOutgoingAsyncInvitationsResponse L),
      (OutgoingAsyncInvitationInfo_proto, OutgoingAsyncInvitationInfo L),
      (GetOutgoingSyncInvitationsRequest_proto, GetOutgoingSyncInvitationsRequest L),
      (GetOutgoingSyncInvitationsResponse_proto, GetOutgoingSyncInvitationsResponse L),
      (OutgoingSyncInvitationInfo_proto, OutgoingSyncInvitationInfo L),
      (GetSentMessagesRequest_proto, GetSentMessagesRequest L),
      (GetSentMessagesResponse_proto, GetSentMessagesResponse L),
      (GetStatusRequest_proto, GetStatusRequest L),
      (GetStatusResponse_proto, GetStatusResponse L),
      (IncomingMaybeFriend_proto, IncomingMaybeFriend L),
      (IncomingMessage_proto, IncomingMessage L),
      (IsValidPublicIDRequest_proto, IsValidPublicIDRequest L),
      (IsValidPublicIDResponse_proto, IsValidPublicIDResponse L),
      (KillRequest_proto, KillRequest L),
      (KillResponse_proto, KillResponse L),
      (MessageSeenRequest_proto, MessageSeenRequest L),
      (MessageSeenResponse_proto, MessageSeenResponse L),
      (OutgoingFriend_proto, OutgoingFriend L),
      (OutgoingMessage_proto, OutgoingMessage L),
      (RegisterUserRequest_proto, RegisterUserRequest L),
      (RegisterUserResponse_proto, RegisterUserResponse L),
      (RejectAsyncInvitationRequest_proto, RejectAsyncInvitationRequest L),
      (RejectAsyncInvitationResponse_proto, RejectAsyncInvitationResponse L),
      (RemoveFriendRequest_proto, RemoveFriendRequest L),
      (RemoveFriendResponse_proto, RemoveFriendResponse L),
      (SendMessageRequest_proto, SendMessageRequest L),
      (SendMessageResponse_proto, SendMessageResponse L)]"

lemmas follows_classes =
  follows_AcceptAsyncInvitationRequest follows_AcceptAsyncInvitationResponse
  follows_AddAsyncFriendRequest follows_AddAsyncFriendResponse follows_AddSyncFriendRequest
  follows_AddSyncFriendResponse follows_CancelAsyncInvitationRequest
  follows_CancelAsyncInvitationResponse follows_ChangeLatencyRequest follows_ChangeLatencyResponse
  follows_FriendInfo follows_GetFriendListRequest follows_GetFriendListResponse
  follows_GetIncomingAsyncInvitationsRequest follows_GetIncomingAsyncInvitationsResponse
  follows_IncomingAsyncInvitationInfo follows_GetLatencyRequest follows_GetLatencyResponse
  follows_GetMessagesRequest follows_GetMessagesResponse follows_GetMyPublicIDRequest
  follows_GetMyPublicIDResponse follows_GetOutboxMessagesRequest follows_GetOutboxMessagesResponse
  follows_GetOutgoingAsyncInvitationsRequest follows_GetOutgoingAsyncInvitationsResponse
  follows_OutgoingAsyncInvitationInfo follows_GetOutgoingSyncInvitationsRequest
  follows_GetOutgoingSyncInvitationsResponse follows_OutgoingSyncInvitationInfo
  follows_GetSentMessagesRequest follows_GetSentMessagesResponse follows_GetStatusRequest
  follows_GetStatusResponse follows_IncomingMaybeFriend follows_IncomingMessage
  follows_IsValidPublicIDRequest follows_IsValidPublicIDResponse follows_KillRequest
  follows_KillResponse follows_MessageSeenRequest follows_MessageSeenResponse follows_OutgoingFriend
  follows_OutgoingMessage follows_RegisterUserRequest follows_RegisterUserResponse
  follows_RejectAsyncInvitationRequest follows_RejectAsyncInvitationResponse
  follows_RemoveFriendRequest follows_RemoveFriendResponse follows_SendMessageRequest
  follows_SendMessageResponse

lemmas pb_proto_defs =
  AcceptAsyncInvitationRequest_proto_def AcceptAsyncInvitationResponse_proto_def
  AddAsyncFriendRequest_proto_def AddAsyncFriendResponse_proto_def AddSyncFriendRequest_proto_def
  AddSyncFriendResponse_proto_def CancelAsyncInvitationRequest_proto_def
  CancelAsyncInvitationResponse_proto_def ChangeLatencyRequest_proto_def
  ChangeLatencyResponse_proto_def FriendInfo_proto_def GetFriendListRequest_proto_def
  GetFriendListResponse_proto_def GetIncomingAsyncInvitationsRequest_proto_def
  GetIncomingAsyncInvitationsResponse_proto_def IncomingAsyncInvitationInfo_proto_def
  GetLatencyRequest_proto_def GetLatencyResponse_proto_def GetMessagesRequest_proto_def
  GetMessagesResponse_proto_def GetMyPublicIDRequest_proto_def GetMyPublicIDResponse_proto_def
  GetOutboxMessagesRequest_proto_def GetOutboxMessagesResponse_proto_def
  GetOutgoingAsyncInvitationsRequest_proto_def GetOutgoingAsyncInvitationsResponse_proto_def
  OutgoingAsyncInvitationInfo_proto_def GetOutgoingSyncInvitationsRequest_proto_def
  GetOutgoingSyncInvitationsResponse_proto_def OutgoingSyncInvitationInfo_proto_def
  GetSentMessagesRequest_proto_def GetSentMessagesResponse_proto_def GetStatusRequest_proto_def
  GetStatusResponse_proto_def IncomingMaybeFriend_proto_def IncomingMessage_proto_def
  IsValidPublicIDRequest_proto_def IsValidPublicIDResponse_proto_def KillRequest_proto_def
  KillResponse_proto_def MessageSeenRequest_proto_def MessageSeenResponse_proto_def
  OutgoingFriend_proto_def OutgoingMessage_proto_def RegisterUserRequest_proto_def
  RegisterUserResponse_proto_def RejectAsyncInvitationRequest_proto_def
  RejectAsyncInvitationResponse_proto_def RemoveFriendRequest_proto_def
  RemoveFriendResponse_proto_def SendMessageRequest_proto_def SendMessageResponse_proto_def

section \<open>What holds of every class\<close>

lemma schemas_ok: "list_all (\<lambda>(s, c). schema_ok s) (pb_classes L)"
  by (simp add: pb_classes_def pb_proto_defs field_number_def)

lemma in_pb_classes:
  assumes "(s, c) \<in> set (pb_classes L)"
  shows "schema_ok s" and "follows L s c"
proof -
  show "schema_ok s"
    using schemas_ok [of L] assms by (auto simp: list_all_iff)
  show "follows L s c"
    using assms unfolding pb_classes_def by (auto intro: follows_classes)
qed

text \<open>A message on the wire instance, for the witnesses: every type of field occurs in it.\<close>

definition sample_stamp :: wmsg where
  "sample_stamp = WMsg [(1, VNumber 1652313600), (2, VNumber 5000000)]"

definition sample_message :: wmsg where
  "sample_message =
     (let friend = IncomingMaybeFriend_setUniqueName wire
            (IncomingMaybeFriend_setPublicId wire (IncomingMaybeFriend_new wire) ''pk'') [];
          m = IncomingMessage_setUid wire (IncomingMessage_new wire) (-7);
          m = IncomingMessage_setMessage wire m ''hej'';
          m = snd (IncomingMessage_addOtherRecipients wire m (Some friend) None);
          m = IncomingMessage_setDeliveredAt wire m (Some sample_stamp)
      in IncomingMessage_setSeen wire m True)"

lemma sample_typed: "typed wview stamp_ok IncomingMessage_proto sample_message"
  by (simp add: sample_message_def sample_stamp_def IncomingMessage_defs IncomingMaybeFriend_defs Let_def
      wire_def wire_base_def wview_def wput_def stamp_ok_def number_in_def int32_def int64_def messages_in_def)

text \<open>
  The bytes: field 1, a negative number as ten groups of seven bits; field 2, the text; field 5,
  the recipient with its identity and its present but empty name; field 6, the time stamp; field 7.
\<close>

lemma sample_bytes:
  "IncomingMessage_serializeBinary wire sample_message
   = map byte_of ([8, 249, 255, 255, 255, 255, 255, 255, 255, 255, 1, 18, 3, 104, 101, 106, 42, 6, 10, 2, 112, 107, 18, 0,
       50, 11, 8, 128, 156, 241, 147, 6, 16, 192, 150, 177, 2, 56, 1])"
  by (simp add: IncomingMessage_serializeBinary_def IncomingMessage_serializeBinaryToWriter_def
      sample_message_def sample_stamp_def IncomingMessage_defs IncomingMaybeFriend_defs Let_def
      wire_def wire_base_def wview_def wput_def messages_in_def wire_Timestamp_def stamp_fields_def number_in_def
      tag_def delimited_def varint.simps bits64_def utf8_def utf8_char_def)
    (simp add: numeral_eq_Suc)

lemma in_pb_IncomingMessage: "(IncomingMessage_proto, IncomingMessage L) \<in> set (pb_classes L)"
  by (simp add: pb_classes_def)

text \<open>
  C3. Every generated class is the reference codec of its message in \<open>daemon.proto\<close>: its
  constructor, its reader, its writer and its conversion to an object have exactly the fields of the
  schema, each with its number, its type, its name in camel case, and its presence rule.
\<close>

theorem classes_follow_proto:
  "list_all (\<lambda>(s, c). follows L s c \<and> schema_ok s) (pb_classes L)"
  using in_pb_classes [of _ _ L] by (fastforce simp: list_all_iff)

text \<open>The round trip of the reference codec, for a class.\<close>

lemma class_roundtrip:
  assumes "jspb_codec L view wrote reads on_field stamp"
    and "(s, c) \<in> set (pb_classes L)" and "typed view stamp s m"
  shows "\<exists>m'. pc_deserializeBinary c (pc_prototype_serializeBinary c m) = Some (Inr m')
    \<and> pc_prototype_toObject c m' False = pc_prototype_toObject c m False
    \<and> typed view stamp s m'"
  using jspb_codec.ref_roundtrip [OF assms(1) in_pb_classes(1) [OF assms(2)] assms(3)]
    in_pb_classes(2) [OF assms(2)] by (simp add: follows_def)

text \<open>
  C13. A message of any class that is serialized and deserialized again gives an equal object, whatever
  implements the package's promises.
\<close>

theorem messages_roundtrip:
  assumes "jspb_codec L view wrote reads on_field stamp"
    and "(s, c) \<in> set (pb_classes L)" and "typed view stamp s m"
  shows "\<exists>m'. pc_deserializeBinary c (pc_prototype_serializeBinary c m) = Some (Inr m')
    \<and> pc_prototype_toObject c m' False = pc_prototype_toObject c m False
    \<and> typed view stamp s m'"
  using assms by (rule class_roundtrip)

theorem messages_roundtrip_witness:
  "\<exists>m'. IncomingMessage_deserializeBinary wire (IncomingMessage_serializeBinary wire sample_message) = Some (Inr m')
    \<and> IncomingMessage_prototype_toObject wire m' False
      = IncomingMessage_prototype_toObject wire sample_message False
    \<and> typed wview stamp_ok IncomingMessage_proto m'"
  using messages_roundtrip [OF wire.jspb_codec_axioms in_pb_IncomingMessage sample_typed]
  by (simp add: IncomingMessage_def)

text \<open>
  C12. A message that a later version of the daemon sends with fields that this version does not know
  is read as what this version knows of it: unknown fields are skipped, in front of the known
  ones and behind them.
\<close>

theorem unknown_fields_skipped:
  assumes "jspb_codec L view wrote reads on_field stamp"
    and "(s, c) \<in> set (pb_classes L)" and "typed view stamp s m"
    and "wrote w before" and "unknown s before"
    and "\<forall>w fs. wrote w fs \<longrightarrow> wrote (put w) (fs @ after)" and "unknown s after"
  shows "\<exists>m'. pc_deserializeBinary c (getResultBuffer L (put (pc_serializeBinaryToWriter c m w))) = Some (Inr m')
    \<and> pc_toObject c False m' = pc_toObject c False m"
  using jspb_codec.ref_roundtrip_extended [OF assms(1) in_pb_classes(1) [OF assms(2)] assms(3-7)]
    in_pb_classes(2) [OF assms(2)] by (auto simp: follows_def)

theorem unknown_fields_skipped_witness:
  "\<exists>m'. IncomingMessage_deserializeBinary wire
       (IncomingMessage_serializeBinaryToWriter wire sample_message (enc [(9, WInt32 5)])
        @ enc [(20, WMessage [(1, WString ''new'')])]) = Some (Inr m')
    \<and> IncomingMessage_toObject wire False m' = IncomingMessage_toObject wire False sample_message"
proof -
  have "\<forall>w fs. wire_wrote w fs \<longrightarrow> wire_wrote (w @ enc [(20, WMessage [(1, WString ''new'')])])
      (fs @ [(20, WMessage [(1, WString ''new'')])])"
    by (simp add: wire_wrote_def field_number_def)
  moreover have "wire_wrote (enc [(9, WInt32 5)]) [(9, WInt32 5)]"
    by (simp add: wire_wrote_def field_number_def int32_def)
  moreover have "unknown IncomingMessage_proto [(9, WInt32 5)]"
    "unknown IncomingMessage_proto [(20, WMessage [(1, WString ''new'')])]"
    by (simp_all add: unknown_def IncomingMessage_proto_def)
  ultimately show ?thesis
    using unknown_fields_skipped [OF wire.jspb_codec_axioms in_pb_IncomingMessage sample_typed,
        where put = "\<lambda>w. w @ enc [(20, WMessage [(1, WString ''new'')])]"]
    by (simp add: IncomingMessage_def wire_def del: enc.simps)
qed

text \<open>
  C14. Deserializing ends on every input, well-formed or not, if only the reader moves forward: no
  answer of the daemon can keep the client in a loop.
\<close>

theorem deserialize_returns:
  assumes "jspb_progress L rank" and "(s, c) \<in> set (pb_classes L)"
  shows "pc_deserializeBinary c bytes \<noteq> None"
  using jspb_progress.ref_decode_returns [OF assms(1)] in_pb_classes(2) [OF assms(2)]
  by (simp add: follows_def)

theorem deserialize_returns_witness:
  "IncomingMessage_deserializeBinary wire (map byte_of [42, 200, 1, 7]) \<noteq> None"
  using deserialize_returns [OF wire_progress.jspb_progress_axioms in_pb_IncomingMessage]
  by (simp add: IncomingMessage_def)

end
