(* ===== verification/PbGrpc.thy ===== *)
theory PbGrpc imports PbCodec begin

text \<open>
  The service definition of \<open>daemon/schema/daemon_grpc_pb.js\<close>: for every remote procedure its path,
  its message classes and the functions that turn messages into buffers and back. The service of
  \<open>asphr/schema/daemon.proto\<close>, which it is generated from, is \<open>daemon_rpcs\<close>. \<open>Buffer.from\<close> and
  \<open>new Uint8Array\<close> only copy bytes and are left out.
\<close>

text \<open>An object with the class it is an instance of, by the class's name.\<close>

type_synonym 'm instance_of = "string \<times> 'm"

definition instanceof :: "'m instance_of \<Rightarrow> ('m, 'w, 'r, 'b) pbclass \<Rightarrow> bool" where
  "instanceof arg c \<longleftrightarrow> fst arg = pc_displayName c"

record ('m, 'w, 'r, 'b) method_definition =
  md_path :: string
  md_requestStream :: bool
  md_responseStream :: bool
  md_requestType :: "('m, 'w, 'r, 'b) pbclass"
  md_responseType :: "('m, 'w, 'r, 'b) pbclass"
  md_requestSerialize :: "'m instance_of \<Rightarrow> js_error + 'b"
  md_requestDeserialize :: "'b \<Rightarrow> (js_error + 'm) option"
  md_responseSerialize :: "'m instance_of \<Rightarrow> js_error + 'b"
  md_responseDeserialize :: "'b \<Rightarrow> (js_error + 'm) option"

definition serialize_asphrdaemon_AcceptAsyncInvitationRequest ::
  "('m, 'w, 'r, 'b) jspb \<Rightarrow> 'm instance_of \<Rightarrow> js_error + 'b" where
  "serialize_asphrdaemon_AcceptAsyncInvitationRequest L arg =
     (if \<not> instanceof arg (AcceptAsyncInvitationRequest L)
      then Inl (JsError ''Expected argument of type asphrdaemon.AcceptAsyncInvitationRequest'')
      else Inr (AcceptAsyncInvitationRequest_serializeBinary L (snd arg)))"

definition deserialize_asphrdaemon_AcceptAsyncInvitationRequest ::
  "('m, 'w, 'r, 'b) jspb \<Rightarrow> 'b \<Rightarrow> (js_error + 'm) option" where
  "deserialize_asphrdaemon_AcceptAsyncInvitationRequest L buffer_arg = AcceptAsyncInvitationRequest_deserializeBinary L buffer_arg"

definition serialize_asphrdaemon_AcceptAsyncInvitationResponse ::
  "('m, 'w, 'r, 'b) jspb \<Rightarrow> 'm instance_of \<Rightarrow> js_error + 'b" where
  "serialize_asphrdaemon_AcceptAsyncInvitationResponse L arg =
     (if \<not> instanceof arg (AcceptAsyncInvitationResponse L)
      then Inl (JsError ''Expected argument of type asphrdaemon.AcceptAsyncInvitationResponse'')
      else Inr (AcceptAsyncInvitationResponse_serializeBinary L (snd arg)))"

definition deserialize_asphrdaemon_AcceptAsyncInvitationResponse ::
  "('m, 'w, 'r, 'b) jspb \<Rightarrow> 'b \<Rightarrow> (js_error + 'm) option" where
  "deserialize_asphrdaemon_AcceptAsyncInvitationResponse L buffer_arg = AcceptAsyncInvitationResponse_deserializeBinary L buffer_arg"

definition serialize_asphrdaemon_AddAsyncFriendRequest ::
  "('m, 'w, 'r, 'b) jspb \<Rightarrow> 'm instance_of \<Rightarrow> js_error + 'b" where
  "serialize_asphrdaemon_AddAsyncFriendRequest L arg =
     (if \<not> instanceof arg (AddAsyncFriendRequest L)
      then Inl (JsError ''Expected argument of type asphrdaemon.AddAsyncFriendRequest'')
      else Inr (AddAsyncFriendRequest_serializeBinary L (snd arg)))"

definition deserialize_asphrdaemon_AddAsyncFriendRequest ::
  "('m, 'w, 'r, 'b) jspb \<Rightarrow> 'b \<Rightarrow> (js_error + 'm) option" where
  "deserialize_asphrdaemon_AddAsyncFriendRequest L buffer_arg = AddAsyncFriendRequest_deserializeBinary L buffer_arg"

definition serialize_asphrdaemon_AddAsyncFriendResponse ::
  "('m, 'w, 'r, 'b) jspb \<Rightarrow> 'm instance_of \<Rightarrow> js_error + 'b" where
  "serialize_asphrdaemon_AddAsyncFriendResponse L arg =
     (if \<not> instanceof arg (AddAsyncFriendResponse L)
      then Inl (JsError ''Expected argument of type asphrdaemon.AddAsyncFriendResponse'')
      else Inr (AddAsyncFriendResponse_serializeBinary L (snd arg)))"

definition deserialize_asphrdaemon_AddAsyncFriendResponse ::
  "('m, 'w, 'r, 'b) jspb \<Rightarrow> 'b \<Rightarrow> (js_error + 'm) option" where
  "deserialize_asphrdaemon_AddAsyncFriendResponse L buffer_arg = AddAsyncFriendResponse_deserializeBinary L buffer_arg"

definition serialize_asphrdaemon_AddSyncFriendRequest ::
  "('m, 'w, 'r, 'b) jspb \<Rightarrow> 'm instance_of \<Rightarrow> js_error + 'b" where
  "serialize_asphrdaemon_AddSyncFriendRequest L arg =
     (if \<not> instanceof arg (AddSyncFriendRequest L)
      then Inl (JsError ''Expected argument of type asphrdaemon.AddSyncFriendRequest'')
      else Inr (AddSyncFriendRequest_serializeBinary L (snd arg)))"

definition deserialize_asphrdaemon_AddSyncFriendRequest ::
  "('m, 'w, 'r, 'b) jspb \<Rightarrow> 'b \<Rightarrow> (js_error + 'm) option" where
  "deserialize_asphrdaemon_AddSyncFriendRequest L buffer_arg = AddSyncFriendRequest_deserializeBinary L buffer_arg"

definition serialize_asphrdaemon_AddSyncFriendResponse ::
  "('m, 'w, 'r, 'b) jspb \<Rightarrow> 'm instance_of \<Rightarrow> js_error + 'b" where
  "serialize_asphrdaemon_AddSyncFriendResponse L arg =
     (if \<not> instanceof arg (AddSyncFriendResponse L)
      then Inl (JsError ''Expected argument of type asphrdaemon.AddSyncFriendResponse'')
      else Inr (AddSyncFriendResponse_serializeBinary L (snd arg)))"

definition deserialize_asphrdaemon_AddSyncFriendResponse ::
  "('m, 'w, 'r, 'b) jspb \<Rightarrow> 'b \<Rightarrow> (js_error + 'm) option" where
  "deserialize_asphrdaemon_AddSyncFriendResponse L buffer_arg = AddSyncFriendResponse_deserializeBinary L buffer_arg"

definition serialize_asphrdaemon_CancelAsyncInvitationRequest ::
  "('m, 'w, 'r, 'b) jspb \<Rightarrow> 'm instance_of \<Rightarrow> js_error + 'b" where
  "serialize_asphrdaemon_CancelAsyncInvitationRequest L arg =
     (if \<not> instanceof arg (CancelAsyncInvitationRequest L)
      then Inl (JsError ''Expected argument of type asphrdaemon.CancelAsyncInvitationRequest'')
      else Inr (CancelAsyncInvitationRequest_serializeBinary L (snd arg)))"

definition deserialize_asphrdaemon_CancelAsyncInvitationRequest ::
  "('m, 'w, 'r, 'b) jspb \<Rightarrow> 'b \<Rightarrow> (js_error + 'm) option" where
  "deserialize_asphrdaemon_CancelAsyncInvitationRequest L buffer_arg = CancelAsyncInvitationRequest_deserializeBinary L buffer_arg"

definition serialize_asphrdaemon_CancelAsyncInvitationResponse ::
  "('m, 'w, 'r, 'b) jspb \<Rightarrow> 'm instance_of \<Rightarrow> js_error + 'b" where
  "serialize_asphrdaemon_CancelAsyncInvitationResponse L arg =
     (if \<not> instanceof arg (CancelAsyncInvitationResponse L)
      then Inl (JsError ''Expected argument of type asphrdaemon.CancelAsyncInvitationResponse'')
      else Inr (CancelAsyncInvitationResponse_serializeBinary L (snd arg)))"

definition deserialize_asphrdaemon_CancelAsyncInvitationResponse ::
  "('m, 'w, 'r, 'b) jspb \<Rightarrow> 'b \<Rightarrow> (js_error + 'm) option" where
  "deserialize_asphrdaemon_CancelAsyncInvitationResponse L buffer_arg = CancelAsyncInvitationResponse_deserializeBinary L buffer_arg"

definition serialize_asphrdaemon_ChangeLatencyRequest ::
  "('m, 'w, 'r, 'b) jspb \<Rightarrow> 'm instance_of \<Rightarrow> js_error + 'b" where
  "serialize_asphrdaemon_ChangeLatencyRequest L arg =
     (if \<not> instanceof arg (ChangeLatencyRequest L)
      then Inl (JsError ''Expected argument of type asphrdaemon.ChangeLatencyRequest'')
      else Inr (ChangeLatencyRequest_serializeBinary L (snd arg)))"

definition deserialize_asphrdaemon_ChangeLatencyRequest ::
  "('m, 'w, 'r, 'b) jspb \<Rightarrow> 'b \<Rightarrow> (js_error + 'm) option" where
  "deserialize_asphrdaemon_ChangeLatencyRequest L buffer_arg = ChangeLatencyRequest_deserializeBinary L buffer_arg"

definition serialize_asphrdaemon_ChangeLatencyResponse ::
  "('m, 'w, 'r, 'b) jspb \<Rightarrow> 'm instance_of \<Rightarrow> js_error + 'b" where
  "serialize_asphrdaemon_ChangeLatencyResponse L arg =
     (if \<not> instanceof arg (ChangeLatencyResponse L)
      then Inl (JsError ''Expected argument of type asphrdaemon.ChangeLatencyResponse'')
      else Inr (ChangeLatencyResponse_serializeBinary L (snd arg)))"

definition deserialize_asphrdaemon_ChangeLatencyResponse ::
  "('m, 'w, 'r, 'b) jspb \<Rightarrow> 'b \<Rightarrow> (js_error + 'm) option" where
  "deserialize_asphrdaemon_ChangeLatencyResponse L buffer_arg = ChangeLatencyResponse_deserializeBinary L buffer_arg"

definition serialize_asphrdaemon_GetFriendListRequest ::
  "('m, 'w, 'r, 'b) jspb \<Rightarrow> 'm instance_of \<Rightarrow> js_error + 'b" where
  "serialize_asphrdaemon_GetFriendListRequest L arg =
     (if \<not> instanceof arg (GetFriendListRequest L)
      then Inl (JsError ''Expected argument of type asphrdaemon.GetFriendListRequest'')
      else Inr (GetFriendListRequest_serializeBinary L (snd arg)))"

definition deserialize_asphrdaemon_GetFriendListRequest ::
  "('m, 'w, 'r, 'b) jspb \<Rightarrow> 'b \<Rightarrow> (js_error + 'm) option" where
  "deserialize_asphrdaemon_GetFriendListRequest L buffer_arg = GetFriendListRequest_deserializeBinary L buffer_arg"

definition serialize_asphrdaemon_GetFriendListResponse ::
  "('m, 'w, 'r, 'b) jspb \<Rightarrow> 'm instance_of \<Rightarrow> js_error + 'b" where
  "serialize_asphrdaemon_GetFriendListResponse L arg =
     (if \<not> instanceof arg (GetFriendListResponse L)
      then Inl (JsError ''Expected argument of type asphrdaemon.GetFriendListResponse'')
      else Inr (GetFriendListResponse_serializeBinary L (snd arg)))"

definition deserialize_asphrdaemon_GetFriendListResponse ::
  "('m, 'w, 'r, 'b) jspb \<Rightarrow> 'b \<Rightarrow> (js_error + 'm) option" where
  "deserialize_asphrdaemon_GetFriendListResponse L buffer_arg = GetFriendListResponse_deserializeBinary L buffer_arg"

definition serialize_asphrdaemon_GetIncomingAsyncInvitationsRequest ::
  "('m, 'w, 'r, 'b) jspb \<Rightarrow> 'm instance_of \<Rightarrow> js_error + 'b" where
  "serialize_asphrdaemon_GetIncomingAsyncInvitationsRequest L arg =
     (if \<not> instanceof arg (GetIncomingAsyncInvitationsRequest L)
      then Inl (JsError ''Expected argument of type asphrdaemon.GetIncomingAsyncInvitationsRequest'')
      else Inr (GetIncomingAsyncInvitationsRequest_serializeBinary L (snd arg)))"

definition deserialize_asphrdaemon_GetIncomingAsyncInvitationsRequest ::
  "('m, 'w, 'r, 'b) jspb \<Rightarrow> 'b \<Rightarrow> (js_error + 'm) option" where
  "deserialize_asphrdaemon_GetIncomingAsyncInvitationsRequest L buffer_arg = GetIncomingAsyncInvitationsRequest_deserializeBinary L buffer_arg"

definition serialize_asphrdaemon_GetIncomingAsyncInvitationsResponse ::
  "('m, 'w, 'r, 'b) jspb \<Rightarrow> 'm instance_of \<Rightarrow> js_error + 'b" where
  "serialize_asphrdaemon_GetIncomingAsyncInvitationsResponse L arg =
     (if \<not> instanceof arg (GetIncomingAsyncInvitationsResponse L)
      then Inl (JsError ''Expected argument of type asphrdaemon.GetIncomingAsyncInvitationsResponse'')
      else Inr (GetIncomingAsyncInvitationsResponse_serializeBinary L (snd arg)))"

definition deserialize_asphrdaemon_GetIncomingAsyncInvitationsResponse ::
  "('m, 'w, 'r, 'b) jspb \<Rightarrow> 'b \<Rightarrow> (js_error + 'm) option" where
  "deserialize_asphrdaemon_GetIncomingAsyncInvitationsResponse L buffer_arg = GetIncomingAsyncInvitationsResponse_deserializeBinary L buffer_arg"

definition serialize_asphrdaemon_GetLatencyRequest ::
  "('m, 'w, 'r, 'b) jspb \<Rightarrow> 'm instance_of \<Rightarrow> js_error + 'b" where
  "serialize_asphrdaemon_GetLatencyRequest L arg =
     (if \<not> instanceof arg (GetLatencyRequest L)
      then Inl (JsError ''Expected argument of type asphrdaemon.GetLatencyRequest'')
      else Inr (GetLatencyRequest_serializeBinary L (snd arg)))"

definition deserialize_asphrdaemon_GetLatencyRequest ::
  "('m, 'w, 'r, 'b) jspb \<Rightarrow> 'b \<Rightarrow> (js_error + 'm) option" where
  "deserialize_asphrdaemon_GetLatencyRequest L buffer_arg = GetLatencyRequest_deserializeBinary L buffer_arg"

definition serialize_asphrdaemon_GetLatencyResponse ::
  "('m, 'w, 'r, 'b) jspb \<Rightarrow> 'm instance_of \<Rightarrow> js_error + 'b" where
  "serialize_asphrdaemon_GetLatencyResponse L arg =
     (if \<not> instanceof arg (GetLatencyResponse L)
      then Inl (JsError ''Expected argument of type asphrdaemon.GetLatencyResponse'')
      else Inr (GetLatencyResponse_serializeBinary L (snd arg)))"

definition deserialize_asphrdaemon_GetLatencyResponse ::
  "('m, 'w, 'r, 'b) jspb \<Rightarrow> 'b \<Rightarrow> (js_error + 'm) option" where
  "deserialize_asphrdaemon_GetLatencyResponse L buffer_arg = GetLatencyResponse_deserializeBinary L buffer_arg"

definition serialize_asphrdaemon_GetMessagesRequest ::
  "('m, 'w, 'r, 'b) jspb \<Rightarrow> 'm instance_of \<Rightarrow> js_error + 'b" where
  "serialize_asphrdaemon_GetMessagesRequest L arg =
     (if \<not> instanceof arg (GetMessagesRequest L)
      then Inl (JsError ''Expected argument of type asphrdaemon.GetMessagesRequest'')
      else Inr (GetMessagesRequest_serializeBinary L (snd arg)))"

definition deserialize_asphrdaemon_GetMessagesRequest ::
  "('m, 'w, 'r, 'b) jspb \<Rightarrow> 'b \<Rightarrow> (js_error + 'm) option" where
  "deserialize_asphrdaemon_GetMessagesRequest L buffer_arg = GetMessagesRequest_deserializeBinary L buffer_arg"

definition serialize_asphrdaemon_GetMessagesResponse ::
  "('m, 'w, 'r, 'b) jspb \<Rightarrow> 'm instance_of \<Rightarrow> js_error + 'b" where
  "serialize_asphrdaemon_GetMessagesResponse L arg =
     (if \<not> instanceof arg (GetMessagesResponse L)
      then Inl (JsError ''Expected argument of type asphrdaemon.GetMessagesResponse'')
      else Inr (GetMessagesResponse_serializeBinary L (snd arg)))"

definition deserialize_asphrdaemon_GetMessagesResponse ::
  "('m, 'w, 'r, 'b) jspb \<Rightarrow> 'b \<Rightarrow> (js_error + 'm) option" where
  "deserialize_asphrdaemon_GetMessagesResponse L buffer_arg = GetMessagesResponse_deserializeBinary L buffer_arg"

definition serialize_asphrdaemon_GetMyPublicIDRequest ::
  "('m, 'w, 'r, 'b) jspb \<Rightarrow> 'm instance_of \<Rightarrow> js_error + 'b" where
  "serialize_asphrdaemon_GetMyPublicIDRequest L arg =
     (if \<not> instanceof arg (GetMyPublicIDRequest L)
      then Inl (JsError ''Expected argument of type asphrdaemon.GetMyPublicIDRequest'')
      else Inr (GetMyPublicIDRequest_serializeBinary L (snd arg)))"

definition deserialize_asphrdaemon_GetMyPublicIDRequest ::
  "('m, 'w, 'r, 'b) jspb \<Rightarrow> 'b \<Rightarrow> (js_error + 'm) option" where
  "deserialize_asphrdaemon_GetMyPublicIDRequest L buffer_arg = GetMyPublicIDRequest_deserializeBinary L buffer_arg"

definition serialize_asphrdaemon_GetMyPublicIDResponse ::
  "('m, 'w, 'r, 'b) jspb \<Rightarrow> 'm instance_of \<Rightarrow> js_error + 'b" where
  "serialize_asphrdaemon_GetMyPublicIDResponse L arg =
     (if \<not> instanceof arg (GetMyPublicIDResponse L)
      then Inl (JsError ''Expected argument of type asphrdaemon.GetMyPublicIDResponse'')
      else Inr (GetMyPublicIDResponse_serializeBinary L (snd arg)))"

definition deserialize_asphrdaemon_GetMyPublicIDResponse ::
  "('m, 'w, 'r, 'b) jspb \<Rightarrow> 'b \<Rightarrow> (js_error + 'm) option" where
  "deserialize_asphrdaemon_GetMyPublicIDResponse L buffer_arg = GetMyPublicIDResponse_deserializeBinary L buffer_arg"

definition serialize_asphrdaemon_GetOutboxMessagesRequest ::
  "('m, 'w, 'r, 'b) jspb \<Rightarrow> 'm instance_of \<Rightarrow> js_error + 'b" where
  "serialize_asphrdaemon_GetOutboxMessagesRequest L arg =
     (if \<not> instanceof arg (GetOutboxMessagesRequest L)
      then Inl (JsError ''Expected argument of type asphrdaemon.GetOutboxMessagesRequest'')
      else Inr (GetOutboxMessagesRequest_serializeBinary L (snd arg)))"

definition deserialize_asphrdaemon_GetOutboxMessagesRequest ::
  "('m, 'w, 'r, 'b) jspb \<Rightarrow> 'b \<Rightarrow> (js_error + 'm) option" where
  "deserialize_asphrdaemon_GetOutboxMessagesRequest L buffer_arg = GetOutboxMessagesRequest_deserializeBinary L buffer_arg"

definition serialize_asphrdaemon_GetOutboxMessagesResponse ::
  "('m, 'w, 'r, 'b) jspb \<Rightarrow> 'm instance_of \<Rightarrow> js_error + 'b" where
  "serialize_asphrdaemon_GetOutboxMessagesResponse L arg =
     (if \<not> instanceof arg (GetOutboxMessagesResponse L)
      then Inl (JsError ''Expected argument of type asphrdaemon.GetOutboxMessagesResponse'')
      else Inr (GetOutboxMessagesResponse_serializeBinary L (snd arg)))"

definition deserialize_asphrdaemon_GetOutboxMessagesResponse ::
  "('m, 'w, 'r, 'b) jspb \<Rightarrow> 'b \<Rightarrow> (js_error + 'm) option" where
  "deserialize_asphrdaemon_GetOutboxMessagesResponse L buffer_arg = GetOutboxMessagesResponse_deserializeBinary L buffer_arg"

definition serialize_asphrdaemon_GetOutgoingAsyncInvitationsRequest ::
  "('m, 'w, 'r, 'b) jspb \<Rightarrow> 'm instance_of \<Rightarrow> js_error + 'b" where
  "serialize_asphrdaemon_GetOutgoingAsyncInvitationsRequest L arg =
     (if \<not> instanceof arg (GetOutgoingAsyncInvitationsRequest L)
      then Inl (JsError ''Expected argument of type asphrdaemon.GetOutgoingAsyncInvitationsRequest'')
      else Inr (GetOutgoingAsyncInvitationsRequest_serializeBinary L (snd arg)))"

definition deserialize_asphrdaemon_GetOutgoingAsyncInvitationsRequest ::
  "('m, 'w, 'r, 'b) jspb \<Rightarrow> 'b \<Rightarrow> (js_error + 'm) option" where
  "deserialize_asphrdaemon_GetOutgoingAsyncInvitationsRequest L buffer_arg = GetOutgoingAsyncInvitationsRequest_deserializeBinary L buffer_arg"

definition serialize_asphrdaemon_GetOutgoingAsyncInvitationsResponse ::
  "('m, 'w, 'r, 'b) jspb \<Rightarrow> 'm instance_of \<Rightarrow> js_error + 'b" where
  "serialize_asphrdaemon_GetOutgoingAsyncInvitationsResponse L arg =
     (if \<not> instanceof arg (GetOutgoingAsyncInvitationsResponse L)
      then Inl (JsError ''Expected argument of type asphrdaemon.GetOutgoingAsyncInvitationsResponse'')
      else Inr (GetOutgoingAsyncInvitationsResponse_serializeBinary L (snd arg)))"

definition deserialize_asphrdaemon_GetOutgoingAsyncInvitationsResponse ::
  "('m, 'w, 'r, 'b) jspb \<Rightarrow> 'b \<Rightarrow> (js_error + 'm) option" where
  "deserialize_asphrdaemon_GetOutgoingAsyncInvitationsResponse L buffer_arg = GetOutgoingAsyncInvitationsResponse_deserializeBinary L buffer_arg"

definition serialize_asphrdaemon_GetOutgoingSyncInvitationsRequest ::
  "('m, 'w, 'r, 'b) jspb \<Rightarrow> 'm instance_of \<Rightarrow> js_error + 'b" where
  "serialize_asphrdaemon_GetOutgoingSyncInvitationsRequest L arg =
     (if \<not> instanceof arg (GetOutgoingSyncInvitationsRequest L)
      then Inl (JsError ''Expected argument of type asphrdaemon.GetOutgoingSyncInvitationsRequest'')
      else Inr (GetOutgoingSyncInvitationsRequest_serializeBinary L (snd arg)))"

definition deserialize_asphrdaemon_GetOutgoingSyncInvitationsRequest ::
  "('m, 'w, 'r, 'b) jspb \<Rightarrow> 'b \<Rightarrow> (js_error + 'm) option" where
  "deserialize_asphrdaemon_GetOutgoingSyncInvitationsRequest L buffer_arg = GetOutgoingSyncInvitationsRequest_deserializeBinary L buffer_arg"

definition serialize_asphrdaemon_GetOutgoingSyncInvitationsResponse ::
  "('m, 'w, 'r, 'b) jspb \<Rightarrow> 'm instance_of \<Rightarrow> js_error + 'b" where
  "serialize_asphrdaemon_GetOutgoingSyncInvitationsResponse L arg =
     (if \<not> instanceof arg (GetOutgoingSyncInvitationsResponse L)
      then Inl (JsError ''Expected argument of type asphrdaemon.GetOutgoingSyncInvitationsResponse'')
      else Inr (GetOutgoingSyncInvitationsResponse_serializeBinary L (snd arg)))"

definition deserialize_asphrdaemon_GetOutgoingSyncInvitationsResponse ::
  "('m, 'w, 'r, 'b) jspb \<Rightarrow> 'b \<Rightarrow> (js_error + 'm) option" where
  "deserialize_asphrdaemon_GetOutgoingSyncInvitationsResponse L buffer_arg = GetOutgoingSyncInvitationsResponse_deserializeBinary L buffer_arg"

definition serialize_asphrdaemon_GetSentMessagesRequest ::
  "('m, 'w, 'r, 'b) jspb \<Rightarrow> 'm instance_of \<Rightarrow> js_error + 'b" where
  "serialize_asphrdaemon_GetSentMessagesRequest L arg =
     (if \<not> instanceof arg (GetSentMessagesRequest L)
      then Inl (JsError ''Expected argument of type asphrdaemon.GetSentMessagesRequest'')
      else Inr (GetSentMessagesRequest_serializeBinary L (snd arg)))"

definition deserialize_asphrdaemon_GetSentMessagesRequest ::
  "('m, 'w, 'r, 'b) jspb \<Rightarrow> 'b \<Rightarrow> (js_error + 'm) option" where
  "deserialize_asphrdaemon_GetSentMessagesRequest L buffer_arg = GetSentMessagesRequest_deserializeBinary L buffer_arg"

definition serialize_asphrdaemon_GetSentMessagesResponse ::
  "('m, 'w, 'r, 'b) jspb \<Rightarrow> 'm instance_of \<Rightarrow> js_error + 'b" where
  "serialize_asphrdaemon_GetSentMessagesResponse L arg =
     (if \<not> instanceof arg (GetSentMessagesResponse L)
      then Inl (JsError ''Expected argument of type asphrdaemon.GetSentMessagesResponse'')
      else Inr (GetSentMessagesResponse_serializeBinary L (snd arg)))"

definition deserialize_asphrdaemon_GetSentMessagesResponse ::
  "('m, 'w, 'r, 'b) jspb \<Rightarrow> 'b \<Rightarrow> (js_error + 'm) option" where
  "deserialize_asphrdaemon_GetSentMessagesResponse L buffer_arg = GetSentMessagesResponse_deserializeBinary L buffer_arg"

definition serialize_asphrdaemon_GetStatusRequest ::
  "('m, 'w, 'r, 'b) jspb \<Rightarrow> 'm instance_of \<Rightarrow> js_error + 'b" where
  "serialize_asphrdaemon_GetStatusRequest L arg =
     (if \<not> instanceof arg (GetStatusRequest L)
      then Inl (JsError ''Expected argument of type asphrdaemon.GetStatusRequest'')
      else Inr (GetStatusRequest_serializeBinary L (snd arg)))"

definition deserialize_asphrdaemon_GetStatusRequest ::
  "('m, 'w, 'r, 'b) jspb \<Rightarrow> 'b \<Rightarrow> (js_error + 'm) option" where
  "deserialize_asphrdaemon_GetStatusRequest L buffer_arg = GetStatusRequest_deserializeBinary L buffer_arg"

definition serialize_asphrdaemon_GetStatusResponse ::
  "('m, 'w, 'r, 'b) jspb \<Rightarrow> 'm instance_of \<Rightarrow> js_error + 'b" where
  "serialize_asphrdaemon_GetStatusResponse L arg =
     (if \<not> instanceof arg (GetStatusResponse L)
      then Inl (JsError ''Expected argument of type asphrdaemon.GetStatusResponse'')
      else Inr (GetStatusResponse_serializeBinary L (snd arg)))"

definition deserialize_asphrdaemon_GetStatusResponse ::
  "('m, 'w, 'r, 'b) jspb \<Rightarrow> 'b \<Rightarrow> (js_error + 'm) option" where
  "deserialize_asphrdaemon_GetStatusResponse L buffer_arg = GetStatusResponse_deserializeBinary L buffer_arg"

definition serialize_asphrdaemon_IsValidPublicIDRequest ::
  "('m, 'w, 'r, 'b) jspb \<Rightarrow> 'm instance_of \<Rightarrow> js_error + 'b" where
  "serialize_asphrdaemon_IsValidPublicIDRequest L arg =
     (if \<not> instanceof arg (IsValidPublicIDRequest L)
      then Inl (JsError ''Expected argument of type asphrdaemon.IsValidPublicIDRequest'')
      else Inr (IsValidPublicIDRequest_serializeBinary L (snd arg)))"

definition deserialize_asphrdaemon_IsValidPublicIDRequest ::
  "('m, 'w, 'r, 'b) jspb \<Rightarrow> 'b \<Rightarrow> (js_error + 'm) option" where
  "deserialize_asphrdaemon_IsValidPublicIDRequest L buffer_arg = IsValidPublicIDRequest_deserializeBinary L buffer_arg"

definition serialize_asphrdaemon_IsValidPublicIDResponse ::
  "('m, 'w, 'r, 'b) jspb \<Rightarrow> 'm instance_of \<Rightarrow> js_error + 'b" where
  "serialize_asphrdaemon_IsValidPublicIDResponse L arg =
     (if \<not> instanceof arg (IsValidPublicIDResponse L)
      then Inl (JsError ''Expected argument of type asphrdaemon.IsValidPublicIDResponse'')
      else Inr (IsValidPublicIDResponse_serializeBinary L (snd arg)))"

definition deserialize_asphrdaemon_IsValidPublicIDResponse ::
  "('m, 'w, 'r, 'b) jspb \<Rightarrow> 'b \<Rightarrow> (js_error + 'm) option" where
  "deserialize_asphrdaemon_IsValidPublicIDResponse L buffer_arg = IsValidPublicIDResponse_deserializeBinary L buffer_arg"

definition serialize_asphrdaemon_KillRequest ::
  "('m, 'w, 'r, 'b) jspb \<Rightarrow> 'm instance_of \<Rightarrow> js_error + 'b" where
  "serialize_asphrdaemon_KillRequest L arg =
     (if \<not> instanceof arg (KillRequest L)
      then Inl (JsError ''Expected argument of type asphrdaemon.KillRequest'')
      else Inr (KillRequest_serializeBinary L (snd arg)))"

definition deserialize_asphrdaemon_KillRequest ::
  "('m, 'w, 'r, 'b) jspb \<Rightarrow> 'b \<Rightarrow> (js_error + 'm) option" where
  "deserialize_asphrdaemon_KillRequest L buffer_arg = KillRequest_deserializeBinary L buffer_arg"

definition serialize_asphrdaemon_KillResponse ::
  "('m, 'w, 'r, 'b) jspb \<Rightarrow> 'm instance_of \<Rightarrow> js_error + 'b" where
  "serialize_asphrdaemon_KillResponse L arg =
     (if \<not> instanceof arg (KillResponse L)
      then Inl (JsError ''Expected argument of type asphrdaemon.KillResponse'')
      else Inr (KillResponse_serializeBinary L (snd arg)))"

definition deserialize_asphrdaemon_KillResponse ::
  "('m, 'w, 'r, 'b) jspb \<Rightarrow> 'b \<Rightarrow> (js_error + 'm) option" where
  "deserialize_asphrdaemon_KillResponse L buffer_arg = KillResponse_deserializeBinary L buffer_arg"

definition serialize_asphrdaemon_MessageSeenRequest ::
  "('m, 'w, 'r, 'b) jspb \<Rightarrow> 'm instance_of \<Rightarrow> js_error + 'b" where
  "serialize_asphrdaemon_MessageSeenRequest L arg =
     (if \<not> instanceof arg (MessageSeenRequest L)
      then Inl (JsError ''Expected argument of type asphrdaemon.MessageSeenRequest'')
      else Inr (MessageSeenRequest_serializeBinary L (snd arg)))"

definition deserialize_asphrdaemon_MessageSeenRequest ::
  "('m, 'w, 'r, 'b) jspb \<Rightarrow> 'b \<Rightarrow> (js_error + 'm) option" where
  "deserialize_asphrdaemon_MessageSeenRequest L buffer_arg = MessageSeenRequest_deserializeBinary L buffer_arg"

definition serialize_asphrdaemon_MessageSeenResponse ::
  "('m, 'w, 'r, 'b) jspb \<Rightarrow> 'm instance_of \<Rightarrow> js_error + 'b" where
  "serialize_asphrdaemon_MessageSeenResponse L arg =
     (if \<not> instanceof arg (MessageSeenResponse L)
      then Inl (JsError ''Expected argument of type asphrdaemon.MessageSeenResponse'')
      else Inr (MessageSeenResponse_serializeBinary L (snd arg)))"

definition deserialize_asphrdaemon_MessageSeenResponse ::
  "('m, 'w, 'r, 'b) jspb \<Rightarrow> 'b \<Rightarrow> (js_error + 'm) option" where
  "deserialize_asphrdaemon_MessageSeenResponse L buffer_arg = MessageSeenResponse_deserializeBinary L buffer_arg"

definition serialize_asphrdaemon_RegisterUserRequest ::
  "('m, 'w, 'r, 'b) jspb \<Rightarrow> 'm instance_of \<Rightarrow> js_error + 'b" where
  "serialize_asphrdaemon_RegisterUserRequest L arg =
     (if \<not> instanceof arg (RegisterUserRequest L)
      then Inl (JsError ''Expected argument of type asphrdaemon.RegisterUserRequest'')
      else Inr (RegisterUserRequest_serializeBinary L (snd arg)))"

definition deserialize_asphrdaemon_RegisterUserRequest ::
  "('m, 'w, 'r, 'b) jspb \<Rightarrow> 'b \<Rightarrow> (js_error + 'm) option" where
  "deserialize_asphrdaemon_RegisterUserRequest L buffer_arg = RegisterUserRequest_deserializeBinary L buffer_arg"

definition serialize_asphrdaemon_RegisterUserResponse ::
  "('m, 'w, 'r, 'b) jspb \<Rightarrow> 'm instance_of \<Rightarrow> js_error + 'b" where
  "serialize_asphrdaemon_RegisterUserResponse L arg =
     (if \<not> instanceof arg (RegisterUserResponse L)
      then Inl (JsError ''Expected argument of type asphrdaemon.RegisterUserResponse'')
      else Inr (RegisterUserResponse_serializeBinary L (snd arg)))"

definition deserialize_asphrdaemon_RegisterUserResponse ::
  "('m, 'w, 'r, 'b) jspb \<Rightarrow> 'b \<Rightarrow> (js_error + 'm) option" where
  "deserialize_asphrdaemon_RegisterUserResponse L buffer_arg = RegisterUserResponse_deserializeBinary L buffer_arg"

definition serialize_asphrdaemon_RejectAsyncInvitationRequest ::
  "('m, 'w, 'r, 'b) jspb \<Rightarrow> 'm instance_of \<Rightarrow> js_error + 'b" where
  "serialize_asphrdaemon_RejectAsyncInvitationRequest L arg =
     (if \<not> instanceof arg (RejectAsyncInvitationRequest L)
      then Inl (JsError ''Expected argument of type asphrdaemon.RejectAsyncInvitationRequest'')
      else Inr (RejectAsyncInvitationRequest_serializeBinary L (snd arg)))"

definition deserialize_asphrdaemon_RejectAsyncInvitationRequest ::
  "('m, 'w, 'r, 'b) jspb \<Rightarrow> 'b \<Rightarrow> (js_error + 'm) option" where
  "deserialize_asphrdaemon_RejectAsyncInvitationRequest L buffer_arg = RejectAsyncInvitationRequest_deserializeBinary L buffer_arg"

definition serialize_asphrdaemon_RejectAsyncInvitationResponse ::
  "('m, 'w, 'r, 'b) jspb \<Rightarrow> 'm instance_of \<Rightarrow> js_error + 'b" where
  "serialize_asphrdaemon_RejectAsyncInvitationResponse L arg =
     (if \<not> instanceof arg (RejectAsyncInvitationResponse L)
      then Inl (JsError ''Expected argument of type asphrdaemon.RejectAsyncInvitationResponse'')
      else Inr (RejectAsyncInvitationResponse_serializeBinary L (snd arg)))"

definition deserialize_asphrdaemon_RejectAsyncInvitationResponse ::
  "('m, 'w, 'r, 'b) jspb \<Rightarrow> 'b \<Rightarrow> (js_error + 'm) option" where
  "deserialize_asphrdaemon_RejectAsyncInvitationResponse L buffer_arg = RejectAsyncInvitationResponse_deserializeBinary L buffer_arg"

definition serialize_asphrdaemon_RemoveFriendRequest ::
  "('m, 'w, 'r, 'b) jspb \<Rightarrow> 'm instance_of \<Rightarrow> js_error + 'b" where
  "serialize_asphrdaemon_RemoveFriendRequest L arg =
     (if \<not> instanceof arg (RemoveFriendRequest L)
      then Inl (JsError ''Expected argument of type asphrdaemon.RemoveFriendRequest'')
      else Inr (RemoveFriendRequest_serializeBinary L (snd arg)))"

definition deserialize_asphrdaemon_RemoveFriendRequest ::
  "('m, 'w, 'r, 'b) jspb \<Rightarrow> 'b \<Rightarrow> (js_error + 'm) option" where
  "deserialize_asphrdaemon_RemoveFriendRequest L buffer_arg = RemoveFriendRequest_deserializeBinary L buffer_arg"

definition serialize_asphrdaemon_RemoveFriendResponse ::
  "('m, 'w, 'r, 'b) jspb \<Rightarrow> 'm instance_of \<Rightarrow> js_error + 'b" where
  "serialize_asphrdaemon_RemoveFriendResponse L arg =
     (if \<not> instanceof arg (RemoveFriendResponse L)
      then Inl (JsError ''Expected argument of type asphrdaemon.RemoveFriendResponse'')
      else Inr (RemoveFriendResponse_serializeBinary L (snd arg)))"

definition deserialize_asphrdaemon_RemoveFriendResponse ::
  "('m, 'w, 'r, 'b) jspb \<Rightarrow> 'b \<Rightarrow> (js_error + 'm) option" where
  "deserialize_asphrdaemon_RemoveFriendResponse L buffer_arg = RemoveFriendResponse_deserializeBinary L buffer_arg"

definition serialize_asphrdaemon_SendMessageRequest ::
  "('m, 'w, 'r, 'b) jspb \<Rightarrow> 'm instance_of \<Rightarrow> js_error + 'b" where
  "serialize_asphrdaemon_SendMessageRequest L arg =
     (if \<not> instanceof arg (SendMessageRequest L)
      then Inl (JsError ''Expected argument of type asphrdaemon.SendMessageRequest'')
      else Inr (SendMessageRequest_serializeBinary L (snd arg)))"

definition deserialize_asphrdaemon_SendMessageRequest ::
  "('m, 'w, 'r, 'b) jspb \<Rightarrow> 'b \<Rightarrow> (js_error + 'm) option" where
  "deserialize_asphrdaemon_SendMessageRequest L buffer_arg = SendMessageRequest_deserializeBinary L buffer_arg"

definition serialize_asphrdaemon_SendMessageResponse ::
  "('m, 'w, 'r, 'b) jspb \<Rightarrow> 'm instance_of \<Rightarrow> js_error + 'b" where
  "serialize_asphrdaemon_SendMessageResponse L arg =
     (if \<not> instanceof arg (SendMessageResponse L)
      then Inl (JsError ''Expected argument of type asphrdaemon.SendMessageResponse'')
      else Inr (SendMessageResponse_serializeBinary L (snd arg)))"

definition deserialize_asphrdaemon_SendMessageResponse ::
  "('m, 'w, 'r, 'b) jspb \<Rightarrow> 'b \<Rightarrow> (js_error + 'm) option" where
  "deserialize_asphrdaemon_SendMessageResponse L buffer_arg = SendMessageResponse_deserializeBinary L buffer_arg"

definition registerUser_method ::
  "('m, 'w, 'r, 'b) jspb \<Rightarrow> ('m, 'w, 'r, 'b) method_definition" where
  "registerUser_method L =
     \<lparr>md_path = ''/asphrdaemon.Daemon/RegisterUser'',
      md_requestStream = False,
      md_responseStream = False,
      md_requestType = RegisterUserRequest L,
      md_responseType = RegisterUserResponse L,
      md_requestSerialize = serialize_asphrdaemon_RegisterUserRequest L,
      md_requestDeserialize = deserialize_asphrdaemon_RegisterUserRequest L,
      md_responseSerialize = serialize_asphrdaemon_RegisterUserResponse L,
      md_responseDeserialize = deserialize_asphrdaemon_RegisterUserResponse L\<rparr>"

definition getMyPublicID_method ::
  "('m, 'w, 'r, 'b) jspb \<Rightarrow> ('m, 'w, 'r, 'b) method_definition" where
  "getMyPublicID_method L =
     \<lparr>md_path = ''/asphrdaemon.Daemon/GetMyPublicID'',
      md_requestStream = False,
      md_responseStream = False,
      md_requestType = GetMyPublicIDRequest L,
      md_responseType = GetMyPublicIDResponse L,
      md_requestSerialize = serialize_asphrdaemon_GetMyPublicIDRequest L,
      md_requestDeserialize = deserialize_asphrdaemon_GetMyPublicIDRequest L,
      md_responseSerialize = serialize_asphrdaemon_GetMyPublicIDResponse L,
      md_responseDeserialize = deserialize_asphrdaemon_GetMyPublicIDResponse L\<rparr>"

definition isValidPublicID_method ::
  "('m, 'w, 'r, 'b) jspb \<Rightarrow> ('m, 'w, 'r, 'b) method_definition" where
  "isValidPublicID_method L =
     \<lparr>md_path = ''/asphrdaemon.Daemon/IsValidPublicID'',
      md_requestStream = False,
      md_responseStream = False,
      md_requestType = IsValidPublicIDRequest L,
      md_responseType = IsValidPublicIDResponse L,
      md_requestSerialize = serialize_asphrdaemon_IsValidPublicIDRequest L,
      md_requestDeserialize = deserialize_asphrdaemon_IsValidPublicIDRequest L,
      md_responseSerialize = serialize_asphrdaemon_IsValidPublicIDResponse L,
      md_responseDeserialize = deserialize_asphrdaemon_IsValidPublicIDResponse L\<rparr>"

definition getFriendList_method ::
  "('m, 'w, 'r, 'b) jspb \<Rightarrow> ('m, 'w, 'r, 'b) method_definition" where
  "getFriendList_method L =
     \<lparr>md_path = ''/asphrdaemon.Daemon/GetFriendList'',
      md_requestStream = False,
      md_responseStream = False,
      md_requestType = GetFriendListRequest L,
      md_responseType = GetFriendListResponse L,
      md_requestSerialize = serialize_asphrdaemon_GetFriendListRequest L,
      md_requestDeserialize = deserialize_asphrdaemon_GetFriendListRequest L,
      md_responseSerialize = serialize_asphrdaemon_GetFriendListResponse L,
      md_responseDeserialize = deserialize_asphrdaemon_GetFriendListResponse L\<rparr>"

definition removeFriend_method ::
  "('m, 'w, 'r, 'b) jspb \<Rightarrow> ('m, 'w, 'r, 'b) method_definition" where
  "removeFriend_method L =
     \<lparr>md_path = ''/asphrdaemon.Daemon/RemoveFriend'',
      md_requestStream = False,
      md_responseStream = False,
      md_requestType = RemoveFriendRequest L,
      md_responseType = RemoveFriendResponse L,
      md_requestSerialize = serialize_asphrdaemon_RemoveFriendRequest L,
      md_requestDeserialize = deserialize_asphrdaemon_RemoveFriendRequest L,
      md_responseSerialize = serialize_asphrdaemon_RemoveFriendResponse L,
      md_responseDeserialize = deserialize_asphrdaemon_RemoveFriendResponse L\<rparr>"

definition addSyncFriend_method ::
  "('m, 'w, 'r, 'b) jspb \<Rightarrow> ('m, 'w, 'r, 'b) method_definition" where
  "addSyncFriend_method L =
     \<lparr>md_path = ''/asphrdaemon.Daemon/AddSyncFriend'',
      md_requestStream = False,
      md_responseStream = False,
      md_requestType = AddSyncFriendRequest L,
      md_responseType = AddSyncFriendResponse L,
      md_requestSerialize = serialize_asphrdaemon_AddSyncFriendRequest L,
      md_requestDeserialize = deserialize_asphrdaemon_AddSyncFriendRequest L,
      md_responseSerialize = serialize_asphrdaemon_AddSyncFriendResponse L,
      md_responseDeserialize = deserialize_asphrdaemon_AddSyncFriendResponse L\<rparr>"

definition addAsyncFriend_method ::
  "('m, 'w, 'r, 'b) jspb \<Rightarrow> ('m, 'w, 'r, 'b) method_definition" where
  "addAsyncFriend_method L =
     \<lparr>md_path = ''/asphrdaemon.Daemon/AddAsyncFriend'',
      md_requestStream = False,
      md_responseStream = False,
      md_requestType = AddAsyncFriendRequest L,
      md_responseType = AddAsyncFriendResponse L,
      md_requestSerialize = serialize_asphrdaemon_AddAsyncFriendRequest L,
      md_requestDeserialize = deserialize_asphrdaemon_AddAsyncFriendRequest L,
      md_responseSerialize = serialize_asphrdaemon_AddAsyncFriendResponse L,
      md_responseDeserialize = deserialize_asphrdaemon_AddAsyncFriendResponse L\<rparr>"

definition getOutgoingSyncInvitations_method ::
  "('m, 'w, 'r, 'b) jspb \<Rightarrow> ('m, 'w, 'r, 'b) method_definition" where
  "getOutgoingSyncInvitations_method L =
     \<lparr>md_path = ''/asphrdaemon.Daemon/GetOutgoingSyncInvitations'',
      md_requestStream = False,
      md_responseStream = False,
      md_requestType = GetOutgoingSyncInvitationsRequest L,
      md_responseType = GetOutgoingSyncInvitationsResponse L,
      md_requestSerialize = serialize_asphrdaemon_GetOutgoingSyncInvitationsRequest L,
      md_requestDeserialize = deserialize_asphrdaemon_GetOutgoingSyncInvitationsRequest L,
      md_responseSerialize = serialize_asphrdaemon_GetOutgoingSyncInvitationsResponse L,
      md_responseDeserialize = deserialize_asphrdaemon_GetOutgoingSyncInvitationsResponse L\<rparr>"

definition getOutgoingAsyncInvitations_method ::
  "('m, 'w, 'r, 'b) jspb \<Rightarrow> ('m, 'w, 'r, 'b) method_definition" where
  "getOutgoingAsyncInvitations_method L =
     \<lparr>md_path = ''/asphrdaemon.Daemon/GetOutgoingAsyncInvitations'',
      md_requestStream = False,
      md_responseStream = False,
      md_requestType = GetOutgoingAsyncInvitationsRequest L,
      md_responseType = GetOutgoingAsyncInvitationsResponse L,
      md_requestSerialize = serialize_asphrdaemon_GetOutgoingAsyncInvitationsRequest L,
      md_requestDeserialize = deserialize_asphrdaemon_GetOutgoingAsyncInvitationsRequest L,
      md_responseSerialize = serialize_asphrdaemon_GetOutgoingAsyncInvitationsResponse L,
      md_responseDeserialize = deserialize_asphrdaemon_GetOutgoingAsyncInvitationsResponse L\<rparr>"

definition getIncomingAsyncInvitations_method ::
  "('m, 'w, 'r, 'b) jspb \<Rightarrow> ('m, 'w, 'r, 'b) method_definition" where
  "getIncomingAsyncInvitations_method L =
     \<lparr>md_path = ''/asphrdaemon.Daemon/GetIncomingAsyncInvitations'',
      md_requestStream = False,
      md_responseStream = False,
      md_requestType = GetIncomingAsyncInvitationsRequest L,
      md_responseType = GetIncomingAsyncInvitationsResponse L,
      md_requestSerialize = serialize_asphrdaemon_GetIncomingAsyncInvitationsRequest L,
      md_requestDeserialize = deserialize_asphrdaemon_GetIncomingAsyncInvitationsRequest L,
      md_responseSerialize = serialize_asphrdaemon_GetIncomingAsyncInvitationsResponse L,
      md_responseDeserialize = deserialize_asphrdaemon_GetIncomingAsyncInvitationsResponse L\<rparr>"

definition acceptAsyncInvitation_method ::
  "('m, 'w, 'r, 'b) jspb \<Rightarrow> ('m, 'w, 'r, 'b) method_definition" where
  "acceptAsyncInvitation_method L =
     \<lparr>md_path = ''/asphrdaemon.Daemon/AcceptAsyncInvitation'',
      md_requestStream = False,
      md_responseStream = False,
      md_requestType = AcceptAsyncInvitationRequest L,
      md_responseType = AcceptAsyncInvitationResponse L,
      md_requestSerialize = serialize_asphrdaemon_AcceptAsyncInvitationRequest L,
      md_requestDeserialize = deserialize_asphrdaemon_AcceptAsyncInvitationRequest L,
      md_responseSerialize = serialize_asphrdaemon_AcceptAsyncInvitationResponse L,
      md_responseDeserialize = deserialize_asphrdaemon_AcceptAsyncInvitationResponse L\<rparr>"

definition rejectAsyncInvitation_method ::
  "('m, 'w, 'r, 'b) jspb \<Rightarrow> ('m, 'w, 'r, 'b) method_definition" where
  "rejectAsyncInvitation_method L =
     \<lparr>md_path = ''/asphrdaemon.Daemon/RejectAsyncInvitation'',
      md_requestStream = False,
      md_responseStream = False,
      md_requestType = RejectAsyncInvitationRequest L,
      md_responseType = RejectAsyncInvitationResponse L,
      md_requestSerialize = serialize_asphrdaemon_RejectAsyncInvitationRequest L,
      md_requestDeserialize = deserialize_asphrdaemon_RejectAsyncInvitationRequest L,
      md_responseSerialize = serialize_asphrdaemon_RejectAsyncInvitationResponse L,
      md_responseDeserialize = deserialize_asphrdaemon_RejectAsyncInvitationResponse L\<rparr>"

definition cancelAsyncInvitation_method ::
  "('m, 'w, 'r, 'b) jspb \<Rightarrow> ('m, 'w, 'r, 'b) method_definition" where
  "cancelAsyncInvitation_method L =
     \<lparr>md_path = ''/asphrdaemon.Daemon/CancelAsyncInvitation'',
      md_requestStream = False,
      md_responseStream = False,
      md_requestType = CancelAsyncInvitationRequest L,
      md_responseType = CancelAsyncInvitationResponse L,
      md_requestSerialize = serialize_asphrdaemon_CancelAsyncInvitationRequest L,
      md_requestDeserialize = deserialize_asphrdaemon_CancelAsyncInvitationRequest L,
      md_responseSerialize = serialize_asphrdaemon_CancelAsyncInvitationResponse L,
      md_responseDeserialize = deserialize_asphrdaemon_CancelAsyncInvitationResponse L\<rparr>"

definition sendMessage_method ::
  "('m, 'w, 'r, 'b) jspb \<Rightarrow> ('m, 'w, 'r, 'b) method_definition" where
  "sendMessage_method L =
     \<lparr>md_path = ''/asphrdaemon.Daemon/SendMessage'',
      md_requestStream = False,
      md_responseStream = False,
      md_requestType = SendMessageRequest L,
      md_responseType = SendMessageResponse L,
      md_requestSerialize = serialize_asphrdaemon_SendMessageRequest L,
      md_requestDeserialize = deserialize_asphrdaemon_SendMessageRequest L,
      md_responseSerialize = serialize_asphrdaemon_SendMessageResponse L,
      md_responseDeserialize = deserialize_asphrdaemon_SendMessageResponse L\<rparr>"

definition getMessages_method ::
  "('m, 'w, 'r, 'b) jspb \<Rightarrow> ('m, 'w, 'r, 'b) method_definition" where
  "getMessages_method L =
     \<lparr>md_path = ''/asphrdaemon.Daemon/GetMessages'',
      md_requestStream = False,
      md_responseStream = False,
      md_requestType = GetMessagesRequest L,
      md_responseType = GetMessagesResponse L,
      md_requestSerialize = serialize_asphrdaemon_GetMessagesRequest L,
      md_requestDeserialize = deserialize_asphrdaemon_GetMessagesRequest L,
      md_responseSerialize = serialize_asphrdaemon_GetMessagesResponse L,
      md_responseDeserialize = deserialize_asphrdaemon_GetMessagesResponse L\<rparr>"

definition getMessagesStreamed_method ::
  "('m, 'w, 'r, 'b) jspb \<Rightarrow> ('m, 'w, 'r, 'b) method_definition" where
  "getMessagesStreamed_method L =
     \<lparr>md_path = ''/asphrdaemon.Daemon/GetMessagesStreamed'',
      md_requestStream = False,
      md_responseStream = True,
      md_requestType = GetMessagesRequest L,
      md_responseType = GetMessagesResponse L,
      md_requestSerialize = serialize_asphrdaemon_GetMessagesRequest L,
      md_requestDeserialize = deserialize_asphrdaemon_GetMessagesRequest L,
      md_responseSerialize = serialize_asphrdaemon_GetMessagesResponse L,
      md_responseDeserialize = deserialize_asphrdaemon_GetMessagesResponse L\<rparr>"

definition getOutboxMessages_method ::
  "('m, 'w, 'r, 'b) jspb \<Rightarrow> ('m, 'w, 'r, 'b) method_definition" where
  "getOutboxMessages_method L =
     \<lparr>md_path = ''/asphrdaemon.Daemon/GetOutboxMessages'',
      md_requestStream = False,
      md_responseStream = False,
      md_requestType = GetOutboxMessagesRequest L,
      md_responseType = GetOutboxMessagesResponse L,
      md_requestSerialize = serialize_asphrdaemon_GetOutboxMessagesRequest L,
      md_requestDeserialize = deserialize_asphrdaemon_GetOutboxMessagesRequest L,
      md_responseSerialize = serialize_asphrdaemon_GetOutboxMessagesResponse L,
      md_responseDeserialize = deserialize_asphrdaemon_GetOutboxMessagesResponse L\<rparr>"

definition getSentMessages_method ::
  "('m, 'w, 'r, 'b) jspb \<Rightarrow> ('m, 'w, 'r, 'b) method_definition" where
  "getSentMessages_method L =
     \<lparr>md_path = ''/asphrdaemon.Daemon/GetSentMessages'',
      md_requestStream = False,
      md_responseStream = False,
      md_requestType = GetSentMessagesRequest L,
      md_responseType = GetSentMessagesResponse L,
      md_requestSerialize = serialize_asphrdaemon_GetSentMessagesRequest L,
      md_requestDeserialize = deserialize_asphrdaemon_GetSentMessagesRequest L,
      md_responseSerialize = serialize_asphrdaemon_GetSentMessagesResponse L,
      md_responseDeserialize = deserialize_asphrdaemon_GetSentMessagesResponse L\<rparr>"

definition messageSeen_method ::
  "('m, 'w, 'r, 'b) jspb \<Rightarrow> ('m, 'w, 'r, 'b) method_definition" where
  "messageSeen_method L =
     \<lparr>md_path = ''/asphrdaemon.Daemon/MessageSeen'',
      md_requestStream = False,
      md_responseStream = False,
      md_requestType = MessageSeenRequest L,
      md_responseType = MessageSeenResponse L,
      md_requestSerialize = serialize_asphrdaemon_MessageSeenRequest L,
      md_requestDeserialize = deserialize_asphrdaemon_MessageSeenRequest L,
      md_responseSerialize = serialize_asphrdaemon_MessageSeenResponse L,
      md_responseDeserialize = deserialize_asphrdaemon_MessageSeenResponse L\<rparr>"

definition getStatus_method ::
  "('m, 'w, 'r, 'b) jspb \<Rightarrow> ('m, 'w, 'r, 'b) method_definition" where
  "getStatus_method L =
     \<lparr>md_path = ''/asphrdaemon.Daemon/GetStatus'',
      md_requestStream = False,
      md_responseStream = False,
      md_requestType = GetStatusRequest L,
      md_responseType = GetStatusResponse L,
      md_requestSerialize = serialize_asphrdaemon_GetStatusRequest L,
      md_requestDeserialize = deserialize_asphrdaemon_GetStatusRequest L,
      md_responseSerialize = serialize_asphrdaemon_GetStatusResponse L,
      md_responseDeserialize = deserialize_asphrdaemon_GetStatusResponse L\<rparr>"

definition getLatency_method ::
  "('m, 'w, 'r, 'b) jspb \<Rightarrow> ('m, 'w, 'r, 'b) method_definition" where
  "getLatency_method L =
     \<lparr>md_path = ''/asphrdaemon.Daemon/GetLatency'',
      md_requestStream = False,
      md_responseStream = False,
      md_requestType = GetLatencyRequest L,
      md_responseType = GetLatencyResponse L,
      md_requestSerialize = serialize_asphrdaemon_GetLatencyRequest L,
      md_requestDeserialize = deserialize_asphrdaemon_GetLatencyRequest L,
      md_responseSerialize = serialize_asphrdaemon_GetLatencyResponse L,
      md_responseDeserialize = deserialize_asphrdaemon_GetLatencyResponse L\<rparr>"

definition changeLatency_method ::
  "('m, 'w, 'r, 'b) jspb \<Rightarrow> ('m, 'w, 'r, 'b) method_definition" where
  "changeLatency_method L =
     \<lparr>md_path = ''/asphrdaemon.Daemon/ChangeLatency'',
      md_requestStream = False,
      md_responseStream = False,
      md_requestType = ChangeLatencyRequest L,
      md_responseType = ChangeLatencyResponse L,
      md_requestSerialize = serialize_asphrdaemon_ChangeLatencyRequest L,
      md_requestDeserialize = deserialize_asphrdaemon_ChangeLatencyRequest L,
      md_responseSerialize = serialize_asphrdaemon_ChangeLatencyResponse L,
      md_responseDeserialize = deserialize_asphrdaemon_ChangeLatencyResponse L\<rparr>"

definition kill_method ::
  "('m, 'w, 'r, 'b) jspb \<Rightarrow> ('m, 'w, 'r, 'b) method_definition" where
  "kill_method L =
     \<lparr>md_path = ''/asphrdaemon.Daemon/Kill'',
      md_requestStream = False,
      md_responseStream = False,
      md_requestType = KillRequest L,
      md_responseType = KillResponse L,
      md_requestSerialize = serialize_asphrdaemon_KillRequest L,
      md_requestDeserialize = deserialize_asphrdaemon_KillRequest L,
      md_responseSerialize = serialize_asphrdaemon_KillResponse L,
      md_responseDeserialize = deserialize_asphrdaemon_KillResponse L\<rparr>"

definition DaemonService ::
  "('m, 'w, 'r, 'b) jspb \<Rightarrow> (string \<times> ('m, 'w, 'r, 'b) method_definition) list" where
  "DaemonService L =
     [(''registerUser'', registerUser_method L),
      (''getMyPublicID'', getMyPublicID_method L),
      (''isValidPublicID'', isValidPublicID_method L),
      (''getFriendList'', getFriendList_method L),
      (''removeFriend'', removeFriend_method L),
      (''addSyncFriend'', addSyncFriend_method L),
      (''addAsyncFriend'', addAsyncFriend_method L),
      (''getOutgoingSyncInvitations'', getOutgoingSyncInvitations_method L),
      (''getOutgoingAsyncInvitations'', getOutgoingAsyncInvitations_method L),
      (''getIncomingAsyncInvitations'', getIncomingAsyncInvitations_method L),
      (''acceptAsyncInvitation'', acceptAsyncInvitation_method L),
      (''rejectAsyncInvitation'', rejectAsyncInvitation_method L),
      (''cancelAsyncInvitation'', cancelAsyncInvitation_method L),
      (''sendMessage'', sendMessage_method L),
      (''getMessages'', getMessages_method L),
      (''getMessagesStreamed'', getMessagesStreamed_method L),
      (''getOutboxMessages'', getOutboxMessages_method L),
      (''getSentMessages'', getSentMessages_method L),
      (''messageSeen'', messageSeen_method L),
      (''getStatus'', getStatus_method L),
      (''getLatency'', getLatency_method L),
      (''changeLatency'', changeLatency_method L),
      (''kill'', kill_method L)]"

text \<open>The remote procedures of the schema: name, request, response, and whether it is streamed.\<close>

definition daemon_rpcs :: "(string \<times> string \<times> string \<times> bool) list" where
  "daemon_rpcs =
     [(''RegisterUser'', ''RegisterUserRequest'', ''RegisterUserResponse'', False),
      (''GetMyPublicID'', ''GetMyPublicIDRequest'', ''GetMyPublicIDResponse'', False),
      (''IsValidPublicID'', ''IsValidPublicIDRequest'', ''IsValidPublicIDResponse'', False),
      (''GetFriendList'', ''GetFriendListRequest'', ''GetFriendListResponse'', False),
      (''RemoveFriend'', ''RemoveFriendRequest'', ''RemoveFriendResponse'', False),
      (''AddSyncFriend'', ''AddSyncFriendRequest'', ''AddSyncFriendResponse'', False),
      (''AddAsyncFriend'', ''AddAsyncFriendRequest'', ''AddAsyncFriendResponse'', False),
      (''GetOutgoingSyncInvitations'', ''GetOutgoingSyncInvitationsRequest'', ''GetOutgoingSyncInvitationsResponse'', False),
      (''GetOutgoingAsyncInvitations'', ''GetOutgoingAsyncInvitationsRequest'', ''GetOutgoingAsyncInvitationsResponse'', False),
      (''GetIncomingAsyncInvitations'', ''GetIncomingAsyncInvitationsRequest'', ''GetIncomingAsyncInvitationsResponse'', False),
      (''AcceptAsyncInvitation'', ''AcceptAsyncInvitationRequest'', ''AcceptAsyncInvitationResponse'', False),
      (''RejectAsyncInvitation'', ''RejectAsyncInvitationRequest'', ''RejectAsyncInvitationResponse'', False),
      (''CancelAsyncInvitation'', ''CancelAsyncInvitationRequest'', ''CancelAsyncInvitationResponse'', False),
      (''SendMessage'', ''SendMessageRequest'', ''SendMessageResponse'', False),
      (''GetMessages'', ''GetMessagesRequest'', ''GetMessagesResponse'', False),
      (''GetMessagesStreamed'', ''GetMessagesRequest'', ''GetMessagesResponse'', True),
      (''GetOutboxMessages'', ''GetOutboxMessagesRequest'', ''GetOutboxMessagesResponse'', False),
      (''GetSentMessages'', ''GetSentMessagesRequest'', ''GetSentMessagesResponse'', False),
      (''MessageSeen'', ''MessageSeenRequest'', ''MessageSeenResponse'', False),
      (''GetStatus'', ''GetStatusRequest'', ''GetStatusResponse'', False),
      (''GetLatency'', ''GetLatencyRequest'', ''GetLatencyResponse'', False),
      (''ChangeLatency'', ''ChangeLatencyRequest'', ''ChangeLatencyResponse'', False),
      (''Kill'', ''KillRequest'', ''KillResponse'', False)]"

lemmas service_method_defs =
  registerUser_method_def getMyPublicID_method_def isValidPublicID_method_def
  getFriendList_method_def removeFriend_method_def addSyncFriend_method_def
  addAsyncFriend_method_def getOutgoingSyncInvitations_method_def
  getOutgoingAsyncInvitations_method_def getIncomingAsyncInvitations_method_def
  acceptAsyncInvitation_method_def rejectAsyncInvitation_method_def cancelAsyncInvitation_method_def
  sendMessage_method_def getMessages_method_def getMessagesStreamed_method_def
  getOutboxMessages_method_def getSentMessages_method_def messageSeen_method_def
  getStatus_method_def getLatency_method_def changeLatency_method_def kill_method_def

lemmas serialize_defs =
  serialize_asphrdaemon_AcceptAsyncInvitationRequest_def
  deserialize_asphrdaemon_AcceptAsyncInvitationRequest_def
  serialize_asphrdaemon_AcceptAsyncInvitationResponse_def
  deserialize_asphrdaemon_AcceptAsyncInvitationResponse_def
  serialize_asphrdaemon_AddAsyncFriendRequest_def deserialize_asphrdaemon_AddAsyncFriendRequest_def
  serialize_asphrdaemon_AddAsyncFriendResponse_def
  deserialize_asphrdaemon_AddAsyncFriendResponse_def serialize_asphrdaemon_AddSyncFriendRequest_def
  deserialize_asphrdaemon_AddSyncFriendRequest_def serialize_asphrdaemon_AddSyncFriendResponse_def
  deserialize_asphrdaemon_AddSyncFriendResponse_def
  serialize_asphrdaemon_CancelAsyncInvitationRequest_def
  deserialize_asphrdaemon_CancelAsyncInvitationRequest_def
  serialize_asphrdaemon_CancelAsyncInvitationResponse_def
  deserialize_asphrdaemon_CancelAsyncInvitationResponse_def
  serialize_asphrdaemon_ChangeLatencyRequest_def deserialize_asphrdaemon_ChangeLatencyRequest_def
  serialize_asphrdaemon_ChangeLatencyResponse_def deserialize_asphrdaemon_ChangeLatencyResponse_def
  serialize_asphrdaemon_GetFriendListRequest_def deserialize_asphrdaemon_GetFriendListRequest_def
  serialize_asphrdaemon_GetFriendListResponse_def deserialize_asphrdaemon_GetFriendListResponse_def
  serialize_asphrdaemon_GetIncomingAsyncInvitationsRequest_def
  deserialize_asphrdaemon_GetIncomingAsyncInvitationsRequest_def
  serialize_asphrdaemon_GetIncomingAsyncInvitationsResponse_def
  deserialize_asphrdaemon_GetIncomingAsyncInvitationsResponse_def
  serialize_asphrdaemon_GetLatencyRequest_def deserialize_asphrdaemon_GetLatencyRequest_def
  serialize_asphrdaemon_GetLatencyResponse_def deserialize_asphrdaemon_GetLatencyResponse_def
  serialize_asphrdaemon_GetMessagesRequest_def deserialize_asphrdaemon_GetMessagesRequest_def
  serialize_asphrdaemon_GetMessagesResponse_def deserialize_asphrdaemon_GetMessagesResponse_def
  serialize_asphrdaemon_GetMyPublicIDRequest_def deserialize_asphrdaemon_GetMyPublicIDRequest_def
  serialize_asphrdaemon_GetMyPublicIDResponse_def deserialize_asphrdaemon_GetMyPublicIDResponse_def
  serialize_asphrdaemon_GetOutboxMessagesRequest_def
  deserialize_asphrdaemon_GetOutboxMessagesRequest_def
  serialize_asphrdaemon_GetOutboxMessagesResponse_def
  deserialize_asphrdaemon_GetOutboxMessagesResponse_def
  serialize_asphrdaemon_GetOutgoingAsyncInvitationsRequest_def
  deserialize_asphrdaemon_GetOutgoingAsyncInvitationsRequest_def
  serialize_asphrdaemon_GetOutgoingAsyncInvitationsResponse_def
  deserialize_asphrdaemon_GetOutgoingAsyncInvitationsResponse_def
  serialize_asphrdaemon_GetOutgoingSyncInvitationsRequest_def
  deserialize_asphrdaemon_GetOutgoingSyncInvitationsRequest_def
  serialize_asphrdaemon_GetOutgoingSyncInvitationsResponse_def
  deserialize_asphrdaemon_GetOutgoingSyncInvitationsResponse_def
  serialize_asphrdaemon_GetSentMessagesRequest_def
  deserialize_asphrdaemon_GetSentMessagesRequest_def
  serialize_asphrdaemon_GetSentMessagesResponse_def
  deserialize_asphrdaemon_GetSentMessagesResponse_def serialize_asphrdaemon_GetStatusRequest_def
  deserialize_asphrdaemon_GetStatusRequest_def serialize_asphrdaemon_GetStatusResponse_def
  deserialize_asphrdaemon_GetStatusResponse_def serialize_asphrdaemon_IsValidPublicIDRequest_def
  deserialize_asphrdaemon_IsValidPublicIDRequest_def
  serialize_asphrdaemon_IsValidPublicIDResponse_def
  deserialize_asphrdaemon_IsValidPublicIDResponse_def serialize_asphrdaemon_KillRequest_def
  deserialize_asphrdaemon_KillRequest_def serialize_asphrdaemon_KillResponse_def
  deserialize_asphrdaemon_KillResponse_def serialize_asphrdaemon_MessageSeenRequest_def
  deserialize_asphrdaemon_MessageSeenRequest_def serialize_asphrdaemon_MessageSeenResponse_def
  deserialize_asphrdaemon_MessageSeenResponse_def serialize_asphrdaemon_RegisterUserRequest_def
  deserialize_asphrdaemon_RegisterUserRequest_def serialize_asphrdaemon_RegisterUserResponse_def
  deserialize_asphrdaemon_RegisterUserResponse_def
  serialize_asphrdaemon_RejectAsyncInvitationRequest_def
  deserialize_asphrdaemon_RejectAsyncInvitationRequest_def
  serialize_asphrdaemon_RejectAsyncInvitationResponse_def
  deserialize_asphrdaemon_RejectAsyncInvitationResponse_def
  serialize_asphrdaemon_RemoveFriendRequest_def deserialize_asphrdaemon_RemoveFriendRequest_def
  serialize_asphrdaemon_RemoveFriendResponse_def deserialize_asphrdaemon_RemoveFriendResponse_def
  serialize_asphrdaemon_SendMessageRequest_def deserialize_asphrdaemon_SendMessageRequest_def
  serialize_asphrdaemon_SendMessageResponse_def deserialize_asphrdaemon_SendMessageResponse_def

lemmas message_class_defs =
  AcceptAsyncInvitationRequest_def AcceptAsyncInvitationResponse_def AddAsyncFriendRequest_def
  AddAsyncFriendResponse_def AddSyncFriendRequest_def AddSyncFriendResponse_def
  CancelAsyncInvitationRequest_def CancelAsyncInvitationResponse_def ChangeLatencyRequest_def
  ChangeLatencyResponse_def GetFriendListRequest_def GetFriendListResponse_def
  GetIncomingAsyncInvitationsRequest_def GetIncomingAsyncInvitationsResponse_def
  GetLatencyRequest_def GetLatencyResponse_def GetMessagesRequest_def GetMessagesResponse_def
  GetMyPublicIDRequest_def GetMyPublicIDResponse_def GetOutboxMessagesRequest_def
  GetOutboxMessagesResponse_def GetOutgoingAsyncInvitationsRequest_def
  GetOutgoingAsyncInvitationsResponse_def GetOutgoingSyncInvitationsRequest_def
  GetOutgoingSyncInvitationsResponse_def GetSentMessagesRequest_def GetSentMessagesResponse_def
  GetStatusRequest_def GetStatusResponse_def IsValidPublicIDRequest_def IsValidPublicIDResponse_def
  KillRequest_def KillResponse_def MessageSeenRequest_def MessageSeenResponse_def
  RegisterUserRequest_def RegisterUserResponse_def RejectAsyncInvitationRequest_def
  RejectAsyncInvitationResponse_def RemoveFriendRequest_def RemoveFriendResponse_def
  SendMessageRequest_def SendMessageResponse_def

lemma in_classes:
  "AcceptAsyncInvitationRequest L \<in> snd ` set (pb_classes L)"
  "AcceptAsyncInvitationResponse L \<in> snd ` set (pb_classes L)"
  "AddAsyncFriendRequest L \<in> snd ` set (pb_classes L)"
  "AddAsyncFriendResponse L \<in> snd ` set (pb_classes L)"
  "AddSyncFriendRequest L \<in> snd ` set (pb_classes L)"
  "AddSyncFriendResponse L \<in> snd ` set (pb_classes L)"
  "CancelAsyncInvitationRequest L \<in> snd ` set (pb_classes L)"
  "CancelAsyncInvitationResponse L \<in> snd ` set (pb_classes L)"
  "ChangeLatencyRequest L \<in> snd ` set (pb_classes L)"
  "ChangeLatencyResponse L \<in> snd ` set (pb_classes L)"
  "GetFriendListRequest L \<in> snd ` set (pb_classes L)"
  "GetFriendListResponse L \<in> snd ` set (pb_classes L)"
  "GetIncomingAsyncInvitationsRequest L \<in> snd ` set (pb_classes L)"
  "GetIncomingAsyncInvitationsResponse L \<in> snd ` set (pb_classes L)"
  "GetLatencyRequest L \<in> snd ` set (pb_classes L)"
  "GetLatencyResponse L \<in> snd ` set (pb_classes L)"
  "GetMessagesRequest L \<in> snd ` set (pb_classes L)"
  "GetMessagesResponse L \<in> snd ` set (pb_classes L)"
  "GetMyPublicIDRequest L \<in> snd ` set (pb_classes L)"
  "GetMyPublicIDResponse L \<in> snd ` set (pb_classes L)"
  "GetOutboxMessagesRequest L \<in> snd ` set (pb_classes L)"
  "GetOutboxMessagesResponse L \<in> snd ` set (pb_classes L)"
  "GetOutgoingAsyncInvitationsRequest L \<in> snd ` set (pb_classes L)"
  "GetOutgoingAsyncInvitationsResponse L \<in> snd ` set (pb_classes L)"
  "GetOutgoingSyncInvitationsRequest L \<in> snd ` set (pb_classes L)"
  "GetOutgoingSyncInvitationsResponse L \<in> snd ` set (pb_classes L)"
  "GetSentMessagesRequest L \<in> snd ` set (pb_classes L)"
  "GetSentMessagesResponse L \<in> snd ` set (pb_classes L)"
  "GetStatusRequest L \<in> snd ` set (pb_classes L)"
  "GetStatusResponse L \<in> snd ` set (pb_classes L)"
  "IsValidPublicIDRequest L \<in> snd ` set (pb_classes L)"
  "IsValidPublicIDResponse L \<in> snd ` set (pb_classes L)"
  "KillRequest L \<in> snd ` set (pb_classes L)"
  "KillResponse L \<in> snd ` set (pb_classes L)"
  "MessageSeenRequest L \<in> snd ` set (pb_classes L)"
  "MessageSeenResponse L \<in> snd ` set (pb_classes L)"
  "RegisterUserRequest L \<in> snd ` set (pb_classes L)"
  "RegisterUserResponse L \<in> snd ` set (pb_classes L)"
  "RejectAsyncInvitationRequest L \<in> snd ` set (pb_classes L)"
  "RejectAsyncInvitationResponse L \<in> snd ` set (pb_classes L)"
  "RemoveFriendRequest L \<in> snd ` set (pb_classes L)"
  "RemoveFriendResponse L \<in> snd ` set (pb_classes L)"
  "SendMessageRequest L \<in> snd ` set (pb_classes L)"
  "SendMessageResponse L \<in> snd ` set (pb_classes L)"
  by (simp_all add: pb_classes_def)

lemma reject_laws:
  "\<not> instanceof arg (AcceptAsyncInvitationRequest L) \<Longrightarrow>
    serialize_asphrdaemon_AcceptAsyncInvitationRequest L arg = Inl (JsError (''Expected argument of type '' @ drop 6 (pc_displayName (AcceptAsyncInvitationRequest L))))"
  "\<not> instanceof arg (AcceptAsyncInvitationResponse L) \<Longrightarrow>
    serialize_asphrdaemon_AcceptAsyncInvitationResponse L arg = Inl (JsError (''Expected argument of type '' @ drop 6 (pc_displayName (AcceptAsyncInvitationResponse L))))"
  "\<not> instanceof arg (AddAsyncFriendRequest L) \<Longrightarrow>
    serialize_asphrdaemon_AddAsyncFriendRequest L arg = Inl (JsError (''Expected argument of type '' @ drop 6 (pc_displayName (AddAsyncFriendRequest L))))"
  "\<not> instanceof arg (AddAsyncFriendResponse L) \<Longrightarrow>
    serialize_asphrdaemon_AddAsyncFriendResponse L arg = Inl (JsError (''Expected argument of type '' @ drop 6 (pc_displayName (AddAsyncFriendResponse L))))"
  "\<not> instanceof arg (AddSyncFriendRequest L) \<Longrightarrow>
    serialize_asphrdaemon_AddSyncFriendRequest L arg = Inl (JsError (''Expected argument of type '' @ drop 6 (pc_displayName (AddSyncFriendRequest L))))"
  "\<not> instanceof arg (AddSyncFriendResponse L) \<Longrightarrow>
    serialize_asphrdaemon_AddSyncFriendResponse L arg = Inl (JsError (''Expected argument of type '' @ drop 6 (pc_displayName (AddSyncFriendResponse L))))"
  "\<not> instanceof arg (CancelAsyncInvitationRequest L) \<Longrightarrow>
    serialize_asphrdaemon_CancelAsyncInvitationRequest L arg = Inl (JsError (''Expected argument of type '' @ drop 6 (pc_displayName (CancelAsyncInvitationRequest L))))"
  "\<not> instanceof arg (CancelAsyncInvitationResponse L) \<Longrightarrow>
    serialize_asphrdaemon_CancelAsyncInvitationResponse L arg = Inl (JsError (''Expected argument of type '' @ drop 6 (pc_displayName (CancelAsyncInvitationResponse L))))"
  "\<not> instanceof arg (ChangeLatencyRequest L) \<Longrightarrow>
    serialize_asphrdaemon_ChangeLatencyRequest L arg = Inl (JsError (''Expected argument of type '' @ drop 6 (pc_displayName (ChangeLatencyRequest L))))"
  "\<not> instanceof arg (ChangeLatencyResponse L) \<Longrightarrow>
    serialize_asphrdaemon_ChangeLatencyResponse L arg = Inl (JsError (''Expected argument of type '' @ drop 6 (pc_displayName (ChangeLatencyResponse L))))"
  "\<not> instanceof arg (GetFriendListRequest L) \<Longrightarrow>
    serialize_asphrdaemon_GetFriendListRequest L arg = Inl (JsError (''Expected argument of type '' @ drop 6 (pc_displayName (GetFriendListRequest L))))"
  "\<not> instanceof arg (GetFriendListResponse L) \<Longrightarrow>
    serialize_asphrdaemon_GetFriendListResponse L arg = Inl (JsError (''Expected argument of type '' @ drop 6 (pc_displayName (GetFriendListResponse L))))"
  "\<not> instanceof arg (GetIncomingAsyncInvitationsRequest L) \<Longrightarrow>
    serialize_asphrdaemon_GetIncomingAsyncInvitationsRequest L arg = Inl (JsError (''Expected argument of type '' @ drop 6 (pc_displayName (GetIncomingAsyncInvitationsRequest L))))"
  "\<not> instanceof arg (GetIncomingAsyncInvitationsResponse L) \<Longrightarrow>
    serialize_asphrdaemon_GetIncomingAsyncInvitationsResponse L arg = Inl (JsError (''Expected argument of type '' @ drop 6 (pc_displayName (GetIncomingAsyncInvitationsResponse L))))"
  "\<not> instanceof arg (GetLatencyRequest L) \<Longrightarrow>
    serialize_asphrdaemon_GetLatencyRequest L arg = Inl (JsError (''Expected argument of type '' @ drop 6 (pc_displayName (GetLatencyRequest L))))"
  "\<not> instanceof arg (GetLatencyResponse L) \<Longrightarrow>
    serialize_asphrdaemon_GetLatencyResponse L arg = Inl (JsError (''Expected argument of type '' @ drop 6 (pc_displayName (GetLatencyResponse L))))"
  "\<not> instanceof arg (GetMessagesRequest L) \<Longrightarrow>
    serialize_asphrdaemon_GetMessagesRequest L arg = Inl (JsError (''Expected argument of type '' @ drop 6 (pc_displayName (GetMessagesRequest L))))"
  "\<not> instanceof arg (GetMessagesResponse L) \<Longrightarrow>
    serialize_asphrdaemon_GetMessagesResponse L arg = Inl (JsError (''Expected argument of type '' @ drop 6 (pc_displayName (GetMessagesResponse L))))"
  "\<not> instanceof arg (GetMyPublicIDRequest L) \<Longrightarrow>
    serialize_asphrdaemon_GetMyPublicIDRequest L arg = Inl (JsError (''Expected argument of type '' @ drop 6 (pc_displayName (GetMyPublicIDRequest L))))"
  "\<not> instanceof arg (GetMyPublicIDResponse L) \<Longrightarrow>
    serialize_asphrdaemon_GetMyPublicIDResponse L arg = Inl (JsError (''Expected argument of type '' @ drop 6 (pc_displayName (GetMyPublicIDResponse L))))"
  "\<not> instanceof arg (GetOutboxMessagesRequest L) \<Longrightarrow>
    serialize_asphrdaemon_GetOutboxMessagesRequest L arg = Inl (JsError (''Expected argument of type '' @ drop 6 (pc_displayName (GetOutboxMessagesRequest L))))"
  "\<not> instanceof arg (GetOutboxMessagesResponse L) \<Longrightarrow>
    serialize_asphrdaemon_GetOutboxMessagesResponse L arg = Inl (JsError (''Expected argument of type '' @ drop 6 (pc_displayName (GetOutboxMessagesResponse L))))"
  "\<not> instanceof arg (GetOutgoingAsyncInvitationsRequest L) \<Longrightarrow>
    serialize_asphrdaemon_GetOutgoingAsyncInvitationsRequest L arg = Inl (JsError (''Expected argument of type '' @ drop 6 (pc_displayName (GetOutgoingAsyncInvitationsRequest L))))"
  "\<not> instanceof arg (GetOutgoingAsyncInvitationsResponse L) \<Longrightarrow>
    serialize_asphrdaemon_GetOutgoingAsyncInvitationsResponse L arg = Inl (JsError (''Expected argument of type '' @ drop 6 (pc_displayName (GetOutgoingAsyncInvitationsResponse L))))"
  "\<not> instanceof arg (GetOutgoingSyncInvitationsRequest L) \<Longrightarrow>
    serialize_asphrdaemon_GetOutgoingSyncInvitationsRequest L arg = Inl (JsError (''Expected argument of type '' @ drop 6 (pc_displayName (GetOutgoingSyncInvitationsRequest L))))"
  "\<not> instanceof arg (GetOutgoingSyncInvitationsResponse L) \<Longrightarrow>
    serialize_asphrdaemon_GetOutgoingSyncInvitationsResponse L arg = Inl (JsError (''Expected argument of type '' @ drop 6 (pc_displayName (GetOutgoingSyncInvitationsResponse L))))"
  "\<not> instanceof arg (GetSentMessagesRequest L) \<Longrightarrow>
    serialize_asphrdaemon_GetSentMessagesRequest L arg = Inl (JsError (''Expected argument of type '' @ drop 6 (pc_displayName (GetSentMessagesRequest L))))"
  "\<not> instanceof arg (GetSentMessagesResponse L) \<Longrightarrow>
    serialize_asphrdaemon_GetSentMessagesResponse L arg = Inl (JsError (''Expected argument of type '' @ drop 6 (pc_displayName (GetSentMessagesResponse L))))"
  "\<not> instanceof arg (GetStatusRequest L) \<Longrightarrow>
    serialize_asphrdaemon_GetStatusRequest L arg = Inl (JsError (''Expected argument of type '' @ drop 6 (pc_displayName (GetStatusRequest L))))"
  "\<not> instanceof arg (GetStatusResponse L) \<Longrightarrow>
    serialize_asphrdaemon_GetStatusResponse L arg = Inl (JsError (''Expected argument of type '' @ drop 6 (pc_displayName (GetStatusResponse L))))"
  "\<not> instanceof arg (IsValidPublicIDRequest L) \<Longrightarrow>
    serialize_asphrdaemon_IsValidPublicIDRequest L arg = Inl (JsError (''Expected argument of type '' @ drop 6 (pc_displayName (IsValidPublicIDRequest L))))"
  "\<not> instanceof arg (IsValidPublicIDResponse L) \<Longrightarrow>
    serialize_asphrdaemon_IsValidPublicIDResponse L arg = Inl (JsError (''Expected argument of type '' @ drop 6 (pc_displayName (IsValidPublicIDResponse L))))"
  "\<not> instanceof arg (KillRequest L) \<Longrightarrow>
    serialize_asphrdaemon_KillRequest L arg = Inl (JsError (''Expected argument of type '' @ drop 6 (pc_displayName (KillRequest L))))"
  "\<not> instanceof arg (KillResponse L) \<Longrightarrow>
    serialize_asphrdaemon_KillResponse L arg = Inl (JsError (''Expected argument of type '' @ drop 6 (pc_displayName (KillResponse L))))"
  "\<not> instanceof arg (MessageSeenRequest L) \<Longrightarrow>
    serialize_asphrdaemon_MessageSeenRequest L arg = Inl (JsError (''Expected argument of type '' @ drop 6 (pc_displayName (MessageSeenRequest L))))"
  "\<not> instanceof arg (MessageSeenResponse L) \<Longrightarrow>
    serialize_asphrdaemon_MessageSeenResponse L arg = Inl (JsError (''Expected argument of type '' @ drop 6 (pc_displayName (MessageSeenResponse L))))"
  "\<not> instanceof arg (RegisterUserRequest L) \<Longrightarrow>
    serialize_asphrdaemon_RegisterUserRequest L arg = Inl (JsError (''Expected argument of type '' @ drop 6 (pc_displayName (RegisterUserRequest L))))"
  "\<not> instanceof arg (RegisterUserResponse L) \<Longrightarrow>
    serialize_asphrdaemon_RegisterUserResponse L arg = Inl (JsError (''Expected argument of type '' @ drop 6 (pc_displayName (RegisterUserResponse L))))"
  "\<not> instanceof arg (RejectAsyncInvitationRequest L) \<Longrightarrow>
    serialize_asphrdaemon_RejectAsyncInvitationRequest L arg = Inl (JsError (''Expected argument of type '' @ drop 6 (pc_displayName (RejectAsyncInvitationRequest L))))"
  "\<not> instanceof arg (RejectAsyncInvitationResponse L) \<Longrightarrow>
    serialize_asphrdaemon_RejectAsyncInvitationResponse L arg = Inl (JsError (''Expected argument of type '' @ drop 6 (pc_displayName (RejectAsyncInvitationResponse L))))"
  "\<not> instanceof arg (RemoveFriendRequest L) \<Longrightarrow>
    serialize_asphrdaemon_RemoveFriendRequest L arg = Inl (JsError (''Expected argument of type '' @ drop 6 (pc_displayName (RemoveFriendRequest L))))"
  "\<not> instanceof arg (RemoveFriendResponse L) \<Longrightarrow>
    serialize_asphrdaemon_RemoveFriendResponse L arg = Inl (JsError (''Expected argument of type '' @ drop 6 (pc_displayName (RemoveFriendResponse L))))"
  "\<not> instanceof arg (SendMessageRequest L) \<Longrightarrow>
    serialize_asphrdaemon_SendMessageRequest L arg = Inl (JsError (''Expected argument of type '' @ drop 6 (pc_displayName (SendMessageRequest L))))"
  "\<not> instanceof arg (SendMessageResponse L) \<Longrightarrow>
    serialize_asphrdaemon_SendMessageResponse L arg = Inl (JsError (''Expected argument of type '' @ drop 6 (pc_displayName (SendMessageResponse L))))"
  by (simp_all add: serialize_defs message_class_defs)

lemma serialize_laws:
  "instanceof arg (AcceptAsyncInvitationRequest L) \<Longrightarrow>
    serialize_asphrdaemon_AcceptAsyncInvitationRequest L arg = Inr (pc_prototype_serializeBinary (AcceptAsyncInvitationRequest L) (snd arg))"
  "deserialize_asphrdaemon_AcceptAsyncInvitationRequest L = pc_deserializeBinary (AcceptAsyncInvitationRequest L)"
  "instanceof arg (AcceptAsyncInvitationResponse L) \<Longrightarrow>
    serialize_asphrdaemon_AcceptAsyncInvitationResponse L arg = Inr (pc_prototype_serializeBinary (AcceptAsyncInvitationResponse L) (snd arg))"
  "deserialize_asphrdaemon_AcceptAsyncInvitationResponse L = pc_deserializeBinary (AcceptAsyncInvitationResponse L)"
  "instanceof arg (AddAsyncFriendRequest L) \<Longrightarrow>
    serialize_asphrdaemon_AddAsyncFriendRequest L arg = Inr (pc_prototype_serializeBinary (AddAsyncFriendRequest L) (snd arg))"
  "deserialize_asphrdaemon_AddAsyncFriendRequest L = pc_deserializeBinary (AddAsyncFriendRequest L)"
  "instanceof arg (AddAsyncFriendResponse L) \<Longrightarrow>
    serialize_asphrdaemon_AddAsyncFriendResponse L arg = Inr (pc_prototype_serializeBinary (AddAsyncFriendResponse L) (snd arg))"
  "deserialize_asphrdaemon_AddAsyncFriendResponse L = pc_deserializeBinary (AddAsyncFriendResponse L)"
  "instanceof arg (AddSyncFriendRequest L) \<Longrightarrow>
    serialize_asphrdaemon_AddSyncFriendRequest L arg = Inr (pc_prototype_serializeBinary (AddSyncFriendRequest L) (snd arg))"
  "deserialize_asphrdaemon_AddSyncFriendRequest L = pc_deserializeBinary (AddSyncFriendRequest L)"
  "instanceof arg (AddSyncFriendResponse L) \<Longrightarrow>
    serialize_asphrdaemon_AddSyncFriendResponse L arg = Inr (pc_prototype_serializeBinary (AddSyncFriendResponse L) (snd arg))"
  "deserialize_asphrdaemon_AddSyncFriendResponse L = pc_deserializeBinary (AddSyncFriendResponse L)"
  "instanceof arg (CancelAsyncInvitationRequest L) \<Longrightarrow>
    serialize_asphrdaemon_CancelAsyncInvitationRequest L arg = Inr (pc_prototype_serializeBinary (CancelAsyncInvitationRequest L) (snd arg))"
  "deserialize_asphrdaemon_CancelAsyncInvitationRequest L = pc_deserializeBinary (CancelAsyncInvitationRequest L)"
  "instanceof arg (CancelAsyncInvitationResponse L) \<Longrightarrow>
    serialize_asphrdaemon_CancelAsyncInvitationResponse L arg = Inr (pc_prototype_serializeBinary (CancelAsyncInvitationResponse L) (snd arg))"
  "deserialize_asphrdaemon_CancelAsyncInvitationResponse L = pc_deserializeBinary (CancelAsyncInvitationResponse L)"
  "instanceof arg (ChangeLatencyRequest L) \<Longrightarrow>
    serialize_asphrdaemon_ChangeLatencyRequest L arg = Inr (pc_prototype_serializeBinary (ChangeLatencyRequest L) (snd arg))"
  "deserialize_asphrdaemon_ChangeLatencyRequest L = pc_deserializeBinary (ChangeLatencyRequest L)"
  "instanceof arg (ChangeLatencyResponse L) \<Longrightarrow>
    serialize_asphrdaemon_ChangeLatencyResponse L arg = Inr (pc_prototype_serializeBinary (ChangeLatencyResponse L) (snd arg))"
  "deserialize_asphrdaemon_ChangeLatencyResponse L = pc_deserializeBinary (ChangeLatencyResponse L)"
  "instanceof arg (GetFriendListRequest L) \<Longrightarrow>
    serialize_asphrdaemon_GetFriendListRequest L arg = Inr (pc_prototype_serializeBinary (GetFriendListRequest L) (snd arg))"
  "deserialize_asphrdaemon_GetFriendListRequest L = pc_deserializeBinary (GetFriendListRequest L)"
  "instanceof arg (GetFriendListResponse L) \<Longrightarrow>
    serialize_asphrdaemon_GetFriendListResponse L arg = Inr (pc_prototype_serializeBinary (GetFriendListResponse L) (snd arg))"
  "deserialize_asphrdaemon_GetFriendListResponse L = pc_deserializeBinary (GetFriendListResponse L)"
  "instanceof arg (GetIncomingAsyncInvitationsRequest L) \<Longrightarrow>
    serialize_asphrdaemon_GetIncomingAsyncInvitationsRequest L arg = Inr (pc_prototype_serializeBinary (GetIncomingAsyncInvitationsRequest L) (snd arg))"
  "deserialize_asphrdaemon_GetIncomingAsyncInvitationsRequest L = pc_deserializeBinary (GetIncomingAsyncInvitationsRequest L)"
  "instanceof arg (GetIncomingAsyncInvitationsResponse L) \<Longrightarrow>
    serialize_asphrdaemon_GetIncomingAsyncInvitationsResponse L arg = Inr (pc_prototype_serializeBinary (GetIncomingAsyncInvitationsResponse L) (snd arg))"
  "deserialize_asphrdaemon_GetIncomingAsyncInvitationsResponse L = pc_deserializeBinary (GetIncomingAsyncInvitationsResponse L)"
  "instanceof arg (GetLatencyRequest L) \<Longrightarrow>
    serialize_asphrdaemon_GetLatencyRequest L arg = Inr (pc_prototype_serializeBinary (GetLatencyRequest L) (snd arg))"
  "deserialize_asphrdaemon_GetLatencyRequest L = pc_deserializeBinary (GetLatencyRequest L)"
  "instanceof arg (GetLatencyResponse L) \<Longrightarrow>
    serialize_asphrdaemon_GetLatencyResponse L arg = Inr (pc_prototype_serializeBinary (GetLatencyResponse L) (snd arg))"
  "deserialize_asphrdaemon_GetLatencyResponse L = pc_deserializeBinary (GetLatencyResponse L)"
  "instanceof arg (GetMessagesRequest L) \<Longrightarrow>
    serialize_asphrdaemon_GetMessagesRequest L arg = Inr (pc_prototype_serializeBinary (GetMessagesRequest L) (snd arg))"
  "deserialize_asphrdaemon_GetMessagesRequest L = pc_deserializeBinary (GetMessagesRequest L)"
  "instanceof arg (GetMessagesResponse L) \<Longrightarrow>
    serialize_asphrdaemon_GetMessagesResponse L arg = Inr (pc_prototype_serializeBinary (GetMessagesResponse L) (snd arg))"
  "deserialize_asphrdaemon_GetMessagesResponse L = pc_deserializeBinary (GetMessagesResponse L)"
  "instanceof arg (GetMyPublicIDRequest L) \<Longrightarrow>
    serialize_asphrdaemon_GetMyPublicIDRequest L arg = Inr (pc_prototype_serializeBinary (GetMyPublicIDRequest L) (snd arg))"
  "deserialize_asphrdaemon_GetMyPublicIDRequest L = pc_deserializeBinary (GetMyPublicIDRequest L)"
  "instanceof arg (GetMyPublicIDResponse L) \<Longrightarrow>
    serialize_asphrdaemon_GetMyPublicIDResponse L arg = Inr (pc_prototype_serializeBinary (GetMyPublicIDResponse L) (snd arg))"
  "deserialize_asphrdaemon_GetMyPublicIDResponse L = pc_deserializeBinary (GetMyPublicIDResponse L)"
  "instanceof arg (GetOutboxMessagesRequest L) \<Longrightarrow>
    serialize_asphrdaemon_GetOutboxMessagesRequest L arg = Inr (pc_prototype_serializeBinary (GetOutboxMessagesRequest L) (snd arg))"
  "deserialize_asphrdaemon_GetOutboxMessagesRequest L = pc_deserializeBinary (GetOutboxMessagesRequest L)"
  "instanceof arg (GetOutboxMessagesResponse L) \<Longrightarrow>
    serialize_asphrdaemon_GetOutboxMessagesResponse L arg = Inr (pc_prototype_serializeBinary (GetOutboxMessagesResponse L) (snd arg))"
  "deserialize_asphrdaemon_GetOutboxMessagesResponse L = pc_deserializeBinary (GetOutboxMessagesResponse L)"
  "instanceof arg (GetOutgoingAsyncInvitationsRequest L) \<Longrightarrow>
    serialize_asphrdaemon_GetOutgoingAsyncInvitationsRequest L arg = Inr (pc_prototype_serializeBinary (GetOutgoingAsyncInvitationsRequest L) (snd arg))"
  "deserialize_asphrdaemon_GetOutgoingAsyncInvitationsRequest L = pc_deserializeBinary (GetOutgoingAsyncInvitationsRequest L)"
  "instanceof arg (GetOutgoingAsyncInvitationsResponse L) \<Longrightarrow>
    serialize_asphrdaemon_GetOutgoingAsyncInvitationsResponse L arg = Inr (pc_prototype_serializeBinary (GetOutgoingAsyncInvitationsResponse L) (snd arg))"
  "deserialize_asphrdaemon_GetOutgoingAsyncInvitationsResponse L = pc_deserializeBinary (GetOutgoingAsyncInvitationsResponse L)"
  "instanceof arg (GetOutgoingSyncInvitationsRequest L) \<Longrightarrow>
    serialize_asphrdaemon_GetOutgoingSyncInvitationsRequest L arg = Inr (pc_prototype_serializeBinary (GetOutgoingSyncInvitationsRequest L) (snd arg))"
  "deserialize_asphrdaemon_GetOutgoingSyncInvitationsRequest L = pc_deserializeBinary (GetOutgoingSyncInvitationsRequest L)"
  "instanceof arg (GetOutgoingSyncInvitationsResponse L) \<Longrightarrow>
    serialize_asphrdaemon_GetOutgoingSyncInvitationsResponse L arg = Inr (pc_prototype_serializeBinary (GetOutgoingSyncInvitationsResponse L) (snd arg))"
  "deserialize_asphrdaemon_GetOutgoingSyncInvitationsResponse L = pc_deserializeBinary (GetOutgoingSyncInvitationsResponse L)"
  "instanceof arg (GetSentMessagesRequest L) \<Longrightarrow>
    serialize_asphrdaemon_GetSentMessagesRequest L arg = Inr (pc_prototype_serializeBinary (GetSentMessagesRequest L) (snd arg))"
  "deserialize_asphrdaemon_GetSentMessagesRequest L = pc_deserializeBinary (GetSentMessagesRequest L)"
  "instanceof arg (GetSentMessagesResponse L) \<Longrightarrow>
    serialize_asphrdaemon_GetSentMessagesResponse L arg = Inr (pc_prototype_serializeBinary (GetSentMessagesResponse L) (snd arg))"
  "deserialize_asphrdaemon_GetSentMessagesResponse L = pc_deserializeBinary (GetSentMessagesResponse L)"
  "instanceof arg (GetStatusRequest L) \<Longrightarrow>
    serialize_asphrdaemon_GetStatusRequest L arg = Inr (pc_prototype_serializeBinary (GetStatusRequest L) (snd arg))"
  "deserialize_asphrdaemon_GetStatusRequest L = pc_deserializeBinary (GetStatusRequest L)"
  "instanceof arg (GetStatusResponse L) \<Longrightarrow>
    serialize_asphrdaemon_GetStatusResponse L arg = Inr (pc_prototype_serializeBinary (GetStatusResponse L) (snd arg))"
  "deserialize_asphrdaemon_GetStatusResponse L = pc_deserializeBinary (GetStatusResponse L)"
  "instanceof arg (IsValidPublicIDRequest L) \<Longrightarrow>
    serialize_asphrdaemon_IsValidPublicIDRequest L arg = Inr (pc_prototype_serializeBinary (IsValidPublicIDRequest L) (snd arg))"
  "deserialize_asphrdaemon_IsValidPublicIDRequest L = pc_deserializeBinary (IsValidPublicIDRequest L)"
  "instanceof arg (IsValidPublicIDResponse L) \<Longrightarrow>
    serialize_asphrdaemon_IsValidPublicIDResponse L arg = Inr (pc_prototype_serializeBinary (IsValidPublicIDResponse L) (snd arg))"
  "deserialize_asphrdaemon_IsValidPublicIDResponse L = pc_deserializeBinary (IsValidPublicIDResponse L)"
  "instanceof arg (KillRequest L) \<Longrightarrow>
    serialize_asphrdaemon_KillRequest L arg = Inr (pc_prototype_serializeBinary (KillRequest L) (snd arg))"
  "deserialize_asphrdaemon_KillRequest L = pc_deserializeBinary (KillRequest L)"
  "instanceof arg (KillResponse L) \<Longrightarrow>
    serialize_asphrdaemon_KillResponse L arg = Inr (pc_prototype_serializeBinary (KillResponse L) (snd arg))"
  "deserialize_asphrdaemon_KillResponse L = pc_deserializeBinary (KillResponse L)"
  "instanceof arg (MessageSeenRequest L) \<Longrightarrow>
    serialize_asphrdaemon_MessageSeenRequest L arg = Inr (pc_prototype_serializeBinary (MessageSeenRequest L) (snd arg))"
  "deserialize_asphrdaemon_MessageSeenRequest L = pc_deserializeBinary (MessageSeenRequest L)"
  "instanceof arg (MessageSeenResponse L) \<Longrightarrow>
    serialize_asphrdaemon_MessageSeenResponse L arg = Inr (pc_prototype_serializeBinary (MessageSeenResponse L) (snd arg))"
  "deserialize_asphrdaemon_MessageSeenResponse L = pc_deserializeBinary (MessageSeenResponse L)"
  "instanceof arg (RegisterUserRequest L) \<Longrightarrow>
    serialize_asphrdaemon_RegisterUserRequest L arg = Inr (pc_prototype_serializeBinary (RegisterUserRequest L) (snd arg))"
  "deserialize_asphrdaemon_RegisterUserRequest L = pc_deserializeBinary (RegisterUserRequest L)"
  "instanceof arg (RegisterUserResponse L) \<Longrightarrow>
    serialize_asphrdaemon_RegisterUserResponse L arg = Inr (pc_prototype_serializeBinary (RegisterUserResponse L) (snd arg))"
  "deserialize_asphrdaemon_RegisterUserResponse L = pc_deserializeBinary (RegisterUserResponse L)"
  "instanceof arg (RejectAsyncInvitationRequest L) \<Longrightarrow>
    serialize_asphrdaemon_RejectAsyncInvitationRequest L arg = Inr (pc_prototype_serializeBinary (RejectAsyncInvitationRequest L) (snd arg))"
  "deserialize_asphrdaemon_RejectAsyncInvitationRequest L = pc_deserializeBinary (RejectAsyncInvitationRequest L)"
  "instanceof arg (RejectAsyncInvitationResponse L) \<Longrightarrow>
    serialize_asphrdaemon_RejectAsyncInvitationResponse L arg = Inr (pc_prototype_serializeBinary (RejectAsyncInvitationResponse L) (snd arg))"
  "deserialize_asphrdaemon_RejectAsyncInvitationResponse L = pc_deserializeBinary (RejectAsyncInvitationResponse L)"
  "instanceof arg (RemoveFriendRequest L) \<Longrightarrow>
    serialize_asphrdaemon_RemoveFriendRequest L arg = Inr (pc_prototype_serializeBinary (RemoveFriendRequest L) (snd arg))"
  "deserialize_asphrdaemon_RemoveFriendRequest L = pc_deserializeBinary (RemoveFriendRequest L)"
  "instanceof arg (RemoveFriendResponse L) \<Longrightarrow>
    serialize_asphrdaemon_RemoveFriendResponse L arg = Inr (pc_prototype_serializeBinary (RemoveFriendResponse L) (snd arg))"
  "deserialize_asphrdaemon_RemoveFriendResponse L = pc_deserializeBinary (RemoveFriendResponse L)"
  "instanceof arg (SendMessageRequest L) \<Longrightarrow>
    serialize_asphrdaemon_SendMessageRequest L arg = Inr (pc_prototype_serializeBinary (SendMessageRequest L) (snd arg))"
  "deserialize_asphrdaemon_SendMessageRequest L = pc_deserializeBinary (SendMessageRequest L)"
  "instanceof arg (SendMessageResponse L) \<Longrightarrow>
    serialize_asphrdaemon_SendMessageResponse L arg = Inr (pc_prototype_serializeBinary (SendMessageResponse L) (snd arg))"
  "deserialize_asphrdaemon_SendMessageResponse L = pc_deserializeBinary (SendMessageResponse L)"
  by (simp_all add: serialize_defs [abs_def] message_class_defs)

section \<open>What holds of every method\<close>

definition lower_first :: "string \<Rightarrow> string" where
  "lower_first s = (case s of [] \<Rightarrow> [] | c # cs \<Rightarrow> js_lower_char c # cs)"

text \<open>
  C15. The service definition is the one of \<open>daemon.proto\<close>: the same procedures in the same order, each
  under its path, with its request and response classes, and only the procedure that the schema declares
  so is streamed.
\<close>

theorem service_matches_proto:
  "map (\<lambda>(key, d). (key, md_path d, md_requestStream d, md_responseStream d,
         pc_displayName (md_requestType d), pc_displayName (md_responseType d))) (DaemonService L)
   = map (\<lambda>(name, request, response, streamed).
        (lower_first name, ''/asphrdaemon.Daemon/'' @ name, False, streamed,
         ''proto.asphrdaemon.'' @ request, ''proto.asphrdaemon.'' @ response)) daemon_rpcs"
  by (simp add: DaemonService_def daemon_rpcs_def service_method_defs message_class_defs lower_first_def
      js_lower_char_def char_of_def bit_Suc_0_iff Let_def)

text \<open>A method's four functions are those of its classes, with the guard on the class in front.\<close>

definition method_ok ::
  "('m, 'w, 'r, 'b) jspb \<Rightarrow> ('m, 'w, 'r, 'b) method_definition \<Rightarrow> bool" where
  "method_ok L d \<longleftrightarrow>
     md_requestType d \<in> snd ` set (pb_classes L) \<and> md_responseType d \<in> snd ` set (pb_classes L)
     \<and> (\<forall>arg. instanceof arg (md_requestType d)
          \<longrightarrow> md_requestSerialize d arg = Inr (pc_prototype_serializeBinary (md_requestType d) (snd arg)))
     \<and> (\<forall>arg. instanceof arg (md_responseType d)
          \<longrightarrow> md_responseSerialize d arg = Inr (pc_prototype_serializeBinary (md_responseType d) (snd arg)))
     \<and> (\<forall>arg. \<not> instanceof arg (md_requestType d) \<longrightarrow> md_requestSerialize d arg
          = Inl (JsError (''Expected argument of type '' @ drop 6 (pc_displayName (md_requestType d)))))
     \<and> (\<forall>arg. \<not> instanceof arg (md_responseType d) \<longrightarrow> md_responseSerialize d arg
          = Inl (JsError (''Expected argument of type '' @ drop 6 (pc_displayName (md_responseType d)))))
     \<and> md_requestDeserialize d = pc_deserializeBinary (md_requestType d)
     \<and> md_responseDeserialize d = pc_deserializeBinary (md_responseType d)"

lemma methods_ok: "(key, d) \<in> set (DaemonService L) \<Longrightarrow> method_ok L d"
  unfolding DaemonService_def by (auto simp: method_ok_def service_method_defs serialize_laws reject_laws in_classes)

lemma method_okD:
  assumes "(key, d) \<in> set (DaemonService L)"
  shows "instanceof arg (md_requestType d) \<Longrightarrow>
      md_requestSerialize d arg = Inr (pc_prototype_serializeBinary (md_requestType d) (snd arg))"
    and "instanceof arg (md_responseType d) \<Longrightarrow>
      md_responseSerialize d arg = Inr (pc_prototype_serializeBinary (md_responseType d) (snd arg))"
    and "md_requestDeserialize d = pc_deserializeBinary (md_requestType d)"
    and "md_responseDeserialize d = pc_deserializeBinary (md_responseType d)"
  using methods_ok [OF assms] unfolding method_ok_def by blast+

text \<open>
  C16. On every method, a request of its class and a response of its class arrive on the other side as
  they were sent: what the sending side serializes, the receiving side deserializes to a message with
  the same object.
\<close>

theorem calls_transport:
  assumes "jspb_codec L view wrote reads on_field stamp"
    and "(key, d) \<in> set (DaemonService L)"
    and "(s, md_requestType d) \<in> set (pb_classes L)" and "typed view stamp s request"
    and "(s', md_responseType d) \<in> set (pb_classes L)" and "typed view stamp s' response"
  shows "(\<exists>bytes m. md_requestSerialize d (pc_displayName (md_requestType d), request) = Inr bytes
      \<and> md_requestDeserialize d bytes = Some (Inr m)
      \<and> pc_prototype_toObject (md_requestType d) m False = pc_prototype_toObject (md_requestType d) request False)
    \<and> (\<exists>bytes m. md_responseSerialize d (pc_displayName (md_responseType d), response) = Inr bytes
      \<and> md_responseDeserialize d bytes = Some (Inr m)
      \<and> pc_prototype_toObject (md_responseType d) m False = pc_prototype_toObject (md_responseType d) response False)"
proof -
  have "instanceof (pc_displayName (md_requestType d), request) (md_requestType d)"
    "instanceof (pc_displayName (md_responseType d), response) (md_responseType d)"
    by (simp_all add: instanceof_def)
  then show ?thesis
    using class_roundtrip [OF assms(1,3,4)] class_roundtrip [OF assms(1,5,6)] method_okD [OF assms(2)]
    by auto
qed

text \<open>
  A method refuses to serialize an object that is not an instance of its class, with an error
  that names the class, instead of sending bytes that the other side would misread.
\<close>

theorem wrong_class_rejected:
  assumes "(key, d) \<in> set (DaemonService L)"
  shows "(\<not> instanceof arg (md_requestType d) \<longrightarrow> md_requestSerialize d arg
      = Inl (JsError (''Expected argument of type '' @ drop 6 (pc_displayName (md_requestType d)))))
    \<and> (\<not> instanceof arg (md_responseType d) \<longrightarrow> md_responseSerialize d arg
      = Inl (JsError (''Expected argument of type '' @ drop 6 (pc_displayName (md_responseType d)))))"
  using methods_ok [OF assms] unfolding method_ok_def by blast

lemma in_service:
  "(''getMessages'', getMessages_method L) \<in> set (DaemonService L)"
  "(GetMessagesRequest_proto, md_requestType (getMessages_method L)) \<in> set (pb_classes L)"
  "(GetMessagesResponse_proto, md_responseType (getMessages_method L)) \<in> set (pb_classes L)"
  by (simp_all add: DaemonService_def pb_classes_def getMessages_method_def)

theorem calls_transport_witness:
  "(\<exists>bytes m. serialize_asphrdaemon_GetMessagesRequest wire
        (''proto.asphrdaemon.GetMessagesRequest'', WMsg [(1, VNumber 1)]) = Inr bytes
      \<and> deserialize_asphrdaemon_GetMessagesRequest wire bytes = Some (Inr m)
      \<and> GetMessagesRequest_toObject wire False m = JObject [(''filter'', JNumber 1)])
   \<and> (\<exists>bytes m. serialize_asphrdaemon_GetMessagesResponse wire
        (''proto.asphrdaemon.GetMessagesResponse'', WMsg [(1, VMessages [sample_message])]) = Inr bytes
      \<and> deserialize_asphrdaemon_GetMessagesResponse wire bytes = Some (Inr m)
      \<and> GetMessagesResponse_toObject wire False m
        = JObject [(''messagesList'', JArray [IncomingMessage_toObject wire False sample_message])])"
proof -
  have q: "typed wview stamp_ok GetMessagesRequest_proto (WMsg [(1, VNumber 1)])"
    by (simp add: GetMessagesRequest_proto_def wview_def int32_def)
  have r: "typed wview stamp_ok GetMessagesResponse_proto (WMsg [(1, VMessages [sample_message])])"
    using sample_typed by (simp add: GetMessagesResponse_proto_def wview_def)
  have "GetMessagesRequest_toObject wire False (WMsg [(1, VNumber 1)]) = JObject [(''filter'', JNumber 1)]"
    "GetMessagesResponse_toObject wire False (WMsg [(1, VMessages [sample_message])])
     = JObject [(''messagesList'', JArray [IncomingMessage_toObject wire False sample_message])]"
    by (simp_all add: GetMessagesRequest_toObject_def GetMessagesResponse_toObject_def
        GetMessagesResponse_getMessagesList_def wire_def wire_base_def wview_def)
  then show ?thesis
    using calls_transport [OF wire.jspb_codec_axioms in_service(1) in_service(2) q in_service(3) r]
    by (simp add: getMessages_method_def GetMessagesRequest_def GetMessagesResponse_def
        GetMessagesRequest_prototype_toObject_def GetMessagesResponse_prototype_toObject_def)
qed

theorem wrong_class_rejected_witness:
  "serialize_asphrdaemon_GetMessagesRequest wire (''proto.asphrdaemon.KillRequest'', WMsg [])
   = Inl (JsError ''Expected argument of type asphrdaemon.GetMessagesRequest'')"
  using wrong_class_rejected [OF in_service(1) [of wire], of "(''proto.asphrdaemon.KillRequest'', WMsg [])"]
  by (simp add: getMessages_method_def instanceof_def GetMessagesRequest_def)

end
