(* ===== verification/DaemonWire.thy ===== *)
theory DaemonWire imports Daemon PbGrpc begin

text \<open>
  The calls of \<open>main/daemon.ts\<close> on the wire. A method of \<open>DaemonImpl\<close> makes a message of a generated
  class, runs its setters with the caller's fields and hands it to the method of the same name of the
  service, which turns it into bytes. What the daemon, which is generated from the same schema, makes of
  these bytes is an object with the caller's fields (\<open>requests_arrive\<close>), so the records of \<open>Daemon\<close>
  are the right abstraction of what is sent.
\<close>

section \<open>The messages that the methods make\<close>

text \<open>The number of a filter is looked up in the enumeration of the generated class.\<close>

definition filter_number :: "messageFilter \<Rightarrow> int" where
  "filter_number f = the (map_of GetMessagesRequest_Filter
     (case f of FilterALL \<Rightarrow> ''ALL'' | FilterNEW \<Rightarrow> ''NEW''))"

definition sendMessage_request :: "('m, 'w, 'r, 'b) jspb \<Rightarrow> sendMessageRequest \<Rightarrow> 'm" where
  "sendMessage_request L q =
     (let request = SendMessageRequest_new L;
          request = SendMessageRequest_setUniqueNameList L request (sm_uniqueNameList q);
          request = SendMessageRequest_setMessage L request (sm_message q)
      in request)"

definition getMessages_request :: "('m, 'w, 'r, 'b) jspb \<Rightarrow> getMessagesRequest \<Rightarrow> 'm" where
  "getMessages_request L q =
     (let request = GetMessagesRequest_new L;
          request = GetMessagesRequest_setFilter L request (filter_number (gm_filter q))
      in request)"

definition messageSeen_request :: "('m, 'w, 'r, 'b) jspb \<Rightarrow> messageSeenRequest \<Rightarrow> 'm" where
  "messageSeen_request L q =
     (let request = MessageSeenRequest_new L;
          request = MessageSeenRequest_setId L request (ms_id q)
      in request)"

definition registerUser_request :: "('m, 'w, 'r, 'b) jspb \<Rightarrow> registerUserRequest \<Rightarrow> 'm" where
  "registerUser_request L q =
     (let request = RegisterUserRequest_new L;
          request = RegisterUserRequest_setName L request (ru_name q);
          request = RegisterUserRequest_setBetaKey L request (ru_betaKey q)
      in request)"

definition removeFriend_request :: "('m, 'w, 'r, 'b) jspb \<Rightarrow> removeFriendRequest \<Rightarrow> 'm" where
  "removeFriend_request L q =
     (let request = RemoveFriendRequest_new L;
          request = RemoveFriendRequest_setUniqueName L request (rf_uniqueName q)
      in request)"

definition addAsyncFriend_request :: "('m, 'w, 'r, 'b) jspb \<Rightarrow> addAsyncFriendRequest \<Rightarrow> 'm" where
  "addAsyncFriend_request L q =
     (let request = AddAsyncFriendRequest_new L;
          request = AddAsyncFriendRequest_setUniqueName L request (aa_uniqueName q);
          request = AddAsyncFriendRequest_setDisplayName L request (aa_displayName q);
          request = AddAsyncFriendRequest_setPublicId L request (aa_publicId q);
          request = AddAsyncFriendRequest_setMessage L request (aa_message q)
      in request)"

definition addSyncFriend_request :: "('m, 'w, 'r, 'b) jspb \<Rightarrow> addSyncFriendRequest \<Rightarrow> 'm" where
  "addSyncFriend_request L q =
     (let request = AddSyncFriendRequest_new L;
          request = AddSyncFriendRequest_setUniqueName L request (as_uniqueName q);
          request = AddSyncFriendRequest_setDisplayName L request (as_displayName q);
          request = AddSyncFriendRequest_setStory L request (as_story q)
      in request)"

definition acceptAsyncInvitation_request :: "('m, 'w, 'r, 'b) jspb \<Rightarrow> acceptAsyncInvitationRequest \<Rightarrow> 'm" where
  "acceptAsyncInvitation_request L q =
     (let request = AcceptAsyncInvitationRequest_new L;
          request = AcceptAsyncInvitationRequest_setPublicId L request (ac_publicId q);
          request = AcceptAsyncInvitationRequest_setUniqueName L request (ac_uniqueName q);
          request = AcceptAsyncInvitationRequest_setDisplayName L request (ac_displayName q)
      in request)"

definition rejectAsyncInvitation_request :: "('m, 'w, 'r, 'b) jspb \<Rightarrow> rejectAsyncInvitationRequest \<Rightarrow> 'm" where
  "rejectAsyncInvitation_request L q =
     (let request = RejectAsyncInvitationRequest_new L;
          request = RejectAsyncInvitationRequest_setPublicId L request (rj_publicId q)
      in request)"

definition cancelAsyncInvitation_request :: "('m, 'w, 'r, 'b) jspb \<Rightarrow> cancelAsyncInvitationRequest \<Rightarrow> 'm" where
  "cancelAsyncInvitation_request L q =
     (let request = CancelAsyncInvitationRequest_new L;
          request = CancelAsyncInvitationRequest_setPublicId L request (ca_publicId q)
      in request)"

definition isValidPublicID_request :: "('m, 'w, 'r, 'b) jspb \<Rightarrow> isValidPublicIDRequest \<Rightarrow> 'm" where
  "isValidPublicID_request L q =
     (let request = IsValidPublicIDRequest_new L;
          request = IsValidPublicIDRequest_setPublicId L request (iv_publicId q)
      in request)"

lemmas request_message_defs =
  sendMessage_request_def getMessages_request_def messageSeen_request_def registerUser_request_def removeFriend_request_def addAsyncFriend_request_def addSyncFriend_request_def acceptAsyncInvitation_request_def rejectAsyncInvitation_request_def cancelAsyncInvitation_request_def isValidPublicID_request_def filter_number_def GetMessagesRequest_Filter_def

text \<open>The method of the service that a call goes to, the object that is passed to it, and its fields.\<close>

fun rpc_key :: "rpc \<Rightarrow> string" where
  "rpc_key (RpcSendMessage q) = ''sendMessage''"
| "rpc_key (RpcGetMessages q) = ''getMessages''"
| "rpc_key (RpcMessageSeen q) = ''messageSeen''"
| "rpc_key (RpcRegisterUser q) = ''registerUser''"
| "rpc_key (RpcRemoveFriend q) = ''removeFriend''"
| "rpc_key (RpcAddAsyncFriend q) = ''addAsyncFriend''"
| "rpc_key (RpcAddSyncFriend q) = ''addSyncFriend''"
| "rpc_key (RpcAcceptAsyncInvitation q) = ''acceptAsyncInvitation''"
| "rpc_key (RpcRejectAsyncInvitation q) = ''rejectAsyncInvitation''"
| "rpc_key (RpcCancelAsyncInvitation q) = ''cancelAsyncInvitation''"
| "rpc_key (RpcIsValidPublicID q) = ''isValidPublicID''"
| "rpc_key RpcGetStatus = ''getStatus''"
| "rpc_key RpcGetOutboxMessages = ''getOutboxMessages''"
| "rpc_key RpcGetSentMessages = ''getSentMessages''"
| "rpc_key RpcGetFriendList = ''getFriendList''"
| "rpc_key RpcGetOutgoingSyncInvitations = ''getOutgoingSyncInvitations''"
| "rpc_key RpcGetOutgoingAsyncInvitations = ''getOutgoingAsyncInvitations''"
| "rpc_key RpcGetIncomingAsyncInvitations = ''getIncomingAsyncInvitations''"
| "rpc_key RpcGetMyPublicID = ''getMyPublicID''"

fun rpc_message :: "('m, 'w, 'r, 'b) jspb \<Rightarrow> rpc \<Rightarrow> 'm instance_of" where
  "rpc_message L (RpcSendMessage q) = (pc_displayName (SendMessageRequest L), sendMessage_request L q)"
| "rpc_message L (RpcGetMessages q) = (pc_displayName (GetMessagesRequest L), getMessages_request L q)"
| "rpc_message L (RpcMessageSeen q) = (pc_displayName (MessageSeenRequest L), messageSeen_request L q)"
| "rpc_message L (RpcRegisterUser q) = (pc_displayName (RegisterUserRequest L), registerUser_request L q)"
| "rpc_message L (RpcRemoveFriend q) = (pc_displayName (RemoveFriendRequest L), removeFriend_request L q)"
| "rpc_message L (RpcAddAsyncFriend q) = (pc_displayName (AddAsyncFriendRequest L), addAsyncFriend_request L q)"
| "rpc_message L (RpcAddSyncFriend q) = (pc_displayName (AddSyncFriendRequest L), addSyncFriend_request L q)"
| "rpc_message L (RpcAcceptAsyncInvitation q) = (pc_displayName (AcceptAsyncInvitationRequest L), acceptAsyncInvitation_request L q)"
| "rpc_message L (RpcRejectAsyncInvitation q) = (pc_displayName (RejectAsyncInvitationRequest L), rejectAsyncInvitation_request L q)"
| "rpc_message L (RpcCancelAsyncInvitation q) = (pc_displayName (CancelAsyncInvitationRequest L), cancelAsyncInvitation_request L q)"
| "rpc_message L (RpcIsValidPublicID q) = (pc_displayName (IsValidPublicIDRequest L), isValidPublicID_request L q)"
| "rpc_message L RpcGetStatus = (pc_displayName (GetStatusRequest L), GetStatusRequest_new L)"
| "rpc_message L RpcGetOutboxMessages = (pc_displayName (GetOutboxMessagesRequest L), GetOutboxMessagesRequest_new L)"
| "rpc_message L RpcGetSentMessages = (pc_displayName (GetSentMessagesRequest L), GetSentMessagesRequest_new L)"
| "rpc_message L RpcGetFriendList = (pc_displayName (GetFriendListRequest L), GetFriendListRequest_new L)"
| "rpc_message L RpcGetOutgoingSyncInvitations = (pc_displayName (GetOutgoingSyncInvitationsRequest L), GetOutgoingSyncInvitationsRequest_new L)"
| "rpc_message L RpcGetOutgoingAsyncInvitations = (pc_displayName (GetOutgoingAsyncInvitationsRequest L), GetOutgoingAsyncInvitationsRequest_new L)"
| "rpc_message L RpcGetIncomingAsyncInvitations = (pc_displayName (GetIncomingAsyncInvitationsRequest L), GetIncomingAsyncInvitationsRequest_new L)"
| "rpc_message L RpcGetMyPublicID = (pc_displayName (GetMyPublicIDRequest L), GetMyPublicIDRequest_new L)"

fun rpc_object :: "rpc \<Rightarrow> 'm jsvalue" where
  "rpc_object (RpcSendMessage q) = JObject
    [(''uniqueNameList'', JArray (map JString (sm_uniqueNameList q))),
     (''message'', JString (sm_message q))]"
| "rpc_object (RpcGetMessages q) = JObject
    [(''filter'', JNumber (case gm_filter q of FilterALL \<Rightarrow> 0 | FilterNEW \<Rightarrow> 1))]"
| "rpc_object (RpcMessageSeen q) = JObject
    [(''id'', JNumber (ms_id q))]"
| "rpc_object (RpcRegisterUser q) = JObject
    [(''name'', JString (ru_name q)),
     (''betaKey'', JString (ru_betaKey q))]"
| "rpc_object (RpcRemoveFriend q) = JObject
    [(''uniqueName'', JString (rf_uniqueName q))]"
| "rpc_object (RpcAddAsyncFriend q) = JObject
    [(''uniqueName'', JString (aa_uniqueName q)),
     (''displayName'', JString (aa_displayName q)),
     (''publicId'', JString (aa_publicId q)),
     (''message'', JString (aa_message q))]"
| "rpc_object (RpcAddSyncFriend q) = JObject
    [(''uniqueName'', JString (as_uniqueName q)),
     (''displayName'', JString (as_displayName q)),
     (''story'', JString (as_story q))]"
| "rpc_object (RpcAcceptAsyncInvitation q) = JObject
    [(''publicId'', JString (ac_publicId q)),
     (''uniqueName'', JString (ac_uniqueName q)),
     (''displayName'', JString (ac_displayName q))]"
| "rpc_object (RpcRejectAsyncInvitation q) = JObject
    [(''publicId'', JString (rj_publicId q))]"
| "rpc_object (RpcCancelAsyncInvitation q) = JObject
    [(''publicId'', JString (ca_publicId q))]"
| "rpc_object (RpcIsValidPublicID q) = JObject
    [(''publicId'', JString (iv_publicId q))]"
| "rpc_object RpcGetStatus = JObject []"
| "rpc_object RpcGetOutboxMessages = JObject []"
| "rpc_object RpcGetSentMessages = JObject []"
| "rpc_object RpcGetFriendList = JObject []"
| "rpc_object RpcGetOutgoingSyncInvitations = JObject []"
| "rpc_object RpcGetOutgoingAsyncInvitations = JObject []"
| "rpc_object RpcGetIncomingAsyncInvitations = JObject []"
| "rpc_object RpcGetMyPublicID = JObject []"

text \<open>The one number that a caller passes must be one that the wire can carry.\<close>

fun rpc_ok :: "rpc \<Rightarrow> bool" where
  "rpc_ok (RpcMessageSeen q) = int32 (ms_id q)"
| "rpc_ok _ = True"

fun rpc_proto :: "rpc \<Rightarrow> proto_message" where
  "rpc_proto (RpcSendMessage q) = SendMessageRequest_proto"
| "rpc_proto (RpcGetMessages q) = GetMessagesRequest_proto"
| "rpc_proto (RpcMessageSeen q) = MessageSeenRequest_proto"
| "rpc_proto (RpcRegisterUser q) = RegisterUserRequest_proto"
| "rpc_proto (RpcRemoveFriend q) = RemoveFriendRequest_proto"
| "rpc_proto (RpcAddAsyncFriend q) = AddAsyncFriendRequest_proto"
| "rpc_proto (RpcAddSyncFriend q) = AddSyncFriendRequest_proto"
| "rpc_proto (RpcAcceptAsyncInvitation q) = AcceptAsyncInvitationRequest_proto"
| "rpc_proto (RpcRejectAsyncInvitation q) = RejectAsyncInvitationRequest_proto"
| "rpc_proto (RpcCancelAsyncInvitation q) = CancelAsyncInvitationRequest_proto"
| "rpc_proto (RpcIsValidPublicID q) = IsValidPublicIDRequest_proto"
| "rpc_proto RpcGetStatus = GetStatusRequest_proto"
| "rpc_proto RpcGetOutboxMessages = GetOutboxMessagesRequest_proto"
| "rpc_proto RpcGetSentMessages = GetSentMessagesRequest_proto"
| "rpc_proto RpcGetFriendList = GetFriendListRequest_proto"
| "rpc_proto RpcGetOutgoingSyncInvitations = GetOutgoingSyncInvitationsRequest_proto"
| "rpc_proto RpcGetOutgoingAsyncInvitations = GetOutgoingAsyncInvitationsRequest_proto"
| "rpc_proto RpcGetIncomingAsyncInvitations = GetIncomingAsyncInvitationsRequest_proto"
| "rpc_proto RpcGetMyPublicID = GetMyPublicIDRequest_proto"

fun rpc_method :: "('m, 'w, 'r, 'b) jspb \<Rightarrow> rpc \<Rightarrow> ('m, 'w, 'r, 'b) method_definition" where
  "rpc_method L (RpcSendMessage q) = sendMessage_method L"
| "rpc_method L (RpcGetMessages q) = getMessages_method L"
| "rpc_method L (RpcMessageSeen q) = messageSeen_method L"
| "rpc_method L (RpcRegisterUser q) = registerUser_method L"
| "rpc_method L (RpcRemoveFriend q) = removeFriend_method L"
| "rpc_method L (RpcAddAsyncFriend q) = addAsyncFriend_method L"
| "rpc_method L (RpcAddSyncFriend q) = addSyncFriend_method L"
| "rpc_method L (RpcAcceptAsyncInvitation q) = acceptAsyncInvitation_method L"
| "rpc_method L (RpcRejectAsyncInvitation q) = rejectAsyncInvitation_method L"
| "rpc_method L (RpcCancelAsyncInvitation q) = cancelAsyncInvitation_method L"
| "rpc_method L (RpcIsValidPublicID q) = isValidPublicID_method L"
| "rpc_method L RpcGetStatus = getStatus_method L"
| "rpc_method L RpcGetOutboxMessages = getOutboxMessages_method L"
| "rpc_method L RpcGetSentMessages = getSentMessages_method L"
| "rpc_method L RpcGetFriendList = getFriendList_method L"
| "rpc_method L RpcGetOutgoingSyncInvitations = getOutgoingSyncInvitations_method L"
| "rpc_method L RpcGetOutgoingAsyncInvitations = getOutgoingAsyncInvitations_method L"
| "rpc_method L RpcGetIncomingAsyncInvitations = getIncomingAsyncInvitations_method L"
| "rpc_method L RpcGetMyPublicID = getMyPublicID_method L"

lemmas request_class_defs =
  SendMessageRequest_def GetMessagesRequest_def MessageSeenRequest_def RegisterUserRequest_def
  RemoveFriendRequest_def AddAsyncFriendRequest_def AddSyncFriendRequest_def
  AcceptAsyncInvitationRequest_def RejectAsyncInvitationRequest_def CancelAsyncInvitationRequest_def
  IsValidPublicIDRequest_def GetStatusRequest_def GetOutboxMessagesRequest_def
  GetSentMessagesRequest_def GetFriendListRequest_def GetOutgoingSyncInvitationsRequest_def
  GetOutgoingAsyncInvitationsRequest_def GetIncomingAsyncInvitationsRequest_def
  GetMyPublicIDRequest_def

lemmas request_bundle =
  SendMessageRequest_defs SendMessageRequest_prototype_toObject_def GetMessagesRequest_defs
  GetMessagesRequest_prototype_toObject_def MessageSeenRequest_defs
  MessageSeenRequest_prototype_toObject_def RegisterUserRequest_defs
  RegisterUserRequest_prototype_toObject_def RemoveFriendRequest_defs
  RemoveFriendRequest_prototype_toObject_def AddAsyncFriendRequest_defs
  AddAsyncFriendRequest_prototype_toObject_def AddSyncFriendRequest_defs
  AddSyncFriendRequest_prototype_toObject_def AcceptAsyncInvitationRequest_defs
  AcceptAsyncInvitationRequest_prototype_toObject_def RejectAsyncInvitationRequest_defs
  RejectAsyncInvitationRequest_prototype_toObject_def CancelAsyncInvitationRequest_defs
  CancelAsyncInvitationRequest_prototype_toObject_def IsValidPublicIDRequest_defs
  IsValidPublicIDRequest_prototype_toObject_def GetStatusRequest_defs
  GetStatusRequest_prototype_toObject_def GetOutboxMessagesRequest_defs
  GetOutboxMessagesRequest_prototype_toObject_def GetSentMessagesRequest_defs
  GetSentMessagesRequest_prototype_toObject_def GetFriendListRequest_defs
  GetFriendListRequest_prototype_toObject_def GetOutgoingSyncInvitationsRequest_defs
  GetOutgoingSyncInvitationsRequest_prototype_toObject_def GetOutgoingAsyncInvitationsRequest_defs
  GetOutgoingAsyncInvitationsRequest_prototype_toObject_def GetIncomingAsyncInvitationsRequest_defs
  GetIncomingAsyncInvitationsRequest_prototype_toObject_def GetMyPublicIDRequest_defs
  GetMyPublicIDRequest_prototype_toObject_def

lemma rpc_method_found: "map_of (DaemonService L) (rpc_key q) = Some (rpc_method L q)"
  by (cases q) (simp_all add: DaemonService_def)

lemma rpc_class:
  "(rpc_proto q, md_requestType (rpc_method L q)) \<in> set (pb_classes L)"
  "fst (rpc_message L q) = pc_displayName (md_requestType (rpc_method L q))"
  by (cases q; simp add: pb_classes_def service_method_defs)+

context jspb_codec
begin

lemmas set_laws =
  view_initialize view_setField_list view_setProto3StringField view_setProto3IntField view_setProto3EnumField

text \<open>What the setters make is well-typed, and its object has the caller's fields.\<close>

lemma rpc_message_ok:
  assumes "rpc_ok q"
  shows "typed view stamp (rpc_proto q) (snd (rpc_message L q))
    \<and> pc_prototype_toObject (md_requestType (rpc_method L q)) (snd (rpc_message L q)) False = rpc_object q"
  using assms
  by (cases q) (auto simp: request_message_defs request_bundle service_method_defs set_laws get_laws Let_def
      int32_def split: messageFilter.splits)

end

section \<open>Properties\<close>

text \<open>Whatever procedure is called, its bytes are read by the other side as the caller's fields.\<close>

lemma request_arrives:
  assumes "jspb_codec L view wrote reads on_field stamp" and "rpc_ok q"
  shows "\<exists>bytes m. map_of (DaemonService L) (rpc_key q) = Some (rpc_method L q)
    \<and> md_requestSerialize (rpc_method L q) (rpc_message L q) = Inr bytes
    \<and> md_requestDeserialize (rpc_method L q) bytes = Some (Inr m)
    \<and> pc_prototype_toObject (md_requestType (rpc_method L q)) m False = rpc_object q"
proof -
  let ?d = "rpc_method L q"
  have d: "(rpc_key q, ?d) \<in> set (DaemonService L)"
    using rpc_method_found by (rule map_of_SomeD)
  have ok: "typed view stamp (rpc_proto q) (snd (rpc_message L q))"
    "pc_prototype_toObject (md_requestType ?d) (snd (rpc_message L q)) False = rpc_object q"
    using jspb_codec.rpc_message_ok [OF assms] by auto
  have "instanceof (rpc_message L q) (md_requestType ?d)"
    by (simp add: instanceof_def rpc_class(2))
  then have "md_requestSerialize ?d (rpc_message L q)
      = Inr (pc_prototype_serializeBinary (md_requestType ?d) (snd (rpc_message L q)))"
    by (rule method_okD(1) [OF d])
  then show ?thesis
    using class_roundtrip [OF assms(1) rpc_class(1) ok(1)] ok(2) method_okD(3) [OF d] rpc_method_found
    by auto
qed



text \<open>The bytes of that request: two fields of number 1, then field 2.\<close>

lemma request_bytes:
  "SendMessageRequest_serializeBinary wire
     (sendMessage_request wire \<lparr>sm_uniqueNameList = [''bob'', ''eve''], sm_message = ''hi''\<rparr>)
   = map byte_of [10, 3, 98, 111, 98, 10, 3, 101, 118, 101, 18, 2, 104, 105]"
  by (simp add: SendMessageRequest_serializeBinary_def SendMessageRequest_serializeBinaryToWriter_def
      sendMessage_request_def SendMessageRequest_defs Let_def wire_def wire_base_def wview_def wput_def
      tag_def delimited_def varint.simps utf8_def utf8_char_def)
    (simp add: numeral_eq_Suc)

end
