(* ===== verification/ContactViews.thy ===== *)
theory ContactViews imports InPerson begin

text \<open>
  What the screens for a new contact show and offer: the elements that \<open>AddFriendRemote.tsx\<close>,
  \<open>AddFriendRemotePartTwo.tsx\<close>, \<open>AddFriendIncoming.tsx\<close> and \<open>AddFriendInPerson.tsx\<close> render, as
  trees of widgets with their handlers, and a user who presses buttons and types into fields. Class
  names and empty boxes are left out, and the angle before the words on the way back is written
  \<open><\<close>. The locale \<open>shown_form\<close> is the contract of a form: a request goes out only from a page that
  shows what it is about.
\<close>

section \<open>Widgets and gestures\<close>

text \<open>
  A field has its value, its placeholder, the handler of a change and that of the key Enter; a
  picture is an animation with its seed.
\<close>

datatype 'a widget =
    Label string
  | Picture string
  | Field string string "string \<Rightarrow> 'a" "'a option"
  | Editor string
  | Button string "'a list"
  | Box "'a widget list"

fun labels :: "'a widget \<Rightarrow> string list" where
  "labels (Label l) = [l]"
| "labels (Box ws) = concat (map labels ws)"
| "labels _ = []"

fun pictures :: "'a widget \<Rightarrow> string list" where
  "pictures (Picture seed) = [seed]"
| "pictures (Box ws) = concat (map pictures ws)"
| "pictures _ = []"

fun fields :: "'a widget \<Rightarrow> (string \<times> (string \<Rightarrow> 'a) \<times> 'a option) list" where
  "fields (Field v p change enter) = [(v, change, enter)]"
| "fields (Box ws) = concat (map fields ws)"
| "fields _ = []"

fun buttons :: "'a widget \<Rightarrow> (string \<times> 'a list) list" where
  "buttons (Button l as) = [(l, as)]"
| "buttons (Box ws) = concat (map buttons ws)"
| "buttons _ = []"

definition field_values :: "'a widget \<Rightarrow> string list" where
  "field_values w = map fst (fields w)"

datatype gesture = Press string | Type nat string | EnterIn nat

text \<open>What a gesture does on what is shown; nothing, if there is no such button or field.\<close>

fun gesture_actions :: "gesture \<Rightarrow> 'a widget \<Rightarrow> 'a list" where
  "gesture_actions (Press l) w = (case map_of (buttons w) l of Some as \<Rightarrow> as | None \<Rightarrow> [])"
| "gesture_actions (Type k v) w = (if k < length (fields w) then [fst (snd (fields w ! k)) v] else [])"
| "gesture_actions (EnterIn k) w =
     (if k < length (fields w) then (case snd (snd (fields w ! k)) of Some a \<Rightarrow> [a] | None \<Rightarrow> []) else [])"

type_synonym ('a, 's) handler = "'a \<Rightarrow> 's \<Rightarrow> (rpc list \<times> dialogEffect list) \<times> 's"

fun perform_actions :: "('a, 's) handler \<Rightarrow> 'a list \<Rightarrow> 's \<Rightarrow> (rpc list \<times> dialogEffect list) \<times> 's" where
  "perform_actions act [] s = (([], []), s)"
| "perform_actions act (a # as) s =
     (let ((rs, fx), s') = act a s; ((rs', fx'), s'') = perform_actions act as s'
      in ((rs @ rs', fx @ fx'), s''))"

text \<open>
  A user at a form: the requests with the page they were made from, the effects, and the state.
\<close>

fun use_form ::
  "('s \<Rightarrow> 'a widget) \<Rightarrow> ('a, 's) handler \<Rightarrow> gesture list \<Rightarrow> 's \<Rightarrow>
   (('a widget \<times> rpc) list \<times> dialogEffect list) \<times> 's" where
  "use_form view act [] s = (([], []), s)"
| "use_form view act (g # gs) s =
     (let ((rs, fx), s') = perform_actions act (gesture_actions g (view s)) s;
          ((rs', fx'), s'') = use_form view act gs s'
      in ((map (Pair (view s)) rs @ rs', fx @ fx'), s''))"

section \<open>AddFriendRemote\<close>

datatype remoteAction = RemoteCopy | RemoteEdit string

definition AddFriendRemote_view :: "string \<Rightarrow> string \<Rightarrow> remoteAction widget" where
  "AddFriendRemote_view publicId theirId =
     Box [Label ''Share your Anysphere ID.'',
          Label (''Your ID is not secret. Put it in your Twitter profile, on your website, '' @
            ''or anywhere else. Others can use it to add you.''),
          Picture publicId,
          Label (''anysphere.id/#'' @ Utils.truncate publicId 12),
          Button ''Copy'' [RemoteCopy],
          Label (''anysphere.id/#'' @ publicId),
          Label ''To add a contact, click their ID link or paste it below.'',
          Field theirId ''anysphere.id/#...'' RemoteEdit None]"

text \<open>A change of the field is followed by the effect.\<close>

fun AddFriendRemote_act :: "daemonImpl \<Rightarrow> string \<Rightarrow> (remoteAction, string) handler" where
  "AddFriendRemote_act d publicId RemoteCopy theirId = (([], AddFriendRemote_copy publicId), theirId)"
| "AddFriendRemote_act d publicId (RemoteEdit v) theirId =
     (if v = theirId then (([], []), theirId) else (AddFriendRemote_effect d v, v))"

section \<open>AddFriendRemotePartTwo\<close>

datatype partTwoAction =
    PartTwoDisplay string
  | PartTwoUnique string
  | PartTwoProgress int
  | PartTwoFinish

definition PartTwo_component1 :: "string \<Rightarrow> partTwoState \<Rightarrow> partTwoAction widget" where
  "PartTwo_component1 theirId s =
     Box [Label ''New contact. What do you want to call them?'',
          Label (''You're adding anysphere.id/#'' @ theirId @ ''. Please make sure this is the'' @ js_newline @
            ''        right person.''),
          Box [Picture theirId,
               Box [Field (pt_displayName s) ''First Last'' PartTwoDisplay (Some (PartTwoProgress 1)),
                    Field (pt_uniqueName s) [] PartTwoUnique None]],
          Button ''Next'' [PartTwoProgress 1]]"

definition PartTwo_component2 :: "string \<Rightarrow> partTwoState \<Rightarrow> partTwoAction widget" where
  "PartTwo_component2 theirId s =
     Box [Label ''Write an invitation message.'',
          Box [Picture theirId, Label (pt_displayName s), Editor ''Message''],
          Label ''Your invitation will be delivered within 24 hours.'',
          Button ''Send invitation'' [PartTwoFinish],
          Button ''< Go back'' [PartTwoProgress 0]]"

definition PartTwo_view :: "string \<Rightarrow> partTwoState \<Rightarrow> partTwoAction widget" where
  "PartTwo_view theirId s =
     (if pt_progress s = 0 then PartTwo_component1 theirId s
      else if pt_progress s = 1 then PartTwo_component2 theirId s
      else PartTwo_component1 theirId s)"

fun PartTwo_act :: "daemonImpl \<Rightarrow> string \<Rightarrow> string option \<Rightarrow> (partTwoAction, partTwoState) handler" where
  "PartTwo_act d theirId editor (PartTwoDisplay v) s = (([], []), PartTwo_display v s)"
| "PartTwo_act d theirId editor (PartTwoUnique v) s = (([], []), PartTwo_unique v s)"
| "PartTwo_act d theirId editor (PartTwoProgress k) s = (([], []), s\<lparr>pt_progress := k\<rparr>)"
| "PartTwo_act d theirId editor PartTwoFinish s = (PartTwo_finish d theirId editor s, s)"

section \<open>AddFriendIncoming\<close>

datatype incomingAction =
    IncomingDisplay string
  | IncomingUnique string
  | IncomingProgress int
  | IncomingAccept
  | IncomingReject

definition Incoming_component1 :: "incomingAsyncInvitation \<Rightarrow> incomingAction widget" where
  "Incoming_component1 i =
     Box [Label ''Accept invitation?'',
          Label (''Only accept invitations from people you trust. Their message may claim '' @
            ''that they are someone they are not, so please verify the public ID before accepting.''),
          Box [Box [Picture (ia_publicId i), Label (''anysphere.id/#'' @ ia_publicId i)],
               Label (js_quote @ ia_message i @ js_quote)],
          Button ''Accept invitation'' [IncomingProgress 1],
          Button ''Remove invitation'' [IncomingReject]]"

definition Incoming_component2 :: "incomingAsyncInvitation \<Rightarrow> incomingState \<Rightarrow> incomingAction widget" where
  "Incoming_component2 i s =
     Box [Label ''Great! What do you want to call them?'',
          Box [Picture (ia_publicId i),
               Box [Field (ic_displayName s) ''First Last'' IncomingDisplay None,
                    Field (ic_uniqueName s) [] IncomingUnique None]],
          Button ''Finish'' [IncomingAccept],
          Button ''< Go back'' [IncomingProgress 0]]"

definition Incoming_view :: "incomingAsyncInvitation \<Rightarrow> incomingState \<Rightarrow> incomingAction widget" where
  "Incoming_view i s =
     (if ic_progress s = 0 then Incoming_component1 i
      else if ic_progress s = 1 then Incoming_component2 i s
      else Incoming_component1 i)"

fun Incoming_act :: "daemonImpl \<Rightarrow> incomingAsyncInvitation \<Rightarrow> (incomingAction, incomingState) handler" where
  "Incoming_act d i (IncomingDisplay v) s = (([], []), Incoming_display v s)"
| "Incoming_act d i (IncomingUnique v) s = (([], []), Incoming_unique v s)"
| "Incoming_act d i (IncomingProgress k) s = (([], []), Incoming_setProgress k s)"
| "Incoming_act d i IncomingAccept s = (Incoming_accept d i s, s)"
| "Incoming_act d i IncomingReject s = (Incoming_reject d i, s)"

section \<open>AddFriendInPerson\<close>

text \<open>The numbers before the lines are labels too; the colour of a line is not kept.\<close>

definition numbered :: "(nat \<Rightarrow> string \<Rightarrow> 'a widget) \<Rightarrow> string list \<Rightarrow> 'a widget list" where
  "numbered line ls = map (\<lambda>i. Box [Label (js_nat_str (Suc i) @ ''.''), line i (ls ! i)]) [0..<length ls]"

datatype wizardAction = Wizard inPersonAction | WizardFinish

definition StoryForm_view :: "string list \<Rightarrow> wizardAction widget" where
  "StoryForm_view theirstory =
     Box (numbered (\<lambda>i line. Field line [] (\<lambda>v. Wizard (EditLine i v)) None) theirstory)"

definition shareStories_view :: "string \<Rightarrow> inPersonState \<Rightarrow> wizardAction widget" where
  "shareStories_view story s =
     Box [Label ''Share stories with each other.'',
          Label (''These correspond to your public key, and allow you and your friend to '' @
            ''communicate privately.''),
          Box [Box [Label ''Your story.'', Box (numbered (\<lambda>i feature. Label feature) (storylist story))],
               Box [Label ''Their story.'', StoryForm_view (ip_theirstorylist s)]],
          Button ''Verify'' (if ip_showverify s then [Wizard ClickVerify] else []),
          Label (''Tedious? We know, complete privacy is work. But trust us, it is worth it.'')]"

definition verifyStories_view :: "string \<Rightarrow> inPersonState \<Rightarrow> wizardAction widget" where
  "verifyStories_view story s =
     Box [Label ''Are the animations identical?'',
          Picture (computeSeedFromStories story (ip_theirstorylist s)),
          Button ''Yes, they are identical.'' [Wizard Identical],
          Button ''< No, take me back.'' [Wizard TakeMeBack]]"

definition finish_view :: "string \<Rightarrow> inPersonState \<Rightarrow> wizardAction widget" where
  "finish_view story s =
     Box [Label ''Great! What do you want to call them?'',
          Box [Picture (computeSeedFromStories story (ip_theirstorylist s)),
               Box [Field (ip_displayName s) ''First Last'' (\<lambda>v. Wizard (EnterDisplay v)) None,
                    Field (ip_uniqueName s) [] (\<lambda>v. Wizard (EnterUnique v)) None]],
          Button ''Finish'' [WizardFinish],
          Button ''< Go back'' [Wizard GoBack]]"

definition InPerson_view :: "string \<Rightarrow> inPersonState \<Rightarrow> wizardAction widget" where
  "InPerson_view story s =
     Box (map (\<lambda>(l, on). Label l) (ProgressBar_view (ip_progress s)) @
          (if ip_progress s = 0 then [shareStories_view story s]
           else if ip_progress s = 1 then [verifyStories_view story s]
           else if ip_progress s = 2 then [finish_view story s]
           else []))"

fun InPerson_act :: "daemonImpl \<Rightarrow> (wizardAction, inPersonState) handler" where
  "InPerson_act d (Wizard a) s = (([], []), InPerson_step a s)"
| "InPerson_act d WizardFinish s = (InPerson_finish d s, s)"

section \<open>The contract of a form\<close>

text \<open>A request is shown by the page it was made from.\<close>

fun shown_request :: "'a widget \<Rightarrow> rpc \<Rightarrow> bool" where
  "shown_request w (RpcAddAsyncFriend q) \<longleftrightarrow>
     aa_displayName q \<noteq> [] \<and> aa_displayName q \<in> set (labels w) \<and> aa_publicId q \<in> set (pictures w)"
| "shown_request w (RpcAcceptAsyncInvitation q) \<longleftrightarrow>
     ac_displayName q \<noteq> [] \<and> field_values w = [ac_displayName q, ac_uniqueName q] \<and>
     ac_publicId q \<in> set (pictures w)"
| "shown_request w (RpcRejectAsyncInvitation q) \<longleftrightarrow> ''anysphere.id/#'' @ rj_publicId q \<in> set (labels w)"
| "shown_request w (RpcAddSyncFriend q) \<longleftrightarrow>
     as_displayName q \<noteq> [] \<and> field_values w = [as_displayName q, as_uniqueName q]"
| "shown_request w _ \<longleftrightarrow> False"

locale shown_form =
  fixes view :: "'s \<Rightarrow> 'a widget" and act :: "('a, 's) handler"
  assumes offered: "r \<in> set (fst (fst (perform_actions act (gesture_actions g (view s)) s))) \<Longrightarrow>
    shown_request (view s) r"
begin

lemma requests_shown:
  "(w, r) \<in> set (fst (fst (use_form view act gs s))) \<Longrightarrow> shown_request w r"
proof (induction gs arbitrary: s)
  case (Cons g gs)
  then show ?case
    using offered [of _ g s] by (auto simp: split_beta)
qed simp

end
section \<open>The forms keep the contract\<close>

lemma unary_request: "r \<in> set (fst (unary name q a f)) \<Longrightarrow> r = q"
  by (auto simp: unary_def split: sum.splits option.splits)

lemma form_requests:
  "r \<in> set (fst (PartTwo_finish d theirId editor s)) \<Longrightarrow>
   pt_displayName s \<noteq> [] \<and> (\<exists>c. r = RpcAddAsyncFriend (partTwoRequest theirId c s))"
  "r \<in> set (fst (Incoming_accept d i t)) \<Longrightarrow>
   ic_displayName t \<noteq> [] \<and> r = RpcAcceptAsyncInvitation (incomingRequest i t)"
  "r \<in> set (fst (Incoming_reject d i)) \<Longrightarrow> r = RpcRejectAsyncInvitation \<lparr>rj_publicId = ia_publicId i\<rparr>"
  "r \<in> set (fst (InPerson_finish d u)) \<Longrightarrow>
   ip_displayName u \<noteq> [] \<and> r = RpcAddSyncFriend \<lparr>as_uniqueName = ip_uniqueName u,
     as_displayName = ip_displayName u, as_story = js_join '' '' (ip_theirstorylist u)\<rparr>"
proof -
  assume "r \<in> set (fst (PartTwo_finish d theirId editor s))"
  then show "pt_displayName s \<noteq> [] \<and> (\<exists>c. r = RpcAddAsyncFriend (partTwoRequest theirId c s))"
    by (auto simp: PartTwo_finish_def partTwoRequest_def contact_methods Let_def dest!: unary_request
        split: if_splits option.splits)
next
  assume "r \<in> set (fst (Incoming_accept d i t))"
  then show "ic_displayName t \<noteq> [] \<and> r = RpcAcceptAsyncInvitation (incomingRequest i t)"
    by (auto simp: Incoming_accept_def incomingRequest_def contact_methods Let_def dest!: unary_request
        split: if_splits)
next
  assume "r \<in> set (fst (Incoming_reject d i))"
  then show "r = RpcRejectAsyncInvitation \<lparr>rj_publicId = ia_publicId i\<rparr>"
    by (auto simp: Incoming_reject_def contact_methods Let_def dest!: unary_request split: if_splits)
next
  assume "r \<in> set (fst (InPerson_finish d u))"
  then show "ip_displayName u \<noteq> [] \<and> r = RpcAddSyncFriend \<lparr>as_uniqueName = ip_uniqueName u,
     as_displayName = ip_displayName u, as_story = js_join '' '' (ip_theirstorylist u)\<rparr>"
    by (auto simp: InPerson_finish_def contact_methods Let_def dest!: unary_request split: if_splits)
qed

text \<open>What a gesture can do is known from the buttons and fields that are there.\<close>

definition offered_actions :: "'a widget \<Rightarrow> 'a list set" where
  "offered_actions w =
     insert [] (snd ` set (buttons w)) \<union> {[change v] | v x change enter. (x, change, enter) \<in> set (fields w)}
     \<union> {[a] | x change a. (x, change, Some a) \<in> set (fields w)}"

lemma gesture_offered: "gesture_actions g w \<in> offered_actions w"
proof (cases g)
  case (Press l)
  show ?thesis
  proof (cases "map_of (buttons w) l")
    case (Some as)
    then have "snd (l, as) \<in> snd ` set (buttons w)"
      by (intro imageI map_of_SomeD)
    then show ?thesis
      using Some Press by (simp add: offered_actions_def)
  qed (simp add: Press offered_actions_def)
next
  case (Type k v)
  obtain x c e where f: "k < length (fields w) \<Longrightarrow> fields w ! k = (x, c, e)"
    by (metis prod_cases3)
  show ?thesis
  proof (cases "k < length (fields w)")
    case True
    then have "(x, c, e) \<in> set (fields w)"
      using f by (metis nth_mem)
    then show ?thesis
      using True f Type by (auto simp: offered_actions_def)
  qed (simp add: Type offered_actions_def)
next
  case (EnterIn k)
  obtain x c e where f: "k < length (fields w) \<Longrightarrow> fields w ! k = (x, c, e)"
    by (metis prod_cases3)
  show ?thesis
  proof (cases "k < length (fields w)")
    case True
    then have "(x, c, e) \<in> set (fields w)"
      using f by (metis nth_mem)
    then show ?thesis
      using True f EnterIn by (auto simp: offered_actions_def split: option.splits)
  qed (simp add: EnterIn offered_actions_def)
qed

lemma PartTwo_offered:
  "as \<in> offered_actions (PartTwo_view i s) \<Longrightarrow>
   as = [] \<or> (\<exists>v. as = [PartTwoDisplay v] \<or> as = [PartTwoUnique v]) \<or> (\<exists>k. as = [PartTwoProgress k])
   \<or> pt_progress s = 1 \<and> as = [PartTwoFinish]"
  by (auto simp: offered_actions_def PartTwo_view_def PartTwo_component1_def PartTwo_component2_def split: if_splits)

lemma Incoming_offered:
  "as \<in> offered_actions (Incoming_view i s) \<Longrightarrow>
   as = [] \<or> (\<exists>v. as = [IncomingDisplay v] \<or> as = [IncomingUnique v]) \<or> (\<exists>k. as = [IncomingProgress k])
   \<or> ic_progress s = 1 \<and> as = [IncomingAccept] \<or> ic_progress s \<noteq> 1 \<and> as = [IncomingReject]"
  by (auto simp: offered_actions_def Incoming_view_def Incoming_component1_def Incoming_component2_def split: if_splits)

lemma InPerson_offered:
  "as \<in> offered_actions (InPerson_view story s) \<Longrightarrow>
   as = [] \<or> (\<exists>a. as = [Wizard a]) \<or> ip_progress s = 2 \<and> as = [WizardFinish]"
  by (auto simp: offered_actions_def InPerson_view_def ProgressBar_view_def shareStories_view_def
      verifyStories_view_def finish_view_def StoryForm_view_def numbered_def split: if_splits)

lemma shown_by_offered:
  assumes "\<And>as r. as \<in> offered_actions (view s) \<Longrightarrow> r \<in> set (fst (fst (perform_actions act as s))) \<Longrightarrow>
    shown_request (view s) r"
    and "r \<in> set (fst (fst (perform_actions act (gesture_actions g (view s)) s)))"
  shows "shown_request (view s) r"
  by (rule assms(1) [OF gesture_offered assms(2)])

interpretation partTwoShown: shown_form "PartTwo_view theirId" "PartTwo_act d theirId editor" for d theirId editor
proof (unfold_locales, erule shown_by_offered [rotated])
  fix s as r
  assume "as \<in> offered_actions (PartTwo_view theirId s)"
    and r: "r \<in> set (fst (fst (perform_actions (PartTwo_act d theirId editor) as s)))"
  then have "pt_progress s = 1 \<and> r \<in> set (fst (PartTwo_finish d theirId editor s))"
    by (auto simp: split_beta dest: PartTwo_offered)
  then show "shown_request (PartTwo_view theirId s) r"
    using form_requests(1) by (fastforce simp: PartTwo_view_def PartTwo_component2_def partTwoRequest_def)
qed

interpretation incomingShown: shown_form "Incoming_view i" "Incoming_act d i" for d i
proof (unfold_locales, erule shown_by_offered [rotated])
  fix s as r
  assume "as \<in> offered_actions (Incoming_view i s)"
    and r: "r \<in> set (fst (fst (perform_actions (Incoming_act d i) as s)))"
  then consider "ic_progress s = 1" "r \<in> set (fst (Incoming_accept d i s))"
    | "ic_progress s \<noteq> 1" "r \<in> set (fst (Incoming_reject d i))"
    by (auto simp: split_beta dest: Incoming_offered)
  then show "shown_request (Incoming_view i s) r"
  proof cases
    case 1
    then show ?thesis
      using form_requests(2) [OF 1(2)]
      by (simp add: Incoming_view_def Incoming_component2_def incomingRequest_def field_values_def)
  next
    case 2
    then show ?thesis
      using form_requests(3) [OF 2(2)] by (simp add: Incoming_view_def Incoming_component1_def)
  qed
qed

interpretation wizardShown: shown_form "InPerson_view story" "InPerson_act d" for story d
proof (unfold_locales, erule shown_by_offered [rotated])
  fix s as r
  assume "as \<in> offered_actions (InPerson_view story s)"
    and r: "r \<in> set (fst (fst (perform_actions (InPerson_act d) as s)))"
  then have "ip_progress s = 2 \<and> r \<in> set (fst (InPerson_finish d s))"
    by (auto simp: split_beta dest: InPerson_offered)
  then show "shown_request (InPerson_view story s) r"
    using form_requests(4) by (fastforce simp: InPerson_view_def finish_view_def ProgressBar_view_def field_values_def)
qed

section \<open>Properties\<close>



end
