(* ===== verification/Hooks.thy ===== *)
theory Hooks imports KBar begin

text \<open>
  The hooks that the components share: \<open>useThrottledValue\<close> with its clock and the guard against
  keys that are typed into a field (\<open>cmd-k/utils.ts\<close>), the view that \<open>useKBar\<close> keeps of the palette's
  state (\<open>cmd-k/UseKBar.tsx\<close>), and the pointer and focus hooks of \<open>renderer/utils.ts\<close>. Times are
  milliseconds; a timer is due at a time and fires at that time or later.
\<close>

section \<open>useThrottledValue\<close>

text \<open>
  The value of the last render, the throttled value, the reference \<open>lastRan\<close>, and the pending timer
  with the value that its closure has.
\<close>

record 'v throttled =
  th_value :: 'v
  th_shown :: 'v
  th_lastRan :: int
  th_pending :: "(int \<times> 'v) option"

text \<open>The effect: the timer of the value before is cleared; a delay below zero counts as zero.\<close>

definition throttle_effect :: "int \<Rightarrow> int \<Rightarrow> 'v throttled \<Rightarrow> 'v throttled" where
  "throttle_effect ms now s =
     s\<lparr>th_pending := Some (now + max 0 (th_lastRan s - (now - ms)), th_value s)\<rparr>"

definition useThrottledValue :: "int \<Rightarrow> 'v \<Rightarrow> int \<Rightarrow> 'v throttled" where
  "useThrottledValue ms value now =
     throttle_effect ms now
       \<lparr>th_value = value, th_shown = value, th_lastRan = now, th_pending = None\<rparr>"

definition throttle_render :: "int \<Rightarrow> int \<Rightarrow> 'v \<Rightarrow> 'v throttled \<Rightarrow> 'v throttled" where
  "throttle_render ms now value s =
     (if value = th_value s then s else throttle_effect ms now (s\<lparr>th_value := value\<rparr>))"

text \<open>The timer fires if it is due; the second result is the update it made.\<close>

definition throttle_fire :: "int \<Rightarrow> 'v throttled \<Rightarrow> 'v throttled \<times> (int \<times> 'v) list" where
  "throttle_fire now s =
     (case th_pending s of
        None \<Rightarrow> (s, [])
      | Some (due, v) \<Rightarrow>
          (if due \<le> now
           then (s\<lparr>th_shown := v, th_lastRan := now, th_pending := None\<rparr>, [(now, v)]) else (s, [])))"

datatype 'v throttleEvent = Render 'v | Timer

definition throttle_step :: "int \<Rightarrow> int \<times> 'v throttleEvent \<Rightarrow> 'v throttled \<Rightarrow> 'v throttled \<times> (int \<times> 'v) list" where
  "throttle_step ms ev s =
     (case snd ev of
        Render v \<Rightarrow> (throttle_render ms (fst ev) v s, [])
      | Timer \<Rightarrow> throttle_fire (fst ev) s)"

fun throttle_run ::
  "int \<Rightarrow> (int \<times> 'v throttleEvent) list \<Rightarrow> 'v throttled \<Rightarrow> 'v throttled \<times> (int \<times> 'v) list" where
  "throttle_run ms [] s = (s, [])"
| "throttle_run ms (ev # evs) s =
     (let (s', us) = throttle_step ms ev s; (s'', us') = throttle_run ms evs s' in (s'', us @ us'))"

text \<open>
  The invariant at a time: without a pending timer the last value is shown; a pending timer holds the
  last value, and is due when the interval since the last update is over, or at once.
\<close>

definition throttle_ok :: "int \<Rightarrow> int \<Rightarrow> 'v throttled \<Rightarrow> bool" where
  "throttle_ok ms now s \<longleftrightarrow>
     th_lastRan s \<le> now \<and>
     (case th_pending s of
        None \<Rightarrow> th_shown s = th_value s
      | Some (due, v) \<Rightarrow> v = th_value s \<and> th_lastRan s + ms \<le> due \<and> due \<le> max now (th_lastRan s + ms))"

lemma throttle_ok_effect:
  assumes "th_lastRan s \<le> now"
  shows "throttle_ok ms now (throttle_effect ms now s)"
  using assms by (auto simp: throttle_ok_def throttle_effect_def)

lemma throttle_ok_init: "throttle_ok ms now (useThrottledValue ms v now)"
  unfolding useThrottledValue_def by (rule throttle_ok_effect) simp

lemma throttle_ok_later: "throttle_ok ms t s \<Longrightarrow> t \<le> now \<Longrightarrow> throttle_ok ms now s"
  by (auto simp: throttle_ok_def split: option.splits)

lemma throttle_ok_step:
  assumes "throttle_ok ms t s" and "t \<le> fst ev"
  shows "throttle_ok ms (fst ev) (fst (throttle_step ms ev s))"
proof (cases "snd ev")
  case (Render v)
  have "throttle_ok ms (fst ev) s"
    by (rule throttle_ok_later [OF assms])
  moreover from this have "throttle_ok ms (fst ev) (throttle_effect ms (fst ev) (s\<lparr>th_value := v\<rparr>))"
    by (intro throttle_ok_effect) (simp add: throttle_ok_def)
  ultimately show ?thesis
    by (simp add: throttle_step_def throttle_render_def Render)
next
  case Timer
  have "throttle_ok ms (fst ev) s"
    by (rule throttle_ok_later [OF assms])
  then show ?thesis
    by (auto simp: throttle_step_def throttle_fire_def Timer throttle_ok_def split: option.splits)
qed

text \<open>An update comes at least the interval after the one before, and shows the last value.\<close>

lemma throttle_step_updates:
  assumes "throttle_ok ms t s" and "t \<le> fst ev"
  shows "snd (throttle_step ms ev s) = [] \<and> th_lastRan (fst (throttle_step ms ev s)) = th_lastRan s
    \<or> snd (throttle_step ms ev s) = [(fst ev, th_value s)] \<and> th_lastRan s + ms \<le> fst ev
      \<and> th_lastRan (fst (throttle_step ms ev s)) = fst ev"
  using assms
  by (auto simp: throttle_step_def throttle_render_def throttle_effect_def throttle_fire_def throttle_ok_def
      split: option.splits throttleEvent.splits if_splits)

lemma throttle_run_ok:
  "throttle_ok ms t s \<Longrightarrow> sorted (t # map fst evs) \<Longrightarrow>
   throttle_ok ms (last (t # map fst evs)) (fst (throttle_run ms evs s))"
proof (induction evs arbitrary: t s)
  case (Cons ev evs)
  have "throttle_ok ms (fst ev) (fst (throttle_step ms ev s))"
    using throttle_ok_step [OF Cons.prems(1)] Cons.prems(2) by auto
  then show ?case
    using Cons.IH [of "fst ev" "fst (throttle_step ms ev s)"] Cons.prems(2) by (simp add: split_beta)
qed simp

lemma throttle_run_updates:
  "0 \<le> ms \<Longrightarrow> throttle_ok ms t s \<Longrightarrow> sorted (t # map fst evs) \<Longrightarrow>
   sorted_wrt (\<lambda>a b. a + ms \<le> b) (th_lastRan s # map fst (snd (throttle_run ms evs s)))"
proof (induction evs arbitrary: t s)
  case (Cons ev evs)
  let ?s = "fst (throttle_step ms ev s)"
  have ok: "throttle_ok ms (fst ev) ?s" and sorted: "sorted (fst ev # map fst evs)" and t: "t \<le> fst ev"
    using throttle_ok_step [OF Cons.prems(2)] Cons.prems(3) by auto
  have "sorted_wrt (\<lambda>a b. a + ms \<le> b) (th_lastRan ?s # map fst (snd (throttle_run ms evs ?s)))"
    by (rule Cons.IH [OF Cons.prems(1) ok sorted])
  then show ?case
    using throttle_step_updates [OF Cons.prems(2) t] Cons.prems(1) by (fastforce simp: split_beta)
qed simp

text \<open>
  C27. Throttling. Whatever is typed and whenever timers fire, two updates of the throttled value are
  at least the interval apart, and the last value is shown unless its timer is pending; this timer is
  due at most one interval after the last event however often the value changed before, and when it
  fires the last value is shown: typing on never puts the update off.
\<close>

theorem useThrottledValue_spec:
  assumes "0 \<le> ms" and "sorted (start # map fst evs)" and "now = last (start # map fst evs)"
    and "throttle_run ms evs (useThrottledValue ms v start) = (s, updates)"
  shows "sorted_wrt (\<lambda>a b. a + ms \<le> b) (start # map fst updates)
    \<and> (case th_pending s of
         None \<Rightarrow> th_shown s = th_value s
       | Some (due, w) \<Rightarrow> due \<le> max now (th_lastRan s + ms) \<and> due \<le> now + ms
           \<and> (\<forall>later \<ge> due. th_shown (fst (throttle_fire later s)) = th_value s))"
proof -
  have "throttle_ok ms now s"
    using throttle_run_ok [OF throttle_ok_init [of ms start v] assms(2)] assms(3,4) by simp
  moreover have "sorted_wrt (\<lambda>a b. a + ms \<le> b) (start # map fst updates)"
    using throttle_run_updates [OF assms(1) throttle_ok_init [of ms start v] assms(2)] assms(4)
    by (simp add: useThrottledValue_def throttle_effect_def)
  ultimately show ?thesis
    using assms(1) by (auto simp: throttle_ok_def throttle_fire_def split: option.splits)
qed

theorem useThrottledValue_spec_witness:
  "snd (throttle_run 100 [(30, Render ''n''), (60, Render ''ne''), (90, Timer), (101, Timer), (120, Render ''new'')]
     (useThrottledValue 100 [] 0)) = [(101, ''ne'')] \<and> sorted_wrt (\<lambda>a b. a + 100 \<le> b) [0, 101 :: int]"
proof -
  let ?evs = "[(30, Render ''n''), (60, Render ''ne''), (90, Timer), (101, Timer), (120, Render ''new'')]"
  have run: "snd (throttle_run 100 ?evs (useThrottledValue 100 [] 0)) = [(101, ''ne'')]"
    by (simp add: useThrottledValue_def throttle_effect_def throttle_step_def throttle_render_def throttle_fire_def)
  then show ?thesis
    using useThrottledValue_spec [of 100 0 ?evs 120 "[]"] by (cases "throttle_run 100 ?evs (useThrottledValue 100 [] 0)") simp
qed

section \<open>Keys that are typed into a field\<close>

text \<open>The focused element: its tag, its role and whether its content can be edited.\<close>

record element =
  el_tagName :: string
  el_role :: "string option"
  el_contenteditable :: "string option"

definition shouldRejectKeystrokes :: "string list \<Rightarrow> element option \<Rightarrow> bool" where
  "shouldRejectKeystrokes ignoreWhenFocused activeElement =
     (let inputs = map js_toLowerCase ([''input'', ''textarea''] @ ignoreWhenFocused)
      in case activeElement of
           None \<Rightarrow> False
         | Some e \<Rightarrow>
             js_toLowerCase (el_tagName e) \<in> set inputs \<or> el_role e = Some ''textbox''
             \<or> el_contenteditable e = Some ''true'')"

text \<open>
  The shortcuts of the palette with the guard: keys that are typed into a field, whatever the case of
  its tag, neither perform a shortcut nor count towards one.
\<close>

lemma shortcuts_not_while_typing:
  assumes "js_toLowerCase (el_tagName e) = ''input'' \<or> js_toLowerCase (el_tagName e) = ''textarea''
    \<or> el_role e = Some ''textbox'' \<or> el_contenteditable e = Some ''true''"
  shows "useShortcuts_onKeyDown I (shouldRejectKeystrokes ig (Some e)) now k s = (s, [])"
proof -
  have "js_toLowerCase ''input'' = ''input''" "js_toLowerCase ''textarea'' = ''textarea''"
    by code_simp+
  then have "shouldRejectKeystrokes ig (Some e)"
    using assms by (auto simp: shouldRejectKeystrokes_def Let_def simp del: js_toLowerCase_simps)
  then show ?thesis
    by (simp add: useShortcuts_onKeyDown_def Let_def)
qed

section \<open>useKBar\<close>

text \<open>
  What the components render of the store, by the number of their subscription. A component collects
  once while it renders and subscribes in an effect; its subscription puts what was collected into
  its state.
\<close>

record ('s, 'c) kbarViews =
  kv_subscribers :: "('s, 'c) subscriber list"
  kv_rendered :: "nat \<Rightarrow> 'c option"

definition useKBar :: "nat \<Rightarrow> ('s \<Rightarrow> 'c) \<Rightarrow> 's \<Rightarrow> ('s, 'c) kbarViews \<Rightarrow> ('s, 'c) kbarViews" where
  "useKBar k collector st v =
     v\<lparr>kv_subscribers := subscribe k collector (kv_subscribers v),
       kv_rendered := (kv_rendered v)(k \<mapsto> collector st)\<rparr>"

definition useKBar_unmount :: "nat \<Rightarrow> ('s, 'c) kbarViews \<Rightarrow> ('s, 'c) kbarViews" where
  "useKBar_unmount k v =
     v\<lparr>kv_subscribers := unsubscribe k (kv_subscribers v), kv_rendered := (kv_rendered v)(k := None)\<rparr>"

definition setRender :: "nat \<times> 'c \<Rightarrow> (nat \<Rightarrow> 'c option) \<Rightarrow> (nat \<Rightarrow> 'c option)" where
  "setRender kc m = m(fst kc \<mapsto> snd kc)"

definition useKBar_notify :: "'s \<Rightarrow> ('s, 'c) kbarViews \<Rightarrow> ('s, 'c) kbarViews" where
  "useKBar_notify st v =
     (let (subs, changes) = notify_all st (kv_subscribers v)
      in v\<lparr>kv_subscribers := subs, kv_rendered := fold setRender changes (kv_rendered v)\<rparr>)"

text \<open>
  Subscriptions have different numbers, and what a subscriber collected last is what its component
  renders.
\<close>

definition views_ok :: "('s, 'c) kbarViews \<Rightarrow> bool" where
  "views_ok v \<longleftrightarrow>
     distinct (map sb_key (kv_subscribers v)) \<and>
     (\<forall>b \<in> set (kv_subscribers v). \<forall>c. sb_collected b = Some c \<longrightarrow> kv_rendered v (sb_key b) = Some c)"

lemma collect_simps:
  "sb_key (fst (collect st b)) = sb_key b"
  "sb_collector (fst (collect st b)) = sb_collector b"
  "sb_collected (fst (collect st b)) = Some (sb_collector b st)"
  by (auto simp: collect_def Let_def)

lemma fold_collect_other:
  "k \<notin> sb_key ` set bs \<Longrightarrow>
   fold setRender (concat (map (\<lambda>b. snd (collect st b)) bs)) m k = m k"
  by (induction bs arbitrary: m) (auto simp: collect_def Let_def setRender_def)

lemma fold_collect:
  assumes "distinct (map sb_key bs)" and "b \<in> set bs"
    and "\<forall>b \<in> set bs. \<forall>c. sb_collected b = Some c \<longrightarrow> m (sb_key b) = Some c"
  shows "fold setRender (concat (map (\<lambda>b. snd (collect st b)) bs)) m (sb_key b)
       = Some (sb_collector b st)"
  using assms
proof (induction bs arbitrary: m)
  case (Cons a bs)
  let ?m = "fold setRender (snd (collect st a)) m"
  have a: "?m (sb_key a) = Some (sb_collector a st)"
  proof (cases "sb_collected a = Some (sb_collector a st)")
    case True
    then have "m (sb_key a) = Some (sb_collector a st)"
      using Cons.prems(3) by simp
    then show ?thesis
      using True by (simp add: collect_def)
  qed (auto simp: collect_def Let_def setRender_def)
  have other: "?m k = m k" if "k \<noteq> sb_key a" for k
    using that by (auto simp: collect_def Let_def setRender_def)
  show ?case
  proof (cases "b = a")
    case True
    then show ?thesis
      using Cons.prems(1) a fold_collect_other [of "sb_key a" bs st ?m] by simp
  next
    case False
    then have "b \<in> set bs"
      using Cons.prems(2) by simp
    moreover have "\<forall>b \<in> set bs. \<forall>c. sb_collected b = Some c \<longrightarrow> ?m (sb_key b) = Some c"
    proof (intro ballI allI impI)
      fix b' c
      assume b': "b' \<in> set bs" and c: "sb_collected b' = Some c"
      have "sb_key b' \<noteq> sb_key a"
        using Cons.prems(1) b' by (metis distinct.simps(2) imageI list.set_map list.simps(9))
      then show "?m (sb_key b') = Some c"
        using other Cons.prems(3) b' c by simp
    qed
    ultimately show ?thesis
      using Cons.IH [of ?m] Cons.prems(1) by simp
  qed
qed simp

text \<open>
  After every notification each mounted component renders what it collects of the state, and the
  subscriptions remain as they are.
\<close>

theorem useKBar_current:
  assumes "views_ok v"
  shows "views_ok (useKBar_notify st v)
    \<and> map sb_collector (kv_subscribers (useKBar_notify st v)) = map sb_collector (kv_subscribers v)
    \<and> (\<forall>b \<in> set (kv_subscribers v). kv_rendered (useKBar_notify st v) (sb_key b) = Some (sb_collector b st))"
proof -
  have keys: "map sb_key (map (\<lambda>b. fst (collect st b)) bs) = map sb_key bs" for bs :: "('a, 'b) subscriber list"
    by (simp add: collect_simps)
  have shown: "\<forall>b \<in> set (kv_subscribers v). kv_rendered (useKBar_notify st v) (sb_key b) = Some (sb_collector b st)"
    using assms fold_collect [of "kv_subscribers v" _ "kv_rendered v" st]
    by (simp add: views_ok_def useKBar_notify_def notify_all_def)
  moreover have "views_ok (useKBar_notify st v)"
    using assms shown keys [of "kv_subscribers v"]
    by (auto simp: views_ok_def useKBar_notify_def notify_all_def collect_simps simp del: map_map)
  ultimately show ?thesis
    by (simp add: useKBar_notify_def notify_all_def collect_simps)
qed

theorem useKBar_current_witness:
  "kv_rendered (useKBar_notify (3 :: int, 4 :: int) (useKBar 0 fst (1, 2) \<lparr>kv_subscribers = [], kv_rendered = Map.empty\<rparr>)) 0
   = Some 3"
proof -
  let ?v = "useKBar 0 fst (1 :: int, 2 :: int) \<lparr>kv_subscribers = [], kv_rendered = Map.empty\<rparr>"
  have "views_ok ?v"
    by (simp add: views_ok_def useKBar_def subscribe_def)
  from useKBar_current [OF this, of "(3, 4)"] show ?thesis
    by (simp add: useKBar_def subscribe_def)
qed

section \<open>Pointer and focus\<close>

text \<open>
  \<open>usePointerMovedSinceMount\<close>: whether the pointer moved, and whether the listener is installed; the
  effect behind the first move removes it.
\<close>

definition pointer_mount :: "bool \<times> bool" where
  "pointer_mount = (False, True)"

definition pointer_move :: "bool \<times> bool \<Rightarrow> bool \<times> bool" where
  "pointer_move s = (let moved = fst s \<or> snd s in (moved, snd s \<and> \<not> moved))"

lemma pointer_moved: "(pointer_move ^^ n) pointer_mount = (0 < n, n = 0)"
  by (induction n) (auto simp: pointer_mount_def pointer_move_def Let_def)

text \<open>\<open>useFocus\<close>: the element that is focused, if the reference has one.\<close>

definition setFocus :: "'e option \<Rightarrow> 'e list" where
  "setFocus htmlElRef = (case htmlElRef of None \<Rightarrow> [] | Some el \<Rightarrow> [el])"

text \<open>\<open>useSearch\<close>, over match-sorter.\<close>

definition useSearch :: "('a list \<Rightarrow> string \<Rightarrow> string list \<Rightarrow> 'a list) \<Rightarrow> 'a list \<Rightarrow> string \<Rightarrow> string list \<Rightarrow> 'a list" where
  "useSearch matchSorter searchList search searchKeys = matchSorter searchList search searchKeys"

end
