(* ===== verification/Build.thy ===== *)
theory Build imports MainProcess begin

text \<open>
  How the program is built and packaged (\<open>client/gui/helpers\<close>): the directories of
  \<open>configs/webpack.paths.ts\<close>, what the bundles of the webpack configurations are called, the
  scripts that check and clean a build, and the packaging for macOS and Linux. Webpack and
  electron-builder are not in the repository: their configurations are records, and what webpack
  emits is a set of files with its documented rule as a hypothesis. Commands of the shell and their
  failures are those of \<open>MainProcess\<close>. The properties connect this with the program: the main
  process finds its bundles, and the launch agent the daemon, where the build puts them.
\<close>

section \<open>Directories\<close>

text \<open>\<open>webpack.paths.ts\<close>, for the directory \<open>dirname\<close> of that file.\<close>

record webpackPaths =
  wp_rootPath :: string
  wp_dllPath :: string
  wp_srcPath :: string
  wp_srcMainPath :: string
  wp_srcRendererPath :: string
  wp_releasePath :: string
  wp_appPath :: string
  wp_appPackagePath :: string
  wp_appNodeModulesPath :: string
  wp_srcNodeModulesPath :: string
  wp_distPath :: string
  wp_distMainPath :: string
  wp_distRendererPath :: string
  wp_buildPath :: string

definition webpack_paths :: "string \<Rightarrow> webpackPaths" where
  "webpack_paths dirname =
     (let rootPath = path_join [dirname, ''../..''];
          dllPath = path_join [dirname, ''../dll''];
          srcPath = path_join [rootPath, ''src''];
          srcMainPath = path_join [srcPath, ''main''];
          srcRendererPath = path_join [srcPath, ''renderer''];
          releasePath = path_join [rootPath, ''release''];
          appPath = path_join [releasePath, ''app''];
          appPackagePath = path_join [appPath, ''package.json''];
          appNodeModulesPath = path_join [appPath, ''node_modules''];
          srcNodeModulesPath = path_join [srcPath, ''node_modules''];
          distPath = path_join [appPath, ''dist''];
          distMainPath = path_join [distPath, ''main''];
          distRendererPath = path_join [distPath, ''renderer''];
          buildPath = path_join [releasePath, ''build'']
      in \<lparr>wp_rootPath = rootPath, wp_dllPath = dllPath, wp_srcPath = srcPath,
          wp_srcMainPath = srcMainPath, wp_srcRendererPath = srcRendererPath,
          wp_releasePath = releasePath, wp_appPath = appPath, wp_appPackagePath = appPackagePath,
          wp_appNodeModulesPath = appNodeModulesPath, wp_srcNodeModulesPath = srcNodeModulesPath,
          wp_distPath = distPath, wp_distMainPath = distMainPath,
          wp_distRendererPath = distRendererPath, wp_buildPath = buildPath\<rparr>)"

section \<open>Scripts around a build\<close>

text \<open>What the scripts do outside of the process.\<close>

datatype build_action =
    Rimraf string
  | Symlink string string string
  | ExecSync string "string option"

text \<open>\<open>check-build-exists.ts\<close>.\<close>

definition check_build_exists :: "(string \<Rightarrow> bool) \<Rightarrow> webpackPaths \<Rightarrow> js_error + unit" where
  "check_build_exists exists_file wp =
     (let mainPath = path_join [wp_distMainPath wp, ''main.js''];
          rendererPath = path_join [wp_distRendererPath wp, ''renderer.js'']
      in if \<not> exists_file mainPath
         then Inl (JsError (''The main process is not built yet. Build it by running '' @ js_quote
                            @ ''npm run build:main'' @ js_quote))
         else if \<not> exists_file rendererPath
         then Inl (JsError (''The renderer process is not built yet. Build it by running '' @ js_quote
                            @ ''npm run build:renderer'' @ js_quote))
         else Inr ())"

text \<open>\<open>link-modules.ts\<close>.\<close>

definition link_modules :: "(string \<Rightarrow> bool) \<Rightarrow> webpackPaths \<Rightarrow> build_action list" where
  "link_modules exists_file wp =
     (if \<not> exists_file (wp_srcNodeModulesPath wp) \<and> exists_file (wp_appNodeModulesPath wp)
      then [Symlink (wp_appNodeModulesPath wp) (wp_srcNodeModulesPath wp) ''junction''] else [])"

text \<open>
  \<open>clean.js\<close>: the names that a plain object inherits are not undefined either; rimraf refuses
  what they hold, since it is not a string.
\<close>

definition inherited_names :: "string list" where
  "inherited_names =
     [''constructor'', ''hasOwnProperty'', ''isPrototypeOf'', ''propertyIsEnumerable'',
      ''toLocaleString'', ''toString'', ''valueOf'', ''__proto__'', ''__defineGetter__'',
      ''__defineSetter__'', ''__lookupGetter__'', ''__lookupSetter__'']"

definition commandMap :: "webpackPaths \<Rightarrow> string \<Rightarrow> string option" where
  "commandMap wp =
     [''dist'' \<mapsto> wp_distPath wp, ''release'' \<mapsto> wp_releasePath wp, ''dll'' \<mapsto> wp_dllPath wp]"

fun clean :: "webpackPaths \<Rightarrow> string list \<Rightarrow> build_action list \<times> (js_error + unit)" where
  "clean wp [] = ([], Inr ())"
| "clean wp (x # xs) =
     (case commandMap wp x of
        Some p \<Rightarrow> (let (acts, r) = clean wp xs in (Rimraf p # acts, r))
      | None \<Rightarrow>
          (if x \<in> set inherited_names then ([], Inl (JsError ''rimraf: path should be a string''))
           else clean wp xs))"

text \<open>\<open>delete-source-maps.js\<close>.\<close>

definition deleteSourceMaps :: "webpackPaths \<Rightarrow> build_action list" where
  "deleteSourceMaps wp =
     [Rimraf (path_join [wp_distMainPath wp, ''*.js.map'']),
      Rimraf (path_join [wp_distRendererPath wp, ''*.js.map''])]"

text \<open>\<open>check-node-env.js\<close>; without an argument \<open>expectedEnv\<close> is the empty string.\<close>

definition checkNodeEnv :: "environment \<Rightarrow> string \<Rightarrow> unit outcome" where
  "checkNodeEnv env expectedEnv =
     (if expectedEnv = [] then Throws (JsError (js_quote @ ''expectedEnv'' @ js_quote @ '' not set''))
      else if env ''NODE_ENV'' \<noteq> Some expectedEnv then Exits 2
      else Returns ())"

text \<open>
  \<open>check-port-in-use.js\<close>; \<open>availablePort\<close> is what detect-port answers, nothing after an
  error.
\<close>

definition env_or :: "environment \<Rightarrow> string \<Rightarrow> string \<Rightarrow> string" where
  "env_or env v d = (case env v of Some p \<Rightarrow> if p = [] then d else p | None \<Rightarrow> d)"

definition check_port_in_use :: "environment \<Rightarrow> (string \<Rightarrow> nat option) \<Rightarrow> unit outcome" where
  "check_port_in_use env detectPort =
     (let port = env_or env ''PORT'' ''1212'';
          available = (case detectPort port of Some n \<Rightarrow> js_nat_str n | None \<Rightarrow> ''undefined'')
      in if port \<noteq> available
         then Throws (JsError (''Port '' @ js_quote @ port @ js_quote @ '' on '' @ js_quote @ ''localhost''
                @ js_quote @ '' is already in use. Please use another port. ex: PORT=4343 npm start''))
         else Exits 0)"

text \<open>
  \<open>check-native-dep.js\<close>: the keys of the dependencies of the root package, the folders of
  \<open>node_modules\<close>, and the root dependencies that \<open>npm ls\<close> prints for the native ones.
  The exit ends the process also inside of the \<open>try\<close>.
\<close>

definition check_native_dep ::
  "string list \<Rightarrow> js_error + string list \<Rightarrow> (string \<Rightarrow> bool) \<Rightarrow> (string \<Rightarrow> js_error + string list) \<Rightarrow> unit outcome"
where
  "check_native_dep dependenciesKeys folders exists_file npm =
     (case folders of
        Inl e \<Rightarrow> Throws e
      | Inr fs \<Rightarrow>
          (let nativeDeps = filter (\<lambda>f. exists_file (''node_modules/'' @ f @ ''/binding.gyp'')) fs
           in if nativeDeps = [] then Exits 0
              else case npm (''npm ls '' @ js_join '' '' nativeDeps @ '' --json'') of
                     Inl e \<Rightarrow> Returns ()
                   | Inr rootDependencies \<Rightarrow>
                       (if filter (\<lambda>r. r \<in> set dependenciesKeys) rootDependencies \<noteq> [] then Exits 1
                        else Returns ())))"

text \<open>\<open>electron-rebuild.js\<close>.\<close>

definition electron_rebuild ::
  "string \<Rightarrow> string list \<Rightarrow> (string \<Rightarrow> bool) \<Rightarrow> webpackPaths \<Rightarrow> build_action list" where
  "electron_rebuild platform dependencies exists_file wp =
     (if dependencies \<noteq> [] \<and> exists_file (wp_appNodeModulesPath wp)
      then (let electronRebuildCmd =
                  ''../../node_modules/.bin/electron-rebuild --parallel --force --types prod,dev,optional --module-dir .'';
                cmd = (if platform = ''win32''
                       then map (\<lambda>c. if c = CHR ''/'' then CHR 0x5C else c) electronRebuildCmd
                       else electronRebuildCmd)
            in [ExecSync cmd (Some (wp_appPath wp))])
      else [])"

section \<open>Bundles\<close>

text \<open>
  What the configurations say about a bundle before they are merged with the base configuration,
  over which they win: the entry points by name (webpack calls a single one \<open>main\<close>), where the
  bundle goes, the page that is written beside it, and the port of the development server.
\<close>

record webpackBundle =
  bd_mode :: string
  bd_target :: "string list"
  bd_devtool :: "string option"
  bd_entry :: "(string \<times> string list) list"
  bd_path :: string
  bd_filename :: string
  bd_publicPath :: "string option"
  bd_html :: "(string \<times> string) option"
  bd_port :: "string option"

definition devtoolsConfig :: "environment \<Rightarrow> string option" where
  "devtoolsConfig env = (if env ''DEBUG_PROD'' = Some ''true'' then Some ''source-map'' else None)"

text \<open>\<open>webpack.config.main.prod.ts\<close>\<close>

definition main_prod :: "environment \<Rightarrow> webpackPaths \<Rightarrow> build_action list \<times> webpackBundle outcome" where
  "main_prod env wp =
     (case checkNodeEnv env ''production'' of
        Throws e \<Rightarrow> ([], Throws e)
      | Exits n \<Rightarrow> ([], Exits n)
      | Returns _ \<Rightarrow>
          (deleteSourceMaps wp,
           Returns \<lparr>bd_mode = ''production'', bd_target = [''electron-main''],
             bd_devtool = devtoolsConfig env,
             bd_entry = [(''main'', [path_join [wp_srcMainPath wp, ''main.ts'']]),
                         (''preload'', [path_join [wp_srcMainPath wp, ''preload.ts'']])],
             bd_path = wp_distMainPath wp, bd_filename = ''[name].js'', bd_publicPath = None,
             bd_html = None, bd_port = None\<rparr>))"

text \<open>\<open>webpack.config.renderer.prod.ts\<close>\<close>

definition renderer_prod :: "environment \<Rightarrow> webpackPaths \<Rightarrow> build_action list \<times> webpackBundle outcome" where
  "renderer_prod env wp =
     (case checkNodeEnv env ''production'' of
        Throws e \<Rightarrow> ([], Throws e)
      | Exits n \<Rightarrow> ([], Exits n)
      | Returns _ \<Rightarrow>
          (deleteSourceMaps wp,
           Returns \<lparr>bd_mode = ''production'', bd_target = [''web'', ''electron-renderer''],
             bd_devtool = devtoolsConfig env,
             bd_entry = [(''main'', [path_join [wp_srcRendererPath wp, ''index.tsx'']])],
             bd_path = wp_distRendererPath wp, bd_filename = ''renderer.js'',
             bd_publicPath = Some ''./'',
             bd_html = Some (''index.html'', path_join [wp_srcRendererPath wp, ''index.ejs'']),
             bd_port = None\<rparr>))"

text \<open>
  The check of the development configurations, which an ESLint server may load without the
  variable.
\<close>

definition check_not_production :: "environment \<Rightarrow> unit outcome" where
  "check_not_production env =
     (if env ''NODE_ENV'' = Some ''production'' then checkNodeEnv env ''development'' else Returns ())"

text \<open>\<open>webpack.config.preload.dev.ts\<close>\<close>

definition preload_dev :: "environment \<Rightarrow> webpackPaths \<Rightarrow> webpackBundle outcome" where
  "preload_dev env wp =
     (case check_not_production env of
        Throws e \<Rightarrow> Throws e
      | Exits n \<Rightarrow> Exits n
      | Returns _ \<Rightarrow>
          Returns \<lparr>bd_mode = ''development'', bd_target = [''electron-preload''],
            bd_devtool = Some ''inline-source-map'',
            bd_entry = [(''main'', [path_join [wp_srcMainPath wp, ''preload.ts'']])],
            bd_path = wp_dllPath wp, bd_filename = ''preload.js'', bd_publicPath = None,
            bd_html = None, bd_port = None\<rparr>)"

text \<open>
  \<open>webpack.config.renderer.dev.ts\<close>: unless the configuration of the libraries loads it, it builds
  the libraries when they are missing.
\<close>

definition renderer_dev ::
  "environment \<Rightarrow> (string \<Rightarrow> bool) \<Rightarrow> bool \<Rightarrow> webpackPaths \<Rightarrow> build_action list \<times> webpackBundle outcome" where
  "renderer_dev env exists_file requiredByDLLConfig wp =
     (case check_not_production env of
        Throws e \<Rightarrow> ([], Throws e)
      | Exits n \<Rightarrow> ([], Exits n)
      | Returns _ \<Rightarrow>
          (let port = env_or env ''PORT'' ''1212'';
               manifest = path_resolve [] [wp_dllPath wp, ''renderer.json'']
           in (if \<not> requiredByDLLConfig \<and> \<not> (exists_file (wp_dllPath wp) \<and> exists_file manifest)
               then [ExecSync ''npm run postinstall'' None] else [],
               Returns \<lparr>bd_mode = ''development'', bd_target = [''web'', ''electron-renderer''],
                 bd_devtool = Some ''inline-source-map'',
                 bd_entry = [(''main'',
                   [''webpack-dev-server/client?http://localhost:'' @ port @ ''/dist'',
                    ''webpack/hot/only-dev-server'',
                    path_join [wp_srcRendererPath wp, ''index.tsx'']])],
                 bd_path = wp_distRendererPath wp, bd_filename = ''renderer.dev.js'',
                 bd_publicPath = Some ''/'',
                 bd_html = Some (path_join [''index.html''], path_join [wp_srcRendererPath wp, ''index.ejs'']),
                 bd_port = Some port\<rparr>)))"

text \<open>\<open>webpack.config.renderer.dev.dll.ts\<close>, and where it writes the manifest.\<close>

definition renderer_dll :: "environment \<Rightarrow> string list \<Rightarrow> webpackPaths \<Rightarrow> (webpackBundle \<times> string) outcome" where
  "renderer_dll env dependencies wp =
     (case checkNodeEnv env ''development'' of
        Throws e \<Rightarrow> Throws e
      | Exits n \<Rightarrow> Exits n
      | Returns _ \<Rightarrow>
          Returns (\<lparr>bd_mode = ''development'', bd_target = [''electron-renderer''],
             bd_devtool = Some ''eval'', bd_entry = [(''renderer'', dependencies)],
             bd_path = wp_dllPath wp, bd_filename = ''[name].dev.dll.js'', bd_publicPath = None,
             bd_html = None, bd_port = None\<rparr>,
           path_join [wp_dllPath wp, ''[name].json'']))"

text \<open>
  A placeholder \<open>[name]\<close> stands for the name of the entry point. The documented rule of
  webpack, as far as it is relied on: the files that the configuration names are emitted.
\<close>

definition expand_name :: "string \<Rightarrow> string \<Rightarrow> string" where
  "expand_name name template = js_join name (js_split template ''[name]'')"

definition bundle_files :: "webpackBundle \<Rightarrow> string list" where
  "bundle_files b =
     map (\<lambda>(name, srcs). path_join [bd_path b, expand_name name (bd_filename b)]) (bd_entry b)
     @ (case bd_html b of Some (page, template) \<Rightarrow> [path_join [bd_path b, page]] | None \<Rightarrow> [])"

section \<open>Packaging\<close>

text \<open>
  \<open>package-shared.ts\<close>. The path of the directory \<open>gui\<close> is found from that of the script.
\<close>

definition baseDir :: "string \<Rightarrow> string \<Rightarrow> string" where
  "baseDir dirname rel = path_join [path_resolve [] [dirname, ''../../''], rel]"

definition assetsDir :: "string \<Rightarrow> string \<Rightarrow> string" where
  "assetsDir dirname rel = baseDir dirname (path_join [''assets'', rel])"

definition releaseDir :: "string \<Rightarrow> string \<Rightarrow> string" where
  "releaseDir dirname rel = baseDir dirname (path_join [''release'', rel])"

definition macArch :: "environment \<Rightarrow> string" where
  "macArch env = (case env ''MAC_ARCH'' of Some a \<Rightarrow> a | None \<Rightarrow> ''arm64'')"

record resource =
  rs_from :: string
  rs_to :: string
  rs_filter :: "string list"

record platform_options =
  po_target :: string
  po_arch :: "string list"
  po_icon :: string
  po_extraResources :: "resource list"

record builder_config =
  bc_appId :: string
  bc_app :: string
  bc_buildResources :: string
  bc_output :: string
  bc_files :: "string list"
  bc_schemes :: "string list"
  bc_mac :: platform_options
  bc_linux :: platform_options
  bc_dmg_sign :: bool

definition builder_shared :: "environment \<Rightarrow> string \<Rightarrow> builder_config" where
  "builder_shared env dirname =
     (let binaries = [\<lparr>rs_from = path_join [baseDir dirname ''binaries''], rs_to = ''.'',
                       rs_filter = [''${arch}'']\<rparr>]
      in \<lparr>bc_appId = ''co.anysphere.Anysphere'',
          bc_app = releaseDir dirname ''app'',
          bc_buildResources = baseDir dirname ''assets'',
          bc_output = releaseDir dirname ''build'',
          bc_files = [''dist'', ''package.json'', ''node_modules''],
          bc_schemes = [''anysphere''],
          bc_mac = \<lparr>po_target = ''default'',
                    po_arch = (if macArch env = ''both'' then [''x64'', ''arm64''] else [macArch env]),
                    po_icon = assetsDir dirname ''icon.icns'', po_extraResources = binaries\<rparr>,
          bc_linux = \<lparr>po_target = ''AppImage'', po_arch = [''x64''],
                      po_icon = assetsDir dirname ''icon.png'', po_extraResources = binaries\<rparr>,
          bc_dmg_sign = False\<rparr>)"

text \<open>The hook \<open>afterPack\<close>: every extra resource of the platform exists.\<close>

definition shared_afterPack :: "(string \<Rightarrow> bool) \<Rightarrow> resource list \<Rightarrow> js_error + unit" where
  "shared_afterPack exists_file resources =
     for_each resources (\<lambda>r. if \<not> exists_file (rs_from r)
                             then Inl (JsError (''Can't find file: '' @ rs_from r)) else Inr ())"

text \<open>
  \<open>package-mac-dmg.ts\<close>: what is packed is in \<open>appOutDir\<close>, \<open>arch\<close> is the name of its architecture. The
  binaries of the architecture get the name \<open>bin\<close> and become writable; an exception of the shared hook rejects the promise.
\<close>

definition mac_afterPack ::
  "system \<Rightarrow> (string \<Rightarrow> bool) \<Rightarrow> resource list \<Rightarrow> string \<Rightarrow> string \<Rightarrow> unit io" where
  "mac_afterPack sys exists_file resources appOutDir arch =
     io_bind (io_lift (shared_afterPack exists_file resources)) (\<lambda>_.
       io_then (io_bind (act sys (Exec (''mv '' @ appOutDir @ ''/Anysphere.app/Contents/Resources/''
                  @ arch @ '' '' @ appOutDir @ ''/Anysphere.app/Contents/Resources/bin'')))
                 exit_on_stderr)
         (io_bind (act sys (Exec (''chmod u+w '' @ appOutDir @ ''/Anysphere.app/Contents/Resources/bin/*'')))
                 exit_on_stderr))"

record notarization =
  no_tool :: string
  no_appPath :: string
  no_keychain :: string
  no_keychainProfile :: string

text \<open>A template literal prints a missing variable as \<open>undefined\<close>.\<close>

definition notarizeMac :: "environment \<Rightarrow> string \<Rightarrow> notarization" where
  "notarizeMac env appPath =
     \<lparr>no_tool = ''notarytool'', no_appPath = appPath,
      no_keychain = (case env ''HOME'' of Some h \<Rightarrow> h | None \<Rightarrow> ''undefined'')
                    @ ''/Library/Keychains/login.keychain-db'',
      no_keychainProfile = ''anysphere-gui-profile''\<rparr>"

definition mac_afterSign :: "environment \<Rightarrow> string \<Rightarrow> string \<Rightarrow> notarization option" where
  "mac_afterSign env out_dir appName =
     (if env ''MAC_DONT_NOTARIZE'' \<noteq> Some ''true''
      then Some (notarizeMac env (path_join [out_dir, appName @ ''.app''])) else None)"

definition doPublish :: "environment \<Rightarrow> string" where
  "doPublish env = (if env ''PUBLISH_ASPHR'' = Some ''true'' then ''always'' else ''never'')"

text \<open>
  The options of \<open>builder.build\<close>, with the hooks as functions. \<open>package-linux.ts\<close> has only the
  shared hook.
\<close>

record build_options =
  bo_platform :: string
  bo_publish :: string
  bo_config :: builder_config
  bo_afterPack :: "string \<Rightarrow> string \<Rightarrow> unit io"
  bo_afterAllArtifactBuild :: "string list \<Rightarrow> string list"
  bo_afterSign :: "string \<Rightarrow> string \<Rightarrow> notarization option"

definition packageMac ::
  "system \<Rightarrow> environment \<Rightarrow> (string \<Rightarrow> bool) \<Rightarrow> string \<Rightarrow> build_options" where
  "packageMac sys env exists_file dirname =
     (let config = builder_shared env dirname
      in \<lparr>bo_platform = ''mac'', bo_publish = doPublish env, bo_config = config,
          bo_afterPack = mac_afterPack sys exists_file (po_extraResources (bc_mac config)),
          bo_afterAllArtifactBuild = (\<lambda>artifactPaths. []),
          bo_afterSign = mac_afterSign env\<rparr>)"

definition packageLinux :: "environment \<Rightarrow> (string \<Rightarrow> bool) \<Rightarrow> string \<Rightarrow> build_options" where
  "packageLinux env exists_file dirname =
     (let config = builder_shared env dirname
      in \<lparr>bo_platform = ''linux'', bo_publish = doPublish env, bo_config = config,
          bo_afterPack = (\<lambda>appOutDir arch.
            io_lift (shared_afterPack exists_file (po_extraResources (bc_linux config)))),
          bo_afterAllArtifactBuild = (\<lambda>artifactPaths. []),
          bo_afterSign = (\<lambda>out_dir appName. None)\<rparr>)"

text \<open>
  \<open>package-mac.ts\<close>, an earlier packaging that notarizes the installer too. Its resources are the
  two programs; its hooks also record the directories they were given.
\<close>

definition package_mac_resources :: "string \<Rightarrow> resource list" where
  "package_mac_resources dirname =
     map (\<lambda>f. \<lparr>rs_from = baseDir dirname (path_join [''binaries'', f]), rs_to = ''.'', rs_filter = []\<rparr>)
       [''anysphered'', ''anysphere'']"

definition package_mac_afterPack ::
  "(string \<Rightarrow> bool) \<Rightarrow> string \<Rightarrow> string \<Rightarrow> string list \<Rightarrow> js_error + string list" where
  "package_mac_afterPack exists_file dirname appOutDir app_out_dirs =
     bind_result (shared_afterPack exists_file (package_mac_resources dirname))
       (\<lambda>_. Inr (app_out_dirs @ [appOutDir]))"

definition package_mac_afterAll :: "environment \<Rightarrow> string list \<Rightarrow> notarization option" where
  "package_mac_afterAll env artifactPaths =
     (if env ''MAC_DONT_NOTARIZE'' \<noteq> Some ''true''
      then Some (notarizeMac env (case artifactPaths of p # ps \<Rightarrow> p | [] \<Rightarrow> ''undefined'')) else None)"

definition package_mac_afterSign ::
  "environment \<Rightarrow> string \<Rightarrow> string \<Rightarrow> string list \<Rightarrow> string list \<times> notarization option" where
  "package_mac_afterSign env out_dir appName app_out_dirs =
     (app_out_dirs @ [out_dir],
      if env ''MAC_DONT_NOTARIZE'' \<noteq> Some ''true''
      then Some (notarizeMac env (path_join [out_dir, appName @ ''.app''])) else None)"

text \<open>The field \<open>main\<close> of \<open>release/app/package.json\<close>: the script that Electron runs.\<close>

definition app_main :: string where
  "app_main = ''./dist/main/main.js''"

section \<open>Paths below a clean directory\<close>

lemma js_join_append: "xs \<noteq> [] \<Longrightarrow> ys \<noteq> [] \<Longrightarrow> js_join sep (xs @ ys) = js_join sep xs @ sep @ js_join sep ys"
  by (induction xs) (auto simp: js_join_Cons)

lemma js_join_concat:
  "\<forall>xs \<in> set xss. xs \<noteq> [] \<Longrightarrow> js_join sep (map (js_join sep) xss) = js_join sep (concat xss)"
proof (induction xss)
  case (Cons xs xss)
  show ?case
  proof (cases xss)
    case Nil
    then show ?thesis by simp
  next
    case (Cons ys yss)
    then have "concat xss \<noteq> []"
      using Cons.prems by auto
    then show ?thesis
      using Cons Cons.prems Cons.IH by (simp add: js_join_Cons [of sep "js_join sep xs"] js_join_append)
  qed
qed simp

lemma set_js_split_from:
  "sep = [d] \<Longrightarrow> d \<notin> set acc \<Longrightarrow> x \<in> set (js_split_from sep acc s) \<Longrightarrow> d \<notin> set x"
proof (induction sep acc s arbitrary: x rule: js_split_from.induct)
  case (1 sep acc s)
  show ?case
  proof (cases "s \<noteq> [] \<and> js_startsWith s sep")
    case True
    with "1.prems" have "x = rev acc \<or> x \<in> set (js_split_from sep [] (drop (length sep) s))"
      by (subst (asm) js_split_from.simps) auto
    then show ?thesis
      using "1.IH"(1) [OF _ "1.prems"(1)] True "1.prems" by auto
  next
    case False
    show ?thesis
    proof (cases s)
      case Nil
      with "1.prems" show ?thesis
        by (subst (asm) js_split_from.simps) auto
    next
      case (Cons c cs)
      with False "1.prems" have "c \<noteq> d"
        by (auto simp: js_startsWith_def)
      moreover have "x \<in> set (js_split_from sep (c # acc) cs)"
        using "1.prems"(3) False Cons by (subst (asm) js_split_from.simps) auto
      ultimately show ?thesis
        using "1.IH"(2) [of c cs x] False Cons "1.prems"(1,2) by auto
    qed
  qed
qed

text \<open>Normalising keeps segments clean.\<close>

lemma norm_segments_clean_set:
  "\<forall>s \<in> set acc. clean_segment s \<Longrightarrow> \<forall>s \<in> set ss. CHR ''/'' \<notin> set s \<Longrightarrow>
   \<forall>s \<in> set (norm_segments False acc ss). clean_segment s"
proof (induction ss arbitrary: acc)
  case (Cons s ss)
  consider (skip) "s = [] \<or> s = ''.''" | (up) "s = ''..''" | (name) "clean_segment s"
    using Cons.prems(2) by (auto simp: clean_segment_def)
  then show ?case
  proof cases
    case up
    show ?thesis
    proof (cases acc)
      case (Cons a acc')
      then have "a \<noteq> ''..''" "\<forall>s \<in> set acc'. clean_segment s"
        using Cons.prems(1) by (auto simp: clean_segment_def)
      then show ?thesis
        using Cons.IH [of acc'] Cons.prems(2) up Cons by simp
    next
      case Nil
      then show ?thesis
        using Cons.IH [of "[]"] Cons.prems(2) up by simp
    qed
  next
    case name
    then have "norm_segments False acc (s # ss) = norm_segments False (s # acc) ss"
      by (simp add: clean_segment_def)
    then show ?thesis
      using Cons.IH [of "s # acc"] Cons.prems name by simp
  next
    case skip
    then have "norm_segments False acc (s # ss) = norm_segments False acc ss"
      by simp
    then show ?thesis
      using Cons.IH [of acc] Cons.prems by simp
  qed
qed simp

lemma split_segments:
  assumes "x \<in> set (concat (map (\<lambda>p. js_split p ''/'') parts))"
  shows "CHR ''/'' \<notin> set x"
proof -
  obtain p where "x \<in> set (js_split_from ''/'' [] p)"
    using assms by (auto simp: js_split_def)
  then show ?thesis
    by (rule set_js_split_from [OF refl, rotated]) simp
qed

lemma join_below:
  assumes "ss \<noteq> []"
  shows "js_join ''/'' (clean_path ss # parts)
       = js_join ''/'' ([] # ss @ concat (map (\<lambda>p. js_split p ''/'') parts))"
proof -
  have parts: "map (\<lambda>p. js_join ''/'' (js_split p ''/'')) parts = parts"
    by (simp add: js_join_split)
  have "js_join ''/'' (map (js_join ''/'') (([] # ss) # map (\<lambda>p. js_split p ''/'') parts))
      = js_join ''/'' (concat (([] # ss) # map (\<lambda>p. js_split p ''/'') parts))"
    by (rule js_join_concat) (auto simp: js_split_nonempty)
  then show ?thesis
    using parts assms by (simp add: comp_def clean_path_join)
qed

lemma split_below:
  assumes "ss \<noteq> []" and "\<forall>s \<in> set ss. clean_segment s"
  shows "js_split (js_join ''/'' (clean_path ss # parts)) ''/''
       = [] # ss @ concat (map (\<lambda>p. js_split p ''/'') parts)"
  unfolding join_below [OF assms(1)]
  by (rule js_split_join) (use assms(2) split_segments [of _ parts] in \<open>auto simp: clean_segment_def\<close>)

lemma norm_below:
  "\<forall>s \<in> set ss. clean_segment s \<Longrightarrow>
   norm_segments False [] ([] # ss @ segs) = norm_segments False (rev ss) segs"
  using norm_segments_append [of ss False "[]" segs] by simp

text \<open>Joining a clean directory with relative parts walks over the segments of the parts.\<close>

lemma path_join_below:
  assumes "ss \<noteq> []" and "\<forall>s \<in> set ss. clean_segment s"
    and "parts \<noteq> []" and "\<forall>p \<in> set parts. p \<noteq> []" and "last (last parts) \<noteq> CHR ''/''"
    and "norm_segments False (rev ss) (concat (map (\<lambda>p. js_split p ''/'') parts)) = ts" and "ts \<noteq> []"
  shows "path_join (clean_path ss # parts) = clean_path ts"
proof -
  let ?segs = "concat (map (\<lambda>p. js_split p ''/'') parts)"
  have p: "clean_path ss \<noteq> []" "hd (clean_path ss) = CHR ''/''"
    using clean_path_hd [OF assms(1)] by auto
  have used: "filter (\<lambda>s. s \<noteq> []) (clean_path ss # parts) = clean_path ss # parts"
    using assms(4) p(1) by simp
  have hd: "hd (js_join ''/'' (clean_path ss # parts)) = CHR ''/''"
    using p by (simp add: js_join_Cons)
  have last: "last (js_join ''/'' (clean_path ss # parts)) \<noteq> CHR ''/''"
  proof -
    obtain ps q where pq: "parts = ps @ [q]"
      using assms(3) by (cases parts rule: rev_cases) auto
    then have "js_join ''/'' ((clean_path ss # ps) @ [q]) = js_join ''/'' (clean_path ss # ps) @ ''/'' @ q"
      by (subst js_join_append) simp_all
    then show ?thesis
      using assms(4,5) pq by simp
  qed
  have ts: "\<forall>s \<in> set ts. clean_segment s"
    unfolding assms(6) [symmetric]
    by (rule norm_segments_clean_set) (use assms(2) split_segments [of _ parts] in auto)
  then have "js_join ''/'' ts \<noteq> []"
    using assms(7) by (intro js_join_eq_Nil) (auto simp: clean_segment_def)
  moreover have "js_join ''/'' (clean_path ss # parts) \<noteq> []"
    using p(1) by (simp add: js_join_Cons)
  ultimately have "path_normalize (js_join ''/'' (clean_path ss # parts)) = ''/'' @ js_join ''/'' ts"
    using hd last split_below [OF assms(1,2), of parts] norm_below [OF assms(2), of ?segs] assms(6)
    by (simp add: path_normalize_def Let_def)
  then show ?thesis
    using used clean_path_join [OF assms(7)] assms(7) by (simp add: path_join_def js_join_Cons)
qed

lemma path_resolve_below:
  assumes "ss \<noteq> []" and "\<forall>s \<in> set ss. clean_segment s" and "p \<noteq> []" and "hd p \<noteq> CHR ''/''"
    and "norm_segments False (rev ss) (js_split p ''/'') = ts" and "ts \<noteq> []"
  shows "path_resolve cwd [clean_path ss, p] = clean_path ts"
proof -
  have c: "clean_path ss \<noteq> []" "hd (clean_path ss) = CHR ''/''"
    using clean_path_hd [OF assms(1)] by auto
  have "clean_path ss @ ''/'' @ p = js_join ''/'' [clean_path ss, p]"
    by simp
  then have "js_split (clean_path ss @ ''/'' @ p) ''/'' = [] # ss @ js_split p ''/''"
    using split_below [OF assms(1,2), of "[p]"] by simp
  then show ?thesis
    using c assms(3,4,5) norm_below [OF assms(2), of "js_split p ''/''"] clean_path_join [OF assms(6)] assms(6)
    by (simp add: path_resolve_def js_join_Cons)
qed

section \<open>Where everything is\<close>

lemma split_plain: "clean_segment s \<Longrightarrow> js_split s ''/'' = [s]"
  using js_split_join [of "''/''" "CHR ''/''" "[]" "[s]"] by (simp add: clean_segment_def)

lemma split_up:
  "js_split ''../..'' ''/'' = [''..'', ''..'']"
  "js_split ''../../'' ''/'' = [''..'', ''..'', []]"
  "js_split ''../dll'' ''/'' = [''..'', ''dll'']"
  "js_split ''../../helpers/dll/preload.js'' ''/'' = [''..'', ''..'', ''helpers'', ''dll'', ''preload.js'']"
  "js_split ''./dist/main/main.js'' ''/'' = [''.'', ''dist'', ''main'', ''main.js'']"
  by code_simp+

lemma norm_names:
  "\<forall>s \<in> set names. clean_segment s \<Longrightarrow> norm_segments False acc names = rev acc @ names"
  by (rule norm_segments_clean)

text \<open>The names of the build are clean segments.\<close>

lemma build_names [simp]:
  "clean_segment ''helpers''" "clean_segment ''configs''" "clean_segment ''scripts''"
  "clean_segment ''dll''" "clean_segment ''src''" "clean_segment ''main''" "clean_segment ''renderer''"
  "clean_segment ''release''" "clean_segment ''app''" "clean_segment ''package.json''"
  "clean_segment ''node_modules''" "clean_segment ''dist''" "clean_segment ''build''"
  "clean_segment ''main.js''" "clean_segment ''preload.js''" "clean_segment ''renderer.js''"
  "clean_segment ''index.html''" "clean_segment ''renderer.json''" "clean_segment ''assets''"
  "clean_segment ''icon.png''" "clean_segment ''binaries''"
  by (simp_all add: clean_segment_def)

lemma up_two:
  assumes "R \<noteq> []" and "\<forall>s \<in> set R. clean_segment s" and "clean_segment a" and "clean_segment b"
  shows "path_join [clean_path (R @ [a, b]), ''../..''] = clean_path R"
    and "path_resolve cwd [clean_path (R @ [a, b]), ''../../''] = clean_path R"
    and "path_join [clean_path (R @ [a, b]), ''../dll''] = clean_path (R @ [a, ''dll''])"
    and "path_join [clean_path (R @ [a, b]), ''../../helpers/dll/preload.js'']
         = clean_path (R @ [''helpers'', ''dll'', ''preload.js''])"
proof -
  have ab: "a \<noteq> ''..''" "b \<noteq> ''..''" and c: "\<forall>s \<in> set (R @ [a, b]). clean_segment s"
    using assms by (auto simp: clean_segment_def)
  have R: "rev (R @ [a, b]) = b # a # rev R"
    by simp
  note below = path_join_below [OF _ c, unfolded R] path_resolve_below [OF _ c, unfolded R]
  show "path_join [clean_path (R @ [a, b]), ''../..''] = clean_path R"
    by (rule below) (use assms(1) ab in \<open>simp_all add: split_up\<close>)
  show "path_resolve cwd [clean_path (R @ [a, b]), ''../../''] = clean_path R"
    by (rule below) (use assms(1) ab in \<open>simp_all add: split_up\<close>)
  show "path_join [clean_path (R @ [a, b]), ''../dll''] = clean_path (R @ [a, ''dll''])"
    by (rule below) (use assms(1) ab in \<open>simp_all add: split_up\<close>)
  show "path_join [clean_path (R @ [a, b]), ''../../helpers/dll/preload.js'']
      = clean_path (R @ [''helpers'', ''dll'', ''preload.js''])"
    by (rule below) (use assms(1) ab in \<open>simp_all add: split_up\<close>)
qed

lemma join_name:
  "ss \<noteq> [] \<Longrightarrow> \<forall>s \<in> set ss. clean_segment s \<Longrightarrow> clean_segment t \<Longrightarrow>
   path_join [clean_path ss, t] = clean_path (ss @ [t])"
  by (rule path_join_clean) auto

text \<open>The paths of webpack, for the root \<open>R\<close> of the client.\<close>

definition configs_dir :: "string list \<Rightarrow> string" where
  "configs_dir R = clean_path (R @ [''helpers'', ''configs''])"

definition scripts_dir :: "string list \<Rightarrow> string" where
  "scripts_dir R = clean_path (R @ [''helpers'', ''scripts''])"

lemma webpack_paths_at:
  assumes "R \<noteq> []" and "\<forall>s \<in> set R. clean_segment s"
  shows "webpack_paths (configs_dir R) =
    \<lparr>wp_rootPath = clean_path R,
     wp_dllPath = clean_path (R @ [''helpers'', ''dll'']),
     wp_srcPath = clean_path (R @ [''src'']),
     wp_srcMainPath = clean_path (R @ [''src'', ''main'']),
     wp_srcRendererPath = clean_path (R @ [''src'', ''renderer'']),
     wp_releasePath = clean_path (R @ [''release'']),
     wp_appPath = clean_path (R @ [''release'', ''app'']),
     wp_appPackagePath = clean_path (R @ [''release'', ''app'', ''package.json'']),
     wp_appNodeModulesPath = clean_path (R @ [''release'', ''app'', ''node_modules'']),
     wp_srcNodeModulesPath = clean_path (R @ [''src'', ''node_modules'']),
     wp_distPath = clean_path (R @ [''release'', ''app'', ''dist'']),
     wp_distMainPath = clean_path (R @ [''release'', ''app'', ''dist'', ''main'']),
     wp_distRendererPath = clean_path (R @ [''release'', ''app'', ''dist'', ''renderer'']),
     wp_buildPath = clean_path (R @ [''release'', ''build''])\<rparr>"
  using assms unfolding webpack_paths_def configs_dir_def Let_def
  by (simp add: up_two join_name del: clean_path_snoc)

lemma baseDir_at:
  assumes "R \<noteq> []" and "\<forall>s \<in> set R. clean_segment s" and "clean_segment f"
  shows "baseDir (scripts_dir R) f = clean_path (R @ [f])"
  using assms unfolding baseDir_def scripts_dir_def
  by (simp add: up_two join_name del: clean_path_snoc)

lemma path_dirname_append:
  assumes "t \<noteq> []" and "CHR ''/'' \<notin> set t" and "2 \<le> length q"
  shows "path_dirname (q @ ''/'' @ t) = q"
proof -
  obtain c cs where q: "q = c # cs" "cs \<noteq> []"
    using assms(3) by (cases q; cases "tl q") auto
  have "dropWhile (\<lambda>x. x = CHR ''/'') (rev t @ ''/'' @ rev cs) = rev t @ ''/'' @ rev cs"
    using assms(1,2) by (cases "rev t") auto
  moreover have "dropWhile (\<lambda>x. x \<noteq> CHR ''/'') (rev t @ ''/'' @ rev cs) = ''/'' @ rev cs"
    using assms(2) by (subst dropWhile_append2) auto
  ultimately show ?thesis
    using q by (simp add: path_dirname_def)
qed

lemma path_dirname_clean:
  assumes "ss \<noteq> []" and "\<forall>s \<in> set (ss @ [t]). clean_segment s"
  shows "path_dirname (clean_path (ss @ [t])) = clean_path ss"
proof -
  obtain s rest where "ss = s # rest" "s \<noteq> []"
    using assms by (cases ss) (auto simp: clean_segment_def)
  then have "2 \<le> length (clean_path ss)"
    by (cases s) (simp_all add: clean_path_def)
  then show ?thesis
    using assms(2) path_dirname_append [of t "clean_path ss"] by (simp add: clean_segment_def)
qed

lemma expand_names:
  "expand_name ''main'' ''[name].js'' = ''main.js''"
  "expand_name ''preload'' ''[name].js'' = ''preload.js''"
  "expand_name ''main'' ''renderer.js'' = ''renderer.js''"
  "expand_name ''main'' ''preload.js'' = ''preload.js''"
  "expand_name ''renderer'' ''[name].json'' = ''renderer.json''"
  by code_simp+

lemma production_bundles:
  assumes "R \<noteq> []" and "\<forall>s \<in> set R. clean_segment s"
    and "main_prod env (webpack_paths (configs_dir R)) = (am, Returns bm)"
    and "renderer_prod env (webpack_paths (configs_dir R)) = (ar, Returns br)"
  shows "bundle_files bm = [clean_path (R @ [''release'', ''app'', ''dist'', ''main'', ''main.js'']),
           clean_path (R @ [''release'', ''app'', ''dist'', ''main'', ''preload.js''])]"
    and "bundle_files br = [clean_path (R @ [''release'', ''app'', ''dist'', ''renderer'', ''renderer.js'']),
           clean_path (R @ [''release'', ''app'', ''dist'', ''renderer'', ''index.html''])]"
  using assms
  by (auto simp: main_prod_def renderer_prod_def bundle_files_def webpack_paths_at expand_names join_name
      simp del: clean_path_snoc split: outcome.splits)

lemma app_main_at:
  assumes "R \<noteq> []" and "\<forall>s \<in> set R. clean_segment s"
  shows "path_join [wp_appPath (webpack_paths (configs_dir R)), app_main]
       = clean_path (R @ [''release'', ''app'', ''dist'', ''main'', ''main.js''])"
proof -
  have "path_join [clean_path (R @ [''release'', ''app'']), ''./dist/main/main.js'']
      = clean_path (R @ [''release'', ''app'', ''dist'', ''main'', ''main.js''])"
    by (rule path_join_below) (use assms in \<open>simp_all add: split_up\<close>)
  then show ?thesis
    using assms by (simp add: webpack_paths_at app_main_def)
qed

lemma releaseDir_at:
  assumes "R \<noteq> []" and "\<forall>s \<in> set R. clean_segment s" and "clean_segment f"
  shows "releaseDir (scripts_dir R) f = clean_path (R @ [''release'', f])"
proof -
  have f: "f \<noteq> []" "CHR ''/'' \<notin> set f" "f \<noteq> ''.''" "f \<noteq> ''..''"
    using assms(3) by (auto simp: clean_segment_def)
  have s: "js_split (''release/'' @ f) ''/'' = [''release'', f]"
    using js_split_join [of "''/''" "CHR ''/''" "[]" "[''release'', f]"] f by simp
  have "last f \<noteq> CHR ''/''"
    using f(1,2) last_in_set [of f] by metis
  then have "path_join [''release'', f] = ''release/'' @ f"
    using f s by (simp add: path_join_def path_normalize_def)
  moreover have "path_join [clean_path R, ''release/'' @ f] = clean_path (R @ [''release'', f])"
    by (rule path_join_below) (use assms s f \<open>last f \<noteq> CHR ''/''\<close> in \<open>simp_all add: norm_names\<close>)
  ultimately show ?thesis
    using up_two(2) [of R "''helpers''" "''scripts''"] assms(1,2)
    by (simp add: releaseDir_def baseDir_def scripts_dir_def del: clean_path_snoc)
qed

lemma builder_shared_fields:
  "bc_app (builder_shared env d) = releaseDir d ''app''"
  "bc_output (builder_shared env d) = releaseDir d ''build''"
  "bc_files (builder_shared env d) = [''dist'', ''package.json'', ''node_modules'']"
  "po_arch (bc_mac (builder_shared env d)) =
     (if macArch env = ''both'' then [''x64'', ''arm64''] else [macArch env])"
  "po_arch (bc_linux (builder_shared env d)) = [''x64'']"
  "po_extraResources (bc_mac (builder_shared env d)) =
     [\<lparr>rs_from = path_join [baseDir d ''binaries''], rs_to = ''.'', rs_filter = [''${arch}'']\<rparr>]"
  "po_extraResources (bc_linux (builder_shared env d)) = po_extraResources (bc_mac (builder_shared env d))"
  by (simp_all add: builder_shared_def Let_def)

section \<open>Properties\<close>

text \<open>
  C35. The program finds what the build makes. When webpack has emitted the files that the two
  production configurations name, the check of the build passes, the script that the application's
  package names is there, and so are, from this script's directory, the preload script and the page
  of the window; and all of them are in the directory \<open>dist\<close> of what electron-builder packs.
\<close>

theorem build_found:
  assumes "R \<noteq> []" and "\<forall>s \<in> set R. clean_segment s" and "env ''NODE_ENV'' = Some ''production''"
    and "wp = webpack_paths (configs_dir R)"
    and "main_prod env wp = (am, Returns bm)" and "renderer_prod env wp = (ar, Returns br)"
    and "\<forall>f \<in> set (bundle_files bm) \<union> set (bundle_files br). emitted f"
    and "main = path_join [wp_appPath wp, app_main]"
    and "pk = \<lparr>pk_isPackaged = True, pk_resourcesPath = res, pk_dirname = path_dirname main\<rparr>"
  shows "check_build_exists emitted wp = Inr () \<and> emitted main
    \<and> emitted (mw_preload (createWindow env pk None))
    \<and> (\<exists>page. mw_url (createWindow env pk None) = ''file://'' @ page \<and> emitted page)
    \<and> bc_app (builder_shared env (scripts_dir R)) = wp_appPath wp
    \<and> ''dist'' \<in> set (bc_files (builder_shared env (scripts_dir R)))
    \<and> (\<forall>f \<in> set (bundle_files bm) \<union> set (bundle_files br). \<exists>r. f = wp_appPath wp @ ''/dist/'' @ r)"
proof -
  note wp = webpack_paths_at [OF assms(1,2)]
  note files = production_bundles [OF assms(1,2) assms(5) [unfolded assms(4)] assms(6) [unfolded assms(4)]]
  let ?dist = "R @ [''release'', ''app'', ''dist'']"
  have main: "main = clean_path (?dist @ [''main'', ''main.js''])"
    using app_main_at [OF assms(1,2)] assms(4,8) by simp
  have dir: "path_dirname main = clean_path (?dist @ [''main''])"
    using path_dirname_clean [of "?dist @ [''main'']" "''main.js''"] assms(2) main by simp
  have emitted: "emitted (clean_path (?dist @ [d, f]))"
    if "(d, f) \<in> {(''main'', ''main.js''), (''main'', ''preload.js''), (''renderer'', ''renderer.js''),
                   (''renderer'', ''index.html'')}" for d f
    using assms(7) that unfolding files by auto
  have "check_build_exists emitted wp = Inr ()"
    using emitted [of "''main''" "''main.js''"] emitted [of "''renderer''" "''renderer.js''"] assms(1,2)
    by (simp add: check_build_exists_def assms(4) wp join_name del: clean_path_snoc)
  moreover have "emitted (mw_preload (createWindow env pk None))"
    using emitted [of "''main''" "''preload.js''"] join_name [of "?dist @ [''main'']" "''preload.js''"] assms(2)
    by (simp add: createWindow_def assms(9) dir del: clean_path_snoc)
  moreover have "mw_url (createWindow env pk None) = ''file://'' @ clean_path (?dist @ [''renderer'', ''index.html''])"
    using path_resolve_renderer [of "?dist @ [''main'']" "''index.html''"] assms(2,3)
    by (simp add: createWindow_def resolveHtmlPath_def assms(9) dir butlast_append del: clean_path_snoc)
  moreover have "bc_app (builder_shared env (scripts_dir R)) = wp_appPath wp"
    by (simp add: builder_shared_fields releaseDir_at [OF assms(1,2)] assms(4) wp)
  moreover have "\<forall>f \<in> set (bundle_files bm) \<union> set (bundle_files br). \<exists>r. f = wp_appPath wp @ ''/dist/'' @ r"
    unfolding files assms(4) wp by (auto simp: clean_path_def)
  moreover have "''dist'' \<in> set (bc_files (builder_shared env (scripts_dir R)))"
    by (simp add: builder_shared_fields)
  ultimately show ?thesis
    using emitted [of "''main''" "''main.js''"] emitted [of "''renderer''" "''index.html''"] main by auto
qed

definition sample_root :: "string list" where
  "sample_root = [''gui'']"

lemma sample_root_clean: "sample_root \<noteq> []" "\<forall>s \<in> set sample_root. clean_segment s"
  by (simp_all add: sample_root_def clean_segment_def)

theorem build_found_witness:
  "check_build_exists (\<lambda>f. f \<in> {''/gui/release/app/dist/main/main.js'', ''/gui/release/app/dist/main/preload.js'',
      ''/gui/release/app/dist/renderer/renderer.js'', ''/gui/release/app/dist/renderer/index.html''})
    (webpack_paths (configs_dir sample_root)) = Inr ()"
proof -
  let ?env = "[''NODE_ENV'' \<mapsto> ''production'']" and ?wp = "webpack_paths (configs_dir sample_root)"
  obtain am bm ar br where prod: "main_prod ?env ?wp = (am, Returns bm)" "renderer_prod ?env ?wp = (ar, Returns br)"
    by (simp add: main_prod_def renderer_prod_def checkNodeEnv_def)
  note files = production_bundles [OF sample_root_clean prod]
  show ?thesis
    by (rule build_found [THEN conjunct1, OF sample_root_clean _ refl prod _ refl refl])
      (simp_all add: files, simp_all add: sample_root_def clean_path_def)
qed

text \<open>
  Development finds what development builds. The preload script that is watched is the one
  that the window loads from the sources; the window's address has the port of the development
  server, the one that was checked to be free; and once the libraries were built, the server does
  not build them again.
\<close>

theorem dev_found:
  assumes "R \<noteq> []" and "\<forall>s \<in> set R. clean_segment s" and "env ''NODE_ENV'' = Some ''development''"
    and "wp = webpack_paths (configs_dir R)"
    and "pk = \<lparr>pk_isPackaged = False, pk_resourcesPath = res, pk_dirname = wp_srcMainPath wp\<rparr>"
    and "check_port_in_use env detectPort = Exits 0" and "detectPort (env_or env ''PORT'' ''1212'') = Some n"
    and "renderer_dll env deps wp = Returns (dll, manifest)"
    and "exists_file (wp_dllPath wp)" and "exists_file (path_join [wp_dllPath wp, expand_name ''renderer'' ''[name].json''])"
  shows "\<exists>b d. preload_dev env wp = Returns b
    \<and> bundle_files b = [mw_preload (createWindow env pk None)]
    \<and> renderer_dev env exists_file False wp = ([], Returns d)
    \<and> bd_port d = Some (js_nat_str n)
    \<and> mw_url (createWindow env pk None) = ''http://localhost:'' @ js_nat_str n @ ''/index.html''"
proof -
  note wp = webpack_paths_at [OF assms(1,2)]
  have env: "check_not_production env = Returns ()"
    using assms(3) by (simp add: check_not_production_def)
  have port: "env_or env ''PORT'' ''1212'' = js_nat_str n"
    using assms(6,7) by (simp add: check_port_in_use_def Let_def split: if_splits)
  have dll: "clean_path (R @ [''helpers'', ''dll'']) = wp_dllPath wp"
    by (simp add: assms(4) wp)
  have names: "\<forall>s \<in> set (R @ [''helpers'', ''dll'']). clean_segment s"
    using assms(2) by simp
  have manifest: "path_resolve [] [wp_dllPath wp, ''renderer.json''] = path_join [wp_dllPath wp, ''renderer.json'']"
    unfolding dll [symmetric]
    by (rule trans [OF path_resolve_below [OF _ names] join_name [OF _ names, symmetric]])
      (use names in \<open>simp_all add: split_plain norm_names\<close>)
  have preload: "mw_preload (createWindow env pk None) = path_join [wp_dllPath wp, ''preload.js'']"
    using up_two(4) [OF assms(1,2), of "''src''" "''main''"] join_name [OF _ names, of "''preload.js''"]
    by (simp add: createWindow_def assms(4,5) wp del: clean_path_snoc)
  have page: "url_pathname ''index.html'' = ''index.html''"
    by code_simp
  have "mw_url (createWindow env pk None) = ''http://localhost:'' @ js_nat_str n @ ''/index.html''"
    using port page assms(3) by (simp add: createWindow_def resolveHtmlPath_def env_or_def)
  then show ?thesis
    using assms(8,9,10) by (simp add: preload_dev_def renderer_dev_def env bundle_files_def expand_names preload
        manifest port Let_def)
qed

theorem dev_found_witness:
  "\<exists>d. renderer_dev [''NODE_ENV'' \<mapsto> ''development''] (\<lambda>f. True) False (webpack_paths (configs_dir sample_root))
     = ([], Returns d) \<and> bd_port d = Some ''1212''"
proof -
  let ?env = "[''NODE_ENV'' \<mapsto> ''development'']" and ?wp = "webpack_paths (configs_dir sample_root)"
  have n: "js_nat_str 1212 = ''1212''"
    by code_simp
  obtain dll manifest where dll: "renderer_dll ?env [''react''] ?wp = Returns (dll, manifest)"
    by (simp add: renderer_dll_def checkNodeEnv_def)
  show ?thesis
    using dev_found [OF sample_root_clean _ refl refl _ _ dll, of "\<lambda>p. Some 1212" 1212 "\<lambda>f. True"] n
    by (auto simp: check_port_in_use_def env_or_def)
qed

lemma eighth_line:
  "l = x @ y \<Longrightarrow> \<exists>u v. js_join sep (a # b # c # d # e # f # g # l # m # ms) = u @ y @ v"
  by (intro exI [of _ "js_join sep [a, b, c, d, e, f, g] @ sep @ x"] exI [of _ "sep @ js_join sep (m # ms)"])
    (simp add: js_join_Cons)

lemma PLIST_program:
  "\<exists>u v. PLIST_CONTENTS pkgPath logs = u @ ''<string>'' @ pkgPath @ ''/bin/anysphered</string>'' @ v"
proof -
  have e: "''    <string>'' @ pkgPath @ ''/bin/anysphered</string>''
      = ''    '' @ ''<string>'' @ pkgPath @ ''/bin/anysphered</string>''"
    by simp
  show ?thesis
    unfolding PLIST_CONTENTS_def by (rule eighth_line [OF e, unfolded append_assoc])
qed



text \<open>
  The icon of a packaged window is looked for in the directory \<open>assets\<close> of the resources, but
  nothing that is packed goes there: the files of the application are three others, and the extra
  resources of both platforms come from the directory \<open>binaries\<close>.
\<close>

lemma icon_not_packaged:
  "mw_icon (createWindow env \<lparr>pk_isPackaged = True, pk_resourcesPath = res, pk_dirname = d\<rparr> None)
     = path_join [path_join [res, ''assets''], ''icon.png'']"
  "''assets'' \<notin> set (bc_files (builder_shared env dir))"
  "\<forall>r \<in> set (po_extraResources (bc_mac (builder_shared env dir)) @ po_extraResources (bc_linux (builder_shared env dir))).
     rs_from r = path_join [baseDir dir ''binaries''] \<and> rs_filter r = [''${arch}'']"
  by (simp_all add: createWindow_def builder_shared_fields)

end
