(* ===== verification/Spec2Isabelle.thy ===== *)
theory Spec2Isabelle imports Menu MainTotal Keyboard Scenarios DaemonWire ContactViews Hooks Build begin

text \<open>
  The graphical client of the Anysphere messenger (\<open>client/gui/src\<close>): an Electron application in
  TypeScript. Its main process starts the daemon, opens windows, shows notifications and gives the
  window one function per remote procedure of the daemon; its renderer is a React application with
  tabs, lists of messages, a compose page, dialogs for adding contacts, a command palette and a side
  bar. The daemon itself and the server behind it are other programs; here they are what answers the
  remote procedures.

  How the program is modelled. Pure functions are functions. A React component is a record of its
  state with one function per callback and effect: the state is passed and returned, and what a
  callback calls outside of the component is a list of effects. A callback is a closure of the render
  that made it; where that matters the captured state \<open>r\<close> and the current state are two arguments. Exceptions are
  the left part of a sum (\<open>js_error\<close>), a missing value is an option, and an element tree is a
  \<open>node\<close> with the click handlers of the code. Promises are given by what they are settled with:
  a method is a pair of the remote calls it makes and its result. Timers and arriving keys are events.

  The theories, in the order of the code's layers.

  \<^item> \<open>Prelude\<close>, \<open>JsString\<close>: arrays, remainders, stable sorting and strings of JavaScript, with
    the lemmas that the components share.
  \<^item> \<open>Schema\<close>: the messages of \<open>daemon/schema/daemon_pb.d.ts\<close> as records and the dates of
    \<open>types.ts\<close>. \<open>Utils\<close>: \<open>renderer/utils.ts\<close> and \<open>AddFriend/utils.ts\<close>.
  \<^item> \<open>Jspb\<close>, \<open>ProtoSchema\<close>: what the generated classes use of google-protobuf, as the parameter
    \<open>jspb\<close> with its documented laws in the locales \<open>jspb_codec\<close> and \<open>jspb_progress\<close>; messages of a
    schema and the reference codec that a schema prescribes. \<open>Wire\<close>: the laws hold of protobuf's own
    encoding in bytes, by which both locales are interpreted.
  \<^item> \<open>PbIdentity\<close>, \<open>PbInvitations\<close>, \<open>PbMessages\<close>, \<open>PbStatus\<close>: the 52 classes of
    \<open>daemon/schema/daemon_pb.js\<close>, all their functions, beside the messages of
    \<open>asphr/schema/daemon.proto\<close>. Each class is shown to follow its message. \<open>PbCodec\<close>: what therefore
    holds of all of them. \<open>PbGrpc\<close>: the service definition of \<open>daemon_grpc_pb.js\<close>.
  \<^item> \<open>Paths\<close>: configuration paths of \<open>main/daemon.ts\<close> and the files of \<open>main/constants.ts\<close>, over
    POSIX \<open>path.join\<close>.
  \<^item> \<open>Daemon\<close>: the class \<open>DaemonImpl\<close> with all its methods, the built-in data, and the stream of
    messages. The specification \<open>perform\<close> refines each method to its one call.
    \<open>DaemonWire\<close> builds the request of each method with the generated setters and follows it, in
    bytes and under its path, to the other side.
  \<^item> \<open>MainProcess\<close>: \<open>main/main.ts\<close>, \<open>main/util.ts\<close>, \<open>main/preload.ts\<close>. Starting the daemon
    refines a script, a list of actions each with a policy for its failure. \<open>Menu\<close>: \<open>main/menu.ts\<close>.
  \<^item> \<open>Dom\<close>: element trees, clicks with bubbling and stopping, keys, and \<open>Modal.tsx\<close>.
  \<^item> \<open>Tabs\<close>: the hook \<open>useTabs\<close> and the tab bar; the locale \<open>tab_store\<close> is what the main window
    relies on.
  \<^item> \<open>ListNav\<close>: moving through rows with dividers, in \<open>SelectableList.tsx\<close> and in
    \<open>CmdKResultHandler.tsx\<close>; the locale \<open>list_nav\<close> is the contract, both are interpretations.
  \<^item> \<open>Messages\<close>, \<open>Compose\<close>, \<open>Widgets\<close>: \<open>MessageList.tsx\<close> and \<open>Read.tsx\<close>; \<open>Write.tsx\<close> and the
    link matchers; \<open>Status.tsx\<close>, \<open>RegisterModal.tsx\<close>, \<open>SideBar.tsx\<close> and \<open>Invitations.tsx\<close>.
  \<^item> \<open>ContactForms\<close>, \<open>AddFriend\<close>, \<open>InPerson\<close>: the dialog for a new contact. The locales
    \<open>name_form\<close> (two names, one derived from the other) and \<open>request_form\<close> (a request whose success
    closes the dialog) are interpreted for all three forms, the second for the rejection too.
  \<^item> \<open>WordList\<close>: the words of the stories, in the order of \<open>SpellCheck.tsx\<close>. \<open>ContactViews\<close>: what
    the pages of the three forms show and offer, and a user who presses and types; the locale
    \<open>shown_form\<close> says that a request goes out only from a page that shows it.
  \<^item> \<open>Hooks\<close>: the throttled value with its clock, the guard against keys that are typed into a field,
    the views of \<open>useKBar\<close>, and the pointer and focus hooks.
  \<^item> \<open>KBarStore\<close>, \<open>KBar\<close>: the command palette. Its actions are objects that refer to each other, in
    a heap; its state machine has events for keys, clicks, texts and timers.
  \<^item> \<open>MainView\<close>: \<open>Main.tsx\<close> and \<open>index.tsx\<close>, which compose everything; \<open>MainTotal\<close>: the window
    under arbitrary events; \<open>Keyboard\<close>: all listeners of the window for one key; \<open>Scenarios\<close>: what a
    user does from beginning to end, through the main process, the pages, the forms and the daemon.

  \<^item> \<open>Build\<close>: the scripts and configurations of \<open>client/gui/helpers\<close>, which bundle and package the
    program, up to what webpack and electron-builder do with them.

  What the lemmas show. Every component has its operations on all branches, errors included. State
  machines have an invariant that every event keeps: \<open>tabs_wf\<close> for the tab bar, \<open>kbar_ok\<close> for the
  palette, \<open>iface_ok\<close> for the forest of actions, \<open>wizard_ok\<close> for the wizard, \<open>main_wf\<close> for the window
  under the events that \<open>main_allowed\<close> names, and \<open>main_typed\<close> under all events. Keyboards reach every item (\<open>list_nav\<close>). What two components promise each
  other is a locale, interpreted on the definitions. Faults of the program are stated as theorems on
  the same definitions. The generated classes are equal to the reference codec of their schema; what
  is proved once of the reference codec (round trips, unknown fields, an end for every input) holds
  of each class, and through the service definition of each call of the interface.

  Bounds and loops. Integers of the program are numbers that stay far below the limit of exact
  doubles and are \<open>int\<close>; times are milliseconds. Loops over arrays are structural recursion, the two
  searches that skip dividers have a measure. Loops that follow references or draw random numbers
  (\<open>climb\<close>, \<open>removeChildren\<close>, \<open>removeLoop\<close>, \<open>collectChildren\<close>, \<open>randomString_loop\<close>) are partial
  functions whose value \<open>None\<close> would be a loop that does not end; that they end is proved from the
  invariant (for \<open>removeLoop\<close> on objects without children only). The loop over the fields of a buffer
  (\<open>field_loop\<close>) is such a function too; it ends whenever the reader moves forward (\<open>jspb_progress\<close>),
  also on a buffer that is not a message. No fuel is used.

  Parameters. What is not in the repository is an argument: the daemon's answers (the record
  \<open>daemonClient\<close>), whether an action of the shell or of the file system succeeds (\<open>system\<close>), the clock,
  random numbers (\<open>unit_source\<close>: from the unit interval), SHA-256 and seedrandom, match-sorter
  (\<open>matcher_ok\<close>: it selects among the given objects), the readers and writers of google-protobuf
  (\<open>jspb\<close>), the channel of grpc-js that carries the bytes, the files that webpack emits, micromark and DOMPurify, the formatting of
  dates, the text of the Lexical editor, and what the regular expressions of the link matchers find.

  Not modelled. Layout, style and animation between key frames, which are the browser's and
  framer-motion's; the configuration of the editors (\<open>Editor.tsx\<close>, \<open>SmallEditor.tsx\<close>);
  the loaders and plugins of webpack and the processes of its development server;
  \<open>AddFriendOld.tsx\<close>, which nothing imports; the stories; and the daemon, the server and the command
  line client, which are programs in other languages.
  React's scheduling is modelled as far as callbacks, effects and their order within one event are
  concerned; \<open>Keyboard\<close> states which callbacks the listeners of one render call, not how React
  interleaves their updates.

  Not proved: that unregistering actions with children ends. The hover state of the tab bar has no
  model, and the window is one machine only up to the state of its pages, which are their own.
\<close>

end
